(* ===== verification/Prelude.thy ===== *)
theory Prelude
  imports Main
begin

text \<open>
  Shared vocabulary of the development.  A Python coroutine that talks to the outside world (the
  database session, the clock, the random source) is a function of type \<open>('s, 'e, 'a) eff\<close>: it takes
  the state \<open>'s\<close> of that world and gives either an exception \<open>'e\<close> or a result \<open>'a\<close>, together with the
  world it leaves behind.  The state is kept when an exception is raised, as it is in Python: only an
  explicit rollback undoes an effect.  The theory gives the combinators for sequencing, raising and
  \<open>try/except\<close>, a Hoare triple with a normal and an exceptional postcondition, the preservation
  calculus used for atomicity arguments, sums over finite maps (the total of a table column) and the
  few Python string functions the services use.
\<close>

section \<open>Coroutines with exceptions\<close>

type_synonym ('s, 'e, 'a) eff = "'s \<Rightarrow> ('e + 'a) \<times> 's"

named_theorems eff_simps "run the combinators on a state"
named_theorems keep_intros "introduction rules of the preservation calculus"

definition ret :: "'a \<Rightarrow> ('s, 'e, 'a) eff" where
  "ret x = (\<lambda>s. (Inr x, s))"

definition raise :: "'e \<Rightarrow> ('s, 'e, 'a) eff" where
  "raise e = (\<lambda>s. (Inl e, s))"

definition bindE :: "('s, 'e, 'a) eff \<Rightarrow> ('a \<Rightarrow> ('s, 'e, 'b) eff) \<Rightarrow> ('s, 'e, 'b) eff" where
  "bindE m f = (\<lambda>s. case m s of (Inl e, s') \<Rightarrow> (Inl e, s') | (Inr x, s') \<Rightarrow> f x s')"

text \<open>\<open>tryE m h\<close> is \<open>try: m except Exception as e: h(e)\<close>.\<close>

definition tryE :: "('s, 'e, 'a) eff \<Rightarrow> ('e \<Rightarrow> ('s, 'f, 'a) eff) \<Rightarrow> ('s, 'f, 'a) eff" where
  "tryE m h = (\<lambda>s. case m s of (Inl e, s') \<Rightarrow> h e s' | (Inr x, s') \<Rightarrow> (Inr x, s'))"

text \<open>A synchronous domain call that may raise, run inside a coroutine.\<close>

definition liftE :: "'e + 'a \<Rightarrow> ('s, 'e, 'a) eff" where
  "liftE r = (\<lambda>s. (r, s))"

primrec forE :: "('a \<Rightarrow> ('s, 'e, unit) eff) \<Rightarrow> 'a list \<Rightarrow> ('s, 'e, unit) eff" where
  "forE f [] = ret ()"
| "forE f (x # xs) = bindE (f x) (\<lambda>_. forE f xs)"

text \<open>A loop that appends one result per element to a list.\<close>

primrec mapE :: "('a \<Rightarrow> ('s, 'e, 'b) eff) \<Rightarrow> 'a list \<Rightarrow> ('s, 'e, 'b list) eff" where
  "mapE f [] = ret []"
| "mapE f (x # xs) = bindE (f x) (\<lambda>y. bindE (mapE f xs) (\<lambda>ys. ret (y # ys)))"

text \<open>
  A handler that reads a local variable sees the value it had when the exception was raised:
  \<open>with_local v m\<close> attaches the value \<open>v\<close> to the exceptions of \<open>m\<close>.
\<close>

definition with_local :: "'v \<Rightarrow> ('s, 'e, 'a) eff \<Rightarrow> ('s, 'e \<times> 'v, 'a) eff" where
  "with_local v m = tryE m (\<lambda>e. raise (e, v))"

text \<open>Sequencing of synchronous code that may raise.\<close>

definition bindS :: "'e + 'a \<Rightarrow> ('a \<Rightarrow> 'e + 'b) \<Rightarrow> 'e + 'b" where
  "bindS r f = (case r of Inl e \<Rightarrow> Inl e | Inr x \<Rightarrow> f x)"

lemma bindS_simps [simp]: "bindS (Inl e) f = Inl e" "bindS (Inr x) f = f x"
  by (simp_all add: bindS_def)

lemma bindS_eq_Inr_iff: "bindS r f = Inr y \<longleftrightarrow> (\<exists>x. r = Inr x \<and> f x = Inr y)"
  by (cases r) auto

lemma ret_run [eff_simps]: "ret x s = (Inr x, s)"
  by (simp add: ret_def)

lemma raise_run [eff_simps]: "raise e s = (Inl e, s)"
  by (simp add: raise_def)

lemma liftE_run [eff_simps]: "liftE r s = (r, s)"
  by (simp add: liftE_def)

lemma bindE_run_Inr [eff_simps]: "m s = (Inr x, s') \<Longrightarrow> bindE m f s = f x s'"
  by (simp add: bindE_def)

lemma bindE_run_Inl [eff_simps]: "m s = (Inl e, s') \<Longrightarrow> bindE m f s = (Inl e, s')"
  by (simp add: bindE_def)

lemma tryE_run_Inr [eff_simps]: "m s = (Inr x, s') \<Longrightarrow> tryE m h s = (Inr x, s')"
  by (simp add: tryE_def)

lemma tryE_run_Inl [eff_simps]: "m s = (Inl e, s') \<Longrightarrow> tryE m h s = h e s'"
  by (simp add: tryE_def)

lemma bindE_then_raise:
  "m s = (Inr x, t) \<Longrightarrow> p t = (Inr y, u) \<Longrightarrow> bindE m (\<lambda>_. bindE p (\<lambda>_. raise e)) s = (Inl e, u)"
  by (simp add: bindE_def raise_def)

lemma bindE_eq_Inr_iff:
  "bindE m f s = (Inr y, s') \<longleftrightarrow> (\<exists>x t. m s = (Inr x, t) \<and> f x t = (Inr y, s'))"
  by (auto simp: bindE_def split: prod.splits sum.splits)

lemma bindE_eq_Inl_iff:
  "bindE m f s = (Inl e, s') \<longleftrightarrow>
     m s = (Inl e, s') \<or> (\<exists>x t. m s = (Inr x, t) \<and> f x t = (Inl e, s'))"
  by (auto simp: bindE_def split: prod.splits sum.splits)

lemma tryE_eq_Inr_iff:
  "tryE m h s = (Inr y, s') \<longleftrightarrow>
     m s = (Inr y, s') \<or> (\<exists>e t. m s = (Inl e, t) \<and> h e t = (Inr y, s'))"
  by (auto simp: tryE_def split: prod.splits sum.splits)

lemma tryE_eq_Inl_iff:
  "tryE m h s = (Inl e, s') \<longleftrightarrow> (\<exists>e' t. m s = (Inl e', t) \<and> h e' t = (Inl e, s'))"
  by (auto simp: tryE_def split: prod.splits sum.splits)

lemmas eff_inv = bindE_eq_Inr_iff bindE_eq_Inl_iff tryE_eq_Inr_iff tryE_eq_Inl_iff

lemma bindE_assoc: "bindE (bindE m f) g = bindE m (\<lambda>x. bindE (f x) g)"
  by (rule ext) (simp add: bindE_def split: prod.splits sum.splits)

lemma bindE_ret [simp]: "bindE (ret x) f = f x"
  by (simp add: bindE_def ret_def)

lemma bindE_liftE_Inr [simp]: "bindE (liftE (Inr x)) f = f x"
  by (simp add: bindE_def liftE_def)

lemma bindE_liftE_Inl [simp]: "bindE (liftE (Inl e)) f = raise e"
  by (simp add: bindE_def liftE_def raise_def)

section \<open>Hoare triples\<close>

text \<open>
  \<open>triple P m Q E\<close>: from a state satisfying \<open>P\<close>, the coroutine ends normally with a result and a
  state in \<open>Q\<close> or raises with an exception and a state in \<open>E\<close>.  Every coroutine ends, so the triple
  is one of total correctness.
\<close>

definition triple ::
  "('s \<Rightarrow> bool) \<Rightarrow> ('s, 'e, 'a) eff \<Rightarrow> ('a \<Rightarrow> 's \<Rightarrow> bool) \<Rightarrow> ('e \<Rightarrow> 's \<Rightarrow> bool) \<Rightarrow> bool" where
  "triple P m Q E \<longleftrightarrow>
     (\<forall>s. P s \<longrightarrow> (case m s of (Inr x, s') \<Rightarrow> Q x s' | (Inl e, s') \<Rightarrow> E e s'))"

lemma triple_ret: "(\<And>s. P s \<Longrightarrow> Q x s) \<Longrightarrow> triple P (ret x) Q E"
  by (simp add: triple_def ret_def)

lemma triple_raise: "(\<And>s. P s \<Longrightarrow> E e s) \<Longrightarrow> triple P (raise e) Q E"
  by (simp add: triple_def raise_def)

lemma triple_bind:
  "triple P m R E \<Longrightarrow> (\<And>x. triple (R x) (f x) Q E) \<Longrightarrow> triple P (bindE m f) Q E"
  by (fastforce simp: triple_def bindE_def split: prod.splits sum.splits)

lemma triple_try:
  "triple P m Q R \<Longrightarrow> (\<And>e. triple (R e) (h e) Q E) \<Longrightarrow> triple P (tryE m h) Q E"
  by (fastforce simp: triple_def tryE_def split: prod.splits sum.splits)

section \<open>Preservation of an observation\<close>

text \<open>
  \<open>keeps g m\<close>: whatever happens in \<open>m\<close>, normal return or exception, the observation \<open>g\<close> of the world
  is the same afterwards.  It is used with \<open>g\<close> the committed content of the database.
\<close>

definition keeps :: "('s \<Rightarrow> 'o) \<Rightarrow> ('s, 'e, 'a) eff \<Rightarrow> bool" where
  "keeps g m \<longleftrightarrow> (\<forall>s. g (snd (m s)) = g s)"

lemma keepsD: "keeps g m \<Longrightarrow> m s = (r, s') \<Longrightarrow> g s' = g s"
  unfolding keeps_def by (metis snd_conv)

lemma keepsD_snd: "keeps g m \<Longrightarrow> g (snd (m s)) = g s"
  unfolding keeps_def by blast

lemma keeps_ret [keep_intros]: "keeps g (ret x)"
  by (simp add: keeps_def ret_def)

lemma keeps_raise [keep_intros]: "keeps g (raise e)"
  by (simp add: keeps_def raise_def)

lemma keeps_liftE [keep_intros]: "keeps g (liftE r)"
  by (simp add: keeps_def liftE_def)

lemma keeps_bindE [keep_intros]:
  "keeps g m \<Longrightarrow> (\<And>x. keeps g (f x)) \<Longrightarrow> keeps g (bindE m f)"
  unfolding keeps_def bindE_def by (auto split: prod.splits sum.splits) (metis snd_conv)+

lemma keeps_tryE [keep_intros]:
  "keeps g m \<Longrightarrow> (\<And>e. keeps g (h e)) \<Longrightarrow> keeps g (tryE m h)"
  unfolding keeps_def tryE_def by (auto split: prod.splits sum.splits) (metis snd_conv)+

lemma keeps_forE [keep_intros]: "(\<And>x. keeps g (f x)) \<Longrightarrow> keeps g (forE f xs)"
  by (induction xs) (auto intro: keeps_ret keeps_bindE)

lemma keeps_mapE [keep_intros]: "(\<And>x. keeps g (f x)) \<Longrightarrow> keeps g (mapE f xs)"
  by (induction xs) (auto intro: keeps_ret keeps_bindE)

lemma keeps_if [keep_intros]:
  "(c \<Longrightarrow> keeps g m) \<Longrightarrow> (\<not> c \<Longrightarrow> keeps g n) \<Longrightarrow> keeps g (if c then m else n)"
  by simp

lemma keeps_case_option [keep_intros]:
  "keeps g n \<Longrightarrow> (\<And>x. keeps g (f x)) \<Longrightarrow> keeps g (case v of None \<Rightarrow> n | Some x \<Rightarrow> f x)"
  by (cases v) auto

lemma keeps_case_list [keep_intros]:
  "keeps g a \<Longrightarrow> (\<And>x xs. keeps g (f x xs)) \<Longrightarrow> keeps g (case v of [] \<Rightarrow> a | x # xs \<Rightarrow> f x xs)"
  by (cases v) simp_all

lemma keeps_case_prod [keep_intros]:
  "(\<And>x y. keeps g (f x y)) \<Longrightarrow> keeps g (case v of (x, y) \<Rightarrow> f x y)"
  by (cases v) auto

lemma keeps_Let [keep_intros]: "(\<And>x. keeps g (f x)) \<Longrightarrow> keeps g (let x = v in f x)"
  by simp

section \<open>Two processes side by side\<close>

text \<open>A coroutine of one process, run in the joint state of two.\<close>

definition on_fst :: "('s, 'e, 'a) eff \<Rightarrow> ('s \<times> 't, 'e, 'a) eff" where
  "on_fst m p = (case m (fst p) of (r, s') \<Rightarrow> (r, (s', snd p)))"

lemma on_fst_run: "on_fst m p = (r, p') \<longleftrightarrow> m (fst p) = (r, fst p') \<and> snd p' = snd p"
  by (cases p') (auto simp: on_fst_def split: prod.splits)

lemma on_fst_snd [simp]: "fst (snd (on_fst m p)) = snd (m (fst p))" "snd (snd (on_fst m p)) = snd p" "fst (on_fst m p) = fst (m (fst p))"
  by (simp_all add: on_fst_def split: prod.splits)

lemma on_fst_bind: "bindE (on_fst m) (\<lambda>x. ret (f x)) = on_fst (bindE m (\<lambda>x. ret (f x)))"
  by (rule ext) (auto simp: on_fst_def bindE_def ret_def split: prod.splits sum.splits)

lemma on_fst_exists: "\<exists>x s'. m (fst p) = (Inr x, s') \<Longrightarrow> \<exists>x p'. on_fst m p = (Inr x, p')"
  by (auto simp: on_fst_def)

lemma on_fst_exists1: "\<exists>s'. m (fst p) = (Inr x, s') \<Longrightarrow> \<exists>p'. on_fst m p = (Inr x, p')"
  by (auto simp: on_fst_def)

lemma on_fst_keeps: "keeps snd (on_fst m)"
  by (simp add: keeps_def)

section \<open>Totals over finite maps\<close>

definition msum :: "('r \<Rightarrow> int) \<Rightarrow> ('k \<rightharpoonup> 'r) \<Rightarrow> int" where
  "msum f m = (\<Sum>k\<in>dom m. f (the (m k)))"

lemma msum_empty [simp]: "msum f Map.empty = 0"
  by (simp add: msum_def)

lemma msum_insert:
  assumes "finite (dom m)" and "m k = None"
  shows "msum f (m(k \<mapsto> r)) = msum f m + f r"
proof -
  have "k \<notin> dom m" using assms(2) by auto
  then have "(\<Sum>j\<in>dom m. f (the ((m(k \<mapsto> r)) j))) = msum f m"
    unfolding msum_def by (intro sum.cong) auto
  then show ?thesis
    using assms(1) \<open>k \<notin> dom m\<close> by (simp add: msum_def)
qed

lemma msum_remove:
  assumes "finite (dom m)" and "m k = Some r"
  shows "msum f (m(k := None)) = msum f m - f r"
proof -
  have "msum f m = f (the (m k)) + (\<Sum>j\<in>dom m - {k}. f (the (m j)))"
    unfolding msum_def using assms by (intro sum.remove) auto
  moreover have "msum f (m(k := None)) = (\<Sum>j\<in>dom m - {k}. f (the (m j)))"
    unfolding msum_def by (intro sum.cong) auto
  ultimately show ?thesis using assms(2) by simp
qed

lemma msum_update:
  assumes "finite (dom m)" and "m k = Some r"
  shows "msum f (m(k \<mapsto> r')) = msum f m - f r + f r'"
proof -
  have "msum f (m(k := None, k \<mapsto> r')) = msum f (m(k := None)) + f r'"
    by (rule msum_insert) (use assms(1) in auto)
  then show ?thesis using msum_remove [OF assms, of f] by simp
qed

lemma msum_nonneg: "(\<And>k r. m k = Some r \<Longrightarrow> 0 \<le> f r) \<Longrightarrow> 0 \<le> msum f m"
  unfolding msum_def by (intro sum_nonneg) auto

section \<open>Python strings\<close>

text \<open>
  A Python \<open>str\<close> is the \<open>string\<close> of its code points, which range over Latin-1 here; the payment adapter,
  whose text is encoded before it is used, takes a \<open>string\<close> as the UTF-8 bytes of a \<open>str\<close>.  Truth of a
  string is non-emptiness: \<open>x or y\<close> on strings is \<open>py_or\<close>.
\<close>

definition py_or :: "string \<Rightarrow> string \<Rightarrow> string" where
  "py_or x y = (if x \<noteq> [] then x else y)"

fun show_nat :: "nat \<Rightarrow> string" where
  "show_nat n = (if n < 10 then [char_of (48 + n)] else show_nat (n div 10) @ [char_of (48 + n mod 10)])"

declare show_nat.simps [simp del]

definition show_int :: "int \<Rightarrow> string" where
  "show_int i = (if i < 0 then ''-'' @ show_nat (nat (- i)) else show_nat (nat i))"

text \<open>\<open>str.lower\<close> and \<open>str.upper\<close> on the ASCII range, the only letters these services compare.\<close>

definition lower_char :: "char \<Rightarrow> char" where
  "lower_char c = (let n = of_char c :: nat in if 65 \<le> n \<and> n \<le> 90 then char_of (n + 32) else c)"

definition upper_char :: "char \<Rightarrow> char" where
  "upper_char c = (let n = of_char c :: nat in if 97 \<le> n \<and> n \<le> 122 then char_of (n - 32) else c)"

definition py_lower :: "string \<Rightarrow> string" where
  "py_lower = map lower_char"

definition py_upper :: "string \<Rightarrow> string" where
  "py_upper = map upper_char"

lemma show_nat_nonempty [simp]: "show_nat n \<noteq> []"
  by (subst show_nat.simps) simp

text \<open>White space as \<open>str.strip\<close> removes it, in the Latin-1 range the strings of the model have.\<close>

definition is_space :: "char \<Rightarrow> bool" where
  "is_space c \<longleftrightarrow> (let n = (of_char c :: nat) in n = 32 \<or> (9 \<le> n \<and> n \<le> 13) \<or> (28 \<le> n \<and> n \<le> 31) \<or> n = 133 \<or> n = 160)"

definition py_strip :: "string \<Rightarrow> string" where
  "py_strip s = rev (dropWhile is_space (rev (dropWhile is_space s)))"

lemma py_strip_id: "(\<And>c. c \<in> set s \<Longrightarrow> \<not> is_space c) \<Longrightarrow> py_strip s = s"
proof -
  assume ns: "\<And>c. c \<in> set s \<Longrightarrow> \<not> is_space c"
  have "dropWhile is_space xs = xs" if "set xs \<subseteq> set s" for xs
    using that ns by (cases xs) auto
  then show ?thesis by (simp add: py_strip_def)
qed

lemma dropWhile_idem: "dropWhile P (dropWhile P xs) = dropWhile P xs"
  by (induction xs) auto

lemma py_strip_strip: "py_strip (py_strip s) = py_strip s"
proof -
  define t where "t = dropWhile is_space s"
  define p where "p = rev (dropWhile is_space (rev t))"
  have t: "t = p @ rev (takeWhile is_space (rev t))"
    unfolding p_def by (metis rev_append rev_rev_ident takeWhile_dropWhile_id)
  have "dropWhile is_space p = p"
  proof (cases p)
    case (Cons c cs)
    then have "t \<noteq> []" "hd t = c" using t by (metis append_Cons list.distinct(1), metis append_Cons list.sel(1))
    then have "\<not> is_space c" using hd_dropWhile [of is_space s] unfolding t_def by simp
    with Cons show ?thesis by simp
  qed simp
  then have "py_strip p = p" by (simp add: py_strip_def p_def dropWhile_idem)
  then show ?thesis by (simp add: py_strip_def [of s] p_def t_def)
qed

end
