(* ===== verification/Py_Float.thy ===== *)
theory Py_Float
  imports Prelude
begin

text \<open>
  Python's \<open>float\<close> (IEEE 754 binary64) as far as the finance code uses it: the product of an \<open>int\<close>
  and a \<open>float\<close>, and the built-in \<open>round\<close>.  A finite double is a dyadic number, kept as a mantissa and
  an exponent; products are computed exactly and then rounded to 53 bits, ties to even, as the
  hardware does; \<open>round\<close> without digits gives an \<open>int\<close>, ties to even.  The sign of zero is not kept
  (\<open>round\<close> forgets it).
\<close>

datatype py_float = Fin int int | PInf | NInf | NaN

datatype float_error = IntTooLarge | FloatInfinity | FloatNaN

text \<open>\<open>rne m k\<close> is \<open>m / 2\<^sup>k\<close> rounded to the nearest integer, ties to even.\<close>

definition rne :: "int \<Rightarrow> nat \<Rightarrow> int" where
  "rne m k =
     (let q = m div 2 ^ k; r = m mod 2 ^ k in
      if 2 * r < 2 ^ k then q
      else if 2 * r > 2 ^ k then q + 1
      else if even q then q else q + 1)"

fun nbits :: "nat \<Rightarrow> nat" where
  "nbits n = (if n = 0 then 0 else Suc (nbits (n div 2)))"

declare nbits.simps [simp del]

definition round_double :: "int \<Rightarrow> int \<Rightarrow> py_float" where
  "round_double m e =
     (let d = max (int (nbits (nat \<bar>m\<bar>)) - 53) (- 1074 - e);
          m' = (if d > 0 then rne m (nat d) else m);
          e' = (if d > 0 then e + d else e)
      in if m' \<noteq> 0 \<and> int (nbits (nat \<bar>m'\<bar>)) + e' > 1024
         then (if m > 0 then PInf else NInf)
         else Fin m' e')"

fun float_of_int :: "int \<Rightarrow> float_error + py_float" where
  "float_of_int i = (case round_double i 0 of Fin m e \<Rightarrow> Inr (Fin m e) | _ \<Rightarrow> Inl IntTooLarge)"

fun float_mul :: "py_float \<Rightarrow> py_float \<Rightarrow> py_float" where
  "float_mul (Fin a e) (Fin b f) = round_double (a * b) (e + f)"
| "float_mul NaN _ = NaN"
| "float_mul _ NaN = NaN"
| "float_mul (Fin a e) PInf = (if a > 0 then PInf else if a < 0 then NInf else NaN)"
| "float_mul (Fin a e) NInf = (if a > 0 then NInf else if a < 0 then PInf else NaN)"
| "float_mul PInf (Fin b f) = (if b > 0 then PInf else if b < 0 then NInf else NaN)"
| "float_mul NInf (Fin b f) = (if b > 0 then NInf else if b < 0 then PInf else NaN)"
| "float_mul PInf PInf = PInf"
| "float_mul NInf NInf = PInf"
| "float_mul PInf NInf = NInf"
| "float_mul NInf PInf = NInf"

fun py_round :: "py_float \<Rightarrow> float_error + int" where
  "py_round (Fin m e) = Inr (if e \<ge> 0 then m * 2 ^ nat e else rne m (nat (- e)))"
| "py_round NaN = Inl FloatNaN"
| "py_round _ = Inl FloatInfinity"

definition is_double :: "py_float \<Rightarrow> bool" where
  "is_double x = (case x of Fin m e \<Rightarrow> \<bar>m\<bar> < 2 ^ 53 \<and> - 1074 \<le> e \<and> e \<le> 971 | _ \<Rightarrow> True)"

text \<open>The value of a finite double lies between 0 and 1.\<close>

fun in_unit :: "py_float \<Rightarrow> bool" where
  "in_unit (Fin m e) = (0 \<le> m \<and> (if e \<ge> 0 then m * 2 ^ nat e \<le> 1 else m \<le> 2 ^ nat (- e)))"
| "in_unit _ = False"

section \<open>Rounding\<close>

lemma rne_le: "m \<le> b * 2 ^ k \<Longrightarrow> rne m k \<le> b"
proof -
  assume le: "m \<le> b * 2 ^ k"
  have qr: "m = m div 2 ^ k * 2 ^ k + m mod 2 ^ k" by (simp only: div_mult_mod_eq)
  have r: "0 \<le> m mod 2 ^ k" by simp
  have "m div 2 ^ k \<le> b * 2 ^ k div 2 ^ k" using le by (rule zdiv_mono1) simp
  then have q: "m div 2 ^ k \<le> b" by simp
  show ?thesis
  proof (cases "m div 2 ^ k = b")
    case True
    have "m mod 2 ^ k = 0" using qr [unfolded True] le r by linarith
    with True show ?thesis by (simp add: rne_def)
  next
    case False
    with q show ?thesis by (auto simp: rne_def Let_def)
  qed
qed

lemma rne_ge: "b * 2 ^ k \<le> m \<Longrightarrow> b \<le> rne m k"
proof -
  assume "b * 2 ^ k \<le> m"
  then have "b * 2 ^ k div 2 ^ k \<le> m div 2 ^ k" by (rule zdiv_mono1) simp
  then show ?thesis by (auto simp: rne_def Let_def)
qed

lemma rne_nonneg: "0 \<le> m \<Longrightarrow> 0 \<le> rne m k"
  using rne_ge [of 0 k m] by simp

text \<open>The result is a nearest integer: it misses \<open>m / 2\<^sup>k\<close> by at most one half.\<close>

lemma rne_nearest: "2 * \<bar>rne m k * 2 ^ k - m\<bar> \<le> 2 ^ k"
proof -
  define q r P where "q = m div 2 ^ k" and "r = m mod 2 ^ k" and "P = (2::int) ^ k"
  have m: "m = q * P + r" by (simp only: q_def r_def P_def div_mult_mod_eq)
  have r: "0 \<le> r" "r < P" by (simp_all add: r_def P_def)
  have "rne m k = q \<and> 2 * r \<le> P \<or> rne m k = q + 1 \<and> P \<le> 2 * r"
    by (auto simp: rne_def Let_def q_def r_def P_def)
  then have "2 * \<bar>rne m k * P - m\<bar> \<le> P"
    using m r by (auto simp: distrib_right)
  then show ?thesis by (simp add: P_def)
qed

lemma rne_0 [simp]: "rne m 0 = m"
  by (simp add: rne_def)

section \<open>Bit lengths\<close>

lemma nbits_0 [simp]: "nbits 0 = 0"
  by (simp add: nbits.simps)

lemma nbits_pos: "n \<noteq> 0 \<Longrightarrow> nbits n = Suc (nbits (n div 2))"
  by (simp add: nbits.simps [of n])

lemma nbits_le_iff: "nbits n \<le> k \<longleftrightarrow> n < 2 ^ k"
proof (induction n arbitrary: k rule: nbits.induct)
  case (1 n)
  show ?case
  proof (cases "n = 0")
    case False
    note n = False
    show ?thesis
    proof (cases k)
      case 0
      with n show ?thesis by (simp add: nbits_pos)
    next
      case (Suc j)
      have "n div 2 < 2 ^ j \<longleftrightarrow> n < 2 ^ k" using Suc by auto
      with "1.IH" [OF n, of j] n Suc show ?thesis by (simp add: nbits_pos)
    qed
  qed simp
qed

lemma nbits_int_le: "0 \<le> m \<Longrightarrow> m < 2 ^ k \<Longrightarrow> nbits (nat \<bar>m\<bar>) \<le> k"
  by (simp add: nbits_le_iff nat_less_iff)

lemma nbits_int_gt: "k < nbits (nat \<bar>m\<bar>) \<Longrightarrow> 0 \<le> m \<Longrightarrow> 2 ^ k \<le> m"
  by (metis nbits_int_le linorder_not_less)

section \<open>The product of a coin amount and a rate\<close>

text \<open>Integers of up to 53 bits are doubles.\<close>

lemma float_of_int_exact:
  assumes "\<bar>n\<bar> < 2 ^ 53"
  shows "float_of_int n = Inr (Fin n 0)"
proof -
  have "nat \<bar>n\<bar> < 2 ^ 53" using assms by simp
  then have "nbits (nat \<bar>n\<bar>) \<le> 53" by (simp only: nbits_le_iff)
  then show ?thesis by (simp add: round_double_def Let_def)
qed

lemma float_of_small_int:
  assumes "0 \<le> a" and "a < 2 ^ 31"
  shows "float_of_int a = Inr (Fin a 0)"
  using assms by (intro float_of_int_exact) simp

lemma round_double_bounds:
  assumes a: "0 \<le> a" "a < 2 ^ 31" and p: "0 \<le> p"
    and e: "- 1074 \<le> e" "e < 0" and le: "p \<le> a * 2 ^ nat (- e)"
  shows "\<exists>m' e'. round_double p e = Fin m' e' \<and> e' < 0 \<and> 0 \<le> m' \<and> m' \<le> a * 2 ^ nat (- e')"
proof -
  define d where "d = max (int (nbits (nat \<bar>p\<bar>)) - 53) (- 1074 - e)"
  define m' where "m' = (if d > 0 then rne p (nat d) else p)"
  define e' where "e' = (if d > 0 then e + d else e)"
  have "e' < 0 \<and> 0 \<le> m' \<and> m' \<le> a * 2 ^ nat (- e')"
  proof (cases "d > 0")
    case True
    with e have d: "d = int (nbits (nat \<bar>p\<bar>)) - 53" by (auto simp: d_def)
    with True have "52 + nat d < nbits (nat \<bar>p\<bar>)" by linarith
    then have "2 ^ (52 + nat d) \<le> p" using p by (rule nbits_int_gt)
    also note le
    also have "a * 2 ^ nat (- e) < 2 ^ 31 * 2 ^ nat (- e)" using a by simp
    also have "\<dots> = (2::int) ^ (31 + nat (- e))" by (simp add: power_add)
    finally have "52 + nat d < 31 + nat (- e)" by simp
    then have neg: "e + d < 0" using True by linarith
    have "nat (- e) = nat (- (e + d)) + nat d" using True neg by linarith
    then have "p \<le> a * 2 ^ nat (- (e + d)) * 2 ^ nat d" using le by (simp add: power_add mult.assoc)
    then have "rne p (nat d) \<le> a * 2 ^ nat (- (e + d))" by (rule rne_le)
    with True neg p show ?thesis by (simp add: m'_def e'_def rne_nonneg)
  next
    case False
    with e p le show ?thesis by (simp add: m'_def e'_def)
  qed
  moreover have "a * 2 ^ nat (- e') < 2 ^ 31 * 2 ^ nat (- e')" using a by simp
  ultimately have bnd: "e' < 0" "0 \<le> m'" "m' \<le> a * 2 ^ nat (- e')" "m' < 2 ^ (31 + nat (- e'))"
    by (simp_all only: power_add) linarith+
  then have "nbits (nat \<bar>m'\<bar>) \<le> 31 + nat (- e')" by (intro nbits_int_le) auto
  then have "\<not> (int (nbits (nat \<bar>m'\<bar>)) + e' > 1024)" using bnd by linarith
  then have "round_double p e = Fin m' e'"
    by (simp add: round_double_def Let_def d_def [symmetric] m'_def e'_def)
  with bnd show ?thesis by blast
qed

lemma round_mul_bounds:
  assumes a: "0 \<le> a" "a < 2 ^ 31" and r: "is_double (Fin m e)" "in_unit (Fin m e)"
  shows "\<exists>c. py_round (float_mul (Fin a 0) (Fin m e)) = Inr c \<and> 0 \<le> c \<and> c \<le> a"
proof (cases "e \<ge> 0")
  case True
  with r have "m = 0 \<or> (m = 1 \<and> e = 0)"
  proof -
    have "m * 2 ^ nat e \<le> 1" "0 \<le> m" using r True by auto
    moreover have "(1::int) \<le> 2 ^ nat e" by simp
    ultimately have "m \<le> 1" using mult_left_mono [of 1 "2 ^ nat e" m] by linarith
    then consider "m = 0" | "m = 1" using \<open>0 \<le> m\<close> by linarith
    then show ?thesis
    proof cases
      case 2
      then have "(2::int) ^ nat e \<le> 2 ^ 0" using \<open>m * 2 ^ nat e \<le> 1\<close> by simp
      then have "nat e \<le> 0" by (subst (asm) power_increasing_iff) auto
      with 2 True show ?thesis by simp
    qed simp
  qed
  then show ?thesis
  proof
    assume "m = 0"
    with True show ?thesis using a by (simp add: round_double_def Let_def)
  next
    assume "m = 1 \<and> e = 0"
    moreover have "round_double a 0 = Fin a 0" using float_of_small_int [OF a] by (simp split: py_float.splits)
    ultimately show ?thesis using a by simp
  qed
next
  case False
  then have e: "- 1074 \<le> e" "e < 0" "0 \<le> m" "m \<le> 2 ^ nat (- e)"
    using r by (auto simp: is_double_def)
  then have le: "a * m \<le> a * 2 ^ nat (- e)" using a by (intro mult_left_mono) auto
  obtain m' e' where rd: "round_double (a * m) e = Fin m' e'" "e' < 0" "0 \<le> m'" "m' \<le> a * 2 ^ nat (- e')"
    using round_double_bounds [OF a _ e(1,2) le] a e(3) by auto
  then show ?thesis using rne_le [of m' a "nat (- e')"] rne_nonneg [of m'] by simp
qed

end
