(* ===== verification/Finance_Domain.thy ===== *)
theory Finance_Domain
  imports Py_Float
begin

text \<open>
  The domain layer of the finance service: its exceptions (\<open>errors.py\<close>), domain events
  (\<open>events.py\<close>), the \<open>Money\<close> value object (\<open>vo.py\<close>), the exchange and commission services
  (\<open>service.py\<close>) and the three aggregates \<open>Wallet\<close>, \<open>Escrow\<close> and \<open>Transaction\<close>.  A method that
  mutates its object and may raise is a function from the object to an exception or the new object.
\<close>

section \<open>Exceptions\<close>

text \<open>
  The domain errors, and the exceptions of Python and of the database driver that the code can meet:
  \<open>DBAPIError\<close> stands for whatever the driver raises, with its message.
\<close>

datatype exn =
    InsufficientBalanceError string int int
  | InsufficientFrozenBalanceError string int int
  | InvalidAmountError int
  | WalletNotFoundError string
  | WalletAlreadyExistsError string
  | EscrowNotFoundError string
  | EscrowAlreadyExistsError string
  | InvalidEscrowStatusTransitionError string string
  | PyOverflowError string
  | PyValueError string
  | PyTypeError string
  | DBAPIError string

fun is_DomainError :: "exn \<Rightarrow> bool" where
  "is_DomainError (PyOverflowError _) = False"
| "is_DomainError (PyValueError _) = False"
| "is_DomainError (PyTypeError _) = False"
| "is_DomainError (DBAPIError _) = False"
| "is_DomainError _ = True"

text \<open>\<open>str(e)\<close>.\<close>

fun exn_str :: "exn \<Rightarrow> string" where
  "exn_str (InsufficientBalanceError wallet_id required available) =
     ''[INV-F02] Insufficient available balance in wallet '' @ wallet_id @ ''. Required: '' @
     show_int required @ '', Available: '' @ show_int available @ ''.''"
| "exn_str (InsufficientFrozenBalanceError wallet_id required frozen) =
     ''[INV-F03] Insufficient frozen balance in wallet '' @ wallet_id @ ''. Required: '' @
     show_int required @ '', Frozen: '' @ show_int frozen @ ''.''"
| "exn_str (InvalidAmountError amount) =
     ''Amount must be greater than zero. Got: '' @ show_int amount @ ''.''"
| "exn_str (WalletNotFoundError identifier) = ''Wallet not found for '' @ identifier @ ''.''"
| "exn_str (WalletAlreadyExistsError user_id) =
     ''Wallet already exists for user '' @ user_id @ ''.''"
| "exn_str (EscrowNotFoundError booking_id) = ''Escrow not found for booking '' @ booking_id @ ''.''"
| "exn_str (EscrowAlreadyExistsError booking_id) =
     ''[INV-F04] An active Escrow already exists for booking '' @ booking_id @ ''.''"
| "exn_str (InvalidEscrowStatusTransitionError current_status target_status) =
     ''[INV-F05] Cannot transition escrow from '' @ current_status @ '' to '' @ target_status @
     ''. Only HELD escrows can be processed.''"
| "exn_str (PyOverflowError msg) = msg"
| "exn_str (PyValueError msg) = msg"
| "exn_str (PyTypeError msg) = msg"
| "exn_str (DBAPIError msg) = msg"

section \<open>Domain events\<close>

datatype domain_event =
    CoinsFrozen string string int string
      \<comment> \<open>\<open>wallet_id\<close>, \<open>user_id\<close>, \<open>amount\<close>, \<open>booking_id\<close>\<close>
  | CoinsUnfrozen string string int string
      \<comment> \<open>\<open>wallet_id\<close>, \<open>user_id\<close>, \<open>amount\<close>, \<open>booking_id\<close>\<close>
  | EscrowCreated string int
      \<comment> \<open>\<open>booking_id\<close>, \<open>amount\<close>\<close>
  | PayoutProcessed string string int int int
      \<comment> \<open>\<open>booking_id\<close>, \<open>companion_id\<close>, \<open>amount\<close>, \<open>commission_amount\<close>, \<open>net_amount\<close>\<close>
  | EscrowRefunded string string int
      \<comment> \<open>\<open>booking_id\<close>, \<open>client_id\<close>, \<open>refund_amount\<close>\<close>
  | WalletToppedUp string string int int
      \<comment> \<open>\<open>wallet_id\<close>, \<open>user_id\<close>, \<open>amount\<close>, \<open>vnpay_amount_vnd\<close>\<close>
  | EscrowFailed string string string
      \<comment> \<open>\<open>booking_id\<close>, \<open>client_id\<close>, \<open>reason\<close>\<close>
  | RefundFailed string string string
      \<comment> \<open>\<open>booking_id\<close>, \<open>client_id\<close>, \<open>reason\<close>\<close>
  | CoinsFreezeFailed string string int string
      \<comment> \<open>\<open>booking_id\<close>, \<open>user_id\<close>, \<open>amount\<close>, \<open>reason\<close>\<close>

section \<open>Value objects\<close>

datatype TransactionType =
  UNSPECIFIED | TOPUP | BOOKING_RESERVATION | ESCROW_RELEASE | PENALTY_DEDUCTION | REFUND

record money =
  amount :: int

definition Money :: "int \<Rightarrow> exn + money" where
  "Money a = (if a < 0 then Inl (InvalidAmountError a) else Inr \<lparr>amount = a\<rparr>)"

definition Money_zero :: money where
  "Money_zero = \<lparr>amount = 0\<rparr>"

definition Money_add :: "money \<Rightarrow> money \<Rightarrow> exn + money" where
  "Money_add self other = Money (amount self + amount other)"

definition Money_subtract :: "money \<Rightarrow> money \<Rightarrow> exn + money" where
  "Money_subtract self other =
     (if amount self < amount other then Inl (InvalidAmountError (amount self - amount other))
      else Money (amount self - amount other))"

section \<open>Domain services\<close>

definition RATE_COIN_TO_VND :: int where
  "RATE_COIN_TO_VND = 1000"

definition coin_to_vnd :: "money \<Rightarrow> int" where
  "coin_to_vnd coins = amount coins * RATE_COIN_TO_VND"

definition vnd_to_coin :: "int \<Rightarrow> exn + money" where
  "vnd_to_coin vnd_amount = Money (vnd_amount div RATE_COIN_TO_VND)"

text \<open>The exceptions of float arithmetic, with CPython's messages.\<close>

fun exn_of_float_error :: "float_error \<Rightarrow> exn" where
  "exn_of_float_error IntTooLarge = PyOverflowError ''int too large to convert to float''"
| "exn_of_float_error FloatInfinity = PyOverflowError ''cannot convert float infinity to integer''"
| "exn_of_float_error FloatNaN = PyValueError ''cannot convert float NaN to integer''"

definition lift_float :: "float_error + 'a \<Rightarrow> exn + 'a" where
  "lift_float r = (case r of Inl e \<Rightarrow> Inl (exn_of_float_error e) | Inr x \<Rightarrow> Inr x)"

text \<open>\<open>int(round(amount * rate))\<close>.\<close>

definition round_product :: "int \<Rightarrow> py_float \<Rightarrow> exn + int" where
  "round_product a rate =
     bindS (lift_float (float_of_int a)) (\<lambda>x. lift_float (py_round (float_mul x rate)))"

definition calculate_commission :: "money \<Rightarrow> py_float \<Rightarrow> exn + int" where
  "calculate_commission m rate = round_product (amount m) rate"

section \<open>Aggregate: Wallet\<close>

record wallet =
  w_wallet_id :: string
  w_user_id :: string
  available_balance :: money
  frozen_balance :: money
  w_events :: "domain_event list"

definition Wallet_add_event :: "domain_event \<Rightarrow> wallet \<Rightarrow> wallet" where
  "Wallet_add_event e self = self\<lparr>w_events := w_events self @ [e]\<rparr>"

definition Wallet_clear_events :: "wallet \<Rightarrow> domain_event list \<times> wallet" where
  "Wallet_clear_events self = (w_events self, self\<lparr>w_events := []\<rparr>)"

definition Wallet_create :: "string \<Rightarrow> string \<Rightarrow> wallet" where
  "Wallet_create wallet_id user_id =
     \<lparr>w_wallet_id = wallet_id, w_user_id = user_id,
      available_balance = Money_zero, frozen_balance = Money_zero, w_events = []\<rparr>"

definition Wallet_freeze_coin :: "wallet \<Rightarrow> money \<Rightarrow> string \<Rightarrow> exn + wallet" where
  "Wallet_freeze_coin self amt booking_id =
     (if amount (available_balance self) < amount amt
      then Inl (InsufficientBalanceError (w_wallet_id self) (amount amt) (amount (available_balance self)))
      else
        bindS (Money_subtract (available_balance self) amt) (\<lambda>available.
        bindS (Money_add (frozen_balance self) amt) (\<lambda>frozen.
        Inr (Wallet_add_event
               (CoinsFrozen (w_wallet_id self) (w_user_id self) (amount amt) booking_id)
               (self\<lparr>available_balance := available, frozen_balance := frozen\<rparr>)))))"

definition Wallet_unfreeze_coin :: "wallet \<Rightarrow> money \<Rightarrow> string \<Rightarrow> exn + wallet" where
  "Wallet_unfreeze_coin self amt booking_id =
     (if amount (frozen_balance self) < amount amt
      then Inl (InsufficientFrozenBalanceError (w_wallet_id self) (amount amt) (amount (frozen_balance self)))
      else
        bindS (Money_subtract (frozen_balance self) amt) (\<lambda>frozen.
        bindS (Money_add (available_balance self) amt) (\<lambda>available.
        Inr (Wallet_add_event
               (CoinsUnfrozen (w_wallet_id self) (w_user_id self) (amount amt) booking_id)
               (self\<lparr>frozen_balance := frozen, available_balance := available\<rparr>)))))"

definition Wallet_deduct_frozen :: "wallet \<Rightarrow> money \<Rightarrow> exn + wallet" where
  "Wallet_deduct_frozen self amt =
     (if amount (frozen_balance self) < amount amt
      then Inl (InsufficientFrozenBalanceError (w_wallet_id self) (amount amt) (amount (frozen_balance self)))
      else
        bindS (Money_subtract (frozen_balance self) amt) (\<lambda>frozen.
        Inr (self\<lparr>frozen_balance := frozen\<rparr>)))"

text \<open>The parameter \<open>transaction_id\<close> is accepted and not used, as in the source.\<close>

definition Wallet_topup :: "wallet \<Rightarrow> money \<Rightarrow> string \<Rightarrow> int \<Rightarrow> exn + wallet" where
  "Wallet_topup self amt transaction_id vnpay_amount_vnd =
     bindS (Money_add (available_balance self) amt) (\<lambda>available.
     Inr (Wallet_add_event
            (WalletToppedUp (w_wallet_id self) (w_user_id self) (amount amt) vnpay_amount_vnd)
            (self\<lparr>available_balance := available\<rparr>)))"

definition Wallet_deposit :: "wallet \<Rightarrow> money \<Rightarrow> exn + wallet" where
  "Wallet_deposit self amt =
     bindS (Money_add (available_balance self) amt) (\<lambda>available.
     Inr (self\<lparr>available_balance := available\<rparr>))"

section \<open>Aggregate: Escrow\<close>

record escrow =
  e_escrow_id :: string
  e_booking_id :: string
  e_amount :: money
  e_status :: string
  e_events :: "domain_event list"

definition Escrow_add_event :: "domain_event \<Rightarrow> escrow \<Rightarrow> escrow" where
  "Escrow_add_event e self = self\<lparr>e_events := e_events self @ [e]\<rparr>"

definition Escrow_clear_events :: "escrow \<Rightarrow> domain_event list \<times> escrow" where
  "Escrow_clear_events self = (e_events self, self\<lparr>e_events := []\<rparr>)"

definition Escrow_create :: "string \<Rightarrow> string \<Rightarrow> money \<Rightarrow> escrow" where
  "Escrow_create escrow_id booking_id amt =
     Escrow_add_event (EscrowCreated booking_id (amount amt))
       \<lparr>e_escrow_id = escrow_id, e_booking_id = booking_id, e_amount = amt,
        e_status = ''HELD'', e_events = []\<rparr>"

definition Escrow_payout :: "escrow \<Rightarrow> string \<Rightarrow> py_float \<Rightarrow> exn + (int \<times> int \<times> escrow)" where
  "Escrow_payout self companion_id commission_rate =
     (if e_status self \<noteq> ''HELD''
      then Inl (InvalidEscrowStatusTransitionError (e_status self) ''PAID_OUT'')
      else
        bindS (round_product (amount (e_amount self)) commission_rate) (\<lambda>commission_amount.
        let net_amount = amount (e_amount self) - commission_amount in
        Inr (commission_amount, net_amount,
             Escrow_add_event
               (PayoutProcessed (e_booking_id self) companion_id (amount (e_amount self))
                  commission_amount net_amount)
               (self\<lparr>e_status := ''PAID_OUT''\<rparr>))))"

definition Escrow_refund :: "escrow \<Rightarrow> string \<Rightarrow> money \<Rightarrow> exn + escrow" where
  "Escrow_refund self client_id refund_amount =
     (if e_status self \<noteq> ''HELD''
      then Inl (InvalidEscrowStatusTransitionError (e_status self) ''REFUNDED'')
      else
        Inr (Escrow_add_event (EscrowRefunded (e_booking_id self) client_id (amount refund_amount))
               (self\<lparr>e_status := ''REFUNDED''\<rparr>)))"

section \<open>Aggregate: Transaction\<close>

record txn =
  t_transaction_id :: string
  t_user_id :: string
  t_amount :: money
  t_type :: TransactionType
  t_status :: string
  t_reference_id :: string
  t_created_at :: "int option"

definition Transaction_create ::
  "string \<Rightarrow> string \<Rightarrow> money \<Rightarrow> TransactionType \<Rightarrow> string \<Rightarrow> string \<Rightarrow> int option \<Rightarrow> txn" where
  "Transaction_create transaction_id user_id amt type status reference_id created_at =
     \<lparr>t_transaction_id = transaction_id, t_user_id = user_id, t_amount = amt, t_type = type,
      t_status = status, t_reference_id = reference_id, t_created_at = created_at\<rparr>"

definition Transaction_success :: "txn \<Rightarrow> txn" where
  "Transaction_success self = self\<lparr>t_status := ''SUCCESS''\<rparr>"

definition Transaction_fail :: "txn \<Rightarrow> txn" where
  "Transaction_fail self = self\<lparr>t_status := ''FAILED''\<rparr>"

end
