(* ===== verification/Db_Session.thy ===== *)
theory Db_Session
  imports Prelude "HOL-Library.DAList"
begin

text \<open>
  The services store their state through an SQLAlchemy \<open>AsyncSession\<close> on PostgreSQL.  Neither is part
  of the repository: the session's operations are parameters of the model, and this theory states what
  the code relies on as the laws of three locales.  \<open>view s\<close> is the content of the tables as the open
  transaction sees it and \<open>com s\<close> the committed content.

    \<^item> \<open>sql_table\<close>: one mapped table.  \<open>merge\<close> stands for the two calls \<open>session.merge(model)\<close> and
      \<open>session.flush()\<close>, which the repositories always make back to back; \<open>select lock P\<close> for the
      execution of a \<open>SELECT\<close> whose \<open>WHERE\<close> clause is \<open>P\<close> (\<open>lock\<close>: with \<open>FOR UPDATE\<close>).
    \<^item> \<open>sql_txn\<close>: \<open>commit\<close> and \<open>rollback\<close>.
    \<^item> \<open>sql_frame\<close>: an operation that touches no table (the clock, \<open>uuid4\<close>).

  Each has a second locale, with suffix \<open>_live\<close>, that adds that the operation does not fail for
  external reasons (the connection stays up).  A table of association lists satisfies every law; it is
  the instance the closed examples run on.
\<close>

section \<open>The laws of the session\<close>

text \<open>
  A row is accepted if its values fit their columns and no row with another primary key has the same
  value of the unique column.
\<close>

definition row_accepted ::
  "('r \<Rightarrow> 'k) \<Rightarrow> ('r \<Rightarrow> 'u) \<Rightarrow> ('r \<Rightarrow> bool) \<Rightarrow> ('k \<rightharpoonup> 'r) \<Rightarrow> 'r \<Rightarrow> bool" where
  "row_accepted pkey uniq fits tab r \<longleftrightarrow>
     fits r \<and> (\<forall>r'\<in>ran tab. pkey r' \<noteq> pkey r \<longrightarrow> uniq r' \<noteq> uniq r)"

locale sql_table =
  fixes merge :: "'r \<Rightarrow> ('s, 'e, unit) eff"
    and select :: "bool \<Rightarrow> ('r \<Rightarrow> bool) \<Rightarrow> ('s, 'e, 'r list) eff"
    and view :: "'s \<Rightarrow> 'd" and com :: "'s \<Rightarrow> 'd"
    and tab :: "'d \<Rightarrow> 'k \<rightharpoonup> 'r" and put :: "('k \<rightharpoonup> 'r) \<Rightarrow> 'd \<Rightarrow> 'd"
    and pkey :: "'r \<Rightarrow> 'k" and uniq :: "'r \<Rightarrow> 'u" and fits :: "'r \<Rightarrow> bool"
    and agree :: "'r \<Rightarrow> 'r \<Rightarrow> bool"
  assumes merge_ok: "merge r s = (Inr u, s') \<Longrightarrow>
      row_accepted pkey uniq fits (tab (view s)) r \<and>
      (\<exists>r'. agree r r' \<and> view s' = put ((tab (view s))(pkey r \<mapsto> r')) (view s))"
    and merge_com: "com (snd (merge r s)) = com s"
    and select_ok: "select lock P s = (Inr rs, s') \<Longrightarrow>
      set rs = {r \<in> ran (tab (view s)). P r} \<and> view s' = view s"
    and select_err: "select lock P s = (Inl e, s') \<Longrightarrow> view s' = view s"
    and select_com: "com (snd (select lock P s)) = com s"
begin

lemma merge_keeps [keep_intros]: "keeps com (merge r)"
  by (simp add: keeps_def merge_com)

lemma select_keeps [keep_intros]: "keeps com (select lock P)"
  by (simp add: keeps_def select_com)

lemma select_keeps_view: "keeps view (select lock P)"
proof -
  have "view (snd (select lock P s)) = view s" for s
    using select_ok [of lock P s] select_err [of lock P s]
    by (cases "select lock P s"; cases "fst (select lock P s)") auto
  then show ?thesis by (simp add: keeps_def)
qed

end

locale sql_table_live = sql_table +
  assumes merge_live: "row_accepted pkey uniq fits (tab (view s)) r \<Longrightarrow> \<exists>s'. merge r s = (Inr (), s')"
    and select_live: "\<exists>rs s'. select lock P s = (Inr rs, s')"
begin

text \<open>An accepted row is stored, up to the columns the server fills; nothing is committed.\<close>

lemma merge_stores:
  assumes "row_accepted pkey uniq fits (tab (view s)) r"
  obtains r' s' where "merge r s = (Inr (), s')" "agree r r'"
    "view s' = put ((tab (view s))(pkey r \<mapsto> r')) (view s)" "com s' = com s"
proof -
  obtain s' where m: "merge r s = (Inr (), s')" using merge_live [OF assms] by blast
  then have "com s' = com s" using merge_com [of r s] by simp
  with m merge_ok [OF m] show thesis by (blast intro: that)
qed

lemma merge_rejects:
  assumes "\<not> row_accepted pkey uniq fits (tab (view s)) r"
  obtains e s' where "merge r s = (Inl e, s')" "com s' = com s"
proof (cases "merge r s")
  case (Pair res s')
  show thesis
  proof (cases res)
    case (Inl e)
    with Pair show thesis using that [of e s'] merge_com [of r s] by simp
  next
    case (Inr u)
    with Pair assms merge_ok [of r s u s'] show thesis by simp
  qed
qed

lemma select_finds:
  obtains rs s' where "select lock P s = (Inr rs, s')"
    "set rs = {r \<in> ran (tab (view s)). P r}" "view s' = view s" "com s' = com s"
proof -
  obtain rs s' where sel: "select lock P s = (Inr rs, s')" using select_live by blast
  then have "com s' = com s" using select_com [of lock P s] by simp
  with sel select_ok [OF sel] show thesis by (blast intro: that)
qed

end

locale sql_txn =
  fixes commit :: "('s, 'e, unit) eff" and rollback :: "('s, 'e, unit) eff"
    and view :: "'s \<Rightarrow> 'd" and com :: "'s \<Rightarrow> 'd"
  assumes commit_ok: "commit s = (Inr u, s') \<Longrightarrow> com s' = view s \<and> view s' = view s"
    and commit_err: "commit s = (Inl e, s') \<Longrightarrow> com s' = com s \<or> com s' = view s"
    and rollback_ok: "rollback s = (Inr u, s') \<Longrightarrow> view s' = com s"
    and rollback_com: "com (snd (rollback s)) = com s"
begin

lemma rollback_keeps [keep_intros]: "keeps com rollback"
  by (simp add: keeps_def rollback_com)

text \<open>Atomicity: a commit publishes all of the transaction or none of it.\<close>

lemma commit_all_or_nothing: "com (snd (commit s)) \<in> {com s, view s}"
proof (cases "commit s")
  case (Pair res s')
  then show ?thesis using commit_ok [of s _ s'] commit_err [of s _ s'] by (cases res) auto
qed

end

locale sql_txn_live = sql_txn +
  assumes commit_live: "\<exists>s'. commit s = (Inr (), s')"
    and rollback_live: "\<exists>s'. rollback s = (Inr (), s')"
begin

lemma commit_publishes:
  obtains s' where "commit s = (Inr (), s')" "com s' = view s" "view s' = view s"
  using commit_live [of s] commit_ok by blast

lemma rollback_resets:
  obtains s' where "rollback s = (Inr (), s')" "view s' = com s" "com s' = com s"
proof -
  obtain s' where r: "rollback s = (Inr (), s')" using rollback_live by blast
  then have "com s' = com s" using rollback_com [of s] by simp
  with r rollback_ok [OF r] show thesis by (blast intro: that)
qed

end

locale sql_frame =
  fixes op :: "('s, 'e, 'a) eff" and view :: "'s \<Rightarrow> 'd" and com :: "'s \<Rightarrow> 'd"
  assumes frame_ok: "op s = (Inr x, s') \<Longrightarrow> view s' = view s"
    and frame_com: "com (snd (op s)) = com s"
begin

lemma frame_keeps [keep_intros]: "keeps com op"
  by (simp add: keeps_def frame_com)

end

locale sql_frame_live = sql_frame +
  assumes frame_live: "\<exists>x s'. op s = (Inr x, s')"
begin

lemma frame_runs:
  obtains x s' where "op s = (Inr x, s')" "view s' = view s" "com s' = com s"
proof -
  obtain x s' where r: "op s = (Inr x, s')" using frame_live by blast
  then have "com s' = com s" using frame_com [of s] by simp
  with r frame_ok [OF r] show thesis by (blast intro: that)
qed

end

section \<open>A reference session\<close>

text \<open>
  Tables as association lists with distinct keys; \<open>'d\<close> is the record of tables of a service, read by
  \<open>get\<close> and replaced by \<open>store\<close>.  \<open>stamp r old\<close> fills the columns the server fills.
\<close>

record 'd mem =
  m_view :: 'd
  m_com :: 'd
  m_clock :: nat

definition mem_merge ::
  "('d \<Rightarrow> ('k, 'r) alist) \<Rightarrow> (('k, 'r) alist \<Rightarrow> 'd \<Rightarrow> 'd) \<Rightarrow> ('r \<Rightarrow> 'k) \<Rightarrow> ('r \<Rightarrow> 'u) \<Rightarrow> ('r \<Rightarrow> bool) \<Rightarrow>
   ('r \<Rightarrow> 'r option \<Rightarrow> 'r) \<Rightarrow> 'e \<Rightarrow> 'r \<Rightarrow> ('d mem, 'e, unit) eff" where
  "mem_merge get store pkey uniq fits stamp err r s =
     (let t = get (m_view s) in
      if fits r \<and> (\<forall>(k, r') \<in> set (DAList.impl_of t). pkey r' \<noteq> pkey r \<longrightarrow> uniq r' \<noteq> uniq r)
      then (Inr (), s\<lparr>m_view := store (DAList.update (pkey r) (stamp r (DAList.lookup t (pkey r))) t) (m_view s)\<rparr>)
      else (Inl err, s))"

definition mem_select ::
  "('d \<Rightarrow> ('k, 'r) alist) \<Rightarrow> bool \<Rightarrow> ('r \<Rightarrow> bool) \<Rightarrow> ('d mem, 'e, 'r list) eff" where
  "mem_select get lock P s = (Inr (filter P (map snd (DAList.impl_of (get (m_view s))))), s)"

definition mem_commit :: "('d mem, 'e, unit) eff" where
  "mem_commit s = (Inr (), s\<lparr>m_com := m_view s\<rparr>)"

definition mem_rollback :: "('d mem, 'e, unit) eff" where
  "mem_rollback s = (Inr (), s\<lparr>m_view := m_com s\<rparr>)"

definition mem_tick :: "(nat \<Rightarrow> 'a) \<Rightarrow> ('d mem, 'e, 'a) eff" where
  "mem_tick f s = (Inr (f (m_clock s)), s\<lparr>m_clock := Suc (m_clock s)\<rparr>)"

lemma ran_lookup: "ran (DAList.lookup t) = snd ` set (DAList.impl_of t)"
proof -
  have "distinct (map fst (DAList.impl_of t))" using impl_of [of t] by simp
  then have "ran (map_of (DAList.impl_of t)) = snd ` set (DAList.impl_of t)" by (rule ran_distinct)
  then show ?thesis by (simp add: DAList.lookup.rep_eq)
qed

lemma mem_sql_table_live:
  assumes view: "\<And>s. tab (view s) = DAList.lookup (get (m_view s))"
    and upd: "\<And>s k r. view (s\<lparr>m_view := store (DAList.update k r (get (m_view s))) (m_view s)\<rparr>) =
        put ((DAList.lookup (get (m_view s)))(k \<mapsto> r)) (view s)"
    and com: "\<And>s v. com (s\<lparr>m_view := v\<rparr>) = com s"
    and stamp: "\<And>r old. agree r (stamp r old)"
  shows "sql_table_live (mem_merge get store pkey uniq fits stamp err) (mem_select get)
           view com tab put pkey uniq fits agree"
proof unfold_locales
  fix r s u s'
  assume "mem_merge get store pkey uniq fits stamp err r s = (Inr u, s')"
  then show "row_accepted pkey uniq fits (tab (view s)) r \<and>
      (\<exists>r'. agree r r' \<and> view s' = put ((tab (view s))(pkey r \<mapsto> r')) (view s))"
    by (auto simp: mem_merge_def Let_def row_accepted_def view upd ran_lookup
        intro!: exI [of _ "stamp r _"] stamp split: if_splits)
next
  fix r s show "com (snd (mem_merge get store pkey uniq fits stamp err r s)) = com s"
    by (simp add: mem_merge_def Let_def com)
next
  fix lock P s rs s'
  assume "mem_select get lock P s = (Inr rs, s')"
  then have "s' = s" and rs: "rs = filter P (map snd (DAList.impl_of (get (m_view s))))"
    by (auto simp: mem_select_def)
  moreover have "set rs = {r \<in> snd ` set (DAList.impl_of (get (m_view s))). P r}"
    unfolding rs set_filter set_map by (rule refl)
  ultimately show "set rs = {r \<in> ran (tab (view s)). P r} \<and> view s' = view s"
    by (simp only: view ran_lookup)
next
  fix lock P s e s' assume "mem_select get lock P s = (Inl e, s')"
  then show "view s' = view s" by (simp add: mem_select_def)
next
  fix lock P s show "com (snd (mem_select get lock P s)) = com s" by (simp add: mem_select_def)
next
  fix s r
  assume "row_accepted pkey uniq fits (tab (view s)) r"
  then show "\<exists>s'. mem_merge get store pkey uniq fits stamp err r s = (Inr (), s')"
    by (auto simp: mem_merge_def Let_def row_accepted_def view ran_lookup)
next
  fix lock P s show "\<exists>rs s'. mem_select get lock P s = (Inr rs, s')" by (simp add: mem_select_def)
qed

lemma mem_sql_txn_live: "sql_txn_live mem_commit mem_rollback (\<lambda>s. f (m_view s)) (\<lambda>s. f (m_com s))"
  by unfold_locales (auto simp: mem_commit_def mem_rollback_def)

lemma mem_sql_frame_live: "sql_frame_live (mem_tick g) (\<lambda>s. f (m_view s)) (\<lambda>s. f (m_com s))"
  by unfold_locales (auto simp: mem_tick_def)

interpretation mem_txn: sql_txn_live mem_commit mem_rollback m_view m_com
  by (rule mem_sql_txn_live [where f = "\<lambda>x. x"])

interpretation mem_frame: sql_frame_live "mem_tick g" m_view m_com
  by (rule mem_sql_frame_live [where f = "\<lambda>x. x"])

end
