(* ===== verification/Sql_Tables.thy ===== *)
theory Sql_Tables
  imports Db_Session
begin

text \<open>
  Tables with a primary key and a unique column, as the mapped models of every service have them:
  well-formedness, its preservation by an accepted row, and the results of a query
  (\<open>result.scalars().first()\<close> and \<open>all()\<close>) mapped to domain objects.
\<close>

section \<open>Column widths\<close>

definition int32 :: "int \<Rightarrow> bool" where
  "int32 x \<longleftrightarrow> - (2 ^ 31) \<le> x \<and> x < 2 ^ 31"

section \<open>Well-formed tables\<close>

definition table_ok :: "('r \<Rightarrow> 'k) \<Rightarrow> ('r \<Rightarrow> 'u) \<Rightarrow> ('k \<rightharpoonup> 'r) \<Rightarrow> bool" where
  "table_ok pkey uniq tab \<longleftrightarrow>
     finite (dom tab) \<and> (\<forall>k r. tab k = Some r \<longrightarrow> pkey r = k) \<and>
     (\<forall>r\<in>ran tab. \<forall>r'\<in>ran tab. uniq r = uniq r' \<longrightarrow> pkey r = pkey r')"

lemma table_ok_key: "table_ok pkey uniq tab \<Longrightarrow> tab k = Some r \<Longrightarrow> pkey r = k"
  unfolding table_ok_def by blast

lemma table_ok_finite: "table_ok pkey uniq tab \<Longrightarrow> finite (dom tab)"
  unfolding table_ok_def by blast

lemma table_ok_ran: "table_ok pkey uniq tab \<Longrightarrow> r \<in> ran tab \<Longrightarrow> tab (pkey r) = Some r"
  unfolding ran_def by (auto dest: table_ok_key)

lemma table_ok_uniq_key:
  "table_ok pkey uniq tab \<Longrightarrow> r \<in> ran tab \<Longrightarrow> r' \<in> ran tab \<Longrightarrow> uniq r = uniq r' \<Longrightarrow> pkey r = pkey r'"
  unfolding table_ok_def by blast

lemma table_ok_unique:
  assumes "table_ok pkey uniq tab" "r \<in> ran tab" "r' \<in> ran tab" "uniq r' = uniq r"
  shows "r' = r"
proof -
  have "pkey r' = pkey r" using assms(1,3,2,4) by (rule table_ok_uniq_key)
  then show ?thesis using table_ok_ran [OF assms(1,2)] table_ok_ran [OF assms(1,3)] by simp
qed

lemma table_okI:
  assumes "finite (dom tab)" "\<And>k r. tab k = Some r \<Longrightarrow> pkey r = k"
    "\<And>r r'. r \<in> ran tab \<Longrightarrow> r' \<in> ran tab \<Longrightarrow> uniq r = uniq r' \<Longrightarrow> pkey r = pkey r'"
  shows "table_ok pkey uniq tab"
  using assms unfolding table_ok_def by blast

lemma table_ok_upd:
  assumes ok: "table_ok pkey uniq tab" and acc: "row_accepted pkey uniq fits tab r"
    and r': "pkey r' = pkey r" "uniq r' = uniq r"
  shows "table_ok pkey uniq (tab(pkey r \<mapsto> r'))"
proof -
  have old: "x \<in> ran tab \<and> pkey x \<noteq> pkey r" if "x \<in> ran (tab(pkey r \<mapsto> r'))" "x \<noteq> r'" for x
  proof -
    from that obtain j where j: "(tab(pkey r \<mapsto> r')) j = Some x" unfolding ran_def by blast
    with that(2) have "j \<noteq> pkey r" "tab j = Some x" by (auto split: if_splits)
    then show ?thesis using table_ok_key [OF ok, of j x] by (auto intro: ranI)
  qed
  have fresh: "x \<in> ran tab \<Longrightarrow> pkey x \<noteq> pkey r \<Longrightarrow> uniq x \<noteq> uniq r" for x
    using acc unfolding row_accepted_def by blast
  show ?thesis
  proof (rule table_okI)
    show "finite (dom (tab(pkey r \<mapsto> r')))" using table_ok_finite [OF ok] by simp
    show "pkey x = k" if "(tab(pkey r \<mapsto> r')) k = Some x" for k x
      using that r'(1) table_ok_key [OF ok, of k x] by (auto split: if_splits)
    show "pkey x = pkey y"
      if "x \<in> ran (tab(pkey r \<mapsto> r'))" "y \<in> ran (tab(pkey r \<mapsto> r'))" "uniq x = uniq y" for x y
      using that old [of x] old [of y] fresh [of x] fresh [of y] r' table_ok_uniq_key [OF ok, of x y]
      by (cases "x = r'"; cases "y = r'") auto
  qed
qed

lemma row_accepted_same_key:
  assumes "table_ok pkey uniq tab" "tab k = Some r0" "pkey r = k" "uniq r = uniq r0" "fits r"
  shows "row_accepted pkey uniq fits tab r"
  unfolding row_accepted_def
  using assms table_ok_uniq_key [OF assms(1) _ ranI [of tab k r0]] table_ok_key [OF assms(1,2)] by metis

lemma row_accepted_new_key:
  assumes "\<And>r'. r' \<in> ran tab \<Longrightarrow> uniq r' \<noteq> uniq r" "fits r"
  shows "row_accepted pkey uniq fits tab r"
  using assms unfolding row_accepted_def by blast

section \<open>Query results\<close>

text \<open>\<open>result.scalars().first()\<close>.\<close>

definition first_row :: "'r list \<Rightarrow> 'r option" where
  "first_row rs = (case rs of [] \<Rightarrow> None | r # _ \<Rightarrow> Some r)"

definition option_map_exn :: "('r \<Rightarrow> 'e + 'a) \<Rightarrow> 'r option \<Rightarrow> 'e + 'a option" where
  "option_map_exn f v = (case v of None \<Rightarrow> Inr None | Some r \<Rightarrow> bindS (f r) (\<lambda>x. Inr (Some x)))"

primrec list_map_exn :: "('r \<Rightarrow> 'e + 'a) \<Rightarrow> 'r list \<Rightarrow> 'e + 'a list" where
  "list_map_exn f [] = Inr []"
| "list_map_exn f (r # rs) = bindS (f r) (\<lambda>x. bindS (list_map_exn f rs) (\<lambda>xs. Inr (x # xs)))"

lemma first_row_unique:
  assumes "set rs = {r \<in> ran tab. P r}" and "r \<in> ran tab" "P r"
    and "\<And>r'. r' \<in> ran tab \<Longrightarrow> P r' \<Longrightarrow> r' = r"
  shows "first_row rs = Some r"
proof -
  have "set rs = {r}" using assms by blast
  then show ?thesis by (cases rs) (auto simp: first_row_def)
qed

lemma first_row_None: "set rs = {r \<in> ran tab. P r} \<Longrightarrow> (\<And>r. r \<in> ran tab \<Longrightarrow> \<not> P r) \<Longrightarrow> first_row rs = None"
  by (cases rs) (auto simp: first_row_def)

lemma first_row_some:
  assumes "set rs = {r \<in> ran tab. P r}" and "r \<in> ran tab" "P r"
  obtains r' where "first_row rs = Some r'" "r' \<in> ran tab" "P r'"
proof (cases rs)
  case Nil
  with assms show thesis by auto
next
  case (Cons x xs)
  then have "x \<in> ran tab \<and> P x" using assms(1) by auto
  with Cons show thesis by (intro that [of x]) (auto simp: first_row_def)
qed

lemma first_row_mem: "first_row rs = Some r \<Longrightarrow> r \<in> set rs"
  by (auto simp: first_row_def split: list.splits)

lemma first_row_empty: "first_row rs = None \<Longrightarrow> set rs = {}"
  by (auto simp: first_row_def split: list.splits)

lemma option_map_exn_cases:
  assumes "option_map_exn f (first_row rs) = Inr v"
  shows "(v = None \<and> set rs = {}) \<or> (\<exists>r x. v = Some x \<and> r \<in> set rs \<and> f r = Inr x)"
  using assms by (auto simp: option_map_exn_def bindS_eq_Inr_iff split: option.splits
      dest: first_row_mem first_row_empty)

section \<open>Reference tables\<close>

text \<open>Facts the reference sessions of the services share; identifiers count up, padded to 36 characters.\<close>

definition pad36 :: "nat \<Rightarrow> string" where
  "pad36 n = replicate (36 - length (show_nat n)) CHR ''0'' @ take 36 (show_nat n)"

lemma length_pad36 [simp]: "length (pad36 n) = 36"
  by (simp add: pad36_def)

lemma alist_lookup_update: "DAList.lookup (DAList.update k r t) = (DAList.lookup t)(k \<mapsto> r)"
  by (simp add: DAList.lookup.rep_eq DAList.update.rep_eq update_conv')

lemma alist_lookup_empty: "DAList.lookup DAList.empty = Map.empty"
  by (simp add: DAList.lookup.rep_eq DAList.empty.rep_eq)

lemma distinct_rows:
  assumes "table_ok pkey uniq (DAList.lookup t)"
  shows "distinct (map pkey (map snd (DAList.impl_of t)))"
proof -
  have d: "distinct (map fst (DAList.impl_of t))" using impl_of [of t] by simp
  have "map pkey (map snd (DAList.impl_of t)) = map fst (DAList.impl_of t)"
    using assms d by (auto simp: DAList.lookup.rep_eq dest: table_ok_key map_of_is_SomeI)
  then show ?thesis using d by (simp only:)
qed

lemma count_rows:
  "length (filter (P \<circ> snd) (DAList.impl_of t)) = card {k. \<exists>r. DAList.lookup t k = Some r \<and> P r}"
proof -
  have d: "distinct (map fst (DAList.impl_of t))" using impl_of [of t] by simp
  let ?xs = "filter (P \<circ> snd) (DAList.impl_of t)"
  have "distinct (map fst ?xs)" using d by (simp add: distinct_map_filter)
  then have "length ?xs = card (set (map fst ?xs))" by (metis distinct_card length_map)
  moreover have "set (map fst ?xs) = {k. \<exists>r. DAList.lookup t k = Some r \<and> P r}"
    using d by (force simp: DAList.lookup.rep_eq)
  ultimately show ?thesis by simp
qed

end
