(* ===== verification/Json_Data.thy ===== *)
theory Json_Data
  imports Py_Float
begin

text \<open>Decoded JSON, the values of \<open>json.loads\<close>, and the truth of such a value in Python.\<close>

datatype json = JNull | JBool bool | JInt int | JFloat py_float | JStr string
  | JArr "json list" | JObj "(string \<times> json) list"

fun truthy :: "json \<Rightarrow> bool" where
  "truthy JNull = False"
| "truthy (JBool b) = b"
| "truthy (JInt i) = (i \<noteq> 0)"
| "truthy (JFloat f) = (case f of Fin m e \<Rightarrow> m \<noteq> 0 | _ \<Rightarrow> True)"
| "truthy (JStr s) = (s \<noteq> [])"
| "truthy (JArr xs) = (xs \<noteq> [])"
| "truthy (JObj kvs) = (kvs \<noteq> [])"

definition json_or :: "json \<Rightarrow> json \<Rightarrow> json" where
  "json_or x y = (if truthy x then x else y)"

text \<open>\<open>payload.get(key, default)\<close> on a payload object.\<close>

definition get_default :: "(string \<rightharpoonup> json) \<Rightarrow> string \<Rightarrow> json \<Rightarrow> json" where
  "get_default payload key def = (case payload key of None \<Rightarrow> def | Some v \<Rightarrow> v)"

end
