(* ===== verification/Event_Loop.thy ===== *)
theory Event_Loop
  imports Prelude
begin

text \<open>
  What the services share of asyncio and Kafka: \<open>CancelledError\<close>, which \<open>except Exception\<close> does not catch,
  \<open>finally\<close>, the consumer that is started with five attempts and then read message by message, and the
  polling loop of the background workers.  The broker and the event loop are parameters: a \<open>kafka\<close> record
  says how each call of the consumer ends, a \<open>wake\<close> how the last sleep of a worker ends.  A cancellation
  arrives while a task waits: for the connection, for the next message, or for its sleep to end.
\<close>

section \<open>Cancellation\<close>

datatype 'e raised = Exc 'e | CancelledError

text \<open>\<open>try: m except Exception as e: h(e)\<close>, \<open>try: m except asyncio.CancelledError: h\<close> and \<open>try: m finally: f\<close>.\<close>

definition exceptE ::
  "('s, 'e raised, 'a) eff \<Rightarrow> ('e \<Rightarrow> ('s, 'e raised, 'a) eff) \<Rightarrow> ('s, 'e raised, 'a) eff" where
  "exceptE m h = tryE m (\<lambda>x. case x of Exc e \<Rightarrow> h e | CancelledError \<Rightarrow> raise CancelledError)"

definition cancelledE ::
  "('s, 'e raised, 'a) eff \<Rightarrow> ('s, 'e raised, 'a) eff \<Rightarrow> ('s, 'e raised, 'a) eff" where
  "cancelledE m h = tryE m (\<lambda>x. case x of Exc e \<Rightarrow> raise (Exc e) | CancelledError \<Rightarrow> h)"

definition finallyE :: "('s, 'x, 'a) eff \<Rightarrow> ('s, 'x, unit) eff \<Rightarrow> ('s, 'x, 'a) eff" where
  "finallyE m f = (\<lambda>s. case m s of (r, s1) \<Rightarrow>
     (case f s1 of (Inl x, s2) \<Rightarrow> (Inl x, s2) | (Inr _, s2) \<Rightarrow> (r, s2)))"

text \<open>A handler that raises ordinary exceptions only, in a task that may be cancelled.\<close>

definition excE :: "('s, 'e, 'a) eff \<Rightarrow> ('s, 'e raised, 'a) eff" where
  "excE m = tryE m (\<lambda>e. raise (Exc e))"

lemma excE_run: "excE m s = (case m s of (Inl e, s') \<Rightarrow> (Inl (Exc e), s') | (Inr x, s') \<Rightarrow> (Inr x, s'))"
  by (simp add: excE_def tryE_def raise_def)

section \<open>A consumer\<close>

text \<open>
  What the consumer and the timer answer: the \<open>k\<close>-th call of \<open>consumer.start\<close> raises or returns, the \<open>k\<close>-th
  sleep is cancelled or not, the iteration gives messages and then ends, raises or is cancelled, and
  \<open>consumer.stop\<close> raises or returns.
\<close>

datatype ('e, 'm) delivery = Message 'm | Undelivered 'e | Interrupt

record ('e, 'm) kafka =
  start_raises :: "nat \<Rightarrow> 'e raised option"
  sleep_cancelled :: "nat \<Rightarrow> bool"
  deliveries :: "('e, 'm) delivery list"
  stop_raises :: "'e raised option"

text \<open>What the client has done: attempts to start, sleeps, whether it is connected, messages taken.\<close>

record client =
  cl_attempts :: nat
  cl_sleeps :: nat
  cl_open :: bool
  cl_taken :: nat

definition new_client :: client where
  "new_client = \<lparr>cl_attempts = 0, cl_sleeps = 0, cl_open = False, cl_taken = 0\<rparr>"

type_synonym ('s, 'e, 'a) listening = "('s \<times> client, 'e raised, 'a) eff"

definition with_client :: "(client \<Rightarrow> client) \<Rightarrow> ('s \<times> client) \<Rightarrow> 's \<times> client" where
  "with_client f p = (fst p, f (snd p))"

definition consumer_start :: "('e, 'm) kafka \<Rightarrow> ('s, 'e, unit) listening" where
  "consumer_start K p =
     (case start_raises K (cl_attempts (snd p)) of
        Some x \<Rightarrow> (Inl x, with_client (\<lambda>c. c\<lparr>cl_attempts := cl_attempts c + 1\<rparr>) p)
      | None \<Rightarrow> (Inr (), with_client (\<lambda>c. c\<lparr>cl_attempts := cl_attempts c + 1, cl_open := True\<rparr>) p))"

definition consumer_sleep :: "('e, 'm) kafka \<Rightarrow> ('s, 'e, unit) listening" where
  "consumer_sleep K p =
     (if sleep_cancelled K (cl_sleeps (snd p)) then Inl CancelledError else Inr (),
      with_client (\<lambda>c. c\<lparr>cl_sleeps := cl_sleeps c + 1\<rparr>) p)"

definition consumer_stop :: "('e, 'm) kafka \<Rightarrow> ('s, 'e, unit) listening" where
  "consumer_stop K p =
     (case stop_raises K of Some x \<Rightarrow> (Inl x, p) | None \<Rightarrow> (Inr (), with_client (\<lambda>c. c\<lparr>cl_open := False\<rparr>) p))"

definition take_message :: "('s, 'e, unit) listening" where
  "take_message p = (Inr (), with_client (\<lambda>c. c\<lparr>cl_taken := cl_taken c + 1\<rparr>) p)"

section \<open>The listener\<close>

text \<open>The retry loop; its result is the value of \<open>retries\<close> after the loop.\<close>

fun connect :: "('e, 'm) kafka \<Rightarrow> nat \<Rightarrow> ('s, 'e, nat) listening" where
  "connect K 0 = ret 0"
| "connect K (Suc retries) =
     bindE
       (exceptE
         (bindE (consumer_start K) (\<lambda>_. ret True))
         (\<lambda>e. bindE (consumer_sleep K) (\<lambda>_. ret False)))
       (\<lambda>connected. if connected then ret (Suc retries) else connect K retries)"

text \<open>\<open>async for msg in consumer: handle(msg)\<close>\<close>

fun consume :: "('m \<Rightarrow> ('s, 'e, unit) eff) \<Rightarrow> ('e, 'm) delivery list \<Rightarrow> ('s, 'e, unit) listening" where
  "consume handle [] = ret ()"
| "consume handle (Message m # ds) =
     bindE take_message (\<lambda>_. bindE (on_fst (excE (handle m))) (\<lambda>_. consume handle ds))"
| "consume handle (Undelivered e # ds) = raise (Exc e)"
| "consume handle (Interrupt # ds) = raise CancelledError"

definition listener :: "('e, 'm) kafka \<Rightarrow> ('m \<Rightarrow> ('s, 'e, unit) eff) \<Rightarrow> ('s, 'e, unit) listening" where
  "listener K handle =
     bindE (connect K 5) (\<lambda>retries.
     if retries = 0 then ret ()
     else finallyE (cancelledE (consume handle (deliveries K)) (ret ())) (consumer_stop K))"

section \<open>A polling loop\<close>

text \<open>
  \<open>turns body n\<close> are \<open>n\<close> turns of \<open>while self._running\<close>, each with its \<open>try\<close> and a sleep that ends.  A
  worker that stops has done some turns and then a last one, whose sleep is cancelled or ends with
  \<open>_running\<close> cleared.  The cleanup worker leaves its loop on a cancelled sleep, the others let the
  \<open>CancelledError\<close> through.
\<close>

datatype wake = StopSeen | SleepCancelled

definition poll_turn :: "('s, 'e, unit) eff \<Rightarrow> ('s, 'e raised, unit) eff" where
  "poll_turn body = tryE body (\<lambda>e. ret ())"

primrec turns :: "('s, 'e, unit) eff \<Rightarrow> nat \<Rightarrow> ('s, 'e raised, unit) eff" where
  "turns body 0 = ret ()"
| "turns body (Suc n) = bindE (poll_turn body) (\<lambda>_. turns body n)"

definition loop_sleep :: "wake \<Rightarrow> ('s, 'e raised, unit) eff" where
  "loop_sleep w = (if w = SleepCancelled then raise CancelledError else ret ())"

definition poll_loop :: "('s, 'e, unit) eff \<Rightarrow> nat \<Rightarrow> wake \<Rightarrow> ('s, 'e raised, unit) eff" where
  "poll_loop body n w =
     bindE (turns body n) (\<lambda>_.
     bindE (poll_turn body) (\<lambda>_.
     loop_sleep w))"

definition cleanup_loop :: "('s, 'e, unit) eff \<Rightarrow> nat \<Rightarrow> wake \<Rightarrow> ('s, 'e raised, unit) eff" where
  "cleanup_loop body n w =
     bindE (turns body n) (\<lambda>_.
     bindE (poll_turn body) (\<lambda>_.
     cancelledE (loop_sleep w) (ret ())))"

section \<open>Connecting\<close>

lemma with_client_simps [simp]:
  "with_client f (s, c) = (s, f c)" "fst (with_client f p) = fst p" "snd (with_client f p) = f (snd p)"
  by (simp_all add: with_client_def)

text \<open>One attempt.\<close>

lemma connect_Suc:
  "connect K (Suc n) (s, c) =
     (case start_raises K (cl_attempts c) of
        None \<Rightarrow> (Inr (Suc n), (s, c\<lparr>cl_attempts := cl_attempts c + 1, cl_open := True\<rparr>))
      | Some CancelledError \<Rightarrow> (Inl CancelledError, (s, c\<lparr>cl_attempts := cl_attempts c + 1\<rparr>))
      | Some (Exc e) \<Rightarrow>
          (let c' = c\<lparr>cl_attempts := cl_attempts c + 1, cl_sleeps := cl_sleeps c + 1\<rparr> in
           if sleep_cancelled K (cl_sleeps c) then (Inl CancelledError, (s, c')) else connect K n (s, c')))"
  by (simp add: exceptE_def tryE_def bindE_def ret_def raise_def consumer_start_def consumer_sleep_def Let_def
      split: option.splits raised.splits)

declare connect.simps(2) [simp del]

lemma connect_world: "fst (snd (connect K n p)) = fst p"
proof (induction n arbitrary: p)
  case 0
  show ?case by (simp add: ret_def)
next
  case (Suc n)
  show ?case
    by (cases p) (auto simp: connect_Suc Suc Let_def split: option.splits raised.splits)
qed

text \<open>At most one attempt and one sleep per retry, and no message is taken before the connection stands.\<close>

lemma connect_bound:
  "connect K n (s, c) = (r, (s', c')) \<Longrightarrow>
   cl_attempts c' \<le> cl_attempts c + n \<and> cl_sleeps c' \<le> cl_sleeps c + n \<and> cl_taken c' = cl_taken c \<and>
   (cl_open c' \<longleftrightarrow> cl_open c \<or> (\<exists>k>0. r = Inr k))"
proof (induction n arbitrary: c)
  case 0
  then show ?case by (auto simp: ret_def)
next
  case (Suc n)
  from Suc.prems show ?case
    by (auto simp: connect_Suc Let_def split: option.splits raised.splits if_splits dest!: Suc.IH)
qed

text \<open>The first attempt that succeeds ends the loop; when none does, the loop gives up.\<close>

lemma connect_at:
  assumes "i < n" "\<And>j. j < i \<Longrightarrow> (\<exists>e. start_raises K (cl_attempts c + j) = Some (Exc e)) \<and> \<not> sleep_cancelled K (cl_sleeps c + j)"
    "start_raises K (cl_attempts c + i) = None"
  shows "connect K n (s, c) = (Inr (n - i), (s, c\<lparr>cl_attempts := cl_attempts c + i + 1, cl_sleeps := cl_sleeps c + i, cl_open := True\<rparr>))"
  using assms
proof (induction i arbitrary: n c)
  case 0
  then obtain m where "n = Suc m" by (cases n) auto
  with 0 show ?case by (simp add: connect_Suc)
next
  case (Suc i)
  then obtain m where n: "n = Suc m" by (cases n) auto
  let ?c = "c\<lparr>cl_attempts := cl_attempts c + 1, cl_sleeps := cl_sleeps c + 1\<rparr>"
  obtain e where e: "start_raises K (cl_attempts c) = Some (Exc e)" "\<not> sleep_cancelled K (cl_sleeps c)"
    using Suc.prems(2) [of 0] by auto
  have "connect K m (s, ?c) = (Inr (m - i), (s, ?c\<lparr>cl_attempts := cl_attempts ?c + i + 1, cl_sleeps := cl_sleeps ?c + i, cl_open := True\<rparr>))"
    using Suc.prems n Suc.prems(2) [of "Suc _"] by (intro Suc.IH) (auto simp: add.assoc)
  with n e show ?case by (simp add: connect_Suc Let_def)
qed

lemma connect_refused:
  assumes "\<And>j. j < n \<Longrightarrow> (\<exists>e. start_raises K (cl_attempts c + j) = Some (Exc e)) \<and> \<not> sleep_cancelled K (cl_sleeps c + j)"
  shows "connect K n (s, c) = (Inr 0, (s, c\<lparr>cl_attempts := cl_attempts c + n, cl_sleeps := cl_sleeps c + n\<rparr>))"
  using assms
proof (induction n arbitrary: c)
  case 0
  show ?case by (simp add: ret_def)
next
  case (Suc n)
  let ?c = "c\<lparr>cl_attempts := cl_attempts c + 1, cl_sleeps := cl_sleeps c + 1\<rparr>"
  obtain e where e: "start_raises K (cl_attempts c) = Some (Exc e)" "\<not> sleep_cancelled K (cl_sleeps c)"
    using Suc.prems [of 0] by auto
  have "connect K n (s, ?c) = (Inr 0, (s, ?c\<lparr>cl_attempts := cl_attempts ?c + n, cl_sleeps := cl_sleeps ?c + n\<rparr>))"
    using Suc.prems [of "Suc _"] by (intro Suc.IH) auto
  with e show ?case by (simp add: connect_Suc Let_def)
qed

section \<open>Handlers that never raise\<close>

text \<open>
  The body of every listener loop is one \<open>try\<close> statement that logs each exception.  All that the loop needs
  of it is that it returns.
\<close>

definition handled :: "('m \<Rightarrow> ('s, 'e, unit) eff) \<Rightarrow> 'm list \<Rightarrow> 's \<Rightarrow> 's" where
  "handled handle ms s = fold (\<lambda>m t. snd (handle m t)) ms s"

text \<open>The connection stands after \<open>i\<close> failed attempts, within the five that are made.\<close>

definition connects :: "('e, 'm) kafka \<Rightarrow> nat \<Rightarrow> bool" where
  "connects K i \<longleftrightarrow> i < 5 \<and> (\<forall>j<i. (\<exists>e. start_raises K j = Some (Exc e)) \<and> \<not> sleep_cancelled K j) \<and>
     start_raises K i = None \<and> stop_raises K = None"

text \<open>How an iteration ends that gives no further message.\<close>

fun loop_end :: "('e, 'm) delivery list \<Rightarrow> ('e raised + unit) option" where
  "loop_end [] = Some (Inr ())"
| "loop_end (Interrupt # ds) = Some (Inr ())"
| "loop_end (Undelivered e # ds) = Some (Inl (Exc e))"
| "loop_end (Message m # ds) = None"

locale message_handler =
  fixes handle :: "'m \<Rightarrow> ('s, 'e, unit) eff"
  assumes handle_returns: "fst (handle m s) = Inr ()"
begin

lemma handle_run: obtains s' where "handle m s = (Inr (), s')"
  using handle_returns [of m s] by (cases "handle m s") auto

lemma consume_messages:
  "consume handle (map Message ms @ ds) (s, c) =
     consume handle ds (handled handle ms s, c\<lparr>cl_taken := cl_taken c + length ms\<rparr>)"
proof (induction ms arbitrary: s c)
  case Nil
  show ?case by (simp add: handled_def)
next
  case (Cons m ms)
  obtain t where t: "handle m s = (Inr (), t)" by (rule handle_run)
  then have "consume handle (map Message (m # ms) @ ds) (s, c) =
      consume handle (map Message ms @ ds) (t, c\<lparr>cl_taken := cl_taken c + 1\<rparr>)"
    by (simp add: bindE_def take_message_def on_fst_def excE_run)
  then show ?case by (simp add: Cons handled_def t)
qed

text \<open>
  A listener that gets its connection within the five attempts handles every message once and in order, closes
  the consumer, and ends the way the iteration does.
\<close>

theorem listener_run:
  assumes "connects K i" "deliveries K = map Message ms @ ds" "loop_end ds = Some r"
  shows "listener K handle (s, new_client) =
    (r, (handled handle ms s, \<lparr>cl_attempts = i + 1, cl_sleeps = i, cl_open = False, cl_taken = length ms\<rparr>))"
proof -
  have "connect K 5 (s, new_client) = (Inr (5 - i), (s, \<lparr>cl_attempts = i + 1, cl_sleeps = i, cl_open = True, cl_taken = 0\<rparr>))"
    using connect_at [of i 5 K new_client s] assms(1) by (simp add: new_client_def connects_def)
  moreover have "cancelledE (consume handle ds) (ret ()) p = (r, p)" for p
    using assms(3) by (cases ds rule: loop_end.cases) (auto simp: cancelledE_def tryE_def ret_def raise_def)
  then have "cancelledE (consume handle (deliveries K)) (ret ()) (s, \<lparr>cl_attempts = i + 1, cl_sleeps = i, cl_open = True, cl_taken = 0\<rparr>) =
      (r, (handled handle ms s, \<lparr>cl_attempts = i + 1, cl_sleeps = i, cl_open = True, cl_taken = length ms\<rparr>))"
    by (simp add: cancelledE_def tryE_def assms(2) consume_messages)
  ultimately show ?thesis
    using assms(1) by (simp add: listener_def bindE_def finallyE_def consumer_stop_def connects_def)
qed

end

text \<open>Without a connection the listener returns and has touched nothing.\<close>

lemma listener_gives_up:
  assumes "\<And>j. j < 5 \<Longrightarrow> (\<exists>e. start_raises K j = Some (Exc e)) \<and> \<not> sleep_cancelled K j"
  shows "listener K handle (s, new_client) = (Inr (), (s, \<lparr>cl_attempts = 5, cl_sleeps = 5, cl_open = False, cl_taken = 0\<rparr>))"
  using connect_refused [of 5 K new_client s] assms by (simp add: listener_def bindE_def new_client_def ret_def)

text \<open>What every handled message keeps is kept by the listener, however it ends.\<close>

lemma consume_invariant:
  assumes "\<And>m s. I s \<Longrightarrow> I (snd (handle m s))"
  shows "I (fst p) \<Longrightarrow> I (fst (snd (consume handle ds p)))"
proof (induction ds arbitrary: p)
  case Nil
  then show ?case by (simp add: ret_def)
next
  case (Cons d ds)
  show ?case
  proof (cases d)
    case (Message m)
    obtain r s' where h: "handle m (fst p) = (r, s')" by fastforce
    have "I s'" using assms [OF Cons.prems, of m] h by simp
    with Message h show ?thesis
      by (cases r) (auto simp: bindE_def take_message_def on_fst_def excE_run intro!: Cons.IH)
  qed (use Cons.prems in \<open>simp_all add: raise_def\<close>)
qed

lemma listener_invariant:
  assumes "\<And>m s. I s \<Longrightarrow> I (snd (handle m s))" "I (fst p)"
  shows "I (fst (snd (listener K handle p)))"
proof -
  obtain r p1 where 1: "connect K 5 p = (r, p1)" by (cases "connect K 5 p")
  have "I (fst p1)" using connect_world [of K 5 p] 1 assms(2) by simp
  then have 2: "I (fst (snd (cancelledE (consume handle (deliveries K)) (ret ()) p1)))"
    using consume_invariant [of I handle p1 "deliveries K", OF assms(1)]
    by (auto simp: cancelledE_def tryE_def ret_def raise_def split: prod.splits sum.splits raised.splits)
  obtain r2 p2 where c: "cancelledE (consume handle (deliveries K)) (ret ()) p1 = (r2, p2)"
    by (cases "cancelledE (consume handle (deliveries K)) (ret ()) p1")
  obtain r3 p3 where st: "consumer_stop K p2 = (r3, p3)" by (cases "consumer_stop K p2")
  have "fst p3 = fst p2" using st by (auto simp: consumer_stop_def split: option.splits)
  with 1 2 c st \<open>I (fst p1)\<close> show ?thesis
    by (auto simp: listener_def bindE_def finallyE_def ret_def split: sum.splits)
qed

text \<open>A listener lets an exception through only if the consumer raised one.\<close>

lemma consume_result:
  assumes "\<And>m s. fst (handle m s) = Inr ()" "\<And>e. Undelivered e \<notin> set ds"
  shows "fst (consume handle ds p) = Inr () \<or> fst (consume handle ds p) = Inl CancelledError"
  using assms(2)
proof (induction ds arbitrary: p)
  case (Cons d ds)
  have IH: "fst (consume handle ds q) = Inr () \<or> fst (consume handle ds q) = Inl CancelledError" for q
    using Cons.prems by (intro Cons.IH) auto
  show ?case
  proof (cases d)
    case (Message m)
    obtain s' where "handle m (fst p) = (Inr (), s')" using assms(1) [of m "fst p"] by (cases "handle m (fst p)") auto
    with Message IH show ?thesis by (simp add: bindE_def take_message_def on_fst_def excE_run)
  qed (use Cons.prems in \<open>auto simp: raise_def\<close>)
qed (simp add: ret_def)

lemma connect_result: "fst (connect K n p) = Inl CancelledError \<or> (\<exists>k. fst (connect K n p) = Inr k)"
proof (induction n arbitrary: p)
  case (Suc n)
  show ?case by (cases p) (auto simp: connect_Suc Let_def Suc split: option.splits raised.splits)
qed (simp add: ret_def)

lemma listener_result:
  assumes "\<And>m s. fst (handle m s) = Inr ()" "\<And>e. Undelivered e \<notin> set (deliveries K)" "\<And>e. stop_raises K \<noteq> Some (Exc e)"
  shows "fst (listener K handle p) = Inr () \<or> fst (listener K handle p) = Inl CancelledError"
proof -
  obtain r p1 where 1: "connect K 5 p = (r, p1)" by (cases "connect K 5 p")
  obtain r2 p2 where 2: "consume handle (deliveries K) p1 = (r2, p2)" by (cases "consume handle (deliveries K) p1")
  have r2: "r2 = Inr () \<or> r2 = Inl CancelledError" using consume_result [of handle "deliveries K" p1] assms(1,2) 2 by simp
  have "stop_raises K = None \<or> stop_raises K = Some CancelledError"
    using assms(3) by (cases "stop_raises K") (auto, metis raised.exhaust)
  with connect_result [of K 5 p] 1 2 r2 show ?thesis
    by (auto simp: listener_def bindE_def cancelledE_def tryE_def ret_def raise_def finallyE_def consumer_stop_def
        split: if_splits)
qed

text \<open>The attempts of a whole run: after the connection stands no other is made.\<close>

lemma connect_only:
  assumes "connect K n (s, c) = (Inr k, p)" "0 < k"
  shows "\<exists>j<n. start_raises K (cl_attempts c + j) = None"
  using assms
proof (induction n arbitrary: c)
  case 0
  then show ?case by (simp add: ret_def)
next
  case (Suc n)
  show ?case
  proof (cases "start_raises K (cl_attempts c)")
    case None
    then show ?thesis by (intro exI [of _ 0]) simp
  next
    case (Some x)
    with Suc.prems obtain e where x: "x = Exc e" by (cases x) (simp_all add: connect_Suc)
    have "connect K n (s, c\<lparr>cl_attempts := cl_attempts c + 1, cl_sleeps := cl_sleeps c + 1\<rparr>) = (Inr k, p)"
      using Suc.prems(1) Some x by (simp add: connect_Suc Let_def split: if_splits)
    from Suc.IH [OF this Suc.prems(2)] obtain j where "j < n" "start_raises K (cl_attempts c + Suc j) = None" by auto
    then show ?thesis by (intro exI [of _ "Suc j"]) simp
  qed
qed

lemma consume_attempts:
  "cl_attempts (snd (snd (consume handle ds p))) = cl_attempts (snd p) \<and>
   cl_sleeps (snd (snd (consume handle ds p))) = cl_sleeps (snd p)"
proof (induction ds arbitrary: p)
  case (Cons d ds)
  show ?case
  proof (cases d)
    case (Message m)
    obtain r s' where "handle m (fst p) = (r, s')" by (cases "handle m (fst p)")
    with Message Cons show ?thesis by (cases r) (simp_all add: bindE_def take_message_def on_fst_def excE_run)
  qed (simp_all add: raise_def)
qed (simp add: ret_def)

lemma listener_attempts_bound:
  assumes "listener K handle (s, new_client) = (r, (s', c))"
  shows "cl_attempts c \<le> 5 \<and> cl_sleeps c \<le> 5 \<and>
    ((\<forall>j<5. start_raises K j \<noteq> None) \<longrightarrow> s' = s \<and> cl_taken c = 0 \<and> \<not> cl_open c)"
proof -
  obtain r1 s1 c1 where 1: "connect K 5 (s, new_client) = (r1, (s1, c1))" by (cases "connect K 5 (s, new_client)") auto
  have c1: "s1 = s" "cl_attempts c1 \<le> 5" "cl_sleeps c1 \<le> 5" "cl_taken c1 = 0" "cl_open c1 \<longleftrightarrow> (\<exists>k>0. r1 = Inr k)"
    using connect_bound [OF 1] connect_world [of K 5 "(s, new_client)"] 1 by (simp_all add: new_client_def)
  show ?thesis
  proof (cases "\<exists>k>0. r1 = Inr k")
    case False
    then have "(r, (s', c)) = (case r1 of Inl x \<Rightarrow> Inl x | Inr _ \<Rightarrow> Inr (), (s1, c1))"
      using assms 1 by (cases r1) (auto simp: listener_def bindE_def ret_def)
    with False c1 show ?thesis by simp
  next
    case True
    then obtain k where k: "r1 = Inr k" "0 < k" by blast
    obtain r2 p2 where 2: "cancelledE (consume handle (deliveries K)) (ret ()) (s1, c1) = (r2, p2)"
      by (cases "cancelledE (consume handle (deliveries K)) (ret ()) (s1, c1)")
    have "p2 = snd (consume handle (deliveries K) (s1, c1))"
      using 2 by (auto simp: cancelledE_def tryE_def ret_def raise_def split: prod.splits sum.splits raised.splits)
    then have "cl_attempts (snd p2) \<le> 5 \<and> cl_sleeps (snd p2) \<le> 5"
      using consume_attempts [of handle "deliveries K" "(s1, c1)"] c1 by simp
    moreover have "(s', c) = snd (consumer_stop K p2)"
      using assms 1 2 k by (auto simp: listener_def bindE_def finallyE_def split: prod.splits sum.splits)
    ultimately have "cl_attempts c \<le> 5 \<and> cl_sleeps c \<le> 5"
      by (cases "stop_raises K"; cases p2) (auto simp: consumer_stop_def)
    moreover have "\<exists>j<5. start_raises K j = None"
      using connect_only [OF 1 [unfolded k(1)] k(2)] by (simp add: new_client_def)
    ultimately show ?thesis by blast
  qed
qed

section \<open>How a polling loop ends\<close>

lemma poll_turn_run: "poll_turn body s = (Inr (), snd (body s))"
  by (auto simp: poll_turn_def tryE_def ret_def split: prod.splits sum.splits)

lemma turns_run: "turns body n s = (Inr (), ((\<lambda>s. snd (body s)) ^^ n) s)"
proof (induction n arbitrary: s)
  case (Suc n)
  show ?case unfolding funpow_Suc_right by (simp add: bindE_def poll_turn_run Suc)
qed (simp add: ret_def)

lemma poll_loop_run:
  "poll_loop body n w s =
     ((if w = SleepCancelled then Inl CancelledError else Inr ()), ((\<lambda>s. snd (body s)) ^^ Suc n) s)"
  "cleanup_loop body n w s = (Inr (), ((\<lambda>s. snd (body s)) ^^ Suc n) s)"
  by (simp_all add: poll_loop_def cleanup_loop_def bindE_def turns_run poll_turn_run tryE_def loop_sleep_def cancelledE_def
      ret_def raise_def)

end
