(* ===== verification/Outbox_Worker.thy ===== *)
theory Outbox_Worker
  imports Json_Data Event_Loop "HOL-Library.DAList"
begin

text \<open>
  The transactional outbox: the table every service writes its events to, the worker that pushes them
  to Kafka (\<open>OutboxPublisherWorker._process_batch\<close>) and the cleanup of processed rows
  (\<open>DbCleanupWorker._run_cleanup\<close>).  The three services run the same loop and differ in how they build
  the message; \<open>mk\<close> is that step.  The session and the producer are parameters; the locale
  \<open>outbox_session\<close> has their laws.  \<open>sent s\<close> is the sequence of messages that reached the broker.
\<close>

record outbox_model =
  ob_id :: "int option"
  ob_event_id :: string
  ob_event_type :: string
  ob_payload :: string
  ob_created_at :: "int option"
  ob_processed :: bool

text \<open>The stored row carries the attributes set on the model object; the server fills the others.\<close>

definition outbox_agree :: "outbox_model \<Rightarrow> outbox_model \<Rightarrow> bool" where
  "outbox_agree r r' \<longleftrightarrow>
     ob_event_id r' = ob_event_id r \<and> ob_event_type r' = ob_event_type r \<and>
     ob_payload r' = ob_payload r \<and> ob_processed r' = ob_processed r"

record cloud_event =
  ce_type :: string
  ce_source :: string
  ce_id :: string
  ce_time :: string
  ce_datacontenttype :: string
  ce_correlationid :: json
  ce_data :: "string \<rightharpoonup> json"

type_synonym kafka_msg = "string \<times> cloud_event"

text \<open>
  What a row is turned into: the event, and its key, which is computed (and may raise) only when it is sent.
\<close>

type_synonym 'e prepared = "('e + string) \<times> cloud_event"

definition message_of :: "(outbox_model \<Rightarrow> 'e + 'e prepared) \<Rightarrow> outbox_model \<Rightarrow> 'e + kafka_msg" where
  "message_of mk event = bindS (mk event) (\<lambda>(key, ce). bindS key (\<lambda>k. Inr (k, ce)))"

text \<open>\<open>producer\<close> is the attribute \<open>self.producer\<close>, a producer by its method \<open>send_and_wait\<close>; \<open>fetch n\<close> is the query of at most \<open>n\<close> unprocessed rows, oldest first; \<open>mark r\<close> the assignment
  \<open>event.processed = True\<close>; \<open>purge P\<close> the statement \<open>DELETE \<dots> WHERE P\<close>, with its row count.\<close>

record ('s, 'e) ob_session =
  ob_open :: "('s, 'e, unit) eff"
  fetch :: "nat \<Rightarrow> ('s, 'e, outbox_model list) eff"
  mark :: "outbox_model \<Rightarrow> ('s, 'e, unit) eff"
  purge :: "(outbox_model \<Rightarrow> bool) \<Rightarrow> ('s, 'e, nat) eff"
  producer :: "(kafka_msg \<Rightarrow> ('s, 'e, unit) eff) option"
  ob_commit :: "('s, 'e, unit) eff"
  ob_rollback :: "('s, 'e, unit) eff"

section \<open>The worker\<close>

definition publish_row ::
  "('s, 'e) ob_session \<Rightarrow> (outbox_model \<Rightarrow> 'e + 'e prepared) \<Rightarrow> outbox_model \<Rightarrow> ('s, 'e, unit) eff" where
  "publish_row W mk event =
     bindE (liftE (mk event)) (\<lambda>(key, ce).
     bindE
       (case producer W of
          None \<Rightarrow> ret ()
        | Some send_and_wait \<Rightarrow> bindE (liftE key) (\<lambda>k. send_and_wait (k, ce))) (\<lambda>_.
     mark W event))"

definition process_batch ::
  "('s, 'e) ob_session \<Rightarrow> (outbox_model \<Rightarrow> 'e + 'e prepared) \<Rightarrow> nat \<Rightarrow> ('s, 'e, unit) eff" where
  "process_batch W mk batch_size =
     bindE (ob_open W) (\<lambda>_.
     tryE
       (bindE (fetch W batch_size) (\<lambda>events.
        if events = [] then ret ()
        else
          bindE (forE (publish_row W mk) events) (\<lambda>_.
          ob_commit W)))
       (\<lambda>e. bindE (ob_rollback W) (\<lambda>_. raise e)))"

text \<open>\<open>_poll_loop\<close>: \<open>n\<close> turns and a last one; an error of a batch is logged and the loop goes on.\<close>

definition outbox_poll_loop ::
  "('s, 'e) ob_session \<Rightarrow> (outbox_model \<Rightarrow> 'e + 'e prepared) \<Rightarrow> nat \<Rightarrow> nat \<Rightarrow> wake \<Rightarrow> ('s, 'e raised, unit) eff" where
  "outbox_poll_loop W mk batch_size n w = poll_loop (process_batch W mk batch_size) n w"

section \<open>The cleanup\<close>

definition expired :: "int \<Rightarrow> outbox_model \<Rightarrow> bool" where
  "expired cutoff r = (ob_processed r \<and> (case ob_created_at r of None \<Rightarrow> False | Some t \<Rightarrow> t < cutoff))"

definition run_cleanup :: "('s, 'e) ob_session \<Rightarrow> int \<Rightarrow> int \<Rightarrow> ('s, 'e, unit) eff" where
  "run_cleanup W now retention =
     bindE (ob_open W) (\<lambda>_.
     tryE
       (bindE (purge W (expired (now - retention))) (\<lambda>_. ob_commit W))
       (\<lambda>e. bindE (ob_rollback W) (\<lambda>_. raise e)))"

definition cleanup_poll_loop :: "('s, 'e) ob_session \<Rightarrow> ('s, 'e, int) eff \<Rightarrow> int \<Rightarrow> nat \<Rightarrow> wake \<Rightarrow> ('s, 'e raised, unit) eff" where
  "cleanup_poll_loop W clock retention n w = cleanup_loop (bindE clock (\<lambda>now. run_cleanup W now retention)) n w"

section \<open>Laws of the session and the producer\<close>

text \<open>
  Rows by primary key.  A failed \<open>send_and_wait\<close> may still have reached the broker.
\<close>

definition mark_row :: "outbox_model \<Rightarrow> (int \<rightharpoonup> outbox_model) \<Rightarrow> (int \<rightharpoonup> outbox_model)" where
  "mark_row r tab = (case ob_id r of None \<Rightarrow> tab | Some i \<Rightarrow> tab(i := map_option (ob_processed_update (\<lambda>_. True)) (tab i)))"

locale outbox_session =
  fixes W :: "('s, 'e) ob_session" and view :: "'s \<Rightarrow> (int \<rightharpoonup> outbox_model)"
    and com :: "'s \<Rightarrow> (int \<rightharpoonup> outbox_model)" and sent :: "'s \<Rightarrow> kafka_msg list"
  assumes ob_open_ok: "ob_open W s = (Inr u, s') \<Longrightarrow> view s' = com s"
    and ob_open_com: "com (snd (ob_open W s)) = com s \<and> sent (snd (ob_open W s)) = sent s"
    and row_id: "com s i = Some r \<Longrightarrow> ob_id r = Some i"
    and fetch_ok: "fetch W n s = (Inr rs, s') \<Longrightarrow> view s' = view s \<and>
      (\<exists>all. rs = take n all \<and> distinct (map ob_id all) \<and> set all = {r \<in> ran (view s). \<not> ob_processed r} \<and>
         sorted_wrt (\<lambda>a b. the (ob_created_at a) \<le> the (ob_created_at b)) all)"
    and fetch_com: "com (snd (fetch W n s)) = com s \<and> sent (snd (fetch W n s)) = sent s"
    and mark_ok: "mark W r s = (Inr u, s') \<Longrightarrow> view s' = mark_row r (view s)"
    and mark_com: "com (snd (mark W r s)) = com s \<and> sent (snd (mark W r s)) = sent s"
    and purge_ok: "purge W P s = (Inr n, s') \<Longrightarrow>
      view s' = (\<lambda>i. case view s i of None \<Rightarrow> None | Some r \<Rightarrow> if P r then None else Some r)"
    and purge_com: "com (snd (purge W P s)) = com s \<and> sent (snd (purge W P s)) = sent s"
    and send_ok: "producer W = Some send \<Longrightarrow> send m s = (Inr u, s') \<Longrightarrow> view s' = view s \<and> sent s' = sent s @ [m]"
    and send_err: "producer W = Some send \<Longrightarrow> send m s = (Inl e, s') \<Longrightarrow> sent s' \<in> {sent s, sent s @ [m]}"
    and send_com: "producer W = Some send \<Longrightarrow> com (snd (send m s)) = com s"
    and ob_commit_ok: "ob_commit W s = (Inr u, s') \<Longrightarrow> com s' = view s"
    and ob_commit_err: "ob_commit W s = (Inl e, s') \<Longrightarrow> com s' = com s \<or> com s' = view s"
    and ob_commit_sent: "sent (snd (ob_commit W s)) = sent s"
    and ob_rollback_com: "com (snd (ob_rollback W s)) = com s \<and> sent (snd (ob_rollback W s)) = sent s"

begin

lemma ob_keeps [keep_intros]:
  "keeps com (ob_open W)" "keeps com (fetch W n)" "keeps com (mark W r)" "keeps com (purge W P)"
  "keeps com (ob_rollback W)"
  by (simp_all add: keeps_def ob_open_com fetch_com mark_com purge_com ob_rollback_com)

lemma send_keeps: "producer W = Some send \<Longrightarrow> keeps com (send m)"
  by (simp add: keeps_def send_com)

lemma publish_row_keeps [keep_intros]: "keeps com (publish_row W mk e)"
proof -
  have "keeps com (case producer W of None \<Rightarrow> ret () | Some send \<Rightarrow> bindE (liftE key) (\<lambda>k. send (k, ce)))" for key ce
  proof (cases "producer W")
    case (Some send)
    have "keeps com (bindE (liftE key) (\<lambda>k. send (k, ce)))" by (intro keep_intros send_keeps [OF Some])
    with Some show ?thesis by simp
  qed (simp add: keeps_ret)
  then show ?thesis unfolding publish_row_def by (intro keeps_bindE keeps_liftE keeps_case_prod ob_keeps)
qed

lemma ob_commit_all_or_nothing: "com (snd (ob_commit W s)) \<in> {com s, view s}"
  using ob_commit_ok [of s] ob_commit_err [of s] by (cases "ob_commit W s"; cases "fst (ob_commit W s)") auto

text \<open>One row: marked in either case, sent when there is a producer.\<close>

lemma publish_row_runs:
  assumes "publish_row W mk e s = (Inr u, s')"
  shows "view s' = mark_row e (view s)"
    "case producer W of None \<Rightarrow> sent s' = sent s | Some _ \<Rightarrow> (\<exists>m. message_of mk e = Inr m \<and> sent s' = sent s @ [m])"
proof -
  from assms obtain key ce s1 v where mk: "mk e = Inr (key, ce)" and 2: "mark W e s1 = (Inr u, s')"
    and 1: "(case producer W of None \<Rightarrow> ret () | Some send \<Rightarrow> bindE (liftE key) (\<lambda>k. send (k, ce))) s = (Inr v, s1)"
    unfolding publish_row_def by (auto simp: bindE_eq_Inr_iff liftE_run)
  have m: "view s' = mark_row e (view s1)" "sent s' = sent s1" using mark_ok [OF 2] mark_com [of e s1] 2 by simp_all
  have "view s' = mark_row e (view s) \<and> (case producer W of None \<Rightarrow> sent s' = sent s
      | Some _ \<Rightarrow> (\<exists>m. message_of mk e = Inr m \<and> sent s' = sent s @ [m]))"
  proof (cases "producer W")
    case None
    with 1 m show ?thesis by (simp add: ret_run)
  next
    case (Some send)
    with 1 obtain k where k: "key = Inr k" "send (k, ce) s = (Inr v, s1)" by (auto simp: bindE_eq_Inr_iff liftE_run)
    with send_ok [OF Some k(2)] m mk Some show ?thesis by (simp add: message_of_def)
  qed
  then show "view s' = mark_row e (view s)"
    "case producer W of None \<Rightarrow> sent s' = sent s | Some _ \<Rightarrow> (\<exists>m. message_of mk e = Inr m \<and> sent s' = sent s @ [m])"
    by simp_all
qed

text \<open>The loop marks the rows; a producer has sent their messages in order, and without one nothing was sent.\<close>

lemma publish_rows:
  "forE (publish_row W mk) es s = (Inr u, s') \<Longrightarrow> view s' = fold mark_row es (view s) \<and>
   (case producer W of None \<Rightarrow> sent s' = sent s
    | Some _ \<Rightarrow> (\<forall>e\<in>set es. \<exists>m. message_of mk e = Inr m) \<and> sent s' = sent s @ map (\<lambda>e. projr (message_of mk e)) es)"
proof (induction es arbitrary: s)
  case Nil
  then show ?case by (simp add: ret_run split: option.splits)
next
  case (Cons e es)
  then obtain s1 v where 1: "publish_row W mk e s = (Inr v, s1)" and 2: "forE (publish_row W mk) es s1 = (Inr u, s')"
    by (auto simp: bindE_eq_Inr_iff)
  show ?case using publish_row_runs [OF 1] Cons.IH [OF 2] by (cases "producer W") auto
qed

text \<open>Whatever fails, what has reached the broker stays there.\<close>

definition grows :: "('s, 'x, 'a) eff \<Rightarrow> bool" where
  "grows m \<longleftrightarrow> (\<forall>s. set (sent s) \<subseteq> set (sent (snd (m s))))"

lemma sent_keeps:
  "keeps sent (ob_open W)" "keeps sent (fetch W n)" "keeps sent (mark W r)" "keeps sent (ob_commit W)" "keeps sent (ob_rollback W)"
  by (simp_all add: keeps_def ob_open_com fetch_com mark_com ob_commit_sent ob_rollback_com)

lemma grows_keeps: "keeps sent m \<Longrightarrow> grows m"
  by (simp add: grows_def keepsD_snd)

lemma grows_bindE:
  assumes "grows m" "\<And>x. grows (f x)"
  shows "grows (bindE m f)"
  unfolding grows_def
proof
  fix s
  obtain r s1 where 1: "m s = (r, s1)" by fastforce
  have "set (sent s) \<subseteq> set (sent s1)" using assms(1) 1 by (metis grows_def snd_conv)
  moreover have "set (sent s1) \<subseteq> set (sent (snd (f x s1)))" for x using assms(2) by (simp add: grows_def)
  ultimately show "set (sent s) \<subseteq> set (sent (snd (bindE m f s)))" using 1 by (cases r) (auto simp: bindE_def)
qed

lemma grows_tryE:
  assumes "grows m" "\<And>e. grows (h e)"
  shows "grows (tryE m h)"
  unfolding grows_def
proof
  fix s
  obtain r s1 where 1: "m s = (r, s1)" by fastforce
  have "set (sent s) \<subseteq> set (sent s1)" using assms(1) 1 by (metis grows_def snd_conv)
  moreover have "set (sent s1) \<subseteq> set (sent (snd (h e s1)))" for e using assms(2) by (simp add: grows_def)
  ultimately show "set (sent s) \<subseteq> set (sent (snd (tryE m h s)))" using 1 by (cases r) (auto simp: tryE_def)
qed

lemma send_grows: "producer W = Some send \<Longrightarrow> grows (send m)"
  unfolding grows_def
proof
  fix s assume p: "producer W = Some send"
  obtain r s1 where 1: "send m s = (r, s1)" by fastforce
  show "set (sent s) \<subseteq> set (sent (snd (send m s)))"
  proof (cases r)
    case (Inl e)
    with send_err [OF p, of m s e s1] 1 show ?thesis by auto
  next
    case (Inr v)
    with send_ok [OF p, of m s v s1] 1 show ?thesis by auto
  qed
qed

lemma publish_row_grows: "grows (publish_row W mk e)"
proof -
  have "grows (case producer W of None \<Rightarrow> ret () | Some send \<Rightarrow> bindE (liftE key) (\<lambda>k. send (k, ce)))" for key ce
    by (cases "producer W") (simp_all add: grows_bindE grows_keeps keeps_ret keeps_liftE send_grows)
  then show ?thesis
    unfolding publish_row_def by (auto intro!: grows_bindE grows_keeps [OF keeps_liftE] grows_keeps [OF sent_keeps(3)])
qed

lemma process_batch_grows: "grows (process_batch W mk n)"
proof -
  have rows: "grows (forE (publish_row W mk) es)" for es
    by (induction es) (simp_all add: grows_keeps keeps_ret grows_bindE publish_row_grows)
  have body: "grows (if es = [] then ret () else bindE (forE (publish_row W mk) es) (\<lambda>_. ob_commit W))" for es
    by (simp add: grows_keeps keeps_ret grows_bindE rows sent_keeps)
  have handler: "grows (bindE (ob_rollback W) (\<lambda>_. raise e))" for e
    by (intro grows_keeps keeps_bindE sent_keeps keeps_raise)
  have "grows (bindE (fetch W n) (\<lambda>es. if es = [] then ret () else bindE (forE (publish_row W mk) es) (\<lambda>_. ob_commit W)))"
    by (rule grows_bindE [OF grows_keeps [OF sent_keeps(2)] body])
  from grows_tryE [OF this handler] show ?thesis
    unfolding process_batch_def by (rule grows_bindE [OF grows_keeps [OF sent_keeps(1)]])
qed

text \<open>A worker without a producer sends nothing; its batches mark the rows all the same.\<close>

lemma no_producer_sends_nothing:
  assumes "producer W = None"
  shows "keeps sent (process_batch W mk n)"
proof -
  have "keeps sent (publish_row W mk e)" for e
    unfolding publish_row_def assms option.case by (intro keeps_bindE keeps_liftE keeps_case_prod keeps_ret sent_keeps)
  then show ?thesis unfolding process_batch_def by (intro keep_intros sent_keeps)
qed

end

lemma fold_mark_row:
  "fold mark_row es tab i =
     map_option (\<lambda>r. if Some i \<in> ob_id ` set es then r\<lparr>ob_processed := True\<rparr> else r) (tab i)"
proof (induction es arbitrary: tab)
  case Nil
  show ?case by (cases "tab i") auto
next
  case (Cons e es)
  then show ?case by (cases "tab i"; cases "ob_id e") (auto simp: mark_row_def)
qed

context outbox_session
begin

lemma batch_body_cases:
  assumes "bindE (fetch W n) (\<lambda>events. if events = [] then ret ()
      else bindE (forE (publish_row W mk) events) (\<lambda>_. ob_commit W)) s = (r, s')" and v: "view s = com s"
  obtains (unchanged) "com s' = com s"
  | (committed) es where "com s' = fold mark_row es (com s)" "producer W \<noteq> None \<longrightarrow> (\<forall>e\<in>set es. \<exists>m. message_of mk e = Inr m \<and> m \<in> set (sent s'))"
      "set es \<subseteq> {r \<in> ran (com s). \<not> ob_processed r}"
proof -
  obtain r3 s3 where 3: "fetch W n s = (r3, s3)" by fastforce
  have com3: "com s3 = com s" "sent s3 = sent s" using fetch_com [of n s] 3 by simp_all
  show thesis
  proof (cases r3)
    case (Inl e)
    with 3 assms(1) com3 show thesis by (intro unchanged) (simp add: bindE_def)
  next
    case (Inr es)
    from fetch_ok [OF 3 [unfolded Inr]] v have v3: "view s3 = com s"
      and es: "set es \<subseteq> {r \<in> ran (com s). \<not> ob_processed r}" by (auto dest: in_set_takeD)
    obtain r4 s4 where 4: "forE (publish_row W mk) es s3 = (r4, s4)" by fastforce
    have com4: "com s4 = com s" using 4 com3 by (metis keepsD keeps_forE publish_row_keeps)
    show thesis
    proof (cases "es = [] \<or> (\<exists>e. r4 = Inl e)")
      case True
      with assms(1) 3 4 Inr show thesis using com3 com4
        by (intro unchanged; cases "es = []") (auto simp: bindE_def ret_def)
    next
      case False
      then obtain u where r4: "r4 = Inr u" by (cases r4) auto
      from publish_rows [OF 4 [unfolded r4]] v3 com3
      have v4: "view s4 = fold mark_row es (com s)" "producer W \<noteq> None \<Longrightarrow> \<forall>e\<in>set es. \<exists>m. message_of mk e = Inr m"
        "producer W \<noteq> None \<Longrightarrow> sent s4 = sent s @ map (\<lambda>e. projr (message_of mk e)) es" by auto
      from assms(1) 3 4 Inr r4 False have "ob_commit W s4 = (r, s')" by (simp add: bindE_def)
      then have c: "com s' = com s \<or> com s' = fold mark_row es (com s)" "sent s' = sent s4"
        using ob_commit_all_or_nothing [of s4] ob_commit_sent [of s4] v4 com4 by auto
      have "\<exists>m. message_of mk e = Inr m \<and> m \<in> set (sent s')" if "producer W \<noteq> None" "e \<in> set es" for e
        using v4(2,3) [OF that(1)] c(2) that(2) by force
      then show thesis using c(1) es unchanged committed by blast
    qed
  qed
qed

lemma process_batch_cases:
  assumes "process_batch W mk n s = (r, s')"
  obtains (unchanged) "com s' = com s"
  | (committed) es where "com s' = fold mark_row es (com s)" "producer W \<noteq> None \<longrightarrow> (\<forall>e\<in>set es. \<exists>m. message_of mk e = Inr m \<and> m \<in> set (sent s'))"
      "set es \<subseteq> {r \<in> ran (com s). \<not> ob_processed r}"
proof -
  obtain r1 s1 where 1: "ob_open W s = (r1, s1)" by fastforce
  have com1: "com s1 = com s" "sent s1 = sent s" using ob_open_com [of s] 1 by simp_all
  show thesis
  proof (cases r1)
    case (Inl e)
    with 1 assms com1 show thesis by (intro unchanged) (simp add: process_batch_def bindE_def)
  next
    case (Inr u)
    with 1 have v1: "view s1 = com s1" using ob_open_ok com1 by fastforce
    define body where "body = bindE (fetch W n) (\<lambda>events. if events = [] then ret ()
        else bindE (forE (publish_row W mk) events) (\<lambda>_. ob_commit W))"
    obtain r2 s2 where 2: "body s1 = (r2, s2)" by fastforce
    from 1 Inr assms have run: "tryE body (\<lambda>e. bindE (ob_rollback W) (\<lambda>_. raise e)) s1 = (r, s')"
      by (simp add: process_batch_def bindE_def [of "ob_open W"] body_def)
    have same: "com s' = com s2 \<and> sent s' = sent s2"
      using run 2 ob_rollback_com [of s2]
      by (cases r2) (auto simp: tryE_def bindE_def raise_def split: prod.splits sum.splits)
    from 2 [unfolded body_def] v1 show thesis
      by (cases rule: batch_body_cases) (use same com1 unchanged committed in auto)
  qed
qed

text \<open>
  At-least-once delivery: a row that a batch turns from unprocessed to processed in the committed table
  has its message at the broker, whatever failed, when the worker has a producer; and no row is lost or altered
  otherwise.
\<close>

lemma at_least_once:
  assumes "process_batch W mk n s = (r, s')" "com s i = Some row"
  obtains row' where "com s' i = Some row'" "row' \<in> {row, row\<lparr>ob_processed := True\<rparr>}"
    "row' \<noteq> row \<Longrightarrow> producer W \<noteq> None \<Longrightarrow> \<exists>m. message_of mk row = Inr m \<and> m \<in> set (sent s')"
  using assms(1)
proof (cases rule: process_batch_cases)
  case unchanged
  with assms(2) that show thesis by simp
next
  case (committed es)
  let ?row' = "if Some i \<in> ob_id ` set es then row\<lparr>ob_processed := True\<rparr> else row"
  have "\<exists>m. message_of mk row = Inr m \<and> m \<in> set (sent s')" if "?row' \<noteq> row" "producer W \<noteq> None"
  proof -
    from that(1) obtain e where e: "e \<in> set es" "ob_id e = Some i" by (auto split: if_splits)
    then have "e \<in> ran (com s)" using committed(3) by blast
    then obtain j where j: "com s j = Some e" by (auto simp: ran_def)
    with e(2) row_id [OF j] have "e = row" using assms(2) by simp
    with e(1) committed(2) that(2) show ?thesis by blast
  qed
  then show thesis using committed(1) assms(2) by (intro that [of ?row']) (auto simp: fold_mark_row)
qed

text \<open>The whole life of a worker: any number of turns.\<close>

lemma at_least_once_turns:
  "com s i = Some row \<Longrightarrow> s' = ((\<lambda>s. snd (process_batch W mk n s)) ^^ k) s \<Longrightarrow>
   set (sent s) \<subseteq> set (sent s') \<and> (\<exists>row'. com s' i = Some row' \<and> row' \<in> {row, row\<lparr>ob_processed := True\<rparr>} \<and>
     (row' \<noteq> row \<longrightarrow> producer W \<noteq> None \<longrightarrow> (\<exists>m. message_of mk row = Inr m \<and> m \<in> set (sent s'))))"
proof (induction k arbitrary: s row)
  case (Suc k)
  obtain r s1 where 1: "process_batch W mk n s = (r, s1)" by fastforce
  have mono: "set (sent s) \<subseteq> set (sent s1)" using process_batch_grows 1 by (metis grows_def snd_conv)
  obtain row1 where row1: "com s1 i = Some row1" "row1 \<in> {row, row\<lparr>ob_processed := True\<rparr>}"
      "row1 \<noteq> row \<Longrightarrow> producer W \<noteq> None \<Longrightarrow> \<exists>m. message_of mk row = Inr m \<and> m \<in> set (sent s1)"
    using at_least_once [OF 1 Suc.prems(1)] by blast
  have s': "s' = ((\<lambda>s. snd (process_batch W mk n s)) ^^ k) s1" using Suc.prems(2) 1 unfolding funpow_Suc_right by simp
  from Suc.IH [OF row1(1) s'] obtain row' where IH: "set (sent s1) \<subseteq> set (sent s')" "com s' i = Some row'"
      "row' \<in> {row1, row1\<lparr>ob_processed := True\<rparr>}"
      "row' \<noteq> row1 \<longrightarrow> producer W \<noteq> None \<longrightarrow> (\<exists>m. message_of mk row1 = Inr m \<and> m \<in> set (sent s'))" by blast
  show ?case
  proof (cases "row1 = row")
    case True
    with mono IH show ?thesis by auto
  next
    case False
    then have "row' = row\<lparr>ob_processed := True\<rparr>" using row1(2) IH(3) by auto
    with False row1(3) mono IH show ?thesis by blast
  qed
qed simp

text \<open>The cleanup deletes processed rows only.\<close>

lemma cleanup_keeps_unprocessed:
  assumes "run_cleanup W now retention s = (r, s')" "com s i = Some row" "\<not> ob_processed row"
  shows "com s' i = Some row"
proof -
  obtain r1 s1 where 1: "ob_open W s = (r1, s1)" by fastforce
  have com1: "com s1 = com s" using ob_open_com [of s] 1 by simp
  obtain r2 s2 where 2: "purge W (expired (now - retention)) s1 = (r2, s2)" by fastforce
  have com2: "com s2 = com s" using purge_com [of "expired (now - retention)" s1] 2 com1 by simp
  have c: "com (snd (ob_commit W t)) \<in> {com t, view t}" "com (snd (ob_rollback W t)) = com t" for t
    using ob_commit_all_or_nothing ob_rollback_com by auto
  show ?thesis
  proof (cases r1)
    case (Inl e)
    with 1 assms com1 show ?thesis by (simp add: run_cleanup_def bindE_def)
  next
    case r1: (Inr u)
    have v1: "view s1 = com s" using ob_open_ok 1 r1 by blast
    show ?thesis
    proof (cases r2)
      case (Inl e)
      with 1 2 r1 assms(1) have "com s' = com s"
        using com2 c(2) [of s2] by (auto simp: run_cleanup_def bindE_def tryE_def raise_def split: prod.splits sum.splits)
      with assms show ?thesis by simp
    next
      case (Inr k)
      have v2: "view s2 i = Some row"
        using purge_ok [OF 2 [unfolded Inr]] v1 assms(2,3) by (simp add: expired_def)
      obtain r3 s3 where 3: "ob_commit W s2 = (r3, s3)" by fastforce
      have "com s' = com s3"
        using 1 2 3 r1 Inr assms(1) c(2) [of s3]
        by (cases r3) (auto simp: run_cleanup_def bindE_def tryE_def raise_def split: prod.splits sum.splits)
      then have "com s' \<in> {com s2, view s2}" using c(1) [of s2] 3 by simp
      with v2 com2 assms(2) show ?thesis by auto
    qed
  qed
qed

end

text \<open>When nothing fails, the oldest rows of the batch are sent in order, marked and committed.\<close>

locale outbox_session_live = outbox_session +
  assumes ob_open_live: "\<exists>s'. ob_open W s = (Inr (), s')"
    and fetch_live: "\<exists>rs s'. fetch W n s = (Inr rs, s')"
    and mark_live: "\<exists>s'. mark W r s = (Inr (), s')"
    and send_live: "\<exists>send. producer W = Some send \<and> (\<forall>m s. \<exists>s'. send m s = (Inr (), s'))"
    and ob_commit_live: "\<exists>s'. ob_commit W s = (Inr (), s')"
begin

lemma has_producer: "producer W \<noteq> None"
  using send_live by blast

lemma sent_rows:
  "forE (publish_row W mk) es s = (Inr u, s') \<Longrightarrow> sent s' = sent s @ map (\<lambda>e. projr (message_of mk e)) es"
  using publish_rows [of mk es s u s'] has_producer by auto

lemma publish_rows_live:
  "\<forall>e\<in>set es. \<exists>m. message_of mk e = Inr m \<Longrightarrow> \<exists>s'. forE (publish_row W mk) es s = (Inr (), s')"
proof (induction es arbitrary: s)
  case Nil
  show ?case by (simp add: ret_run)
next
  case (Cons e es)
  then obtain k ce where m: "mk e = Inr (Inr k, ce)" by (auto simp: message_of_def bindS_eq_Inr_iff)
  obtain send where send: "producer W = Some send" "\<And>m s. \<exists>s'. send m s = (Inr (), s')" using send_live by blast
  obtain s1 where 1: "send (k, ce) s = (Inr (), s1)" using send(2) by blast
  obtain s2 where 2: "mark W e s1 = (Inr (), s2)" using mark_live by blast
  have "publish_row W mk e s = (Inr (), s2)" using m send(1) 1 2 by (simp add: publish_row_def bindE_def liftE_def)
  moreover obtain s3 where "forE (publish_row W mk) es s2 = (Inr (), s3)" using Cons by auto
  ultimately show ?case by (auto simp: bindE_def)
qed

lemma process_batch_live:
  assumes "\<And>r. r \<in> ran (com s) \<Longrightarrow> \<not> ob_processed r \<Longrightarrow> \<exists>m. message_of mk r = Inr m"
  obtains all s' where "process_batch W mk n s = (Inr (), s')"
    "set all = {r \<in> ran (com s). \<not> ob_processed r}"
    "sorted_wrt (\<lambda>a b. the (ob_created_at a) \<le> the (ob_created_at b)) all" "distinct (map ob_id all)"
    "sent s' = sent s @ map (\<lambda>e. projr (message_of mk e)) (take n all)" "com s' = fold mark_row (take n all) (com s)"
proof -
  obtain s1 where 1: "ob_open W s = (Inr (), s1)" using ob_open_live by blast
  have v1: "view s1 = com s" "com s1 = com s" "sent s1 = sent s"
    using ob_open_ok [OF 1] ob_open_com [of s] 1 by simp_all
  obtain rs s2 where 2: "fetch W n s1 = (Inr rs, s2)" using fetch_live by blast
  from fetch_ok [OF 2] v1 obtain all where v2: "view s2 = com s" and rs: "rs = take n all"
    and all: "distinct (map ob_id all)" "set all = {r \<in> ran (com s). \<not> ob_processed r}"
      "sorted_wrt (\<lambda>a b. the (ob_created_at a) \<le> the (ob_created_at b)) all" by auto
  have c2: "com s2 = com s" "sent s2 = sent s" using fetch_com [of n s1] 2 v1 by simp_all
  have "\<forall>e\<in>set rs. \<exists>m. message_of mk e = Inr m" using assms all(2) rs by (auto dest: in_set_takeD)
  then obtain s3 where 3: "forE (publish_row W mk) rs s2 = (Inr (), s3)" using publish_rows_live by blast
  obtain s4 where 4: "ob_commit W s3 = (Inr (), s4)" using ob_commit_live by blast
  show thesis
  proof (cases "rs = []")
    case True
    then have "process_batch W mk n s = (Inr (), s2)"
      using 1 2 by (simp add: process_batch_def bindE_def tryE_def ret_def)
    then show thesis using True rs c2 all by (intro that [of s2 all]) auto
  next
    case False
    then have "process_batch W mk n s = (Inr (), s4)"
      using 1 2 3 4 by (simp add: process_batch_def bindE_def tryE_def)
    moreover have "sent s4 = sent s @ map (\<lambda>e. projr (message_of mk e)) rs" "com s4 = fold mark_row rs (com s)"
      using publish_rows [OF 3] sent_rows [OF 3] ob_commit_ok [OF 4] ob_commit_sent [of s3] 4 v2 c2 by simp_all
    ultimately show thesis using rs all by (intro that [of s4 all]) auto
  qed
qed

end

text \<open>
  Draining: a batch takes the oldest rows, so the batches of consecutive turns together send all unprocessed
  rows in the order of their creation; \<open>k\<close> turns are enough for \<open>k\<close> batches.
\<close>

context outbox_session_live
begin

definition unsent where
  "unsent s = {r \<in> ran (com s). \<not> ob_processed r}"

lemma unsent_after:
  assumes all: "set all = unsent s" "distinct (map ob_id all)" and com': "com s' = fold mark_row (take n all) (com s)"
  shows "unsent s' = set (drop n all)"
proof -
  have ids: "ob_id r \<in> ob_id ` set (take n all) \<longleftrightarrow> r \<in> set (take n all)" if "r \<in> set all" for r
    using that all(2) by (auto simp: distinct_map inj_on_def dest: in_set_takeD)
  have "distinct all" using all(2) by (simp add: distinct_map)
  then have "set (take n all) \<inter> set (drop n all) = {}" by (simp add: set_take_disj_set_drop_if_distinct)
  moreover have "set all = set (take n all) \<union> set (drop n all)" by (metis append_take_drop_id set_append)
  ultimately have split: "set (drop n all) = set all - set (take n all)" by blast
  show ?thesis
  proof (intro set_eqI iffI)
    fix r assume "r \<in> unsent s'"
    then obtain i where i: "com s' i = Some r" "\<not> ob_processed r" by (auto simp: unsent_def ran_def)
    then obtain r0 where r0: "com s i = Some r0"
        "r = (if Some i \<in> ob_id ` set (take n all) then r0\<lparr>ob_processed := True\<rparr> else r0)"
      unfolding com' fold_mark_row by (cases "com s i") simp_all
    with i(2) have r: "com s i = Some r" "Some i \<notin> ob_id ` set (take n all)" by (auto split: if_splits)
    then have "r \<in> set all" using i(2) all(1) by (auto simp: unsent_def ran_def)
    with r(2) row_id [OF r(1)] ids [of r] show "r \<in> set (drop n all)" by (simp add: split)
  next
    fix r assume r: "r \<in> set (drop n all)"
    then have "r \<in> unsent s" using all(1) by (auto dest: in_set_dropD)
    then obtain i where i: "com s i = Some r" "\<not> ob_processed r" by (auto simp: unsent_def ran_def)
    have "Some i \<notin> ob_id ` set (take n all)" using r ids [of r] row_id [OF i(1)] split by auto
    with i have "com s' i = Some r" by (simp add: com' fold_mark_row)
    with i(2) show "r \<in> unsent s'" by (auto simp: unsent_def ran_def)
  qed
qed

theorem turns_drain:
  assumes "\<forall>r\<in>unsent s. \<exists>m. message_of mk r = Inr m" "card (unsent s) \<le> k * n" "finite (unsent s)"
  shows "\<exists>all s'. turns (process_batch W mk n) k s = (Inr (), s') \<and> set all = unsent s \<and>
    sorted_wrt (\<lambda>a b. the (ob_created_at a) \<le> the (ob_created_at b)) all \<and> distinct (map ob_id all) \<and>
    sent s' = sent s @ map (\<lambda>e. projr (message_of mk e)) all \<and> com s' = fold mark_row all (com s)"
  using assms
proof (induction k arbitrary: s)
  case 0
  then show ?case by (intro exI [of _ "[]"] exI [of _ s]) (simp add: ret_def)
next
  case (Suc k)
  obtain all s1 where 1: "process_batch W mk n s = (Inr (), s1)" and all: "set all = unsent s"
      "sorted_wrt (\<lambda>a b. the (ob_created_at a) \<le> the (ob_created_at b)) all" "distinct (map ob_id all)"
    and s1: "sent s1 = sent s @ map (\<lambda>e. projr (message_of mk e)) (take n all)" "com s1 = fold mark_row (take n all) (com s)"
    by (rule process_batch_live [of s mk n]) (use Suc.prems(1) in \<open>auto simp: unsent_def\<close>)
  have left: "unsent s1 = set (drop n all)" by (rule unsent_after [OF all(1,3) s1(2)])
  have "distinct all" using all(3) by (simp add: distinct_map)
  then have "card (unsent s) = length all" "card (unsent s1) = length (drop n all)"
    unfolding left all(1) [symmetric] by (simp_all add: distinct_card)
  then have few: "card (unsent s1) \<le> k * n" using Suc.prems(2) by simp
  have msgs: "\<forall>r\<in>unsent s1. \<exists>m. message_of mk r = Inr m"
    using left all(1) Suc.prems(1) by (auto dest: in_set_dropD)
  have fin: "finite (unsent s1)" unfolding left by simp
  from Suc.IH [OF msgs few fin] obtain rest s2 where 2: "turns (process_batch W mk n) k s1 = (Inr (), s2)"
    and rest: "set rest = unsent s1" "sorted_wrt (\<lambda>a b. the (ob_created_at a) \<le> the (ob_created_at b)) rest" "distinct (map ob_id rest)"
    and s2: "sent s2 = sent s1 @ map (\<lambda>e. projr (message_of mk e)) rest" "com s2 = fold mark_row rest (com s1)"
    by (elim exE conjE) (rule that)
  have parts: "sorted_wrt (\<lambda>a b. the (ob_created_at a) \<le> the (ob_created_at b)) (take n all @ drop n all)"
    "distinct (map ob_id (take n all @ drop n all))" using all by simp_all
  have "ob_id ` set rest = ob_id ` set (drop n all)" using rest(1) left by simp
  then have "distinct (map ob_id (take n all @ rest))" using parts(2) rest(3) by (simp only: map_append distinct_append set_map)
  moreover have "sorted_wrt (\<lambda>a b. the (ob_created_at a) \<le> the (ob_created_at b)) (take n all @ rest)"
    using parts(1) rest(1,2) left by (simp only: sorted_wrt_append) simp
  moreover have "set (take n all @ rest) = unsent s"
    using rest(1) left all(1) append_take_drop_id [of n all] by (metis set_append)
  moreover have "turns (process_batch W mk n) (Suc k) s = (Inr (), s2)"
    using 1 2 by (simp add: bindE_def poll_turn_def tryE_def)
  ultimately show ?case
    using s1 s2 by (intro exI [of _ "take n all @ rest"] exI [of _ s2]) simp
qed

text \<open>The whole life of a worker: after its last turn nothing is left unsent.\<close>

theorem poll_loop_drains:
  assumes "\<forall>r\<in>unsent s. \<exists>m. message_of mk r = Inr m" "card (unsent s) \<le> Suc k * n" "finite (unsent s)"
  shows "\<exists>all s'. outbox_poll_loop W mk n k w s = ((if w = SleepCancelled then Inl CancelledError else Inr ()), s') \<and>
    set all = unsent s \<and> sorted_wrt (\<lambda>a b. the (ob_created_at a) \<le> the (ob_created_at b)) all \<and> distinct (map ob_id all) \<and>
    sent s' = sent s @ map (\<lambda>e. projr (message_of mk e)) all \<and> com s' = fold mark_row all (com s) \<and> unsent s' = {}"
proof -
  obtain all s' where 1: "turns (process_batch W mk n) (Suc k) s = (Inr (), s')" and all: "set all = unsent s"
      "sorted_wrt (\<lambda>a b. the (ob_created_at a) \<le> the (ob_created_at b)) all" "distinct (map ob_id all)"
    and s': "sent s' = sent s @ map (\<lambda>e. projr (message_of mk e)) all" "com s' = fold mark_row all (com s)"
    using turns_drain [OF assms] by (elim exE conjE) (rule that)
  have "outbox_poll_loop W mk n k w s = ((if w = SleepCancelled then Inl CancelledError else Inr ()), s')"
    using 1 unfolding turns_run outbox_poll_loop_def poll_loop_run by simp
  moreover have "unsent s' = {}" using unsent_after [OF all(1,3), of s' "length all"] s'(2) by simp
  ultimately show ?thesis using all s' by (intro exI [of _ all] exI [of _ s'] conjI)
qed

end

section \<open>A reference session\<close>

record mem_ob =
  mo_view :: "(int, outbox_model) alist"
  mo_com :: "(int, outbox_model) alist"
  mo_sent :: "kafka_msg list"

definition ob_rows :: "(int, outbox_model) alist \<Rightarrow> (int \<rightharpoonup> outbox_model)" where
  "ob_rows t i = map_option (\<lambda>r. r\<lparr>ob_id := Some i\<rparr>) (DAList.lookup t i)"

definition ob_list :: "(int, outbox_model) alist \<Rightarrow> outbox_model list" where
  "ob_list t = map (\<lambda>(i, r). r\<lparr>ob_id := Some i\<rparr>) (DAList.impl_of t)"

definition mem_mark :: "outbox_model \<Rightarrow> (int, outbox_model) alist \<Rightarrow> (int, outbox_model) alist" where
  "mem_mark r t = (case ob_id r of None \<Rightarrow> t | Some i \<Rightarrow>
     (case DAList.lookup t i of None \<Rightarrow> t | Some r0 \<Rightarrow> DAList.update i (r0\<lparr>ob_processed := True\<rparr>) t))"

definition mem_ob :: "(mem_ob, 'e) ob_session" where
  "mem_ob = \<lparr>ob_open = (\<lambda>s. (Inr (), s\<lparr>mo_view := mo_com s\<rparr>)),
     fetch = (\<lambda>n s. (Inr (take n (sort_key (\<lambda>r. the (ob_created_at r))
        (filter (\<lambda>r. \<not> ob_processed r) (ob_list (mo_view s))))), s)),
     mark = (\<lambda>r s. (Inr (), s\<lparr>mo_view := mem_mark r (mo_view s)\<rparr>)),
     purge = (\<lambda>P s. (Inr (length (filter P (ob_list (mo_view s)))),
        s\<lparr>mo_view := DAList.filter (\<lambda>(i, r). \<not> P (r\<lparr>ob_id := Some i\<rparr>)) (mo_view s)\<rparr>)),
     producer = Some (\<lambda>m s. (Inr (), s\<lparr>mo_sent := mo_sent s @ [m]\<rparr>)),
     ob_commit = (\<lambda>s. (Inr (), s\<lparr>mo_com := mo_view s\<rparr>)),
     ob_rollback = (\<lambda>s. (Inr (), s\<lparr>mo_view := mo_com s\<rparr>))\<rparr>"

lemma ob_rows_alt: "ob_rows t = map_of (map (\<lambda>(i, r). (i, r\<lparr>ob_id := Some i\<rparr>)) (DAList.impl_of t))"
proof (rule ext)
  fix i
  have "map_of (map (\<lambda>(i, r). (i, r\<lparr>ob_id := Some i\<rparr>)) xs) i = map_option (\<lambda>r. r\<lparr>ob_id := Some i\<rparr>) (map_of xs i)"
    for xs :: "(int \<times> outbox_model) list" by (induction xs) auto
  then show "ob_rows t i = map_of (map (\<lambda>(i, r). (i, r\<lparr>ob_id := Some i\<rparr>)) (DAList.impl_of t)) i"
    by (simp add: ob_rows_def DAList.lookup.rep_eq)
qed

lemma ob_list_ids: "map ob_id (ob_list t) = map (Some \<circ> fst) (DAList.impl_of t)"
  by (auto simp: ob_list_def)

lemma ob_list_distinct: "distinct (map ob_id (ob_list t))"
proof -
  have "distinct (map fst (DAList.impl_of t))" using impl_of [of t] by simp
  then have "distinct (map Some (map fst (DAList.impl_of t)))" by (subst distinct_map) (simp add: inj_on_def)
  then show ?thesis by (simp add: ob_list_ids)
qed

lemma set_ob_list: "set (ob_list t) = ran (ob_rows t)"
proof -
  have "distinct (map fst (map (\<lambda>(i, r). (i, r\<lparr>ob_id := Some i\<rparr>)) (DAList.impl_of t)))"
    using impl_of [of t] by (simp add: comp_def case_prod_beta)
  then show ?thesis
    unfolding ob_rows_alt by (simp add: ran_distinct ob_list_def image_image case_prod_beta)
qed

lemma mem_mark_rows: "ob_rows (mem_mark r t) = mark_row r (ob_rows t)"
  by (rule ext) (auto simp: mem_mark_def mark_row_def ob_rows_def DAList.lookup.rep_eq DAList.update.rep_eq
      update_conv' split: option.splits)

lemma mem_fetch_law:
  assumes "rs = take n (sort_key (\<lambda>r. the (ob_created_at r)) (filter (\<lambda>r. \<not> ob_processed r) (ob_list t)))"
  shows "\<exists>all. rs = take n all \<and> distinct (map ob_id all) \<and> set all = {r \<in> ran (ob_rows t). \<not> ob_processed r} \<and>
         sorted_wrt (\<lambda>a b. the (ob_created_at a) \<le> the (ob_created_at b)) all"
proof -
  let ?f = "\<lambda>r. the (ob_created_at r)" and ?xs = "filter (\<lambda>r. \<not> ob_processed r) (ob_list t)"
  have "distinct (map ob_id ?xs)" using ob_list_distinct by (rule distinct_map_filter)
  then have "distinct (map ob_id (sort_key ?f ?xs))" by (simp only: distinct_map distinct_sort set_sort)
  moreover have "sorted_wrt (\<lambda>a b. ?f a \<le> ?f b) (sort_key ?f ?xs)"
    using sorted_sort_key [of ?f ?xs] by (simp add: sorted_wrt_map)
  moreover have "set (sort_key ?f ?xs) = {r \<in> ran (ob_rows t). \<not> ob_processed r}"
    by (auto simp: set_ob_list)
  ultimately show ?thesis using assms by blast
qed

interpretation ob: outbox_session_live "mem_ob" "\<lambda>s. ob_rows (mo_view s)" "\<lambda>s. ob_rows (mo_com s)" mo_sent
proof unfold_locales
  show "ob_rows (mo_view s') = ob_rows (mo_view s) \<and>
      (\<exists>all. rs = take n all \<and> distinct (map ob_id all) \<and> set all = {r \<in> ran (ob_rows (mo_view s)). \<not> ob_processed r} \<and>
         sorted_wrt (\<lambda>a b. the (ob_created_at a) \<le> the (ob_created_at b)) all)"
    if "fetch mem_ob n s = (Inr rs, s')" for n s rs s'
    using that by (auto simp: mem_ob_def intro: mem_fetch_law)
  show "ob_rows (mo_view s') = (\<lambda>i. case ob_rows (mo_view s) i of None \<Rightarrow> None | Some r \<Rightarrow> if P r then None else Some r)"
    if "purge mem_ob P s = (Inr n, s')" for P s n s'
  proof -
    have "map_of (filter (\<lambda>(i, r). \<not> P (r\<lparr>ob_id := Some i\<rparr>)) xs) i =
        (case map_of xs i of None \<Rightarrow> None | Some r \<Rightarrow> if P (r\<lparr>ob_id := Some i\<rparr>) then None else Some r)"
      if "distinct (map fst xs)" for i and xs :: "(int \<times> outbox_model) list"
      using that by (induction xs) (auto split: option.splits simp: map_of_eq_None_iff)
    then show ?thesis
      using that impl_of [of "mo_view s"]
      by (auto simp: mem_ob_def ob_rows_def DAList.lookup.rep_eq DAList.filter.rep_eq split: option.splits)
  qed
qed (auto simp: mem_ob_def mem_mark_rows, auto simp: ob_rows_def)

end
