(* ===== verification/Proto_Events.thy ===== *)
theory Proto_Events
  imports Prelude
begin

text \<open>
  What the event publishers of the services share: protobuf messages as a name with typed fields, the
  width of their integer fields, and the kebab-case names of the events.
\<close>

section \<open>Protobuf messages\<close>

datatype pb_value = PStr string | PInt int | PInt32 int | PTime int | PStrs "string list"

record proto_msg =
  pm_name :: string
  pm_fields :: "(string \<times> pb_value) list"

text \<open>An integer field is an \<open>int64\<close> (\<open>PInt\<close>) or an \<open>int32\<close>; \<open>PStrs\<close> is a repeated string.\<close>

definition int64 :: "int \<Rightarrow> bool" where
  "int64 x \<longleftrightarrow> - (2 ^ 63) \<le> x \<and> x < 2 ^ 63"

definition pb_encodable :: "proto_msg \<Rightarrow> bool" where
  "pb_encodable m \<longleftrightarrow> (\<forall>(f, v) \<in> set (pm_fields m). case v of PInt x \<Rightarrow> int64 x | PInt32 x \<Rightarrow> - (2 ^ 31) \<le> x \<and> x < 2 ^ 31 | _ \<Rightarrow> True)"

section \<open>Kebab case\<close>

text \<open>
  \<open>_to_kebab_case\<close>.  \<open>sub_word\<close> is \<open>re.sub("(.)([A-Z][a-z]+)", r"\1-\2", name)\<close> and \<open>sub_camel\<close> is
  \<open>re.sub("([a-z0-9])([A-Z])", r"\1-\2", s1)\<close>: leftmost matches that do not overlap.
\<close>

definition is_upper :: "char \<Rightarrow> bool" where
  "is_upper c \<longleftrightarrow> 65 \<le> (of_char c :: nat) \<and> (of_char c :: nat) \<le> 90"

definition is_lower :: "char \<Rightarrow> bool" where
  "is_lower c \<longleftrightarrow> 97 \<le> (of_char c :: nat) \<and> (of_char c :: nat) \<le> 122"

definition is_digit :: "char \<Rightarrow> bool" where
  "is_digit c \<longleftrightarrow> 48 \<le> (of_char c :: nat) \<and> (of_char c :: nat) \<le> 57"

function sub_word :: "string \<Rightarrow> string" where
  "sub_word (c # u # rest) =
     (if c \<noteq> CHR 0x0A \<and> is_upper u \<and> takeWhile is_lower rest \<noteq> []
      then c # CHR ''-'' # u # takeWhile is_lower rest @ sub_word (dropWhile is_lower rest)
      else c # sub_word (u # rest))"
| "sub_word [c] = [c]"
| "sub_word [] = []"
  by pat_completeness auto
termination
  by (relation "measure length") (auto intro: le_imp_less_Suc le_SucI length_dropWhile_le)

fun sub_camel :: "string \<Rightarrow> string" where
  "sub_camel (c # u # rest) =
     (if (is_lower c \<or> is_digit c) \<and> is_upper u
      then c # CHR ''-'' # u # sub_camel rest
      else c # sub_camel (u # rest))"
| "sub_camel [c] = [c]"
| "sub_camel [] = []"

definition to_kebab_case :: "string \<Rightarrow> string" where
  "to_kebab_case name = py_lower (sub_camel (sub_word name))"

end
