(* ===== verification/Finance_Store.thy ===== *)
theory Finance_Store
  imports Finance_Domain Sql_Tables Outbox_Worker Proto_Events
begin

text \<open>
  Persistence and event publication of the finance service: the mapped tables (\<open>models.py\<close>), the
  repositories (\<open>repositories.py\<close>), the event mapper (\<open>event_mapper.py\<close>) and the outbox publisher
  (\<open>DatabaseEventPublisher\<close>).  The record \<open>fin_session\<close> collects what the code gets from outside:
  the SQLAlchemy session, the clock, \<open>uuid4\<close> and the generated protobuf classes; the locales
  \<open>fin_session\<close> and \<open>fin_session_live\<close> hold the laws it relies on.
\<close>

section \<open>Mapped tables\<close>

text \<open>
  An unset attribute of a model object is \<open>None\<close>; the server fills the timestamps.  Balances and
  amounts are \<open>Integer\<close> columns: four bytes, signed.
\<close>

record wallet_model =
  wm_wallet_id :: string
  wm_user_id :: string
  wm_available_balance :: int
  wm_frozen_balance :: int
  wm_created_at :: "int option"
  wm_updated_at :: "int option"

record escrow_model =
  em_escrow_id :: string
  em_booking_id :: string
  em_amount :: int
  em_status :: string
  em_created_at :: "int option"
  em_updated_at :: "int option"

record transaction_model =
  tm_transaction_id :: string
  tm_user_id :: string
  tm_amount :: int
  tm_type :: TransactionType
  tm_status :: string
  tm_reference_id :: string
  tm_created_at :: "int option"

definition wallet_fits :: "wallet_model \<Rightarrow> bool" where
  "wallet_fits r \<longleftrightarrow> length (wm_wallet_id r) \<le> 36 \<and> length (wm_user_id r) \<le> 36 \<and>
     int32 (wm_available_balance r) \<and> int32 (wm_frozen_balance r)"

definition escrow_fits :: "escrow_model \<Rightarrow> bool" where
  "escrow_fits r \<longleftrightarrow> length (em_escrow_id r) \<le> 36 \<and> length (em_booking_id r) \<le> 36 \<and>
     int32 (em_amount r) \<and> length (em_status r) \<le> 20"

definition transaction_fits :: "transaction_model \<Rightarrow> bool" where
  "transaction_fits r \<longleftrightarrow> length (tm_transaction_id r) \<le> 36 \<and> length (tm_user_id r) \<le> 36 \<and>
     int32 (tm_amount r) \<and> length (tm_status r) \<le> 20 \<and> length (tm_reference_id r) \<le> 36"

text \<open>
  The stored row carries every attribute set on the model object; \<open>merge\<close> leaves the others to the
  stored row or to the column default.
\<close>

definition wallet_agree :: "wallet_model \<Rightarrow> wallet_model \<Rightarrow> bool" where
  "wallet_agree r r' \<longleftrightarrow>
     wm_wallet_id r' = wm_wallet_id r \<and> wm_user_id r' = wm_user_id r \<and>
     wm_available_balance r' = wm_available_balance r \<and> wm_frozen_balance r' = wm_frozen_balance r"

definition escrow_agree :: "escrow_model \<Rightarrow> escrow_model \<Rightarrow> bool" where
  "escrow_agree r r' \<longleftrightarrow>
     em_escrow_id r' = em_escrow_id r \<and> em_booking_id r' = em_booking_id r \<and>
     em_amount r' = em_amount r \<and> em_status r' = em_status r"

definition transaction_agree :: "transaction_model \<Rightarrow> transaction_model \<Rightarrow> bool" where
  "transaction_agree r r' \<longleftrightarrow>
     tm_transaction_id r' = tm_transaction_id r \<and> tm_user_id r' = tm_user_id r \<and>
     tm_amount r' = tm_amount r \<and> tm_type r' = tm_type r \<and> tm_status r' = tm_status r \<and>
     tm_reference_id r' = tm_reference_id r \<and>
     (tm_created_at r \<noteq> None \<longrightarrow> tm_created_at r' = tm_created_at r)"

lemmas agree_defs = wallet_agree_def escrow_agree_def transaction_agree_def outbox_agree_def
lemmas fits_defs = wallet_fits_def escrow_fits_def transaction_fits_def

text \<open>The content of the service's database.\<close>

record fin_db =
  wallets :: "string \<rightharpoonup> wallet_model"
  escrows :: "string \<rightharpoonup> escrow_model"
  transactions :: "string \<rightharpoonup> transaction_model"
  outbox :: "outbox_model list"

section \<open>Protobuf messages\<close>

text \<open>
  \<open>EventMapper.to_protobuf\<close>: \<open>event_id\<close> is the fresh identifier (no event of this service has an
  \<open>event_id\<close> or \<open>transaction_id\<close> attribute of its own), \<open>occurred\<close> the current time.
\<close>

fun to_protobuf :: "domain_event \<Rightarrow> string \<Rightarrow> int \<Rightarrow> proto_msg" where
  "to_protobuf (CoinsFrozen wallet_id user_id amt booking_id) event_id occurred =
     \<lparr>pm_name = ''CoinsFrozen'', pm_fields =
       [(''transaction_id'', PStr event_id), (''booking_id'', PStr booking_id),
        (''user_id'', PStr user_id), (''amount'', PInt amt), (''occurred_at'', PTime occurred)]\<rparr>"
| "to_protobuf (CoinsUnfrozen wallet_id user_id amt booking_id) event_id occurred =
     \<lparr>pm_name = ''CoinsUnfrozen'', pm_fields =
       [(''transaction_id'', PStr event_id), (''booking_id'', PStr booking_id),
        (''user_id'', PStr user_id), (''amount'', PInt amt), (''occurred_at'', PTime occurred)]\<rparr>"
| "to_protobuf (EscrowCreated booking_id amt) event_id occurred =
     \<lparr>pm_name = ''EscrowCreated'', pm_fields =
       [(''booking_id'', PStr booking_id), (''amount'', PInt amt), (''occurred_at'', PTime occurred)]\<rparr>"
| "to_protobuf (PayoutProcessed booking_id companion_id amt commission net) event_id occurred =
     \<lparr>pm_name = ''PayoutProcessed'', pm_fields =
       [(''booking_id'', PStr booking_id), (''companion_id'', PStr companion_id),
        (''amount'', PInt amt), (''commission_amount'', PInt commission),
        (''net_amount'', PInt net), (''occurred_at'', PTime occurred)]\<rparr>"
| "to_protobuf (EscrowRefunded booking_id client_id refund_amount) event_id occurred =
     \<lparr>pm_name = ''EscrowRefunded'', pm_fields =
       [(''booking_id'', PStr booking_id), (''client_id'', PStr client_id),
        (''refund_amount'', PInt refund_amount), (''occurred_at'', PTime occurred)]\<rparr>"
| "to_protobuf (WalletToppedUp wallet_id user_id amt vnpay_amount_vnd) event_id occurred =
     \<lparr>pm_name = ''WalletToppedUp'', pm_fields =
       [(''transaction_id'', PStr event_id), (''user_id'', PStr user_id), (''amount'', PInt amt),
        (''vnpay_amount_vnd'', PInt vnpay_amount_vnd), (''occurred_at'', PTime occurred)]\<rparr>"
| "to_protobuf (EscrowFailed booking_id client_id reason) event_id occurred =
     \<lparr>pm_name = ''EscrowFailed'', pm_fields =
       [(''booking_id'', PStr booking_id), (''client_id'', PStr client_id),
        (''reason'', PStr reason), (''occurred_at'', PTime occurred)]\<rparr>"
| "to_protobuf (RefundFailed booking_id client_id reason) event_id occurred =
     \<lparr>pm_name = ''RefundFailed'', pm_fields =
       [(''booking_id'', PStr booking_id), (''client_id'', PStr client_id),
        (''reason'', PStr reason), (''occurred_at'', PTime occurred)]\<rparr>"
| "to_protobuf (CoinsFreezeFailed booking_id user_id amt reason) event_id occurred =
     \<lparr>pm_name = ''CoinsFreezeFailed'', pm_fields =
       [(''booking_id'', PStr booking_id), (''user_id'', PStr user_id), (''amount'', PInt amt),
        (''reason'', PStr reason), (''occurred_at'', PTime occurred)]\<rparr>"

section \<open>What comes from outside\<close>

text \<open>
  \<open>pb_json\<close> builds the generated message, turns it into a dictionary and dumps it as JSON
  (\<open>MessageToDict\<close>, \<open>json.dumps\<close>); it raises when a value does not fit its field.  \<open>txn_page P o l\<close> is
  the query \<open>WHERE P ORDER BY created_at DESC OFFSET o LIMIT l\<close>.  \<open>open_session\<close> is the start of a block
  \<open>async with session_factory() as session\<close>: the block's transaction begins with the committed content,
  and what it leaves uncommitted is discarded when it closes.
\<close>

record 's fin_session =
  open_session :: "('s, exn, unit) eff"
  uuid4 :: "('s, exn, string) eff"
  utcnow :: "('s, exn, int) eff"
  pb_json :: "proto_msg \<Rightarrow> exn + string"
  wallet_merge :: "wallet_model \<Rightarrow> ('s, exn, unit) eff"
  wallet_select :: "bool \<Rightarrow> (wallet_model \<Rightarrow> bool) \<Rightarrow> ('s, exn, wallet_model list) eff"
  escrow_merge :: "escrow_model \<Rightarrow> ('s, exn, unit) eff"
  escrow_select :: "bool \<Rightarrow> (escrow_model \<Rightarrow> bool) \<Rightarrow> ('s, exn, escrow_model list) eff"
  txn_merge :: "transaction_model \<Rightarrow> ('s, exn, unit) eff"
  txn_select :: "bool \<Rightarrow> (transaction_model \<Rightarrow> bool) \<Rightarrow> ('s, exn, transaction_model list) eff"
  txn_count :: "(transaction_model \<Rightarrow> bool) \<Rightarrow> ('s, exn, nat) eff"
  txn_page :: "(transaction_model \<Rightarrow> bool) \<Rightarrow> nat \<Rightarrow> nat \<Rightarrow> ('s, exn, transaction_model list) eff"
  outbox_add :: "outbox_model \<Rightarrow> ('s, exn, unit) eff"
  commit :: "('s, exn, unit) eff"
  rollback :: "('s, exn, unit) eff"

section \<open>Repositories\<close>

definition wallet_to_model :: "wallet \<Rightarrow> wallet_model" where
  "wallet_to_model w =
     \<lparr>wm_wallet_id = w_wallet_id w, wm_user_id = w_user_id w,
      wm_available_balance = amount (available_balance w),
      wm_frozen_balance = amount (frozen_balance w), wm_created_at = None, wm_updated_at = None\<rparr>"

definition wallet_to_domain :: "wallet_model \<Rightarrow> exn + wallet" where
  "wallet_to_domain m =
     bindS (Money (wm_available_balance m)) (\<lambda>available.
     bindS (Money (wm_frozen_balance m)) (\<lambda>frozen.
     Inr \<lparr>w_wallet_id = wm_wallet_id m, w_user_id = wm_user_id m,
          available_balance = available, frozen_balance = frozen, w_events = []\<rparr>))"

definition WalletRepository_save :: "'s fin_session \<Rightarrow> wallet \<Rightarrow> ('s, exn, unit) eff" where
  "WalletRepository_save S w = wallet_merge S (wallet_to_model w)"

definition WalletRepository_find_by_id ::
  "'s fin_session \<Rightarrow> string \<Rightarrow> bool \<Rightarrow> ('s, exn, wallet option) eff" where
  "WalletRepository_find_by_id S wallet_id lock =
     bindE (wallet_select S lock (\<lambda>m. wm_wallet_id m = wallet_id)) (\<lambda>rs.
     liftE (option_map_exn wallet_to_domain (first_row rs)))"

definition WalletRepository_find_by_user_id ::
  "'s fin_session \<Rightarrow> string \<Rightarrow> bool \<Rightarrow> ('s, exn, wallet option) eff" where
  "WalletRepository_find_by_user_id S user_id lock =
     bindE (wallet_select S lock (\<lambda>m. wm_user_id m = user_id)) (\<lambda>rs.
     liftE (option_map_exn wallet_to_domain (first_row rs)))"

definition escrow_to_model :: "escrow \<Rightarrow> escrow_model" where
  "escrow_to_model e =
     \<lparr>em_escrow_id = e_escrow_id e, em_booking_id = e_booking_id e, em_amount = amount (e_amount e),
      em_status = e_status e, em_created_at = None, em_updated_at = None\<rparr>"

definition escrow_to_domain :: "escrow_model \<Rightarrow> exn + escrow" where
  "escrow_to_domain m =
     bindS (Money (em_amount m)) (\<lambda>amt.
     Inr \<lparr>e_escrow_id = em_escrow_id m, e_booking_id = em_booking_id m, e_amount = amt,
          e_status = em_status m, e_events = []\<rparr>)"

definition EscrowRepository_save :: "'s fin_session \<Rightarrow> escrow \<Rightarrow> ('s, exn, unit) eff" where
  "EscrowRepository_save S e = escrow_merge S (escrow_to_model e)"

definition EscrowRepository_find_by_id ::
  "'s fin_session \<Rightarrow> string \<Rightarrow> bool \<Rightarrow> ('s, exn, escrow option) eff" where
  "EscrowRepository_find_by_id S escrow_id lock =
     bindE (escrow_select S lock (\<lambda>m. em_escrow_id m = escrow_id)) (\<lambda>rs.
     liftE (option_map_exn escrow_to_domain (first_row rs)))"

definition EscrowRepository_find_by_booking_id ::
  "'s fin_session \<Rightarrow> string \<Rightarrow> bool \<Rightarrow> ('s, exn, escrow option) eff" where
  "EscrowRepository_find_by_booking_id S booking_id lock =
     bindE (escrow_select S lock (\<lambda>m. em_booking_id m = booking_id)) (\<lambda>rs.
     liftE (option_map_exn escrow_to_domain (first_row rs)))"

definition transaction_to_model :: "txn \<Rightarrow> transaction_model" where
  "transaction_to_model t =
     \<lparr>tm_transaction_id = t_transaction_id t, tm_user_id = t_user_id t, tm_amount = amount (t_amount t),
      tm_type = t_type t, tm_status = t_status t, tm_reference_id = t_reference_id t,
      tm_created_at = t_created_at t\<rparr>"

definition transaction_to_domain :: "transaction_model \<Rightarrow> exn + txn" where
  "transaction_to_domain m =
     bindS (Money (tm_amount m)) (\<lambda>amt.
     Inr \<lparr>t_transaction_id = tm_transaction_id m, t_user_id = tm_user_id m, t_amount = amt,
          t_type = tm_type m, t_status = tm_status m, t_reference_id = tm_reference_id m,
          t_created_at = tm_created_at m\<rparr>)"

definition TransactionRepository_save :: "'s fin_session \<Rightarrow> txn \<Rightarrow> ('s, exn, unit) eff" where
  "TransactionRepository_save S t = txn_merge S (transaction_to_model t)"

definition TransactionRepository_find_by_id ::
  "'s fin_session \<Rightarrow> string \<Rightarrow> bool \<Rightarrow> ('s, exn, txn option) eff" where
  "TransactionRepository_find_by_id S transaction_id lock =
     bindE (txn_select S lock (\<lambda>m. tm_transaction_id m = transaction_id)) (\<lambda>rs.
     liftE (option_map_exn transaction_to_domain (first_row rs)))"

definition TransactionRepository_find_by_reference_id ::
  "'s fin_session \<Rightarrow> string \<Rightarrow> TransactionType \<Rightarrow> bool \<Rightarrow> ('s, exn, txn option) eff" where
  "TransactionRepository_find_by_reference_id S reference_id type lock =
     bindE (txn_select S lock (\<lambda>m. tm_reference_id m = reference_id \<and> tm_type m = type)) (\<lambda>rs.
     liftE (option_map_exn transaction_to_domain (first_row rs)))"

definition TransactionRepository_find_by_user_id ::
  "'s fin_session \<Rightarrow> string \<Rightarrow> nat \<Rightarrow> nat \<Rightarrow> ('s, exn, txn list \<times> nat) eff" where
  "TransactionRepository_find_by_user_id S user_id limit offset =
     bindE (txn_count S (\<lambda>m. tm_user_id m = user_id)) (\<lambda>total.
     bindE (txn_page S (\<lambda>m. tm_user_id m = user_id) offset limit) (\<lambda>models.
     bindE (liftE (list_map_exn transaction_to_domain models)) (\<lambda>txns.
     ret (txns, total))))"

section \<open>The outbox publisher\<close>

definition event_type_of :: "proto_msg \<Rightarrow> string" where
  "event_type_of m = ''finance.'' @ to_kebab_case (pm_name m) @ ''.v1''"

definition publish :: "'s fin_session \<Rightarrow> domain_event \<Rightarrow> ('s, exn, unit) eff" where
  "publish S event =
     bindE (utcnow S) (\<lambda>occurred.
     bindE (uuid4 S) (\<lambda>pb_event_id.
     let proto_msg = to_protobuf event pb_event_id occurred in
     bindE (liftE (pb_json S proto_msg)) (\<lambda>payload.
     bindE (uuid4 S) (\<lambda>event_id.
     outbox_add S
       \<lparr>ob_id = None, ob_event_id = event_id, ob_event_type = event_type_of proto_msg,
        ob_payload = payload, ob_created_at = None, ob_processed = False\<rparr>))))"

end
