(* ===== verification/Finance_Session.thy ===== *)
theory Finance_Session
  imports Finance_Store
begin

text \<open>
  The laws of the finance session, the contract the repositories give their clients, and the reference
  session on which closed examples run.  \<open>db_ok\<close> is the well-formedness of the database content that
  the schema and the domain layer maintain: rows stand under their primary key, unique columns are
  unique, and no balance or amount is negative (INV-F01) or wider than its column.
\<close>

section \<open>Well-formed database content\<close>

definition db_ok :: "fin_db \<Rightarrow> bool" where
  "db_ok db \<longleftrightarrow>
     table_ok wm_wallet_id wm_user_id (wallets db) \<and>
     table_ok em_escrow_id em_booking_id (escrows db) \<and>
     table_ok tm_transaction_id tm_transaction_id (transactions db) \<and>
     (\<forall>r\<in>ran (wallets db). wallet_fits r \<and> 0 \<le> wm_available_balance r \<and> 0 \<le> wm_frozen_balance r) \<and>
     (\<forall>r\<in>ran (escrows db). escrow_fits r \<and> 0 \<le> em_amount r) \<and>
     (\<forall>r\<in>ran (transactions db). transaction_fits r \<and> 0 \<le> tm_amount r)"

lemma db_ok_tables:
  assumes "db_ok db"
  shows "table_ok wm_wallet_id wm_user_id (wallets db)" "table_ok em_escrow_id em_booking_id (escrows db)"
    "table_ok tm_transaction_id tm_transaction_id (transactions db)"
  using assms by (simp_all add: db_ok_def)

section \<open>Laws of the session\<close>

locale fin_session =
  wt: sql_table "wallet_merge S" "wallet_select S" view com wallets "\<lambda>m. wallets_update (\<lambda>_. m)"
    wm_wallet_id wm_user_id wallet_fits wallet_agree +
  et: sql_table "escrow_merge S" "escrow_select S" view com escrows "\<lambda>m. escrows_update (\<lambda>_. m)"
    em_escrow_id em_booking_id escrow_fits escrow_agree +
  tt: sql_table "txn_merge S" "txn_select S" view com transactions "\<lambda>m. transactions_update (\<lambda>_. m)"
    tm_transaction_id tm_transaction_id transaction_fits transaction_agree +
  tx: sql_txn "commit S" "rollback S" view com +
  uu: sql_frame "uuid4 S" view com +
  nw: sql_frame "utcnow S" view com
  for S :: "'s fin_session" and view :: "'s \<Rightarrow> fin_db" and com :: "'s \<Rightarrow> fin_db" +
  assumes open_ok: "open_session S s = (Inr u, s') \<Longrightarrow> view s' = com s"
    and open_com: "com (snd (open_session S s)) = com s"
    and uuid_length: "uuid4 S s = (Inr i, s') \<Longrightarrow> length i = 36"
    and outbox_add_ok: "outbox_add S r s = (Inr u, s') \<Longrightarrow>
      (\<exists>r'. outbox_agree r r' \<and> view s' = (view s)\<lparr>outbox := outbox (view s) @ [r']\<rparr>)"
    and outbox_add_com: "com (snd (outbox_add S r s)) = com s"
    and txn_count_ok: "txn_count S P s = (Inr n, s') \<Longrightarrow>
      n = card {k. \<exists>r. transactions (view s) k = Some r \<and> P r} \<and> view s' = view s"
    and txn_count_com: "com (snd (txn_count S P s)) = com s"
    and txn_page_ok: "txn_page S P off lim s = (Inr rs, s') \<Longrightarrow>
      table_ok tm_transaction_id tm_transaction_id (transactions (view s)) \<Longrightarrow>
      (\<exists>all. set all = {r \<in> ran (transactions (view s)). P r} \<and> distinct (map tm_transaction_id all) \<and>
         sorted_wrt (\<lambda>a b. the (tm_created_at b) \<le> the (tm_created_at a)) all \<and>
         rs = take lim (drop off all)) \<and> view s' = view s"
    and txn_page_com: "com (snd (txn_page S P off lim s)) = com s"
begin

lemma open_keeps [keep_intros]: "keeps com (open_session S)"
  by (simp add: keeps_def open_com)

lemma outbox_add_keeps [keep_intros]: "keeps com (outbox_add S r)"
  by (simp add: keeps_def outbox_add_com)

lemma txn_count_keeps [keep_intros]: "keeps com (txn_count S P)"
  by (simp add: keeps_def txn_count_com)

lemma txn_page_keeps [keep_intros]: "keeps com (txn_page S P off lim)"
  by (simp add: keeps_def txn_page_com)

end

locale fin_session_live = fin_session S view com +
  wt: sql_table_live "wallet_merge S" "wallet_select S" view com wallets "\<lambda>m. wallets_update (\<lambda>_. m)"
    wm_wallet_id wm_user_id wallet_fits wallet_agree +
  et: sql_table_live "escrow_merge S" "escrow_select S" view com escrows "\<lambda>m. escrows_update (\<lambda>_. m)"
    em_escrow_id em_booking_id escrow_fits escrow_agree +
  tt: sql_table_live "txn_merge S" "txn_select S" view com transactions
    "\<lambda>m. transactions_update (\<lambda>_. m)" tm_transaction_id tm_transaction_id transaction_fits
    transaction_agree +
  tx: sql_txn_live "commit S" "rollback S" view com +
  uu: sql_frame_live "uuid4 S" view com +
  nw: sql_frame_live "utcnow S" view com
  for S :: "'s fin_session" and view :: "'s \<Rightarrow> fin_db" and com :: "'s \<Rightarrow> fin_db" +
  assumes open_live: "\<exists>s'. open_session S s = (Inr (), s')"
    and outbox_add_live: "\<exists>s'. outbox_add S r s = (Inr (), s')"
    and txn_count_live: "\<exists>n s'. txn_count S P s = (Inr n, s')"
    and txn_page_live: "\<exists>rs s'. txn_page S P off lim s = (Inr rs, s')"
    and pb_json_live: "pb_encodable m \<Longrightarrow> \<exists>p. pb_json S m = Inr p"
begin

lemma open_runs:
  obtains s' where "open_session S s = (Inr (), s')" "view s' = com s" "com s' = com s"
proof -
  obtain s' where o: "open_session S s = (Inr (), s')" using open_live by blast
  then show thesis using that open_ok [OF o] open_com [of s] by simp
qed

text \<open>An encodable event adds one outbox row; nothing else changes and nothing is committed.\<close>

lemma publish_appends:
  assumes "\<And>i t. pb_encodable (to_protobuf event i t)"
  obtains row i t s' where "publish S event s = (Inr (), s')" "length (ob_event_id row) = 36"
    "ob_event_type row = event_type_of (to_protobuf event i t)"
    "pb_json S (to_protobuf event i t) = Inr (ob_payload row)" "\<not> ob_processed row"
    "view s' = (view s)\<lparr>outbox := outbox (view s) @ [row]\<rparr>" "com s' = com s"
proof -
  obtain t s1 where 1: "utcnow S s = (Inr t, s1)" "view s1 = view s" "com s1 = com s"
    by (rule nw.frame_runs)
  obtain i s2 where 2: "uuid4 S s1 = (Inr i, s2)" "view s2 = view s" "com s2 = com s"
    using 1 by (metis uu.frame_runs)
  obtain p where p: "pb_json S (to_protobuf event i t) = Inr p" using pb_json_live assms by blast
  obtain j s3 where 3: "uuid4 S s2 = (Inr j, s3)" "view s3 = view s" "com s3 = com s"
    using 2 by (metis uu.frame_runs)
  let ?row = "\<lparr>ob_id = None, ob_event_id = j, ob_event_type = event_type_of (to_protobuf event i t),
    ob_payload = p, ob_created_at = None, ob_processed = False\<rparr>"
  obtain s4 where 4: "outbox_add S ?row s3 = (Inr (), s4)" using outbox_add_live by blast
  obtain row where row: "outbox_agree ?row row" "view s4 = (view s3)\<lparr>outbox := outbox (view s3) @ [row]\<rparr>"
    using outbox_add_ok [OF 4] by blast
  have "publish S event s = (Inr (), s4)"
    using 1 2 3 4 p by (simp add: publish_def eff_simps Let_def)
  moreover have "com s4 = com s3" using outbox_add_com [of ?row s3] 4 by simp
  ultimately show thesis
    using that [of s4 row i t] row p 3 uuid_length [OF 3(1)] by (simp add: outbox_agree_def)
qed

end

section \<open>The repository contract\<close>

text \<open>
  What \<open>IWalletRepository\<close>, \<open>IEscrowRepository\<close> and \<open>ITransactionRepository\<close> promise the command
  service when the connection is up and the content is well formed: a lookup by a unique column gives
  the row or nothing and changes nothing.
\<close>

definition wallet_of :: "wallet_model \<Rightarrow> wallet" where
  "wallet_of m = \<lparr>w_wallet_id = wm_wallet_id m, w_user_id = wm_user_id m,
     available_balance = \<lparr>amount = wm_available_balance m\<rparr>,
     frozen_balance = \<lparr>amount = wm_frozen_balance m\<rparr>, w_events = []\<rparr>"

definition escrow_of :: "escrow_model \<Rightarrow> escrow" where
  "escrow_of m = \<lparr>e_escrow_id = em_escrow_id m, e_booking_id = em_booking_id m,
     e_amount = \<lparr>amount = em_amount m\<rparr>, e_status = em_status m, e_events = []\<rparr>"

definition txn_of :: "transaction_model \<Rightarrow> txn" where
  "txn_of m = \<lparr>t_transaction_id = tm_transaction_id m, t_user_id = tm_user_id m,
     t_amount = \<lparr>amount = tm_amount m\<rparr>, t_type = tm_type m, t_status = tm_status m,
     t_reference_id = tm_reference_id m, t_created_at = tm_created_at m\<rparr>"

lemma wallet_to_domain_ok:
  "0 \<le> wm_available_balance m \<Longrightarrow> 0 \<le> wm_frozen_balance m \<Longrightarrow> wallet_to_domain m = Inr (wallet_of m)"
  by (simp add: wallet_to_domain_def wallet_of_def Money_def)

lemma escrow_to_domain_ok: "0 \<le> em_amount m \<Longrightarrow> escrow_to_domain m = Inr (escrow_of m)"
  by (simp add: escrow_to_domain_def escrow_of_def Money_def)

lemma transaction_to_domain_ok: "0 \<le> tm_amount m \<Longrightarrow> transaction_to_domain m = Inr (txn_of m)"
  by (simp add: transaction_to_domain_def txn_of_def Money_def)

lemmas to_domain_ok = wallet_to_domain_ok escrow_to_domain_ok transaction_to_domain_ok

context fin_session_live
begin

lemma find_wallet_found:
  assumes "db_ok (view s)" and "wallets (view s) k = Some r" and "wm_user_id r = u"
  obtains s' where "WalletRepository_find_by_user_id S u lock s = (Inr (Some (wallet_of r)), s')"
    "view s' = view s" "com s' = com s"
proof -
  obtain rs s' where sel: "wallet_select S lock (\<lambda>m. wm_user_id m = u) s = (Inr rs, s')"
    "set rs = {r \<in> ran (wallets (view s)). wm_user_id r = u}" "view s' = view s" "com s' = com s"
    by (rule wt.select_finds)
  have r: "r \<in> ran (wallets (view s))" using assms(2) by (rule ranI)
  have "first_row rs = Some r"
    using sel(2) r assms(3)
    by (rule first_row_unique)
      (use assms r in \<open>auto simp: db_ok_def intro: table_ok_unique [of wm_wallet_id wm_user_id]\<close>)
  moreover have "wallet_to_domain r = Inr (wallet_of r)"
    using assms(1) r by (auto simp: db_ok_def intro: wallet_to_domain_ok)
  ultimately show thesis
    using sel by (intro that [of s'])
      (simp_all add: WalletRepository_find_by_user_id_def eff_simps option_map_exn_def)
qed

lemma find_wallet_none:
  assumes "\<And>r. r \<in> ran (wallets (view s)) \<Longrightarrow> wm_user_id r \<noteq> u"
  obtains s' where "WalletRepository_find_by_user_id S u lock s = (Inr None, s')"
    "view s' = view s" "com s' = com s"
proof -
  obtain rs s' where sel: "wallet_select S lock (\<lambda>m. wm_user_id m = u) s = (Inr rs, s')"
    "set rs = {r \<in> ran (wallets (view s)). wm_user_id r = u}" "view s' = view s" "com s' = com s"
    by (rule wt.select_finds)
  have "first_row rs = None" using sel(2) assms by (rule first_row_None)
  then show thesis
    using sel by (intro that [of s'])
      (simp_all add: WalletRepository_find_by_user_id_def eff_simps option_map_exn_def)
qed

lemma find_escrow_found:
  assumes "db_ok (view s)" and "escrows (view s) k = Some r" and "em_booking_id r = b"
  obtains s' where "EscrowRepository_find_by_booking_id S b lock s = (Inr (Some (escrow_of r)), s')"
    "view s' = view s" "com s' = com s"
proof -
  obtain rs s' where sel: "escrow_select S lock (\<lambda>m. em_booking_id m = b) s = (Inr rs, s')"
    "set rs = {r \<in> ran (escrows (view s)). em_booking_id r = b}" "view s' = view s" "com s' = com s"
    by (rule et.select_finds)
  have r: "r \<in> ran (escrows (view s))" using assms(2) by (rule ranI)
  have "first_row rs = Some r"
    using sel(2) r assms(3)
    by (rule first_row_unique)
      (use assms r in \<open>auto simp: db_ok_def intro: table_ok_unique [of em_escrow_id em_booking_id]\<close>)
  moreover have "escrow_to_domain r = Inr (escrow_of r)"
    using assms(1) r by (auto simp: db_ok_def intro: escrow_to_domain_ok)
  ultimately show thesis
    using sel by (intro that [of s'])
      (simp_all add: EscrowRepository_find_by_booking_id_def eff_simps option_map_exn_def)
qed

lemma find_escrow_none:
  assumes "\<And>r. r \<in> ran (escrows (view s)) \<Longrightarrow> em_booking_id r \<noteq> b"
  obtains s' where "EscrowRepository_find_by_booking_id S b lock s = (Inr None, s')"
    "view s' = view s" "com s' = com s"
proof -
  obtain rs s' where sel: "escrow_select S lock (\<lambda>m. em_booking_id m = b) s = (Inr rs, s')"
    "set rs = {r \<in> ran (escrows (view s)). em_booking_id r = b}" "view s' = view s" "com s' = com s"
    by (rule et.select_finds)
  have "first_row rs = None" using sel(2) assms by (rule first_row_None)
  then show thesis
    using sel by (intro that [of s'])
      (simp_all add: EscrowRepository_find_by_booking_id_def eff_simps option_map_exn_def)
qed

lemma find_txn_found:
  assumes "db_ok (view s)" and "transactions (view s) k = Some r"
  obtains s' where "TransactionRepository_find_by_id S k lock s = (Inr (Some (txn_of r)), s')"
    "view s' = view s" "com s' = com s"
proof -
  obtain rs s' where sel: "txn_select S lock (\<lambda>m. tm_transaction_id m = k) s = (Inr rs, s')"
    "set rs = {r \<in> ran (transactions (view s)). tm_transaction_id r = k}" "view s' = view s" "com s' = com s"
    by (rule tt.select_finds)
  have r: "r \<in> ran (transactions (view s))" using assms(2) by (rule ranI)
  have k: "tm_transaction_id r = k" using assms by (auto simp: db_ok_def table_ok_def)
  have "first_row rs = Some r"
    using sel(2) r k
    by (rule first_row_unique)
      (use assms r k in \<open>auto simp: db_ok_def intro: table_ok_unique [of tm_transaction_id tm_transaction_id]\<close>)
  moreover have "transaction_to_domain r = Inr (txn_of r)"
    using assms(1) r by (auto simp: db_ok_def intro: transaction_to_domain_ok)
  ultimately show thesis
    using sel by (intro that [of s'])
      (simp_all add: TransactionRepository_find_by_id_def eff_simps option_map_exn_def)
qed

lemma find_txn_none:
  assumes "db_ok (view s)" and "transactions (view s) k = None"
  obtains s' where "TransactionRepository_find_by_id S k lock s = (Inr None, s')"
    "view s' = view s" "com s' = com s"
proof -
  obtain rs s' where sel: "txn_select S lock (\<lambda>m. tm_transaction_id m = k) s = (Inr rs, s')"
    "set rs = {r \<in> ran (transactions (view s)). tm_transaction_id r = k}" "view s' = view s" "com s' = com s"
    by (rule tt.select_finds)
  have "r \<in> ran (transactions (view s)) \<Longrightarrow> tm_transaction_id r \<noteq> k" for r
    using assms by (auto simp: db_ok_def table_ok_def ran_def)
  with sel(2) have "first_row rs = None" by (rule first_row_None)
  then show thesis
    using sel by (intro that [of s'])
      (simp_all add: TransactionRepository_find_by_id_def eff_simps option_map_exn_def)
qed

text \<open>
  A lookup by reference and type is not by a unique column: when several rows match, it gives one
  of them.
\<close>

lemma find_ref_found:
  assumes "db_ok (view s)" and "transactions (view s) k = Some r"
    and "tm_reference_id r = b" "tm_type r = ty"
  obtains k' r' s' where
    "TransactionRepository_find_by_reference_id S b ty lock s = (Inr (Some (txn_of r')), s')"
    "transactions (view s) k' = Some r'" "tm_reference_id r' = b" "tm_type r' = ty"
    "view s' = view s" "com s' = com s"
proof -
  obtain rs s' where sel: "txn_select S lock (\<lambda>m. tm_reference_id m = b \<and> tm_type m = ty) s = (Inr rs, s')"
    "set rs = {r \<in> ran (transactions (view s)). tm_reference_id r = b \<and> tm_type r = ty}"
    "view s' = view s" "com s' = com s"
    by (rule tt.select_finds)
  obtain r' where r': "first_row rs = Some r'" "r' \<in> ran (transactions (view s))"
      "tm_reference_id r' = b \<and> tm_type r' = ty"
    by (rule first_row_some [OF sel(2), of r]) (use assms in \<open>auto intro: ranI\<close>)
  moreover have "transaction_to_domain r' = Inr (txn_of r')"
    using assms(1) r'(2) by (auto simp: db_ok_def intro: transaction_to_domain_ok)
  moreover have "transactions (view s) (tm_transaction_id r') = Some r'"
    using assms(1) r'(2) by (auto simp: db_ok_def intro: table_ok_ran)
  ultimately show thesis
    using sel by (intro that [of r' s' "tm_transaction_id r'"])
      (simp_all add: TransactionRepository_find_by_reference_id_def eff_simps option_map_exn_def)
qed

lemma find_ref_none:
  assumes "\<And>r. r \<in> ran (transactions (view s)) \<Longrightarrow> \<not> (tm_reference_id r = b \<and> tm_type r = ty)"
  obtains s' where "TransactionRepository_find_by_reference_id S b ty lock s = (Inr None, s')"
    "view s' = view s" "com s' = com s"
proof -
  obtain rs s' where sel: "txn_select S lock (\<lambda>m. tm_reference_id m = b \<and> tm_type m = ty) s = (Inr rs, s')"
    "set rs = {r \<in> ran (transactions (view s)). tm_reference_id r = b \<and> tm_type r = ty}"
    "view s' = view s" "com s' = com s"
    by (rule tt.select_finds)
  have "first_row rs = None" using sel(2) assms by (rule first_row_None)
  then show thesis
    using sel by (intro that [of s'])
      (simp_all add: TransactionRepository_find_by_reference_id_def eff_simps option_map_exn_def)
qed

end

end
