(* ===== verification/Finance_VNPay.thy ===== *)
theory Finance_VNPay
  imports Finance_Store "HOL-Library.Char_ord" "HOL-Library.List_Lexorder" "HOL-Library.Product_Lexorder"
    "HOL-Library.Multiset"
begin

text \<open>
  The VNPay adapter (\<open>vnpay.py\<close>): signed payment URLs and the signature check of the payment callback.
  A parameter dictionary is an association list.  The HMAC-SHA512 primitive is a field of the adapter,
  as a function from secret and message to the hexadecimal digest.  The theory also models Python's
  \<open>urllib.parse.urlencode\<close> and \<open>int(str)\<close>, which the adapter and the callback handler call.
\<close>

type_synonym params = "(string \<times> string) list"

record vnpay_adapter =
  tmn_code :: string
  hash_secret :: string
  payment_url :: string
  return_url :: string
  hmac_sha512 :: "string \<Rightarrow> string \<Rightarrow> string"

section \<open>URL encoding\<close>

definition hex_digit :: "nat \<Rightarrow> char" where
  "hex_digit n = (if n < 10 then char_of (48 + n) else char_of (55 + n))"

text \<open>The characters \<open>quote_plus\<close> leaves alone: letters, digits and \<open>_.-~\<close>.\<close>

definition always_safe :: "char \<Rightarrow> bool" where
  "always_safe c \<longleftrightarrow> is_upper c \<or> is_lower c \<or> is_digit c \<or> c \<in> set ''_.-~''"

definition quote_char :: "char \<Rightarrow> string" where
  "quote_char c =
     (if c = CHR '' '' then ''+''
      else if always_safe c then [c]
      else [CHR ''%'', hex_digit (of_char c div 16), hex_digit (of_char c mod 16)])"

definition quote_plus :: "string \<Rightarrow> string" where
  "quote_plus s = concat (map quote_char s)"

fun join_amp :: "string list \<Rightarrow> string" where
  "join_amp [] = []"
| "join_amp [x] = x"
| "join_amp (x # xs) = x @ ''&'' @ join_amp xs"

definition urlencode :: "params \<Rightarrow> string" where
  "urlencode ps = join_amp (map (\<lambda>(k, v). quote_plus k @ ''='' @ quote_plus v) ps)"

section \<open>Signing and checking\<close>

definition sign :: "vnpay_adapter \<Rightarrow> string \<Rightarrow> string" where
  "sign A query_string = hmac_sha512 A (hash_secret A) query_string"

definition payment_params :: "vnpay_adapter \<Rightarrow> string \<Rightarrow> int \<Rightarrow> string \<Rightarrow> string \<Rightarrow> params" where
  "payment_params A txn_ref amount_vnd ip_address create_date =
     [(''vnp_Version'', ''2.1.0''),
      (''vnp_Command'', ''pay''),
      (''vnp_TmnCode'', tmn_code A),
      (''vnp_Amount'', show_int (amount_vnd * 100)),
      (''vnp_CurrCode'', ''VND''),
      (''vnp_TxnRef'', txn_ref),
      (''vnp_OrderInfo'', ''Topup Kano-Coin for transaction '' @ txn_ref),
      (''vnp_OrderType'', ''other''),
      (''vnp_Locale'', ''vn''),
      (''vnp_ReturnUrl'', return_url A),
      (''vnp_IpAddr'', ip_address),
      (''vnp_CreateDate'', create_date)]"

definition generate_payment_url :: "vnpay_adapter \<Rightarrow> string \<Rightarrow> int \<Rightarrow> string \<Rightarrow> string \<Rightarrow> string" where
  "generate_payment_url A txn_ref amount_vnd ip_address create_date =
     (let query_string = urlencode (sort (payment_params A txn_ref amount_vnd ip_address create_date))
      in payment_url A @ ''?'' @ query_string @ ''&vnp_SecureHash='' @ sign A query_string)"

definition clean_params :: "params \<Rightarrow> params" where
  "clean_params ps = filter (\<lambda>(k, v). k \<notin> {''vnp_SecureHash'', ''vnp_SecureHashType''}) ps"

definition validate_ipn_signature :: "vnpay_adapter \<Rightarrow> params \<Rightarrow> bool" where
  "validate_ipn_signature A vnp_params =
     (case map_of vnp_params ''vnp_SecureHash'' of
        None \<Rightarrow> False
      | Some received_hash \<Rightarrow>
          received_hash \<noteq> [] \<and>
          py_lower (sign A (urlencode (sort (clean_params vnp_params)))) = py_lower received_hash)"

section \<open>\<open>int(str)\<close>\<close>

text \<open>
  ASCII decimal literals as Python's \<open>int\<close> reads them: surrounding white space, a sign, digits with
  single underscores between them.
\<close>

fun read_digits :: "int \<Rightarrow> string \<Rightarrow> int option" where
  "read_digits acc [] = Some acc"
| "read_digits acc (c # d # cs) =
     (if c = CHR ''_'' then (if is_digit d then read_digits (10 * acc + int (of_char d - 48)) cs else None)
      else if is_digit c then read_digits (10 * acc + int (of_char c - 48)) (d # cs) else None)"
| "read_digits acc [c] = (if is_digit c then Some (10 * acc + int (of_char c - 48)) else None)"

definition read_nat :: "string \<Rightarrow> int option" where
  "read_nat s = (case s of [] \<Rightarrow> None | c # cs \<Rightarrow> if is_digit c then read_digits 0 s else None)"

definition py_int :: "string \<Rightarrow> exn + int" where
  "py_int s =
     (let t = py_strip s;
          r = (case t of
                 [] \<Rightarrow> None
               | c # cs \<Rightarrow> if c = CHR ''-'' then map_option uminus (read_nat cs)
                           else if c = CHR ''+'' then read_nat cs else read_nat t)
      in case r of Some i \<Rightarrow> Inr i
         | None \<Rightarrow> Inl (PyValueError (''invalid literal for int() with base 10: '' @ [CHR 0x27] @ s @ [CHR 0x27])))"

section \<open>Reading back what was written\<close>

lemma digit_char:
  assumes "n < 10"
  shows "is_digit (char_of (48 + n))" "of_char (char_of (48 + n) :: char) - (48::nat) = n"
    "char_of (48 + n) \<noteq> CHR ''_''" "char_of (48 + n) \<noteq> CHR ''-''" "char_of (48 + n) \<noteq> CHR ''+''"
    "\<not> is_space (char_of (48 + n))"
proof -
  have "(of_char (char_of (48 + n) :: char) :: nat) = 48 + n" using assms by simp
  then show "is_digit (char_of (48 + n))" "of_char (char_of (48 + n) :: char) - (48::nat) = n"
    "char_of (48 + n) \<noteq> CHR ''_''" "char_of (48 + n) \<noteq> CHR ''-''" "char_of (48 + n) \<noteq> CHR ''+''"
    "\<not> is_space (char_of (48 + n))"
    using assms
    by (auto simp: is_digit_def is_space_def dest!: arg_cong [where f = "of_char :: char \<Rightarrow> nat"])
qed

definition digit_value :: "char \<Rightarrow> int" where
  "digit_value c = int (of_char c - 48)"

lemma show_nat_digits: "c \<in> set (show_nat n) \<Longrightarrow> \<exists>d::nat. d < 10 \<and> c = char_of (48 + d)"
proof (induction n rule: show_nat.induct)
  case (1 n)
  show ?case
  proof (cases "n < 10")
    case True
    with "1.prems" show ?thesis by (subst (asm) show_nat.simps) auto
  next
    case False
    with "1.prems" have "c \<in> set (show_nat (n div 10)) \<or> c = char_of (48 + n mod 10)"
      by (subst (asm) show_nat.simps) auto
    moreover have "n mod 10 < 10" by simp
    ultimately show ?thesis using "1.IH" [OF False] by blast
  qed
qed

lemma show_nat_value: "foldl (\<lambda>a c. 10 * a + digit_value c) 0 (show_nat n) = int n"
proof (induction n rule: show_nat.induct)
  case (1 n)
  have d: "digit_value (char_of (48 + n mod 10)) = int (n mod 10)"
    using digit_char(2) [of "n mod 10"] by (simp add: digit_value_def)
  show ?case
  proof (cases "n < 10")
    case True
    with d show ?thesis by (subst show_nat.simps) (simp add: mod_less)
  next
    case False
    have "10 * int (n div 10) + int (n mod 10) = int n" by presburger
    with "1.IH" [OF False] d False show ?thesis by (subst show_nat.simps) (simp only: foldl_append foldl.simps if_False)
  qed
qed

lemma read_digits_foldl:
  "(\<And>c. c \<in> set ds \<Longrightarrow> is_digit c \<and> c \<noteq> CHR ''_'') \<Longrightarrow>
   read_digits acc ds = Some (foldl (\<lambda>a c. 10 * a + digit_value c) acc ds)"
  by (induction acc ds rule: read_digits.induct) (auto simp: digit_value_def)

lemma read_nat_show: "read_nat (show_nat n) = Some (int n)"
proof -
  have digits: "is_digit c \<and> c \<noteq> CHR ''_''" if "c \<in> set (show_nat n)" for c
    using show_nat_digits [OF that] digit_char(1,3) by metis
  obtain c cs where c: "show_nat n = c # cs" using show_nat_nonempty [of n] by (cases "show_nat n") auto
  then have "read_nat (show_nat n) = read_digits 0 (show_nat n)" using digits [of c] by (simp add: read_nat_def)
  then show ?thesis using read_digits_foldl [OF digits] show_nat_value by simp
qed

lemma py_int_show: "py_int (show_int i) = Inr i"
proof -
  have dig: "\<not> is_space c \<and> c \<noteq> CHR ''-'' \<and> c \<noteq> CHR ''+''" if "c \<in> set (show_nat n)" for c n
    using show_nat_digits [OF that] digit_char(4-6) by metis
  have minus: "\<not> is_space CHR ''-''" by (simp add: is_space_def)
  show ?thesis
  proof (cases "i < 0")
    case True
    then have s: "show_int i = CHR ''-'' # show_nat (nat (- i))" by (simp add: show_int_def)
    have "py_strip (show_int i) = show_int i" by (rule py_strip_id) (use s dig minus in auto)
    with s True show ?thesis by (simp add: py_int_def Let_def read_nat_show)
  next
    case False
    then have s: "show_int i = show_nat (nat i)" by (simp add: show_int_def)
    obtain c cs where c: "show_nat (nat i) = c # cs" using show_nat_nonempty [of "nat i"] by (cases "show_nat (nat i)") auto
    have "py_strip (show_int i) = show_int i" by (rule py_strip_id) (use s dig in auto)
    then show ?thesis
      using s c dig [of c "nat i"] read_nat_show [of "nat i"] False by (simp add: py_int_def Let_def)
  qed
qed

section \<open>Signatures\<close>

lemma sort_perm: "mset xs = mset ys \<Longrightarrow> sort xs = sort (ys :: params)"
  by (metis mset_sort properties_for_sort sorted_sort)

lemma clean_params_mset: "mset ps = mset qs \<Longrightarrow> mset (clean_params ps) = mset (clean_params qs)"
  by (simp add: clean_params_def mset_filter)

lemma map_of_perm:
  assumes "mset ps = mset qs" "distinct (map fst ps)"
  shows "map_of ps k = map_of qs k"
proof -
  have "mset (map fst ps) = mset (map fst qs)" using assms(1) by simp
  then have "distinct (map fst qs)" using assms(2) by (metis mset_eq_imp_distinct_iff)
  moreover have "set ps = set qs" using assms(1) by (rule mset_eq_setD)
  ultimately show ?thesis using assms(2) by (metis map_of_eq_Some_iff not_None_eq)
qed

end
