(* ===== verification/Finance_Commands.thy ===== *)
theory Finance_Commands
  imports Finance_Session Finance_VNPay
begin

text \<open>
  The application layer of the finance service: \<open>FinanceCommandService\<close> (\<open>finance.py\<close>), one coroutine
  per method, over the session parameter.  The service object always carries the session that its
  repositories and its publisher use, as \<open>bootstrap_services\<close> builds it.
\<close>

section \<open>Wallets\<close>

definition get_or_create_wallet :: "'s fin_session \<Rightarrow> string \<Rightarrow> bool \<Rightarrow> ('s, exn, wallet) eff" where
  "get_or_create_wallet S user_id lock =
     bindE (WalletRepository_find_by_user_id S user_id lock) (\<lambda>found.
     case found of
       Some wallet \<Rightarrow> ret wallet
     | None \<Rightarrow>
         bindE (uuid4 S) (\<lambda>wallet_id.
         let wallet = Wallet_create wallet_id user_id in
         bindE (WalletRepository_save S wallet) (\<lambda>_. ret wallet)))"

definition create_wallet_onboard :: "'s fin_session \<Rightarrow> string \<Rightarrow> ('s, exn, unit) eff" where
  "create_wallet_onboard S user_id =
     bindE (WalletRepository_find_by_user_id S user_id False) (\<lambda>existing.
     case existing of
       Some _ \<Rightarrow> ret ()
     | None \<Rightarrow>
         bindE (uuid4 S) (\<lambda>wallet_id.
         WalletRepository_save S (Wallet_create wallet_id user_id)))"

section \<open>Failure handling\<close>

definition NIL_UUID :: string where
  "NIL_UUID = ''00000000-0000-0000-0000-000000000000''"

text \<open>
  The \<open>except\<close> block shared by the commands: roll back, publish the failure event and commit it
  (an exception there is logged and dropped), and raise the original exception again.
\<close>

definition fail_with :: "'s fin_session \<Rightarrow> domain_event \<Rightarrow> exn \<Rightarrow> ('s, exn, 'a) eff" where
  "fail_with S event e =
     bindE (rollback S) (\<lambda>_.
     bindE (tryE (bindE (publish S event) (\<lambda>_. commit S)) (\<lambda>_. ret ())) (\<lambda>_.
     raise e))"

section \<open>Freezing, unfreezing, escrow\<close>

definition freeze_coin ::
  "'s fin_session \<Rightarrow> string \<Rightarrow> int \<Rightarrow> string \<Rightarrow> TransactionType \<Rightarrow> ('s, exn, string) eff" where
  "freeze_coin S user_id amt booking_id txn_type =
     tryE
       (bindE (get_or_create_wallet S user_id True) (\<lambda>wallet.
        bindE (liftE (Money amt)) (\<lambda>money.
        bindE (liftE (Wallet_freeze_coin wallet money booking_id)) (\<lambda>wallet.
        bindE (uuid4 S) (\<lambda>txn_id.
        let txn = Transaction_create txn_id user_id money txn_type ''PENDING'' booking_id None in
        bindE (WalletRepository_save S wallet) (\<lambda>_.
        bindE (TransactionRepository_save S txn) (\<lambda>_.
        bindE (forE (publish S) (fst (Wallet_clear_events wallet))) (\<lambda>_.
        ret txn_id))))))))
       (\<lambda>e. fail_with S (CoinsFreezeFailed booking_id (py_or user_id NIL_UUID) amt (exn_str e)) e)"

definition unfreeze_coin ::
  "'s fin_session \<Rightarrow> string \<Rightarrow> int \<Rightarrow> string \<Rightarrow> ('s, exn, string) eff" where
  "unfreeze_coin S user_id amt booking_id =
     tryE
       (bindE (WalletRepository_find_by_user_id S user_id True) (\<lambda>found.
        case found of
          None \<Rightarrow> raise (WalletNotFoundError user_id)
        | Some wallet \<Rightarrow>
            bindE (liftE (Money amt)) (\<lambda>money.
            bindE (liftE (Wallet_unfreeze_coin wallet money booking_id)) (\<lambda>wallet.
            bindE (uuid4 S) (\<lambda>txn_id.
            let txn = Transaction_create txn_id user_id money REFUND ''SUCCESS'' booking_id None in
            bindE (WalletRepository_save S wallet) (\<lambda>_.
            bindE (TransactionRepository_save S txn) (\<lambda>_.
            bindE (forE (publish S) (fst (Wallet_clear_events wallet))) (\<lambda>_.
            ret txn_id))))))))
       (\<lambda>e. fail_with S (RefundFailed booking_id (py_or user_id NIL_UUID) (exn_str e)) e)"

text \<open>The ledger entry of the escrow deposit: the reservation, now successful, or a new one.\<close>

definition reservation_txn ::
  "'s fin_session \<Rightarrow> string \<Rightarrow> money \<Rightarrow> string \<Rightarrow> txn option \<Rightarrow> ('s, exn, txn) eff" where
  "reservation_txn S user_id money booking_id found =
     (case found of
        None \<Rightarrow>
          bindE (uuid4 S) (\<lambda>txn_id.
          ret (Transaction_create txn_id user_id money BOOKING_RESERVATION ''SUCCESS'' booking_id None))
      | Some txn \<Rightarrow> ret (Transaction_success txn))"

definition is_held :: "escrow option \<Rightarrow> bool" where
  "is_held e = (case e of None \<Rightarrow> False | Some e \<Rightarrow> e_status e = ''HELD'')"

definition transfer_to_escrow ::
  "'s fin_session \<Rightarrow> string \<Rightarrow> int \<Rightarrow> string \<Rightarrow> ('s, exn, string) eff" where
  "transfer_to_escrow S user_id amt booking_id =
     tryE
       (bindE (WalletRepository_find_by_user_id S user_id True) (\<lambda>found.
        case found of
          None \<Rightarrow> raise (WalletNotFoundError user_id)
        | Some wallet \<Rightarrow>
            bindE (liftE (Money amt)) (\<lambda>money.
            bindE (EscrowRepository_find_by_booking_id S booking_id False) (\<lambda>existing_escrow.
            if is_held existing_escrow
            then raise (EscrowAlreadyExistsError booking_id)
            else
              bindE (liftE (Wallet_deduct_frozen wallet money)) (\<lambda>wallet.
              bindE (uuid4 S) (\<lambda>escrow_id.
              let escrow = Escrow_create escrow_id booking_id money in
              bindE (TransactionRepository_find_by_reference_id S booking_id BOOKING_RESERVATION False) (\<lambda>found_txn.
              bindE (reservation_txn S user_id money booking_id found_txn) (\<lambda>txn.
              bindE (WalletRepository_save S wallet) (\<lambda>_.
              bindE (EscrowRepository_save S escrow) (\<lambda>_.
              bindE (TransactionRepository_save S txn) (\<lambda>_.
              bindE (forE (publish S) (fst (Escrow_clear_events escrow))) (\<lambda>_.
              ret escrow_id))))))))))))
       (\<lambda>e. fail_with S (EscrowFailed booking_id (py_or user_id NIL_UUID) (exn_str e)) e)"

section \<open>Payout and refund\<close>

definition process_payout ::
  "'s fin_session \<Rightarrow> string \<Rightarrow> string \<Rightarrow> py_float \<Rightarrow> ('s, exn, string) eff" where
  "process_payout S booking_id companion_id commission_rate =
     bindE (EscrowRepository_find_by_booking_id S booking_id True) (\<lambda>found.
     case found of
       None \<Rightarrow> raise (EscrowNotFoundError booking_id)
     | Some escrow \<Rightarrow>
         bindE (liftE (Escrow_payout escrow companion_id commission_rate)) (\<lambda>(commission, net_amount, escrow).
         bindE (get_or_create_wallet S companion_id True) (\<lambda>companion_wallet.
         bindE (liftE (Money net_amount)) (\<lambda>net.
         bindE (liftE (Wallet_deposit companion_wallet net)) (\<lambda>companion_wallet.
         bindE (uuid4 S) (\<lambda>txn_id.
         bindE (liftE (Money net_amount)) (\<lambda>net.
         let txn = Transaction_create txn_id companion_id net ESCROW_RELEASE ''SUCCESS'' booking_id None in
         bindE (EscrowRepository_save S escrow) (\<lambda>_.
         bindE (WalletRepository_save S companion_wallet) (\<lambda>_.
         bindE (TransactionRepository_save S txn) (\<lambda>_.
         bindE (forE (publish S) (fst (Escrow_clear_events escrow))) (\<lambda>_.
         ret txn_id)))))))))))"

text \<open>
  In \<open>refund_escrow\<close> the \<open>except\<close> block reads the local variable \<open>client_id\<close>, which the \<open>try\<close> block
  may have rebound before the exception: \<open>with_local\<close> records the value it has in each part.
\<close>

text \<open>The first part of the \<open>try\<close> block: the escrow, and the client and amount to refund.\<close>

definition refund_resolve ::
  "'s fin_session \<Rightarrow> string \<Rightarrow> string \<Rightarrow> int \<Rightarrow> ('s, exn, escrow \<times> string \<times> int) eff" where
  "refund_resolve S booking_id client_id refund_amount =
     bindE (EscrowRepository_find_by_booking_id S booking_id True) (\<lambda>found.
     case found of
       None \<Rightarrow> raise (EscrowNotFoundError booking_id)
     | Some escrow \<Rightarrow>
         if client_id = [] \<or> refund_amount \<le> 0
         then
           bindE (TransactionRepository_find_by_reference_id S booking_id BOOKING_RESERVATION False)
             (\<lambda>reservation_txn.
             case reservation_txn of
               None \<Rightarrow> ret (escrow, client_id, refund_amount)
             | Some t \<Rightarrow>
                 ret (escrow,
                      if client_id = [] then t_user_id t else client_id,
                      if refund_amount \<le> 0 then amount (t_amount t) else refund_amount))
         else ret (escrow, client_id, refund_amount))"

text \<open>The rest of the \<open>try\<close> block.\<close>

definition refund_apply ::
  "'s fin_session \<Rightarrow> string \<Rightarrow> escrow \<Rightarrow> string \<Rightarrow> int \<Rightarrow> ('s, exn, string) eff" where
  "refund_apply S booking_id escrow client_id refund_amount =
     bindE (liftE (Money refund_amount)) (\<lambda>money_refund.
     bindE (liftE (Escrow_refund escrow client_id money_refund)) (\<lambda>escrow.
     bindE (get_or_create_wallet S client_id True) (\<lambda>client_wallet.
     bindE (liftE (Wallet_deposit client_wallet money_refund)) (\<lambda>client_wallet.
     bindE (uuid4 S) (\<lambda>txn_id.
     let txn = Transaction_create txn_id client_id money_refund REFUND ''SUCCESS'' booking_id None in
     bindE (EscrowRepository_save S escrow) (\<lambda>_.
     bindE (WalletRepository_save S client_wallet) (\<lambda>_.
     bindE (TransactionRepository_save S txn) (\<lambda>_.
     bindE (forE (publish S) (fst (Escrow_clear_events escrow))) (\<lambda>_.
     ret txn_id)))))))))"

text \<open>The \<open>except\<close> block.\<close>

definition refund_failed :: "'s fin_session \<Rightarrow> string \<Rightarrow> string \<Rightarrow> exn \<Rightarrow> ('s, exn, 'a) eff" where
  "refund_failed S booking_id client_id e =
     bindE (rollback S) (\<lambda>_.
     bindE
       (tryE
         (bindE
            (if client_id = []
             then tryE
                    (bindE (TransactionRepository_find_by_reference_id S booking_id BOOKING_RESERVATION False)
                       (\<lambda>txn. ret (case txn of None \<Rightarrow> client_id | Some t \<Rightarrow> t_user_id t)))
                    (\<lambda>query_err. ret client_id)
             else ret client_id) (\<lambda>resolved_client_id.
          bindE (publish S (RefundFailed booking_id (py_or resolved_client_id NIL_UUID) (exn_str e))) (\<lambda>_.
          commit S)))
         (\<lambda>pub_err. ret ())) (\<lambda>_.
     raise e))"

definition refund_escrow ::
  "'s fin_session \<Rightarrow> string \<Rightarrow> string \<Rightarrow> int \<Rightarrow> ('s, exn, string) eff" where
  "refund_escrow S booking_id client_id refund_amount =
     tryE
       (bindE (with_local client_id (refund_resolve S booking_id client_id refund_amount))
          (\<lambda>(escrow, client_id, refund_amount).
             with_local client_id (refund_apply S booking_id escrow client_id refund_amount)))
       (\<lambda>(e, client_id). refund_failed S booking_id client_id e)"

section \<open>Top-up\<close>

text \<open>\<open>create_date\<close> is the formatted local time that the adapter reads from the clock.\<close>

definition initiate_topup ::
  "'s fin_session \<Rightarrow> vnpay_adapter \<Rightarrow> string \<Rightarrow> string \<Rightarrow> int \<Rightarrow> string \<Rightarrow> ('s, exn, string) eff" where
  "initiate_topup S A create_date user_id amount_coins client_ip =
     bindE (liftE (Money amount_coins)) (\<lambda>money.
     let vnd_amount = RATE_COIN_TO_VND * amount_coins in
     bindE (uuid4 S) (\<lambda>txn_id.
     let txn = Transaction_create txn_id user_id money TOPUP ''PENDING'' txn_id None in
     bindE (TransactionRepository_save S txn) (\<lambda>_.
     ret (generate_payment_url A txn_id vnd_amount client_ip create_date))))"

text \<open>The branch of a successful payment.\<close>

definition credit_topup :: "'s fin_session \<Rightarrow> txn \<Rightarrow> string \<Rightarrow> int \<Rightarrow> ('s, exn, unit) eff" where
  "credit_topup S txn txn_id vnp_amount_cent =
     (let txn = Transaction_success txn in
      bindE (get_or_create_wallet S (t_user_id txn) True) (\<lambda>wallet.
      bindE (liftE (Wallet_topup wallet (t_amount txn) txn_id (vnp_amount_cent div 100))) (\<lambda>wallet.
      bindE (WalletRepository_save S wallet) (\<lambda>_.
      bindE (TransactionRepository_save S txn) (\<lambda>_.
      forE (publish S) (fst (Wallet_clear_events wallet)))))))"

text \<open>Steps 4 to 6, on the transaction the callback names.\<close>

definition settle_topup ::
  "'s fin_session \<Rightarrow> params \<Rightarrow> string \<Rightarrow> txn \<Rightarrow> ('s, exn, string \<times> string) eff" where
  "settle_topup S params txn_id txn =
     (if t_status txn \<noteq> ''PENDING'' then ret (''02'', ''Order already confirmed'')
      else
        bindE (liftE (case map_of params ''vnp_Amount'' of None \<Rightarrow> Inr 0 | Some a \<Rightarrow> py_int a)) (\<lambda>vnp_amount_cent.
        if vnp_amount_cent \<noteq> RATE_COIN_TO_VND * amount (t_amount txn) * 100
        then ret (''04'', ''Invalid Amount'')
        else
          bindE
            (if map_of params ''vnp_ResponseCode'' = Some ''00''
             then credit_topup S txn txn_id vnp_amount_cent
             else TransactionRepository_save S (Transaction_fail txn)) (\<lambda>_.
          ret (''00'', ''Confirm success''))))"

text \<open>The reply of the callback: \<open>RspCode\<close> and \<open>Message\<close>.\<close>

definition process_vnpay_ipn ::
  "'s fin_session \<Rightarrow> vnpay_adapter \<Rightarrow> params \<Rightarrow> ('s, exn, string \<times> string) eff" where
  "process_vnpay_ipn S A params =
     (if \<not> validate_ipn_signature A params then ret (''97'', ''Invalid Signature'')
      else case map_of params ''vnp_TxnRef'' of
        None \<Rightarrow> ret (''01'', ''Order not found'')
      | Some txn_id \<Rightarrow>
        if txn_id = [] then ret (''01'', ''Order not found'')
        else
          bindE (TransactionRepository_find_by_id S txn_id True) (\<lambda>found.
          case found of
            None \<Rightarrow> ret (''01'', ''Order not found'')
          | Some txn \<Rightarrow> settle_topup S params txn_id txn))"

section \<open>Queries\<close>

definition check_balance :: "'s fin_session \<Rightarrow> string \<Rightarrow> int \<Rightarrow> ('s, exn, bool) eff" where
  "check_balance S user_id amt =
     (if amt < 0 then raise (InvalidAmountError amt)
      else bindE (get_or_create_wallet S user_id False) (\<lambda>wallet.
           ret (amount (available_balance wallet) \<ge> amt)))"

definition get_transaction_history ::
  "'s fin_session \<Rightarrow> string \<Rightarrow> int \<Rightarrow> int \<Rightarrow> ('s, exn, txn list \<times> nat) eff" where
  "get_transaction_history S user_id page page_size =
     (let page = (if page < 1 then 1 else page);
          page_size = (if page_size < 1 then 10 else page_size);
          page_size = (if page_size > 100 then 100 else page_size);
          offset = (page - 1) * page_size
      in TransactionRepository_find_by_user_id S user_id (nat page_size) (nat offset))"

end
