(* ===== verification/Finance_Memory.thy ===== *)
theory Finance_Memory
  imports Finance_Session
begin

text \<open>
  A reference session of the finance service over association lists: it satisfies every law of
  \<open>fin_session_live\<close>, so the laws are consistent, and closed examples of the theorems run on it.
  Identifiers count up from zero, padded to the 36 characters of a UUID; one that a table uses already is
  replaced by an unused one, which exists as long as the tables are small.
\<close>

record fin_tables =
  ft_wallets :: "(string, wallet_model) alist"
  ft_escrows :: "(string, escrow_model) alist"
  ft_transactions :: "(string, transaction_model) alist"
  ft_outbox :: "outbox_model list"

type_synonym fin_mem = "fin_tables mem"

definition fin_abs :: "fin_tables \<Rightarrow> fin_db" where
  "fin_abs t = \<lparr>wallets = DAList.lookup (ft_wallets t), escrows = DAList.lookup (ft_escrows t),
     transactions = DAList.lookup (ft_transactions t), outbox = ft_outbox t\<rparr>"

definition fin_view :: "fin_mem \<Rightarrow> fin_db" where
  "fin_view s = fin_abs (m_view s)"

definition fin_com :: "fin_mem \<Rightarrow> fin_db" where
  "fin_com s = fin_abs (m_com s)"

definition stamp_wallet :: "wallet_model \<Rightarrow> wallet_model option \<Rightarrow> wallet_model" where
  "stamp_wallet r old = r\<lparr>wm_created_at := (case old of None \<Rightarrow> Some 0 | Some o' \<Rightarrow> wm_created_at o')\<rparr>"

definition stamp_escrow :: "escrow_model \<Rightarrow> escrow_model option \<Rightarrow> escrow_model" where
  "stamp_escrow r old = r\<lparr>em_created_at := (case old of None \<Rightarrow> Some 0 | Some o' \<Rightarrow> em_created_at o')\<rparr>"

definition stamp_txn :: "transaction_model \<Rightarrow> transaction_model option \<Rightarrow> transaction_model" where
  "stamp_txn r old = (case tm_created_at r of
     None \<Rightarrow> r\<lparr>tm_created_at := (case old of None \<Rightarrow> Some 0 | Some o' \<Rightarrow> tm_created_at o')\<rparr> | Some _ \<Rightarrow> r)"

definition mem_outbox_add :: "outbox_model \<Rightarrow> (fin_mem, exn, unit) eff" where
  "mem_outbox_add r s = (Inr (), s\<lparr>m_view := (m_view s)\<lparr>ft_outbox := ft_outbox (m_view s) @ [r]\<rparr>\<rparr>)"

definition mem_txn_count :: "(transaction_model \<Rightarrow> bool) \<Rightarrow> (fin_mem, exn, nat) eff" where
  "mem_txn_count P s =
     (Inr (length (filter P (map snd (DAList.impl_of (ft_transactions (m_view s)))))), s)"

definition mem_txn_page ::
  "(transaction_model \<Rightarrow> bool) \<Rightarrow> nat \<Rightarrow> nat \<Rightarrow> (fin_mem, exn, transaction_model list) eff" where
  "mem_txn_page P off lim s =
     (Inr (take lim (drop off (sort_key (\<lambda>r. - the (tm_created_at r))
        (filter P (map snd (DAList.impl_of (ft_transactions (m_view s)))))))), s)"

definition mem_pb_json :: "proto_msg \<Rightarrow> exn + string" where
  "mem_pb_json m = (if pb_encodable m then Inr (pm_name m) else Inl (PyValueError ''Value out of range''))"

text \<open>An identifier that no table uses: the next one of the clock, or the first of fifty that is free.\<close>

definition used_id :: "fin_tables \<Rightarrow> string \<Rightarrow> bool" where
  "used_id t i \<longleftrightarrow> DAList.lookup (ft_wallets t) i \<noteq> None \<or> DAList.lookup (ft_escrows t) i \<noteq> None \<or>
     DAList.lookup (ft_transactions t) i \<noteq> None"

fun free_id :: "fin_tables \<Rightarrow> nat \<Rightarrow> nat \<Rightarrow> string" where
  "free_id t n 0 = pad36 n"
| "free_id t n (Suc k) = (if used_id t (pad36 n) then free_id t (Suc n) k else pad36 n)"

definition mem_uuid4 :: "(fin_mem, exn, string) eff" where
  "mem_uuid4 s = (Inr (if used_id (m_view s) (pad36 (m_clock s)) then free_id (m_view s) 0 49 else pad36 (m_clock s)),
     s\<lparr>m_clock := Suc (m_clock s)\<rparr>)"

definition mem_fin :: "fin_mem fin_session" where
  "mem_fin = \<lparr>open_session = mem_rollback, uuid4 = mem_uuid4, utcnow = mem_tick int, pb_json = mem_pb_json,
     wallet_merge = mem_merge ft_wallets (\<lambda>t. ft_wallets_update (\<lambda>_. t)) wm_wallet_id wm_user_id
       wallet_fits stamp_wallet (DBAPIError ''wallets''),
     wallet_select = mem_select ft_wallets,
     escrow_merge = mem_merge ft_escrows (\<lambda>t. ft_escrows_update (\<lambda>_. t)) em_escrow_id em_booking_id
       escrow_fits stamp_escrow (DBAPIError ''escrows''),
     escrow_select = mem_select ft_escrows,
     txn_merge = mem_merge ft_transactions (\<lambda>t. ft_transactions_update (\<lambda>_. t)) tm_transaction_id
       tm_transaction_id transaction_fits stamp_txn (DBAPIError ''transactions''),
     txn_select = mem_select ft_transactions,
     txn_count = mem_txn_count, txn_page = mem_txn_page, outbox_add = mem_outbox_add,
     commit = mem_commit, rollback = mem_rollback\<rparr>"

lemmas fin_mem_defs = fin_view_def fin_com_def fin_abs_def

lemma mem_fin_sel [simp]:
  "open_session mem_fin = mem_rollback" "uuid4 mem_fin = mem_uuid4" "utcnow mem_fin = mem_tick int" "pb_json mem_fin = mem_pb_json"
  "wallet_select mem_fin = mem_select ft_wallets" "escrow_select mem_fin = mem_select ft_escrows"
  "txn_select mem_fin = mem_select ft_transactions" "txn_count mem_fin = mem_txn_count"
  "txn_page mem_fin = mem_txn_page" "outbox_add mem_fin = mem_outbox_add"
  "commit mem_fin = mem_commit" "rollback mem_fin = mem_rollback"
  by (simp_all add: mem_fin_def)

lemma fin_wallet_table:
  "sql_table_live (wallet_merge mem_fin) (wallet_select mem_fin) fin_view fin_com wallets
     (\<lambda>m. wallets_update (\<lambda>_. m)) wm_wallet_id wm_user_id wallet_fits wallet_agree"
  unfolding mem_fin_def fin_session.simps
  by (rule mem_sql_table_live)
    (simp_all add: fin_mem_defs stamp_wallet_def wallet_agree_def alist_lookup_update)

lemma fin_escrow_table:
  "sql_table_live (escrow_merge mem_fin) (escrow_select mem_fin) fin_view fin_com escrows
     (\<lambda>m. escrows_update (\<lambda>_. m)) em_escrow_id em_booking_id escrow_fits escrow_agree"
  unfolding mem_fin_def fin_session.simps
  by (rule mem_sql_table_live)
    (simp_all add: fin_mem_defs stamp_escrow_def escrow_agree_def alist_lookup_update)

lemma fin_txn_table:
  "sql_table_live (txn_merge mem_fin) (txn_select mem_fin) fin_view fin_com transactions
     (\<lambda>m. transactions_update (\<lambda>_. m)) tm_transaction_id tm_transaction_id transaction_fits transaction_agree"
  unfolding mem_fin_def fin_session.simps
  by (rule mem_sql_table_live)
    (auto simp: fin_mem_defs stamp_txn_def transaction_agree_def alist_lookup_update split: option.splits)

lemma fin_txn: "sql_txn_live (commit mem_fin) (rollback mem_fin) fin_view fin_com"
  unfolding mem_fin_sel fin_view_def [abs_def] fin_com_def [abs_def] by (rule mem_sql_txn_live)

lemma fin_frame: "sql_frame_live (mem_tick g) fin_view fin_com"
  unfolding fin_view_def [abs_def] fin_com_def [abs_def] by (rule mem_sql_frame_live)

lemma fin_uuid_frame: "sql_frame_live mem_uuid4 fin_view fin_com"
  by unfold_locales (auto simp: mem_uuid4_def fin_view_def fin_com_def)

lemma length_free_id [simp]: "length (free_id t n k) = 36"
  by (induction k arbitrary: n) simp_all

text \<open>Fifty candidates are enough for tables with fewer rows.\<close>

lemma free_id_used: "used_id t (free_id t n k) \<Longrightarrow> j \<le> k \<Longrightarrow> used_id t (pad36 (n + j))"
proof (induction k arbitrary: n j)
  case (Suc k)
  then show ?case by (cases j) (auto split: if_splits dest: Suc.IH [of "Suc n"])
qed simp

definition rows_used :: "fin_tables \<Rightarrow> nat" where
  "rows_used t = length (DAList.impl_of (ft_wallets t)) + length (DAList.impl_of (ft_escrows t)) +
     length (DAList.impl_of (ft_transactions t))"

lemma dom_lookup_few: "finite (dom (DAList.lookup t))" "card (dom (DAList.lookup t)) \<le> length (DAList.impl_of t)"
proof -
  have "dom (DAList.lookup t) = set (map fst (DAList.impl_of t))" by (simp add: DAList.lookup.rep_eq dom_map_of_conv_image_fst)
  then show "finite (dom (DAList.lookup t))" "card (dom (DAList.lookup t)) \<le> length (DAList.impl_of t)"
    using card_length [of "map fst (DAList.impl_of t)"] by simp_all
qed

definition ids_of :: "fin_db \<Rightarrow> string set" where
  "ids_of db = dom (wallets db) \<union> dom (escrows db) \<union> dom (transactions db)"

lemma ids_of_mem: "i \<in> ids_of (fin_abs t) \<longleftrightarrow> used_id t i"
  by (auto simp: ids_of_def fin_abs_def used_id_def)

lemma ids_of_few: "finite (ids_of (fin_abs t))" "card (ids_of (fin_abs t)) \<le> rows_used t"
proof -
  let ?W = "dom (DAList.lookup (ft_wallets t))" and ?E = "dom (DAList.lookup (ft_escrows t))"
    and ?T = "dom (DAList.lookup (ft_transactions t))"
  have "card (?W \<union> ?E \<union> ?T) \<le> card ?W + card ?E + card ?T"
    using card_Un_le [of "?W \<union> ?E" ?T] card_Un_le [of ?W ?E] by linarith
  moreover have "card ?W \<le> length (DAList.impl_of (ft_wallets t))" "card ?E \<le> length (DAList.impl_of (ft_escrows t))"
    "card ?T \<le> length (DAList.impl_of (ft_transactions t))" by (rule dom_lookup_few(2))+
  ultimately show "card (ids_of (fin_abs t)) \<le> rows_used t" by (simp add: ids_of_def fin_abs_def rows_used_def)
  show "finite (ids_of (fin_abs t))" by (simp add: ids_of_def fin_abs_def dom_lookup_few(1))
qed

lemma uuid4_unused:
  assumes run: "mem_uuid4 s = (Inr i, s')" and few: "card (ids_of (fin_view s)) < 50"
  shows "i \<notin> ids_of (fin_view s)"
proof
  assume "i \<in> ids_of (fin_view s)"
  then have u: "used_id (m_view s) i" by (simp add: fin_view_def ids_of_mem)
  with run have "used_id (m_view s) (free_id (m_view s) 0 49)" by (auto simp: mem_uuid4_def split: if_splits)
  from free_id_used [OF this] have "\<forall>j<50. used_id (m_view s) (pad36 j)" by simp
  then have "pad36 ` {..<50} \<subseteq> ids_of (fin_view s)" by (auto simp: fin_view_def ids_of_mem)
  then have "card (pad36 ` {..<50}) \<le> card (ids_of (fin_view s))"
    by (rule card_mono [rotated]) (simp add: fin_view_def ids_of_few(1))
  moreover have "distinct (map pad36 [0..<50])" by code_simp
  then have "card (pad36 ` {..<50}) = 50"
    using distinct_card [of "map pad36 [0..<50]"] by (simp only: set_map set_upt length_map length_upt lessThan_atLeast0)
  ultimately show False using few by simp
qed

lemma mem_txn_page_law:
  assumes "mem_txn_page P off lim s = (Inr rs, s')"
    and "table_ok tm_transaction_id tm_transaction_id (transactions (fin_view s))"
  shows "(\<exists>all. set all = {r \<in> ran (transactions (fin_view s)). P r} \<and> distinct (map tm_transaction_id all) \<and>
         sorted_wrt (\<lambda>a b. the (tm_created_at b) \<le> the (tm_created_at a)) all \<and>
         rs = take lim (drop off all)) \<and> fin_view s' = fin_view s"
proof -
  let ?t = "ft_transactions (m_view s)" and ?f = "\<lambda>r. - the (tm_created_at r)"
  let ?rows = "filter P (map snd (DAList.impl_of ?t))"
  have "distinct (map tm_transaction_id (map snd (DAList.impl_of ?t)))"
    using assms(2) by (intro distinct_rows) (simp add: fin_mem_defs)
  then have d: "distinct (map tm_transaction_id ?rows)" by (rule distinct_map_filter)
  then have "distinct (map tm_transaction_id (sort_key ?f ?rows))"
    by (simp only: distinct_map distinct_sort set_sort)
  moreover have "sorted_wrt (\<lambda>a b. the (tm_created_at b) \<le> the (tm_created_at a)) (sort_key ?f ?rows)"
    using sorted_sort_key [of ?f ?rows] by (simp add: sorted_wrt_map)
  moreover have "set (sort_key ?f ?rows) = {r \<in> ran (transactions (fin_view s)). P r}"
    unfolding set_sort set_filter set_map by (simp add: fin_mem_defs ran_lookup)
  ultimately show ?thesis
    using assms(1) by (auto simp: mem_txn_page_def intro!: exI [of _ "sort_key ?f ?rows"])
qed

text \<open>The reference session satisfies the laws.\<close>

interpretation fin: fin_session_live mem_fin fin_view fin_com
proof (intro fin_session_live.intro fin_session.intro fin_session_axioms.intro fin_session_live_axioms.intro)
  show "sql_table_live (wallet_merge mem_fin) (wallet_select mem_fin) fin_view fin_com wallets
     (\<lambda>m. wallets_update (\<lambda>_. m)) wm_wallet_id wm_user_id wallet_fits wallet_agree"
    by (rule fin_wallet_table)
  then show "sql_table (wallet_merge mem_fin) (wallet_select mem_fin) fin_view fin_com wallets
     (\<lambda>m. wallets_update (\<lambda>_. m)) wm_wallet_id wm_user_id wallet_fits wallet_agree"
    by (rule sql_table_live.axioms)
  show "sql_table_live (escrow_merge mem_fin) (escrow_select mem_fin) fin_view fin_com escrows
     (\<lambda>m. escrows_update (\<lambda>_. m)) em_escrow_id em_booking_id escrow_fits escrow_agree"
    by (rule fin_escrow_table)
  then show "sql_table (escrow_merge mem_fin) (escrow_select mem_fin) fin_view fin_com escrows
     (\<lambda>m. escrows_update (\<lambda>_. m)) em_escrow_id em_booking_id escrow_fits escrow_agree"
    by (rule sql_table_live.axioms)
  show "sql_table_live (txn_merge mem_fin) (txn_select mem_fin) fin_view fin_com transactions
     (\<lambda>m. transactions_update (\<lambda>_. m)) tm_transaction_id tm_transaction_id transaction_fits transaction_agree"
    by (rule fin_txn_table)
  then show "sql_table (txn_merge mem_fin) (txn_select mem_fin) fin_view fin_com transactions
     (\<lambda>m. transactions_update (\<lambda>_. m)) tm_transaction_id tm_transaction_id transaction_fits transaction_agree"
    by (rule sql_table_live.axioms)
  show "sql_txn_live (commit mem_fin) (rollback mem_fin) fin_view fin_com" by (rule fin_txn)
  then show "sql_txn (commit mem_fin) (rollback mem_fin) fin_view fin_com" by (rule sql_txn_live.axioms)
  show "sql_frame_live (uuid4 mem_fin) fin_view fin_com" "sql_frame_live (utcnow mem_fin) fin_view fin_com"
    by (simp_all add: fin_frame fin_uuid_frame)
  then show "sql_frame (uuid4 mem_fin) fin_view fin_com" "sql_frame (utcnow mem_fin) fin_view fin_com"
    by (auto dest: sql_frame_live.axioms)
  show "(\<exists>all. set all = {r \<in> ran (transactions (fin_view s)). P r} \<and> distinct (map tm_transaction_id all) \<and>
         sorted_wrt (\<lambda>a b. the (tm_created_at b) \<le> the (tm_created_at a)) all \<and>
         rs = take lim (drop off all)) \<and> fin_view s' = fin_view s"
    if "txn_page mem_fin P off lim s = (Inr rs, s')"
      "table_ok tm_transaction_id tm_transaction_id (transactions (fin_view s))" for P off lim s rs s'
    using that by (simp only: mem_fin_sel) (rule mem_txn_page_law)
qed (auto simp: mem_uuid4_def mem_rollback_def mem_outbox_add_def outbox_agree_def mem_txn_count_def mem_txn_page_def
    mem_pb_json_def count_rows filter_map fin_mem_defs)

lemma mem_fin_live: "fin_session_live mem_fin fin_view fin_com"
  by (rule fin.fin_session_live_axioms)

lemma mem_fin_session: "fin_session mem_fin fin_view fin_com"
  by (rule fin.fin_session_axioms)

end
