(* ===== verification/Finance_Atomicity.thy ===== *)
theory Finance_Atomicity
  imports Finance_Commands Finance_Memory
begin

text \<open>
  What the commands of the finance service do to the committed database when anything may fail: the
  connection, the commit, a constraint.  Only the laws of \<open>fin_session\<close> are used, which leave every
  operation free to raise.  A command never commits on its normal path (its caller does), and on its
  exception path it commits at most one outbox row, the failure event.
\<close>

text \<open>A stored outbox row that carries the event.\<close>

definition outbox_event :: "'s fin_session \<Rightarrow> domain_event \<Rightarrow> outbox_model \<Rightarrow> bool" where
  "outbox_event S event row \<longleftrightarrow> length (ob_event_id row) = 36 \<and> \<not> ob_processed row \<and>
     (\<exists>i t. ob_event_type row = event_type_of (to_protobuf event i t) \<and>
            pb_json S (to_protobuf event i t) = Inr (ob_payload row))"

definition add_row :: "outbox_model \<Rightarrow> fin_db \<Rightarrow> fin_db" where
  "add_row row db = db\<lparr>outbox := outbox db @ [row]\<rparr>"

text \<open>The only two outcomes of a failed command: nothing is committed, or the failure event alone.\<close>

definition committed_failure ::
  "'s fin_session \<Rightarrow> ('s \<Rightarrow> fin_db) \<Rightarrow> domain_event \<Rightarrow> 's \<Rightarrow> 's \<Rightarrow> bool" where
  "committed_failure S com event s s' \<longleftrightarrow>
     com s' = com s \<or> (\<exists>row. outbox_event S event row \<and> com s' = add_row row (com s))"

context fin_session
begin

lemma publish_keeps [keep_intros]: "keeps com (publish S event)"
  unfolding publish_def by (intro keep_intros)

lemma WalletRepository_save_keeps [keep_intros]: "keeps com (WalletRepository_save S w)"
  unfolding WalletRepository_save_def by (intro keep_intros)

lemma EscrowRepository_save_keeps [keep_intros]: "keeps com (EscrowRepository_save S e)"
  unfolding EscrowRepository_save_def by (intro keep_intros)

lemma TransactionRepository_save_keeps [keep_intros]: "keeps com (TransactionRepository_save S t)"
  unfolding TransactionRepository_save_def by (intro keep_intros)

lemma find_wallet_keeps [keep_intros]: "keeps com (WalletRepository_find_by_user_id S u lock)"
  unfolding WalletRepository_find_by_user_id_def by (intro keep_intros)

lemma find_escrow_keeps [keep_intros]: "keeps com (EscrowRepository_find_by_booking_id S b lock)"
  unfolding EscrowRepository_find_by_booking_id_def by (intro keep_intros)

lemma find_txn_keeps [keep_intros]: "keeps com (TransactionRepository_find_by_id S k lock)"
  unfolding TransactionRepository_find_by_id_def by (intro keep_intros)

lemma find_ref_keeps [keep_intros]: "keeps com (TransactionRepository_find_by_reference_id S b ty lock)"
  unfolding TransactionRepository_find_by_reference_id_def by (intro keep_intros)

lemma find_history_keeps [keep_intros]: "keeps com (TransactionRepository_find_by_user_id S u lim off)"
  unfolding TransactionRepository_find_by_user_id_def by (intro keep_intros)

lemma get_or_create_wallet_keeps [keep_intros]: "keeps com (get_or_create_wallet S u lock)"
  unfolding get_or_create_wallet_def by (intro keep_intros)

lemma reservation_txn_keeps [keep_intros]: "keeps com (reservation_txn S u m b v)"
  unfolding reservation_txn_def by (intro keep_intros)

lemma process_payout_keeps: "keeps com (process_payout S b c rate)"
  unfolding process_payout_def by (intro keep_intros)

lemma initiate_topup_keeps: "keeps com (initiate_topup S A d u n ip)"
  unfolding initiate_topup_def by (intro keep_intros)

lemma settle_topup_keeps [keep_intros]: "keeps com (settle_topup S ps i t)"
  unfolding settle_topup_def credit_topup_def by (intro keep_intros)

lemma process_vnpay_ipn_keeps: "keeps com (process_vnpay_ipn S A ps)"
  unfolding process_vnpay_ipn_def by (intro keep_intros)

lemma check_balance_keeps: "keeps com (check_balance S u n)"
  unfolding check_balance_def by (intro keep_intros)

lemma create_wallet_onboard_keeps: "keeps com (create_wallet_onboard S u)"
  unfolding create_wallet_onboard_def by (intro keep_intros)

lemma get_transaction_history_keeps: "keeps com (get_transaction_history S u p n)"
  unfolding get_transaction_history_def by (intro keep_intros)

section \<open>The failure path\<close>

lemma publish_view:
  assumes "publish S event s = (Inr u, s')"
  shows "\<exists>row. outbox_event S event row \<and> view s' = add_row row (view s)"
proof -
  obtain t s1 i s2 p j s3 where
      1: "utcnow S s = (Inr t, s1)" and 2: "uuid4 S s1 = (Inr i, s2)"
    and p: "pb_json S (to_protobuf event i t) = Inr p" and 3: "uuid4 S s2 = (Inr j, s3)"
    and 4: "outbox_add S \<lparr>ob_id = None, ob_event_id = j,
        ob_event_type = event_type_of (to_protobuf event i t), ob_payload = p, ob_created_at = None,
        ob_processed = False\<rparr> s3 = (Inr u, s')"
    using assms by (auto simp: publish_def eff_inv Let_def liftE_run)
  have "view s3 = view s" using nw.frame_ok [OF 1] uu.frame_ok [OF 2] uu.frame_ok [OF 3] by simp
  then show ?thesis
    using outbox_add_ok [OF 4] uuid_length [OF 3] p
    by (auto simp: outbox_agree_def outbox_event_def add_row_def)
qed

text \<open>From any state of the transaction, the failure path ends in the original exception (or that of a
  failed rollback) and commits the failure event or nothing.\<close>

lemma publish_commit_failure:
  assumes "tryE (bindE (publish S event) (\<lambda>_. commit S)) (\<lambda>_. ret ()) s = (r, s')" and "view s = com s"
  shows "committed_failure S com event s s' \<and> r = Inr ()"
proof (cases "publish S event s")
  case (Pair res s1)
  have com1: "com s1 = com s" using Pair publish_keeps by (auto dest: keepsD)
  show ?thesis
  proof (cases res)
    case (Inl e)
    with Pair assms(1) com1 show ?thesis
      by (auto simp: eff_simps committed_failure_def)
  next
    case (Inr u)
    with Pair assms(2) obtain row where row: "outbox_event S event row" "view s1 = add_row row (com s)"
      using publish_view by fastforce
    have "com s' \<in> {com s1, view s1} \<and> r = Inr ()"
      using assms(1) Pair Inr tx.commit_all_or_nothing [of s1]
      by (cases "commit S s1"; cases "fst (commit S s1)") (auto simp: eff_simps)
    with row com1 show ?thesis by (auto simp: committed_failure_def)
  qed
qed

lemma fail_with_failure:
  assumes "fail_with S event e s = (r, s')"
  shows "committed_failure S com event s s' \<and> (\<exists>e'. r = Inl e')"
proof (cases "rollback S s")
  case (Pair res s1)
  have com1: "com s1 = com s" using Pair tx.rollback_keeps by (auto dest: keepsD)
  show ?thesis
  proof (cases res)
    case (Inl e1)
    with Pair assms com1 show ?thesis by (auto simp: fail_with_def eff_simps committed_failure_def)
  next
    case (Inr u)
    with Pair have "view s1 = com s1" using tx.rollback_ok com1 by auto
    moreover obtain r2 :: "exn + unit" and s2 where
        2: "tryE (bindE (publish S event) (\<lambda>_. commit S)) (\<lambda>_. ret ()) s1 = (r2, s2)" by fastforce
    ultimately have "committed_failure S com event s1 s2" "r2 = Inr ()" using publish_commit_failure by blast+
    then have "(r, s') = (Inl e, s2)"
      unfolding assms [symmetric] fail_with_def using Pair Inr 2
      by (intro bindE_then_raise [where t = s1 and x = u and y = "()"]) simp_all
    with assms com1 \<open>committed_failure S com event s1 s2\<close> show ?thesis
      by (simp add: committed_failure_def)
  qed
qed

text \<open>A command with a body that commits nothing and the shared failure path.\<close>

lemma tried_command:
  assumes "tryE body (\<lambda>e. fail_with S (ev e) e) s = (r, s')" and "keeps com body"
  shows "case r of Inr _ \<Rightarrow> com s' = com s | Inl _ \<Rightarrow> \<exists>e. committed_failure S com (ev e) s s'"
proof (cases "body s")
  case (Pair res s1)
  have com1: "com s1 = com s" using Pair assms(2) by (auto dest: keepsD)
  show ?thesis
  proof (cases res)
    case (Inl e)
    with Pair assms(1) have "fail_with S (ev e) e s1 = (r, s')" by (simp add: eff_simps)
    then have "committed_failure S com (ev e) s1 s' \<and> (\<exists>e'. r = Inl e')" by (rule fail_with_failure)
    then obtain e' where e': "r = Inl e'" "committed_failure S com (ev e) s s'"
      using com1 unfolding committed_failure_def by auto
    then show ?thesis by auto
  next
    case (Inr x)
    with Pair assms(1) com1 show ?thesis by (auto simp: eff_simps)
  qed
qed

lemma freeze_coin_atomic:
  "freeze_coin S u n b ty s = (r, s') \<Longrightarrow>
   case r of Inr _ \<Rightarrow> com s' = com s
   | Inl _ \<Rightarrow> \<exists>e. committed_failure S com (CoinsFreezeFailed b (py_or u NIL_UUID) n (exn_str e)) s s'"
  unfolding freeze_coin_def by (erule tried_command) (intro keep_intros)

lemma unfreeze_coin_atomic:
  "unfreeze_coin S u n b s = (r, s') \<Longrightarrow>
   case r of Inr _ \<Rightarrow> com s' = com s
   | Inl _ \<Rightarrow> \<exists>e. committed_failure S com (RefundFailed b (py_or u NIL_UUID) (exn_str e)) s s'"
  unfolding unfreeze_coin_def by (erule tried_command) (intro keep_intros)

lemma transfer_to_escrow_atomic:
  "transfer_to_escrow S u n b s = (r, s') \<Longrightarrow>
   case r of Inr _ \<Rightarrow> com s' = com s
   | Inl _ \<Rightarrow> \<exists>e. committed_failure S com (EscrowFailed b (py_or u NIL_UUID) (exn_str e)) s s'"
  unfolding transfer_to_escrow_def by (erule tried_command) (intro keep_intros)

text \<open>
  The failure path of \<open>refund_escrow\<close> may first look the client up again; the lookup reads only, and
  when it fails the identifier stays empty.
\<close>

lemma find_ref_keeps_view: "keeps view (TransactionRepository_find_by_reference_id S b ty lock)"
  unfolding TransactionRepository_find_by_reference_id_def by (intro keep_intros tt.select_keeps_view)

lemma publish_commit_after:
  assumes "keeps view m" "keeps com m" "view s = com s"
    and run: "tryE (bindE m (\<lambda>x. bindE (publish S (ev x)) (\<lambda>_. commit S))) (\<lambda>_. ret ()) s = (r, s')"
  shows "(\<exists>x. committed_failure S com (ev x) s s') \<and> r = Inr ()"
proof (cases "m s")
  case (Pair res s1)
  then have same: "view s1 = com s1" "com s1 = com s"
    using keepsD [OF assms(1) Pair] keepsD [OF assms(2) Pair] assms(3) by auto
  show ?thesis
  proof (cases res)
    case (Inl e)
    with Pair run same show ?thesis by (auto simp: eff_simps committed_failure_def)
  next
    case (Inr x)
    with Pair run have "tryE (bindE (publish S (ev x)) (\<lambda>_. commit S)) (\<lambda>_. ret ()) s1 = (r, s')"
      by (simp add: tryE_def bindE_def)
    then have "committed_failure S com (ev x) s1 s' \<and> r = Inr ()"
      using same(1) by (rule publish_commit_failure)
    with same(2) show ?thesis unfolding committed_failure_def by auto
  qed
qed

lemma keeps_with_local [keep_intros]: "keeps g m \<Longrightarrow> keeps g (with_local v m)"
  unfolding with_local_def by (intro keep_intros)

lemma refund_failed_failure:
  assumes "refund_failed S b c e s = (r, s')"
  shows "(\<exists>u. committed_failure S com (RefundFailed b u (exn_str e)) s s') \<and> (\<exists>e'. r = Inl e')"
proof (cases "rollback S s")
  case (Pair res s1)
  have com1: "com s1 = com s" using Pair tx.rollback_keeps by (auto dest: keepsD)
  define look :: "('s, exn, string) eff" where
    "look = (if c = [] then tryE
        (bindE (TransactionRepository_find_by_reference_id S b BOOKING_RESERVATION False)
           (\<lambda>txn. ret (case txn of None \<Rightarrow> c | Some t \<Rightarrow> t_user_id t))) (\<lambda>query_err. ret c)
      else ret c)"
  have look: "keeps view look" "keeps com look"
    unfolding look_def by (intro keep_intros find_ref_keeps_view)+
  show ?thesis
  proof (cases res)
    case (Inl e1)
    with Pair assms com1 show ?thesis by (auto simp: refund_failed_def eff_simps committed_failure_def)
  next
    case (Inr u)
    with Pair have vc: "view s1 = com s1" using tx.rollback_ok com1 by auto
    obtain r2 :: "exn + unit" and s2 where
        2: "tryE (bindE look (\<lambda>u. bindE (publish S (RefundFailed b (py_or u NIL_UUID) (exn_str e)))
              (\<lambda>_. commit S))) (\<lambda>_. ret ()) s1 = (r2, s2)" by fastforce
    from vc have f: "\<exists>u. committed_failure S com (RefundFailed b (py_or u NIL_UUID) (exn_str e)) s1 s2"
      and "r2 = Inr ()"  using publish_commit_after [OF look _ 2] by simp_all
    then have "(r, s') = (Inl e, s2)"
      unfolding assms [symmetric] refund_failed_def look_def [symmetric] using Pair Inr 2
      by (intro bindE_then_raise [where t = s1 and x = u and y = "()"]) simp_all
    with f com1 show ?thesis unfolding committed_failure_def by auto
  qed
qed

lemma refund_escrow_atomic:
  assumes "refund_escrow S b c n s = (r, s')"
  shows "case r of Inr _ \<Rightarrow> com s' = com s
    | Inl _ \<Rightarrow> \<exists>u e. committed_failure S com (RefundFailed b u (exn_str e)) s s'"
proof -
  define body where "body = bindE (with_local c (refund_resolve S b c n))
    (\<lambda>(escrow, c, n). with_local c (refund_apply S b escrow c n))"
  have body: "keeps com body"
    unfolding body_def refund_resolve_def refund_apply_def by (intro keep_intros)
  obtain res s1 where 1: "body s = (res, s1)" by fastforce
  have com1: "com s1 = com s" using 1 body by (auto dest: keepsD)
  have run: "tryE body (\<lambda>(e, c). refund_failed S b c e) s = (r, s')"
    using assms unfolding refund_escrow_def body_def .
  show ?thesis
  proof (cases res)
    case (Inr x)
    with 1 run com1 show ?thesis by (auto simp: eff_simps)
  next
    case (Inl ec)
    then obtain e c' where "ec = (e, c')" by fastforce
    with Inl 1 run have "refund_failed S b c' e s1 = (r, s')" by (simp add: eff_simps)
    from refund_failed_failure [OF this] com1 obtain u e' where
      "committed_failure S com (RefundFailed b u (exn_str e)) s s'" "r = Inl e'"
      unfolding committed_failure_def by auto
    then show ?thesis by auto
  qed
qed

end

end
