(* ===== verification/Finance_Invariant.thy ===== *)
theory Finance_Invariant
  imports Finance_Atomicity
begin

text \<open>
  Preservation of the database invariant \<open>db_ok\<close>: rows under their keys, unique columns unique, values
  within their columns, and no negative balance or amount (INV-F01).  As in \<open>Finance_Atomicity\<close>, every
  operation of the session may fail.
\<close>

section \<open>Value objects and aggregates\<close>

definition money_ok :: "money \<Rightarrow> bool" where
  "money_ok m \<longleftrightarrow> 0 \<le> amount m"

definition wallet_ok :: "wallet \<Rightarrow> bool" where
  "wallet_ok w \<longleftrightarrow> money_ok (available_balance w) \<and> money_ok (frozen_balance w)"

definition escrow_ok :: "escrow \<Rightarrow> bool" where
  "escrow_ok e \<longleftrightarrow> money_ok (e_amount e)"

definition txn_ok :: "txn \<Rightarrow> bool" where
  "txn_ok t \<longleftrightarrow> money_ok (t_amount t)"

lemmas ok_defs = money_ok_def wallet_ok_def escrow_ok_def txn_ok_def

lemma Money_ok: "Money a = Inr m \<Longrightarrow> money_ok m \<and> amount m = a"
  by (auto simp: Money_def money_ok_def split: if_splits)

lemma Money_add_ok: "Money_add m n = Inr k \<Longrightarrow> money_ok k \<and> amount k = amount m + amount n"
  unfolding Money_add_def by (rule Money_ok)

lemma Money_subtract_ok: "Money_subtract m n = Inr k \<Longrightarrow> money_ok k \<and> amount k = amount m - amount n"
  unfolding Money_subtract_def by (auto split: if_splits dest: Money_ok)

lemmas Money_dests = Money_ok Money_add_ok Money_subtract_ok

lemma Wallet_create_ok: "wallet_ok (Wallet_create i u)"
  by (simp add: ok_defs Wallet_create_def Money_zero_def)

text \<open>Every wallet operation that returns gives a wallet without negative balances, and changes its
  total by the amount that enters or leaves.\<close>

lemma Wallet_freeze_ok:
  "Wallet_freeze_coin w m b = Inr w' \<Longrightarrow> wallet_ok w' \<and> w_wallet_id w' = w_wallet_id w \<and> w_user_id w' = w_user_id w"
  by (auto simp: Wallet_freeze_coin_def Wallet_add_event_def bindS_eq_Inr_iff wallet_ok_def
      dest!: Money_dests split: if_splits)

lemma Wallet_unfreeze_ok:
  "Wallet_unfreeze_coin w m b = Inr w' \<Longrightarrow> wallet_ok w' \<and> w_wallet_id w' = w_wallet_id w \<and> w_user_id w' = w_user_id w"
  by (auto simp: Wallet_unfreeze_coin_def Wallet_add_event_def bindS_eq_Inr_iff wallet_ok_def
      dest!: Money_dests split: if_splits)

lemma Wallet_deduct_ok: "Wallet_deduct_frozen w m = Inr w' \<Longrightarrow> wallet_ok w \<Longrightarrow> wallet_ok w'"
  by (auto simp: Wallet_deduct_frozen_def bindS_eq_Inr_iff wallet_ok_def dest!: Money_dests split: if_splits)

lemma Wallet_topup_ok: "Wallet_topup w m i v = Inr w' \<Longrightarrow> wallet_ok w \<Longrightarrow> wallet_ok w'"
  by (auto simp: Wallet_topup_def Wallet_add_event_def bindS_eq_Inr_iff wallet_ok_def dest!: Money_dests)

lemma Wallet_deposit_ok: "Wallet_deposit w m = Inr w' \<Longrightarrow> wallet_ok w \<Longrightarrow> wallet_ok w'"
  by (auto simp: Wallet_deposit_def bindS_eq_Inr_iff wallet_ok_def dest!: Money_dests)

lemma Escrow_payout_ok: "Escrow_payout e c r = Inr (com, net, e') \<Longrightarrow> escrow_ok e \<Longrightarrow> escrow_ok e'"
  by (auto simp: Escrow_payout_def Escrow_add_event_def bindS_eq_Inr_iff escrow_ok_def Let_def split: if_splits)

lemma Escrow_refund_ok: "Escrow_refund e c m = Inr e' \<Longrightarrow> escrow_ok e \<Longrightarrow> escrow_ok e'"
  by (auto simp: Escrow_refund_def Escrow_add_event_def escrow_ok_def split: if_splits)

lemma Escrow_create_ok: "escrow_ok (Escrow_create i b m) = money_ok m"
  by (simp add: Escrow_create_def Escrow_add_event_def escrow_ok_def)

lemma Transaction_ok [simp]:
  "txn_ok (Transaction_create i u m ty st b d) = money_ok m"
  "txn_ok (Transaction_success t) = txn_ok t" "txn_ok (Transaction_fail t) = txn_ok t"
  by (simp_all add: Transaction_create_def Transaction_success_def Transaction_fail_def txn_ok_def)

lemmas aggregate_dests = Wallet_freeze_ok Wallet_unfreeze_ok Wallet_deduct_ok Wallet_topup_ok
  Wallet_deposit_ok Escrow_payout_ok Escrow_refund_ok

lemma wallet_to_domain_wf: "wallet_to_domain m = Inr w \<Longrightarrow> wallet_ok w"
  by (auto simp: wallet_to_domain_def bindS_eq_Inr_iff wallet_ok_def dest!: Money_dests)

lemma escrow_to_domain_wf: "escrow_to_domain m = Inr w \<Longrightarrow> escrow_ok w"
  by (auto simp: escrow_to_domain_def bindS_eq_Inr_iff escrow_ok_def dest!: Money_dests)

lemma transaction_to_domain_wf: "transaction_to_domain m = Inr w \<Longrightarrow> txn_ok w"
  by (auto simp: transaction_to_domain_def bindS_eq_Inr_iff txn_ok_def dest!: Money_dests)

lemma option_map_exn_Inr:
  "option_map_exn f v = Inr w \<Longrightarrow> (\<And>m x. f m = Inr x \<Longrightarrow> P x) \<Longrightarrow> pred_option P w"
  by (auto simp: option_map_exn_def bindS_eq_Inr_iff split: option.splits)

section \<open>The tables\<close>

lemma ran_upd_subset: "ran (m(k \<mapsto> r)) \<subseteq> insert r (ran m)"
  by (auto simp: ran_def)

lemma ball_ran_upd: "(\<forall>r\<in>ran m. P r) \<Longrightarrow> P r0 \<Longrightarrow> \<forall>r\<in>ran (m(k \<mapsto> r0)). P r"
  using ran_upd_subset by fast

lemma db_ok_upd_wallet:
  assumes "db_ok db" "table_ok wm_wallet_id wm_user_id ((wallets db)(k \<mapsto> r))"
    "wallet_fits r \<and> 0 \<le> wm_available_balance r \<and> 0 \<le> wm_frozen_balance r"
  shows "db_ok (db\<lparr>wallets := (wallets db)(k \<mapsto> r)\<rparr>)"
proof -
  have "\<forall>r\<in>ran ((wallets db)(k \<mapsto> r)). wallet_fits r \<and> 0 \<le> wm_available_balance r \<and> 0 \<le> wm_frozen_balance r"
    by (rule ball_ran_upd) (use assms(1,3) in \<open>simp_all add: db_ok_def\<close>)
  with assms(1,2) show ?thesis by (simp add: db_ok_def)
qed

lemma db_ok_upd_escrow:
  assumes "db_ok db" "table_ok em_escrow_id em_booking_id ((escrows db)(k \<mapsto> r))"
    "escrow_fits r \<and> 0 \<le> em_amount r"
  shows "db_ok (db\<lparr>escrows := (escrows db)(k \<mapsto> r)\<rparr>)"
proof -
  have "\<forall>r\<in>ran ((escrows db)(k \<mapsto> r)). escrow_fits r \<and> 0 \<le> em_amount r"
    by (rule ball_ran_upd) (use assms(1,3) in \<open>simp_all add: db_ok_def\<close>)
  with assms(1,2) show ?thesis by (simp add: db_ok_def)
qed

lemma db_ok_upd_txn:
  assumes "db_ok db" "table_ok tm_transaction_id tm_transaction_id ((transactions db)(k \<mapsto> r))"
    "transaction_fits r \<and> 0 \<le> tm_amount r"
  shows "db_ok (db\<lparr>transactions := (transactions db)(k \<mapsto> r)\<rparr>)"
proof -
  have "\<forall>r\<in>ran ((transactions db)(k \<mapsto> r)). transaction_fits r \<and> 0 \<le> tm_amount r"
    by (rule ball_ran_upd) (use assms(1,3) in \<open>simp_all add: db_ok_def\<close>)
  with assms(1,2) show ?thesis by (simp add: db_ok_def)
qed

lemma db_ok_add_row [simp]: "db_ok (add_row row db) = db_ok db"
  by (simp add: db_ok_def add_row_def)

context fin_session
begin

lemma save_wallet_db_ok:
  assumes "WalletRepository_save S w s = (Inr x, s')" "db_ok (view s)" "wallet_ok w"
  shows "db_ok (view s')"
proof -
  let ?m = "wallet_to_model w"
  obtain r' where acc: "row_accepted wm_wallet_id wm_user_id wallet_fits (wallets (view s)) ?m"
    and r': "wallet_agree ?m r'" "view s' = (view s)\<lparr>wallets := (wallets (view s))(wm_wallet_id ?m \<mapsto> r')\<rparr>"
    using wt.merge_ok [OF assms(1) [unfolded WalletRepository_save_def]] by blast
  have "table_ok wm_wallet_id wm_user_id ((wallets (view s))(wm_wallet_id ?m \<mapsto> r'))"
    by (rule table_ok_upd [OF db_ok_tables(1) [OF assms(2)] acc]) (use r'(1) in \<open>simp_all add: wallet_agree_def\<close>)
  moreover have "wallet_fits r' \<and> 0 \<le> wm_available_balance r' \<and> 0 \<le> wm_frozen_balance r'"
    using acc r'(1) assms(3)
    by (auto simp: row_accepted_def wallet_agree_def wallet_fits_def wallet_to_model_def ok_defs)
  ultimately show ?thesis
    unfolding r'(2) using assms(2) by (intro db_ok_upd_wallet)
qed

lemma save_escrow_db_ok:
  assumes "EscrowRepository_save S e s = (Inr x, s')" "db_ok (view s)" "escrow_ok e"
  shows "db_ok (view s')"
proof -
  let ?m = "escrow_to_model e"
  obtain r' where acc: "row_accepted em_escrow_id em_booking_id escrow_fits (escrows (view s)) ?m"
    and r': "escrow_agree ?m r'" "view s' = (view s)\<lparr>escrows := (escrows (view s))(em_escrow_id ?m \<mapsto> r')\<rparr>"
    using et.merge_ok [OF assms(1) [unfolded EscrowRepository_save_def]] by blast
  have "table_ok em_escrow_id em_booking_id ((escrows (view s))(em_escrow_id ?m \<mapsto> r'))"
    by (rule table_ok_upd [OF db_ok_tables(2) [OF assms(2)] acc]) (use r'(1) in \<open>simp_all add: escrow_agree_def\<close>)
  moreover have "escrow_fits r' \<and> 0 \<le> em_amount r'"
    using acc r'(1) assms(3)
    by (auto simp: row_accepted_def escrow_agree_def escrow_fits_def escrow_to_model_def ok_defs)
  ultimately show ?thesis
    unfolding r'(2) using assms(2) by (intro db_ok_upd_escrow)
qed

lemma save_txn_db_ok:
  assumes "TransactionRepository_save S t s = (Inr x, s')" "db_ok (view s)" "txn_ok t"
  shows "db_ok (view s')"
proof -
  let ?m = "transaction_to_model t"
  obtain r' where acc: "row_accepted tm_transaction_id tm_transaction_id transaction_fits (transactions (view s)) ?m"
    and r': "transaction_agree ?m r'"
      "view s' = (view s)\<lparr>transactions := (transactions (view s))(tm_transaction_id ?m \<mapsto> r')\<rparr>"
    using tt.merge_ok [OF assms(1) [unfolded TransactionRepository_save_def]] by blast
  have "table_ok tm_transaction_id tm_transaction_id ((transactions (view s))(tm_transaction_id ?m \<mapsto> r'))"
    by (rule table_ok_upd [OF db_ok_tables(3) [OF assms(2)] acc]) (use r'(1) in \<open>simp_all add: transaction_agree_def\<close>)
  moreover have "transaction_fits r' \<and> 0 \<le> tm_amount r'"
    using acc r'(1) assms(3)
    by (auto simp: row_accepted_def transaction_agree_def transaction_fits_def transaction_to_model_def ok_defs)
  ultimately show ?thesis
    unfolding r'(2) using assms(2) by (intro db_ok_upd_txn)
qed

lemma find_wallet_wf:
  "WalletRepository_find_by_user_id S u lock s = (Inr v, s') \<Longrightarrow> view s' = view s \<and> pred_option wallet_ok v"
  by (auto simp: WalletRepository_find_by_user_id_def eff_inv liftE_run wallet_to_domain_wf
      dest!: wt.select_ok option_map_exn_Inr [where P = wallet_ok])

lemma find_escrow_wf:
  "EscrowRepository_find_by_booking_id S b lock s = (Inr v, s') \<Longrightarrow> view s' = view s \<and> pred_option escrow_ok v"
  by (auto simp: EscrowRepository_find_by_booking_id_def eff_inv liftE_run escrow_to_domain_wf
      dest!: et.select_ok option_map_exn_Inr [where P = escrow_ok])

lemma find_txn_wf:
  "TransactionRepository_find_by_id S k lock s = (Inr v, s') \<Longrightarrow> view s' = view s \<and> pred_option txn_ok v"
  by (auto simp: TransactionRepository_find_by_id_def eff_inv liftE_run transaction_to_domain_wf
      dest!: tt.select_ok option_map_exn_Inr [where P = txn_ok])

lemma find_ref_wf:
  "TransactionRepository_find_by_reference_id S b ty lock s = (Inr v, s') \<Longrightarrow>
   view s' = view s \<and> pred_option txn_ok v"
  by (auto simp: TransactionRepository_find_by_reference_id_def eff_inv liftE_run transaction_to_domain_wf
      dest!: tt.select_ok option_map_exn_Inr [where P = txn_ok])

lemma uuid4_view: "uuid4 S s = (Inr i, s') \<Longrightarrow> view s' = view s"
  by (rule uu.frame_ok)

lemma publish_db_ok: "publish S event s = (Inr x, s') \<Longrightarrow> db_ok (view s) \<Longrightarrow> db_ok (view s')"
  by (auto dest!: publish_view)

lemma publish_all_db_ok: "forE (publish S) es s = (Inr x, s') \<Longrightarrow> db_ok (view s) \<Longrightarrow> db_ok (view s')"
  by (induction es arbitrary: s) (auto simp: eff_inv ret_run dest: publish_db_ok)

lemma get_or_create_wallet_db_ok:
  assumes "get_or_create_wallet S u lock s = (Inr w, s')" "db_ok (view s)"
  shows "db_ok (view s') \<and> wallet_ok w"
proof -
  obtain v s1 where 1: "WalletRepository_find_by_user_id S u lock s = (Inr v, s1)"
    and 2: "(case v of Some wallet \<Rightarrow> ret wallet | None \<Rightarrow> bindE (uuid4 S) (\<lambda>wallet_id.
         let wallet = Wallet_create wallet_id u in
         bindE (WalletRepository_save S wallet) (\<lambda>_. ret wallet))) s1 = (Inr w, s')"
    using assms(1) unfolding get_or_create_wallet_def bindE_eq_Inr_iff by blast
  have ok1: "db_ok (view s1)" using find_wallet_wf [OF 1] assms(2) by simp
  show ?thesis
  proof (cases v)
    case (Some w')
    with 2 ok1 find_wallet_wf [OF 1] show ?thesis by (simp add: ret_run)
  next
    case None
    with 2 obtain i s2 x where 3: "uuid4 S s1 = (Inr i, s2)"
      and 4: "WalletRepository_save S (Wallet_create i u) s2 = (Inr x, s')" and w: "w = Wallet_create i u"
      by (auto simp: bindE_eq_Inr_iff ret_run Let_def)
    then show ?thesis
      using save_wallet_db_ok [OF 4 _ Wallet_create_ok] uuid4_view [OF 3] ok1 by (simp add: Wallet_create_ok)
  qed
qed

lemma fail_with_raises: "fail_with S event e s = (Inr x, s') \<Longrightarrow> False"
  using fail_with_failure by blast

lemma refund_failed_raises: "refund_failed S b c e s = (Inr x, s') \<Longrightarrow> False"
  using refund_failed_failure by blast

section \<open>The commands\<close>

lemmas run_inv = bindE_eq_Inr_iff tryE_eq_Inr_iff ret_run raise_run liftE_run Let_def
lemmas save_db_ok = save_wallet_db_ok save_escrow_db_ok save_txn_db_ok

lemma create_wallet_onboard_db_ok:
  "create_wallet_onboard S u s = (Inr x, s') \<Longrightarrow> db_ok (view s) \<Longrightarrow> db_ok (view s')"
  by (auto simp: create_wallet_onboard_def run_inv Wallet_create_ok split: option.splits
      dest!: find_wallet_wf uuid4_view elim!: save_wallet_db_ok)

lemma check_balance_db_ok:
  "check_balance S u n s = (Inr x, s') \<Longrightarrow> db_ok (view s) \<Longrightarrow> db_ok (view s')"
  by (auto simp: check_balance_def run_inv split: if_splits dest: get_or_create_wallet_db_ok)

lemma freeze_coin_runs:
  assumes "freeze_coin S u n b ty s = (Inr x, s')"
  obtains w s1 m w' i s2 y s3 z s4 v where
    "get_or_create_wallet S u True s = (Inr w, s1)"
    "Money n = Inr m"
    "Wallet_freeze_coin w m b = Inr w'"
    "uuid4 S s1 = (Inr i, s2)"
    "WalletRepository_save S w' s2 = (Inr y, s3)"
    "TransactionRepository_save S (Transaction_create i u m ty ''PENDING'' b None) s3 = (Inr z, s4)"
    "forE (publish S) (fst (Wallet_clear_events w')) s4 = (Inr v, s')"
  using assms unfolding freeze_coin_def by (auto simp: run_inv dest: fail_with_raises)

lemma freeze_coin_db_ok:
  assumes "freeze_coin S u n b ty s = (Inr x, s')" "db_ok (view s)"
  shows "db_ok (view s')"
proof -
  from assms(1) obtain w s1 m w' i s2 y s3 z s4 v where
      1: "get_or_create_wallet S u True s = (Inr w, s1)" and m: "Money n = Inr m"
    and w': "Wallet_freeze_coin w m b = Inr w'" and 2: "uuid4 S s1 = (Inr i, s2)"
    and 3: "WalletRepository_save S w' s2 = (Inr y, s3)"
    and 4: "TransactionRepository_save S (Transaction_create i u m ty ''PENDING'' b None) s3 = (Inr z, s4)"
    and 5: "forE (publish S) (fst (Wallet_clear_events w')) s4 = (Inr v, s')"
    by (rule freeze_coin_runs)
  have "db_ok (view s2)" using get_or_create_wallet_db_ok [OF 1 assms(2)] uuid4_view [OF 2] by simp
  then have "db_ok (view s3)" using Wallet_freeze_ok [OF w'] by (intro save_wallet_db_ok [OF 3]) auto
  then have "db_ok (view s4)" using Money_ok [OF m] by (intro save_txn_db_ok [OF 4]) auto
  then show ?thesis by (rule publish_all_db_ok [OF 5])
qed

lemma unfreeze_coin_runs:
  assumes "unfreeze_coin S u n b s = (Inr x, s')"
  obtains w s1 m w' i s2 y s3 z s4 v where
    "WalletRepository_find_by_user_id S u True s = (Inr (Some w), s1)"
    "Money n = Inr m"
    "Wallet_unfreeze_coin w m b = Inr w'"
    "uuid4 S s1 = (Inr i, s2)"
    "WalletRepository_save S w' s2 = (Inr y, s3)"
    "TransactionRepository_save S (Transaction_create i u m REFUND ''SUCCESS'' b None) s3 = (Inr z, s4)"
    "forE (publish S) (fst (Wallet_clear_events w')) s4 = (Inr v, s')"
  using assms unfolding unfreeze_coin_def
  by (auto simp: run_inv split: option.splits dest: fail_with_raises)

lemma unfreeze_coin_db_ok:
  assumes "unfreeze_coin S u n b s = (Inr x, s')" "db_ok (view s)"
  shows "db_ok (view s')"
proof -
  from assms(1) obtain w s1 m w' i s2 y s3 z s4 v where
      1: "WalletRepository_find_by_user_id S u True s = (Inr (Some w), s1)" and m: "Money n = Inr m"
    and w': "Wallet_unfreeze_coin w m b = Inr w'" and 2: "uuid4 S s1 = (Inr i, s2)"
    and 3: "WalletRepository_save S w' s2 = (Inr y, s3)"
    and 4: "TransactionRepository_save S (Transaction_create i u m REFUND ''SUCCESS'' b None) s3 = (Inr z, s4)"
    and 5: "forE (publish S) (fst (Wallet_clear_events w')) s4 = (Inr v, s')"
    by (rule unfreeze_coin_runs)
  have "db_ok (view s2)" using find_wallet_wf [OF 1] uuid4_view [OF 2] assms(2) by simp
  then have "db_ok (view s3)" using Wallet_unfreeze_ok [OF w'] by (intro save_wallet_db_ok [OF 3]) auto
  then have "db_ok (view s4)" using Money_ok [OF m] by (intro save_txn_db_ok [OF 4]) auto
  then show ?thesis by (rule publish_all_db_ok [OF 5])
qed

lemma transfer_to_escrow_runs:
  assumes "transfer_to_escrow S u n b s = (Inr x, s')"
  obtains w s1 m v s2 w' i s3 ft s4 t s5 a s6 c s7 d s8 g where
    "WalletRepository_find_by_user_id S u True s = (Inr (Some w), s1)"
    "Money n = Inr m"
    "EscrowRepository_find_by_booking_id S b False s1 = (Inr v, s2)"
    "\<not> is_held v" "x = i"
    "Wallet_deduct_frozen w m = Inr w'"
    "uuid4 S s2 = (Inr i, s3)"
    "TransactionRepository_find_by_reference_id S b BOOKING_RESERVATION False s3 = (Inr ft, s4)"
    "reservation_txn S u m b ft s4 = (Inr t, s5)"
    "WalletRepository_save S w' s5 = (Inr a, s6)"
    "EscrowRepository_save S (Escrow_create i b m) s6 = (Inr c, s7)"
    "TransactionRepository_save S t s7 = (Inr d, s8)"
    "forE (publish S) (fst (Escrow_clear_events (Escrow_create i b m))) s8 = (Inr g, s')"
  using assms unfolding transfer_to_escrow_def
  by (auto simp: run_inv split: option.splits if_splits dest: fail_with_raises)

lemma transfer_to_escrow_db_ok:
  assumes "transfer_to_escrow S u n b s = (Inr x, s')" "db_ok (view s)"
  shows "db_ok (view s')"
proof -
  from assms(1) obtain w s1 m v s2 w' i s3 ft s4 t s5 a s6 c s7 d s8 g where
      1: "WalletRepository_find_by_user_id S u True s = (Inr (Some w), s1)" and m: "Money n = Inr m"
    and 2: "EscrowRepository_find_by_booking_id S b False s1 = (Inr v, s2)" "\<not> is_held v" "x = i"
    and w': "Wallet_deduct_frozen w m = Inr w'" and 3: "uuid4 S s2 = (Inr i, s3)"
    and 4: "TransactionRepository_find_by_reference_id S b BOOKING_RESERVATION False s3 = (Inr ft, s4)"
    and 5: "reservation_txn S u m b ft s4 = (Inr t, s5)"
    and 6: "WalletRepository_save S w' s5 = (Inr a, s6)"
    and 7: "EscrowRepository_save S (Escrow_create i b m) s6 = (Inr c, s7)"
    and 8: "TransactionRepository_save S t s7 = (Inr d, s8)"
    and 9: "forE (publish S) (fst (Escrow_clear_events (Escrow_create i b m))) s8 = (Inr g, s')"
    by (rule transfer_to_escrow_runs)
  have "view s4 = view s"
    using find_wallet_wf [OF 1] find_escrow_wf [OF 2(1)] find_ref_wf [OF 4] uuid4_view [OF 3] by simp
  moreover have "view s5 = view s4 \<and> txn_ok t"
    using 5 find_ref_wf [OF 4] Money_ok [OF m]
    by (auto simp: reservation_txn_def run_inv split: option.splits dest!: uuid4_view)
  ultimately have "db_ok (view s5)" "txn_ok t" using assms(2) by simp_all
  moreover have "wallet_ok w'" using Wallet_deduct_ok [OF w'] find_wallet_wf [OF 1] by simp
  ultimately have "db_ok (view s6)" by (intro save_wallet_db_ok [OF 6])
  then have "db_ok (view s7)" using Money_ok [OF m] by (intro save_escrow_db_ok [OF 7]) (auto simp: Escrow_create_ok)
  then have "db_ok (view s8)" using \<open>txn_ok t\<close> by (rule save_txn_db_ok [OF 8])
  then show ?thesis by (rule publish_all_db_ok [OF 9])
qed

lemma process_payout_runs:
  assumes "process_payout S b c rate s = (Inr x, s')"
  obtains e s1 commission net e' w s2 m w' i s3 a s4 d s5 f s6 g where
    "EscrowRepository_find_by_booking_id S b True s = (Inr (Some e), s1)"
    "Escrow_payout e c rate = Inr (commission, net, e')"
    "get_or_create_wallet S c True s1 = (Inr w, s2)"
    "Money net = Inr m"
    "Wallet_deposit w m = Inr w'"
    "uuid4 S s2 = (Inr i, s3)"
    "EscrowRepository_save S e' s3 = (Inr a, s4)"
    "WalletRepository_save S w' s4 = (Inr d, s5)"
    "TransactionRepository_save S (Transaction_create i c m ESCROW_RELEASE ''SUCCESS'' b None) s5 = (Inr f, s6)"
    "forE (publish S) (fst (Escrow_clear_events e')) s6 = (Inr g, s')"
  using assms unfolding process_payout_def
  by (auto simp: run_inv split: option.splits prod.splits)

lemma process_payout_db_ok:
  assumes "process_payout S b c rate s = (Inr x, s')" "db_ok (view s)"
  shows "db_ok (view s')"
proof -
  from assms(1) obtain e s1 commission net e' w s2 m w' i s3 a s4 d s5 f s6 g where
      1: "EscrowRepository_find_by_booking_id S b True s = (Inr (Some e), s1)"
    and e': "Escrow_payout e c rate = Inr (commission, net, e')"
    and 2: "get_or_create_wallet S c True s1 = (Inr w, s2)" and m: "Money net = Inr m"
    and w': "Wallet_deposit w m = Inr w'" and 3: "uuid4 S s2 = (Inr i, s3)"
    and 4: "EscrowRepository_save S e' s3 = (Inr a, s4)" and 5: "WalletRepository_save S w' s4 = (Inr d, s5)"
    and 6: "TransactionRepository_save S (Transaction_create i c m ESCROW_RELEASE ''SUCCESS'' b None) s5 = (Inr f, s6)"
    and 7: "forE (publish S) (fst (Escrow_clear_events e')) s6 = (Inr g, s')"
    by (rule process_payout_runs)
  have "db_ok (view s1)" "escrow_ok e" using find_escrow_wf [OF 1] assms(2) by simp_all
  then have "db_ok (view s2)" "wallet_ok w" "escrow_ok e'"
    using get_or_create_wallet_db_ok [OF 2] Escrow_payout_ok [OF e'] by blast+
  then have "db_ok (view s4)" using uuid4_view [OF 3] by (intro save_escrow_db_ok [OF 4]) simp
  then have "db_ok (view s5)"
    using Wallet_deposit_ok [OF w' \<open>wallet_ok w\<close>] by (rule save_wallet_db_ok [OF 5])
  then have "db_ok (view s6)" using Money_ok [OF m] by (intro save_txn_db_ok [OF 6]) auto
  then show ?thesis by (rule publish_all_db_ok [OF 7])
qed

lemma refund_resolve_runs:
  assumes "refund_resolve S b c n s = (Inr (e, c', n'), s')"
  obtains s1 where "EscrowRepository_find_by_booking_id S b True s = (Inr (Some e), s1)"
    and "c' = c \<and> n' = n \<and> s' = s1 \<and> c \<noteq> [] \<and> 0 < n \<or>
      (c = [] \<or> n \<le> 0) \<and> (\<exists>v. TransactionRepository_find_by_reference_id S b BOOKING_RESERVATION False s1 = (Inr v, s') \<and>
        (case v of None \<Rightarrow> c' = c \<and> n' = n
         | Some t \<Rightarrow> c' = (if c = [] then t_user_id t else c) \<and> n' = (if n \<le> 0 then amount (t_amount t) else n)))"
proof -
  obtain v s1 where 1: "EscrowRepository_find_by_booking_id S b True s = (Inr v, s1)"
    and 2: "(case v of None \<Rightarrow> raise (EscrowNotFoundError b)
     | Some escrow \<Rightarrow> if c = [] \<or> n \<le> 0 then
           bindE (TransactionRepository_find_by_reference_id S b BOOKING_RESERVATION False) (\<lambda>r.
             case r of None \<Rightarrow> ret (escrow, c, n)
             | Some t \<Rightarrow> ret (escrow, if c = [] then t_user_id t else c, if n \<le> 0 then amount (t_amount t) else n))
         else ret (escrow, c, n)) s1 = (Inr (e, c', n'), s')"
    using assms unfolding refund_resolve_def bindE_eq_Inr_iff by blast
  from 2 obtain e0 where v: "v = Some e0" by (cases v) (auto simp: raise_run)
  show thesis
  proof (cases "c = [] \<or> n \<le> 0")
    case False
    with 1 2 v show thesis by (intro that [of s1]) (auto simp: ret_run)
  next
    case True
    from 2 obtain r s2 where
        3: "TransactionRepository_find_by_reference_id S b BOOKING_RESERVATION False s1 = (Inr r, s2)"
      and 4: "(case r of None \<Rightarrow> ret (e0, c, n)
             | Some t \<Rightarrow> ret (e0, if c = [] then t_user_id t else c, if n \<le> 0 then amount (t_amount t) else n)) s2
             = ((Inr (e, c', n') :: exn + _), s')"
      unfolding v option.case if_P [OF True] bindE_eq_Inr_iff by blast
    with 1 v True show thesis by (intro that [of s1]; cases r) (auto simp: ret_run)
  qed
qed

lemma refund_resolve_wf:
  assumes "refund_resolve S b c n s = (Inr (e, c', n'), s')"
  shows "view s' = view s \<and> escrow_ok e"
  using assms by (rule refund_resolve_runs) (auto dest!: find_escrow_wf find_ref_wf)

lemma refund_apply_runs:
  assumes "refund_apply S b e c n s = (Inr x, s')"
  obtains m e' w s2 w' i s3 a s4 d s5 f s6 g where
    "Money n = Inr m"
    "Escrow_refund e c m = Inr e'"
    "get_or_create_wallet S c True s = (Inr w, s2)"
    "Wallet_deposit w m = Inr w'"
    "uuid4 S s2 = (Inr i, s3)"
    "EscrowRepository_save S e' s3 = (Inr a, s4)"
    "WalletRepository_save S w' s4 = (Inr d, s5)"
    "TransactionRepository_save S (Transaction_create i c m REFUND ''SUCCESS'' b None) s5 = (Inr f, s6)"
    "forE (publish S) (fst (Escrow_clear_events e')) s6 = (Inr g, s')"
  using assms unfolding refund_apply_def by (auto simp: run_inv)

lemma refund_apply_db_ok:
  assumes "refund_apply S b e c n s = (Inr x, s')" "db_ok (view s)" "escrow_ok e"
  shows "db_ok (view s')"
proof -
  from assms(1) obtain m e' w s2 w' i s3 a s4 d s5 f s6 g where
      m: "Money n = Inr m" and e': "Escrow_refund e c m = Inr e'"
    and 2: "get_or_create_wallet S c True s = (Inr w, s2)"
    and w': "Wallet_deposit w m = Inr w'" and 3: "uuid4 S s2 = (Inr i, s3)"
    and 4: "EscrowRepository_save S e' s3 = (Inr a, s4)" and 5: "WalletRepository_save S w' s4 = (Inr d, s5)"
    and 6: "TransactionRepository_save S (Transaction_create i c m REFUND ''SUCCESS'' b None) s5 = (Inr f, s6)"
    and 7: "forE (publish S) (fst (Escrow_clear_events e')) s6 = (Inr g, s')"
    by (rule refund_apply_runs)
  have "db_ok (view s2)" "wallet_ok w" "escrow_ok e'"
    using get_or_create_wallet_db_ok [OF 2] Escrow_refund_ok [OF e'] assms by blast+
  then have "db_ok (view s4)" using uuid4_view [OF 3] by (intro save_escrow_db_ok [OF 4]) simp
  then have "db_ok (view s5)"
    using Wallet_deposit_ok [OF w' \<open>wallet_ok w\<close>] by (rule save_wallet_db_ok [OF 5])
  then have "db_ok (view s6)" using Money_ok [OF m] by (intro save_txn_db_ok [OF 6]) auto
  then show ?thesis by (rule publish_all_db_ok [OF 7])
qed

lemma refund_escrow_runs:
  assumes "refund_escrow S b c n s = (Inr x, s')"
  obtains e c' n' s1 where "refund_resolve S b c n s = (Inr (e, c', n'), s1)"
    "refund_apply S b e c' n' s1 = (Inr x, s')"
  using assms unfolding refund_escrow_def with_local_def
  by (auto simp: run_inv split: prod.splits dest: refund_failed_raises)

lemma refund_escrow_db_ok:
  assumes "refund_escrow S b c n s = (Inr x, s')" "db_ok (view s)"
  shows "db_ok (view s')"
  using assms by (metis refund_escrow_runs refund_resolve_wf refund_apply_db_ok)

lemma initiate_topup_db_ok:
  "initiate_topup S A d u n ip s = (Inr x, s') \<Longrightarrow> db_ok (view s) \<Longrightarrow> db_ok (view s')"
  unfolding initiate_topup_def
  by (auto simp: run_inv dest!: Money_ok uuid4_view elim!: save_txn_db_ok)

lemma credit_topup_runs:
  assumes "credit_topup S t i v s = (Inr x, s')"
  obtains w s1 w' a s2 d s3 where
    "get_or_create_wallet S (t_user_id (Transaction_success t)) True s = (Inr w, s1)"
    "Wallet_topup w (t_amount (Transaction_success t)) i (v div 100) = Inr w'"
    "WalletRepository_save S w' s1 = (Inr a, s2)"
    "TransactionRepository_save S (Transaction_success t) s2 = (Inr d, s3)"
    "forE (publish S) (fst (Wallet_clear_events w')) s3 = (Inr x, s')"
  using assms unfolding credit_topup_def by (auto simp: run_inv)

lemma credit_topup_db_ok:
  assumes "credit_topup S t i v s = (Inr x, s')" "db_ok (view s)" "txn_ok t"
  shows "db_ok (view s')"
proof -
  from assms(1) obtain w s1 w' a s2 d s3 where
      1: "get_or_create_wallet S (t_user_id (Transaction_success t)) True s = (Inr w, s1)"
    and w': "Wallet_topup w (t_amount (Transaction_success t)) i (v div 100) = Inr w'"
    and 2: "WalletRepository_save S w' s1 = (Inr a, s2)"
    and 3: "TransactionRepository_save S (Transaction_success t) s2 = (Inr d, s3)"
    and 4: "forE (publish S) (fst (Wallet_clear_events w')) s3 = (Inr x, s')"
    by (rule credit_topup_runs)
  have "db_ok (view s1)" "wallet_ok w" using get_or_create_wallet_db_ok [OF 1 assms(2)] by auto
  then have "db_ok (view s2)" using Wallet_topup_ok [OF w'] by (intro save_wallet_db_ok [OF 2]) auto
  then have "db_ok (view s3)" using assms(3) by (intro save_txn_db_ok [OF 3]) auto
  then show ?thesis by (rule publish_all_db_ok [OF 4])
qed

lemma settle_topup_db_ok:
  assumes "settle_topup S ps i t s = (Inr x, s')" "db_ok (view s)" "txn_ok t"
  shows "db_ok (view s')"
  using assms unfolding settle_topup_def
  by (auto simp: run_inv split: if_splits dest: credit_topup_db_ok save_txn_db_ok)

lemma process_vnpay_ipn_db_ok:
  assumes "process_vnpay_ipn S A ps s = (Inr x, s')" "db_ok (view s)"
  shows "db_ok (view s')"
  using assms unfolding process_vnpay_ipn_def
  by (auto simp: run_inv split: option.splits if_splits dest!: find_txn_wf)
    (metis settle_topup_db_ok)

end

end
