(* ===== verification/Finance_Ledger.thy ===== *)
theory Finance_Ledger
  imports Finance_Invariant
begin

text \<open>
  An abstract specification of the finance service and the refinement of the commands to it.  The
  abstract state, a \<open>ledger\<close>, knows three balances: available and frozen coins by user, and held coins
  by booking; a user without a wallet and a booking without a held escrow have zero.  Every command
  that returns is one guarded abstract step, whatever failures the session produces on the way.
\<close>

section \<open>The abstract ledger\<close>

record ledger =
  lg_avail :: "string \<Rightarrow> int"
  lg_frozen :: "string \<Rightarrow> int"
  lg_held :: "string \<Rightarrow> int"

definition lg_freeze :: "string \<Rightarrow> int \<Rightarrow> ledger \<Rightarrow> ledger" where
  "lg_freeze u n L = L\<lparr>lg_avail := (lg_avail L)(u := lg_avail L u - n),
     lg_frozen := (lg_frozen L)(u := lg_frozen L u + n)\<rparr>"

definition lg_unfreeze :: "string \<Rightarrow> int \<Rightarrow> ledger \<Rightarrow> ledger" where
  "lg_unfreeze u n L = L\<lparr>lg_avail := (lg_avail L)(u := lg_avail L u + n),
     lg_frozen := (lg_frozen L)(u := lg_frozen L u - n)\<rparr>"

definition lg_hold :: "string \<Rightarrow> string \<Rightarrow> int \<Rightarrow> ledger \<Rightarrow> ledger" where
  "lg_hold u b n L = L\<lparr>lg_frozen := (lg_frozen L)(u := lg_frozen L u - n),
     lg_held := (lg_held L)(b := lg_held L b + n)\<rparr>"

text \<open>Closing the escrow of a booking and crediting a user with \<open>n\<close> coins.\<close>

definition lg_release :: "string \<Rightarrow> string \<Rightarrow> int \<Rightarrow> ledger \<Rightarrow> ledger" where
  "lg_release b u n L = L\<lparr>lg_avail := (lg_avail L)(u := lg_avail L u + n),
     lg_held := (lg_held L)(b := 0)\<rparr>"

definition lg_credit :: "string \<Rightarrow> int \<Rightarrow> ledger \<Rightarrow> ledger" where
  "lg_credit u n L = L\<lparr>lg_avail := (lg_avail L)(u := lg_avail L u + n)\<rparr>"

section \<open>Abstraction of a database\<close>

definition sum_by :: "('r \<Rightarrow> 'u) \<Rightarrow> ('r \<Rightarrow> int) \<Rightarrow> ('k \<rightharpoonup> 'r) \<Rightarrow> 'u \<Rightarrow> int" where
  "sum_by key f tab u = msum (\<lambda>r. if key r = u then f r else 0) tab"

definition held_amount :: "escrow_model \<Rightarrow> int" where
  "held_amount r = (if em_status r = ''HELD'' then em_amount r else 0)"

definition ledger_of :: "fin_db \<Rightarrow> ledger" where
  "ledger_of db = \<lparr>lg_avail = sum_by wm_user_id wm_available_balance (wallets db),
     lg_frozen = sum_by wm_user_id wm_frozen_balance (wallets db),
     lg_held = sum_by em_booking_id held_amount (escrows db)\<rparr>"

lemma sum_by_new:
  "finite (dom tab) \<Longrightarrow> tab k = None \<Longrightarrow>
   sum_by key f (tab(k \<mapsto> r)) = (sum_by key f tab)(key r := sum_by key f tab (key r) + f r)"
  by (auto simp: sum_by_def msum_insert)

lemma sum_by_same:
  "finite (dom tab) \<Longrightarrow> tab k = Some r0 \<Longrightarrow> key r = key r0 \<Longrightarrow>
   sum_by key f (tab(k \<mapsto> r)) = (sum_by key f tab)(key r := sum_by key f tab (key r) - f r0 + f r)"
  by (auto simp: sum_by_def msum_update)

lemma sum_by_none:
  assumes "\<And>r. r \<in> ran tab \<Longrightarrow> key r \<noteq> u"
  shows "sum_by key f tab u = 0"
  unfolding sum_by_def msum_def by (intro sum.neutral) (auto dest: assms [OF ranI])

lemma sum_by_unique:
  assumes ok: "table_ok pkey key tab" and r: "tab k = Some r"
  shows "sum_by key f tab (key r) = f r"
proof -
  have only: "j = k" if "tab j = Some r'" "key r' = key r" for j r'
    using that r table_ok_unique [OF ok, of r r'] table_ok_key [OF ok] by (metis ranI)
  have "sum_by key f tab (key r) = (\<Sum>j\<in>dom tab. if j = k then f r else 0)"
    unfolding sum_by_def msum_def
  proof (rule sum.cong [OF refl])
    fix j assume "j \<in> dom tab"
    then obtain r' where r': "tab j = Some r'" by blast
    show "(if key (the (tab j)) = key r then f (the (tab j)) else 0) = (if j = k then f r else 0)"
      using only [OF r'] r r' by (cases "j = k") auto
  qed
  also have "\<dots> = f r" using table_ok_finite [OF ok] r by (simp add: sum.delta domI)
  finally show ?thesis .
qed

lemma sum_by_nonneg: "(\<And>r. r \<in> ran tab \<Longrightarrow> 0 \<le> f r) \<Longrightarrow> 0 \<le> sum_by key f tab u"
  unfolding sum_by_def by (intro msum_nonneg) (auto simp: ran_def)

lemma sum_by_replace:
  assumes "table_ok pkey key tab" "tab k = Some r0" "key r = key r0"
  shows "sum_by key f (tab(k \<mapsto> r)) = (sum_by key f tab)(key r := f r)"
  using sum_by_same [OF table_ok_finite [OF assms(1)] assms(2,3), of f] sum_by_unique [OF assms(1,2), of f]
  by (simp add: assms(3))

lemma ledger_of_unchanged [simp]:
  "ledger_of (db\<lparr>transactions := t\<rparr>) = ledger_of db" "ledger_of (db\<lparr>outbox := x\<rparr>) = ledger_of db"
  "ledger_of (add_row row db) = ledger_of db"
  by (simp_all add: ledger_of_def add_row_def)

text \<open>The balances of a user are those of the user's only wallet, and never negative.\<close>

lemma ledger_wallet:
  assumes "db_ok db" "wallets db k = Some r"
  shows "lg_avail (ledger_of db) (wm_user_id r) = wm_available_balance r"
    "lg_frozen (ledger_of db) (wm_user_id r) = wm_frozen_balance r"
  using sum_by_unique [OF db_ok_tables(1) [OF assms(1)] assms(2)] by (simp_all add: ledger_of_def)

lemma ledger_escrow:
  assumes "db_ok db" "escrows db k = Some r"
  shows "lg_held (ledger_of db) (em_booking_id r) = held_amount r"
  using sum_by_unique [OF db_ok_tables(2) [OF assms(1)] assms(2)] by (simp add: ledger_of_def)

lemma ledger_nonneg:
  assumes "db_ok db"
  shows "0 \<le> lg_avail (ledger_of db) u" "0 \<le> lg_frozen (ledger_of db) u" "0 \<le> lg_held (ledger_of db) b"
  using assms by (auto simp: ledger_of_def db_ok_def held_amount_def intro!: sum_by_nonneg)

section \<open>Effects of the aggregates\<close>

lemma Wallet_freeze_effect:
  "Wallet_freeze_coin w m b = Inr w' \<Longrightarrow> amount m \<le> amount (available_balance w) \<and>
     amount (available_balance w') = amount (available_balance w) - amount m \<and>
     amount (frozen_balance w') = amount (frozen_balance w) + amount m \<and>
     w_wallet_id w' = w_wallet_id w \<and> w_user_id w' = w_user_id w \<and>
     w_events w' = w_events w @ [CoinsFrozen (w_wallet_id w) (w_user_id w) (amount m) b]"
  by (auto simp: Wallet_freeze_coin_def Wallet_add_event_def bindS_eq_Inr_iff dest!: Money_dests split: if_splits)

lemma Wallet_unfreeze_effect:
  "Wallet_unfreeze_coin w m b = Inr w' \<Longrightarrow> amount m \<le> amount (frozen_balance w) \<and>
     amount (available_balance w') = amount (available_balance w) + amount m \<and>
     amount (frozen_balance w') = amount (frozen_balance w) - amount m \<and>
     w_wallet_id w' = w_wallet_id w \<and> w_user_id w' = w_user_id w \<and>
     w_events w' = w_events w @ [CoinsUnfrozen (w_wallet_id w) (w_user_id w) (amount m) b]"
  by (auto simp: Wallet_unfreeze_coin_def Wallet_add_event_def bindS_eq_Inr_iff dest!: Money_dests split: if_splits)

lemma Wallet_deduct_effect:
  "Wallet_deduct_frozen w m = Inr w' \<Longrightarrow> amount m \<le> amount (frozen_balance w) \<and>
     available_balance w' = available_balance w \<and>
     amount (frozen_balance w') = amount (frozen_balance w) - amount m \<and>
     w_wallet_id w' = w_wallet_id w \<and> w_user_id w' = w_user_id w"
  by (auto simp: Wallet_deduct_frozen_def bindS_eq_Inr_iff dest!: Money_dests split: if_splits)

lemma Wallet_deposit_effect:
  "Wallet_deposit w m = Inr w' \<Longrightarrow>
     amount (available_balance w') = amount (available_balance w) + amount m \<and>
     frozen_balance w' = frozen_balance w \<and> w_wallet_id w' = w_wallet_id w \<and> w_user_id w' = w_user_id w"
  by (auto simp: Wallet_deposit_def bindS_eq_Inr_iff dest!: Money_dests)

lemma Wallet_topup_effect:
  "Wallet_topup w m i v = Inr w' \<Longrightarrow>
     amount (available_balance w') = amount (available_balance w) + amount m \<and>
     frozen_balance w' = frozen_balance w \<and> w_wallet_id w' = w_wallet_id w \<and> w_user_id w' = w_user_id w \<and>
     w_events w' = w_events w @ [WalletToppedUp (w_wallet_id w) (w_user_id w) (amount m) v]"
  by (auto simp: Wallet_topup_def Wallet_add_event_def bindS_eq_Inr_iff dest!: Money_dests)

lemma Escrow_payout_effect:
  "Escrow_payout e c rate = Inr (commission, net, e') \<Longrightarrow> e_status e = ''HELD'' \<and>
     round_product (amount (e_amount e)) rate = Inr commission \<and> net = amount (e_amount e) - commission \<and>
     e_status e' = ''PAID_OUT'' \<and> e_escrow_id e' = e_escrow_id e \<and> e_booking_id e' = e_booking_id e"
  by (auto simp: Escrow_payout_def Escrow_add_event_def bindS_eq_Inr_iff Let_def split: if_splits)

lemma Escrow_refund_effect:
  "Escrow_refund e c m = Inr e' \<Longrightarrow> e_status e = ''HELD'' \<and> e_status e' = ''REFUNDED'' \<and>
     e_escrow_id e' = e_escrow_id e \<and> e_booking_id e' = e_booking_id e"
  by (auto simp: Escrow_refund_def Escrow_add_event_def split: if_splits)

section \<open>What a lookup and a save do to the ledger\<close>

text \<open>Identifiers drawn while the tables hold \<open>db\<close> are new.\<close>

definition fresh_ids :: "'s fin_session \<Rightarrow> ('s \<Rightarrow> fin_db) \<Rightarrow> fin_db \<Rightarrow> bool" where
  "fresh_ids S view db \<longleftrightarrow> (\<forall>s i s'. uuid4 S s = (Inr i, s') \<longrightarrow> view s = db \<longrightarrow>
     wallets db i = None \<and> escrows db i = None \<and> transactions db i = None)"

lemma wallet_to_domain_of: "wallet_to_domain m = Inr w \<Longrightarrow> w = wallet_of m"
  by (auto simp: wallet_to_domain_def wallet_of_def Money_def split: if_splits)

lemma escrow_to_domain_of: "escrow_to_domain m = Inr w \<Longrightarrow> w = escrow_of m"
  by (auto simp: escrow_to_domain_def escrow_of_def Money_def split: if_splits)

lemma transaction_to_domain_of: "transaction_to_domain m = Inr w \<Longrightarrow> w = txn_of m"
  by (auto simp: transaction_to_domain_def txn_of_def Money_def split: if_splits)

context fin_session
begin

lemma find_wallet_row:
  assumes "WalletRepository_find_by_user_id S u lock s = (Inr (Some w), s')"
  obtains r where "r \<in> ran (wallets (view s))" "w = wallet_of r" "wm_user_id r = u"
  using assms
  by (auto simp: WalletRepository_find_by_user_id_def run_inv dest!: wt.select_ok option_map_exn_cases
      wallet_to_domain_of)

lemma find_wallet_absent:
  assumes "WalletRepository_find_by_user_id S u lock s = (Inr None, s')" "r \<in> ran (wallets (view s))"
  shows "wm_user_id r \<noteq> u"
  using assms
  by (auto simp: WalletRepository_find_by_user_id_def run_inv dest!: wt.select_ok option_map_exn_cases)

lemma find_escrow_row:
  assumes "EscrowRepository_find_by_booking_id S b lock s = (Inr (Some e), s')"
  obtains r where "r \<in> ran (escrows (view s))" "e = escrow_of r" "em_booking_id r = b"
  using assms
  by (auto simp: EscrowRepository_find_by_booking_id_def run_inv dest!: et.select_ok option_map_exn_cases
      escrow_to_domain_of)

lemma find_escrow_absent:
  assumes "EscrowRepository_find_by_booking_id S b lock s = (Inr None, s')" "r \<in> ran (escrows (view s))"
  shows "em_booking_id r \<noteq> b"
  using assms
  by (auto simp: EscrowRepository_find_by_booking_id_def run_inv dest!: et.select_ok option_map_exn_cases)

lemma find_ref_row:
  assumes "TransactionRepository_find_by_reference_id S b ty lock s = (Inr (Some t), s')"
  obtains r where "r \<in> ran (transactions (view s))" "t = txn_of r" "tm_reference_id r = b" "tm_type r = ty"
  using assms
  by (auto simp: TransactionRepository_find_by_reference_id_def run_inv dest!: tt.select_ok
      option_map_exn_cases transaction_to_domain_of)

lemma find_wallet_key:
  assumes "WalletRepository_find_by_user_id S u lock s = (Inr (Some w), s')" "db_ok (view s)"
  obtains r where "wallets (view s) (w_wallet_id w) = Some r" "w = wallet_of r" "wm_user_id r = u"
  using assms(1)
proof (rule find_wallet_row)
  fix r assume "r \<in> ran (wallets (view s))" "w = wallet_of r" "wm_user_id r = u"
  then show thesis
    using that [of r] table_ok_ran [OF db_ok_tables(1) [OF assms(2)]] by (simp add: wallet_of_def)
qed

lemma find_escrow_key:
  assumes "EscrowRepository_find_by_booking_id S b lock s = (Inr (Some e), s')" "db_ok (view s)"
  obtains r where "escrows (view s) (e_escrow_id e) = Some r" "e = escrow_of r" "em_booking_id r = b"
  using assms(1)
proof (rule find_escrow_row)
  fix r assume "r \<in> ran (escrows (view s))" "e = escrow_of r" "em_booking_id r = b"
  then show thesis
    using that [of r] table_ok_ran [OF db_ok_tables(2) [OF assms(2)]] by (simp add: escrow_of_def)
qed

lemma save_wallet_ledger:
  assumes "WalletRepository_save S w s = (Inr x, s')" and ok: "db_ok (view s)"
    and r: "wallets (view s) (w_wallet_id w) = Some r" and u: "w_user_id w = wm_user_id r"
  shows "ledger_of (view s') = (ledger_of (view s))\<lparr>
      lg_avail := (lg_avail (ledger_of (view s)))(w_user_id w := amount (available_balance w)),
      lg_frozen := (lg_frozen (ledger_of (view s)))(w_user_id w := amount (frozen_balance w))\<rparr>"
    "escrows (view s') = escrows (view s)" "transactions (view s') = transactions (view s)"
proof -
  let ?m = "wallet_to_model w"
  obtain r' where r': "wallet_agree ?m r'" "view s' = (view s)\<lparr>wallets := (wallets (view s))(wm_wallet_id ?m \<mapsto> r')\<rparr>"
    using wt.merge_ok [OF assms(1) [unfolded WalletRepository_save_def]] by blast
  have fields: "wm_wallet_id ?m = w_wallet_id w" "wm_user_id r' = wm_user_id r" "wm_user_id r = w_user_id w"
    "wm_available_balance r' = amount (available_balance w)" "wm_frozen_balance r' = amount (frozen_balance w)"
    using r'(1) u by (simp_all add: wallet_agree_def wallet_to_model_def)
  note upd = sum_by_replace [OF db_ok_tables(1) [OF ok] r fields(2)]
  show "ledger_of (view s') = (ledger_of (view s))\<lparr>
      lg_avail := (lg_avail (ledger_of (view s)))(w_user_id w := amount (available_balance w)),
      lg_frozen := (lg_frozen (ledger_of (view s)))(w_user_id w := amount (frozen_balance w))\<rparr>"
    unfolding r'(2) fields(1) by (simp add: ledger_of_def upd fields)
  show "escrows (view s') = escrows (view s)" "transactions (view s') = transactions (view s)"
    unfolding r'(2) by simp_all
qed

lemma save_escrow_ledger:
  assumes "EscrowRepository_save S e s = (Inr x, s')" and ok: "db_ok (view s)"
    and k: "escrows (view s) (e_escrow_id e) = None \<or>
      (\<exists>r. escrows (view s) (e_escrow_id e) = Some r \<and> e_booking_id e = em_booking_id r)"
  shows "ledger_of (view s') = (ledger_of (view s))\<lparr>lg_held := (lg_held (ledger_of (view s)))
      (e_booking_id e := if e_status e = ''HELD'' then amount (e_amount e) else 0)\<rparr>"
    "wallets (view s') = wallets (view s)" "transactions (view s') = transactions (view s)"
proof -
  let ?m = "escrow_to_model e"
  obtain r' where r': "escrow_agree ?m r'" "view s' = (view s)\<lparr>escrows := (escrows (view s))(em_escrow_id ?m \<mapsto> r')\<rparr>"
    and acc: "row_accepted em_escrow_id em_booking_id escrow_fits (escrows (view s)) ?m"
    using et.merge_ok [OF assms(1) [unfolded EscrowRepository_save_def]] by blast
  have fields: "em_escrow_id ?m = e_escrow_id e" "em_booking_id r' = e_booking_id e"
    "held_amount r' = (if e_status e = ''HELD'' then amount (e_amount e) else 0)"
    using r'(1) by (simp_all add: escrow_agree_def escrow_to_model_def held_amount_def)
  have "sum_by em_booking_id held_amount ((escrows (view s))(e_escrow_id e \<mapsto> r')) =
      (sum_by em_booking_id held_amount (escrows (view s)))(e_booking_id e := held_amount r')"
  proof (cases "escrows (view s) (e_escrow_id e)")
    case None
    have "em_booking_id y \<noteq> e_booking_id e" if "y \<in> ran (escrows (view s))" for y
      using that acc None table_ok_ran [OF db_ok_tables(2) [OF ok] that]
      by (auto simp: row_accepted_def escrow_to_model_def)
    then have "sum_by em_booking_id held_amount (escrows (view s)) (e_booking_id e) = 0"
      by (rule sum_by_none)
    then show ?thesis
      using sum_by_new [OF table_ok_finite [OF db_ok_tables(2) [OF ok]] None, of em_booking_id held_amount r']
      by (simp add: fields(2))
  next
    case (Some r)
    with k have "em_booking_id r' = em_booking_id r" by (simp add: fields(2))
    then show ?thesis
      using sum_by_replace [OF db_ok_tables(2) [OF ok] Some, of r' held_amount] by (simp add: fields(2))
  qed
  then show "ledger_of (view s') = (ledger_of (view s))\<lparr>lg_held := (lg_held (ledger_of (view s)))
      (e_booking_id e := if e_status e = ''HELD'' then amount (e_amount e) else 0)\<rparr>"
    unfolding r'(2) fields(1) by (simp add: ledger_of_def fields(3))
  show "wallets (view s') = wallets (view s)" "transactions (view s') = transactions (view s)"
    unfolding r'(2) by simp_all
qed

lemma save_txn_ledger:
  assumes "TransactionRepository_save S t s = (Inr x, s')"
  shows "ledger_of (view s') = ledger_of (view s)" "wallets (view s') = wallets (view s)"
    "escrows (view s') = escrows (view s)"
  using tt.merge_ok [OF assms [unfolded TransactionRepository_save_def]] by auto

lemma publish_all_view:
  "forE (publish S) es s = (Inr x, s') \<Longrightarrow> \<exists>rows. list_all2 (outbox_event S) es rows \<and>
     view s' = (view s)\<lparr>outbox := outbox (view s) @ rows\<rparr>"
proof (induction es arbitrary: s)
  case Nil
  then show ?case by (simp add: ret_run)
next
  case (Cons e es)
  then obtain y s1 where 1: "publish S e s = (Inr y, s1)" and 2: "forE (publish S) es s1 = (Inr x, s')"
    by (auto simp: run_inv)
  from publish_view [OF 1] obtain row where row: "outbox_event S e row" "view s1 = add_row row (view s)" by blast
  from Cons.IH [OF 2] obtain rows where "list_all2 (outbox_event S) es rows"
    "view s' = (view s1)\<lparr>outbox := outbox (view s1) @ rows\<rparr>" by blast
  with row show ?case by (intro exI [of _ "row # rows"]) (simp add: add_row_def)
qed

lemma publish_all_ledger: "forE (publish S) es s = (Inr x, s') \<Longrightarrow> ledger_of (view s') = ledger_of (view s)"
  by (auto dest!: publish_all_view)

lemma get_or_create_wallet_ledger:
  assumes "get_or_create_wallet S u lock s = (Inr w, s')" and ok: "db_ok (view s)"
    and fresh: "fresh_ids S view (view s)"
  obtains r where "wallets (view s') (w_wallet_id w) = Some r" "wm_user_id r = u" "w = wallet_of r"
    "ledger_of (view s') = ledger_of (view s)" "escrows (view s') = escrows (view s)" "db_ok (view s')"
proof -
  obtain v s1 where 1: "WalletRepository_find_by_user_id S u lock s = (Inr v, s1)"
    and 2: "(case v of Some wallet \<Rightarrow> ret wallet | None \<Rightarrow> bindE (uuid4 S) (\<lambda>wallet_id.
         let wallet = Wallet_create wallet_id u in
         bindE (WalletRepository_save S wallet) (\<lambda>_. ret wallet))) s1 = (Inr w, s')"
    using assms(1) unfolding get_or_create_wallet_def bindE_eq_Inr_iff by blast
  have v1: "view s1 = view s" using find_wallet_wf [OF 1] by simp
  have ok': "db_ok (view s')" using get_or_create_wallet_db_ok [OF assms(1) ok] by simp
  show thesis
  proof (cases v)
    case (Some w0)
    with 2 have w: "w0 = w" "s' = s1" by (simp_all add: ret_run)
    from 1 Some w obtain r where "r \<in> ran (wallets (view s))" "w = wallet_of r" "wm_user_id r = u"
      by (auto elim: find_wallet_row)
    moreover from this have "wallets (view s) (w_wallet_id w) = Some r"
      using table_ok_ran [OF db_ok_tables(1) [OF ok]] by (simp add: wallet_of_def)
    ultimately show thesis using w v1 ok by (intro that [of r]) simp_all
  next
    case None
    with 2 obtain i s2 x where 3: "uuid4 S s1 = (Inr i, s2)"
      and 4: "WalletRepository_save S (Wallet_create i u) s2 = (Inr x, s')" and w: "w = Wallet_create i u"
      by (auto simp: run_inv)
    let ?m = "wallet_to_model (Wallet_create i u)"
    have v2: "view s2 = view s" using uuid4_view [OF 3] v1 by simp
    have free: "wallets (view s) i = None" using fresh 3 v1 by (auto simp: fresh_ids_def)
    obtain r' where r': "wallet_agree ?m r'" "view s' = (view s)\<lparr>wallets := (wallets (view s))(i \<mapsto> r')\<rparr>"
      using wt.merge_ok [OF 4 [unfolded WalletRepository_save_def]]
      by (auto simp: v2 wallet_to_model_def Wallet_create_def)
    have fields: "wm_user_id r' = u" "wm_available_balance r' = 0" "wm_frozen_balance r' = 0" "wm_wallet_id r' = i"
      using r'(1) by (simp_all add: wallet_agree_def wallet_to_model_def Wallet_create_def Money_zero_def)
    have "ledger_of (view s') = ledger_of (view s)"
      unfolding r'(2) ledger_of_def
      by (simp add: sum_by_new [OF table_ok_finite [OF db_ok_tables(1) [OF ok]] free] fields)
    then show thesis
      using r'(2) ok' fields w
      by (intro that [of r']) (simp_all add: Wallet_create_def wallet_of_def Money_zero_def)
  qed
qed

section \<open>The commands refine the ledger\<close>

text \<open>The last steps of a command: the ledger entry and the events.\<close>

lemma log_ledger:
  assumes "TransactionRepository_save S t s = (Inr x, s1)" "forE (publish S) es s1 = (Inr y, s')"
  shows "ledger_of (view s') = ledger_of (view s)"
  using save_txn_ledger [OF assms(1)] publish_all_ledger [OF assms(2)] by simp

lemma freeze_coin_refines:
  assumes "freeze_coin S u n b ty s = (Inr x, s')" and ok: "db_ok (view s)" and "fresh_ids S view (view s)"
  shows "0 \<le> n \<and> n \<le> lg_avail (ledger_of (view s)) u \<and> ledger_of (view s') = lg_freeze u n (ledger_of (view s))"
proof -
  from assms(1) obtain w s1 m w' i s2 y s3 z s4 v where
      1: "get_or_create_wallet S u True s = (Inr w, s1)" and m: "Money n = Inr m"
    and w': "Wallet_freeze_coin w m b = Inr w'" and 2: "uuid4 S s1 = (Inr i, s2)"
    and 3: "WalletRepository_save S w' s2 = (Inr y, s3)"
    and 4: "TransactionRepository_save S (Transaction_create i u m ty ''PENDING'' b None) s3 = (Inr z, s4)"
    and 5: "forE (publish S) (fst (Wallet_clear_events w')) s4 = (Inr v, s')"
    by (rule freeze_coin_runs)
  from 1 ok assms(3) obtain r where r: "wallets (view s1) (w_wallet_id w) = Some r" "wm_user_id r = u"
      "w = wallet_of r" "ledger_of (view s1) = ledger_of (view s)" "db_ok (view s1)"
    by (rule get_or_create_wallet_ledger)
  have v2: "view s2 = view s1" using uuid4_view [OF 2] .
  note eff = Wallet_freeze_effect [OF w'] Money_ok [OF m, unfolded money_ok_def]
  have bal: "lg_avail (ledger_of (view s)) u = wm_available_balance r" "lg_frozen (ledger_of (view s)) u = wm_frozen_balance r"
    using ledger_wallet [OF r(5,1)] r(2,4) by simp_all
  have u': "w_user_id w' = u" "w_wallet_id w' = w_wallet_id w" using eff r(2,3) by (auto simp: wallet_of_def)
  have "ledger_of (view s3) = (ledger_of (view s))\<lparr>
      lg_avail := (lg_avail (ledger_of (view s)))(u := amount (available_balance w')),
      lg_frozen := (lg_frozen (ledger_of (view s)))(u := amount (frozen_balance w'))\<rparr>"
    using save_wallet_ledger(1) [OF 3, of r] r u' by (simp add: v2)
  then show ?thesis
    using log_ledger [OF 4 5] eff bal r(3) by (simp add: lg_freeze_def wallet_of_def)
qed

lemma unfreeze_coin_refines:
  assumes "unfreeze_coin S u n b s = (Inr x, s')" and ok: "db_ok (view s)"
  shows "0 \<le> n \<and> n \<le> lg_frozen (ledger_of (view s)) u \<and> ledger_of (view s') = lg_unfreeze u n (ledger_of (view s))"
proof -
  from assms(1) obtain w s1 m w' i s2 y s3 z s4 v where
      1: "WalletRepository_find_by_user_id S u True s = (Inr (Some w), s1)" and m: "Money n = Inr m"
    and w': "Wallet_unfreeze_coin w m b = Inr w'" and 2: "uuid4 S s1 = (Inr i, s2)"
    and 3: "WalletRepository_save S w' s2 = (Inr y, s3)"
    and 4: "TransactionRepository_save S (Transaction_create i u m REFUND ''SUCCESS'' b None) s3 = (Inr z, s4)"
    and 5: "forE (publish S) (fst (Wallet_clear_events w')) s4 = (Inr v, s')"
    by (rule unfreeze_coin_runs)
  from 1 ok obtain r where k: "wallets (view s) (w_wallet_id w) = Some r"
    and r: "w = wallet_of r" "wm_user_id r = u" by (rule find_wallet_key)
  have v2: "view s2 = view s" using uuid4_view [OF 2] find_wallet_wf [OF 1] by simp
  note eff = Wallet_unfreeze_effect [OF w'] Money_ok [OF m, unfolded money_ok_def]
  have bal: "lg_avail (ledger_of (view s)) u = wm_available_balance r" "lg_frozen (ledger_of (view s)) u = wm_frozen_balance r"
    using ledger_wallet [OF ok k] r(2) by simp_all
  have u': "w_user_id w' = u" "w_wallet_id w' = w_wallet_id w" using eff r by (auto simp: wallet_of_def)
  have "ledger_of (view s3) = (ledger_of (view s))\<lparr>
      lg_avail := (lg_avail (ledger_of (view s)))(u := amount (available_balance w')),
      lg_frozen := (lg_frozen (ledger_of (view s)))(u := amount (frozen_balance w'))\<rparr>"
    using save_wallet_ledger(1) [OF 3, of r] k r u' ok by (simp add: v2)
  then show ?thesis
    using log_ledger [OF 4 5] eff bal r(1) by (simp add: lg_unfreeze_def wallet_of_def)
qed

lemma transfer_to_escrow_refines:
  assumes "transfer_to_escrow S u n b s = (Inr x, s')" and ok: "db_ok (view s)" and fresh: "fresh_ids S view (view s)"
  shows "0 \<le> n \<and> n \<le> lg_frozen (ledger_of (view s)) u \<and> lg_held (ledger_of (view s)) b = 0 \<and>
    ledger_of (view s') = lg_hold u b n (ledger_of (view s))"
proof -
  from assms(1) obtain w s1 m v s2 w' i s3 ft s4 t s5 a s6 c s7 d s8 g where
      1: "WalletRepository_find_by_user_id S u True s = (Inr (Some w), s1)" and m: "Money n = Inr m"
    and 2: "EscrowRepository_find_by_booking_id S b False s1 = (Inr v, s2)" and nh: "\<not> is_held v" "x = i"
    and w': "Wallet_deduct_frozen w m = Inr w'" and 3: "uuid4 S s2 = (Inr i, s3)"
    and 4: "TransactionRepository_find_by_reference_id S b BOOKING_RESERVATION False s3 = (Inr ft, s4)"
    and 5: "reservation_txn S u m b ft s4 = (Inr t, s5)"
    and 6: "WalletRepository_save S w' s5 = (Inr a, s6)"
    and 7: "EscrowRepository_save S (Escrow_create i b m) s6 = (Inr c, s7)"
    and 8: "TransactionRepository_save S t s7 = (Inr d, s8)"
    and 9: "forE (publish S) (fst (Escrow_clear_events (Escrow_create i b m))) s8 = (Inr g, s')"
    by (rule transfer_to_escrow_runs)
  have v1: "view s1 = view s" "view s2 = view s" "view s4 = view s"
    using find_wallet_wf [OF 1] find_escrow_wf [OF 2] find_ref_wf [OF 4] uuid4_view [OF 3] by simp_all
  have v5: "view s5 = view s"
    using 5 v1 by (auto simp: reservation_txn_def run_inv split: option.splits dest!: uuid4_view)
  from 1 ok obtain r where k: "wallets (view s) (w_wallet_id w) = Some r"
    and r: "w = wallet_of r" "wm_user_id r = u" by (rule find_wallet_key)
  note eff = Wallet_deduct_effect [OF w'] Money_ok [OF m, unfolded money_ok_def]
  note bal = ledger_wallet [OF ok k, unfolded r(2)]
  have u': "w_user_id w' = u" "w_wallet_id w' = w_wallet_id w" using eff r by (auto simp: wallet_of_def)
  have held: "lg_held (ledger_of (view s)) b = 0"
  proof (cases v)
    case None
    with 2 v1 have "y \<in> ran (escrows (view s)) \<Longrightarrow> em_booking_id y \<noteq> b" for y
      by (metis find_escrow_absent)
    then show ?thesis by (simp add: ledger_of_def sum_by_none)
  next
    case (Some e)
    then obtain y where "escrows (view s) (e_escrow_id e) = Some y" "e = escrow_of y" "em_booking_id y = b"
      using find_escrow_key [of b False s1 e s2] 2 ok v1 by metis
    with Some nh ledger_escrow [OF ok, of _ y] show ?thesis
      by (auto simp: is_held_def escrow_of_def held_amount_def)
  qed
  have L6: "ledger_of (view s6) = (ledger_of (view s))\<lparr>lg_frozen := (lg_frozen (ledger_of (view s)))(u := lg_frozen (ledger_of (view s)) u - n)\<rparr>"
      "escrows (view s6) = escrows (view s)"
    using save_wallet_ledger [OF 6, of r] k r u' ok eff bal by (simp_all add: v5 wallet_of_def fun_upd_idem)
  have "db_ok (view s6)"
    using save_wallet_db_ok [OF 6] Wallet_deduct_ok [OF w'] find_wallet_wf [OF 1] ok v5 by simp
  moreover have "escrows (view s6) i = None" using L6(2) fresh 3 v1 by (auto simp: fresh_ids_def)
  ultimately have "ledger_of (view s7) = (ledger_of (view s6))\<lparr>lg_held := (lg_held (ledger_of (view s6)))(b := n)\<rparr>"
    using save_escrow_ledger(1) [OF 7] eff by (simp add: Escrow_create_def Escrow_add_event_def)
  then show ?thesis
    using log_ledger [OF 8 9] L6(1) eff held bal r by (simp add: lg_hold_def wallet_of_def)
qed

text \<open>Crediting the wallet of a user after the escrow row was closed: shared by payout and refund.\<close>

lemma close_escrow_refines:
  assumes e: "escrows (view s) (e_escrow_id e) = Some er" "e = escrow_of er" "em_booking_id er = b" "e_status e = ''HELD''"
    and e': "e_escrow_id e' = e_escrow_id e" "e_booking_id e' = e_booking_id e" "e_status e' \<noteq> ''HELD''" "escrow_ok e'"
    and 2: "get_or_create_wallet S c lock s = (Inr w, s2)" and w': "Wallet_deposit w m = Inr w'"
    and 3: "uuid4 S s2 = (Inr i, s3)"
    and 4: "EscrowRepository_save S e' s3 = (Inr a, s4)" and 5: "WalletRepository_save S w' s4 = (Inr d, s5)"
    and 6: "TransactionRepository_save S t s5 = (Inr f, s6)" and 7: "forE (publish S) es s6 = (Inr g, s')"
    and ok: "db_ok (view s)" and fresh: "fresh_ids S view (view s)"
  shows "lg_held (ledger_of (view s)) b = em_amount er \<and>
    ledger_of (view s') = lg_release b c (amount m) (ledger_of (view s))"
proof -
  from 2 ok fresh obtain r where r: "wallets (view s2) (w_wallet_id w) = Some r" "wm_user_id r = c" "w = wallet_of r"
      "ledger_of (view s2) = ledger_of (view s)" "escrows (view s2) = escrows (view s)" "db_ok (view s2)"
    by (rule get_or_create_wallet_ledger)
  have v3: "view s3 = view s2" using uuid4_view [OF 3] .
  note eff = Wallet_deposit_effect [OF w']
  note bal = ledger_wallet [OF r(6,1), unfolded r(2,4)]
  have held: "lg_held (ledger_of (view s)) b = em_amount er"
    using ledger_escrow [OF ok e(1)] e by (simp add: escrow_of_def held_amount_def)
  have b: "e_booking_id e' = em_booking_id er" "e_booking_id e' = b" using e e' by (simp_all add: escrow_of_def)
  have L4: "ledger_of (view s4) = (ledger_of (view s))\<lparr>lg_held := (lg_held (ledger_of (view s)))(b := 0)\<rparr>"
      "wallets (view s4) = wallets (view s2)"
    using save_escrow_ledger [OF 4] r e e' b by (simp_all add: v3)
  have ok4: "db_ok (view s4)" using save_escrow_db_ok [OF 4] r(6) e' by (simp add: v3)
  have u': "w_user_id w' = c" "w_wallet_id w' = w_wallet_id w" using eff r(2,3) by (auto simp: wallet_of_def)
  have "ledger_of (view s5) = (ledger_of (view s4))\<lparr>
      lg_avail := (lg_avail (ledger_of (view s)))(c := lg_avail (ledger_of (view s)) c + amount m)\<rparr>"
    using save_wallet_ledger(1) [OF 5 ok4, of r] r u' eff bal L4 by (simp add: wallet_of_def fun_upd_idem)
  then show ?thesis using log_ledger [OF 6 7] L4(1) held by (simp add: lg_release_def)
qed

lemma process_payout_refines:
  assumes "process_payout S b c rate s = (Inr x, s')" and ok: "db_ok (view s)" and fresh: "fresh_ids S view (view s)"
  obtains er commission where "er \<in> ran (escrows (view s))" "em_booking_id er = b" "em_status er = ''HELD''"
    "lg_held (ledger_of (view s)) b = em_amount er"
    "round_product (em_amount er) rate = Inr commission" "commission \<le> em_amount er"
    "ledger_of (view s') = lg_release b c (em_amount er - commission) (ledger_of (view s))"
proof -
  from assms(1) obtain e s1 commission net e' w s2 m w' i s3 a s4 d s5 f s6 g where
      1: "EscrowRepository_find_by_booking_id S b True s = (Inr (Some e), s1)"
    and e': "Escrow_payout e c rate = Inr (commission, net, e')"
    and 2: "get_or_create_wallet S c True s1 = (Inr w, s2)" and m: "Money net = Inr m"
    and w': "Wallet_deposit w m = Inr w'" and 3: "uuid4 S s2 = (Inr i, s3)"
    and 4: "EscrowRepository_save S e' s3 = (Inr a, s4)" and 5: "WalletRepository_save S w' s4 = (Inr d, s5)"
    and 6: "TransactionRepository_save S (Transaction_create i c m ESCROW_RELEASE ''SUCCESS'' b None) s5 = (Inr f, s6)"
    and 7: "forE (publish S) (fst (Escrow_clear_events e')) s6 = (Inr g, s')"
    by (rule process_payout_runs)
  from 1 ok obtain er where er: "escrows (view s) (e_escrow_id e) = Some er" "e = escrow_of er" "em_booking_id er = b"
    by (rule find_escrow_key)
  have v1: "view s1 = view s" and eok: "escrow_ok e" using find_escrow_wf [OF 1] by simp_all
  note eff = Escrow_payout_effect [OF e']
  have "lg_held (ledger_of (view s1)) b = em_amount er \<and>
      ledger_of (view s') = lg_release b c (amount m) (ledger_of (view s1))"
    using eff Escrow_payout_ok [OF e' eok] er v1 ok fresh
    by (intro close_escrow_refines [OF _ _ _ _ _ _ _ _ 2 w' 3 4 5 6 7]) simp_all
  then show thesis
    using that [of er commission] er eff v1 Money_ok [OF m, unfolded money_ok_def]
    by (auto simp: escrow_of_def intro: ranI)
qed

lemma refund_escrow_refines:
  assumes "refund_escrow S b c n s = (Inr x, s')" and ok: "db_ok (view s)" and fresh: "fresh_ids S view (view s)"
  obtains er c' n' where "er \<in> ran (escrows (view s))" "em_booking_id er = b" "em_status er = ''HELD''"
    "lg_held (ledger_of (view s)) b = em_amount er" "0 \<le> n'"
    "(c \<noteq> [] \<longrightarrow> c' = c) \<and> (0 < n \<longrightarrow> n' = n)" "\<exists>e s1. refund_resolve S b c n s = (Inr (e, c', n'), s1)"
    "ledger_of (view s') = lg_release b c' n' (ledger_of (view s))"
proof -
  from assms(1) obtain e c' n' s1 where rs: "refund_resolve S b c n s = (Inr (e, c', n'), s1)"
    and ap: "refund_apply S b e c' n' s1 = (Inr x, s')" by (rule refund_escrow_runs)
  from rs obtain s0 where 1: "EscrowRepository_find_by_booking_id S b True s = (Inr (Some e), s0)"
    and cn: "(c \<noteq> [] \<longrightarrow> c' = c) \<and> (0 < n \<longrightarrow> n' = n)"
    by (rule refund_resolve_runs) (auto split: option.splits)
  from ap obtain m e' w s2 w' i s3 a s4 d s5 f s6 g where
      m: "Money n' = Inr m" and e': "Escrow_refund e c' m = Inr e'"
    and 2: "get_or_create_wallet S c' True s1 = (Inr w, s2)"
    and w': "Wallet_deposit w m = Inr w'" and 3: "uuid4 S s2 = (Inr i, s3)"
    and 4: "EscrowRepository_save S e' s3 = (Inr a, s4)" and 5: "WalletRepository_save S w' s4 = (Inr d, s5)"
    and 6: "TransactionRepository_save S (Transaction_create i c' m REFUND ''SUCCESS'' b None) s5 = (Inr f, s6)"
    and 7: "forE (publish S) (fst (Escrow_clear_events e')) s6 = (Inr g, s')"
    by (rule refund_apply_runs)
  from 1 ok obtain er where er: "escrows (view s) (e_escrow_id e) = Some er" "e = escrow_of er" "em_booking_id er = b"
    by (rule find_escrow_key)
  have v1: "view s1 = view s" and eok: "escrow_ok e" using refund_resolve_wf [OF rs] by simp_all
  note eff = Escrow_refund_effect [OF e']
  have "lg_held (ledger_of (view s1)) b = em_amount er \<and>
      ledger_of (view s') = lg_release b c' (amount m) (ledger_of (view s1))"
    using eff Escrow_refund_ok [OF e' eok] er v1 ok fresh
    by (intro close_escrow_refines [OF _ _ _ _ _ _ _ _ 2 w' 3 4 5 6 7]) simp_all
  then show thesis
    using that [of er n' c'] er eff v1 Money_ok [OF m, unfolded money_ok_def] cn rs
    by (auto simp: escrow_of_def intro: ranI)
qed

lemma credit_topup_refines:
  assumes "credit_topup S t i v s = (Inr x, s')" and ok: "db_ok (view s)" and fresh: "fresh_ids S view (view s)"
  shows "ledger_of (view s') = lg_credit (t_user_id t) (amount (t_amount t)) (ledger_of (view s))"
proof -
  from assms(1) obtain w s1 w' a s2 d s3 where
      1: "get_or_create_wallet S (t_user_id (Transaction_success t)) True s = (Inr w, s1)"
    and w': "Wallet_topup w (t_amount (Transaction_success t)) i (v div 100) = Inr w'"
    and 2: "WalletRepository_save S w' s1 = (Inr a, s2)"
    and 3: "TransactionRepository_save S (Transaction_success t) s2 = (Inr d, s3)"
    and 4: "forE (publish S) (fst (Wallet_clear_events w')) s3 = (Inr x, s')"
    by (rule credit_topup_runs)
  let ?u = "t_user_id t"
  from 1 ok fresh obtain r where r: "wallets (view s1) (w_wallet_id w) = Some r" "wm_user_id r = ?u" "w = wallet_of r"
      "ledger_of (view s1) = ledger_of (view s)" "db_ok (view s1)"
    by (rule get_or_create_wallet_ledger) (simp add: Transaction_success_def)
  note eff = Wallet_topup_effect [OF w']
  note bal = ledger_wallet [OF r(5,1), unfolded r(2,4)]
  have u': "w_user_id w' = ?u" "w_wallet_id w' = w_wallet_id w" using eff r(2,3) by (auto simp: wallet_of_def)
  have "ledger_of (view s2) = (ledger_of (view s))\<lparr>
      lg_avail := (lg_avail (ledger_of (view s)))(?u := lg_avail (ledger_of (view s)) ?u + amount (t_amount t))\<rparr>"
    using save_wallet_ledger(1) [OF 2 r(5), of r] r u' eff bal
    by (simp add: wallet_of_def fun_upd_idem Transaction_success_def)
  then show ?thesis using log_ledger [OF 3 4] by (simp add: lg_credit_def)
qed

end

end
