(* ===== verification/Web.thy ===== *)
theory Web
  imports Json_Data "HOL-Library.Sublist"
begin

text \<open>
  What the gRPC and REST interfaces of the services share: status codes, exceptions of a route, the error
  bodies of \<open>interfaces/http/errors.py\<close> (the same file in every service), and the text codecs of the
  outbox messages (\<open>json.loads\<close>, \<open>isoformat\<close>, \<open>str\<close>), which are parameters.
\<close>

section \<open>gRPC replies\<close>

text \<open>
  A handler that sets a status code fails the call with that code and its details: \<open>Failure\<close>.
\<close>

datatype grpc_code = INVALID_ARGUMENT | NOT_FOUND | ALREADY_EXISTS | FAILED_PRECONDITION | INTERNAL
  | UNAUTHENTICATED | PERMISSION_DENIED

datatype 'a grpc_reply = Reply 'a | Failure grpc_code string

text \<open>
  The authenticated headers: \<open>user-id\<close> and \<open>user-role\<close> of the call's metadata, made a dictionary, in which the
  last of several values counts.
\<close>

definition metadata_get :: "(string \<times> string) list \<Rightarrow> string \<Rightarrow> string" where
  "metadata_get md k = (case map_of (rev md) k of None \<Rightarrow> '''' | Some v \<Rightarrow> v)"

section \<open>Exceptions of a route\<close>

datatype 'e http_exn = HTTPException int string | RequestValidationError | Unhandled 'e

definition map_err :: "('e \<Rightarrow> 'f) \<Rightarrow> ('s, 'e, 'a) eff \<Rightarrow> ('s, 'f, 'a) eff" where
  "map_err f m = tryE m (\<lambda>e. raise (f e))"

section \<open>Error mapping\<close>

definition map_http_status_to_grpc_code :: "int \<Rightarrow> int" where
  "map_http_status_to_grpc_code status_code =
     (case map_of [(400, 3), (401, 16), (403, 7), (404, 5), (409, 6), (422, 3), (500, 13), (501, 12), (503, 14)]
             status_code of
        None \<Rightarrow> 2 | Some c \<Rightarrow> c)"

record error_body =
  er_status :: int
  er_code :: int
  er_message :: string
  er_details :: "(string \<times> string) list"

definition domain_error_body :: "string \<Rightarrow> error_body" where
  "domain_error_body msg =
     (let status_code = (if sublist ''not found'' (py_lower msg) then 404 else 400)
      in \<lparr>er_status = status_code, er_code = map_http_status_to_grpc_code status_code,
          er_message = msg, er_details = []\<rparr>)"

definition http_exception_handler :: "int \<Rightarrow> string \<Rightarrow> error_body" where
  "http_exception_handler status_code detail =
     \<lparr>er_status = status_code, er_code = map_http_status_to_grpc_code status_code,
      er_message = detail, er_details = []\<rparr>"

text \<open>An error of the validator: the path of the field and the message.\<close>

fun join_dot :: "string list \<Rightarrow> string" where
  "join_dot [] = []"
| "join_dot [x] = x"
| "join_dot (x # xs) = x @ ''.'' @ join_dot xs"

definition validation_exception_handler :: "(string list \<times> string) list \<Rightarrow> error_body" where
  "validation_exception_handler errors =
     \<lparr>er_status = 422, er_code = map_http_status_to_grpc_code 422, er_message = ''Validation Error'',
      er_details = map (\<lambda>(loc, msg). (join_dot loc, msg)) errors\<rparr>"

section \<open>Text codecs\<close>

text \<open>\<open>loads\<close> also raises when the payload is no object (\<open>payload.get\<close>); \<open>py_str\<close> is \<open>str\<close> of a value.\<close>

record 'e codec =
  loads :: "string \<Rightarrow> 'e + (string \<rightharpoonup> json)"
  iso_format :: "int \<Rightarrow> string"
  py_str :: "json \<Rightarrow> string"

end
