(* ===== verification/Finance_Grpc.thy ===== *)
theory Finance_Grpc
  imports Finance_Ledger Web
begin

text \<open>
  The gRPC servicer of the finance service (\<open>servicer.py\<close>).  A handler that sets a status code and
  returns an empty message fails the call with that code: \<open>Failure\<close>.  An exception that leaves the
  handler (a failing \<open>rollback\<close>) is the exception of the coroutine.
\<close>

record command_response =
  transaction_id :: string
  cr_status :: string
  cr_message :: string

definition internal_error :: "'a grpc_reply" where
  "internal_error = Failure INTERNAL ''Internal server error occurred.''"

section \<open>FreezeCoin\<close>

text \<open>\<open>pb_to_domain\<close>, on the numbers of the enumeration in \<open>finance_enums.proto\<close>.\<close>

definition pb_to_domain :: "int \<Rightarrow> TransactionType option" where
  "pb_to_domain t =
     (if t = 1 then Some TOPUP else if t = 2 then Some BOOKING_RESERVATION
      else if t = 3 then Some ESCROW_RELEASE else if t = 4 then Some PENALTY_DEDUCTION
      else if t = 5 then Some REFUND else None)"

definition resolve_txn_type :: "int option \<Rightarrow> 'a grpc_reply + TransactionType" where
  "resolve_txn_type req_type =
     (case req_type of
        None \<Rightarrow> Inr BOOKING_RESERVATION
      | Some t \<Rightarrow>
          if t = 0 then Inl (Failure INVALID_ARGUMENT ''Transaction type cannot be UNSPECIFIED.'')
          else case pb_to_domain t of
                 None \<Rightarrow> Inl (Failure INVALID_ARGUMENT (''Invalid transaction type: '' @ show_int t))
               | Some ty \<Rightarrow> Inr ty)"

fun freeze_error :: "exn \<Rightarrow> 'a grpc_reply" where
  "freeze_error (WalletNotFoundError i) = Failure NOT_FOUND (exn_str (WalletNotFoundError i))"
| "freeze_error (InsufficientBalanceError i r a) = Failure FAILED_PRECONDITION (exn_str (InsufficientBalanceError i r a))"
| "freeze_error (InvalidAmountError a) = Failure FAILED_PRECONDITION (exn_str (InvalidAmountError a))"
| "freeze_error e = Failure INTERNAL (py_or (exn_str e) ''Internal server error occurred.'')"

definition FreezeCoin ::
  "'s fin_session \<Rightarrow> string \<Rightarrow> int \<Rightarrow> string \<Rightarrow> int option \<Rightarrow> ('s, exn, command_response grpc_reply) eff" where
  "FreezeCoin S user_id amt booking_id req_type =
     (case resolve_txn_type req_type of
        Inl failure \<Rightarrow> ret failure
      | Inr txn_type \<Rightarrow>
          bindE (open_session S) (\<lambda>_.
          tryE
            (bindE (freeze_coin S user_id amt booking_id txn_type) (\<lambda>txn_id.
             bindE (commit S) (\<lambda>_.
             ret (Reply \<lparr>transaction_id = txn_id, cr_status = ''SUCCESS'',
                    cr_message = ''Coins successfully frozen for booking reservation.''\<rparr>))))
            (\<lambda>e. ret (freeze_error e))))"

section \<open>TransferToEscrow, ProcessPayout, RefundEscrow\<close>

fun transfer_error :: "exn \<Rightarrow> 'a grpc_reply" where
  "transfer_error (WalletNotFoundError i) = Failure NOT_FOUND (exn_str (WalletNotFoundError i))"
| "transfer_error (EscrowAlreadyExistsError b) = Failure ALREADY_EXISTS (exn_str (EscrowAlreadyExistsError b))"
| "transfer_error (InsufficientBalanceError i r a) = Failure FAILED_PRECONDITION (exn_str (InsufficientBalanceError i r a))"
| "transfer_error (InvalidAmountError a) = Failure FAILED_PRECONDITION (exn_str (InvalidAmountError a))"
| "transfer_error e = internal_error"

definition TransferToEscrow ::
  "'s fin_session \<Rightarrow> string \<Rightarrow> int \<Rightarrow> string \<Rightarrow> ('s, exn, command_response grpc_reply) eff" where
  "TransferToEscrow S user_id amt booking_id =
     bindE (open_session S) (\<lambda>_.
     tryE
       (bindE (transfer_to_escrow S user_id amt booking_id) (\<lambda>escrow_id.
        bindE (commit S) (\<lambda>_.
        ret (Reply \<lparr>transaction_id = escrow_id, cr_status = ''SUCCESS'',
               cr_message = ''Coins successfully transferred to Escrow HELD status.''\<rparr>))))
       (\<lambda>e. bindE (rollback S) (\<lambda>_. ret (transfer_error e))))"

fun payout_error :: "exn \<Rightarrow> 'a grpc_reply" where
  "payout_error (EscrowNotFoundError b) = Failure NOT_FOUND (exn_str (EscrowNotFoundError b))"
| "payout_error (InvalidEscrowStatusTransitionError c t) =
     Failure FAILED_PRECONDITION (exn_str (InvalidEscrowStatusTransitionError c t))"
| "payout_error e = internal_error"

definition ProcessPayout ::
  "'s fin_session \<Rightarrow> string \<Rightarrow> string \<Rightarrow> py_float \<Rightarrow> ('s, exn, command_response grpc_reply) eff" where
  "ProcessPayout S booking_id companion_id commission_rate =
     bindE (open_session S) (\<lambda>_.
     tryE
       (bindE (process_payout S booking_id companion_id commission_rate) (\<lambda>txn_id.
        bindE (commit S) (\<lambda>_.
        ret (Reply \<lparr>transaction_id = txn_id, cr_status = ''SUCCESS'',
               cr_message = ''Escrow released and payout successfully processed.''\<rparr>))))
       (\<lambda>e. bindE (rollback S) (\<lambda>_. ret (payout_error e))))"

fun refund_error :: "exn \<Rightarrow> 'a grpc_reply" where
  "refund_error (EscrowNotFoundError b) = Failure NOT_FOUND (exn_str (EscrowNotFoundError b))"
| "refund_error (InvalidEscrowStatusTransitionError c t) =
     Failure FAILED_PRECONDITION (exn_str (InvalidEscrowStatusTransitionError c t))"
| "refund_error (InsufficientBalanceError i r a) = Failure FAILED_PRECONDITION (exn_str (InsufficientBalanceError i r a))"
| "refund_error (InvalidAmountError a) = Failure FAILED_PRECONDITION (exn_str (InvalidAmountError a))"
| "refund_error e = Failure INTERNAL (py_or (exn_str e) ''Internal server error occurred.'')"

definition RefundEscrow ::
  "'s fin_session \<Rightarrow> string \<Rightarrow> string \<Rightarrow> int \<Rightarrow> ('s, exn, command_response grpc_reply) eff" where
  "RefundEscrow S booking_id client_id refund_amount =
     bindE (open_session S) (\<lambda>_.
     tryE
       (bindE (refund_escrow S booking_id client_id refund_amount) (\<lambda>txn_id.
        bindE (commit S) (\<lambda>_.
        ret (Reply \<lparr>transaction_id = txn_id, cr_status = ''SUCCESS'',
               cr_message = ''Escrow successfully refunded to client wallet.''\<rparr>))))
       (\<lambda>e. ret (refund_error e)))"

section \<open>Queries\<close>

record wallet_response =
  wr_wallet_id :: string
  wr_user_id :: string
  wr_available_balance :: int
  wr_frozen_balance :: int

definition wallet_reply :: "wallet \<Rightarrow> wallet_response" where
  "wallet_reply w = \<lparr>wr_wallet_id = w_wallet_id w, wr_user_id = w_user_id w,
     wr_available_balance = amount (available_balance w), wr_frozen_balance = amount (frozen_balance w)\<rparr>"

definition GetWallet :: "'s fin_session \<Rightarrow> string \<Rightarrow> ('s, exn, wallet_response grpc_reply) eff" where
  "GetWallet S user_id =
     bindE (open_session S) (\<lambda>_.
     tryE
       (bindE (get_or_create_wallet S user_id False) (\<lambda>wallet.
        bindE (commit S) (\<lambda>_. ret (Reply (wallet_reply wallet)))))
       (\<lambda>e. bindE (rollback S) (\<lambda>_. ret internal_error)))"

fun balance_error :: "exn \<Rightarrow> 'a grpc_reply" where
  "balance_error (InvalidAmountError a) = Failure FAILED_PRECONDITION (exn_str (InvalidAmountError a))"
| "balance_error e = internal_error"

definition CheckBalance :: "'s fin_session \<Rightarrow> string \<Rightarrow> int \<Rightarrow> ('s, exn, bool grpc_reply) eff" where
  "CheckBalance S user_id amt =
     bindE (open_session S) (\<lambda>_.
     tryE
       (bindE (check_balance S user_id amt) (\<lambda>has_sufficient.
        bindE (commit S) (\<lambda>_. ret (Reply has_sufficient))))
       (\<lambda>e. bindE (rollback S) (\<lambda>_. ret (balance_error e))))"

end
