(* ===== verification/Py_Json.thy ===== *)
theory Py_Json
  imports Finance_VNPay Json_Data
begin

text \<open>
  Decoded JSON as the Kafka listeners of the finance service handle it: \<open>dict.get\<close>, chains of \<open>or\<close> and
  the conversion \<open>int(x)\<close>.
\<close>

text \<open>\<open>x.get(key, default)\<close>: only a dictionary has the method.\<close>

fun get_or :: "json \<Rightarrow> string \<Rightarrow> json \<Rightarrow> exn + json" where
  "get_or (JObj kvs) key def = Inr (case map_of kvs key of None \<Rightarrow> def | Some v \<Rightarrow> v)"
| "get_or _ key def = Inl (PyTypeError (''object has no attribute '' @ [CHR 0x27] @ ''get'' @ [CHR 0x27]))"

definition json_get :: "json \<Rightarrow> string \<Rightarrow> exn + json" where
  "json_get x key = get_or x key JNull"

text \<open>\<open>d.get(k1) or d.get(k2) or \<dots>\<close>.\<close>

fun get_first :: "json \<Rightarrow> string list \<Rightarrow> exn + json" where
  "get_first d [] = Inr JNull"
| "get_first d [k] = json_get d k"
| "get_first d (k # ks) = bindS (json_get d k) (\<lambda>v. if truthy v then Inr v else get_first d ks)"

fun py_trunc :: "py_float \<Rightarrow> exn + int" where
  "py_trunc (Fin m e) =
     Inr (if e \<ge> 0 then m * 2 ^ nat e
          else if m \<ge> 0 then m div 2 ^ nat (- e) else - (- m div 2 ^ nat (- e)))"
| "py_trunc NaN = Inl (PyValueError ''cannot convert float NaN to integer'')"
| "py_trunc _ = Inl (PyOverflowError ''cannot convert float infinity to integer'')"

fun json_int :: "json \<Rightarrow> exn + int" where
  "json_int (JInt i) = Inr i"
| "json_int (JBool b) = Inr (if b then 1 else 0)"
| "json_int (JFloat f) = py_trunc f"
| "json_int (JStr s) = py_int s"
| "json_int _ = Inl (PyTypeError ''int() argument must be a string, a bytes-like object or a real number'')"

text \<open>
  An identifier that is used as a string: any other value is refused by the database driver and by
  the protobuf message, so nothing comes of it.
\<close>

fun json_str :: "json \<Rightarrow> exn + string" where
  "json_str (JStr s) = Inr s"
| "json_str _ = Inl (PyTypeError ''expected str'')"

end
