(* ===== verification/Finance_Listener.thy ===== *)
theory Finance_Listener
  imports Finance_Grpc Py_Json Event_Loop
begin

text \<open>
  The Kafka listeners of the finance service (\<open>main.py\<close>): wallet onboarding on identity events, and the
  booking events that freeze, unfreeze, escrow, refund and pay out.  One definition per event branch;
  \<open>handle_booking_event\<close> is the body of the loop for one message.  Exceptions are logged and dropped:
  the innermost \<open>try\<close> leaves the session without a commit.  The last section has the listeners themselves,
  from the connection to the broker to the end of the loop.
\<close>

section \<open>Identity events\<close>

definition handle_identity_event :: "'s fin_session \<Rightarrow> json \<Rightarrow> ('s, exn, unit) eff" where
  "handle_identity_event S msg =
     tryE
       (bindE (liftE (get_or msg ''data'' (JObj []))) (\<lambda>event_data.
        bindE (liftE (get_first event_data [''userId'', ''user_id'', ''id''])) (\<lambda>user_id.
        if truthy user_id
        then
          bindE (open_session S) (\<lambda>_.
          bindE (liftE (json_str user_id)) (\<lambda>user_id.
          bindE (create_wallet_onboard S user_id) (\<lambda>_.
          commit S)))
        else ret ())))
       (\<lambda>e. ret ())"

section \<open>Booking events\<close>

definition event_data :: "json \<Rightarrow> exn + json" where
  "event_data msg = get_or msg ''data'' (JObj [])"

definition booking_id_of :: "json \<Rightarrow> exn + json" where
  "booking_id_of data = get_first data [''bookingId'', ''booking_id'']"

definition client_id_of :: "json \<Rightarrow> exn + json" where
  "client_id_of data = get_first data [''clientId'', ''client_id'']"

text \<open>\<open>async with SessionLocal() as session: try: m except Exception: log\<close>.\<close>

definition in_session :: "'s fin_session \<Rightarrow> ('s, exn, unit) eff \<Rightarrow> ('s, exn, unit) eff" where
  "in_session S m = bindE (open_session S) (\<lambda>_. tryE m (\<lambda>e. ret ()))"

definition on_booking_requested :: "'s fin_session \<Rightarrow> json \<Rightarrow> ('s, exn, unit) eff" where
  "on_booking_requested S msg =
     bindE (liftE (event_data msg)) (\<lambda>data.
     bindE (liftE (booking_id_of data)) (\<lambda>booking_id.
     bindE (liftE (client_id_of data)) (\<lambda>client_id.
     bindE (liftE (json_get data ''price'')) (\<lambda>amt.
     if truthy booking_id \<and> truthy client_id \<and> amt \<noteq> JNull
     then in_session S
       (bindE (liftE (json_int amt)) (\<lambda>n.
        bindE (liftE (json_str client_id)) (\<lambda>u.
        bindE (liftE (json_str booking_id)) (\<lambda>b.
        bindE (freeze_coin S u n b BOOKING_RESERVATION) (\<lambda>_.
        commit S)))))
     else ret ()))))"

definition on_transfer_to_escrow :: "'s fin_session \<Rightarrow> json \<Rightarrow> ('s, exn, unit) eff" where
  "on_transfer_to_escrow S msg =
     bindE (liftE (event_data msg)) (\<lambda>data.
     bindE (liftE (booking_id_of data)) (\<lambda>booking_id.
     bindE (liftE (get_first data [''userId'', ''user_id'', ''clientId'', ''client_id''])) (\<lambda>user_id.
     bindE (liftE (json_get data ''amount'')) (\<lambda>amt.
     if truthy booking_id \<and> truthy user_id \<and> amt \<noteq> JNull
     then in_session S
       (bindE (liftE (json_int amt)) (\<lambda>n.
        bindE (liftE (json_str user_id)) (\<lambda>u.
        bindE (liftE (json_str booking_id)) (\<lambda>b.
        bindE (transfer_to_escrow S u n b) (\<lambda>_.
        commit S)))))
     else ret ()))))"

definition on_refund_escrow :: "'s fin_session \<Rightarrow> json \<Rightarrow> ('s, exn, unit) eff" where
  "on_refund_escrow S msg =
     bindE (liftE (event_data msg)) (\<lambda>data.
     bindE (liftE (booking_id_of data)) (\<lambda>booking_id.
     bindE (liftE (client_id_of data)) (\<lambda>client_id.
     bindE (liftE (get_first data [''refundAmount'', ''refund_amount''])) (\<lambda>refund_amount.
     if truthy booking_id \<and> truthy client_id \<and> refund_amount \<noteq> JNull
     then in_session S
       (bindE (liftE (json_int refund_amount)) (\<lambda>n.
        bindE (liftE (json_str client_id)) (\<lambda>c.
        bindE (liftE (json_str booking_id)) (\<lambda>b.
        bindE (refund_escrow S b c n) (\<lambda>_.
        commit S)))))
     else ret ()))))"

definition on_unfreeze_coin :: "'s fin_session \<Rightarrow> json \<Rightarrow> ('s, exn, unit) eff" where
  "on_unfreeze_coin S msg =
     bindE (liftE (event_data msg)) (\<lambda>data.
     bindE (liftE (booking_id_of data)) (\<lambda>booking_id.
     bindE (liftE (get_first data [''userId'', ''user_id''])) (\<lambda>client_id.
     bindE (liftE (json_get data ''amount'')) (\<lambda>amt.
     if truthy booking_id \<and> truthy client_id \<and> amt \<noteq> JNull
     then in_session S
       (bindE (liftE (json_int amt)) (\<lambda>n.
        bindE (liftE (json_str client_id)) (\<lambda>u.
        bindE (liftE (json_str booking_id)) (\<lambda>b.
        bindE (unfreeze_coin S u n b) (\<lambda>_.
        commit S)))))
     else ret ()))))"

text \<open>
  The full refund shared by the two cancellation events: from the held escrow, else from the frozen
  coins of the reservation.
\<close>

definition refund_in_full :: "'s fin_session \<Rightarrow> string \<Rightarrow> json \<Rightarrow> ('s, exn, unit) eff" where
  "refund_in_full S b client_id =
     bindE (EscrowRepository_find_by_booking_id S b False) (\<lambda>escrow.
     case (if is_held escrow then escrow else None) of
       Some e \<Rightarrow>
         bindE (liftE (json_str client_id)) (\<lambda>c.
         bindE (refund_escrow S b c (amount (e_amount e))) (\<lambda>_. ret ()))
     | None \<Rightarrow>
         bindE (TransactionRepository_find_by_reference_id S b BOOKING_RESERVATION False) (\<lambda>reservation_txn.
         case reservation_txn of
           Some t \<Rightarrow>
             bindE (liftE (json_str client_id)) (\<lambda>c.
             bindE (unfreeze_coin S c (amount (t_amount t)) b) (\<lambda>_. ret ()))
         | None \<Rightarrow> ret ()))"

definition cancelled_early :: "'s fin_session \<Rightarrow> json \<Rightarrow> json \<Rightarrow> ('s, exn, unit) eff" where
  "cancelled_early S booking_id client_id =
     bindE (liftE (json_str booking_id)) (\<lambda>b.
     bindE (TransactionRepository_find_by_reference_id S b REFUND False) (\<lambda>existing_refund.
     case existing_refund of
       Some _ \<Rightarrow> ret ()
     | None \<Rightarrow> bindE (refund_in_full S b client_id) (\<lambda>_. commit S)))"

definition on_cancelled_early :: "'s fin_session \<Rightarrow> json \<Rightarrow> ('s, exn, unit) eff" where
  "on_cancelled_early S msg =
     bindE (liftE (event_data msg)) (\<lambda>data.
     bindE (liftE (booking_id_of data)) (\<lambda>booking_id.
     bindE (liftE (client_id_of data)) (\<lambda>client_id.
     if truthy booking_id \<and> truthy client_id
     then in_session S (cancelled_early S booking_id client_id)
     else ret ())))"

definition pay_companion_in_full :: "'s fin_session \<Rightarrow> string \<Rightarrow> json \<Rightarrow> ('s, exn, unit) eff" where
  "pay_companion_in_full S b companion_id =
     bindE (EscrowRepository_find_by_booking_id S b False) (\<lambda>escrow.
     if is_held escrow
     then
       bindE (liftE (json_str companion_id)) (\<lambda>c.
       bindE (process_payout S b c (Fin 0 0)) (\<lambda>_. ret ()))
     else ret ())"

definition cancelled_late ::
  "'s fin_session \<Rightarrow> json \<Rightarrow> json \<Rightarrow> json \<Rightarrow> json \<Rightarrow> ('s, exn, unit) eff" where
  "cancelled_late S booking_id client_id companion_id actor_role =
     bindE (liftE (json_str booking_id)) (\<lambda>b.
     bindE (TransactionRepository_find_by_reference_id S b REFUND False) (\<lambda>existing_refund.
     bindE (TransactionRepository_find_by_reference_id S b ESCROW_RELEASE False) (\<lambda>existing_payout.
     if existing_refund \<noteq> None \<or> existing_payout \<noteq> None then ret ()
     else
       bindE (liftE (json_str actor_role)) (\<lambda>role.
       bindE
         (if py_upper role = ''COMPANION'' then refund_in_full S b client_id
          else if py_upper role = ''CLIENT'' then pay_companion_in_full S b companion_id
          else ret ()) (\<lambda>_.
       commit S)))))"

definition on_cancelled_late :: "'s fin_session \<Rightarrow> json \<Rightarrow> ('s, exn, unit) eff" where
  "on_cancelled_late S msg =
     bindE (liftE (event_data msg)) (\<lambda>data.
     bindE (liftE (booking_id_of data)) (\<lambda>booking_id.
     bindE (liftE (client_id_of data)) (\<lambda>client_id.
     bindE (liftE (get_first data [''companionId'', ''companion_id''])) (\<lambda>companion_id.
     bindE (liftE (get_first data [''actorRole'', ''actor_role''])) (\<lambda>actor_role.
     if truthy booking_id \<and> truthy client_id \<and> truthy companion_id \<and> truthy actor_role
     then in_session S (cancelled_late S booking_id client_id companion_id actor_role)
     else ret ())))))"

definition handle_booking_event :: "'s fin_session \<Rightarrow> json \<Rightarrow> ('s, exn, unit) eff" where
  "handle_booking_event S msg =
     tryE
       (bindE (liftE (json_get msg ''type'')) (\<lambda>event_type.
        if event_type = JStr ''booking.booking-requested.v1'' then on_booking_requested S msg
        else if event_type = JStr ''finance.transfer-to-escrow.v1'' then on_transfer_to_escrow S msg
        else if event_type = JStr ''finance.refund-escrow.v1'' then on_refund_escrow S msg
        else if event_type = JStr ''finance.unfreeze-coin.v1'' then on_unfreeze_coin S msg
        else if event_type = JStr ''booking.booking-cancelled-early.v1'' then on_cancelled_early S msg
        else if event_type = JStr ''booking.booking-cancelled-late.v1'' then on_cancelled_late S msg
        else ret ()))
       (\<lambda>e. ret ())"

section \<open>The listeners\<close>

definition run_identity_event_listener ::
  "(exn, json) kafka \<Rightarrow> 's fin_session \<Rightarrow> ('s, exn, unit) listening" where
  "run_identity_event_listener K S = listener K (handle_identity_event S)"

definition run_booking_event_listener ::
  "(exn, json) kafka \<Rightarrow> 's fin_session \<Rightarrow> ('s, exn, unit) listening" where
  "run_booking_event_listener K S = listener K (handle_booking_event S)"

lemma fst_try_ret: "fst (tryE m (\<lambda>e. ret ()) s) = Inr ()"
  by (auto simp: tryE_def ret_def split: prod.splits sum.splits)

interpretation idl: message_handler "handle_identity_event S" for S :: "'s fin_session"
  by unfold_locales (simp only: handle_identity_event_def fst_try_ret)

interpretation bkl: message_handler "handle_booking_event S" for S :: "'s fin_session"
  by unfold_locales (simp only: handle_booking_event_def fst_try_ret)

end
