(* ===== verification/Finance_Http.thy ===== *)
theory Finance_Http
  imports Finance_Grpc Py_Json Web
begin

text \<open>
  The REST interface of the finance service (\<open>router.py\<close>, \<open>errors.py\<close>, \<open>get_db_session\<close> of the
  bootstrap) and the messages of its outbox worker.  A route runs inside the session dependency, which
  commits when the route returns and rolls back when it raises.
\<close>

definition get_db_session :: "'s fin_session \<Rightarrow> ('s, exn http_exn, 'a) eff \<Rightarrow> ('s, exn http_exn, 'a) eff" where
  "get_db_session S route =
     bindE (map_err Unhandled (open_session S)) (\<lambda>_.
     tryE
       (bindE route (\<lambda>response.
        bindE (map_err Unhandled (commit S)) (\<lambda>_.
        ret response)))
       (\<lambda>e. bindE (map_err Unhandled (rollback S)) (\<lambda>_. raise e)))"

section \<open>Routes\<close>

definition topup_route ::
  "'s fin_session \<Rightarrow> vnpay_adapter \<Rightarrow> string \<Rightarrow> string \<Rightarrow> int \<Rightarrow> string option \<Rightarrow> ('s, exn http_exn, string) eff" where
  "topup_route S A create_date user_id payload_amount client_host =
     (if payload_amount \<le> 0 then raise RequestValidationError
      else
        get_db_session S
          (let client_ip = (case client_host of None \<Rightarrow> ''127.0.0.1'' | Some h \<Rightarrow> h) in
           map_err (\<lambda>e. HTTPException 500 (''Failed to initiate top-up: '' @ exn_str e))
             (initiate_topup S A create_date user_id payload_amount client_ip)))"

definition vnpay_ipn_route ::
  "'s fin_session \<Rightarrow> vnpay_adapter \<Rightarrow> params \<Rightarrow> ('s, exn http_exn, string \<times> string) eff" where
  "vnpay_ipn_route S A params =
     get_db_session S
       (tryE (process_vnpay_ipn S A params)
          (\<lambda>e. ret (''99'', ''Internal system error: '' @ exn_str e)))"

text \<open>
  The result page.  \<open>{amount_vnd:,.0f}\<close> converts the \<open>int\<close> to a float, which fails for very large numbers, and
  writes the whole number with a comma between groups of three digits.
\<close>

fun commas :: "string \<Rightarrow> string" where
  "commas (a # b # c # d # ds) = a # b # c # CHR '','' # commas (d # ds)"
| "commas ds = ds"

definition format_thousands :: "int \<Rightarrow> exn + string" where
  "format_thousands n =
     bindS (case float_of_int n of Inl e \<Rightarrow> Inl (exn_of_float_error e) | Inr f \<Rightarrow> Inr f) (\<lambda>f.
     bindS (case py_round f of Inl e \<Rightarrow> Inl (exn_of_float_error e) | Inr k \<Rightarrow> Inr k) (\<lambda>k.
     Inr ((if k < 0 then ''-'' else []) @ rev (commas (rev (show_nat (nat \<bar>k\<bar>)))))))"

datatype page_icon = Sparkles | WarningSign
datatype page_message = BadSignature | PaymentDone | PaymentFailed

text \<open>
  What the template of the page is filled with: the icon and the sentence are shown as constructors, the fixed
  HTML and style around the fields are left out.  The fields are inserted as they are, without escaping.
\<close>

record result_page =
  rp_color :: string
  rp_icon :: page_icon
  rp_status_text :: string
  rp_txn_ref :: string
  rp_amount :: string
  rp_message :: page_message

definition vnpay_return :: "vnpay_adapter \<Rightarrow> params \<Rightarrow> exn + result_page" where
  "vnpay_return A params =
     (let is_valid_sig = validate_ipn_signature A params;
          response_code = map_of params ''vnp_ResponseCode'';
          txn_ref = (case map_of params ''vnp_TxnRef'' of None \<Rightarrow> ''Unknown'' | Some r \<Rightarrow> r)
      in bindS (case map_of params ''vnp_Amount'' of None \<Rightarrow> Inr 0 | Some a \<Rightarrow> py_int a) (\<lambda>cents.
         let (status_text, message, color) =
               (if \<not> is_valid_sig then (''FAILED (Invalid Signature)'', BadSignature, ''#e53e3e'')
                else if response_code = Some ''00'' then (''SUCCESS'', PaymentDone, ''#319795'')
                else (''FAILED (Code '' @ (case response_code of None \<Rightarrow> ''None'' | Some c \<Rightarrow> c) @ '')'', PaymentFailed, ''#e53e3e''))
         in bindS (format_thousands (cents div 100)) (\<lambda>amount.
            Inr \<lparr>rp_color = color, rp_icon = (if response_code = Some ''00'' then Sparkles else WarningSign),
              rp_status_text = status_text, rp_txn_ref = txn_ref, rp_amount = amount, rp_message = message\<rparr>)))"

definition get_wallet_route :: "'s fin_session \<Rightarrow> string \<Rightarrow> ('s, exn http_exn, wallet_response) eff" where
  "get_wallet_route S user_id =
     get_db_session S
       (map_err (\<lambda>e. HTTPException 500 (''Failed to query wallet: '' @ exn_str e))
          (bindE (get_or_create_wallet S user_id False) (\<lambda>wallet. ret (wallet_reply wallet))))"

record transaction_item =
  ti_transaction_id :: string
  ti_user_id :: string
  ti_amount :: int
  ti_type :: string
  ti_status :: string
  ti_reference_id :: string
  ti_created_at :: string

fun type_value :: "TransactionType \<Rightarrow> string" where
  "type_value UNSPECIFIED = ''UNSPECIFIED''"
| "type_value TOPUP = ''TOPUP''"
| "type_value BOOKING_RESERVATION = ''BOOKING_RESERVATION''"
| "type_value ESCROW_RELEASE = ''ESCROW_RELEASE''"
| "type_value PENALTY_DEDUCTION = ''PENALTY_DEDUCTION''"
| "type_value REFUND = ''REFUND''"

definition created_str :: "(int \<Rightarrow> string) \<Rightarrow> int option \<Rightarrow> string" where
  "created_str isoformat created_at =
     (case created_at of
        None \<Rightarrow> ''''
      | Some t \<Rightarrow> if suffix ''Z'' (isoformat t) then isoformat t else isoformat t @ ''Z'')"

definition transaction_item_of :: "(int \<Rightarrow> string) \<Rightarrow> txn \<Rightarrow> transaction_item" where
  "transaction_item_of isoformat txn =
     \<lparr>ti_transaction_id = t_transaction_id txn, ti_user_id = t_user_id txn, ti_amount = amount (t_amount txn),
      ti_type = type_value (t_type txn), ti_status = t_status txn, ti_reference_id = t_reference_id txn,
      ti_created_at = created_str isoformat (t_created_at txn)\<rparr>"

record history_response =
  hr_transactions :: "transaction_item list"
  hr_page :: int
  hr_page_size :: int
  hr_total :: nat

definition history_route ::
  "'s fin_session \<Rightarrow> (int \<Rightarrow> string) \<Rightarrow> int \<Rightarrow> int \<Rightarrow> string \<Rightarrow> ('s, exn http_exn, history_response) eff" where
  "history_route S isoformat page page_size user_id =
     get_db_session S
       (map_err (\<lambda>e. HTTPException 500 (''Failed to query transaction history: '' @ exn_str e))
          (bindE (get_transaction_history S user_id page page_size) (\<lambda>(txns, total).
           ret \<lparr>hr_transactions = map (transaction_item_of isoformat) txns, hr_page = page,
                hr_page_size = page_size, hr_total = total\<rparr>)))"

section \<open>Errors\<close>

definition domain_error_handler :: "exn \<Rightarrow> error_body" where
  "domain_error_handler exc = domain_error_body (exn_str exc)"

section \<open>Messages of the outbox worker\<close>

definition finance_event :: "exn codec \<Rightarrow> outbox_model \<Rightarrow> exn + exn prepared" where
  "finance_event C event =
     bindS (loads C (ob_payload event)) (\<lambda>payload.
     bindS (case ob_created_at event of
              None \<Rightarrow> Inl (PyTypeError ''object has no attribute isoformat'')
            | Some t \<Rightarrow> Inr (iso_format C t @ ''Z'')) (\<lambda>time.
     let owner = json_or (get_default payload ''userId'' JNull) (get_default payload ''companionId'' (JStr ''system''));
         ce = \<lparr>ce_type = ob_event_type event,
               ce_source = ''/rent-a-gf/finance-service/'' @ py_str C owner,
               ce_id = ob_event_id event, ce_time = time, ce_datacontenttype = ''application/json'',
               ce_correlationid = get_default payload ''eventId'' (JStr (ob_event_id event)),
               ce_data = payload\<rparr>;
         key_str = json_or (json_or (get_default payload ''bookingId'' JNull) (get_default payload ''userId'' JNull))
                     (JStr '''')
     in Inr (json_str key_str, ce)))"

definition finance_message :: "exn codec \<Rightarrow> outbox_model \<Rightarrow> exn + kafka_msg" where
  "finance_message C event = message_of (finance_event C) event"

definition finance_process_batch :: "('s, exn) ob_session \<Rightarrow> exn codec \<Rightarrow> nat \<Rightarrow> ('s, exn, unit) eff" where
  "finance_process_batch W C batch_size = process_batch W (finance_event C) batch_size"

end
