(* ===== verification/Finance_Requests.thy ===== *)
theory Finance_Requests
  imports Finance_Listener Finance_Http
begin

text \<open>
  The entry points of the finance service as requests on the committed database: gRPC calls, REST calls and
  Kafka messages, and the frame they share (open a session, run a command, commit; an exception commits at most
  a failure event).  The locale \<open>fin_requests\<close> lifts a relation that the commands respect inside their
  transaction to the committed content before and after any request.
\<close>

section \<open>Requests\<close>

datatype request =
    ReqFreezeCoin string int string "int option"
  | ReqTransferToEscrow string int string
  | ReqProcessPayout string string py_float
  | ReqRefundEscrow string string int
  | ReqGetWallet string
  | ReqCheckBalance string int
  | ReqTopup string string int "string option"
  | ReqWalletPage string
  | ReqHistory "int \<Rightarrow> string" int int string
  | ReqBookingEvent json
  | ReqIdentityEvent json

text \<open>The world after a request, whatever its reply.\<close>

fun serve :: "'s fin_session \<Rightarrow> vnpay_adapter \<Rightarrow> request \<Rightarrow> 's \<Rightarrow> 's" where
  "serve S A (ReqFreezeCoin u n b ty) s = snd (FreezeCoin S u n b ty s)"
| "serve S A (ReqTransferToEscrow u n b) s = snd (TransferToEscrow S u n b s)"
| "serve S A (ReqProcessPayout b c rate) s = snd (ProcessPayout S b c rate s)"
| "serve S A (ReqRefundEscrow b c n) s = snd (RefundEscrow S b c n s)"
| "serve S A (ReqGetWallet u) s = snd (GetWallet S u s)"
| "serve S A (ReqCheckBalance u n) s = snd (CheckBalance S u n s)"
| "serve S A (ReqTopup d u n h) s = snd (topup_route S A d u n h s)"
| "serve S A (ReqWalletPage u) s = snd (get_wallet_route S u s)"
| "serve S A (ReqHistory fmt p n u) s = snd (history_route S fmt p n u s)"
| "serve S A (ReqBookingEvent msg) s = snd (handle_booking_event S msg s)"
| "serve S A (ReqIdentityEvent msg) s = snd (handle_identity_event S msg s)"

section \<open>A relation that every request respects\<close>

lemma create_wallet_onboard_eq:
  "create_wallet_onboard S u = bindE (get_or_create_wallet S u False) (\<lambda>_. ret ())"
  by (rule ext) (auto simp: create_wallet_onboard_def get_or_create_wallet_def bindE_def ret_def Let_def
      split: prod.splits sum.splits option.splits)

text \<open>
  \<open>pre\<close> is what the proofs need of a stored content (well formed, new identifiers), \<open>rel\<close> relates the contents before
  and after a transaction.  A command is looked at inside its transaction; the locale carries what each of them
  does to the committed content through its session, its commit and its error path.
\<close>

locale fin_requests = fin_session S view com
  for S :: "'s fin_session" and view :: "'s \<Rightarrow> fin_db" and com :: "'s \<Rightarrow> fin_db" +
  fixes pre :: "fin_db \<Rightarrow> bool" and rel :: "fin_db \<Rightarrow> fin_db \<Rightarrow> bool"
  assumes pre_ok: "pre db \<Longrightarrow> db_ok db"
    and rel_refl: "pre db \<Longrightarrow> rel db db"
    and rel_row: "pre db \<Longrightarrow> rel db (add_row row db)"
    and wallet_rel: "get_or_create_wallet S u lock s = (Inr w, s') \<Longrightarrow> pre (view s) \<Longrightarrow> rel (view s) (view s')"
    and freeze_rel: "freeze_coin S u n b ty s = (Inr x, s') \<Longrightarrow> pre (view s) \<Longrightarrow> rel (view s) (view s')"
    and unfreeze_rel: "unfreeze_coin S u n b s = (Inr x, s') \<Longrightarrow> pre (view s) \<Longrightarrow> rel (view s) (view s')"
    and transfer_rel: "transfer_to_escrow S u n b s = (Inr x, s') \<Longrightarrow> pre (view s) \<Longrightarrow> rel (view s) (view s')"
    and payout_rel: "process_payout S b c rate s = (Inr x, s') \<Longrightarrow> pre (view s) \<Longrightarrow> rel (view s) (view s')"
    and refund_rel: "refund_escrow S b c n s = (Inr x, s') \<Longrightarrow> pre (view s) \<Longrightarrow> rel (view s) (view s')"
    and topup_rel: "initiate_topup S A d u n ip s = (Inr url, s') \<Longrightarrow> pre (view s) \<Longrightarrow> rel (view s) (view s')"
    and ipn_rel: "process_vnpay_ipn S A ps s = (Inr reply, s') \<Longrightarrow> pre (view s) \<Longrightarrow> rel (view s) (view s')"
begin

text \<open>
  A command that, run in a fresh transaction, leaves a related content in the transaction when it returns, and
  nothing but an outbox row in the committed database when it raises.
\<close>

definition transactional :: "('s, 'e, 'a) eff \<Rightarrow> bool" where
  "transactional m \<longleftrightarrow> (\<forall>s r s'. m s = (r, s') \<longrightarrow> view s = com s \<longrightarrow> pre (com s) \<longrightarrow>
     (case r of Inr _ \<Rightarrow> com s' = com s \<and> rel (com s) (view s')
      | Inl _ \<Rightarrow> com s' = com s \<or> (\<exists>row. com s' = add_row row (com s))))"

text \<open>A request: from any state of the world, one step on the committed database.\<close>

definition served :: "('s \<Rightarrow> 's) \<Rightarrow> bool" where
  "served f \<longleftrightarrow> (\<forall>s. pre (com s) \<longrightarrow>
     rel (com s) (com (f s)))"

lemma transactionalI:
  assumes "\<And>s r s'. m s = (r, s') \<Longrightarrow> case r of Inr _ \<Rightarrow> com s' = com s
      | Inl _ \<Rightarrow> com s' = com s \<or> (\<exists>row. com s' = add_row row (com s))"
    and "\<And>s x s'. m s = (Inr x, s') \<Longrightarrow> pre (view s) \<Longrightarrow>
      rel (view s) (view s')"
  shows "transactional m"
  unfolding transactional_def
proof (intro allI impI)
  fix s r s' assume run: "m s = (r, s')" and v: "view s = com s" and ok: "pre (com s)"
  show "case r of Inr _ \<Rightarrow> com s' = com s \<and> rel (com s) (view s')
      | Inl _ \<Rightarrow> com s' = com s \<or> (\<exists>row. com s' = add_row row (com s))"
    using assms(1) [OF run] assms(2) [of s _ s'] run ok v by (cases r) auto
qed

lemma transactional_keeps:
  assumes "keeps com m" "\<And>s x s'. m s = (Inr x, s') \<Longrightarrow> pre (view s) \<Longrightarrow>
      rel (view s) (view s')"
  shows "transactional m"
  using assms by (intro transactionalI) (auto dest: keepsD split: sum.splits)

lemma transactional_quiet:
  "keeps com m \<Longrightarrow> keeps view m \<Longrightarrow> transactional m"
  by (intro transactional_keeps) (auto dest!: keepsD [of view] intro!: rel_refl)

text \<open>Reads before a transactional command, and results after it.\<close>

lemma transactional_after:
  assumes "keeps com q" "keeps view q" "\<And>x. transactional (f x)"
  shows "transactional (bindE q f)"
  unfolding transactional_def
proof (intro allI impI)
  fix s r s' assume run: "bindE q f s = (r, s')" and v: "view s = com s" and ok: "pre (com s)"
  obtain r1 s1 where 1: "q s = (r1, s1)" by fastforce
  have same: "com s1 = com s" "view s1 = view s" using 1 assms(1,2) by (auto dest: keepsD)
  show "case r of Inr _ \<Rightarrow> com s' = com s \<and> rel (com s) (view s')
      | Inl _ \<Rightarrow> com s' = com s \<or> (\<exists>row. com s' = add_row row (com s))"
  proof (cases r1)
    case (Inl e)
    with 1 run same show ?thesis by (auto simp: bindE_def)
  next
    case (Inr x)
    with 1 run have "f x s1 = (r, s')" by (simp add: bindE_def)
    with assms(3) [of x] same v ok show ?thesis unfolding transactional_def by metis
  qed
qed

lemma transactional_then_ret: "transactional m \<Longrightarrow> transactional (bindE m (\<lambda>x. ret (g x)))"
  unfolding transactional_def bindE_def ret_def
  by (auto split: prod.splits sum.splits) blast+

lemma transactional_if: "(c \<Longrightarrow> transactional m) \<Longrightarrow> (\<not> c \<Longrightarrow> transactional n) \<Longrightarrow> transactional (if c then m else n)"
  by simp

lemma transactional_map_err: "transactional m \<Longrightarrow> transactional (map_err f m)"
  unfolding transactional_def map_err_def tryE_def raise_def
  by (auto split: prod.splits sum.splits) blast+

lemma committed_failure_row:
  "committed_failure S com ev s s' \<Longrightarrow> com s' = com s \<or> (\<exists>row. com s' = add_row row (com s))"
  by (auto simp: committed_failure_def)

lemma transactional_tried:
  assumes "\<And>s r s'. m s = (r, s') \<Longrightarrow> case r of Inr _ \<Rightarrow> com s' = com s
      | Inl _ \<Rightarrow> \<exists>e. committed_failure S com (ev e) s s'"
    and "\<And>s x s'. m s = (Inr x, s') \<Longrightarrow> pre (view s) \<Longrightarrow>
      rel (view s) (view s')"
  shows "transactional m"
  using _ assms(2)
proof (rule transactionalI)
  fix s r s' assume "m s = (r, s')"
  from assms(1) [OF this]
  show "case r of Inr _ \<Rightarrow> com s' = com s | Inl _ \<Rightarrow> com s' = com s \<or> (\<exists>row. com s' = add_row row (com s))"
    by (auto dest: committed_failure_row split: sum.splits)
qed

lemma freeze_coin_transactional: "transactional (freeze_coin S u n b ty)"
  by (rule transactional_tried, erule freeze_coin_atomic, rule freeze_rel)

lemma unfreeze_coin_transactional: "transactional (unfreeze_coin S u n b)"
  by (rule transactional_tried, erule unfreeze_coin_atomic, rule unfreeze_rel)

lemma transfer_to_escrow_transactional: "transactional (transfer_to_escrow S u n b)"
  by (rule transactional_tried, erule transfer_to_escrow_atomic, rule transfer_rel)

lemma process_payout_transactional: "transactional (process_payout S b c rate)"
  by (rule transactional_keeps [OF process_payout_keeps payout_rel])

lemma refund_escrow_transactional: "transactional (refund_escrow S b c n)"
proof (rule transactionalI [OF _ refund_rel])
  fix s r s' assume "refund_escrow S b c n s = (r, s')"
  then show "case r of Inr _ \<Rightarrow> com s' = com s | Inl _ \<Rightarrow> com s' = com s \<or> (\<exists>row. com s' = add_row row (com s))"
    by (auto dest!: refund_escrow_atomic committed_failure_row split: sum.splits)
qed

lemma get_or_create_wallet_transactional: "transactional (get_or_create_wallet S u lock)"
  by (rule transactional_keeps [OF get_or_create_wallet_keeps wallet_rel])

lemma check_balance_transactional: "transactional (check_balance S u n)"
  unfolding check_balance_def
  by (intro transactional_if transactional_quiet transactional_then_ret get_or_create_wallet_transactional keep_intros)

lemma initiate_topup_transactional: "transactional (initiate_topup S A d u n ip)"
  by (rule transactional_keeps [OF initiate_topup_keeps topup_rel])

lemma process_vnpay_ipn_transactional: "transactional (process_vnpay_ipn S A ps)"
  by (rule transactional_keeps [OF process_vnpay_ipn_keeps ipn_rel])

section \<open>A command in its session\<close>

text \<open>
  The frame all entry points share: open a session, run the command, commit, answer; an exception goes
  to a handler that commits nothing.
\<close>

lemma served_frame:
  assumes m: "transactional m"
    and op: "keeps com op" "\<And>s u s'. op s = (Inr u, s') \<Longrightarrow> view s' = com s"
    and cm: "\<And>s. com (snd (cm s)) \<in> {com s, view s}"
    and h: "\<And>e. keeps com (h e)" and k: "\<And>x. keeps com (k x)"
  shows "served (\<lambda>s. snd (bindE op (\<lambda>_. tryE (bindE m (\<lambda>x. bindE cm (\<lambda>_. k x))) h) s))"
  unfolding served_def
proof (intro allI impI)
  fix s assume ok: "pre (com s)"
  let ?last = "snd (bindE op (\<lambda>_. tryE (bindE m (\<lambda>x. bindE cm (\<lambda>_. k x))) h) s)"
  let ?good = "\<lambda>c. rel (com s) c"
  have skip: "?good (com s)" "?good (add_row row (com s))" for row using ok rel_refl rel_row by auto
  obtain r1 s1 where 1: "op s = (r1, s1)" by fastforce
  have com1: "com s1 = com s" using 1 op(1) by (auto dest: keepsD)
  show "?good (com ?last)"
  proof (cases r1)
    case (Inl e)
    with 1 com1 skip show ?thesis by (simp add: bindE_def)
  next
    case (Inr u)
    with 1 op(2) com1 have v1: "view s1 = com s1" by auto
    obtain r2 s2 where 2: "m s1 = (r2, s2)" by fastforce
    have T: "case r2 of Inr _ \<Rightarrow> com s2 = com s1 \<and> rel (com s1) (view s2)
        | Inl _ \<Rightarrow> com s2 = com s1 \<or> (\<exists>row. com s2 = add_row row (com s1))"
      using m 2 v1 ok com1 unfolding transactional_def by metis
    show ?thesis
    proof (cases r2)
      case r2: (Inl e)
      then have "com ?last = com s2"
        using 1 2 Inr keepsD_snd [OF h] by (simp add: bindE_def tryE_def)
      with T r2 com1 skip show ?thesis by auto
    next
      case r2: (Inr x)
      obtain r3 s3 where 3: "cm s2 = (r3, s3)" by fastforce
      have "com ?last = com s3"
        using 1 2 3 Inr r2 keepsD_snd [OF h] keepsD_snd [OF k, of x s3]
        by (cases r3; cases "k x s3"; cases "fst (k x s3)") (auto simp: bindE_def tryE_def)
      moreover have "com s3 \<in> {com s2, view s2}" using cm [of s2] 3 by simp
      ultimately show ?thesis using T r2 com1 skip by auto
    qed
  qed
qed

lemma commit_S: "com (snd (commit S s)) \<in> {com s, view s}"
  by (rule tx.commit_all_or_nothing)

lemma served_session:
  assumes "transactional m" "\<And>e. keeps com (h e)" "\<And>x. keeps com (k x)"
  shows "served (\<lambda>s. snd (bindE (open_session S) (\<lambda>_. tryE (bindE m (\<lambda>x. bindE (commit S) (\<lambda>_. k x))) h) s))"
  using assms(1) open_keeps open_ok commit_S assms(2,3) by (rule served_frame)

lemma served_quiet: "(\<And>s. com (f s) = com s) \<Longrightarrow> served f"
  by (auto simp: served_def intro: rel_refl)

lemma served_http:
  assumes "transactional m"
  shows "served (\<lambda>s. snd (get_db_session S m s))"
  unfolding get_db_session_def
proof (rule served_frame [OF assms])
  show "keeps com (map_err Unhandled (open_session S))" unfolding map_err_def by (intro keep_intros)
  show "view s' = com s" if "map_err Unhandled (open_session S) s = (Inr u, s')" for s u s'
    using that open_ok by (auto simp: map_err_def tryE_eq_Inr_iff raise_run)
  show "com (snd (map_err Unhandled (commit S) s)) \<in> {com s, view s}" for s
    using commit_S [of s] by (auto simp: map_err_def tryE_def raise_def split: prod.splits sum.splits)
  show "keeps com (bindE (map_err Unhandled (rollback S)) (\<lambda>_. raise e))" for e
    unfolding map_err_def by (intro keep_intros)
  show "keeps com (ret x)" for x by (intro keep_intros)
qed

section \<open>Every entry point\<close>

lemma FreezeCoin_served: "served (\<lambda>s. snd (FreezeCoin S u n b ty s))"
proof (cases "resolve_txn_type ty :: command_response grpc_reply + TransactionType")
  case (Inl failure)
  then show ?thesis by (intro served_quiet) (simp add: FreezeCoin_def ret_def)
next
  case (Inr ty')
  show ?thesis unfolding FreezeCoin_def Inr sum.case
    by (rule served_session [OF freeze_coin_transactional]) (intro keep_intros)+
qed

lemma TransferToEscrow_served: "served (\<lambda>s. snd (TransferToEscrow S u n b s))"
  unfolding TransferToEscrow_def by (rule served_session [OF transfer_to_escrow_transactional]) (intro keep_intros)+

lemma ProcessPayout_served: "served (\<lambda>s. snd (ProcessPayout S b c rate s))"
  unfolding ProcessPayout_def by (rule served_session [OF process_payout_transactional]) (intro keep_intros)+

lemma RefundEscrow_served: "served (\<lambda>s. snd (RefundEscrow S b c n s))"
  unfolding RefundEscrow_def by (rule served_session [OF refund_escrow_transactional]) (intro keep_intros)+

lemma GetWallet_served: "served (\<lambda>s. snd (GetWallet S u s))"
  unfolding GetWallet_def by (rule served_session [OF get_or_create_wallet_transactional]) (intro keep_intros)+

lemma CheckBalance_served: "served (\<lambda>s. snd (CheckBalance S u n s))"
  unfolding CheckBalance_def by (rule served_session [OF check_balance_transactional]) (intro keep_intros)+

lemma topup_route_served: "served (\<lambda>s. snd (topup_route S A d u n h s))"
  unfolding topup_route_def Let_def
  by (cases "n \<le> 0") (auto intro: served_quiet served_http transactional_map_err initiate_topup_transactional simp: raise_def)

text \<open>The listeners: a body that commits by itself, or not at all.\<close>

definition committing :: "('s, exn, 'a) eff \<Rightarrow> bool" where
  "committing b \<longleftrightarrow> (\<forall>s. view s = com s \<longrightarrow> pre (com s) \<longrightarrow>
     rel (com s) (com (snd (b s))))"

lemma committingD:
  "committing b \<Longrightarrow> view s = com s \<Longrightarrow> pre (com s) \<Longrightarrow> rel (com s) (com (snd (b s)))"
  by (simp add: committing_def)

lemma committing_keeps: "keeps com b \<Longrightarrow> committing b"
  by (auto simp: committing_def keepsD_snd intro: rel_refl)

lemma committing_commit:
  assumes "transactional m"
  shows "committing (bindE m (\<lambda>_. commit S))"
  unfolding committing_def
proof (intro allI impI)
  fix s assume v: "view s = com s" and ok: "pre (com s)"
  obtain r1 s1 where 1: "m s = (r1, s1)" by fastforce
  have T: "case r1 of Inr _ \<Rightarrow> com s1 = com s \<and> rel (com s) (view s1)
      | Inl _ \<Rightarrow> com s1 = com s \<or> (\<exists>row. com s1 = add_row row (com s))"
    using assms 1 v ok unfolding transactional_def by metis
  show "rel (com s) (com (snd (bindE m (\<lambda>_. commit S) s)))"
    using 1 T ok commit_S [of s1] by (cases r1) (auto simp: bindE_def intro: rel_refl rel_row)
qed

lemma committing_after:
  assumes "keeps com q" "keeps view q" "\<And>x. committing (f x)"
  shows "committing (bindE q f)"
  unfolding committing_def
proof (intro allI impI)
  fix s assume v: "view s = com s" and ok: "pre (com s)"
  obtain r1 s1 where 1: "q s = (r1, s1)" by fastforce
  have same: "com s1 = com s" "view s1 = view s" using 1 assms(1,2) by (auto dest: keepsD)
  show "rel (com s) (com (snd (bindE q f s)))"
    using 1 same v ok committingD [OF assms(3), of s1]
    by (cases r1) (auto simp: bindE_def intro: rel_refl rel_row)
qed

lemma committing_if: "(c \<Longrightarrow> committing b) \<Longrightarrow> (\<not> c \<Longrightarrow> committing b') \<Longrightarrow> committing (if c then b else b')"
  by simp

lemma find_escrow_keeps_view: "keeps view (EscrowRepository_find_by_booking_id S b lock)"
  unfolding EscrowRepository_find_by_booking_id_def by (intro keep_intros et.select_keeps_view)

lemmas quiet_reads = find_ref_keeps find_ref_keeps_view find_escrow_keeps find_escrow_keeps_view keeps_liftE

lemma transactional_ret: "transactional (ret x)"
  by (intro transactional_quiet keep_intros)

lemma refund_in_full_transactional: "transactional (refund_in_full S b c)"
  unfolding refund_in_full_def
proof (rule transactional_after [OF quiet_reads(3,4)])
  fix e
  have un: "transactional (bindE (TransactionRepository_find_by_reference_id S b BOOKING_RESERVATION False)
      (\<lambda>reservation_txn. case reservation_txn of
         Some t \<Rightarrow> bindE (liftE (json_str c)) (\<lambda>c. bindE (unfreeze_coin S c (amount (t_amount t)) b) (\<lambda>_. ret ()))
       | None \<Rightarrow> ret ()))" (is "transactional (bindE ?find ?rest)")
  proof (rule transactional_after [OF quiet_reads(1,2)])
    fix v show "transactional (?rest v)"
      by (cases v) (auto intro!: transactional_ret transactional_after transactional_then_ret
          unfreeze_coin_transactional keeps_liftE)
  qed
  show "transactional (case if is_held e then e else None of
       Some e \<Rightarrow> bindE (liftE (json_str c)) (\<lambda>c. bindE (refund_escrow S b c (amount (e_amount e))) (\<lambda>_. ret ()))
     | None \<Rightarrow> bindE ?find ?rest)"
    using un by (cases "if is_held e then e else None")
      (auto intro!: transactional_after transactional_then_ret refund_escrow_transactional keeps_liftE)
qed

lemma pay_companion_transactional: "transactional (pay_companion_in_full S b c)"
  unfolding pay_companion_in_full_def
  by (intro transactional_after quiet_reads transactional_if transactional_then_ret process_payout_transactional
      transactional_ret)

lemma cancelled_early_committing: "committing (cancelled_early S b c)"
  unfolding cancelled_early_def
proof (intro committing_after quiet_reads)
  fix b' and v :: "txn option"
  show "committing (case v of Some _ \<Rightarrow> ret () | None \<Rightarrow> bindE (refund_in_full S b' c) (\<lambda>_. commit S))"
    by (cases v) (auto intro!: committing_keeps keep_intros committing_commit refund_in_full_transactional)
qed

lemma cancelled_late_committing: "committing (cancelled_late S b c d r)"
proof -
  have quiet: "keeps com (ret () :: ('s, exn, unit) eff)" by (intro keep_intros)
  show ?thesis
    unfolding cancelled_late_def
    by (intro committing_after quiet_reads committing_if committing_keeps [OF quiet] committing_commit
        transactional_if refund_in_full_transactional pay_companion_transactional transactional_ret)
qed

lemma served_in_session:
  assumes "committing b"
  shows "served (\<lambda>s. snd (in_session S b s))"
  unfolding served_def
proof (intro allI impI)
  fix s assume ok: "pre (com s)"
  obtain r1 s1 where 1: "open_session S s = (r1, s1)" by fastforce
  have com1: "com s1 = com s" using 1 open_keeps by (auto dest: keepsD)
  show "rel (com s) (com (snd (in_session S b s)))"
  proof (cases r1)
    case (Inl e)
    with 1 com1 ok show ?thesis by (auto simp: in_session_def bindE_def intro: rel_refl)
  next
    case (Inr u)
    with 1 open_ok com1 have "view s1 = com s1" by auto
    moreover have "snd (in_session S b s) = snd (b s1)"
      using 1 Inr by (cases "b s1"; cases "fst (b s1)") (auto simp: in_session_def bindE_def tryE_def ret_def)
    ultimately show ?thesis using committingD [OF assms, of s1] ok com1 by simp
  qed
qed

text \<open>Parsing of a message before the session opens, and the outer \<open>try\<close> of the loop body.\<close>

lemma served_lift: "(\<And>x. served (\<lambda>s. snd (f x s))) \<Longrightarrow> served (\<lambda>s. snd (bindE (liftE r) f s))"
  by (cases r) (auto intro: served_quiet simp: raise_def)

lemma served_if:
  "(c \<Longrightarrow> served (\<lambda>s. snd (m s))) \<Longrightarrow> (\<not> c \<Longrightarrow> served (\<lambda>s. snd (n s))) \<Longrightarrow> served (\<lambda>s. snd ((if c then m else n) s))"
  by simp

lemma served_ret: "served (\<lambda>s. snd (ret x s))"
  by (intro served_quiet) (simp add: ret_def)

lemma snd_try_ret: "snd (tryE m (\<lambda>e. ret x) s) = snd (m s)"
  by (auto simp: tryE_def ret_def split: prod.splits sum.splits)

lemma served_try: "served (\<lambda>s. snd (m s)) \<Longrightarrow> served (\<lambda>s. snd (tryE m (\<lambda>e. ret x) s))"
  by (simp add: snd_try_ret)

lemmas served_intros = served_lift served_if served_ret served_in_session committing_after keeps_liftE
  committing_commit

lemma handle_booking_event_served: "served (\<lambda>s. snd (handle_booking_event S msg s))"
  unfolding handle_booking_event_def on_booking_requested_def on_transfer_to_escrow_def on_refund_escrow_def
    on_unfreeze_coin_def on_cancelled_early_def on_cancelled_late_def
  by (intro served_try served_intros freeze_coin_transactional transfer_to_escrow_transactional
      refund_escrow_transactional unfreeze_coin_transactional cancelled_early_committing cancelled_late_committing)

lemma create_wallet_onboard_transactional: "transactional (create_wallet_onboard S u)"
  unfolding create_wallet_onboard_eq by (intro transactional_then_ret get_or_create_wallet_transactional)

lemma handle_identity_event_served: "served (\<lambda>s. snd (handle_identity_event S msg s))"
proof -
  have eq: "(\<lambda>s. snd (bindE (open_session S) (\<lambda>_. m) s)) = (\<lambda>s. snd (in_session S m s))" for m :: "('s, exn, unit) eff"
    by (rule ext) (auto simp: in_session_def bindE_def tryE_def ret_def split: prod.splits sum.splits)
  have "served (\<lambda>s. snd (bindE (open_session S) (\<lambda>_. bindE (liftE (json_str user_id)) (\<lambda>user_id.
      bindE (create_wallet_onboard S user_id) (\<lambda>_. commit S))) s))" for user_id
    unfolding eq by (intro served_intros create_wallet_onboard_transactional)
  then show ?thesis
    unfolding handle_identity_event_def by (intro served_try served_intros)
qed

text \<open>
  The payment callback, when the command returns.  When it raises, the route answers \<open>99\<close> and the
  session dependency commits what the session then holds, so nothing can be said of that case here.
\<close>

lemma vnpay_ipn_route_rel:
  assumes ok: "pre (com s)"
    and returns: "\<And>u s1. open_session S s = (Inr u, s1) \<Longrightarrow> \<exists>x t. process_vnpay_ipn S A ps s1 = (Inr x, t)"
  shows "rel (com s) (com (snd (vnpay_ipn_route S A ps s)))"
proof -
  obtain r1 s1 where 1: "open_session S s = (r1, s1)" by fastforce
  have com1: "com s1 = com s" using 1 open_keeps by (auto dest: keepsD)
  show ?thesis
  proof (cases r1)
    case (Inl e)
    with 1 com1 ok show ?thesis
      by (auto simp: vnpay_ipn_route_def get_db_session_def map_err_def bindE_def tryE_def raise_def intro: rel_refl)
  next
    case (Inr u)
    with 1 have v1: "view s1 = com s1" using open_ok com1 by auto
    from returns 1 Inr obtain x t where 2: "process_vnpay_ipn S A ps s1 = (Inr x, t)" by blast
    have T: "com t = com s \<and> rel (com s) (view t)"
      using process_vnpay_ipn_transactional [of A ps] 2 v1 ok com1 unfolding transactional_def by fastforce
    obtain r3 s3 where 3: "commit S t = (r3, s3)" by fastforce
    have "com (snd (vnpay_ipn_route S A ps s)) = com s3"
      using 1 2 3 Inr tx.rollback_com [of s3]
      by (cases r3) (auto simp: vnpay_ipn_route_def get_db_session_def map_err_def bindE_def tryE_def raise_def ret_def
          split: prod.splits sum.splits)
    then show ?thesis using T commit_S [of t] 3 ok by (auto intro: rel_refl)
  qed
qed

lemma get_wallet_route_served: "served (\<lambda>s. snd (get_wallet_route S u s))"
  unfolding get_wallet_route_def
  by (intro served_http transactional_map_err transactional_then_ret get_or_create_wallet_transactional)

lemma get_transaction_history_transactional: "transactional (get_transaction_history S u p n)"
proof (rule transactional_keeps [OF get_transaction_history_keeps])
  fix s x s' assume run: "get_transaction_history S u p n s = (Inr x, s')" and ok: "pre (view s)"
  then obtain lim off k s1 rs s2 where 1: "txn_count S (\<lambda>m. tm_user_id m = u) s = (Inr k, s1)"
    and 2: "txn_page S (\<lambda>m. tm_user_id m = u) off lim s1 = (Inr rs, s2)" and "s' = s2"
    by (auto simp: get_transaction_history_def TransactionRepository_find_by_user_id_def run_inv)
  with txn_count_ok [OF 1] txn_page_ok [OF 2] db_ok_tables(3) [OF pre_ok [OF ok]] have "view s' = view s" by simp
  with ok show "rel (view s) (view s')" by (simp add: rel_refl)
qed

lemma history_route_served: "served (\<lambda>s. snd (history_route S fmt p n u s))"
proof -
  have eq: "(\<lambda>(txns, k). ret (g txns k)) = (\<lambda>x. ret (case x of (txns, k) \<Rightarrow> g txns k))"
    for g :: "txn list \<Rightarrow> nat \<Rightarrow> history_response" by (rule ext) (simp split: prod.splits)
  show ?thesis
    unfolding history_route_def eq
    by (intro served_http transactional_map_err transactional_then_ret get_transaction_history_transactional)
qed

text \<open>Any request, from any state of the world.\<close>

lemma serve_rel:
  assumes "pre (com s)"
  shows "rel (com s) (com (serve S A req s))"
proof -
  have "served (\<lambda>s. serve S A req s)"
    by (cases req) (simp_all add: FreezeCoin_served TransferToEscrow_served ProcessPayout_served RefundEscrow_served
        GetWallet_served CheckBalance_served topup_route_served get_wallet_route_served history_route_served
        handle_booking_event_served handle_identity_event_served)
  with assms show ?thesis unfolding served_def by blast
qed

end

end
