(* ===== verification/Finance_System.thy ===== *)
theory Finance_System
  imports Finance_Requests
begin

text \<open>
  The finance service as a transaction system: what one request, whichever way it ends, does to the
  committed database.  \<open>lg_step L d L'\<close> is the abstract step relation of the ledger, labelled with the
  coins \<open>d\<close> that enter (or, negative, leave) the system; every request is one such step.
\<close>

section \<open>Coins in circulation\<close>

definition supp_sum :: "('u \<Rightarrow> int) \<Rightarrow> int" where
  "supp_sum f = (\<Sum>u | f u \<noteq> 0. f u)"

definition lg_total :: "ledger \<Rightarrow> int" where
  "lg_total L = supp_sum (lg_avail L) + supp_sum (lg_frozen L) + supp_sum (lg_held L)"

definition fin_supp :: "('u \<Rightarrow> int) \<Rightarrow> bool" where
  "fin_supp f \<longleftrightarrow> finite {u. f u \<noteq> 0}"

definition lg_finite :: "ledger \<Rightarrow> bool" where
  "lg_finite L \<longleftrightarrow> fin_supp (lg_avail L) \<and> fin_supp (lg_frozen L) \<and> fin_supp (lg_held L)"

lemma supp_sum_upd:
  assumes "fin_supp f"
  shows "supp_sum (f(u := x)) = supp_sum f - f u + x"
proof -
  let ?A = "insert u {v. f v \<noteq> 0}"
  have fin: "finite ?A" using assms by (simp add: fin_supp_def)
  have "supp_sum (f(u := x)) = (\<Sum>v\<in>?A. (f(u := x)) v)"
    unfolding supp_sum_def using fin by (intro sum.mono_neutral_left) auto
  also have "\<dots> = x + (\<Sum>v\<in>?A - {u}. (f(u := x)) v)" using fin by (subst sum.remove [of _ u]) auto
  also have "(\<Sum>v\<in>?A - {u}. (f(u := x)) v) = (\<Sum>v\<in>?A - {u}. f v)" by (intro sum.cong) auto
  also have "supp_sum f = (\<Sum>v\<in>?A. f v)"
    unfolding supp_sum_def using fin by (intro sum.mono_neutral_left) auto
  then have "(\<Sum>v\<in>?A - {u}. f v) = supp_sum f - f u" using fin by (simp add: sum.remove [of ?A u])
  finally show ?thesis by linarith
qed

lemma fin_supp_upd [simp]: "fin_supp f \<Longrightarrow> fin_supp (f(u := x))"
  unfolding fin_supp_def by (rule finite_subset [of _ "insert u {v. f v \<noteq> 0}"]) auto

lemma sum_by_finite:
  assumes "finite (dom tab)"
  shows "fin_supp (sum_by key f tab)"
  unfolding fin_supp_def
proof (rule finite_subset)
  show "{u. sum_by key f tab u \<noteq> 0} \<subseteq> key ` ran tab"
    using sum_by_none [of tab key _ f] by (auto simp del: mem_Collect_eq intro: ccontr) (metis imageI mem_Collect_eq)
  show "finite (key ` ran tab)" using assms by (simp add: finite_ran)
qed

lemma ledger_of_finite: "db_ok db \<Longrightarrow> lg_finite (ledger_of db)"
  unfolding lg_finite_def ledger_of_def
  by (auto intro!: sum_by_finite dest: db_ok_tables intro: table_ok_finite)

section \<open>The abstract steps\<close>

inductive lg_step :: "ledger \<Rightarrow> int \<Rightarrow> ledger \<Rightarrow> bool" where
  lg_skip: "lg_step L 0 L"
| lg_freezing: "0 \<le> n \<Longrightarrow> n \<le> lg_avail L u \<Longrightarrow> lg_step L 0 (lg_freeze u n L)"
| lg_unfreezing: "0 \<le> n \<Longrightarrow> n \<le> lg_frozen L u \<Longrightarrow> lg_step L 0 (lg_unfreeze u n L)"
| lg_holding: "0 \<le> n \<Longrightarrow> n \<le> lg_frozen L u \<Longrightarrow> lg_held L b = 0 \<Longrightarrow> lg_step L 0 (lg_hold u b n L)"
| lg_releasing: "0 \<le> n \<Longrightarrow> lg_step L (n - lg_held L b) (lg_release b u n L)"
| lg_crediting: "0 \<le> n \<Longrightarrow> lg_step L n (lg_credit u n L)"

lemmas lg_ops = lg_freeze_def lg_unfreeze_def lg_hold_def lg_release_def lg_credit_def

text \<open>The label is the change of the coins in circulation.\<close>

lemma lg_step_total:
  assumes "lg_step L d L'" and "lg_finite L"
  shows "lg_total L' = lg_total L + d" and "lg_finite L'"
  using assms by (induction) (auto simp: lg_ops lg_total_def lg_finite_def supp_sum_upd)

text \<open>One step between two database contents, the second well formed.\<close>

definition advances :: "fin_db \<Rightarrow> fin_db \<Rightarrow> bool" where
  "advances db db' \<longleftrightarrow> db_ok db' \<and> (\<exists>d. lg_step (ledger_of db) d (ledger_of db'))"

lemma advances_refl: "db_ok db \<Longrightarrow> advances db db"
  by (auto simp: advances_def intro!: exI lg_skip)

lemma advances_row: "db_ok db \<Longrightarrow> advances db (add_row row db)"
  by (auto simp: advances_def intro!: exI lg_skip)

section \<open>Every request is a step\<close>

context fin_session
begin

lemma advancesI: "db_ok db' \<Longrightarrow> lg_step (ledger_of db) d (ledger_of db') \<Longrightarrow> advances db db'"
  by (auto simp: advances_def)

lemma process_payout_advances:
  assumes run: "process_payout S b c rate s = (Inr x, s')" and ok: "db_ok (view s)" "fresh_ids S view (view s)"
  shows "advances (view s) (view s')"
proof (rule process_payout_refines [OF run ok])
  fix er k assume "k \<le> em_amount er" "ledger_of (view s') = lg_release b c (em_amount er - k) (ledger_of (view s))"
  then show ?thesis
    using process_payout_db_ok [OF run ok(1)] lg_releasing [of "em_amount er - k" "ledger_of (view s)" b c]
    by (auto simp: advances_def)
qed

lemma refund_escrow_advances:
  assumes run: "refund_escrow S b c n s = (Inr x, s')" and ok: "db_ok (view s)" "fresh_ids S view (view s)"
  shows "advances (view s) (view s')"
proof (rule refund_escrow_refines [OF run ok])
  fix c' n' assume "0 \<le> n'" "ledger_of (view s') = lg_release b c' n' (ledger_of (view s))"
  then show ?thesis
    using refund_escrow_db_ok [OF run ok(1)] lg_releasing [of n' "ledger_of (view s)" b c']
    by (auto simp: advances_def)
qed

lemma get_or_create_wallet_advances:
  assumes run: "get_or_create_wallet S u lock s = (Inr w, s')" and ok: "db_ok (view s)" "fresh_ids S view (view s)"
  shows "advances (view s) (view s')"
  by (rule get_or_create_wallet_ledger [OF run ok]) (unfold advances_def, metis lg_skip)

lemma initiate_topup_advances:
  assumes run: "initiate_topup S A d u n ip s = (Inr x, s')" and ok: "db_ok (view s)"
  shows "advances (view s) (view s')"
proof -
  have "ledger_of (view s') = ledger_of (view s)"
    using run unfolding initiate_topup_def
    by (auto simp: run_inv dest!: uuid4_view save_txn_ledger(1))
  then show ?thesis using initiate_topup_db_ok [OF run ok] lg_skip unfolding advances_def by metis
qed

lemma settle_topup_refines:
  assumes "settle_topup S ps i t s = (Inr x, s')" "db_ok (view s)" "fresh_ids S view (view s)" "txn_ok t"
  shows "\<exists>d. lg_step (ledger_of (view s)) d (ledger_of (view s'))"
proof (cases "\<exists>v. credit_topup S t i v s = (Inr (), s')")
  case True
  then obtain v where "credit_topup S t i v s = (Inr (), s')" by blast
  from credit_topup_refines [OF this assms(2,3)] assms(4) show ?thesis
    by (auto simp: txn_ok_def money_ok_def intro: lg_crediting)
next
  case False
  then have "ledger_of (view s') = ledger_of (view s)"
    using assms(1) unfolding settle_topup_def
    by (auto simp: run_inv split: if_splits dest: save_txn_ledger(1))
  then show ?thesis by (metis lg_skip)
qed

lemma process_vnpay_ipn_advances:
  assumes run: "process_vnpay_ipn S A ps s = (Inr x, s')" and ok: "db_ok (view s)" "fresh_ids S view (view s)"
  shows "advances (view s) (view s')"
proof -
  have "s' = s \<or> view s' = view s \<or> (\<exists>i t s1. view s1 = view s \<and> txn_ok t \<and> settle_topup S ps i t s1 = (Inr x, s'))"
    using run unfolding process_vnpay_ipn_def
    by (auto simp: run_inv split: option.splits if_splits dest!: find_txn_wf)
  then have "\<exists>d. lg_step (ledger_of (view s)) d (ledger_of (view s'))"
    using settle_topup_refines ok by (metis lg_skip)
  then show ?thesis using process_vnpay_ipn_db_ok [OF run ok(1)] unfolding advances_def by blast
qed

end

sublocale fin_session \<subseteq> adv: fin_requests S view com "\<lambda>db. db_ok db \<and> fresh_ids S view db" advances
proof unfold_locales
  show "advances (view s) (view s')" if "freeze_coin S u n b ty s = (Inr x, s')"
    "db_ok (view s) \<and> fresh_ids S view (view s)" for u n b ty s x s'
    using that by (metis advancesI freeze_coin_db_ok freeze_coin_refines lg_freezing)
  show "advances (view s) (view s')" if "unfreeze_coin S u n b s = (Inr x, s')"
    "db_ok (view s) \<and> fresh_ids S view (view s)" for u n b s x s'
    using that by (metis advancesI unfreeze_coin_db_ok unfreeze_coin_refines lg_unfreezing)
  show "advances (view s) (view s')" if "transfer_to_escrow S u n b s = (Inr x, s')"
    "db_ok (view s) \<and> fresh_ids S view (view s)" for u n b s x s'
    using that by (metis advancesI transfer_to_escrow_db_ok transfer_to_escrow_refines lg_holding)
qed (auto intro: advances_refl advances_row process_payout_advances refund_escrow_advances get_or_create_wallet_advances
    initiate_topup_advances process_vnpay_ipn_advances)

section \<open>Reachable states\<close>

inductive reachable ::
  "'s fin_session \<Rightarrow> ('s \<Rightarrow> fin_db) \<Rightarrow> ('s \<Rightarrow> fin_db) \<Rightarrow> vnpay_adapter \<Rightarrow> 's \<Rightarrow> 's \<Rightarrow> bool"
  for S view com A s0 where
  reach_start: "reachable S view com A s0 s0"
| reach_request: "reachable S view com A s0 s \<Longrightarrow> fresh_ids S view (com s) \<Longrightarrow>
    reachable S view com A s0 (serve S A req s)"
| reach_ipn: "reachable S view com A s0 s \<Longrightarrow> fresh_ids S view (com s) \<Longrightarrow>
    (\<forall>u s1. open_session S s = (Inr u, s1) \<longrightarrow> (\<exists>x t. process_vnpay_ipn S A ps s1 = (Inr x, t))) \<Longrightarrow>
    reachable S view com A s0 (snd (vnpay_ipn_route S A ps s))"

context fin_session
begin

lemma serve_advances:
  "db_ok (com s) \<Longrightarrow> fresh_ids S view (com s) \<Longrightarrow> advances (com s) (com (serve S A req s))"
  by (rule adv.serve_rel) simp

lemma reachable_db_ok:
  assumes "reachable S view com A s0 s" "db_ok (com s0)"
  shows "db_ok (com s)"
  using assms
proof (induction rule: reachable.induct)
  case (reach_request s req)
  then show ?case using serve_advances by (auto simp: advances_def)
next
  case (reach_ipn s ps)
  then have "advances (com s) (com (snd (vnpay_ipn_route S A ps s)))"
    by (intro adv.vnpay_ipn_route_rel) auto
  then show ?case by (simp add: advances_def)
qed

end

end
