(* ===== verification/Finance_Live.thy ===== *)
theory Finance_Live
  imports Finance_System
begin

text \<open>
  Total correctness of the commands: in a session where nothing fails for external reasons
  (\<open>fin_session_live\<close>), a command whose guards hold returns.  Together with the refinement this gives the
  effect of every command; when a guard fails it raises the domain error and commits the failure event.
\<close>

lemma int32_int64: "int32 x \<Longrightarrow> int64 x"
  by (simp add: int32_def int64_def)

context fin_session_live
begin

lemma uuid4_returns: "\<exists>i s'. uuid4 S s = (Inr i, s') \<and> view s' = view s \<and> com s' = com s \<and> length i = 36"
  by (metis uu.frame_runs uuid_length)

lemma save_wallet_returns:
  assumes "db_ok (view s)" "wallets (view s) (w_wallet_id w) = Some r" "w_user_id w = wm_user_id r"
    "int32 (amount (available_balance w))" "int32 (amount (frozen_balance w))"
  shows "\<exists>s'. WalletRepository_save S w s = (Inr (), s')"
proof -
  have "wallet_fits r" using assms(1,2) by (auto simp: db_ok_def intro: ranI)
  moreover have "wm_wallet_id r = w_wallet_id w" using table_ok_key [OF db_ok_tables(1) [OF assms(1)] assms(2)] .
  ultimately have "wallet_fits (wallet_to_model w)"
    using assms(3-5) by (simp add: wallet_fits_def wallet_to_model_def)
  then have "row_accepted wm_wallet_id wm_user_id wallet_fits (wallets (view s)) (wallet_to_model w)"
    using assms(3)
    by (intro row_accepted_same_key [OF db_ok_tables(1) [OF assms(1)] assms(2)]) (simp_all add: wallet_to_model_def)
  then show ?thesis unfolding WalletRepository_save_def by (rule wt.merge_live)
qed

lemma save_txn_returns:
  assumes "transaction_fits (transaction_to_model t)"
  shows "\<exists>s'. TransactionRepository_save S t s = (Inr (), s')"
  unfolding TransactionRepository_save_def
  by (rule tt.merge_live) (use assms in \<open>auto simp: row_accepted_def\<close>)

lemma new_txn_fits:
  "length i = 36 \<Longrightarrow> length u \<le> 36 \<Longrightarrow> length b \<le> 36 \<Longrightarrow> int32 (amount m) \<Longrightarrow> length st \<le> 20 \<Longrightarrow>
   transaction_fits (transaction_to_model (Transaction_create i u m ty st b d))"
  by (simp add: transaction_fits_def transaction_to_model_def Transaction_create_def)

lemma save_escrow_new_returns:
  assumes "\<And>r. r \<in> ran (escrows (view s)) \<Longrightarrow> em_booking_id r \<noteq> b" "length i = 36" "length b \<le> 36" "int32 (amount m)"
  shows "\<exists>s'. EscrowRepository_save S (Escrow_create i b m) s = (Inr (), s')"
  unfolding EscrowRepository_save_def
  by (rule et.merge_live)
    (use assms in \<open>auto simp: row_accepted_def escrow_fits_def escrow_to_model_def Escrow_create_def Escrow_add_event_def\<close>)

lemma save_escrow_same_returns:
  assumes "db_ok (view s)" "escrows (view s) (e_escrow_id e) = Some r" "e_booking_id e = em_booking_id r"
    "amount (e_amount e) = em_amount r" "length (e_status e) \<le> 20"
  shows "\<exists>s'. EscrowRepository_save S e s = (Inr (), s')"
proof -
  have "escrow_fits r" using assms(1,2) by (auto simp: db_ok_def intro: ranI)
  moreover have "em_escrow_id r = e_escrow_id e" using table_ok_key [OF db_ok_tables(2) [OF assms(1)] assms(2)] .
  ultimately have "escrow_fits (escrow_to_model e)"
    using assms(3-5) by (simp add: escrow_fits_def escrow_to_model_def)
  then have "row_accepted em_escrow_id em_booking_id escrow_fits (escrows (view s)) (escrow_to_model e)"
    using assms(3)
    by (intro row_accepted_same_key [OF db_ok_tables(2) [OF assms(1)] assms(2)]) (simp_all add: escrow_to_model_def)
  then show ?thesis unfolding EscrowRepository_save_def by (rule et.merge_live)
qed

lemma publish_all_returns:
  "(\<And>e i t. e \<in> set es \<Longrightarrow> pb_encodable (to_protobuf e i t)) \<Longrightarrow> \<exists>s'. forE (publish S) es s = (Inr (), s')"
proof (induction es arbitrary: s)
  case Nil
  show ?case by (simp add: ret_run)
next
  case (Cons e es)
  have "\<And>i t. pb_encodable (to_protobuf e i t)" using Cons.prems by simp
  then obtain s1 where 1: "publish S e s = (Inr (), s1)" by (metis publish_appends)
  obtain s2 where "forE (publish S) es s1 = (Inr (), s2)" using Cons by (meson list.set_intros(2))
  with 1 show ?case by (auto simp: bindE_def)
qed

lemma get_or_create_wallet_returns:
  assumes "db_ok (view s)" "length u \<le> 36"
  shows "\<exists>w s'. get_or_create_wallet S u lock s = (Inr w, s')"
proof (cases "\<exists>k r. wallets (view s) k = Some r \<and> wm_user_id r = u")
  case True
  then obtain k r where "wallets (view s) k = Some r" "wm_user_id r = u" by blast
  with assms(1) obtain s' where "WalletRepository_find_by_user_id S u lock s = (Inr (Some (wallet_of r)), s')"
    by (rule find_wallet_found)
  then show ?thesis by (auto simp: get_or_create_wallet_def bindE_def ret_def)
next
  case False
  then have none: "r \<in> ran (wallets (view s)) \<Longrightarrow> wm_user_id r \<noteq> u" for r by (auto simp: ran_def)
  then obtain s1 where 1: "WalletRepository_find_by_user_id S u lock s = (Inr None, s1)" "view s1 = view s"
    using find_wallet_none by metis
  obtain i s2 where 2: "uuid4 S s1 = (Inr i, s2)" "view s2 = view s1" "length i = 36" using uuid4_returns by blast
  have "row_accepted wm_wallet_id wm_user_id wallet_fits (wallets (view s2)) (wallet_to_model (Wallet_create i u))"
    using none 1(2) 2 assms(2)
    by (auto simp: row_accepted_def wallet_fits_def wallet_to_model_def Wallet_create_def Money_zero_def int32_def)
  then obtain s3 where "WalletRepository_save S (Wallet_create i u) s2 = (Inr (), s3)"
    unfolding WalletRepository_save_def using wt.merge_live by blast
  with 1 2 show ?thesis by (auto simp: get_or_create_wallet_def bindE_def ret_def Let_def)
qed

section \<open>The commands return\<close>

lemma Wallet_freeze_returns:
  "wallet_ok w \<Longrightarrow> money_ok m \<Longrightarrow> amount m \<le> amount (available_balance w) \<Longrightarrow> \<exists>w'. Wallet_freeze_coin w m b = Inr w'"
  by (auto simp: Wallet_freeze_coin_def Money_subtract_def Money_add_def Money_def ok_defs)

lemma Wallet_unfreeze_returns:
  "wallet_ok w \<Longrightarrow> money_ok m \<Longrightarrow> amount m \<le> amount (frozen_balance w) \<Longrightarrow> \<exists>w'. Wallet_unfreeze_coin w m b = Inr w'"
  by (auto simp: Wallet_unfreeze_coin_def Money_subtract_def Money_add_def Money_def ok_defs)

lemma Wallet_deduct_returns:
  "wallet_ok w \<Longrightarrow> amount m \<le> amount (frozen_balance w) \<Longrightarrow> \<exists>w'. Wallet_deduct_frozen w m = Inr w'"
  by (auto simp: Wallet_deduct_frozen_def Money_subtract_def Money_def ok_defs)

lemma Wallet_deposit_returns: "wallet_ok w \<Longrightarrow> money_ok m \<Longrightarrow> \<exists>w'. Wallet_deposit w m = Inr w'"
  by (auto simp: Wallet_deposit_def Money_add_def Money_def ok_defs)

lemma Wallet_topup_returns: "wallet_ok w \<Longrightarrow> money_ok m \<Longrightarrow> \<exists>w'. Wallet_topup w m i v = Inr w'"
  by (auto simp: Wallet_topup_def Money_add_def Money_def ok_defs)

lemma wallet_int32:
  assumes "db_ok db" "wallets db k = Some r"
  shows "int32 (wm_available_balance r)" "int32 (wm_frozen_balance r)" "length (wm_user_id r) \<le> 36"
    "wallet_ok (wallet_of r)"
  using assms(1) ranI [of "wallets db" k r, OF assms(2)] by (auto simp: db_ok_def wallet_fits_def ok_defs wallet_of_def)

lemma int32_between: "int32 b \<Longrightarrow> 0 \<le> a \<Longrightarrow> a \<le> b \<Longrightarrow> int32 a"
  by (simp add: int32_def)

lemma freeze_coin_returns:
  assumes ok: "db_ok (view s)" and fresh: "fresh_ids S view (view s)"
    and n: "0 \<le> n" "n \<le> lg_avail (ledger_of (view s)) u" "int32 (lg_frozen (ledger_of (view s)) u + n)"
    and len: "length u \<le> 36" "length b \<le> 36"
  shows "\<exists>x s'. freeze_coin S u n b ty s = (Inr x, s')"
proof -
  obtain w s1 where 1: "get_or_create_wallet S u True s = (Inr w, s1)"
    using get_or_create_wallet_returns [OF ok len(1)] by blast
  from 1 ok fresh obtain r where r: "wallets (view s1) (w_wallet_id w) = Some r" "wm_user_id r = u"
      "w = wallet_of r" "ledger_of (view s1) = ledger_of (view s)" "db_ok (view s1)"
    by (rule get_or_create_wallet_ledger)
  note bal = ledger_wallet [OF r(5,1), unfolded r(2,4)] and w32 = wallet_int32 [OF r(5,1)]
  define m where "m = \<lparr>amount = n\<rparr>"
  have m: "Money n = Inr m" "money_ok m" "amount m = n" using n by (simp_all add: Money_def m_def money_ok_def)
  obtain w' where w': "Wallet_freeze_coin w m b = Inr w'"
    using Wallet_freeze_returns [of w m b] w32(4) m n bal r(3) by (auto simp: wallet_of_def)
  note eff = Wallet_freeze_effect [OF w']
  have n32: "int32 n" using int32_between [OF w32(1) n(1)] n(2) bal by simp
  obtain i s2 where 2: "uuid4 S s1 = (Inr i, s2)" "view s2 = view s1" "length i = 36" using uuid4_returns by blast
  have "int32 (wm_available_balance r - n)" using int32_between [OF w32(1)] n bal by simp
  then obtain s3 where 3: "WalletRepository_save S w' s2 = (Inr (), s3)"
    using save_wallet_returns [of s2 w' r] r eff 2(2) m bal n by (auto simp: wallet_of_def)
  obtain s4 where 4: "TransactionRepository_save S (Transaction_create i u m ty ''PENDING'' b None) s3 = (Inr (), s4)"
    using save_txn_returns new_txn_fits [OF 2(3) len] n32 m(3) by fastforce
  have "w_events w' = [CoinsFrozen (w_wallet_id w) (w_user_id w) n b]" using eff r(3) m by (simp add: wallet_of_def)
  then obtain s5 where 5: "forE (publish S) (w_events w') s4 = (Inr (), s5)"
    using publish_all_returns [of "w_events w'" s4] int32_int64 [OF n32] by (auto simp: pb_encodable_def)
  then show ?thesis
    using 1 m(1) w' 2 3 4 by (auto simp: freeze_coin_def eff_simps Let_def Wallet_clear_events_def)
qed

lemma unfreeze_coin_returns:
  assumes ok: "db_ok (view s)" and k: "wallets (view s) k = Some r" "wm_user_id r = u"
    and n: "0 \<le> n" "n \<le> wm_frozen_balance r" "int32 (wm_available_balance r + n)" and len: "length b \<le> 36"
  shows "\<exists>x s'. unfreeze_coin S u n b s = (Inr x, s')"
proof -
  note w32 = wallet_int32 [OF ok k(1)]
  obtain s1 where 1: "WalletRepository_find_by_user_id S u True s = (Inr (Some (wallet_of r)), s1)" "view s1 = view s"
    using find_wallet_found [OF ok k] by metis
  define m where "m = \<lparr>amount = n\<rparr>"
  have m: "Money n = Inr m" "money_ok m" "amount m = n" using n by (simp_all add: Money_def m_def money_ok_def)
  obtain w' where w': "Wallet_unfreeze_coin (wallet_of r) m b = Inr w'"
    using Wallet_unfreeze_returns [of "wallet_of r" m b] w32(4) m n by (auto simp: wallet_of_def)
  note eff = Wallet_unfreeze_effect [OF w']
  have n32: "int32 n" "int32 (wm_frozen_balance r - n)" using int32_between [OF w32(2)] n by simp_all
  obtain i s2 where 2: "uuid4 S s1 = (Inr i, s2)" "view s2 = view s1" "length i = 36" using uuid4_returns by blast
  have "wm_wallet_id r = k" using table_ok_key [OF db_ok_tables(1) [OF ok] k(1)] .
  then obtain s3 where 3: "WalletRepository_save S w' s2 = (Inr (), s3)"
    using save_wallet_returns [of s2 w' r] ok k eff 1(2) 2(2) m n n32 by (auto simp: wallet_of_def)
  obtain s4 where 4: "TransactionRepository_save S (Transaction_create i u m REFUND ''SUCCESS'' b None) s3 = (Inr (), s4)"
    using save_txn_returns new_txn_fits [OF 2(3) _ len] w32(3) k(2) n32 m(3) by fastforce
  have "w_events w' = [CoinsUnfrozen (wm_wallet_id r) (wm_user_id r) n b]" using eff m by (simp add: wallet_of_def)
  then obtain s5 where 5: "forE (publish S) (w_events w') s4 = (Inr (), s5)"
    using publish_all_returns [of "w_events w'" s4] int32_int64 [OF n32(1)] by (auto simp: pb_encodable_def)
  then show ?thesis
    using 1 m(1) w' 2 3 4 by (auto simp: unfreeze_coin_def eff_simps Let_def Wallet_clear_events_def)
qed

lemma find_ref_returns:
  assumes "db_ok (view s)"
  shows "\<exists>v s'. TransactionRepository_find_by_reference_id S b ty lock s = (Inr v, s') \<and> view s' = view s"
proof (cases "\<exists>k r. transactions (view s) k = Some r \<and> tm_reference_id r = b \<and> tm_type r = ty")
  case True
  then show ?thesis using assms by (metis find_ref_found)
next
  case False
  then have "r \<in> ran (transactions (view s)) \<Longrightarrow> \<not> (tm_reference_id r = b \<and> tm_type r = ty)" for r
    by (auto simp: ran_def)
  then show ?thesis using find_ref_none by metis
qed

lemma reservation_txn_returns:
  assumes ok: "db_ok (view s)" and len: "length u \<le> 36" "length b \<le> 36" "int32 (amount m)"
    and find: "TransactionRepository_find_by_reference_id S b BOOKING_RESERVATION False s0 = (Inr ft, s)" "view s0 = view s"
  shows "\<exists>t s'. reservation_txn S u m b ft s = (Inr t, s') \<and> view s' = view s \<and> transaction_fits (transaction_to_model t)"
proof (cases ft)
  case None
  obtain i s' where "uuid4 S s = (Inr i, s')" "view s' = view s" "length i = 36" using uuid4_returns by blast
  with None len show ?thesis by (auto simp: reservation_txn_def eff_simps intro!: new_txn_fits)
next
  case (Some t)
  with find obtain r where r: "r \<in> ran (transactions (view s))" "t = txn_of r" by (auto elim: find_ref_row)
  then have "transaction_fits r" using ok by (simp add: db_ok_def)
  with Some r(2) show ?thesis
    by (auto simp: reservation_txn_def ret_run Transaction_success_def transaction_fits_def transaction_to_model_def txn_of_def)
qed

lemma transfer_to_escrow_returns:
  assumes ok: "db_ok (view s)" and k: "wallets (view s) k = Some r" "wm_user_id r = u"
    and n: "0 \<le> n" "n \<le> wm_frozen_balance r" and len: "length b \<le> 36"
    and none: "\<And>e. e \<in> ran (escrows (view s)) \<Longrightarrow> em_booking_id e \<noteq> b"
  shows "\<exists>x s'. transfer_to_escrow S u n b s = (Inr x, s')"
proof -
  note w32 = wallet_int32 [OF ok k(1)]
  obtain s1 where 1: "WalletRepository_find_by_user_id S u True s = (Inr (Some (wallet_of r)), s1)" "view s1 = view s"
    using find_wallet_found [OF ok k] by metis
  define m where "m = \<lparr>amount = n\<rparr>"
  have m: "Money n = Inr m" "money_ok m" "amount m = n" using n by (simp_all add: Money_def m_def money_ok_def)
  obtain s2 where 2: "EscrowRepository_find_by_booking_id S b False s1 = (Inr None, s2)" "view s2 = view s"
    using find_escrow_none [of s1 b] none 1(2) by metis
  obtain w' where w': "Wallet_deduct_frozen (wallet_of r) m = Inr w'"
    using Wallet_deduct_returns [of "wallet_of r" m] w32(4) m n by (auto simp: wallet_of_def)
  note eff = Wallet_deduct_effect [OF w']
  have n32: "int32 n" "int32 (wm_frozen_balance r - n)" using int32_between [OF w32(2)] n by simp_all
  obtain i s3 where 3: "uuid4 S s2 = (Inr i, s3)" "view s3 = view s2" "length i = 36" using uuid4_returns by blast
  obtain ft s4 where 4: "TransactionRepository_find_by_reference_id S b BOOKING_RESERVATION False s3 = (Inr ft, s4)"
    "view s4 = view s3" using find_ref_returns ok 2(2) 3(2) by metis
  obtain t s5 where 5: "reservation_txn S u m b ft s4 = (Inr t, s5)" "view s5 = view s" "transaction_fits (transaction_to_model t)"
    using reservation_txn_returns [of s4 u b m s3 ft] ok 2(2) 3(2) 4 w32(3) k(2) len n32(1) m(3) by auto
  have "wm_wallet_id r = k" using table_ok_key [OF db_ok_tables(1) [OF ok] k(1)] .
  then obtain s6 where 6: "WalletRepository_save S w' s5 = (Inr (), s6)"
    using save_wallet_returns [of s5 w' r] ok k eff 5(2) m n n32 w32 by (auto simp: wallet_of_def)
  have "escrows (view s6) = escrows (view s)"
    using save_wallet_ledger(2) [OF 6, of r] ok k eff 5(2) \<open>wm_wallet_id r = k\<close> by (simp add: wallet_of_def)
  then obtain s7 where 7: "EscrowRepository_save S (Escrow_create i b m) s6 = (Inr (), s7)"
    using save_escrow_new_returns [of s6 b i m] none 3(3) len n32(1) m(3) by auto
  obtain s8 where 8: "TransactionRepository_save S t s7 = (Inr (), s8)" using save_txn_returns [OF 5(3)] by blast
  obtain s9 where 9: "forE (publish S) (e_events (Escrow_create i b m)) s8 = (Inr (), s9)"
    using publish_all_returns [of "e_events (Escrow_create i b m)" s8] int32_int64 [OF n32(1)] m(3)
    by (auto simp: pb_encodable_def Escrow_create_def Escrow_add_event_def)
  show ?thesis
    using 1 m(1) w' 2 3 4 5 6 7 8 9
    by (auto simp: transfer_to_escrow_def eff_simps Let_def Escrow_clear_events_def is_held_def)
qed

lemma close_escrow_returns:
  assumes ok: "db_ok (view s)" and fresh: "fresh_ids S view (view s)"
    and e: "escrows (view s) (e_escrow_id e) = Some er" "e_booking_id e = em_booking_id er"
      "amount (e_amount e) = em_amount er" "length (e_status e) \<le> 20"
    and m: "money_ok m" "int32 (amount m)" "int32 (lg_avail (ledger_of (view s)) c + amount m)"
    and len: "length c \<le> 36" "length b \<le> 36"
    and es: "\<And>e i t. e \<in> set es \<Longrightarrow> pb_encodable (to_protobuf e i t)"
  obtains w s2 w' i s3 s4 s5 s6 s' where "get_or_create_wallet S c True s = (Inr w, s2)"
    "Wallet_deposit w m = Inr w'" "uuid4 S s2 = (Inr i, s3)" "EscrowRepository_save S e s3 = (Inr (), s4)"
    "WalletRepository_save S w' s4 = (Inr (), s5)"
    "TransactionRepository_save S (Transaction_create i c m ty ''SUCCESS'' b None) s5 = (Inr (), s6)"
    "forE (publish S) es s6 = (Inr (), s')"
proof -
  obtain w s2 where 2: "get_or_create_wallet S c True s = (Inr w, s2)"
    using get_or_create_wallet_returns [OF ok len(1)] by blast
  from 2 ok fresh obtain r where r: "wallets (view s2) (w_wallet_id w) = Some r" "wm_user_id r = c"
      "w = wallet_of r" "ledger_of (view s2) = ledger_of (view s)" "escrows (view s2) = escrows (view s)" "db_ok (view s2)"
    by (rule get_or_create_wallet_ledger)
  note bal = ledger_wallet [OF r(6,1), unfolded r(2,4)] and w32 = wallet_int32 [OF r(6,1)]
  obtain w' where w': "Wallet_deposit w m = Inr w'" using Wallet_deposit_returns w32(4) r(3) m(1) by blast
  note eff = Wallet_deposit_effect [OF w']
  obtain i s3 where 3: "uuid4 S s2 = (Inr i, s3)" "view s3 = view s2" "length i = 36" using uuid4_returns by blast
  obtain s4 where 4: "EscrowRepository_save S e s3 = (Inr (), s4)"
    using save_escrow_same_returns [of s3 e er] e r 3(2) by auto
  have "wallets (view s4) = wallets (view s2)"
    using save_escrow_ledger(2) [OF 4] e r 3(2) by auto
  moreover have "escrow_ok e"
    using e(1,3) ok by (auto simp: db_ok_def ok_defs intro: ranI)
  then have "db_ok (view s4)" using save_escrow_db_ok [OF 4] r(6) 3(2) by simp
  ultimately obtain s5 where 5: "WalletRepository_save S w' s4 = (Inr (), s5)"
    using save_wallet_returns [of s4 w' r] r eff m(3) bal w32 by (auto simp: wallet_of_def)
  obtain s6 where 6: "TransactionRepository_save S (Transaction_create i c m ty ''SUCCESS'' b None) s5 = (Inr (), s6)"
    using save_txn_returns new_txn_fits [OF 3(3) len m(2)] by fastforce
  obtain s' where "forE (publish S) es s6 = (Inr (), s')" using publish_all_returns es by metis
  with 2 w' 3(1) 4 5 6 show thesis by (rule that)
qed

lemma escrow_int32:
  assumes "db_ok db" "escrows db k = Some er"
  shows "0 \<le> em_amount er" "int32 (em_amount er)" "length (em_booking_id er) \<le> 36" "em_escrow_id er = k"
  using assms(1) ranI [of "escrows db" k er, OF assms(2)] table_ok_key [OF db_ok_tables(2) [OF assms(1)] assms(2)]
  by (auto simp: db_ok_def escrow_fits_def)

lemma process_payout_returns:
  assumes ok: "db_ok (view s)" and fresh: "fresh_ids S view (view s)"
    and k: "escrows (view s) k = Some er" "em_booking_id er = b" "em_status er = ''HELD''"
    and rate: "round_product (em_amount er) rate = Inr commission" "0 \<le> commission" "commission \<le> em_amount er"
    and c: "length c \<le> 36" "int32 (lg_avail (ledger_of (view s)) c + em_amount er - commission)"
  shows "\<exists>x s'. process_payout S b c rate s = (Inr x, s')"
proof -
  note e32 = escrow_int32 [OF ok k(1)]
  obtain s1 where 1: "EscrowRepository_find_by_booking_id S b True s = (Inr (Some (escrow_of er)), s1)" "view s1 = view s"
    using find_escrow_found [OF ok k(1,2)] by metis
  define net m where "net = em_amount er - commission" and "m = \<lparr>amount = net\<rparr>"
  have m: "Money net = Inr m" "money_ok m" "amount m = net" "int32 net"
    using rate int32_between [OF e32(2), of net] by (simp_all add: Money_def m_def money_ok_def net_def)
  define e' where "e' = Escrow_add_event (PayoutProcessed b c (em_amount er) commission net) ((escrow_of er)\<lparr>e_status := ''PAID_OUT''\<rparr>)"
  have e': "Escrow_payout (escrow_of er) c rate = Inr (commission, net, e')"
    using k rate by (simp add: Escrow_payout_def escrow_of_def e'_def net_def Let_def)
  have ev: "pb_encodable (to_protobuf e i t)" if "e \<in> set (e_events e')" for e i t
    using that m(4) e32(1,2) rate int32_between [OF e32(2), of commission]
    by (auto simp: e'_def Escrow_add_event_def escrow_of_def pb_encodable_def int32_int64)
  have er': "escrows (view s1) (e_escrow_id e') = Some er" "e_booking_id e' = em_booking_id er"
      "amount (e_amount e') = em_amount er" "length (e_status e') \<le> 20"
    using k 1(2) e32(4) by (simp_all add: e'_def Escrow_add_event_def escrow_of_def)
  have c': "int32 (lg_avail (ledger_of (view s1)) c + amount m)" using c(2) by (simp add: 1(2) m(3) net_def add_diff_eq)
  have ok1: "db_ok (view s1)" "fresh_ids S view (view s1)" using ok fresh 1(2) by simp_all
  from ok1 er' m(2) m(4) [folded m(3)] c' c(1) e32(3) [unfolded k(2)] ev
  obtain w s2 w' i s3 s4 s5 s6 s' where "get_or_create_wallet S c True s1 = (Inr w, s2)"
    "Wallet_deposit w m = Inr w'" "uuid4 S s2 = (Inr i, s3)" "EscrowRepository_save S e' s3 = (Inr (), s4)"
    "WalletRepository_save S w' s4 = (Inr (), s5)"
    "TransactionRepository_save S (Transaction_create i c m ESCROW_RELEASE ''SUCCESS'' b None) s5 = (Inr (), s6)"
    "forE (publish S) (e_events e') s6 = (Inr (), s')"
    by (rule close_escrow_returns)
  then show ?thesis
    using 1 e' m(1) by (auto simp: process_payout_def eff_simps Let_def Escrow_clear_events_def)
qed

text \<open>A refund whose client and amount are resolved.\<close>

lemma resolved_refund_returns:
  assumes ok: "db_ok (view s)" and fresh: "fresh_ids S view (view s)"
    and k: "escrows (view s) k = Some er" "em_booking_id er = b" "em_status er = ''HELD''"
    and res: "refund_resolve S b c0 n0 s = (Inr (escrow_of er, c, n), s1)" "view s1 = view s"
    and c: "length c \<le> 36" and n: "0 \<le> n" "int32 n" "int32 (lg_avail (ledger_of (view s)) c + n)"
  shows "\<exists>x s'. refund_escrow S b c0 n0 s = (Inr x, s')"
proof -
  note e32 = escrow_int32 [OF ok k(1)]
  define m where "m = \<lparr>amount = n\<rparr>"
  have m: "Money n = Inr m" "money_ok m" "amount m = n" using n by (simp_all add: Money_def m_def money_ok_def)
  define e' where "e' = Escrow_add_event (EscrowRefunded b c n) ((escrow_of er)\<lparr>e_status := ''REFUNDED''\<rparr>)"
  have e': "Escrow_refund (escrow_of er) c m = Inr e'"
    using k m(3) by (simp add: Escrow_refund_def escrow_of_def e'_def)
  have ev: "pb_encodable (to_protobuf e i t)" if "e \<in> set (e_events e')" for e i t
    using that n(2) by (auto simp: e'_def Escrow_add_event_def escrow_of_def pb_encodable_def int32_int64)
  have er': "escrows (view s1) (e_escrow_id e') = Some er" "e_booking_id e' = em_booking_id er"
      "amount (e_amount e') = em_amount er" "length (e_status e') \<le> 20"
    using k res(2) e32(4) by (simp_all add: e'_def Escrow_add_event_def escrow_of_def)
  have ok1: "db_ok (view s1)" "fresh_ids S view (view s1)" using ok fresh res(2) by simp_all
  from ok1 er' m(2) n(2) [folded m(3)] n(3) [folded m(3) res(2)] c e32(3) [unfolded k(2)] ev
  obtain w s2 w' i s3 s4 s5 s6 s' where "get_or_create_wallet S c True s1 = (Inr w, s2)"
    "Wallet_deposit w m = Inr w'" "uuid4 S s2 = (Inr i, s3)" "EscrowRepository_save S e' s3 = (Inr (), s4)"
    "WalletRepository_save S w' s4 = (Inr (), s5)"
    "TransactionRepository_save S (Transaction_create i c m REFUND ''SUCCESS'' b None) s5 = (Inr (), s6)"
    "forE (publish S) (e_events e') s6 = (Inr (), s')"
    by (rule close_escrow_returns)
  then have "refund_apply S b (escrow_of er) c n s1 = (Inr i, s')"
    using e' m(1) by (auto simp: refund_apply_def eff_simps Let_def Escrow_clear_events_def)
  with res(1) show ?thesis
    by (auto simp: refund_escrow_def with_local_def bindE_def tryE_def)
qed

lemma refund_escrow_returns:
  assumes ok: "db_ok (view s)" and fresh: "fresh_ids S view (view s)"
    and k: "escrows (view s) k = Some er" "em_booking_id er = b" "em_status er = ''HELD''"
    and c: "c \<noteq> []" "length c \<le> 36" and n: "0 < n" "int32 n" "int32 (lg_avail (ledger_of (view s)) c + n)"
  shows "\<exists>x s'. refund_escrow S b c n s = (Inr x, s')"
proof -
  obtain s1 where 1: "EscrowRepository_find_by_booking_id S b True s = (Inr (Some (escrow_of er)), s1)" "view s1 = view s"
    using find_escrow_found [OF ok k(1,2)] by metis
  have "refund_resolve S b c n s = (Inr (escrow_of er, c, n), s1)"
    using 1(1) c(1) n(1) by (simp add: refund_resolve_def eff_simps)
  from resolved_refund_returns [OF ok fresh k this 1(2) c(2) _ n(2,3)] n(1) show ?thesis by simp
qed

lemma credit_topup_returns:
  assumes ok: "db_ok (view s)" and fresh: "fresh_ids S view (view s)" and r: "transactions (view s) i = Some r"
    and fits: "int32 (lg_avail (ledger_of (view s)) (tm_user_id r) + tm_amount r)" "int64 (v div 100)"
  shows "\<exists>s'. credit_topup S (txn_of r) j v s = (Inr (), s')"
proof -
  have row: "transaction_fits r" "0 \<le> tm_amount r" using ok r by (auto simp: db_ok_def intro: ranI)
  obtain w s1 where 1: "get_or_create_wallet S (tm_user_id r) True s = (Inr w, s1)"
    using get_or_create_wallet_returns [OF ok] row by (fastforce simp: transaction_fits_def)
  from 1 ok fresh obtain wr where wr: "wallets (view s1) (w_wallet_id w) = Some wr" "wm_user_id wr = tm_user_id r"
      "w = wallet_of wr" "ledger_of (view s1) = ledger_of (view s)" "db_ok (view s1)"
    by (rule get_or_create_wallet_ledger)
  note bal = ledger_wallet [OF wr(5,1), unfolded wr(2,4)] and w32 = wallet_int32 [OF wr(5,1)]
  define m where "m = \<lparr>amount = tm_amount r\<rparr>"
  have m: "money_ok m" "amount m = tm_amount r" using row(2) by (simp_all add: m_def money_ok_def)
  obtain w' where w': "Wallet_topup w m j (v div 100) = Inr w'"
    using Wallet_topup_returns [of w m j "v div 100"] w32(4) m wr(3) by auto
  note eff = Wallet_topup_effect [OF w']
  obtain s2 where 2: "WalletRepository_save S w' s1 = (Inr (), s2)"
    using save_wallet_returns [of s1 w' wr] wr eff m bal fits w32 by (auto simp: wallet_of_def)
  have "transaction_fits (transaction_to_model (Transaction_success (txn_of r)))"
    using row(1) by (simp add: transaction_fits_def transaction_to_model_def Transaction_success_def txn_of_def)
  then obtain s3 where 3: "TransactionRepository_save S (Transaction_success (txn_of r)) s2 = (Inr (), s3)"
    using save_txn_returns by blast
  have "int64 (tm_amount r)" using row(1) int32_int64 by (simp add: transaction_fits_def)
  moreover have "w_events w' = [WalletToppedUp (w_wallet_id w) (w_user_id w) (tm_amount r) (v div 100)]"
    using eff wr(3) m by (simp add: wallet_of_def)
  ultimately obtain s4 where "forE (publish S) (w_events w') s3 = (Inr (), s4)"
    using publish_all_returns [of "w_events w'" s3] fits(2) by (auto simp: pb_encodable_def)
  then show ?thesis
    using 1 w' 2 3 by (auto simp: credit_topup_def eff_simps Let_def Wallet_clear_events_def Transaction_success_def
        txn_of_def m_def)
qed

lemma ipn_confirmed:
  assumes ok: "db_ok (view s)" and fresh: "fresh_ids S view (view s)"
    and ps: "validate_ipn_signature A ps" "map_of ps ''vnp_TxnRef'' = Some i" "i \<noteq> []"
      "map_of ps ''vnp_Amount'' = Some a" "map_of ps ''vnp_ResponseCode'' = Some ''00''"
    and r: "transactions (view s) i = Some r" "tm_status r = ''PENDING''"
    and amt: "py_int a = Inr (RATE_COIN_TO_VND * tm_amount r * 100)"
    and fits: "int32 (lg_avail (ledger_of (view s)) (tm_user_id r) + tm_amount r)"
  shows "\<exists>s'. process_vnpay_ipn S A ps s = (Inr (''00'', ''Confirm success''), s')"
proof -
  obtain s1 where 1: "TransactionRepository_find_by_id S i True s = (Inr (Some (txn_of r)), s1)" "view s1 = view s"
    using find_txn_found [OF ok r(1)] by metis
  have "int32 (tm_amount r)" using ok r(1) by (auto simp: db_ok_def transaction_fits_def intro: ranI)
  then have "int64 (RATE_COIN_TO_VND * tm_amount r * 100 div 100)" by (simp add: int32_def int64_def RATE_COIN_TO_VND_def)
  then obtain s2 where "credit_topup S (txn_of r) i (RATE_COIN_TO_VND * tm_amount r * 100) s1 = (Inr (), s2)"
    using credit_topup_returns [of s1 i r _ i] ok fresh r(1) fits 1(2) by metis
  with ps amt r(2) 1 show ?thesis
    by (auto simp: process_vnpay_ipn_def settle_topup_def eff_simps txn_of_def)
qed

end

end
