(* ===== verification/Finance_Failures.thy ===== *)
theory Finance_Failures
  imports Finance_Live
begin

text \<open>
  The error branches of the commands in a live session, and the payment callback: what is raised, what
  is committed, and that a payment is credited once.
\<close>

context fin_session_live
begin

lemma fail_with_live:
  assumes enc: "\<And>i t. pb_encodable (to_protobuf event i t)"
  obtains row s' where "fail_with S event e s = (Inl e, s')" "outbox_event S event row"
    "com s' = add_row row (com s)" "view s' = com s'"
proof -
  obtain s1 where 1: "rollback S s = (Inr (), s1)" "view s1 = com s" "com s1 = com s" by (rule tx.rollback_resets)
  obtain s2 where 2: "publish S event s1 = (Inr (), s2)" using enc by (metis publish_appends)
  obtain row where row: "outbox_event S event row" "view s2 = add_row row (com s)"
    using publish_view [OF 2] 1(2) by auto
  obtain s3 where 3: "commit S s2 = (Inr (), s3)" "com s3 = view s2" "view s3 = view s2" by (rule tx.commit_publishes)
  have "fail_with S event e s = (Inl e, s3)"
    using 1 2 3 by (simp add: fail_with_def bindE_def tryE_def raise_def)
  then show thesis using row 3 by (intro that [of s3 row]) simp_all
qed

lemma tried_fails:
  fixes body :: "('s, exn, 'a) eff"
  assumes "body s = (Inl e, s1)" "com s1 = com s" "\<And>i t. pb_encodable (to_protobuf (ev e) i t)"
  obtains row s' where "tryE body (\<lambda>e. fail_with S (ev e) e) s = (Inl e, s')" "outbox_event S (ev e) row"
    "com s' = add_row row (com s)"
proof (rule fail_with_live [of "ev e" e s1])
  show "pb_encodable (to_protobuf (ev e) i t)" for i t using assms(3) .
  fix row s' assume "(fail_with S (ev e) e :: ('s, exn, 'a) eff) s1 = (Inl e, s')" "outbox_event S (ev e) row" "com s' = add_row row (com s1)"
  then show thesis using assms(1,2) by (intro that [of s' row]) (simp_all add: tryE_def)
qed

lemma tried_raises:
  assumes run: "tryE body (\<lambda>e. fail_with S (ev e) e) s = (Inl e, s')" and com: "keeps com body"
    and enc: "\<And>e i t. pb_encodable (to_protobuf (ev e) i t)"
  shows "\<exists>row. outbox_event S (ev e) row \<and> com s' = add_row row (com s)"
proof -
  obtain e1 s1 where 1: "body s = (Inl e1, s1)" using run by (auto simp: tryE_eq_Inl_iff)
  then have c: "com s1 = com s" using com by (auto dest: keepsD)
  from 1 c enc [of e1] obtain row s2 where 2: "tryE body (\<lambda>e. fail_with S (ev e) e) s = (Inl e1, s2)"
    "outbox_event S (ev e1) row" "com s2 = add_row row (com s)" by (rule tried_fails)
  with run show ?thesis by auto
qed

lemma transfer_to_escrow_raises:
  "transfer_to_escrow S u n b s = (Inl e, s') \<Longrightarrow>
   \<exists>row. outbox_event S (EscrowFailed b (py_or u NIL_UUID) (exn_str e)) row \<and> com s' = add_row row (com s)"
  unfolding transfer_to_escrow_def
  by (erule tried_raises) (intro keep_intros, simp add: pb_encodable_def)

lemma unfreeze_coin_raises:
  "unfreeze_coin S u n b s = (Inl e, s') \<Longrightarrow>
   \<exists>row. outbox_event S (RefundFailed b (py_or u NIL_UUID) (exn_str e)) row \<and> com s' = add_row row (com s)"
  unfolding unfreeze_coin_def
  by (erule tried_raises) (intro keep_intros, simp add: pb_encodable_def)

lemma freeze_coin_raises:
  "freeze_coin S u n b ty s = (Inl e, s') \<Longrightarrow> int64 n \<Longrightarrow>
   \<exists>row. outbox_event S (CoinsFreezeFailed b (py_or u NIL_UUID) n (exn_str e)) row \<and> com s' = add_row row (com s)"
  unfolding freeze_coin_def
  by (erule tried_raises) (intro keep_intros, simp add: pb_encodable_def)

lemma freeze_coin_insufficient:
  assumes ok: "db_ok (view s)" and k: "wallets (view s) k = Some r" "wm_user_id r = u"
    and n: "wm_available_balance r < n" "int64 n"
  obtains row s' where
    "freeze_coin S u n b ty s = (Inl (InsufficientBalanceError k n (wm_available_balance r)), s')"
    "outbox_event S (CoinsFreezeFailed b (py_or u NIL_UUID) n
       (exn_str (InsufficientBalanceError k n (wm_available_balance r)))) row"
    "com s' = add_row row (com s)"
proof -
  obtain s1 where 1: "WalletRepository_find_by_user_id S u True s = (Inr (Some (wallet_of r)), s1)" "com s1 = com s"
    using find_wallet_found [OF ok k] by metis
  have goc: "get_or_create_wallet S u True s = (Inr (wallet_of r), s1)"
    using 1 by (simp add: get_or_create_wallet_def bindE_def ret_def)
  have id: "wm_wallet_id r = k" using table_ok_key [OF db_ok_tables(1) [OF ok] k(1)] .
  have "0 \<le> wm_available_balance r" using wallet_int32(4) [OF ok k(1)] by (simp add: ok_defs wallet_of_def)
  then have m: "Money n = Inr \<lparr>amount = n\<rparr>" using n by (simp add: Money_def)
  have fr: "Wallet_freeze_coin (wallet_of r) \<lparr>amount = n\<rparr> b = Inl (InsufficientBalanceError k n (wm_available_balance r))"
    using n id by (simp add: Wallet_freeze_coin_def wallet_of_def)
  show thesis
    unfolding freeze_coin_def
  proof (rule tried_fails)
    show "bindE (get_or_create_wallet S u True) (\<lambda>wallet. bindE (liftE (Money n)) (\<lambda>money.
        bindE (liftE (Wallet_freeze_coin wallet money b)) (\<lambda>wallet. bindE (uuid4 S) (\<lambda>txn_id.
        let txn = Transaction_create txn_id u money ty ''PENDING'' b None in
        bindE (WalletRepository_save S wallet) (\<lambda>_. bindE (TransactionRepository_save S txn) (\<lambda>_.
        bindE (forE (publish S) (fst (Wallet_clear_events wallet))) (\<lambda>_. ret txn_id))))))) s
      = (Inl (InsufficientBalanceError k n (wm_available_balance r)), s1)"
      using goc m fr by (simp add: bindE_def liftE_def)
    show "com s1 = com s" by fact
    show "pb_encodable (to_protobuf (CoinsFreezeFailed b (py_or u NIL_UUID) n
        (exn_str (InsufficientBalanceError k n (wm_available_balance r)))) i t)" for i t
      using n(2) by (simp add: pb_encodable_def)
  qed (use that in \<open>auto simp: freeze_coin_def\<close>)
qed

text \<open>
  A booking that already has an escrow row cannot be escrowed again, whatever the row's status: a held
  one is refused by the code, any other by the unique column.
\<close>

lemma transfer_existing_escrow_fails:
  assumes ok: "db_ok (view s)" and fresh: "fresh_ids S view (view s)"
    and k: "escrows (view s) k = Some er" "em_booking_id er = b"
  obtains e row s' where "transfer_to_escrow S u n b s = (Inl e, s')"
    "outbox_event S (EscrowFailed b (py_or u NIL_UUID) (exn_str e)) row" "com s' = add_row row (com s)"
proof -
  obtain res s' where run: "transfer_to_escrow S u n b s = (res, s')" by fastforce
  show thesis
  proof (cases res)
    case (Inr x)
    with run have "transfer_to_escrow S u n b s = (Inr x, s')" by simp
    then show thesis
    proof (rule transfer_to_escrow_runs)
      fix w s1 m v s2 w' i s3 ft s4 t s5 a s6 c s7
      assume 1: "WalletRepository_find_by_user_id S u True s = (Inr (Some w), s1)"
        and 2: "EscrowRepository_find_by_booking_id S b False s1 = (Inr v, s2)"
        and w': "Wallet_deduct_frozen w m = Inr w'" and 3: "uuid4 S s2 = (Inr i, s3)"
        and 4: "TransactionRepository_find_by_reference_id S b BOOKING_RESERVATION False s3 = (Inr ft, s4)"
        and 5: "reservation_txn S u m b ft s4 = (Inr t, s5)"
        and 6: "WalletRepository_save S w' s5 = (Inr a, s6)"
        and 7: "EscrowRepository_save S (Escrow_create i b m) s6 = (Inr c, s7)"
      have v: "view s1 = view s" "view s2 = view s" "view s4 = view s"
        using find_wallet_wf [OF 1] find_escrow_wf [OF 2] find_ref_wf [OF 4] uuid4_view [OF 3] by simp_all
      have v5: "view s5 = view s"
        using 5 v by (auto simp: reservation_txn_def run_inv split: option.splits dest!: uuid4_view)
      have "escrows (view s6) = escrows (view s)"
        using wt.merge_ok [OF 6 [unfolded WalletRepository_save_def]] v5 by auto
      then have "row_accepted em_escrow_id em_booking_id escrow_fits (escrows (view s)) (escrow_to_model (Escrow_create i b m))"
        using et.merge_ok [OF 7 [unfolded EscrowRepository_save_def]] by simp
      moreover have "em_escrow_id er = k" using escrow_int32(4) [OF ok k(1)] .
      ultimately have "i = k"
        using ranI [of "escrows (view s)" k er, OF k(1)] k(2)
        by (auto simp: row_accepted_def escrow_to_model_def Escrow_create_def Escrow_add_event_def)
      moreover have "escrows (view s) i = None" using fresh 3 v by (auto simp: fresh_ids_def)
      ultimately show thesis using k(1) by simp
    qed
  next
    case (Inl e)
    from transfer_to_escrow_raises [OF run [unfolded Inl]] run Inl show thesis by (auto intro: that)
  qed
qed

end

section \<open>An escrow is closed once\<close>

text \<open>A booking whose escrow is not (or no longer) held.\<close>

definition escrow_closed :: "fin_db \<Rightarrow> string \<Rightarrow> bool" where
  "escrow_closed db b \<longleftrightarrow> (\<exists>r\<in>ran (escrows db). em_booking_id r = b \<and> em_status r \<noteq> ''HELD'')"

context fin_session
begin

lemma found_escrow_status:
  assumes "EscrowRepository_find_by_booking_id S b lock s = (Inr (Some e), s')" "db_ok (view s)"
    and "escrow_closed (view s) b"
  shows "e_status e \<noteq> ''HELD''"
proof -
  obtain r where r: "r \<in> ran (escrows (view s))" "em_booking_id r = b" "em_status r \<noteq> ''HELD''"
    using assms(3) by (auto simp: escrow_closed_def)
  obtain r' where r': "r' \<in> ran (escrows (view s))" "e = escrow_of r'" "em_booking_id r' = b"
    using assms(1) by (rule find_escrow_row)
  have "r' = r" using table_ok_unique [OF db_ok_tables(2) [OF assms(2)] r(1) r'(1)] r(2) r'(3) by simp
  with r r' show ?thesis by (simp add: escrow_of_def)
qed

lemma closed_no_payout:
  assumes "process_payout S b c rate s = (Inr x, s')" "db_ok (view s)"
  shows "\<not> escrow_closed (view s) b"
proof
  assume cl: "escrow_closed (view s) b"
  from assms(1) obtain e s1 commission net e' where
      1: "EscrowRepository_find_by_booking_id S b True s = (Inr (Some e), s1)"
    and e': "Escrow_payout e c rate = Inr (commission, net, e')" by (rule process_payout_runs)
  with found_escrow_status [OF 1 assms(2) cl] Escrow_payout_effect [OF e'] show False by simp
qed

lemma closed_no_refund:
  assumes "refund_escrow S b c n s = (Inr x, s')" "db_ok (view s)"
  shows "\<not> escrow_closed (view s) b"
proof
  assume cl: "escrow_closed (view s) b"
  from assms(1) obtain e c' n' s1 where rs: "refund_resolve S b c n s = (Inr (e, c', n'), s1)"
    and ap: "refund_apply S b e c' n' s1 = (Inr x, s')" by (rule refund_escrow_runs)
  from rs obtain s0 where 1: "EscrowRepository_find_by_booking_id S b True s = (Inr (Some e), s0)"
    by (rule refund_resolve_runs)
  from ap obtain m e' where "Escrow_refund e c' m = Inr e'" by (rule refund_apply_runs)
  with found_escrow_status [OF 1 assms(2) cl] show False by (auto dest!: Escrow_refund_effect)
qed

text \<open>The last steps of payout and refund leave the escrow row closed.\<close>

lemma saved_escrow_closed:
  assumes 4: "EscrowRepository_save S e s3 = (Inr a, s4)" and 5: "WalletRepository_save S w s4 = (Inr d, s5)"
    and 6: "TransactionRepository_save S t s5 = (Inr f, s6)" and 7: "forE (publish S) es s6 = (Inr g, s')"
    and e: "e_status e \<noteq> ''HELD''"
  shows "escrow_closed (view s') (e_booking_id e)"
proof -
  obtain r' where r': "escrow_agree (escrow_to_model e) r'"
      "view s4 = (view s3)\<lparr>escrows := (escrows (view s3))(em_escrow_id (escrow_to_model e) \<mapsto> r')\<rparr>"
    using et.merge_ok [OF 4 [unfolded EscrowRepository_save_def]] by blast
  have "escrows (view s5) = escrows (view s4)"
    using wt.merge_ok [OF 5 [unfolded WalletRepository_save_def]] by auto
  moreover have "escrows (view s6) = escrows (view s5)" using save_txn_ledger(3) [OF 6] .
  moreover have "escrows (view s') = escrows (view s6)" using publish_all_view [OF 7] by auto
  ultimately have "r' \<in> ran (escrows (view s'))" using r'(2) by (auto intro: ranI)
  then show ?thesis using r'(1) e by (auto simp: escrow_closed_def escrow_agree_def escrow_to_model_def)
qed

lemma payout_closes:
  assumes "process_payout S b c rate s = (Inr x, s')"
  shows "escrow_closed (view s') b"
proof -
  from assms obtain e s1 commission net e' w s2 m w' i s3 a s4 d s5 f s6 g where
      1: "EscrowRepository_find_by_booking_id S b True s = (Inr (Some e), s1)"
    and e': "Escrow_payout e c rate = Inr (commission, net, e')"
    and 4: "EscrowRepository_save S e' s3 = (Inr a, s4)" and 5: "WalletRepository_save S w' s4 = (Inr d, s5)"
    and 6: "TransactionRepository_save S (Transaction_create i c m ESCROW_RELEASE ''SUCCESS'' b None) s5 = (Inr f, s6)"
    and 7: "forE (publish S) (fst (Escrow_clear_events e')) s6 = (Inr g, s')"
    by (rule process_payout_runs)
  from 1 have "e_booking_id e = b" by (rule find_escrow_row) (simp add: escrow_of_def)
  then show ?thesis using saved_escrow_closed [OF 4 5 6 7] Escrow_payout_effect [OF e'] by simp
qed

lemma refund_closes:
  assumes "refund_escrow S b c n s = (Inr x, s')"
  shows "escrow_closed (view s') b"
proof -
  from assms obtain e c' n' s1 where rs: "refund_resolve S b c n s = (Inr (e, c', n'), s1)"
    and ap: "refund_apply S b e c' n' s1 = (Inr x, s')" by (rule refund_escrow_runs)
  from rs obtain s0 where 1: "EscrowRepository_find_by_booking_id S b True s = (Inr (Some e), s0)"
    by (rule refund_resolve_runs)
  from ap obtain m e' w' i s3 a s4 d s5 f s6 g where e': "Escrow_refund e c' m = Inr e'"
    and 4: "EscrowRepository_save S e' s3 = (Inr a, s4)" and 5: "WalletRepository_save S w' s4 = (Inr d, s5)"
    and 6: "TransactionRepository_save S (Transaction_create i c' m REFUND ''SUCCESS'' b None) s5 = (Inr f, s6)"
    and 7: "forE (publish S) (fst (Escrow_clear_events e')) s6 = (Inr g, s')"
    by (rule refund_apply_runs)
  from 1 have "e_booking_id e = b" by (rule find_escrow_row) (simp add: escrow_of_def)
  then show ?thesis using saved_escrow_closed [OF 4 5 6 7] Escrow_refund_effect [OF e'] by simp
qed

end

section \<open>The payment callback\<close>

text \<open>The amount the callback reports, in hundredths of a dong.\<close>

definition paid_cents :: "params \<Rightarrow> exn + int" where
  "paid_cents ps = (case map_of ps ''vnp_Amount'' of None \<Rightarrow> Inr 0 | Some a \<Rightarrow> py_int a)"

context fin_session
begin

lemma find_txn_row:
  assumes "TransactionRepository_find_by_id S k lock s = (Inr (Some t), s')" "db_ok (view s)"
  obtains r where "transactions (view s) k = Some r" "t = txn_of r"
  using assms
  by (auto simp: TransactionRepository_find_by_id_def run_inv dest!: tt.select_ok option_map_exn_cases
      transaction_to_domain_of dest: table_ok_ran [OF db_ok_tables(3)])

lemma settle_topup_runs:
  assumes "settle_topup S ps i t s = (Inr (code, msg), s')"
  shows "s' = s \<and> code \<in> {''02'', ''04''} \<or>
    code = ''00'' \<and> t_status t = ''PENDING'' \<and> paid_cents ps = Inr (RATE_COIN_TO_VND * amount (t_amount t) * 100) \<and>
    (if map_of ps ''vnp_ResponseCode'' = Some ''00''
     then \<exists>v. credit_topup S t i v s = (Inr (), s')
     else TransactionRepository_save S (Transaction_fail t) s = (Inr (), s'))"
proof (cases "t_status t = ''PENDING''")
  case True
  then obtain v where v: "paid_cents ps = Inr v"
    using assms by (auto simp: settle_topup_def run_inv paid_cents_def)
  show ?thesis
    using assms True v [unfolded paid_cents_def] v
    by (auto simp: settle_topup_def run_inv split: if_splits)
next
  case False
  with assms show ?thesis by (auto simp: settle_topup_def run_inv)
qed

lemma process_vnpay_ipn_runs:
  assumes "process_vnpay_ipn S A ps s = (Inr (code, msg), s')" "db_ok (view s)"
  shows "view s' = view s \<and> code \<in> {''97'', ''01'', ''02'', ''04''} \<or>
    code = ''00'' \<and> validate_ipn_signature A ps \<and>
    (\<exists>i r s1. map_of ps ''vnp_TxnRef'' = Some i \<and> transactions (view s) i = Some r \<and> view s1 = view s \<and>
       settle_topup S ps i (txn_of r) s1 = (Inr (code, msg), s'))"
proof (cases "validate_ipn_signature A ps \<and> (\<exists>i. map_of ps ''vnp_TxnRef'' = Some i \<and> i \<noteq> [])")
  case False
  with assms(1) show ?thesis by (auto simp: process_vnpay_ipn_def ret_run split: option.splits if_splits)
next
  case True
  then obtain i where i: "validate_ipn_signature A ps" "map_of ps ''vnp_TxnRef'' = Some i" "i \<noteq> []" by blast
  then obtain v s1 where 1: "TransactionRepository_find_by_id S i True s = (Inr v, s1)"
    and 2: "(case v of None \<Rightarrow> ret (''01'', ''Order not found'') | Some txn \<Rightarrow> settle_topup S ps i txn) s1 = (Inr (code, msg), s')"
    using assms(1) by (auto simp: process_vnpay_ipn_def bindE_eq_Inr_iff)
  have v1: "view s1 = view s" using find_txn_wf [OF 1] by simp
  show ?thesis
  proof (cases v)
    case None
    with 2 v1 show ?thesis by (auto simp: ret_run)
  next
    case (Some t)
    with 1 assms(2) obtain r where r: "transactions (view s) i = Some r" "t = txn_of r" by (auto elim: find_txn_row)
    with 2 Some have st: "settle_topup S ps i (txn_of r) s1 = (Inr (code, msg), s')" by simp
    from settle_topup_runs [OF st] show ?thesis using st r(1) i v1 by auto
  qed
qed

text \<open>Once a callback was answered \<open>00\<close>, the transaction is no longer pending.\<close>

lemma settled_not_pending:
  assumes "process_vnpay_ipn S A ps s = (Inr (''00'', msg), s')" "db_ok (view s)"
  obtains i r where "map_of ps ''vnp_TxnRef'' = Some i" "transactions (view s') i = Some r" "tm_status r \<noteq> ''PENDING''"
proof -
  from process_vnpay_ipn_runs [OF assms] obtain i r s1 where i: "map_of ps ''vnp_TxnRef'' = Some i"
    and r: "transactions (view s) i = Some r" and v1: "view s1 = view s"
    and st: "settle_topup S ps i (txn_of r) s1 = (Inr (''00'', msg), s')" by auto
  have id: "tm_transaction_id r = i" using table_ok_key [OF db_ok_tables(3) [OF assms(2)] r] .
  have save: "\<exists>r'. transactions (view s3) i = Some r' \<and> tm_status r' = t_status t"
    if "TransactionRepository_save S t s2 = (Inr x, s3)" "t_transaction_id t = i" for t s2 x s3
    using tt.merge_ok [OF that(1) [unfolded TransactionRepository_save_def]] that(2)
    by (auto simp: transaction_to_model_def transaction_agree_def)
  have "\<exists>r'. transactions (view s') i = Some r' \<and> tm_status r' \<in> {''SUCCESS'', ''FAILED''}"
  proof (cases "map_of ps ''vnp_ResponseCode'' = Some ''00''")
    case True
    with settle_topup_runs [OF st] obtain v where "credit_topup S (txn_of r) i v s1 = (Inr (), s')" by auto
    then obtain w' s2 x s3 where 3: "TransactionRepository_save S (Transaction_success (txn_of r)) s2 = (Inr x, s3)"
      and 4: "forE (publish S) (fst (Wallet_clear_events w')) s3 = (Inr (), s')"
      by (rule credit_topup_runs)
    from save [OF 3] id have "\<exists>r'. transactions (view s3) i = Some r' \<and> tm_status r' = ''SUCCESS''"
      by (simp add: Transaction_success_def txn_of_def)
    with publish_all_view [OF 4] show ?thesis by auto
  next
    case False
    with settle_topup_runs [OF st] have "TransactionRepository_save S (Transaction_fail (txn_of r)) s1 = (Inr (), s')"
      by auto
    from save [OF this] id show ?thesis by (auto simp: Transaction_fail_def txn_of_def)
  qed
  with i show thesis by (auto intro: that)
qed

lemma not_pending_not_credited:
  assumes "process_vnpay_ipn S A ps s = (Inr (code, msg), s')" "db_ok (view s)"
    and "map_of ps ''vnp_TxnRef'' = Some i" "transactions (view s) i = Some r" "tm_status r \<noteq> ''PENDING''"
  shows "view s' = view s \<and> code \<noteq> ''00''"
  using process_vnpay_ipn_runs [OF assms(1,2)]
proof
  assume "view s' = view s \<and> code \<in> {''97'', ''01'', ''02'', ''04''}"
  then show ?thesis by auto
next
  assume "code = ''00'' \<and> validate_ipn_signature A ps \<and>
    (\<exists>i r s1. map_of ps ''vnp_TxnRef'' = Some i \<and> transactions (view s) i = Some r \<and> view s1 = view s \<and>
       settle_topup S ps i (txn_of r) s1 = (Inr (code, msg), s'))"
  with assms(3,4) obtain s1 where "code = ''00''" "settle_topup S ps i (txn_of r) s1 = (Inr (code, msg), s')" by auto
  with settle_topup_runs [of ps i "txn_of r" s1 code msg s'] assms(5) show ?thesis by (auto simp: txn_of_def)
qed

text \<open>What a confirmed callback did.\<close>

lemma ipn_credit:
  assumes ok: "db_ok (view s)" and fresh: "fresh_ids S view (view s)"
    and run: "process_vnpay_ipn S A ps s = (Inr (''00'', msg), s')"
  shows "\<exists>i r. validate_ipn_signature A ps \<and> map_of ps ''vnp_TxnRef'' = Some i \<and> transactions (view s) i = Some r \<and>
    tm_status r = ''PENDING'' \<and> paid_cents ps = Inr (RATE_COIN_TO_VND * tm_amount r * 100) \<and>
    ledger_of (view s') = (if map_of ps ''vnp_ResponseCode'' = Some ''00''
      then lg_credit (tm_user_id r) (tm_amount r) (ledger_of (view s)) else ledger_of (view s))"
proof -
  from process_vnpay_ipn_runs [OF run ok] obtain i r s1 where i: "validate_ipn_signature A ps"
      "map_of ps ''vnp_TxnRef'' = Some i" "transactions (view s) i = Some r"
    and v1: "view s1 = view s" and st: "settle_topup S ps i (txn_of r) s1 = (Inr (''00'', msg), s')" by auto
  from settle_topup_runs [OF st] have p: "tm_status r = ''PENDING''"
      "paid_cents ps = Inr (RATE_COIN_TO_VND * tm_amount r * 100)" by (simp_all add: txn_of_def)
  have "ledger_of (view s') = (if map_of ps ''vnp_ResponseCode'' = Some ''00''
      then lg_credit (tm_user_id r) (tm_amount r) (ledger_of (view s)) else ledger_of (view s))"
  proof (cases "map_of ps ''vnp_ResponseCode'' = Some ''00''")
    case True
    with settle_topup_runs [OF st] obtain v where "credit_topup S (txn_of r) i v s1 = (Inr (), s')" by auto
    from credit_topup_refines [OF this] ok fresh v1 True show ?thesis by (simp add: txn_of_def)
  next
    case False
    with settle_topup_runs [OF st] have "TransactionRepository_save S (Transaction_fail (txn_of r)) s1 = (Inr (), s')" by auto
    from save_txn_ledger(1) [OF this] v1 False show ?thesis by simp
  qed
  with i p show ?thesis by blast
qed

end

section \<open>Total correctness\<close>

lemma lg_release_total:
  assumes "db_ok db" "0 \<le> n"
  shows "lg_total (lg_release b u n (ledger_of db)) = lg_total (ledger_of db) + n - lg_held (ledger_of db) b"
  using lg_step_total(1) [OF lg_releasing [OF assms(2), of "ledger_of db" b u] ledger_of_finite [OF assms(1)]] by simp

text \<open>Commission of a rate between 0 and 1 on an amount that fits its column.\<close>

lemma round_product_bounds:
  assumes "0 \<le> a" "int32 a" "is_double rate" "in_unit rate"
  shows "\<exists>c. round_product a rate = Inr c \<and> 0 \<le> c \<and> c \<le> a"
proof (cases rate)
  case (Fin m e)
  have "a < 2 ^ 31" using assms(2) by (simp add: int32_def)
  with round_mul_bounds [OF assms(1) this assms(3,4) [unfolded Fin]] float_of_small_int [OF assms(1)] Fin
  show ?thesis by (auto simp: round_product_def lift_float_def)
qed (use assms(4) in auto)

context fin_session_live
begin

lemma freeze_coin_total:
  assumes "db_ok (view s)" "fresh_ids S view (view s)"
    "0 \<le> n" "n \<le> lg_avail (ledger_of (view s)) u" "int32 (lg_frozen (ledger_of (view s)) u + n)"
    "length u \<le> 36" "length b \<le> 36"
  shows "\<exists>x s'. freeze_coin S u n b ty s = (Inr x, s') \<and> db_ok (view s') \<and> com s' = com s \<and>
    ledger_of (view s') = lg_freeze u n (ledger_of (view s))"
proof -
  obtain x s' where run: "freeze_coin S u n b ty s = (Inr x, s')" using freeze_coin_returns [OF assms] by blast
  then show ?thesis
    using freeze_coin_refines [OF run assms(1,2)] freeze_coin_db_ok [OF run assms(1)] freeze_coin_atomic [OF run] by auto
qed

lemma unfreeze_coin_total:
  assumes "db_ok (view s)" "wallets (view s) k = Some r" "wm_user_id r = u"
    "0 \<le> n" "n \<le> wm_frozen_balance r" "int32 (wm_available_balance r + n)" "length b \<le> 36"
  shows "\<exists>x s'. unfreeze_coin S u n b s = (Inr x, s') \<and> db_ok (view s') \<and> com s' = com s \<and>
    ledger_of (view s') = lg_unfreeze u n (ledger_of (view s))"
proof -
  obtain x s' where run: "unfreeze_coin S u n b s = (Inr x, s')" using unfreeze_coin_returns [OF assms] by blast
  then show ?thesis
    using unfreeze_coin_refines [OF run assms(1)] unfreeze_coin_db_ok [OF run assms(1)] unfreeze_coin_atomic [OF run] by auto
qed

lemma transfer_to_escrow_total:
  assumes "db_ok (view s)" "fresh_ids S view (view s)" "wallets (view s) k = Some r" "wm_user_id r = u"
    "0 \<le> n" "n \<le> wm_frozen_balance r" "length b \<le> 36" "\<And>e. e \<in> ran (escrows (view s)) \<Longrightarrow> em_booking_id e \<noteq> b"
  shows "\<exists>x s'. transfer_to_escrow S u n b s = (Inr x, s') \<and> db_ok (view s') \<and> com s' = com s \<and>
    ledger_of (view s') = lg_hold u b n (ledger_of (view s))"
proof -
  obtain x s' where run: "transfer_to_escrow S u n b s = (Inr x, s')"
    using transfer_to_escrow_returns [OF assms(1,3-8)] by blast
  then show ?thesis
    using transfer_to_escrow_refines [OF run assms(1,2)] transfer_to_escrow_db_ok [OF run assms(1)]
      transfer_to_escrow_atomic [OF run] by auto
qed

lemma process_payout_total:
  assumes ok: "db_ok (view s)" "fresh_ids S view (view s)"
    and k: "escrows (view s) k = Some er" "em_booking_id er = b" "em_status er = ''HELD''"
    and rate: "is_double rate" "in_unit rate" and c: "length c \<le> 36" "int32 (lg_avail (ledger_of (view s)) c + em_amount er)"
  shows "\<exists>commission x s'. round_product (em_amount er) rate = Inr commission \<and> 0 \<le> commission \<and> commission \<le> em_amount er \<and>
    process_payout S b c rate s = (Inr x, s') \<and> db_ok (view s') \<and> com s' = com s \<and>
    ledger_of (view s') = lg_release b c (em_amount er - commission) (ledger_of (view s)) \<and>
    lg_total (ledger_of (view s')) = lg_total (ledger_of (view s)) - commission"
proof -
  note e32 = escrow_int32 [OF ok(1) k(1)]
  obtain q where q: "round_product (em_amount er) rate = Inr q" "0 \<le> q" "q \<le> em_amount er"
    using round_product_bounds [OF e32(1,2) rate] by blast
  have "0 \<le> lg_avail (ledger_of (view s)) c" using ledger_nonneg(1) [OF ok(1)] .
  then have "int32 (lg_avail (ledger_of (view s)) c + em_amount er - q)" using c(2) q by (simp add: int32_def)
  then obtain x s' where run: "process_payout S b c rate s = (Inr x, s')"
    using process_payout_returns [OF ok k q c(1)] by blast
  from run ok show ?thesis
  proof (rule process_payout_refines)
    fix er' q' assume er': "er' \<in> ran (escrows (view s))" "em_booking_id er' = b" "em_status er' = ''HELD''"
      "lg_held (ledger_of (view s)) b = em_amount er'" "round_product (em_amount er') rate = Inr q'"
      "ledger_of (view s') = lg_release b c (em_amount er' - q') (ledger_of (view s))"
    have "er' = er"
      using table_ok_unique [OF db_ok_tables(2) [OF ok(1)] ranI [of "escrows (view s)" k er, OF k(1)] er'(1)] er'(2) k(2) by simp
    with er' q have L: "ledger_of (view s') = lg_release b c (em_amount er - q) (ledger_of (view s))"
      and h: "lg_held (ledger_of (view s)) b = em_amount er" by auto
    have "lg_total (ledger_of (view s')) = lg_total (ledger_of (view s)) - q"
      unfolding L using lg_release_total [OF ok(1), of "em_amount er - q" b c] q(3) h by simp
    with run q L show ?thesis
      using process_payout_db_ok [OF run ok(1)] keepsD [OF process_payout_keeps run] by blast
  qed
qed

lemma refund_escrow_total:
  assumes ok: "db_ok (view s)" "fresh_ids S view (view s)"
    and k: "escrows (view s) k = Some er" "em_booking_id er = b" "em_status er = ''HELD''"
    and c: "c \<noteq> []" "length c \<le> 36" and n: "0 < n" "int32 n" "int32 (lg_avail (ledger_of (view s)) c + n)"
  shows "\<exists>x s'. refund_escrow S b c n s = (Inr x, s') \<and> db_ok (view s') \<and> com s' = com s \<and>
    ledger_of (view s') = lg_release b c n (ledger_of (view s)) \<and>
    lg_total (ledger_of (view s')) = lg_total (ledger_of (view s)) + (n - em_amount er)"
proof -
  obtain x s' where run: "refund_escrow S b c n s = (Inr x, s')" using refund_escrow_returns [OF ok k c n] by blast
  from run ok show ?thesis
  proof (rule refund_escrow_refines)
    fix er' c' n' assume er': "er' \<in> ran (escrows (view s))" "em_booking_id er' = b"
      "lg_held (ledger_of (view s)) b = em_amount er'" "(c \<noteq> [] \<longrightarrow> c' = c) \<and> (0 < n \<longrightarrow> n' = n)"
      "ledger_of (view s') = lg_release b c' n' (ledger_of (view s))"
    have "er' = er"
      using table_ok_unique [OF db_ok_tables(2) [OF ok(1)] ranI [of "escrows (view s)" k er, OF k(1)] er'(1)] er'(2) k(2) by simp
    then have L: "ledger_of (view s') = lg_release b c n (ledger_of (view s))"
      and h: "lg_held (ledger_of (view s)) b = em_amount er" using er' c n by auto
    have "lg_total (ledger_of (view s')) = lg_total (ledger_of (view s)) + (n - em_amount er)"
      unfolding L using lg_release_total [OF ok(1), of n b c] n(1) h by simp
    with run L show ?thesis
      using refund_escrow_db_ok [OF run ok(1)] refund_escrow_atomic [OF run] by auto
  qed
qed

lemma ipn_total:
  assumes "db_ok (view s)" "fresh_ids S view (view s)"
    "validate_ipn_signature A ps" "map_of ps ''vnp_TxnRef'' = Some i" "i \<noteq> []"
    "map_of ps ''vnp_Amount'' = Some a" "map_of ps ''vnp_ResponseCode'' = Some ''00''"
    "transactions (view s) i = Some r" "tm_status r = ''PENDING''"
    "py_int a = Inr (RATE_COIN_TO_VND * tm_amount r * 100)"
    "int32 (lg_avail (ledger_of (view s)) (tm_user_id r) + tm_amount r)"
  shows "\<exists>s'. process_vnpay_ipn S A ps s = (Inr (''00'', ''Confirm success''), s') \<and> db_ok (view s') \<and>
    com s' = com s \<and> ledger_of (view s') = lg_credit (tm_user_id r) (tm_amount r) (ledger_of (view s))"
proof -
  obtain s' where run: "process_vnpay_ipn S A ps s = (Inr (''00'', ''Confirm success''), s')"
    using ipn_confirmed [OF assms] by blast
  then show ?thesis
    using ipn_credit [OF assms(1,2) run] process_vnpay_ipn_db_ok [OF run assms(1)] keepsD [OF process_vnpay_ipn_keeps run]
      assms(4,7,8) by auto
qed

end

context fin_session
begin

lemma list_map_exn_txn: "list_map_exn transaction_to_domain rs = Inr ts \<Longrightarrow> ts = map txn_of rs"
  by (induction rs arbitrary: ts) (auto simp: bindS_eq_Inr_iff dest: transaction_to_domain_of)

lemma history_runs:
  assumes "get_transaction_history S u page page_size s = (Inr (txns, tot), s')" "db_ok (view s)"
  shows "int (length txns) \<le> (if page_size < 1 then 10 else min page_size 100) \<and>
    (\<forall>t\<in>set txns. t_user_id t = u \<and> transactions (view s) (t_transaction_id t) \<noteq> None) \<and>
    sorted_wrt (\<lambda>a b. the (t_created_at b) \<le> the (t_created_at a)) txns \<and>
    tot = card {k. \<exists>r. transactions (view s) k = Some r \<and> tm_user_id r = u}"
proof -
  let ?size = "if page_size < 1 then 10 else min page_size 100"
  obtain s1 rs off where 1: "txn_count S (\<lambda>m. tm_user_id m = u) s = (Inr tot, s1)"
    and 2: "txn_page S (\<lambda>m. tm_user_id m = u) off (nat ?size) s1 = (Inr rs, s')"
    and ts: "list_map_exn transaction_to_domain rs = Inr txns"
    using assms(1) unfolding get_transaction_history_def TransactionRepository_find_by_user_id_def Let_def
    by (fastforce simp: run_inv min_def split: if_splits)
  have v1: "view s1 = view s" and c: "tot = card {k. \<exists>r. transactions (view s) k = Some r \<and> tm_user_id r = u}"
    using txn_count_ok [OF 1] by auto
  from txn_page_ok [OF 2] v1 db_ok_tables(3) [OF assms(2)] obtain all
    where all: "set all = {r \<in> ran (transactions (view s)). tm_user_id r = u}"
      "sorted_wrt (\<lambda>a b. the (tm_created_at b) \<le> the (tm_created_at a)) all" "rs = take (nat ?size) (drop off all)" by auto
  have "set rs \<subseteq> set all" using all(3) by (metis set_drop_subset set_take_subset subset_trans)
  moreover have "transactions (view s) (tm_transaction_id r) \<noteq> None" if "r \<in> ran (transactions (view s))" for r
    using table_ok_ran [OF db_ok_tables(3) [OF assms(2)] that] by simp
  moreover have "sorted_wrt (\<lambda>a b. the (tm_created_at b) \<le> the (tm_created_at a)) rs"
    using all(2,3) by (simp add: sorted_wrt_take sorted_wrt_drop)
  ultimately show ?thesis
    using list_map_exn_txn [OF ts] all(1,3) c by (auto simp: txn_of_def sorted_wrt_map)
qed

end

end
