(* ===== verification/Finance_Settled.thy ===== *)
theory Finance_Settled
  imports Finance_Failures Finance_System
begin

text \<open>
  What the finance service never undoes: the row of a closed escrow stays as it is, and a settled transaction
  never becomes pending again, whatever requests are served afterwards.  Both are relations that every command
  respects, lifted to requests by \<open>fin_requests\<close>.
\<close>

definition escrows_kept :: "fin_db \<Rightarrow> fin_db \<Rightarrow> bool" where
  "escrows_kept db db' \<longleftrightarrow> (\<forall>k r. escrows db k = Some r \<longrightarrow> em_status r \<noteq> ''HELD'' \<longrightarrow> escrows db' k = Some r)"

definition settled_kept :: "fin_db \<Rightarrow> fin_db \<Rightarrow> bool" where
  "settled_kept db db' \<longleftrightarrow> (\<forall>i r. transactions db i = Some r \<longrightarrow> tm_status r \<noteq> ''PENDING'' \<longrightarrow>
     (\<exists>r'. transactions db' i = Some r' \<and> tm_status r' \<noteq> ''PENDING''))"

lemmas kept_defs = escrows_kept_def settled_kept_def

lemma kept_same:
  "escrows db' = escrows db \<Longrightarrow> escrows_kept db db'" "transactions db' = transactions db \<Longrightarrow> settled_kept db db'"
  by (simp_all add: kept_defs)

lemma kept_trans:
  "escrows_kept db db1 \<Longrightarrow> escrows_kept db1 db2 \<Longrightarrow> escrows_kept db db2"
  "settled_kept db db1 \<Longrightarrow> settled_kept db1 db2 \<Longrightarrow> settled_kept db db2"
  unfolding kept_defs by metis+

lemma escrows_kept_closed: "escrows_kept db db' \<Longrightarrow> escrow_closed db b \<Longrightarrow> escrow_closed db' b"
  unfolding escrows_kept_def escrow_closed_def ran_def by blast

text \<open>
  Identifiers drawn in the course of one request: also after the request has stored a new wallet.
\<close>

definition ids_new :: "'s fin_session \<Rightarrow> ('s \<Rightarrow> fin_db) \<Rightarrow> fin_db \<Rightarrow> bool" where
  "ids_new S view db \<longleftrightarrow> fresh_ids S view db \<and> (\<forall>k w. fresh_ids S view (db\<lparr>wallets := (wallets db)(k \<mapsto> w)\<rparr>))"

lemma ids_new_fresh: "ids_new S view db \<Longrightarrow> fresh_ids S view db"
  by (simp add: ids_new_def)

section \<open>What the steps of a command write\<close>

context fin_session
begin

lemma wallet_save_tables:
  assumes "WalletRepository_save S w s = (Inr x, s')"
  shows "escrows (view s') = escrows (view s)" "transactions (view s') = transactions (view s)"
    "\<exists>k r. view s' = (view s)\<lparr>wallets := (wallets (view s))(k \<mapsto> r)\<rparr>"
  using wt.merge_ok [OF assms [unfolded WalletRepository_save_def]] by auto

lemma publish_tables:
  assumes "forE (publish S) es s = (Inr x, s')"
  shows "escrows (view s') = escrows (view s)" "transactions (view s') = transactions (view s)"
  using publish_all_view [OF assms] by auto

lemma create_or_get_tables:
  assumes "get_or_create_wallet S u lock s = (Inr w, s')"
  shows "escrows (view s') = escrows (view s)" "transactions (view s') = transactions (view s)"
    "view s' = view s \<or> (\<exists>k r. view s' = (view s)\<lparr>wallets := (wallets (view s))(k \<mapsto> r)\<rparr>)"
proof -
  have v: "view s' = view s \<or> (\<exists>k r. view s' = (view s)\<lparr>wallets := (wallets (view s))(k \<mapsto> r)\<rparr>)"
    using assms unfolding get_or_create_wallet_def
    by (auto simp: run_inv split: option.splits dest!: find_wallet_wf uuid4_view wallet_save_tables(3)) blast+
  then show "view s' = view s \<or> (\<exists>k r. view s' = (view s)\<lparr>wallets := (wallets (view s))(k \<mapsto> r)\<rparr>)" .
  from v show "escrows (view s') = escrows (view s)" "transactions (view s') = transactions (view s)" by auto
qed

lemma txn_save_tables:
  assumes "TransactionRepository_save S t s = (Inr x, s')"
  shows "escrows (view s') = escrows (view s)"
    "t_status t \<noteq> ''PENDING'' \<or> transactions (view s) (t_transaction_id t) = None \<Longrightarrow> settled_kept (view s) (view s')"
proof -
  obtain r' where r': "transaction_agree (transaction_to_model t) r'"
      "view s' = (view s)\<lparr>transactions := (transactions (view s))(t_transaction_id t \<mapsto> r')\<rparr>"
    using tt.merge_ok [OF assms [unfolded TransactionRepository_save_def]] by (auto simp: transaction_to_model_def)
  show "escrows (view s') = escrows (view s)" using r'(2) by simp
  show "settled_kept (view s) (view s')"
    if "t_status t \<noteq> ''PENDING'' \<or> transactions (view s) (t_transaction_id t) = None"
    using that r'(1) by (auto simp: settled_kept_def r'(2) transaction_agree_def transaction_to_model_def)
qed

lemma escrow_save_tables:
  assumes "EscrowRepository_save S e s = (Inr x, s')"
  shows "transactions (view s') = transactions (view s)"
    "(\<And>r. escrows (view s) (e_escrow_id e) = Some r \<Longrightarrow> em_status r = ''HELD'') \<Longrightarrow> escrows_kept (view s) (view s')"
proof -
  obtain r' where r': "view s' = (view s)\<lparr>escrows := (escrows (view s))(e_escrow_id e \<mapsto> r')\<rparr>"
    using et.merge_ok [OF assms [unfolded EscrowRepository_save_def]] by (auto simp: escrow_to_model_def)
  show "transactions (view s') = transactions (view s)" using r' by simp
  show "escrows_kept (view s) (view s')"
    if "\<And>r. escrows (view s) (e_escrow_id e) = Some r \<Longrightarrow> em_status r = ''HELD''"
    using that by (auto simp: escrows_kept_def r')
qed

section \<open>Closed escrows\<close>

lemma freeze_escrows_kept:
  assumes "freeze_coin S u n b ty s = (Inr x, s')"
  shows "escrows_kept (view s) (view s')"
proof -
  from assms obtain w s1 m w' i s2 y s3 z s4 v where 1: "get_or_create_wallet S u True s = (Inr w, s1)"
    and 2: "uuid4 S s1 = (Inr i, s2)" and 3: "WalletRepository_save S w' s2 = (Inr y, s3)"
    and 4: "TransactionRepository_save S (Transaction_create i u m ty ''PENDING'' b None) s3 = (Inr z, s4)"
    and 5: "forE (publish S) (fst (Wallet_clear_events w')) s4 = (Inr v, s')"
    by (rule freeze_coin_runs)
  then show ?thesis
    using create_or_get_tables(1) [OF 1] uuid4_view [OF 2] wallet_save_tables(1) [OF 3] txn_save_tables(1) [OF 4]
      publish_tables(1) [OF 5] by (intro kept_same) simp
qed

lemma unfreeze_escrows_kept:
  assumes "unfreeze_coin S u n b s = (Inr x, s')"
  shows "escrows_kept (view s) (view s')"
proof -
  from assms obtain w s1 m w' i s2 y s3 z s4 v where
      1: "WalletRepository_find_by_user_id S u True s = (Inr (Some w), s1)" and 2: "uuid4 S s1 = (Inr i, s2)"
    and 3: "WalletRepository_save S w' s2 = (Inr y, s3)"
    and 4: "TransactionRepository_save S (Transaction_create i u m REFUND ''SUCCESS'' b None) s3 = (Inr z, s4)"
    and 5: "forE (publish S) (fst (Wallet_clear_events w')) s4 = (Inr v, s')"
    by (rule unfreeze_coin_runs)
  then show ?thesis
    using find_wallet_wf [OF 1] uuid4_view [OF 2] wallet_save_tables(1) [OF 3] txn_save_tables(1) [OF 4]
      publish_tables(1) [OF 5] by (intro kept_same) simp
qed

lemma transfer_escrows_kept:
  assumes "transfer_to_escrow S u n b s = (Inr x, s')" and fresh: "fresh_ids S view (view s)"
  shows "escrows_kept (view s) (view s')"
proof -
  from assms(1) obtain w s1 m v s2 w' i s3 ft s4 t s5 a s6 c s7 d s8 g where
      1: "WalletRepository_find_by_user_id S u True s = (Inr (Some w), s1)"
    and 2: "EscrowRepository_find_by_booking_id S b False s1 = (Inr v, s2)" and 3: "uuid4 S s2 = (Inr i, s3)"
    and 4: "TransactionRepository_find_by_reference_id S b BOOKING_RESERVATION False s3 = (Inr ft, s4)"
    and 5: "reservation_txn S u m b ft s4 = (Inr t, s5)" and 6: "WalletRepository_save S w' s5 = (Inr a, s6)"
    and 7: "EscrowRepository_save S (Escrow_create i b m) s6 = (Inr c, s7)"
    and 8: "TransactionRepository_save S t s7 = (Inr d, s8)"
    and 9: "forE (publish S) (fst (Escrow_clear_events (Escrow_create i b m))) s8 = (Inr g, s')"
    by (rule transfer_to_escrow_runs)
  have v: "view s2 = view s" "view s4 = view s"
    using find_wallet_wf [OF 1] find_escrow_wf [OF 2] find_ref_wf [OF 4] uuid4_view [OF 3] by simp_all
  then have "view s5 = view s"
    using 5 by (auto simp: reservation_txn_def run_inv split: option.splits dest!: uuid4_view)
  then have e6: "escrows (view s6) = escrows (view s)" using wallet_save_tables(1) [OF 6] by simp
  moreover have "escrows (view s) i = None" using fresh 3 v by (auto simp: fresh_ids_def)
  ultimately have "escrows_kept (view s6) (view s7)"
    using escrow_save_tables(2) [OF 7] by (simp add: Escrow_create_def Escrow_add_event_def)
  then show ?thesis
    using e6 txn_save_tables(1) [OF 8] publish_tables(1) [OF 9] by (simp add: escrows_kept_def)
qed

text \<open>Closing the escrow that was found held: shared by payout and refund.\<close>

lemma close_escrows_kept:
  assumes e: "escrows (view s) (e_escrow_id e) = Some er" "em_status er = ''HELD''" and e': "e_escrow_id e' = e_escrow_id e"
    and 2: "get_or_create_wallet S c lock s = (Inr w, s2)" and 3: "uuid4 S s2 = (Inr i, s3)"
    and 4: "EscrowRepository_save S e' s3 = (Inr a, s4)" and 5: "WalletRepository_save S w' s4 = (Inr d, s5)"
    and 6: "TransactionRepository_save S t s5 = (Inr f, s6)" and 7: "forE (publish S) es s6 = (Inr g, s')"
  shows "escrows_kept (view s) (view s')"
proof -
  have e3: "escrows (view s3) = escrows (view s)" using create_or_get_tables(1) [OF 2] uuid4_view [OF 3] by simp
  then have "escrows_kept (view s3) (view s4)" using escrow_save_tables(2) [OF 4] e e' by simp
  then show ?thesis
    using e3 wallet_save_tables(1) [OF 5] txn_save_tables(1) [OF 6] publish_tables(1) [OF 7] by (simp add: escrows_kept_def)
qed

lemma payout_escrows_kept:
  assumes "process_payout S b c rate s = (Inr x, s')" "db_ok (view s)"
  shows "escrows_kept (view s) (view s')"
proof -
  from assms(1) obtain e s1 commission net e' w s2 m w' i s3 a s4 d s5 f s6 g where
      1: "EscrowRepository_find_by_booking_id S b True s = (Inr (Some e), s1)"
    and e': "Escrow_payout e c rate = Inr (commission, net, e')"
    and rest: "get_or_create_wallet S c True s1 = (Inr w, s2)" "uuid4 S s2 = (Inr i, s3)"
      "EscrowRepository_save S e' s3 = (Inr a, s4)" "WalletRepository_save S w' s4 = (Inr d, s5)"
      "TransactionRepository_save S (Transaction_create i c m ESCROW_RELEASE ''SUCCESS'' b None) s5 = (Inr f, s6)"
      "forE (publish S) (fst (Escrow_clear_events e')) s6 = (Inr g, s')"
    by (rule process_payout_runs)
  have v1: "view s1 = view s" using find_escrow_wf [OF 1] by simp
  from 1 assms(2) obtain er where "escrows (view s) (e_escrow_id e) = Some er" "e = escrow_of er" by (rule find_escrow_key)
  with close_escrows_kept [where e = e and er = er, OF _ _ _ rest] Escrow_payout_effect [OF e'] v1 show ?thesis by (simp add: escrow_of_def)
qed

lemma refund_escrows_kept:
  assumes "refund_escrow S b c n s = (Inr x, s')" "db_ok (view s)"
  shows "escrows_kept (view s) (view s')"
proof -
  from assms(1) obtain e c' n' s1 where rs: "refund_resolve S b c n s = (Inr (e, c', n'), s1)"
    and ap: "refund_apply S b e c' n' s1 = (Inr x, s')" by (rule refund_escrow_runs)
  from rs obtain s0 where 1: "EscrowRepository_find_by_booking_id S b True s = (Inr (Some e), s0)"
    by (rule refund_resolve_runs)
  from ap obtain m e' w s2 w' i s3 a s4 d s5 f s6 g where e': "Escrow_refund e c' m = Inr e'"
    and rest: "get_or_create_wallet S c' True s1 = (Inr w, s2)" "uuid4 S s2 = (Inr i, s3)"
      "EscrowRepository_save S e' s3 = (Inr a, s4)" "WalletRepository_save S w' s4 = (Inr d, s5)"
      "TransactionRepository_save S (Transaction_create i c' m REFUND ''SUCCESS'' b None) s5 = (Inr f, s6)"
      "forE (publish S) (fst (Escrow_clear_events e')) s6 = (Inr g, s')"
    by (rule refund_apply_runs)
  have v1: "view s1 = view s" using refund_resolve_wf [OF rs] by simp
  from 1 assms(2) obtain er where "escrows (view s) (e_escrow_id e) = Some er" "e = escrow_of er" by (rule find_escrow_key)
  with close_escrows_kept [where e = e and er = er, OF _ _ _ rest] Escrow_refund_effect [OF e'] v1 show ?thesis by (simp add: escrow_of_def)
qed

section \<open>Settled transactions\<close>

lemma freeze_settled_kept:
  assumes "freeze_coin S u n b ty s = (Inr x, s')" and ids: "ids_new S view (view s)"
  shows "settled_kept (view s) (view s')"
proof -
  from assms(1) obtain w s1 m w' i s2 y s3 z s4 v where 1: "get_or_create_wallet S u True s = (Inr w, s1)"
    and 2: "uuid4 S s1 = (Inr i, s2)" and 3: "WalletRepository_save S w' s2 = (Inr y, s3)"
    and 4: "TransactionRepository_save S (Transaction_create i u m ty ''PENDING'' b None) s3 = (Inr z, s4)"
    and 5: "forE (publish S) (fst (Wallet_clear_events w')) s4 = (Inr v, s')"
    by (rule freeze_coin_runs)
  have "fresh_ids S view (view s1)" using create_or_get_tables(3) [OF 1] ids by (auto simp: ids_new_def)
  then have "transactions (view s1) i = None" using 2 by (auto simp: fresh_ids_def)
  moreover have t3: "transactions (view s3) = transactions (view s1)"
    using wallet_save_tables(2) [OF 3] uuid4_view [OF 2] by simp
  ultimately have "settled_kept (view s3) (view s4)" using txn_save_tables(2) [OF 4] by (simp add: Transaction_create_def)
  then show ?thesis
    using t3 create_or_get_tables(2) [OF 1] publish_tables(2) [OF 5] by (simp add: settled_kept_def)
qed

text \<open>A transaction that is written as successful, after steps that leave the transactions alone.\<close>

lemma success_settled_kept:
  assumes "transactions (view s1) = transactions (view s)" "TransactionRepository_save S t s1 = (Inr x, s2)"
    "t_status t \<noteq> ''PENDING''" "transactions (view s') = transactions (view s2)"
  shows "settled_kept (view s) (view s')"
  using txn_save_tables(2) [OF assms(2)] assms(1,3,4) by (simp add: settled_kept_def)

lemma unfreeze_settled_kept:
  assumes "unfreeze_coin S u n b s = (Inr x, s')"
  shows "settled_kept (view s) (view s')"
proof -
  from assms obtain w s1 m w' i s2 y s3 z s4 v where
      1: "WalletRepository_find_by_user_id S u True s = (Inr (Some w), s1)" and 2: "uuid4 S s1 = (Inr i, s2)"
    and 3: "WalletRepository_save S w' s2 = (Inr y, s3)"
    and 4: "TransactionRepository_save S (Transaction_create i u m REFUND ''SUCCESS'' b None) s3 = (Inr z, s4)"
    and 5: "forE (publish S) (fst (Wallet_clear_events w')) s4 = (Inr v, s')"
    by (rule unfreeze_coin_runs)
  have "transactions (view s3) = transactions (view s)"
    using wallet_save_tables(2) [OF 3] uuid4_view [OF 2] find_wallet_wf [OF 1] by simp
  then show ?thesis by (rule success_settled_kept [OF _ 4]) (simp_all add: Transaction_create_def publish_tables(2) [OF 5])
qed

lemma transfer_settled_kept:
  assumes "transfer_to_escrow S u n b s = (Inr x, s')"
  shows "settled_kept (view s) (view s')"
proof -
  from assms obtain w s1 m v s2 w' i s3 ft s4 t s5 a s6 c s7 d s8 g where
      1: "WalletRepository_find_by_user_id S u True s = (Inr (Some w), s1)"
    and 2: "EscrowRepository_find_by_booking_id S b False s1 = (Inr v, s2)" and 3: "uuid4 S s2 = (Inr i, s3)"
    and 4: "TransactionRepository_find_by_reference_id S b BOOKING_RESERVATION False s3 = (Inr ft, s4)"
    and 5: "reservation_txn S u m b ft s4 = (Inr t, s5)" and 6: "WalletRepository_save S w' s5 = (Inr a, s6)"
    and 7: "EscrowRepository_save S (Escrow_create i b m) s6 = (Inr c, s7)"
    and 8: "TransactionRepository_save S t s7 = (Inr d, s8)"
    and 9: "forE (publish S) (fst (Escrow_clear_events (Escrow_create i b m))) s8 = (Inr g, s')"
    by (rule transfer_to_escrow_runs)
  have v: "view s4 = view s"
    using find_wallet_wf [OF 1] find_escrow_wf [OF 2] find_ref_wf [OF 4] uuid4_view [OF 3] by simp
  then have "view s5 = view s" "t_status t = ''SUCCESS''"
    using 5 by (auto simp: reservation_txn_def run_inv Transaction_create_def Transaction_success_def
        split: option.splits dest!: uuid4_view)
  then show ?thesis
    using wallet_save_tables(2) [OF 6] escrow_save_tables(1) [OF 7] publish_tables(2) [OF 9]
    by (intro success_settled_kept [OF _ 8]) simp_all
qed

lemma close_settled_kept:
  assumes 2: "get_or_create_wallet S c lock s = (Inr w, s2)" and 3: "uuid4 S s2 = (Inr i, s3)"
    and 4: "EscrowRepository_save S e' s3 = (Inr a, s4)" and 5: "WalletRepository_save S w' s4 = (Inr d, s5)"
    and 6: "TransactionRepository_save S t s5 = (Inr f, s6)" "t_status t = ''SUCCESS''"
    and 7: "forE (publish S) es s6 = (Inr g, s')"
  shows "settled_kept (view s) (view s')"
  using create_or_get_tables(2) [OF 2] uuid4_view [OF 3] escrow_save_tables(1) [OF 4] wallet_save_tables(2) [OF 5]
    publish_tables(2) [OF 7] 6(2) by (intro success_settled_kept [OF _ 6(1)]) simp_all

lemma payout_settled_kept:
  assumes "process_payout S b c rate s = (Inr x, s')"
  shows "settled_kept (view s) (view s')"
proof -
  from assms obtain e s1 commission net e' w s2 m w' i s3 a s4 d s5 f s6 g where
      1: "EscrowRepository_find_by_booking_id S b True s = (Inr (Some e), s1)"
    and rest: "get_or_create_wallet S c True s1 = (Inr w, s2)" "uuid4 S s2 = (Inr i, s3)"
      "EscrowRepository_save S e' s3 = (Inr a, s4)" "WalletRepository_save S w' s4 = (Inr d, s5)"
      "TransactionRepository_save S (Transaction_create i c m ESCROW_RELEASE ''SUCCESS'' b None) s5 = (Inr f, s6)"
    and 7: "forE (publish S) (fst (Escrow_clear_events e')) s6 = (Inr g, s')"
    by (rule process_payout_runs)
  show ?thesis
    using close_settled_kept [OF rest _ 7] find_escrow_wf [OF 1] by (simp add: Transaction_create_def)
qed

lemma refund_settled_kept:
  assumes "refund_escrow S b c n s = (Inr x, s')"
  shows "settled_kept (view s) (view s')"
proof -
  from assms obtain e c' n' s1 where rs: "refund_resolve S b c n s = (Inr (e, c', n'), s1)"
    and ap: "refund_apply S b e c' n' s1 = (Inr x, s')" by (rule refund_escrow_runs)
  from ap obtain m e' w s2 w' i s3 a s4 d s5 f s6 g where
      rest: "get_or_create_wallet S c' True s1 = (Inr w, s2)" "uuid4 S s2 = (Inr i, s3)"
      "EscrowRepository_save S e' s3 = (Inr a, s4)" "WalletRepository_save S w' s4 = (Inr d, s5)"
      "TransactionRepository_save S (Transaction_create i c' m REFUND ''SUCCESS'' b None) s5 = (Inr f, s6)"
    and 7: "forE (publish S) (fst (Escrow_clear_events e')) s6 = (Inr g, s')"
    by (rule refund_apply_runs)
  show ?thesis
    using close_settled_kept [OF rest _ 7] refund_resolve_wf [OF rs] by (simp add: Transaction_create_def)
qed

section \<open>Top-ups\<close>

lemma initiate_topup_kept:
  assumes "initiate_topup S A d u n ip s = (Inr url, s')" and fresh: "fresh_ids S view (view s)"
  shows "escrows_kept (view s) (view s')" "settled_kept (view s) (view s')"
proof -
  from assms(1) obtain m i s1 x where 1: "uuid4 S s = (Inr i, s1)"
    and 2: "TransactionRepository_save S (Transaction_create i u m TOPUP ''PENDING'' i None) s1 = (Inr x, s')"
    unfolding initiate_topup_def by (auto simp: run_inv)
  have v1: "view s1 = view s" using uuid4_view [OF 1] .
  moreover have "transactions (view s) i = None" using fresh 1 by (auto simp: fresh_ids_def)
  ultimately show "settled_kept (view s) (view s')" using txn_save_tables(2) [OF 2] by (simp add: Transaction_create_def)
  show "escrows_kept (view s) (view s')" using txn_save_tables(1) [OF 2] v1 by (intro kept_same) simp
qed

lemma credit_topup_kept:
  assumes "credit_topup S t i v s = (Inr x, s')"
  shows "escrows_kept (view s) (view s')" "settled_kept (view s) (view s')"
proof -
  from assms obtain w s1 w' a s2 d s3 where
      1: "get_or_create_wallet S (t_user_id (Transaction_success t)) True s = (Inr w, s1)"
    and 2: "WalletRepository_save S w' s1 = (Inr a, s2)"
    and 3: "TransactionRepository_save S (Transaction_success t) s2 = (Inr d, s3)"
    and 4: "forE (publish S) (fst (Wallet_clear_events w')) s3 = (Inr x, s')"
    by (rule credit_topup_runs)
  show "escrows_kept (view s) (view s')"
    using create_or_get_tables(1) [OF 1] wallet_save_tables(1) [OF 2] txn_save_tables(1) [OF 3] publish_tables(1) [OF 4]
    by (intro kept_same) simp
  show "settled_kept (view s) (view s')"
    using create_or_get_tables(2) [OF 1] wallet_save_tables(2) [OF 2] publish_tables(2) [OF 4]
    by (intro success_settled_kept [OF _ 3]) (simp_all add: Transaction_success_def)
qed

lemma process_vnpay_ipn_kept:
  assumes run: "process_vnpay_ipn S A ps s = (Inr reply, s')" and ok: "db_ok (view s)"
  shows "escrows_kept (view s) (view s') \<and> settled_kept (view s) (view s')"
proof (cases reply)
  case (Pair code msg)
  from process_vnpay_ipn_runs [OF run [unfolded Pair] ok] show ?thesis
  proof (elim disjE conjE exE)
    assume "view s' = view s"
    then show ?thesis by (simp add: kept_same)
  next
    fix i r s1 assume v1: "view s1 = view s" and st: "settle_topup S ps i (txn_of r) s1 = (Inr (code, msg), s')"
    from settle_topup_runs [OF st] show ?thesis
    proof (elim disjE conjE)
      assume "s' = s1"
      with v1 show ?thesis by (simp add: kept_same)
    next
      assume "if map_of ps ''vnp_ResponseCode'' = Some ''00'' then \<exists>v. credit_topup S (txn_of r) i v s1 = (Inr (), s')
        else TransactionRepository_save S (Transaction_fail (txn_of r)) s1 = (Inr (), s')"
      then show ?thesis
        using v1 credit_topup_kept [of "txn_of r" i _ s1 "()" s'] txn_save_tables [of "Transaction_fail (txn_of r)" s1 "()" s']
        by (auto simp: Transaction_fail_def kept_same split: if_splits)
    qed
  qed
qed

lemma row_kept [simp]: "escrows_kept db (add_row row db)" "settled_kept db (add_row row db)"
  by (simp_all add: kept_same add_row_def)

lemmas escrow_rules = freeze_escrows_kept unfreeze_escrows_kept transfer_escrows_kept payout_escrows_kept
  refund_escrows_kept initiate_topup_kept(1)

lemmas settled_rules = freeze_settled_kept unfreeze_settled_kept transfer_settled_kept payout_settled_kept
  refund_settled_kept initiate_topup_kept(2)

end

sublocale fin_session \<subseteq> esc: fin_requests S view com "\<lambda>db. db_ok db \<and> fresh_ids S view db" escrows_kept
  by (unfold_locales, simp_all add: kept_same create_or_get_tables process_vnpay_ipn_kept, (blast intro: escrow_rules)+)

sublocale fin_session \<subseteq> stl: fin_requests S view com "\<lambda>db. db_ok db \<and> ids_new S view db" settled_kept
  by (unfold_locales, simp_all add: kept_same create_or_get_tables process_vnpay_ipn_kept,
    (blast intro: settled_rules ids_new_fresh)+)

section \<open>Later states\<close>

text \<open>Requests and payment callbacks that do not raise, from a state with new identifiers each.\<close>

inductive later ::
  "'s fin_session \<Rightarrow> ('s \<Rightarrow> fin_db) \<Rightarrow> ('s \<Rightarrow> fin_db) \<Rightarrow> vnpay_adapter \<Rightarrow> 's \<Rightarrow> 's \<Rightarrow> bool"
  for S view com A s0 where
  later_start: "later S view com A s0 s0"
| later_request: "later S view com A s0 s \<Longrightarrow> ids_new S view (com s) \<Longrightarrow> later S view com A s0 (serve S A req s)"
| later_ipn: "later S view com A s0 s \<Longrightarrow> ids_new S view (com s) \<Longrightarrow>
    (\<forall>u s1. open_session S s = (Inr u, s1) \<longrightarrow> (\<exists>x t. process_vnpay_ipn S A ps s1 = (Inr x, t))) \<Longrightarrow>
    later S view com A s0 (snd (vnpay_ipn_route S A ps s))"

lemma later_reachable: "later S view com A s0 s \<Longrightarrow> reachable S view com A s0 s"
  by (induction rule: later.induct) (auto simp del: serve.simps intro: reachable.intros ids_new_fresh)

context fin_session
begin

lemma reachable_escrows_kept:
  assumes "reachable S view com A s0 s" "db_ok (com s0)"
  shows "escrows_kept (com s0) (com s)"
  using assms(1)
proof (induction rule: reachable.induct)
  case reach_start
  show ?case by (rule kept_same) simp
next
  case (reach_request s req)
  with reachable_db_ok [OF _ assms(2)] have "escrows_kept (com s) (com (serve S A req s))" by (intro esc.serve_rel) blast
  with reach_request.IH show ?case by (rule kept_trans)
next
  case (reach_ipn s ps)
  with reachable_db_ok [OF _ assms(2)] have "escrows_kept (com s) (com (snd (vnpay_ipn_route S A ps s)))"
    by (intro esc.vnpay_ipn_route_rel) blast+
  with reach_ipn.IH show ?case by (rule kept_trans)
qed

lemma later_settled_kept:
  assumes "later S view com A s0 s" "db_ok (com s0)"
  shows "settled_kept (com s0) (com s)"
  using assms(1)
proof (induction rule: later.induct)
  case later_start
  show ?case by (rule kept_same) simp
next
  case (later_request s req)
  with reachable_db_ok [OF later_reachable assms(2)] have "settled_kept (com s) (com (serve S A req s))"
    by (intro stl.serve_rel) blast
  with later_request.IH show ?case by (rule kept_trans)
next
  case (later_ipn s ps)
  with reachable_db_ok [OF later_reachable assms(2)] have "settled_kept (com s) (com (snd (vnpay_ipn_route S A ps s)))"
    by (intro stl.vnpay_ipn_route_rel) blast+
  with later_ipn.IH show ?case by (rule kept_trans)
qed

lemma closed_forever:
  assumes "escrow_closed (com s0) b" "db_ok (com s0)" "reachable S view com A s0 s" "view t = com s"
  shows "(\<nexists>y t'. process_payout S b c rate t = (Inr y, t')) \<and> (\<nexists>y t'. refund_escrow S b c' n t = (Inr y, t'))"
proof -
  have "db_ok (view t)" "escrow_closed (view t) b"
    using reachable_db_ok [OF assms(3,2)] escrows_kept_closed [OF reachable_escrows_kept [OF assms(3,2)] assms(1)] assms(4)
    by simp_all
  then show ?thesis using closed_no_payout closed_no_refund by blast
qed

end

end
