(* ===== verification/Finance_Examples.thy ===== *)
theory Finance_Examples
  imports Finance_Settled
begin

text \<open>
  A small database on the reference session, on which closed instances of the theorems are stated: two
  wallets, a held escrow with its reservation, a pending top-up.
\<close>

definition ex_tables :: fin_tables where
  "ex_tables = \<lparr>
     ft_wallets =
       DAList.update ''w1'' \<lparr>wm_wallet_id = ''w1'', wm_user_id = ''alice'', wm_available_balance = 100,
         wm_frozen_balance = 40, wm_created_at = None, wm_updated_at = None\<rparr>
       (DAList.update ''w2'' \<lparr>wm_wallet_id = ''w2'', wm_user_id = ''bob'', wm_available_balance = 5,
         wm_frozen_balance = 0, wm_created_at = None, wm_updated_at = None\<rparr> DAList.empty),
     ft_escrows =
       DAList.update ''e1'' \<lparr>em_escrow_id = ''e1'', em_booking_id = ''b1'', em_amount = 50, em_status = ''HELD'',
         em_created_at = None, em_updated_at = None\<rparr>
       (DAList.update ''e2'' \<lparr>em_escrow_id = ''e2'', em_booking_id = ''b2'', em_amount = 20, em_status = ''PAID_OUT'',
         em_created_at = None, em_updated_at = None\<rparr> DAList.empty),
     ft_transactions =
       DAList.update ''t1'' \<lparr>tm_transaction_id = ''t1'', tm_user_id = ''alice'', tm_amount = 50,
         tm_type = BOOKING_RESERVATION, tm_status = ''SUCCESS'', tm_reference_id = ''b1'', tm_created_at = Some 1\<rparr>
       (DAList.update ''t2'' \<lparr>tm_transaction_id = ''t2'', tm_user_id = ''bob'', tm_amount = 7,
         tm_type = TOPUP, tm_status = ''PENDING'', tm_reference_id = ''t2'', tm_created_at = Some 2\<rparr> DAList.empty),
     ft_outbox = []\<rparr>"

definition ex_state :: fin_mem where
  "ex_state = \<lparr>m_view = ex_tables, m_com = ex_tables, m_clock = 0\<rparr>"

lemma ex_view: "fin_view ex_state = fin_com ex_state"
  by (simp add: fin_view_def fin_com_def ex_state_def)

lemma ex_com:
  "fin_com ex_state = \<lparr>
     wallets = [''w2'' \<mapsto> \<lparr>wm_wallet_id = ''w2'', wm_user_id = ''bob'', wm_available_balance = 5,
         wm_frozen_balance = 0, wm_created_at = None, wm_updated_at = None\<rparr>,
       ''w1'' \<mapsto> \<lparr>wm_wallet_id = ''w1'', wm_user_id = ''alice'', wm_available_balance = 100,
         wm_frozen_balance = 40, wm_created_at = None, wm_updated_at = None\<rparr>],
     escrows = [''e2'' \<mapsto> \<lparr>em_escrow_id = ''e2'', em_booking_id = ''b2'', em_amount = 20, em_status = ''PAID_OUT'',
         em_created_at = None, em_updated_at = None\<rparr>,
       ''e1'' \<mapsto> \<lparr>em_escrow_id = ''e1'', em_booking_id = ''b1'', em_amount = 50, em_status = ''HELD'',
         em_created_at = None, em_updated_at = None\<rparr>],
     transactions = [''t2'' \<mapsto> \<lparr>tm_transaction_id = ''t2'', tm_user_id = ''bob'', tm_amount = 7,
         tm_type = TOPUP, tm_status = ''PENDING'', tm_reference_id = ''t2'', tm_created_at = Some 2\<rparr>,
       ''t1'' \<mapsto> \<lparr>tm_transaction_id = ''t1'', tm_user_id = ''alice'', tm_amount = 50,
         tm_type = BOOKING_RESERVATION, tm_status = ''SUCCESS'', tm_reference_id = ''b1'', tm_created_at = Some 1\<rparr>],
     outbox = []\<rparr>"
  by (simp add: fin_com_def fin_abs_def ex_state_def ex_tables_def alist_lookup_update alist_lookup_empty)

lemma ex_db_ok: "db_ok (fin_com ex_state)"
  by (simp add: db_ok_def table_ok_def ex_com wallet_fits_def escrow_fits_def transaction_fits_def int32_def)

lemma ex_fresh: "fresh_ids mem_fin fin_view (fin_com ex_state)"
proof -
  have "i \<notin> {''w1'', ''w2'', ''e1'', ''e2'', ''t1'', ''t2''}" if "length i = 36" for i using that by auto
  moreover have "length i = 36" if "uuid4 mem_fin s = (Inr i, s')" for s i s'
    using that by (auto simp: mem_uuid4_def)
  ultimately show ?thesis unfolding fresh_ids_def by (auto simp: ex_com)
qed

lemmas ex_ok = ex_db_ok ex_fresh ex_db_ok [folded ex_view] ex_fresh [folded ex_view] mem_fin_session mem_fin_live

definition ex_alice :: wallet_model where
  "ex_alice = \<lparr>wm_wallet_id = ''w1'', wm_user_id = ''alice'', wm_available_balance = 100,
     wm_frozen_balance = 40, wm_created_at = None, wm_updated_at = None\<rparr>"

definition ex_held :: escrow_model where
  "ex_held = \<lparr>em_escrow_id = ''e1'', em_booking_id = ''b1'', em_amount = 50, em_status = ''HELD'',
     em_created_at = None, em_updated_at = None\<rparr>"

definition ex_closed :: escrow_model where
  "ex_closed = \<lparr>em_escrow_id = ''e2'', em_booking_id = ''b2'', em_amount = 20, em_status = ''PAID_OUT'',
     em_created_at = None, em_updated_at = None\<rparr>"

definition ex_topup :: transaction_model where
  "ex_topup = \<lparr>tm_transaction_id = ''t2'', tm_user_id = ''bob'', tm_amount = 7,
     tm_type = TOPUP, tm_status = ''PENDING'', tm_reference_id = ''t2'', tm_created_at = Some 2\<rparr>"

lemmas ex_row_defs = ex_alice_def ex_held_def ex_closed_def ex_topup_def

lemma ex_rows:
  "wallets (fin_view ex_state) ''w1'' = Some ex_alice" "escrows (fin_view ex_state) ''e1'' = Some ex_held"
  "escrows (fin_view ex_state) ''e2'' = Some ex_closed" "transactions (fin_view ex_state) ''t2'' = Some ex_topup"
  by (simp_all add: ex_view ex_com ex_row_defs)

lemma ex_balances:
  "lg_avail (ledger_of (fin_view ex_state)) ''alice'' = 100" "lg_frozen (ledger_of (fin_view ex_state)) ''alice'' = 40"
  "lg_avail (ledger_of (fin_view ex_state)) ''bob'' = 5" "lg_held (ledger_of (fin_view ex_state)) ''b1'' = 50"
  using ledger_wallet [OF ex_ok(3) ex_rows(1)] ledger_escrow [OF ex_ok(3) ex_rows(2)]
    ledger_wallet(1) [OF ex_ok(3), of "''w2''"]
  by (simp_all add: ex_row_defs held_amount_def ex_view ex_com)

lemma ex_new_booking: "e \<in> ran (escrows (fin_view ex_state)) \<Longrightarrow> em_booking_id e \<noteq> ''b3''"
  by (auto simp: ex_view ex_com)

text \<open>A run is given by its result and the state it ends in.\<close>

lemma run_of: "fst p = r \<Longrightarrow> p = (r, snd p)"
  by auto

text \<open>An adapter with a toy keyed hash, to run the callback.\<close>

definition ex_adapter :: vnpay_adapter where
  "ex_adapter = \<lparr>tmn_code = ''KANO'', hash_secret = ''k'', payment_url = ''https://pay'', return_url = ''https://back'',
     hmac_sha512 = (\<lambda>k m. k @ m)\<rparr>"

text \<open>A callback that pays bob's pending top-up.\<close>

definition ex_ipn :: params where
  "ex_ipn = [(''vnp_TxnRef'', ''t2''), (''vnp_Amount'', ''700000''), (''vnp_ResponseCode'', ''00''),
     (''vnp_SecureHash'', ''kvnp_Amount=700000&vnp_ResponseCode=00&vnp_TxnRef=t2'')]"

lemma ex_ipn_runs:
  "fst (process_vnpay_ipn mem_fin ex_adapter ex_ipn ex_state) = Inr (''00'', ''Confirm success'')"
  by code_simp

section \<open>New identifiers\<close>

text \<open>The reference session has new identifiers as long as its committed tables have few rows.\<close>

lemma fresh_few: "card (ids_of db) < 50 \<Longrightarrow> fresh_ids mem_fin fin_view db"
  unfolding fresh_ids_def by (auto simp: ids_of_def dest!: uuid4_unused)

lemma mem_ids_new:
  assumes "rows_used (m_com s) < 49"
  shows "ids_new mem_fin fin_view (fin_com s)"
proof -
  let ?db = "fin_com s"
  have few: "finite (ids_of ?db)" "card (ids_of ?db) < 49"
    using ids_of_few [of "m_com s"] assms by (simp_all add: fin_com_def)
  have "card (ids_of (?db\<lparr>wallets := (wallets ?db)(k \<mapsto> w)\<rparr>)) < 50" for k w
  proof -
    have "ids_of (?db\<lparr>wallets := (wallets ?db)(k \<mapsto> w)\<rparr>) \<subseteq> insert k (ids_of ?db)" by (auto simp: ids_of_def)
    from card_mono [OF _ this] few have "card (ids_of (?db\<lparr>wallets := (wallets ?db)(k \<mapsto> w)\<rparr>)) \<le> Suc (card (ids_of ?db))"
      by (simp add: card_insert_if split: if_splits)
    with few show ?thesis by simp
  qed
  then show ?thesis using few fresh_few [of ?db] by (simp add: ids_new_def fresh_few)
qed

text \<open>A committed transaction, and the start of the next one.\<close>

lemma mem_between: "fin_com (snd (commit mem_fin s)) = fin_view s" "fin_view (snd (open_session mem_fin s)) = fin_com s"
  by (simp_all add: mem_commit_def mem_rollback_def fin_view_def fin_com_def)

section \<open>An outbox\<close>

text \<open>Payloads that are objects with one field, a text codec that reads every payload as that field.\<close>

definition ex_codec :: "exn codec" where
  "ex_codec = \<lparr>loads = (\<lambda>p. Inr [''bookingId'' \<mapsto> JStr p]), iso_format = show_int, py_str = (\<lambda>_. ''system'')\<rparr>"

definition ex_row :: outbox_model where
  "ex_row = \<lparr>ob_id = Some 1, ob_event_id = ''ev'', ob_event_type = ''finance.escrow-created.v1'', ob_payload = ''b1'',
     ob_created_at = Some 3, ob_processed = False\<rparr>"

definition ex_ob :: mem_ob where
  "ex_ob = \<lparr>mo_view = DAList.update 1 ex_row DAList.empty, mo_com = DAList.update 1 ex_row DAList.empty, mo_sent = []\<rparr>"

lemma ex_ob_rows: "ob_rows (mo_com ex_ob) = [1 \<mapsto> ex_row]"
  by (rule ext) (auto simp: ob_rows_def ex_ob_def alist_lookup_update alist_lookup_empty ex_row_def)

lemma ex_ob_row: "ob_rows (mo_com ex_ob) 1 = Some ex_row"
  by (simp add: ex_ob_rows)

lemma ex_ob_ran: "ran (ob_rows (mo_com ex_ob)) = {ex_row}"
  by (simp add: ex_ob_rows)

lemma ex_message: "\<exists>k m. finance_message ex_codec ex_row = Inr (k, m)"
  by (simp add: finance_message_def message_of_def finance_event_def ex_codec_def ex_row_def bindS_def json_or_def get_default_def Let_def)

text \<open>Two rows, the second written first.\<close>

definition ex_row2 :: outbox_model where
  "ex_row2 = ex_row\<lparr>ob_id := Some 2, ob_event_id := ''ev2'', ob_created_at := Some 1\<rparr>"

definition ex_ob2 :: mem_ob where
  "ex_ob2 = \<lparr>mo_view = DAList.empty, mo_com = DAList.update 2 ex_row2 (DAList.update 1 ex_row DAList.empty), mo_sent = []\<rparr>"

lemma ex_ob2_rows: "ob_rows (mo_com ex_ob2) = [1 \<mapsto> ex_row, 2 \<mapsto> ex_row2]"
  by (rule ext) (auto simp: ob_rows_def ex_ob2_def alist_lookup_update alist_lookup_empty ex_row_def ex_row2_def)

lemma ex_ob2_unsent: "{r \<in> ran (ob_rows (mo_com ex_ob2)). \<not> ob_processed r} = {ex_row, ex_row2}"
  unfolding ex_ob2_rows by (subst ran_map_upd) (auto simp: ex_row_def ex_row2_def)

lemma ex_message2: "\<exists>k m. finance_message ex_codec ex_row2 = Inr (k, m)"
  by (simp add: finance_message_def message_of_def finance_event_def ex_codec_def ex_row_def ex_row2_def bindS_def json_or_def get_default_def Let_def)

end
