(* ===== verification/Finance_Properties.thy ===== *)
theory Finance_Properties
  imports Finance_Examples
begin

text \<open>
  The properties of the finance service, each with an instance on the example database of
  \<open>Finance_Examples\<close> where it has hypotheses.
\<close>

section \<open>The service as a whole\<close>

text \<open>
  C1: in every state reachable by any sequence of gRPC calls, REST calls, Kafka messages, whatever
  failed on the way, and payment callbacks that do not raise, the committed database is well formed: wallets and escrows stand under their keys,
  a user has one wallet and a booking one escrow, every value fits its column and no balance or amount is
  negative (INV-F01).
\<close>

theorem finance_invariant:
  assumes "fin_session S view com" "db_ok (com s0)" "reachable S view com A s0 s"
  shows "db_ok (com s)"
  using fin_session.reachable_db_ok [OF assms(1,3,2)] .

theorem finance_invariant_witness:
  "db_ok (fin_com (serve mem_fin ex_adapter (ReqFreezeCoin ''alice'' 30 ''b3'' (Some 2)) ex_state))"
proof -
  have "reachable mem_fin fin_view fin_com ex_adapter ex_state
      (serve mem_fin ex_adapter (ReqFreezeCoin ''alice'' 30 ''b3'' (Some 2)) ex_state)"
    by (intro reach_request reach_start ex_ok)
  then show ?thesis by (rule finance_invariant [OF mem_fin_session ex_db_ok])
qed

text \<open>
  C2: every request is one step of the abstract ledger (freeze, unfreeze, hold, release, credit, or
  nothing), and the coins in circulation change by exactly the label of that step.
\<close>

theorem request_is_ledger_step:
  assumes "fin_session S view com" "db_ok (com s)" "fresh_ids S view (com s)"
  shows "\<exists>d. lg_step (ledger_of (com s)) d (ledger_of (com (serve S A req s))) \<and>
    lg_total (ledger_of (com (serve S A req s))) = lg_total (ledger_of (com s)) + d"
proof -
  obtain d where "lg_step (ledger_of (com s)) d (ledger_of (com (serve S A req s)))"
    using fin_session.serve_advances [OF assms] by (auto simp: advances_def)
  with lg_step_total(1) [OF this ledger_of_finite [OF assms(2)]] show ?thesis by blast
qed

theorem request_is_ledger_step_witness:
  "\<exists>d. lg_step (ledger_of (fin_com ex_state)) d
      (ledger_of (fin_com (serve mem_fin ex_adapter (ReqProcessPayout ''b1'' ''bob'' (Fin 1 (-2))) ex_state))) \<and>
    lg_total (ledger_of (fin_com (serve mem_fin ex_adapter (ReqProcessPayout ''b1'' ''bob'' (Fin 1 (-2))) ex_state))) =
      lg_total (ledger_of (fin_com ex_state)) + d"
  by (rule request_is_ledger_step [OF mem_fin_session ex_db_ok ex_fresh])

section \<open>Freezing coins\<close>

text \<open>
  C17: when the database is up, freezing \<open>n\<close> coins that the user has available (and that fit the frozen
  column) returns, moves exactly \<open>n\<close> coins from available to frozen, keeps the invariant and commits
  nothing by itself.
\<close>

theorem freeze_coin_correct:
  assumes "fin_session_live S view com" "db_ok (view s)" "fresh_ids S view (view s)"
    "0 \<le> n" "n \<le> lg_avail (ledger_of (view s)) u" "int32 (lg_frozen (ledger_of (view s)) u + n)"
    "length u \<le> 36" "length b \<le> 36"
  shows "\<exists>x s'. freeze_coin S u n b ty s = (Inr x, s') \<and> db_ok (view s') \<and> com s' = com s \<and>
    ledger_of (view s') = lg_freeze u n (ledger_of (view s))"
  using assms by (rule fin_session_live.freeze_coin_total)

theorem freeze_coin_correct_witness:
  "\<exists>x s'. freeze_coin mem_fin ''alice'' 30 ''b3'' BOOKING_RESERVATION ex_state = (Inr x, s') \<and> db_ok (fin_view s') \<and>
    fin_com s' = fin_com ex_state \<and> ledger_of (fin_view s') = lg_freeze ''alice'' 30 (ledger_of (fin_view ex_state))"
  by (rule freeze_coin_correct) (simp_all add: ex_ok ex_balances int32_def)

text \<open>
  Whatever fails, a freeze that returns was covered: the amount is not negative and not more than the
  available balance (INV-F02), and the ledger moved by exactly that amount.
\<close>

theorem freeze_coin_guarded:
  assumes "fin_session S view com" "freeze_coin S u n b ty s = (Inr x, s')" "db_ok (view s)" "fresh_ids S view (view s)"
  shows "0 \<le> n \<and> n \<le> lg_avail (ledger_of (view s)) u \<and> ledger_of (view s') = lg_freeze u n (ledger_of (view s))"
  using assms by (rule fin_session.freeze_coin_refines)

theorem freeze_coin_guarded_witness:
  "(0::int) \<le> 30 \<and> 30 \<le> lg_avail (ledger_of (fin_view ex_state)) ''alice'' \<and>
   ledger_of (fin_view (snd (freeze_coin mem_fin ''alice'' 30 ''b3'' BOOKING_RESERVATION ex_state))) =
     lg_freeze ''alice'' 30 (ledger_of (fin_view ex_state))"
proof -
  have "fst (freeze_coin mem_fin ''alice'' 30 ''b3'' BOOKING_RESERVATION ex_state) =
      Inr ''000000000000000000000000000000000000''" by code_simp
  from freeze_coin_guarded [OF mem_fin_session run_of [OF this] ex_ok(3,4)] show ?thesis .
qed

text \<open>
  A freeze of more coins than the wallet has raises \<open>InsufficientBalanceError\<close> with the wallet, the
  request and the balance, and commits nothing but the event \<open>CoinsFreezeFailed\<close> with that reason.
\<close>

theorem freeze_coin_insufficient_balance:
  assumes "fin_session_live S view com" "db_ok (view s)" "wallets (view s) k = Some r" "wm_user_id r = u"
    "wm_available_balance r < n" "int64 n"
  shows "\<exists>row s'. freeze_coin S u n b ty s = (Inl (InsufficientBalanceError k n (wm_available_balance r)), s') \<and>
    outbox_event S (CoinsFreezeFailed b (py_or u NIL_UUID) n
      (exn_str (InsufficientBalanceError k n (wm_available_balance r)))) row \<and> com s' = add_row row (com s)"
  by (rule fin_session_live.freeze_coin_insufficient [OF assms]) blast

theorem freeze_coin_insufficient_balance_witness:
  "\<exists>row s'. freeze_coin mem_fin ''alice'' 101 ''b3'' BOOKING_RESERVATION ex_state =
      (Inl (InsufficientBalanceError ''w1'' 101 (wm_available_balance ex_alice)), s') \<and>
    outbox_event mem_fin (CoinsFreezeFailed ''b3'' (py_or ''alice'' NIL_UUID) 101
      (exn_str (InsufficientBalanceError ''w1'' 101 (wm_available_balance ex_alice)))) row \<and>
    fin_com s' = add_row row (fin_com ex_state)"
  by (rule freeze_coin_insufficient_balance [OF mem_fin_live ex_ok(3) ex_rows(1)]) (simp_all add: ex_row_defs int64_def)

text \<open>
  C21: atomicity of freezing under arbitrary failures of the database: a freeze that returns has
  committed nothing (its caller commits), one that raises has committed nothing or the failure event
  alone.
\<close>

theorem freeze_coin_all_or_nothing:
  assumes "fin_session S view com" "freeze_coin S u n b ty s = (r, s')"
  shows "case r of Inr _ \<Rightarrow> com s' = com s
    | Inl _ \<Rightarrow> \<exists>e. committed_failure S com (CoinsFreezeFailed b (py_or u NIL_UUID) n (exn_str e)) s s'"
  using assms by (rule fin_session.freeze_coin_atomic)

theorem freeze_coin_all_or_nothing_witness:
  "\<exists>e. committed_failure mem_fin fin_com (CoinsFreezeFailed ''b3'' (py_or ''alice'' NIL_UUID) 101 (exn_str e)) ex_state
     (snd (freeze_coin mem_fin ''alice'' 101 ''b3'' BOOKING_RESERVATION ex_state))"
proof -
  have "fst (freeze_coin mem_fin ''alice'' 101 ''b3'' BOOKING_RESERVATION ex_state) =
      Inl (InsufficientBalanceError ''w1'' 101 100)" by code_simp
  from freeze_coin_all_or_nothing [OF mem_fin_session run_of [OF this]] show ?thesis by simp
qed

section \<open>Unfreezing\<close>

text \<open>
  Unfreezing \<open>n\<close> coins of a wallet that has them frozen returns and moves exactly \<open>n\<close> coins back to the
  available balance.
\<close>

theorem unfreeze_coin_correct:
  assumes "fin_session_live S view com" "db_ok (view s)" "wallets (view s) k = Some r" "wm_user_id r = u"
    "0 \<le> n" "n \<le> wm_frozen_balance r" "int32 (wm_available_balance r + n)" "length b \<le> 36"
  shows "\<exists>x s'. unfreeze_coin S u n b s = (Inr x, s') \<and> db_ok (view s') \<and> com s' = com s \<and>
    ledger_of (view s') = lg_unfreeze u n (ledger_of (view s))"
  using assms by (rule fin_session_live.unfreeze_coin_total)

theorem unfreeze_coin_correct_witness:
  "\<exists>x s'. unfreeze_coin mem_fin ''alice'' 40 ''b9'' ex_state = (Inr x, s') \<and> db_ok (fin_view s') \<and>
    fin_com s' = fin_com ex_state \<and> ledger_of (fin_view s') = lg_unfreeze ''alice'' 40 (ledger_of (fin_view ex_state))"
  by (rule unfreeze_coin_correct [OF mem_fin_live ex_ok(3) ex_rows(1)]) (simp_all add: ex_row_defs int32_def)

section \<open>Escrow\<close>

text \<open>
  C18: transferring \<open>n\<close> frozen coins to the escrow of a booking that has none returns and moves exactly \<open>n\<close>
  coins from the client's frozen balance into the booking's held escrow.
\<close>

theorem transfer_to_escrow_correct:
  assumes "fin_session_live S view com" "db_ok (view s)" "fresh_ids S view (view s)"
    "wallets (view s) k = Some r" "wm_user_id r = u" "0 \<le> n" "n \<le> wm_frozen_balance r" "length b \<le> 36"
    "\<And>e. e \<in> ran (escrows (view s)) \<Longrightarrow> em_booking_id e \<noteq> b"
  shows "\<exists>x s'. transfer_to_escrow S u n b s = (Inr x, s') \<and> db_ok (view s') \<and> com s' = com s \<and>
    ledger_of (view s') = lg_hold u b n (ledger_of (view s))"
  using assms by (rule fin_session_live.transfer_to_escrow_total)

theorem transfer_to_escrow_correct_witness:
  "\<exists>x s'. transfer_to_escrow mem_fin ''alice'' 40 ''b3'' ex_state = (Inr x, s') \<and> db_ok (fin_view s') \<and>
    fin_com s' = fin_com ex_state \<and> ledger_of (fin_view s') = lg_hold ''alice'' ''b3'' 40 (ledger_of (fin_view ex_state))"
  by (rule transfer_to_escrow_correct [OF mem_fin_live ex_ok(3,4) ex_rows(1) _ _ _ _ ex_new_booking])
    (simp_all add: ex_row_defs)

text \<open>
  C22: a booking that already has an escrow row can never be escrowed again: the transfer raises and
  commits only \<open>EscrowFailed\<close>.  For a held escrow this is INV-F04; for one that was paid out or refunded
  the code means to allow it, and the unique column refuses it.
\<close>

theorem second_escrow_refused:
  assumes "fin_session_live S view com" "db_ok (view s)" "fresh_ids S view (view s)"
    "escrows (view s) k = Some er" "em_booking_id er = b"
  shows "\<exists>e row s'. transfer_to_escrow S u n b s = (Inl e, s') \<and>
    outbox_event S (EscrowFailed b (py_or u NIL_UUID) (exn_str e)) row \<and> com s' = add_row row (com s)"
  by (rule fin_session_live.transfer_existing_escrow_fails [OF assms]) blast

theorem second_escrow_refused_witness:
  "\<exists>e row s'. transfer_to_escrow mem_fin ''alice'' 10 ''b2'' ex_state = (Inl e, s') \<and>
    outbox_event mem_fin (EscrowFailed ''b2'' (py_or ''alice'' NIL_UUID) (exn_str e)) row \<and>
    fin_com s' = add_row row (fin_com ex_state)"
  by (rule second_escrow_refused [OF mem_fin_live ex_ok(3,4) ex_rows(3)]) (simp add: ex_row_defs)

section \<open>Payout and refund\<close>

text \<open>
  C16: paying out a held escrow at a commission rate between 0 and 1 returns; the commission lies between
  zero and the escrowed amount, the companion gets the rest, the escrow is empty, and the coins in
  circulation drop by exactly the commission.
\<close>

theorem process_payout_correct:
  assumes "fin_session_live S view com" "db_ok (view s)" "fresh_ids S view (view s)"
    "escrows (view s) k = Some er" "em_booking_id er = b" "em_status er = ''HELD''"
    "is_double rate" "in_unit rate" "length c \<le> 36" "int32 (lg_avail (ledger_of (view s)) c + em_amount er)"
  shows "\<exists>commission x s'. round_product (em_amount er) rate = Inr commission \<and> 0 \<le> commission \<and> commission \<le> em_amount er \<and>
    process_payout S b c rate s = (Inr x, s') \<and> db_ok (view s') \<and> com s' = com s \<and>
    ledger_of (view s') = lg_release b c (em_amount er - commission) (ledger_of (view s)) \<and>
    lg_total (ledger_of (view s')) = lg_total (ledger_of (view s)) - commission"
  using assms by (rule fin_session_live.process_payout_total)

theorem process_payout_correct_witness:
  "\<exists>commission x s'. round_product (em_amount ex_held) (Fin 1 (-2)) = Inr commission \<and> 0 \<le> commission \<and>
    commission \<le> em_amount ex_held \<and> process_payout mem_fin ''b1'' ''bob'' (Fin 1 (-2)) ex_state = (Inr x, s') \<and>
    db_ok (fin_view s') \<and> fin_com s' = fin_com ex_state \<and>
    ledger_of (fin_view s') = lg_release ''b1'' ''bob'' (em_amount ex_held - commission) (ledger_of (fin_view ex_state)) \<and>
    lg_total (ledger_of (fin_view s')) = lg_total (ledger_of (fin_view ex_state)) - commission"
  by (rule process_payout_correct [OF mem_fin_live ex_ok(3,4) ex_rows(2)])
    (simp_all add: ex_row_defs ex_balances is_double_def int32_def)

text \<open>
  C19: refunding a held escrow to a named client with a positive amount returns, credits exactly that
  amount and empties the escrow.  The coins in circulation change by the difference between the requested
  amount and the escrowed one, which nothing in the service compares.
\<close>

theorem refund_escrow_correct:
  assumes "fin_session_live S view com" "db_ok (view s)" "fresh_ids S view (view s)"
    "escrows (view s) k = Some er" "em_booking_id er = b" "em_status er = ''HELD''"
    "c \<noteq> []" "length c \<le> 36" "0 < n" "int32 n" "int32 (lg_avail (ledger_of (view s)) c + n)"
  shows "\<exists>x s'. refund_escrow S b c n s = (Inr x, s') \<and> db_ok (view s') \<and> com s' = com s \<and>
    ledger_of (view s') = lg_release b c n (ledger_of (view s)) \<and>
    lg_total (ledger_of (view s')) = lg_total (ledger_of (view s)) + (n - em_amount er)"
  using assms by (rule fin_session_live.refund_escrow_total)

theorem refund_escrow_correct_witness:
  "\<exists>x s'. refund_escrow mem_fin ''b1'' ''alice'' 1000 ex_state = (Inr x, s') \<and> db_ok (fin_view s') \<and>
    fin_com s' = fin_com ex_state \<and>
    ledger_of (fin_view s') = lg_release ''b1'' ''alice'' 1000 (ledger_of (fin_view ex_state)) \<and>
    lg_total (ledger_of (fin_view s')) = lg_total (ledger_of (fin_view ex_state)) + (1000 - em_amount ex_held)"
  by (rule refund_escrow_correct [OF mem_fin_live ex_ok(3,4) ex_rows(2)])
    (simp_all add: ex_row_defs ex_balances int32_def)

text \<open>
  C20: an escrow is closed once (INV-F05): after a payout or a refund of a booking that returned and was committed,
  no payout and no refund of that booking ever returns again, whatever gRPC calls, REST calls, Kafka messages and
  payment callbacks that do not raise are served in between.
\<close>

theorem escrow_closed_once:
  assumes "fin_session S view com" "db_ok (view s)"
    "process_payout S b c rate s = (Inr x, s') \<or> refund_escrow S b c n s = (Inr x, s')"
    "com s1 = view s'" "reachable S view com A s1 s2" "view t = com s2"
  shows "(\<nexists>y t'. process_payout S b c' rate' t = (Inr y, t')) \<and> (\<nexists>y t'. refund_escrow S b c' n' t = (Inr y, t'))"
proof (rule fin_session.closed_forever [OF assms(1) _ _ assms(5,6)])
  show "escrow_closed (com s1) b"
    using assms(3,4) fin_session.payout_closes [OF assms(1)] fin_session.refund_closes [OF assms(1)] by metis
  show "db_ok (com s1)"
    using assms(2-4) fin_session.process_payout_db_ok [OF assms(1)] fin_session.refund_escrow_db_ok [OF assms(1)] by metis
qed

theorem escrow_closed_once_witness:
  "let s1 = snd (commit mem_fin (snd (process_payout mem_fin ''b1'' ''bob'' (Fin 1 (-2)) ex_state)));
       s2 = serve mem_fin ex_adapter (ReqTransferToEscrow ''alice'' 10 ''b1'')
         (serve mem_fin ex_adapter (ReqFreezeCoin ''alice'' 30 ''b1'' (Some 2)) s1);
       t = snd (open_session mem_fin s2)
   in (\<nexists>y t'. process_payout mem_fin ''b1'' ''bob'' (Fin 0 0) t = (Inr y, t')) \<and>
      (\<nexists>y t'. refund_escrow mem_fin ''b1'' ''bob'' 50 t = (Inr y, t'))"
proof -
  let ?s1 = "snd (commit mem_fin (snd (process_payout mem_fin ''b1'' ''bob'' (Fin 1 (-2)) ex_state)))"
  let ?s2 = "serve mem_fin ex_adapter (ReqFreezeCoin ''alice'' 30 ''b1'' (Some 2)) ?s1"
  have paid: "fst (process_payout mem_fin ''b1'' ''bob'' (Fin 1 (-2)) ex_state) =
      Inr ''000000000000000000000000000000000000''" by code_simp
  have "rows_used (m_com ?s1) < 49" "rows_used (m_com ?s2) < 49" by code_simp+
  then have "fresh_ids mem_fin fin_view (fin_com ?s1)" "fresh_ids mem_fin fin_view (fin_com ?s2)"
    by (auto intro: ids_new_fresh mem_ids_new simp del: serve.simps)
  then have "reachable mem_fin fin_view fin_com ex_adapter ?s1
      (serve mem_fin ex_adapter (ReqTransferToEscrow ''alice'' 10 ''b1'') ?s2)"
    by (intro reach_request reach_start)
  from escrow_closed_once [OF mem_fin_session ex_ok(3) disjI1 [OF run_of [OF paid]] mem_between(1) this mem_between(2)]
  show ?thesis unfolding Let_def .
qed

end
