(* ===== verification/Service_Process.thy ===== *)
theory Service_Process
  imports Event_Loop
begin

text \<open>
  The life cycle of the three services: starting and stopping the background workers
  (\<open>OutboxPublisherWorker\<close>, \<open>DbCleanupWorker\<close>, \<open>SagaRetryWorker\<close>), the listener tasks and the two servers,
  in the order of \<open>main()\<close> of each service.  How a library call ends is a parameter: an environment says
  which call raises and how a cancelled task ends; a \<open>None\<close> is a call that returns.
\<close>

section \<open>Workers\<close>

datatype 'e task = Active | Ended "'e raised + unit"

text \<open>\<open>wk_producer\<close>: the attribute \<open>producer\<close>, with whether the producer is started.\<close>

record 'e worker =
  wk_running :: bool
  wk_task :: "'e task option"
  wk_producer :: "bool option"

definition new_worker :: "'e worker" where
  "new_worker = \<lparr>wk_running = False, wk_task = None, wk_producer = None\<rparr>"

record 'e worker_env =
  producer_start_raises :: "'e raised option"
  producer_stop_raises :: "'e raised option"
  cancelled_end :: "'e raised + unit"

definition modifyE :: "('s \<Rightarrow> 's) \<Rightarrow> ('s, 'e, unit) eff" where
  "modifyE f s = (Inr (), f s)"

definition callE :: "'e option \<Rightarrow> ('s \<Rightarrow> 's) \<Rightarrow> ('s, 'e, unit) eff" where
  "callE r f s = (case r of Some x \<Rightarrow> (Inl x, s) | None \<Rightarrow> (Inr (), f s))"

definition outbox_start :: "'e worker_env \<Rightarrow> ('e worker, 'e raised, unit) eff" where
  "outbox_start E =
     bindE (modifyE (\<lambda>w. w\<lparr>wk_producer := Some False\<rparr>)) (\<lambda>_.
     callE (producer_start_raises E) (\<lambda>w. w\<lparr>wk_producer := Some True, wk_running := True, wk_task := Some Active\<rparr>))"

text \<open>\<open>start\<close> of the cleanup worker.\<close>

definition polling_start :: "('e worker, 'e raised, unit) eff" where
  "polling_start = modifyE (\<lambda>w. w\<lparr>wk_running := True, wk_task := Some Active\<rparr>)"

text \<open>Cancel a task and await it; a task that has ended keeps its result.\<close>

definition task_result :: "'e raised + unit \<Rightarrow> 'e task \<Rightarrow> 'e raised + unit" where
  "task_result r t = (case t of Active \<Rightarrow> r | Ended r' \<Rightarrow> r')"

definition await_task :: "'e worker_env \<Rightarrow> ('e worker, 'e raised, unit) eff" where
  "await_task E w =
     (case wk_task w of
        None \<Rightarrow> (Inr (), w)
      | Some t \<Rightarrow> (task_result (cancelled_end E) t, w\<lparr>wk_task := Some (Ended (task_result (cancelled_end E) t))\<rparr>))"

definition polling_stop :: "'e worker_env \<Rightarrow> ('e worker, 'e raised, unit) eff" where
  "polling_stop E =
     bindE (modifyE (\<lambda>w. w\<lparr>wk_running := False\<rparr>)) (\<lambda>_.
     cancelledE (await_task E) (ret ()))"

definition outbox_stop :: "'e worker_env \<Rightarrow> ('e worker, 'e raised, unit) eff" where
  "outbox_stop E =
     bindE (polling_stop E) (\<lambda>_. \<lambda>w.
     if wk_producer w = None then (Inr (), w)
     else callE (producer_stop_raises E) (\<lambda>w. w\<lparr>wk_producer := Some False\<rparr>) w)"

text \<open>The saga retry worker has the same \<open>start\<close> and \<open>stop\<close> as the cleanup worker.\<close>

definition saga_start :: "('e worker, 'e raised, unit) eff" where
  "saga_start = polling_start"

definition saga_stop :: "'e worker_env \<Rightarrow> ('e worker, 'e raised, unit) eff" where
  "saga_stop E = polling_stop E"

definition stopped :: "'e worker \<Rightarrow> bool" where
  "stopped w \<longleftrightarrow> \<not> wk_running w \<and> wk_task w \<noteq> Some Active \<and> wk_producer w \<noteq> Some True"

section \<open>The parts of a process\<close>

datatype server = NotStarted | Serving | Exiting | TaskCancelled | Closed

text \<open>An operation of one part, in the process.\<close>

definition focus :: "('p \<Rightarrow> 'w) \<Rightarrow> (('w \<Rightarrow> 'w) \<Rightarrow> 'p \<Rightarrow> 'p) \<Rightarrow> ('w, 'x, 'a) eff \<Rightarrow> ('p, 'x, 'a) eff" where
  "focus get upd m p = (case m (get p) of (r, w) \<Rightarrow> (r, upd (\<lambda>_. w) p))"

text \<open>\<open>try: m except Exception as e: log\<close>\<close>

definition logged :: "('s, 'e raised, unit) eff \<Rightarrow> ('s, 'e raised, unit) eff" where
  "logged m = exceptE m (\<lambda>e. ret ())"

text \<open>The tables are created under a guard: a database that is down is logged.\<close>

definition init_db :: "'e raised option \<Rightarrow> ('p \<Rightarrow> 'p) \<Rightarrow> ('p, 'e raised, unit) eff" where
  "init_db r created = logged (callE r created)"

section \<open>The finance service\<close>

record 'e finance_process =
  fp_tables :: bool
  fp_outbox :: "'e worker"
  fp_cleanup :: "'e worker"
  fp_identity :: "'e task option"
  fp_booking :: "'e task option"
  fp_grpc :: server
  fp_http :: server

definition finance_idle :: "'e finance_process" where
  "finance_idle = \<lparr>fp_tables = False, fp_outbox = new_worker, fp_cleanup = new_worker, fp_identity = None,
     fp_booking = None, fp_grpc = NotStarted, fp_http = NotStarted\<rparr>"

text \<open>
  \<open>fe_identity\<close> and \<open>fe_booking\<close> are the results of the listener tasks once they are cancelled and awaited,
  \<open>fe_wait\<close> an interruption of \<open>asyncio.wait\<close>, \<open>fe_in_time\<close> whether the servers end in the grace period.
\<close>

record 'e finance_env =
  fe_init :: "'e raised option"
  fe_outbox :: "'e worker_env"
  fe_cleanup :: "'e worker_env"
  fe_wait :: "'e raised option"
  fe_grpc_stop :: "'e raised option"
  fe_in_time :: bool
  fe_identity :: "'e raised + unit"
  fe_booking :: "'e raised + unit"

definition finance_start :: "'e finance_env \<Rightarrow> ('e finance_process, 'e raised, unit) eff" where
  "finance_start E =
     bindE (init_db (fe_init E) (\<lambda>p. p\<lparr>fp_tables := True\<rparr>)) (\<lambda>_.
     bindE (logged (focus fp_outbox fp_outbox_update (outbox_start (fe_outbox E)))) (\<lambda>_.
     bindE (logged (focus fp_cleanup fp_cleanup_update polling_start)) (\<lambda>_.
     modifyE (\<lambda>p. p\<lparr>fp_identity := Some Active, fp_booking := Some Active, fp_grpc := Serving, fp_http := Serving\<rparr>))))"

definition finance_stop :: "'e finance_env \<Rightarrow> ('e finance_process, 'e raised, unit) eff" where
  "finance_stop E =
     bindE (callE (fe_grpc_stop E) (\<lambda>p. p\<lparr>fp_grpc := Closed\<rparr>)) (\<lambda>_.
     bindE (modifyE (\<lambda>p. p\<lparr>fp_http := (if fe_in_time E then Closed else TaskCancelled)\<rparr>)) (\<lambda>_.
     bindE (cancelledE (\<lambda>p. (fe_identity E, p\<lparr>fp_identity := Some (Ended (fe_identity E))\<rparr>)) (ret ())) (\<lambda>_.
     bindE (cancelledE (\<lambda>p. (fe_booking E, p\<lparr>fp_booking := Some (Ended (fe_booking E))\<rparr>)) (ret ())) (\<lambda>_.
     bindE (focus fp_outbox fp_outbox_update (outbox_stop (fe_outbox E))) (\<lambda>_.
     focus fp_cleanup fp_cleanup_update (polling_stop (fe_cleanup E)))))))"

definition finance_main :: "'e finance_env \<Rightarrow> ('e finance_process, 'e raised, unit) eff" where
  "finance_main E =
     bindE (finance_start E) (\<lambda>_.
     bindE (callE (fe_wait E) (\<lambda>p. p)) (\<lambda>_.
     finance_stop E))"

section \<open>The dispute service\<close>

record 'e dispute_process =
  dp_tables :: bool
  dp_outbox :: "'e worker"
  dp_saga :: "'e worker"
  dp_cleanup :: "'e worker"
  dp_grpc :: server
  dp_http :: server

definition dispute_idle :: "'e dispute_process" where
  "dispute_idle = \<lparr>dp_tables = False, dp_outbox = new_worker, dp_saga = new_worker, dp_cleanup = new_worker,
     dp_grpc = NotStarted, dp_http = NotStarted\<rparr>"

record 'e dispute_env =
  de_init :: "'e raised option"
  de_outbox :: "'e worker_env"
  de_saga :: "'e worker_env"
  de_cleanup :: "'e worker_env"
  de_grpc_start :: "'e raised option"
  de_wait :: "'e raised option"
  de_grpc_stop :: "'e raised option"
  de_http_end :: "'e raised option"

text \<open>
  The two server coroutines under \<open>asyncio.gather\<close>: the HTTP server runs in a task of its own; both wait for
  the shutdown event, then one stops the gRPC server while the other lets the HTTP server exit.
\<close>

definition dispute_servers :: "'e dispute_env \<Rightarrow> ('e dispute_process, 'e raised, unit) eff" where
  "dispute_servers E =
     bindE (modifyE (\<lambda>p. p\<lparr>dp_http := Serving\<rparr>)) (\<lambda>_.
     bindE (callE (de_grpc_start E) (\<lambda>p. p\<lparr>dp_grpc := Serving\<rparr>)) (\<lambda>_.
     bindE (callE (de_wait E) (\<lambda>p. p\<lparr>dp_http := Exiting\<rparr>)) (\<lambda>_.
     bindE (callE (de_grpc_stop E) (\<lambda>p. p\<lparr>dp_grpc := Closed\<rparr>)) (\<lambda>_.
     callE (de_http_end E) (\<lambda>p. p\<lparr>dp_http := Closed\<rparr>)))))"

definition dispute_main :: "'e dispute_env \<Rightarrow> ('e dispute_process, 'e raised, unit) eff" where
  "dispute_main E =
     bindE (init_db (de_init E) (\<lambda>p. p\<lparr>dp_tables := True\<rparr>)) (\<lambda>_.
     bindE (logged (focus dp_outbox dp_outbox_update (outbox_start (de_outbox E)))) (\<lambda>_.
     bindE (logged (focus dp_saga dp_saga_update saga_start)) (\<lambda>_.
     bindE (logged (focus dp_cleanup dp_cleanup_update polling_start)) (\<lambda>_.
     finallyE (dispute_servers E)
       (bindE (focus dp_outbox dp_outbox_update (outbox_stop (de_outbox E))) (\<lambda>_.
        bindE (focus dp_saga dp_saga_update (saga_stop (de_saga E))) (\<lambda>_.
        focus dp_cleanup dp_cleanup_update (polling_stop (de_cleanup E)))))))))"

section \<open>The profile service\<close>

text \<open>The listener of this service is an object with its own \<open>start\<close> and \<open>stop\<close>; \<open>pp_listener\<close> is its attribute \<open>task\<close>.\<close>

record 'e profile_process =
  pp_tables :: bool
  pp_outbox :: "'e worker"
  pp_cleanup :: "'e worker"
  pp_listener :: "'e task option"
  pp_grpc :: server
  pp_http :: server

definition profile_idle :: "'e profile_process" where
  "profile_idle = \<lparr>pp_tables = False, pp_outbox = new_worker, pp_cleanup = new_worker, pp_listener = None,
     pp_grpc = NotStarted, pp_http = NotStarted\<rparr>"

record 'e profile_env =
  pe_init :: "'e raised option"
  pe_outbox :: "'e worker_env"
  pe_cleanup :: "'e worker_env"
  pe_grpc_start :: "'e raised option"
  pe_wait :: "'e raised option"
  pe_http_done :: bool
  pe_http_end :: "'e raised option"
  pe_grpc_stop :: "'e raised option"
  pe_grpc_end :: "'e raised option"
  pe_listener :: "'e raised + unit"

definition listener_start :: "('e task option, 'e raised, unit) eff" where
  "listener_start = modifyE (\<lambda>_. Some Active)"

definition listener_stop :: "'e raised + unit \<Rightarrow> ('e task option, 'e raised, unit) eff" where
  "listener_stop r t =
     (case t of
        None \<Rightarrow> (Inr (), t)
      | Some tk \<Rightarrow>
          bindE (cancelledE (\<lambda>_. (task_result r tk, Some (Ended (task_result r tk)))) (ret ()))
            (\<lambda>_. modifyE (\<lambda>_. None)) t)"

definition profile_start :: "'e profile_env \<Rightarrow> ('e profile_process, 'e raised, unit) eff" where
  "profile_start E =
     bindE (init_db (pe_init E) (\<lambda>p. p\<lparr>pp_tables := True\<rparr>)) (\<lambda>_.
     bindE (logged (focus pp_outbox pp_outbox_update (outbox_start (pe_outbox E)))) (\<lambda>_.
     bindE (logged (focus pp_cleanup pp_cleanup_update polling_start)) (\<lambda>_.
     bindE (logged (focus pp_listener pp_listener_update listener_start)) (\<lambda>_.
     bindE (callE (pe_grpc_start E) (\<lambda>p. p\<lparr>pp_grpc := Serving\<rparr>)) (\<lambda>_.
     modifyE (\<lambda>p. p\<lparr>pp_http := Serving\<rparr>))))))"

definition profile_stop :: "'e profile_env \<Rightarrow> ('e profile_process, 'e raised, unit) eff" where
  "profile_stop E =
     bindE (if pe_http_done E then modifyE (\<lambda>p. p\<lparr>pp_http := Closed\<rparr>)
       else
         bindE (modifyE (\<lambda>p. p\<lparr>pp_http := Exiting\<rparr>)) (\<lambda>_.
         logged (callE (pe_http_end E) (\<lambda>p. p\<lparr>pp_http := Closed\<rparr>)))) (\<lambda>_.
     bindE (callE (pe_grpc_stop E) (\<lambda>p. p\<lparr>pp_grpc := Closed\<rparr>)) (\<lambda>_.
     bindE (logged (callE (pe_grpc_end E) (\<lambda>p. p))) (\<lambda>_.
     bindE (logged (focus pp_outbox pp_outbox_update (outbox_stop (pe_outbox E)))) (\<lambda>_.
     bindE (logged (focus pp_listener pp_listener_update (listener_stop (pe_listener E)))) (\<lambda>_.
     logged (focus pp_cleanup pp_cleanup_update (polling_stop (pe_cleanup E))))))))"

definition profile_main :: "'e profile_env \<Rightarrow> ('e profile_process, 'e raised, unit) eff" where
  "profile_main E =
     bindE (profile_start E) (\<lambda>_.
     finallyE (cancelledE (callE (pe_wait E) (\<lambda>p. p)) (ret ())) (profile_stop E))"

section \<open>Stopping a worker\<close>

lemmas process_simps = bindE_def modifyE_def callE_def focus_def logged_def exceptE_def cancelledE_def tryE_def
  ret_def raise_def finallyE_def

text \<open>A task that, cancelled, ends by its \<open>CancelledError\<close> or by returning.\<close>

definition ends_quietly :: "'e raised + unit \<Rightarrow> bool" where
  "ends_quietly r \<longleftrightarrow> r = Inr () \<or> r = Inl CancelledError"

definition stoppable :: "'e worker \<Rightarrow> bool" where
  "stoppable w \<longleftrightarrow> wk_task w = None \<or> wk_task w = Some Active"

lemma polling_stop_ok:
  assumes "ends_quietly (cancelled_end E)" "stoppable w"
  obtains w' where "polling_stop E w = (Inr (), w')" "\<not> wk_running w'" "wk_task w' \<noteq> Some Active" "wk_producer w' = wk_producer w"
  using assms
  by (auto simp: polling_stop_def process_simps await_task_def task_result_def ends_quietly_def stoppable_def
      split: option.splits)

lemma outbox_stop_ok:
  assumes "ends_quietly (cancelled_end E)" "stoppable w" "producer_stop_raises E = None"
  obtains w' where "outbox_stop E w = (Inr (), w')" "stopped w'"
proof -
  obtain w' where w': "polling_stop E w = (Inr (), w')" "\<not> wk_running w'" "wk_task w' \<noteq> Some Active"
    using assms(1,2) by (rule polling_stop_ok)
  then show thesis
    using that assms(3) by (cases "wk_producer w' = None") (auto simp: outbox_stop_def stopped_def process_simps)
qed

text \<open>However the start of the outbox worker ends, the worker can be stopped.\<close>

lemma outbox_start_run:
  "outbox_start E new_worker =
     (case producer_start_raises E of
        Some x \<Rightarrow> (Inl x, \<lparr>wk_running = False, wk_task = None, wk_producer = Some False\<rparr>)
      | None \<Rightarrow> (Inr (), \<lparr>wk_running = True, wk_task = Some Active, wk_producer = Some True\<rparr>))"
  by (simp add: outbox_start_def process_simps new_worker_def split: option.splits)

lemma polling_start_run:
  "polling_start new_worker = (Inr (), \<lparr>wk_running = True, wk_task = Some Active, wk_producer = None\<rparr>)"
  by (simp add: polling_start_def process_simps new_worker_def)

text \<open>A guarded call returns, unless it is cancelled.\<close>

lemma logged_call:
  "r \<noteq> Some CancelledError \<Longrightarrow> logged (callE r f) p = (Inr (), if r = None then f p else p)"
  by (cases r) (auto simp: process_simps split: raised.splits)

lemma init_db_run:
  "r \<noteq> Some CancelledError \<Longrightarrow> init_db r f p = (Inr (), if r = None then f p else p)"
  unfolding init_db_def by (rule logged_call)

lemma logged_outbox_start:
  assumes "producer_start_raises E \<noteq> Some CancelledError" "get p = new_worker"
  shows "logged (focus get upd (outbox_start E)) p = (Inr (), upd (\<lambda>_. snd (outbox_start E new_worker)) p)"
  using assms by (auto simp: process_simps outbox_start_run split: raised.splits option.splits)

lemma logged_polling_start:
  "get p = new_worker \<Longrightarrow> logged (focus get upd polling_start) p = (Inr (), upd (\<lambda>_. snd (polling_start new_worker)) p)"
  by (simp add: process_simps polling_start_run)

lemma started_stoppable [simp]:
  "stoppable (snd (outbox_start E new_worker))" "stoppable (snd (polling_start new_worker))"
  by (simp_all add: outbox_start_run polling_start_run stoppable_def split: option.splits)

lemma started_producer [simp]: "wk_producer (snd (polling_start new_worker)) = None"
  by (simp add: polling_start_run)

lemma logged_listener_start:
  "logged (focus get upd listener_start) p = (Inr (), upd (\<lambda>_. Some Active) p)"
  by (simp add: process_simps listener_start_def)

lemmas start_simps = logged_call init_db_run logged_outbox_start logged_polling_start logged_listener_start

text \<open>Stopping one part of a process.\<close>

lemma focus_outbox_stop:
  assumes "ends_quietly (cancelled_end E)" "stoppable (get p)" "producer_stop_raises E = None"
  obtains w where "focus get upd (outbox_stop E) p = (Inr (), upd (\<lambda>_. w) p)" "stopped w"
proof -
  obtain w where "outbox_stop E (get p) = (Inr (), w)" "stopped w" using assms by (rule outbox_stop_ok)
  then show thesis using that [of w] by (simp add: focus_def)
qed

lemma focus_polling_stop:
  assumes "ends_quietly (cancelled_end E)" "stoppable (get p)" "wk_producer (get p) = None"
  obtains w where "focus get upd (polling_stop E) p = (Inr (), upd (\<lambda>_. w) p)" "stopped w"
proof -
  obtain w' where "polling_stop E (get p) = (Inr (), w')" "\<not> wk_running w'" "wk_task w' \<noteq> Some Active" "wk_producer w' = wk_producer (get p)"
    using assms(1,2) by (rule polling_stop_ok)
  then show thesis using that [of w'] assms(3) by (simp add: focus_def stopped_def)
qed

section \<open>The finance service comes down\<close>

text \<open>\<open>fp_outbox\<close> after the start: running if the producer started, else never running.\<close>

lemma finance_started:
  assumes "fe_init E \<noteq> Some CancelledError" "producer_start_raises (fe_outbox E) \<noteq> Some CancelledError"
  obtains p where "finance_start E finance_idle = (Inr (), p)" "fp_cleanup p = snd (polling_start new_worker)"
    "fp_outbox p = snd (outbox_start (fe_outbox E) new_worker)"
  using assms that
  by (simp add: finance_start_def bindE_def start_simps modifyE_def finance_idle_def)

lemma finance_comes_down:
  assumes "fe_init E \<noteq> Some CancelledError" "producer_start_raises (fe_outbox E) \<noteq> Some CancelledError"
    "fe_wait E = None" "fe_grpc_stop E = None" "producer_stop_raises (fe_outbox E) = None"
    "ends_quietly (cancelled_end (fe_outbox E))" "ends_quietly (cancelled_end (fe_cleanup E))"
    "ends_quietly (fe_identity E)" "ends_quietly (fe_booking E)"
  obtains p where "finance_main E finance_idle = (Inr (), p)" "stopped (fp_outbox p)" "stopped (fp_cleanup p)"
    "fp_identity p = Some (Ended (fe_identity E))" "fp_booking p = Some (Ended (fe_booking E))"
    "fp_grpc p = Closed" "fp_http p \<in> {Closed, TaskCancelled}"
proof -
  obtain p where p: "finance_start E finance_idle = (Inr (), p)" "fp_cleanup p = snd (polling_start new_worker)"
      "fp_outbox p = snd (outbox_start (fe_outbox E) new_worker)"
    using assms(1,2) by (rule finance_started)
  let ?q = "p\<lparr>fp_grpc := Closed, fp_http := (if fe_in_time E then Closed else TaskCancelled),
    fp_identity := Some (Ended (fe_identity E)), fp_booking := Some (Ended (fe_booking E))\<rparr>"
  obtain w where w: "focus fp_outbox fp_outbox_update (outbox_stop (fe_outbox E)) ?q = (Inr (), ?q\<lparr>fp_outbox := w\<rparr>)" "stopped w"
    by (rule focus_outbox_stop [OF assms(6) _ assms(5), of fp_outbox ?q fp_outbox_update]) (simp_all add: p(3))
  obtain v where v: "focus fp_cleanup fp_cleanup_update (polling_stop (fe_cleanup E)) (?q\<lparr>fp_outbox := w\<rparr>) =
      (Inr (), ?q\<lparr>fp_outbox := w, fp_cleanup := v\<rparr>)" "stopped v"
    by (rule focus_polling_stop [OF assms(7), of fp_cleanup "?q\<lparr>fp_outbox := w\<rparr>" fp_cleanup_update]) (simp_all add: p(2))
  have "finance_main E finance_idle = (Inr (), ?q\<lparr>fp_outbox := w, fp_cleanup := v\<rparr>)"
    using p(1) w(1) v(1) assms(3,4,8,9)
    by (auto simp: finance_main_def finance_stop_def bindE_def callE_def modifyE_def cancelledE_def tryE_def ret_def
        ends_quietly_def)
  then show thesis using w(2) v(2) that by simp
qed

text \<open>A listener task that ended by an exception raises it at the point where \<open>main\<close> awaits it.\<close>

lemma finance_stuck:
  assumes "fe_init E \<noteq> Some CancelledError" "producer_start_raises (fe_outbox E) = None"
    "fe_wait E = None" "fe_grpc_stop E = None" "fe_identity E = Inl (Exc e)"
  obtains p where "finance_main E finance_idle = (Inl (Exc e), p)" "wk_running (fp_outbox p)" "wk_task (fp_outbox p) = Some Active"
    "wk_producer (fp_outbox p) = Some True" "wk_running (fp_cleanup p)" "fp_booking p = Some Active"
proof -
  have "producer_start_raises (fe_outbox E) \<noteq> Some CancelledError" using assms(2) by simp
  with assms(1) show thesis
    using that assms(2-5)
    by (simp add: finance_main_def finance_start_def finance_stop_def bindE_def start_simps callE_def modifyE_def
        cancelledE_def tryE_def raise_def finance_idle_def outbox_start_run polling_start_run)
qed

section \<open>The dispute service comes down\<close>

text \<open>The servers leave the workers alone, and whatever they raise does not depend on them.\<close>

definition servers_raise :: "'e dispute_env \<Rightarrow> 'e raised option" where
  "servers_raise E =
     (case de_grpc_start E of Some x \<Rightarrow> Some x | None \<Rightarrow>
     (case de_wait E of Some x \<Rightarrow> Some x | None \<Rightarrow>
     (case de_grpc_stop E of Some x \<Rightarrow> Some x | None \<Rightarrow> de_http_end E)))"

lemma dispute_servers_run:
  obtains g h where "dispute_servers E p =
    (case servers_raise E of Some x \<Rightarrow> Inl x | None \<Rightarrow> Inr (), p\<lparr>dp_grpc := g, dp_http := h\<rparr>)"
  by (rule that [where g = "dp_grpc (snd (dispute_servers E p))" and h = "dp_http (snd (dispute_servers E p))"])
    (simp add: dispute_servers_def servers_raise_def bindE_def modifyE_def callE_def split: option.splits)

lemma dispute_comes_down:
  assumes "de_init E \<noteq> Some CancelledError" "producer_start_raises (de_outbox E) \<noteq> Some CancelledError"
    "producer_stop_raises (de_outbox E) = None"
    "ends_quietly (cancelled_end (de_outbox E))" "ends_quietly (cancelled_end (de_saga E))" "ends_quietly (cancelled_end (de_cleanup E))"
  obtains p where "dispute_main E dispute_idle = (case servers_raise E of Some x \<Rightarrow> Inl x | None \<Rightarrow> Inr (), p)"
    "stopped (dp_outbox p)" "stopped (dp_saga p)" "stopped (dp_cleanup p)"
proof -
  let ?p = "dispute_idle\<lparr>dp_tables := (de_init E = None), dp_outbox := snd (outbox_start (de_outbox E) new_worker),
    dp_saga := snd (polling_start new_worker), dp_cleanup := snd (polling_start new_worker)\<rparr>"
  obtain g h where s: "dispute_servers E ?p =
      (case servers_raise E of Some x \<Rightarrow> Inl x | None \<Rightarrow> Inr (), ?p\<lparr>dp_grpc := g, dp_http := h\<rparr>)"
    by (rule dispute_servers_run)
  let ?q = "?p\<lparr>dp_grpc := g, dp_http := h\<rparr>"
  obtain w where w: "focus dp_outbox dp_outbox_update (outbox_stop (de_outbox E)) ?q = (Inr (), ?q\<lparr>dp_outbox := w\<rparr>)" "stopped w"
    by (rule focus_outbox_stop [OF assms(4) _ assms(3), of dp_outbox ?q dp_outbox_update]) simp_all
  obtain v where v: "focus dp_saga dp_saga_update (polling_stop (de_saga E)) (?q\<lparr>dp_outbox := w\<rparr>) =
      (Inr (), ?q\<lparr>dp_outbox := w, dp_saga := v\<rparr>)" "stopped v"
    by (rule focus_polling_stop [OF assms(5), of dp_saga "?q\<lparr>dp_outbox := w\<rparr>" dp_saga_update]) simp_all
  obtain u where u: "focus dp_cleanup dp_cleanup_update (polling_stop (de_cleanup E)) (?q\<lparr>dp_outbox := w, dp_saga := v\<rparr>) =
      (Inr (), ?q\<lparr>dp_outbox := w, dp_saga := v, dp_cleanup := u\<rparr>)" "stopped u"
    by (rule focus_polling_stop [OF assms(6), of dp_cleanup "?q\<lparr>dp_outbox := w, dp_saga := v\<rparr>" dp_cleanup_update]) simp_all
  have "dispute_main E dispute_idle = (case servers_raise E of Some x \<Rightarrow> Inl x | None \<Rightarrow> Inr (),
      ?q\<lparr>dp_outbox := w, dp_saga := v, dp_cleanup := u\<rparr>)"
    using assms(1,2) s w(1) v(1) u(1)
    by (auto simp: dispute_main_def saga_start_def saga_stop_def bindE_def start_simps dispute_idle_def finallyE_def)
  then show thesis using w(2) v(2) u(2) that by (simp add: dispute_idle_def)
qed

text \<open>The workers are stopped one after the other, without a guard: an error of the first leaves the others running.\<close>

lemma dispute_workers_left:
  assumes "de_init E \<noteq> Some CancelledError" "producer_start_raises (de_outbox E) = None"
    "producer_stop_raises (de_outbox E) = Some x" "ends_quietly (cancelled_end (de_outbox E))"
  obtains p where "dispute_main E dispute_idle = (Inl x, p)" "wk_running (dp_saga p)" "wk_running (dp_cleanup p)"
proof -
  let ?p = "dispute_idle\<lparr>dp_tables := (de_init E = None), dp_outbox := snd (outbox_start (de_outbox E) new_worker),
    dp_saga := snd (polling_start new_worker), dp_cleanup := snd (polling_start new_worker)\<rparr>"
  obtain g h where s: "dispute_servers E ?p =
      (case servers_raise E of Some x \<Rightarrow> Inl x | None \<Rightarrow> Inr (), ?p\<lparr>dp_grpc := g, dp_http := h\<rparr>)"
    by (rule dispute_servers_run)
  let ?q = "?p\<lparr>dp_grpc := g, dp_http := h\<rparr>"
  obtain w where w: "polling_stop (de_outbox E) (dp_outbox ?q) = (Inr (), w)" "wk_producer w = wk_producer (dp_outbox ?q)"
    by (rule polling_stop_ok [OF assms(4), of "dp_outbox ?q"]) simp_all
  have "focus dp_outbox dp_outbox_update (outbox_stop (de_outbox E)) ?q = (Inl x, ?q\<lparr>dp_outbox := w\<rparr>)"
    using w assms(2,3) by (simp add: focus_def outbox_stop_def bindE_def callE_def outbox_start_run)
  then have "dispute_main E dispute_idle = (Inl x, ?q\<lparr>dp_outbox := w\<rparr>)"
    using assms(1,2) s by (auto simp: dispute_main_def saga_start_def saga_stop_def bindE_def start_simps dispute_idle_def finallyE_def)
  then show thesis by (rule that) (simp_all add: polling_start_run)
qed

section \<open>The profile service comes down\<close>

lemma logged_listener_stop:
  assumes "get p = Some Active"
  obtains t where "logged (focus get upd (listener_stop r)) p = (Inr (), upd (\<lambda>_. t) p)" "t \<noteq> Some Active"
proof (cases r)
  case (Inl x)
  then show thesis
    using assms that by (cases x) (auto simp: process_simps listener_stop_def task_result_def)
next
  case (Inr u)
  then show thesis
    using assms that by (auto simp: process_simps listener_stop_def task_result_def)
qed

text \<open>A stop under its own guard: the worker is down even if the producer cannot be closed.\<close>

lemma logged_outbox_stop:
  assumes "ends_quietly (cancelled_end E)" "stoppable (get p)" "producer_stop_raises E \<noteq> Some CancelledError"
  obtains w where "logged (focus get upd (outbox_stop E)) p = (Inr (), upd (\<lambda>_. w) p)" "\<not> wk_running w" "wk_task w \<noteq> Some Active"
    "producer_stop_raises E = None \<Longrightarrow> stopped w"
proof -
  obtain w' where w': "polling_stop E (get p) = (Inr (), w')" "\<not> wk_running w'" "wk_task w' \<noteq> Some Active"
    using assms(1,2) by (rule polling_stop_ok)
  show thesis
  proof (cases "producer_stop_raises E")
    case None
    with w' show thesis
      by (intro that [of "if wk_producer w' = None then w' else w'\<lparr>wk_producer := Some False\<rparr>"])
        (auto simp: outbox_stop_def stopped_def process_simps)
  next
    case (Some x)
    with assms(3) obtain e where "x = Exc e" by (cases x) auto
    with Some w' show thesis by (intro that [of w']) (auto simp: outbox_stop_def process_simps)
  qed
qed

lemma profile_comes_down:
  assumes "pe_init E \<noteq> Some CancelledError" "producer_start_raises (pe_outbox E) \<noteq> Some CancelledError"
    "pe_grpc_start E = None" "\<And>e. pe_wait E \<noteq> Some (Exc e)" "pe_http_end E \<noteq> Some CancelledError" "pe_grpc_stop E = None"
    "pe_grpc_end E \<noteq> Some CancelledError" "producer_stop_raises (pe_outbox E) \<noteq> Some CancelledError"
    "ends_quietly (cancelled_end (pe_outbox E))" "ends_quietly (cancelled_end (pe_cleanup E))"
  obtains p where "profile_main E profile_idle = (Inr (), p)" "\<not> wk_running (pp_outbox p)" "wk_task (pp_outbox p) \<noteq> Some Active"
    "producer_stop_raises (pe_outbox E) = None \<Longrightarrow> stopped (pp_outbox p)" "stopped (pp_cleanup p)" "pp_listener p \<noteq> Some Active"
proof -
  define p where "p = profile_idle\<lparr>pp_tables := (pe_init E = None), pp_outbox := snd (outbox_start (pe_outbox E) new_worker),
    pp_cleanup := snd (polling_start new_worker), pp_listener := Some Active, pp_grpc := Serving, pp_http := Serving\<rparr>"
  have start: "profile_start E profile_idle = (Inr (), p)"
    using assms(1-3)
    by (simp add: profile_start_def bindE_def start_simps profile_idle_def p_def modifyE_def callE_def)
  have wait: "cancelledE (callE (pe_wait E) (\<lambda>p. p)) (ret ()) p = (Inr (), p)"
  proof (cases "pe_wait E")
    case (Some x)
    with assms(4) have "x = CancelledError" by (cases x) auto
    with Some show ?thesis by (simp add: process_simps)
  qed (simp add: process_simps)
  define q where "q = p\<lparr>pp_http := (if pe_http_done E \<or> pe_http_end E = None then Closed else Exiting), pp_grpc := Closed\<rparr>"
  have servers: "profile_stop E p =
      bindE (logged (focus pp_outbox pp_outbox_update (outbox_stop (pe_outbox E)))) (\<lambda>_.
      bindE (logged (focus pp_listener pp_listener_update (listener_stop (pe_listener E)))) (\<lambda>_.
      logged (focus pp_cleanup pp_cleanup_update (polling_stop (pe_cleanup E))))) q"
    using assms(5-7) by (cases "pe_http_done E")
      (auto simp: profile_stop_def q_def bindE_def modifyE_def logged_call callE_def)
  have parts: "stoppable (pp_outbox q)" "pp_listener q = Some Active" "pp_cleanup q = snd (polling_start new_worker)"
    by (simp_all add: q_def p_def profile_idle_def)
  obtain w where w: "logged (focus pp_outbox pp_outbox_update (outbox_stop (pe_outbox E))) q = (Inr (), q\<lparr>pp_outbox := w\<rparr>)"
      "\<not> wk_running w" "wk_task w \<noteq> Some Active" "producer_stop_raises (pe_outbox E) = None \<Longrightarrow> stopped w"
    by (rule logged_outbox_stop [of "pe_outbox E" pp_outbox q pp_outbox_update, OF assms(9) parts(1) assms(8)]) simp_all
  obtain t where t: "logged (focus pp_listener pp_listener_update (listener_stop (pe_listener E))) (q\<lparr>pp_outbox := w\<rparr>) =
      (Inr (), q\<lparr>pp_outbox := w, pp_listener := t\<rparr>)" "t \<noteq> Some Active"
    by (rule logged_listener_stop [of pp_listener "q\<lparr>pp_outbox := w\<rparr>" pp_listener_update "pe_listener E"]) (simp_all add: parts)
  obtain u where u: "focus pp_cleanup pp_cleanup_update (polling_stop (pe_cleanup E)) (q\<lparr>pp_outbox := w, pp_listener := t\<rparr>) =
      (Inr (), q\<lparr>pp_outbox := w, pp_listener := t, pp_cleanup := u\<rparr>)" "stopped u"
    by (rule focus_polling_stop [OF assms(10), of pp_cleanup "q\<lparr>pp_outbox := w, pp_listener := t\<rparr>" pp_cleanup_update])
      (simp_all add: parts)
  have "profile_main E profile_idle = (Inr (), q\<lparr>pp_outbox := w, pp_listener := t, pp_cleanup := u\<rparr>)"
    using w(1) t(1) u(1)
    by (simp add: profile_main_def bindE_def [of "profile_start E"] start finallyE_def wait servers)
      (simp add: bindE_def logged_def exceptE_def tryE_def)
  then show thesis by (rule that) (use w(2-4) t(2) u(2) in simp_all)
qed

text \<open>
  The start of the gRPC server stands before the \<open>try\<close>: when it raises, nothing that was started is stopped.
\<close>

lemma profile_workers_left:
  assumes "pe_init E \<noteq> Some CancelledError" "producer_start_raises (pe_outbox E) = None" "pe_grpc_start E = Some x"
  obtains p where "profile_main E profile_idle = (Inl x, p)" "wk_running (pp_outbox p)" "wk_producer (pp_outbox p) = Some True"
    "wk_running (pp_cleanup p)" "pp_listener p = Some Active"
  using assms that
  by (simp add: profile_main_def profile_start_def bindE_def start_simps profile_idle_def modifyE_def callE_def
      outbox_start_run polling_start_run)

end
