(* ===== verification/Topup_Properties.thy ===== *)
theory Topup_Properties
  imports Finance_Examples Service_Process
begin

text \<open>
  Properties of the top-up (signed payment URL, payment callback), of the transaction history, of the
  outbox worker and of the error mapping of the finance service.
\<close>

section \<open>The payment callback\<close>

text \<open>
  C24: a callback that is confirmed (\<open>00\<close>) carried a valid signature, named a pending transaction and
  the amount of that transaction in hundredths of a dong; the user is credited exactly the coins of the
  transaction when the gateway reports success, and nothing otherwise.
\<close>

theorem ipn_credit_justified:
  assumes "fin_session S view com" "db_ok (view s)" "fresh_ids S view (view s)"
    "process_vnpay_ipn S A ps s = (Inr (''00'', msg), s')"
  shows "\<exists>i r. validate_ipn_signature A ps \<and> map_of ps ''vnp_TxnRef'' = Some i \<and> transactions (view s) i = Some r \<and>
    tm_status r = ''PENDING'' \<and> paid_cents ps = Inr (RATE_COIN_TO_VND * tm_amount r * 100) \<and>
    ledger_of (view s') = (if map_of ps ''vnp_ResponseCode'' = Some ''00''
      then lg_credit (tm_user_id r) (tm_amount r) (ledger_of (view s)) else ledger_of (view s))"
  using assms by (rule fin_session.ipn_credit)

theorem ipn_credit_justified_witness:
  "\<exists>i r. validate_ipn_signature ex_adapter ex_ipn \<and> map_of ex_ipn ''vnp_TxnRef'' = Some i \<and>
    transactions (fin_view ex_state) i = Some r \<and> tm_status r = ''PENDING'' \<and>
    paid_cents ex_ipn = Inr (RATE_COIN_TO_VND * tm_amount r * 100) \<and>
    ledger_of (fin_view (snd (process_vnpay_ipn mem_fin ex_adapter ex_ipn ex_state))) =
      (if map_of ex_ipn ''vnp_ResponseCode'' = Some ''00''
       then lg_credit (tm_user_id r) (tm_amount r) (ledger_of (fin_view ex_state)) else ledger_of (fin_view ex_state))"
  by (rule ipn_credit_justified [OF mem_fin_session ex_ok(3,4) run_of [OF ex_ipn_runs]])

text \<open>
  C23: a transaction is settled at most once: after a confirmed callback was committed, whatever gRPC calls, REST
  calls, Kafka messages and payment callbacks that do not raise are served in between, a later callback for the
  same transaction that returns leaves the database as it is and answers another code than \<open>00\<close>, however it is
  signed.
\<close>

theorem ipn_idempotent:
  assumes "fin_session S view com" "db_ok (view s)" "process_vnpay_ipn S A ps s = (Inr (''00'', msg), s')"
    "com s1 = view s'" "later S view com A s1 s2" "view t = com s2"
    "process_vnpay_ipn S A ps' t = (Inr (code, msg'), t')" "map_of ps' ''vnp_TxnRef'' = map_of ps ''vnp_TxnRef''"
  shows "view t' = view t \<and> code \<noteq> ''00''"
proof (rule fin_session.settled_not_pending [OF assms(1,3,2)])
  fix i r assume i: "map_of ps ''vnp_TxnRef'' = Some i" and r: "transactions (view s') i = Some r" "tm_status r \<noteq> ''PENDING''"
  have ok1: "db_ok (com s1)" using fin_session.process_vnpay_ipn_db_ok [OF assms(1,3,2)] assms(4) by simp
  with fin_session.reachable_db_ok [OF assms(1) later_reachable [OF assms(5)]] assms(6) have ok: "db_ok (view t)" by simp
  from fin_session.later_settled_kept [OF assms(1,5) ok1] r assms(4,6) obtain r' where
    "transactions (view t) i = Some r'" "tm_status r' \<noteq> ''PENDING''" by (auto simp: settled_kept_def)
  then show ?thesis using fin_session.not_pending_not_credited [OF assms(1,7) ok] i assms(8) by simp
qed

theorem ipn_idempotent_witness:
  "let s1 = snd (commit mem_fin (snd (process_vnpay_ipn mem_fin ex_adapter ex_ipn ex_state)));
       s2 = serve mem_fin ex_adapter (ReqBookingEvent JNull)
         (serve mem_fin ex_adapter (ReqFreezeCoin ''carol'' 0 ''b4'' (Some 2)) s1);
       t = snd (open_session mem_fin s2)
   in fin_view (snd (process_vnpay_ipn mem_fin ex_adapter ex_ipn t)) = fin_view t \<and> ''02'' \<noteq> ''00''"
proof -
  let ?s1 = "snd (commit mem_fin (snd (process_vnpay_ipn mem_fin ex_adapter ex_ipn ex_state)))"
  let ?s2 = "serve mem_fin ex_adapter (ReqFreezeCoin ''carol'' 0 ''b4'' (Some 2)) ?s1"
  let ?s3 = "serve mem_fin ex_adapter (ReqBookingEvent JNull) ?s2"
  have "rows_used (m_com ?s1) < 49" "rows_used (m_com ?s2) < 49" by code_simp+
  then have "later mem_fin fin_view fin_com ex_adapter ?s1 ?s3" by (intro later_request later_start mem_ids_new)
  note settled = ipn_idempotent [OF mem_fin_session ex_ok(3) run_of [OF ex_ipn_runs] mem_between(1) this mem_between(2)]
  have "fst (process_vnpay_ipn mem_fin ex_adapter ex_ipn (snd (open_session mem_fin ?s3))) =
      Inr (''02'', ''Order already confirmed'')" by code_simp
  from settled [OF run_of [OF this] refl] show ?thesis unfolding Let_def .
qed

text \<open>
  C25: a correctly signed callback that reports success for a pending transaction with the right amount is
  confirmed when the database is up and the new balance fits its column, and credits the user exactly the
  coins of the transaction.
\<close>

theorem ipn_confirms_payment:
  assumes "fin_session_live S view com" "db_ok (view s)" "fresh_ids S view (view s)"
    "validate_ipn_signature A ps" "map_of ps ''vnp_TxnRef'' = Some i" "i \<noteq> []"
    "map_of ps ''vnp_Amount'' = Some a" "map_of ps ''vnp_ResponseCode'' = Some ''00''"
    "transactions (view s) i = Some r" "tm_status r = ''PENDING''"
    "py_int a = Inr (RATE_COIN_TO_VND * tm_amount r * 100)"
    "int32 (lg_avail (ledger_of (view s)) (tm_user_id r) + tm_amount r)"
  shows "\<exists>s'. process_vnpay_ipn S A ps s = (Inr (''00'', ''Confirm success''), s') \<and> db_ok (view s') \<and>
    com s' = com s \<and> ledger_of (view s') = lg_credit (tm_user_id r) (tm_amount r) (ledger_of (view s))"
  using assms by (rule fin_session_live.ipn_total)

theorem ipn_confirms_payment_witness:
  "\<exists>s'. process_vnpay_ipn mem_fin ex_adapter ex_ipn ex_state = (Inr (''00'', ''Confirm success''), s') \<and>
    db_ok (fin_view s') \<and> fin_com s' = fin_com ex_state \<and>
    ledger_of (fin_view s') = lg_credit (tm_user_id ex_topup) (tm_amount ex_topup) (ledger_of (fin_view ex_state))"
proof (rule ipn_confirms_payment [OF mem_fin_live ex_ok(3,4) _ _ _ _ _ ex_rows(4)])
  show "validate_ipn_signature ex_adapter ex_ipn" by code_simp
  show "py_int ''700000'' = Inr (RATE_COIN_TO_VND * tm_amount ex_topup * 100)" by code_simp
qed (simp_all add: ex_ipn_def ex_row_defs ex_balances int32_def)

section \<open>Signatures\<close>

text \<open>
  C26: round trip of the signature: the parameters of a payment URL, returned with the hash the URL
  carries, in any order and with a hash in any letter case, pass the signature check of the callback.
\<close>

theorem payment_signature_roundtrip:
  assumes "mset ps = mset ((''vnp_SecureHash'', h) # payment_params A ref amt ip date)" "h \<noteq> []"
    "py_lower h = py_lower (sign A (urlencode (sort (payment_params A ref amt ip date))))"
  shows "validate_ipn_signature A ps"
proof -
  let ?P = "payment_params A ref amt ip date"
  have keys: "distinct (map fst ((''vnp_SecureHash'', h) # ?P))" "clean_params ((''vnp_SecureHash'', h) # ?P) = ?P"
    by (simp_all add: payment_params_def clean_params_def)
  have "map_of ps ''vnp_SecureHash'' = Some h"
    using map_of_perm [OF assms(1) [symmetric] keys(1), of "''vnp_SecureHash''"] by simp
  moreover have "sort (clean_params ps) = sort ?P"
    using sort_perm [OF clean_params_mset [OF assms(1)]] keys(2) by simp
  ultimately show ?thesis using assms(2,3) by (simp add: validate_ipn_signature_def)
qed

theorem payment_signature_roundtrip_witness:
  "validate_ipn_signature ex_adapter
     ((''vnp_SecureHash'', sign ex_adapter (urlencode (sort (payment_params ex_adapter ''t2'' 7000 ''::1'' ''20240101'')))) #
      payment_params ex_adapter ''t2'' 7000 ''::1'' ''20240101'')"
  by (rule payment_signature_roundtrip [of _ _ ex_adapter "''t2''" 7000 "''::1''" "''20240101''"])
    (simp_all add: sign_def ex_adapter_def)

text \<open>
  The amount check accepts the URL's own amount: for every number of coins, the decimal string
  \<open>vnp_Amount\<close> of the payment URL reads back as the amount the callback expects.
\<close>

theorem topup_amount_roundtrip:
  "map_option py_int (map_of (payment_params A ref (RATE_COIN_TO_VND * n) ip date) ''vnp_Amount'') =
     Some (Inr (RATE_COIN_TO_VND * n * 100))"
  by (simp add: payment_params_def py_int_show)

section \<open>The transaction history\<close>

text \<open>
  A page of the history has at most 100 entries (at most \<open>page_size\<close> when that is between 1 and 100),
  all of them transactions of the user, newest first, and the total counts all transactions of the user.
\<close>

theorem history_page:
  assumes "fin_session S view com" "get_transaction_history S u page page_size s = (Inr (txns, tot), s')" "db_ok (view s)"
  shows "int (length txns) \<le> (if page_size < 1 then 10 else min page_size 100) \<and>
    (\<forall>t\<in>set txns. t_user_id t = u \<and> transactions (view s) (t_transaction_id t) \<noteq> None) \<and>
    sorted_wrt (\<lambda>a b. the (t_created_at b) \<le> the (t_created_at a)) txns \<and>
    tot = card {k. \<exists>r. transactions (view s) k = Some r \<and> tm_user_id r = u}"
  using assms by (rule fin_session.history_runs)

theorem history_page_witness:
  "\<exists>txns tot. fst (get_transaction_history mem_fin ''bob'' 1 1000 ex_state) = Inr (txns, tot) \<and>
    int (length txns) \<le> (if (1000::int) < 1 then 10 else min 1000 100) \<and>
    (\<forall>t\<in>set txns. t_user_id t = ''bob'' \<and> transactions (fin_view ex_state) (t_transaction_id t) \<noteq> None) \<and>
    sorted_wrt (\<lambda>a b. the (t_created_at b) \<le> the (t_created_at a)) txns \<and>
    tot = card {k. \<exists>r. transactions (fin_view ex_state) k = Some r \<and> tm_user_id r = ''bob''}"
proof -
  have run: "fst (get_transaction_history mem_fin ''bob'' 1 1000 ex_state) = Inr ([txn_of ex_topup], 1)" by code_simp
  from history_page [OF mem_fin_session run_of [OF this] ex_ok(3)] run show ?thesis by blast
qed

section \<open>The outbox\<close>

text \<open>
  C27: at-least-once delivery: once the worker has been started, which gives it a producer before its loop runs, and
  whatever the database or the broker do in any number of turns, the loop never loses a row, changes a row in
  nothing but its \<open>processed\<close> flag, and sets that flag only on a row whose message reached the broker.  (A batch
  of a worker without a producer, which no started worker runs, marks its rows and sends nothing.)
\<close>

theorem outbox_at_least_once:
  assumes "outbox_session W view com sent" "outbox_start E new_worker = (Inr (), wk)"
    "producer W = None \<longleftrightarrow> wk_producer wk = None" "outbox_poll_loop W (finance_event C) n k w s = (r, s')" "com s i = Some row"
  shows "\<exists>row'. com s' i = Some row' \<and> row' \<in> {row, row\<lparr>ob_processed := True\<rparr>} \<and>
    (row' \<noteq> row \<longrightarrow> (\<exists>m. finance_message C row = Inr m \<and> m \<in> set (sent s')))"
proof -
  have "producer W \<noteq> None" using assms(2,3) by (auto simp: outbox_start_run split: option.splits)
  moreover have "s' = ((\<lambda>s. snd (process_batch W (finance_event C) n s)) ^^ Suc k) s"
    using assms(4) by (simp add: outbox_poll_loop_def poll_loop_run)
  ultimately show ?thesis
    using outbox_session.at_least_once_turns [OF assms(1,5),
      where s' = s' and mk = "finance_event C" and n = n and k = "Suc k"]
    unfolding finance_message_def by blast
qed

theorem outbox_at_least_once_witness:
  "\<exists>row'. ob_rows (mo_com (snd (outbox_poll_loop mem_ob (finance_event ex_codec) 5 2 SleepCancelled ex_ob))) 1 = Some row' \<and>
    row' \<in> {ex_row, ex_row\<lparr>ob_processed := True\<rparr>} \<and>
    (row' \<noteq> ex_row \<longrightarrow> (\<exists>m. finance_message ex_codec ex_row = Inr m \<and>
       m \<in> set (mo_sent (snd (outbox_poll_loop mem_ob (finance_event ex_codec) 5 2 SleepCancelled ex_ob)))))"
proof (rule outbox_at_least_once [OF ob.outbox_session_axioms _ _ run_of [OF refl] ex_ob_row])
  let ?E = "\<lparr>producer_start_raises = None, producer_stop_raises = None, cancelled_end = Inr ()\<rparr> :: exn worker_env"
  show "outbox_start ?E new_worker = (Inr (), snd (outbox_start ?E new_worker))" by (simp add: outbox_start_run)
  show "producer mem_ob = None \<longleftrightarrow> wk_producer (snd (outbox_start ?E new_worker)) = None"
    by (simp add: outbox_start_run mem_ob_def)
qed

text \<open>
  When the database and the broker are up and every unprocessed row decodes, a batch returns: it sends
  the oldest \<open>n\<close> unprocessed rows in the order of their creation and marks exactly those.
\<close>

theorem outbox_batch_delivers:
  assumes "outbox_session_live W view com sent"
    "\<And>r. r \<in> ran (com s) \<Longrightarrow> \<not> ob_processed r \<Longrightarrow> \<exists>m. finance_message C r = Inr m"
  shows "\<exists>all s'. finance_process_batch W C n s = (Inr (), s') \<and> set all = {r \<in> ran (com s). \<not> ob_processed r} \<and>
    sorted_wrt (\<lambda>a b. the (ob_created_at a) \<le> the (ob_created_at b)) all \<and> distinct (map ob_id all) \<and>
    sent s' = sent s @ map (\<lambda>e. projr (finance_message C e)) (take n all) \<and> com s' = fold mark_row (take n all) (com s)"
  unfolding finance_process_batch_def finance_message_def
  by (rule outbox_session_live.process_batch_live [OF assms(1), of s "finance_event C" n])
    (use assms(2) [unfolded finance_message_def] in blast)+

theorem outbox_batch_delivers_witness:
  "\<exists>all s'. finance_process_batch mem_ob ex_codec 5 ex_ob = (Inr (), s') \<and>
    set all = {r \<in> ran (ob_rows (mo_com ex_ob)). \<not> ob_processed r} \<and>
    sorted_wrt (\<lambda>a b. the (ob_created_at a) \<le> the (ob_created_at b)) all \<and> distinct (map ob_id all) \<and>
    mo_sent s' = mo_sent ex_ob @ map (\<lambda>e. projr (finance_message ex_codec e)) (take 5 all) \<and>
    ob_rows (mo_com s') = fold mark_row (take 5 all) (ob_rows (mo_com ex_ob))"
  by (rule outbox_batch_delivers [OF ob.outbox_session_live_axioms]) (auto simp: ex_ob_ran ex_message)

text \<open>
  C28: with database and broker up, a worker that makes enough turns before it is stopped drains the outbox: when
  every unprocessed row decodes and the rows fit into the batches of its turns, the loop sends each of them exactly
  once, in the order of their creation, marks exactly those and leaves none unprocessed.
\<close>

theorem outbox_drains:
  assumes "outbox_session_live W view com sent" "finite (dom (com s))"
    "\<forall>r\<in>{r \<in> ran (com s). \<not> ob_processed r}. \<exists>m. finance_message C r = Inr m"
    "card {r \<in> ran (com s). \<not> ob_processed r} \<le> Suc k * n"
  shows "\<exists>all s'. outbox_poll_loop W (finance_event C) n k w s =
      ((if w = SleepCancelled then Inl CancelledError else Inr ()), s') \<and>
    set all = {r \<in> ran (com s). \<not> ob_processed r} \<and> distinct (map ob_id all) \<and>
    sorted_wrt (\<lambda>a b. the (ob_created_at a) \<le> the (ob_created_at b)) all \<and>
    sent s' = sent s @ map (\<lambda>e. projr (finance_message C e)) all \<and> com s' = fold mark_row all (com s) \<and>
    {r \<in> ran (com s'). \<not> ob_processed r} = {}"
proof -
  have "finite {r \<in> ran (com s). \<not> ob_processed r}" using finite_ran [OF assms(2)] by simp
  then show ?thesis
    using outbox_session_live.poll_loop_drains [OF assms(1), of s "finance_event C" k n w] assms(3,4)
    unfolding outbox_session_live.unsent_def [OF assms(1)] finance_message_def by blast
qed

theorem outbox_drains_witness:
  "\<exists>all s'. outbox_poll_loop mem_ob (finance_event ex_codec) 1 1 SleepCancelled ex_ob2 = (Inl CancelledError, s') \<and>
    set all = {ex_row, ex_row2} \<and> distinct (map ob_id all) \<and>
    mo_sent s' = map (\<lambda>e. projr (finance_message ex_codec e)) all \<and>
    {r \<in> ran (ob_rows (mo_com s')). \<not> ob_processed r} = {}"
proof -
  have "finite (dom (ob_rows (mo_com ex_ob2)))" "mo_sent ex_ob2 = []"
    by (simp add: ex_ob2_rows, simp add: ex_ob2_def)
  moreover have "card {ex_row, ex_row2} \<le> Suc 1 * 1" by (simp add: card_insert_if)
  ultimately show ?thesis
    using outbox_drains [OF ob.outbox_session_live_axioms, of ex_ob2 ex_codec 1 1 SleepCancelled] ex_message ex_message2
    unfolding ex_ob2_unsent by auto
qed

section \<open>The result page\<close>

lemma commas_removed: "CHR '','' \<notin> set ds \<Longrightarrow> filter (\<lambda>c. c \<noteq> CHR '','') (commas ds) = ds"
  by (induction ds rule: commas.induct) (auto simp: filter_id_conv)

lemma show_nat_no_comma: "CHR '','' \<notin> set (show_nat n)"
proof
  assume "CHR '','' \<in> set (show_nat n)"
  then obtain d :: nat where "d < 10" "CHR '','' = char_of (48 + d)" using show_nat_digits by blast
  then have "is_digit CHR '',''" using digit_char(1) by metis
  then show False by (simp add: is_digit_def)
qed

lemma format_thousands_value:
  assumes "\<bar>n\<bar> < 2 ^ 53"
  shows "\<exists>t. format_thousands n = Inr t \<and> filter (\<lambda>c. c \<noteq> CHR '','') t = show_int n"
proof -
  have "filter (\<lambda>c. c \<noteq> CHR '','') (rev (commas (rev (show_nat k)))) = show_nat k" for k
    using commas_removed [of "rev (show_nat k)"] show_nat_no_comma [of k] by (simp add: rev_filter [symmetric])
  with float_of_int_exact [OF assms] show ?thesis
    by (simp add: format_thousands_def show_int_def del: float_of_int.simps)
qed

text \<open>
  C29: the page shown after a payment reports success exactly when the parameters carry a valid signature and the
  response code 00, and the amount it shows, read without its commas, is the amount of the parameters in whole
  VND.  The icon looks at the response code alone: with a forged signature the page says FAILED under the icon of
  a success.
\<close>

theorem result_page_truthful:
  assumes "map_of ps ''vnp_Amount'' = Some a" "py_int a = Inr cents" "\<bar>cents div 100\<bar> < 2 ^ 53"
  shows "\<exists>pg. vnpay_return A ps = Inr pg \<and>
    (rp_message pg = PaymentDone \<longleftrightarrow> validate_ipn_signature A ps \<and> map_of ps ''vnp_ResponseCode'' = Some ''00'') \<and>
    (rp_status_text pg = ''SUCCESS'' \<longleftrightarrow> validate_ipn_signature A ps \<and> map_of ps ''vnp_ResponseCode'' = Some ''00'') \<and>
    (rp_icon pg = Sparkles \<longleftrightarrow> map_of ps ''vnp_ResponseCode'' = Some ''00'') \<and>
    py_int (filter (\<lambda>c. c \<noteq> CHR '','') (rp_amount pg)) = Inr (cents div 100)"
proof -
  obtain t where t: "format_thousands (cents div 100) = Inr t" "filter (\<lambda>c. c \<noteq> CHR '','') t = show_int (cents div 100)"
    using format_thousands_value [OF assms(3)] by blast
  have "py_int (filter (\<lambda>c. c \<noteq> CHR '','') t) = Inr (cents div 100)" unfolding t(2) by (rule py_int_show)
  with t(1) assms(1,2) show ?thesis by (auto simp: vnpay_return_def Let_def)
qed

theorem result_page_truthful_witness:
  "\<exists>pg. vnpay_return ex_adapter [(''vnp_Amount'', ''123456700''), (''vnp_ResponseCode'', ''00'')] = Inr pg \<and>
    rp_status_text pg \<noteq> ''SUCCESS'' \<and> rp_icon pg = Sparkles \<and>
    py_int (filter (\<lambda>c. c \<noteq> CHR '','') (rp_amount pg)) = Inr 1234567"
proof -
  have "py_int ''123456700'' = Inr 123456700" by code_simp
  moreover have "\<not> validate_ipn_signature ex_adapter [(''vnp_Amount'', ''123456700''), (''vnp_ResponseCode'', ''00'')]" by code_simp
  ultimately show ?thesis
    using result_page_truthful [of "[(''vnp_Amount'', ''123456700''), (''vnp_ResponseCode'', ''00'')]" "''123456700''" 123456700 ex_adapter]
    by auto
qed

section \<open>Errors\<close>

text \<open>
  The REST error body of a domain error: the errors that say a wallet or an escrow is missing are
  answered with status 404 and code 5, and the message is the text of the exception.
\<close>

theorem not_found_errors:
  assumes "e = WalletNotFoundError x \<or> e = EscrowNotFoundError x"
  shows "domain_error_handler e = \<lparr>er_status = 404, er_code = 5, er_message = exn_str e, er_details = []\<rparr>"
proof -
  have "lower_char CHR ''W'' = CHR ''w''" "lower_char CHR ''E'' = CHR ''e''" by code_simp+
  then have "py_lower (''Wallet not found for '' @ x @ ''.'') = ''wallet '' @ ''not found'' @ py_lower ('' for '' @ x @ ''.'')"
    "py_lower (''Escrow not found for booking '' @ x @ ''.'') = ''escrow '' @ ''not found'' @ py_lower ('' for booking '' @ x @ ''.'')"
    by (simp_all add: py_lower_def, simp_all add: lower_char_def)
  then obtain before after where "py_lower (exn_str e) = before @ ''not found'' @ after"
    using assms by (metis exn_str.simps(4,6))
  then have "sublist ''not found'' (py_lower (exn_str e))" by (simp only: sublist_appendI)
  then show ?thesis by (simp add: domain_error_handler_def domain_error_body_def map_http_status_to_grpc_code_def)
qed

theorem not_found_errors_witness:
  "domain_error_handler (EscrowNotFoundError ''b7'') =
     \<lparr>er_status = 404, er_code = 5, er_message = exn_str (EscrowNotFoundError ''b7''), er_details = []\<rparr>"
  by (rule not_found_errors [of _ "''b7''"]) simp

end
