(* ===== verification/Dispute_Domain.thy ===== *)
theory Dispute_Domain
  imports Prelude Py_Float
begin

text \<open>
  The domain layer of the dispute service: errors, events, the value objects \<open>DisputeReason\<close> and
  \<open>Resolution\<close>, the aggregate \<open>Dispute\<close> with its state machine, the two sagas (\<open>saga_state.py\<close>) and the
  routing service.  Aggregates are records that carry their pending events; a command returns the error
  it raises or the changed record.
\<close>

section \<open>Exceptions\<close>

text \<open>
  The domain errors; \<open>ValueErrorD\<close> is Python's \<open>ValueError\<close>, \<open>DBErrorD\<close> whatever the database driver
  raises, \<open>RpcErrorD\<close> a failed gRPC call, \<open>AttributeErrorD\<close> Python's \<open>AttributeError\<close>.
\<close>

datatype dexn =
    DisputeNotFoundError string
  | DuplicateOpenDisputeError string
  | DisputeAlreadyResolvedError string string
  | InvalidDisputeStatusTransitionError string string
  | InvalidDisputeReasonError string "string list"
  | InvalidResolutionError string "string list"
  | InvalidSagaTransitionError string string string
  | ValueErrorD string
  | DBErrorD string
  | RpcErrorD string
  | AttributeErrorD string

fun is_dispute_DomainError :: "dexn \<Rightarrow> bool" where
  "is_dispute_DomainError (ValueErrorD _) = False"
| "is_dispute_DomainError (DBErrorD _) = False"
| "is_dispute_DomainError (RpcErrorD _) = False"
| "is_dispute_DomainError (AttributeErrorD _) = False"
| "is_dispute_DomainError _ = True"

text \<open>
  \<open>str(e)\<close>.  Two messages print a Python set, whose order is not fixed: \<open>set_repr\<close> is that text.
\<close>

fun dexn_str :: "(string list \<Rightarrow> string) \<Rightarrow> dexn \<Rightarrow> string" where
  "dexn_str set_repr (DisputeNotFoundError dispute_id) = ''Dispute not found: '' @ dispute_id"
| "dexn_str set_repr (DuplicateOpenDisputeError booking_id) =
     ''[INV-D01] Booking '' @ booking_id @ '' already has an active dispute (OPEN or RESOLVING)''"
| "dexn_str set_repr (DisputeAlreadyResolvedError dispute_id current_status) =
     ''[INV-D02] Dispute '' @ dispute_id @ '' is already resolved with status: '' @ current_status @ ''. '' @
     ''Terminal states are immutable to prevent SAGA re-execution.''"
| "dexn_str set_repr (InvalidDisputeStatusTransitionError current target) =
     ''Invalid dispute status transition from '' @ current @ '' to '' @ target"
| "dexn_str set_repr (InvalidDisputeReasonError reason valid_reasons) =
     ''Invalid dispute reason: '' @ [CHR 0x27] @ reason @ [CHR 0x27] @ ''. Must be one of: '' @ set_repr valid_reasons"
| "dexn_str set_repr (InvalidResolutionError resolution valid_resolutions) =
     ''Invalid resolution: '' @ [CHR 0x27] @ resolution @ [CHR 0x27] @ ''. Must be one of: '' @ set_repr valid_resolutions"
| "dexn_str set_repr (InvalidSagaTransitionError saga_id current_state event) =
     ''Invalid saga transition for '' @ saga_id @ '': cannot process '' @ [CHR 0x27] @ event @ [CHR 0x27] @
     '' in state '' @ [CHR 0x27] @ current_state @ [CHR 0x27]"
| "dexn_str set_repr (ValueErrorD msg) = msg"
| "dexn_str set_repr (DBErrorD msg) = msg"
| "dexn_str set_repr (RpcErrorD msg) = msg"
| "dexn_str set_repr (AttributeErrorD msg) = msg"

section \<open>Events\<close>

datatype dispute_event =
    ReportCreated string string string string string
      \<comment> \<open>\<open>dispute_id\<close>, \<open>booking_id\<close>, \<open>reporter_id\<close>, \<open>accused_id\<close>, \<open>reason\<close>\<close>
  | DisputeAssigned string string
      \<comment> \<open>\<open>dispute_id\<close>, \<open>admin_id\<close>\<close>
  | DisputeResolvedRefund string string string string string
      \<comment> \<open>\<open>dispute_id\<close>, \<open>booking_id\<close>, \<open>admin_id\<close>, \<open>reporter_id\<close>, \<open>accused_id\<close>\<close>
  | DisputeResolvedPayout string string string string string
      \<comment> \<open>\<open>dispute_id\<close>, \<open>booking_id\<close>, \<open>admin_id\<close>, \<open>reporter_id\<close>, \<open>accused_id\<close>\<close>
  | DisputeRejected string string string string string
      \<comment> \<open>\<open>dispute_id\<close>, \<open>booking_id\<close>, \<open>admin_id\<close>, \<open>reporter_id\<close>, \<open>accused_id\<close>\<close>
  | SagaStepCompleted string string string
      \<comment> \<open>\<open>saga_id\<close>, \<open>dispute_id\<close>, \<open>step_name\<close>\<close>
  | SagaCompleted string string string
      \<comment> \<open>\<open>saga_id\<close>, \<open>dispute_id\<close>, \<open>saga_type\<close>\<close>
  | SagaStepFailed string string string string int
      \<comment> \<open>\<open>saga_id\<close>, \<open>dispute_id\<close>, \<open>step_name\<close>, \<open>error\<close>, \<open>retry_count\<close>\<close>

section \<open>Value objects\<close>

definition VALID_REASONS :: "string list" where
  "VALID_REASONS = [''NO_SHOW'', ''MISCONDUCT'', ''FRAUD'', ''OTHER'']"

definition VALID_RESOLUTIONS :: "string list" where
  "VALID_RESOLUTIONS = [''REFUND_CLIENT'', ''PAYOUT_COMPANION'', ''REJECT'']"

definition DisputeReason :: "string \<Rightarrow> dexn + string" where
  "DisputeReason v = (if v \<notin> set VALID_REASONS then Inl (InvalidDisputeReasonError v VALID_REASONS) else Inr v)"

definition Resolution :: "string \<Rightarrow> dexn + string" where
  "Resolution v = (if v \<notin> set VALID_RESOLUTIONS then Inl (InvalidResolutionError v VALID_RESOLUTIONS) else Inr v)"

section \<open>Aggregate: Dispute\<close>

record evidence =
  ev_id :: string
  ev_type :: string
  ev_content :: string

record dispute =
  d_dispute_id :: string
  d_booking_id :: string
  d_reporter_id :: string
  d_accused_id :: string
  d_reason :: string
  d_status :: string
  d_admin_id :: "string option"
  d_resolution :: "string option"
  d_notes :: "string option"
  d_evidences :: "evidence list"
  d_version :: int
  d_events :: "dispute_event list"

definition TERMINAL_STATES :: "string set" where
  "TERMINAL_STATES = {''REFUNDED'', ''PAID_OUT'', ''REJECTED''}"

definition VALID_TRANSITIONS :: "string \<Rightarrow> string set" where
  "VALID_TRANSITIONS st =
     (if st = ''OPEN'' then {''RESOLVING''}
      else if st = ''RESOLVING'' then {''REFUNDED'', ''PAID_OUT'', ''REJECTED''} else {})"

definition Dispute_add_event :: "dispute_event \<Rightarrow> dispute \<Rightarrow> dispute" where
  "Dispute_add_event ev self = self\<lparr>d_events := d_events self @ [ev]\<rparr>"

definition Dispute_clear_events :: "dispute \<Rightarrow> dispute_event list \<times> dispute" where
  "Dispute_clear_events self = (d_events self, self\<lparr>d_events := []\<rparr>)"

definition assert_not_terminal :: "dispute \<Rightarrow> dexn + unit" where
  "assert_not_terminal self =
     (if d_status self \<in> TERMINAL_STATES then Inl (DisputeAlreadyResolvedError (d_dispute_id self) (d_status self))
      else Inr ())"

definition assert_valid_transition :: "dispute \<Rightarrow> string \<Rightarrow> dexn + unit" where
  "assert_valid_transition self target =
     bindS (assert_not_terminal self) (\<lambda>_.
     if target \<notin> VALID_TRANSITIONS (d_status self)
     then Inl (InvalidDisputeStatusTransitionError (d_status self) target) else Inr ())"

definition Dispute_create_report ::
  "string \<Rightarrow> string \<Rightarrow> string \<Rightarrow> string \<Rightarrow> string \<Rightarrow> evidence list \<Rightarrow> dexn + dispute" where
  "Dispute_create_report dispute_id booking_id reporter_id accused_id reason evidences =
     bindS (DisputeReason reason) (\<lambda>dispute_reason.
     let dispute = \<lparr>d_dispute_id = dispute_id, d_booking_id = booking_id, d_reporter_id = reporter_id,
           d_accused_id = accused_id, d_reason = dispute_reason, d_status = ''OPEN'', d_admin_id = None,
           d_resolution = None, d_notes = None, d_evidences = evidences, d_version = 1, d_events = []\<rparr>
     in Inr (Dispute_add_event (ReportCreated dispute_id booking_id reporter_id accused_id dispute_reason) dispute))"

definition Dispute_assign_admin :: "dispute \<Rightarrow> string \<Rightarrow> dexn + dispute" where
  "Dispute_assign_admin self admin_id =
     bindS (assert_valid_transition self ''RESOLVING'') (\<lambda>_.
     Inr (Dispute_add_event (DisputeAssigned (d_dispute_id self) admin_id)
            (self\<lparr>d_status := ''RESOLVING'', d_admin_id := Some admin_id\<rparr>)))"

definition Dispute_resolve_refund :: "dispute \<Rightarrow> string \<Rightarrow> string \<Rightarrow> dexn + dispute" where
  "Dispute_resolve_refund self admin_id notes =
     bindS (assert_valid_transition self ''REFUNDED'') (\<lambda>_.
     Inr (Dispute_add_event
            (DisputeResolvedRefund (d_dispute_id self) (d_booking_id self) admin_id (d_reporter_id self) (d_accused_id self))
            (self\<lparr>d_status := ''REFUNDED'', d_admin_id := Some admin_id, d_resolution := Some ''REFUND_CLIENT'',
               d_notes := Some notes\<rparr>)))"

definition Dispute_resolve_payout :: "dispute \<Rightarrow> string \<Rightarrow> string \<Rightarrow> dexn + dispute" where
  "Dispute_resolve_payout self admin_id notes =
     bindS (assert_valid_transition self ''PAID_OUT'') (\<lambda>_.
     Inr (Dispute_add_event
            (DisputeResolvedPayout (d_dispute_id self) (d_booking_id self) admin_id (d_reporter_id self) (d_accused_id self))
            (self\<lparr>d_status := ''PAID_OUT'', d_admin_id := Some admin_id, d_resolution := Some ''PAYOUT_COMPANION'',
               d_notes := Some notes\<rparr>)))"

definition Dispute_reject :: "dispute \<Rightarrow> string \<Rightarrow> string \<Rightarrow> dexn + dispute" where
  "Dispute_reject self admin_id notes =
     bindS (assert_valid_transition self ''REJECTED'') (\<lambda>_.
     Inr (Dispute_add_event
            (DisputeRejected (d_dispute_id self) (d_booking_id self) admin_id (d_reporter_id self) (d_accused_id self))
            (self\<lparr>d_status := ''REJECTED'', d_admin_id := Some admin_id, d_resolution := Some ''REJECT'',
               d_notes := Some notes\<rparr>)))"

definition Dispute_add_evidence :: "dispute \<Rightarrow> evidence \<Rightarrow> dexn + dispute" where
  "Dispute_add_evidence self ev =
     bindS (assert_not_terminal self) (\<lambda>_. Inr (self\<lparr>d_evidences := d_evidences self @ [ev]\<rparr>))"

definition route_dispute :: "dispute \<Rightarrow> string list \<Rightarrow> string option" where
  "route_dispute dispute available_admins =
     (case available_admins of [] \<Rightarrow> None | a # _ \<Rightarrow> Some a)"

section \<open>The refund saga\<close>

record saga =
  sg_saga_id :: string
  sg_dispute_id :: string
  sg_booking_id :: string
  sg_current_state :: string
  sg_retry_count :: int
  sg_last_error :: "string option"
  sg_version :: int
  sg_events :: "dispute_event list"

type_synonym refund_saga = saga

definition RefundSaga_create :: "string \<Rightarrow> string \<Rightarrow> string \<Rightarrow> refund_saga" where
  "RefundSaga_create saga_id dispute_id booking_id =
     \<lparr>sg_saga_id = saga_id, sg_dispute_id = dispute_id, sg_booking_id = booking_id, sg_current_state = ''REFUNDING'',
      sg_retry_count = 0, sg_last_error = None, sg_version = 1, sg_events = []\<rparr>"

definition refund_is_completed :: "refund_saga \<Rightarrow> bool" where
  "refund_is_completed self = (sg_current_state self = ''DISPUTE_RESOLVED_REFUNDED'')"

definition saga_is_failed :: "'a saga_scheme \<Rightarrow> bool" where
  "saga_is_failed self = (sg_current_state self = ''DISPUTE_FAILED'')"

definition refund_needs_retry :: "refund_saga \<Rightarrow> bool" where
  "refund_needs_retry self = (sg_current_state self = ''HIDING_REVIEW'' \<and> sg_last_error self \<noteq> None)"

definition saga_add_event :: "dispute_event \<Rightarrow> 'a saga_scheme \<Rightarrow> 'a saga_scheme" where
  "saga_add_event ev self = self\<lparr>sg_events := sg_events self @ [ev]\<rparr>"

definition saga_clear_events :: "'a saga_scheme \<Rightarrow> dispute_event list \<times> 'a saga_scheme" where
  "saga_clear_events self = (sg_events self, self\<lparr>sg_events := []\<rparr>)"

definition on_refund_success :: "refund_saga \<Rightarrow> dexn + refund_saga" where
  "on_refund_success self =
     (if sg_current_state self \<noteq> ''REFUNDING''
      then Inl (InvalidSagaTransitionError (sg_saga_id self) (sg_current_state self) ''refund_success'')
      else Inr (saga_add_event (SagaStepCompleted (sg_saga_id self) (sg_dispute_id self) ''REFUNDING'')
                  (self\<lparr>sg_current_state := ''HIDING_REVIEW'', sg_last_error := None\<rparr>)))"

definition on_refund_failed :: "refund_saga \<Rightarrow> string \<Rightarrow> dexn + refund_saga" where
  "on_refund_failed self err =
     (if sg_current_state self \<noteq> ''REFUNDING''
      then Inl (InvalidSagaTransitionError (sg_saga_id self) (sg_current_state self) ''refund_failed'')
      else Inr (saga_add_event (SagaStepFailed (sg_saga_id self) (sg_dispute_id self) ''REFUNDING'' err (sg_retry_count self))
                  (self\<lparr>sg_current_state := ''DISPUTE_FAILED'', sg_last_error := Some err\<rparr>)))"

definition on_hide_review_success :: "refund_saga \<Rightarrow> dexn + refund_saga" where
  "on_hide_review_success self =
     (if sg_current_state self \<noteq> ''HIDING_REVIEW''
      then Inl (InvalidSagaTransitionError (sg_saga_id self) (sg_current_state self) ''hide_review_success'')
      else Inr (saga_add_event (SagaCompleted (sg_saga_id self) (sg_dispute_id self) ''REFUND'')
                  (self\<lparr>sg_current_state := ''DISPUTE_RESOLVED_REFUNDED'', sg_last_error := None\<rparr>)))"

definition on_hide_review_failed :: "refund_saga \<Rightarrow> string \<Rightarrow> dexn + refund_saga" where
  "on_hide_review_failed self err =
     (if sg_current_state self \<noteq> ''HIDING_REVIEW''
      then Inl (InvalidSagaTransitionError (sg_saga_id self) (sg_current_state self) ''hide_review_failed'')
      else Inr (saga_add_event
                  (SagaStepFailed (sg_saga_id self) (sg_dispute_id self) ''HIDING_REVIEW'' err (sg_retry_count self + 1))
                  (self\<lparr>sg_retry_count := sg_retry_count self + 1, sg_last_error := Some err\<rparr>)))"

section \<open>The payout saga\<close>

record payout_saga = saga +
  ps_companion_wallet_id :: "string option"
  ps_commission_rate :: "py_float option"

definition PayoutSaga_create :: "string \<Rightarrow> string \<Rightarrow> string \<Rightarrow> string \<Rightarrow> py_float \<Rightarrow> payout_saga" where
  "PayoutSaga_create saga_id dispute_id booking_id companion_wallet_id commission_rate =
     \<lparr>sg_saga_id = saga_id, sg_dispute_id = dispute_id, sg_booking_id = booking_id, sg_current_state = ''PAYING_OUT'',
      sg_retry_count = 0, sg_last_error = None, sg_version = 1, sg_events = [],
      ps_companion_wallet_id = Some companion_wallet_id, ps_commission_rate = Some commission_rate\<rparr>"

definition payout_is_completed :: "payout_saga \<Rightarrow> bool" where
  "payout_is_completed self = (sg_current_state self = ''DISPUTE_RESOLVED_PAID_OUT'')"

definition payout_needs_retry :: "payout_saga \<Rightarrow> bool" where
  "payout_needs_retry self = (sg_current_state self = ''LOCKING_CHAT'' \<and> sg_last_error self \<noteq> None)"

definition on_payout_success :: "payout_saga \<Rightarrow> dexn + payout_saga" where
  "on_payout_success self =
     (if sg_current_state self \<noteq> ''PAYING_OUT''
      then Inl (InvalidSagaTransitionError (sg_saga_id self) (sg_current_state self) ''payout_success'')
      else Inr (saga_add_event (SagaStepCompleted (sg_saga_id self) (sg_dispute_id self) ''PAYING_OUT'')
                  (self\<lparr>sg_current_state := ''LOCKING_CHAT'', sg_last_error := None\<rparr>)))"

definition on_payout_failed :: "payout_saga \<Rightarrow> string \<Rightarrow> dexn + payout_saga" where
  "on_payout_failed self err =
     (if sg_current_state self \<noteq> ''PAYING_OUT''
      then Inl (InvalidSagaTransitionError (sg_saga_id self) (sg_current_state self) ''payout_failed'')
      else Inr (saga_add_event (SagaStepFailed (sg_saga_id self) (sg_dispute_id self) ''PAYING_OUT'' err (sg_retry_count self))
                  (self\<lparr>sg_current_state := ''DISPUTE_FAILED'', sg_last_error := Some err\<rparr>)))"

definition on_lock_chat_success :: "payout_saga \<Rightarrow> dexn + payout_saga" where
  "on_lock_chat_success self =
     (if sg_current_state self \<noteq> ''LOCKING_CHAT''
      then Inl (InvalidSagaTransitionError (sg_saga_id self) (sg_current_state self) ''lock_chat_success'')
      else Inr (saga_add_event (SagaCompleted (sg_saga_id self) (sg_dispute_id self) ''PAYOUT'')
                  (self\<lparr>sg_current_state := ''DISPUTE_RESOLVED_PAID_OUT'', sg_last_error := None\<rparr>)))"

definition on_lock_chat_failed :: "payout_saga \<Rightarrow> string \<Rightarrow> dexn + payout_saga" where
  "on_lock_chat_failed self err =
     (if sg_current_state self \<noteq> ''LOCKING_CHAT''
      then Inl (InvalidSagaTransitionError (sg_saga_id self) (sg_current_state self) ''lock_chat_failed'')
      else Inr (saga_add_event
                  (SagaStepFailed (sg_saga_id self) (sg_dispute_id self) ''LOCKING_CHAT'' err (sg_retry_count self + 1))
                  (self\<lparr>sg_retry_count := sg_retry_count self + 1, sg_last_error := Some err\<rparr>)))"

datatype saga_kind = RefundSaga refund_saga | PayoutSaga payout_saga

text \<open>A saga whose pending events have been dropped.\<close>

fun kind_cleared :: "saga_kind \<Rightarrow> saga_kind" where
  "kind_cleared (RefundSaga g) = RefundSaga (g\<lparr>sg_events := []\<rparr>)"
| "kind_cleared (PayoutSaga g) = PayoutSaga (g\<lparr>sg_events := []\<rparr>)"

end
