(* ===== verification/Sql_Versioned.thy ===== *)
theory Sql_Versioned
  imports Sql_Tables
begin

text \<open>
  A mapped table with optimistic concurrency control (\<open>version_id_col\<close>).  \<open>merge\<close> stands for
  \<open>session.merge(model)\<close> and \<open>session.flush()\<close> and gives the version of the merged row; SQLAlchemy refuses
  a model whose version differs from the stored one.  A stored row therefore never loses an update.
\<close>

locale sql_versioned =
  sql_table "\<lambda>r. bindE (merge r) (\<lambda>_. ret ())" select view com tab put pkey uniq fits agree
  for merge :: "'r \<Rightarrow> ('s, 'e, int) eff" and select :: "bool \<Rightarrow> ('r \<Rightarrow> bool) \<Rightarrow> ('s, 'e, 'r list) eff"
    and view :: "'s \<Rightarrow> 'd" and com :: "'s \<Rightarrow> 'd"
    and tab :: "'d \<Rightarrow> 'k \<rightharpoonup> 'r" and put :: "('k \<rightharpoonup> 'r) \<Rightarrow> 'd \<Rightarrow> 'd"
    and pkey :: "'r \<Rightarrow> 'k" and uniq :: "'r \<Rightarrow> 'u" and fits :: "'r \<Rightarrow> bool"
    and agree :: "'r \<Rightarrow> 'r \<Rightarrow> bool" +
  fixes ver :: "'r \<Rightarrow> int"
  assumes tab_put: "tab (put t d) = t"
    and merge_version: "merge r s = (Inr v, s') \<Longrightarrow>
      (\<forall>r0. tab (view s) (pkey r) = Some r0 \<longrightarrow> ver r0 = ver r) \<and>
      (\<exists>r'. tab (view s') (pkey r) = Some r' \<and> ver r' = v)"
begin

lemma vmerge_stored:
  assumes "merge r s = (Inr v, s')"
  obtains r' where "row_accepted pkey uniq fits (tab (view s)) r" "agree r r'" "ver r' = v"
    "view s' = put ((tab (view s))(pkey r \<mapsto> r')) (view s)"
proof -
  have "bindE (merge r) (\<lambda>_. ret ()) s = (Inr (), s')" using assms by (simp add: bindE_def ret_def)
  from merge_ok [OF this] obtain r' where acc: "row_accepted pkey uniq fits (tab (view s)) r"
    and r': "agree r r'" "view s' = put ((tab (view s))(pkey r \<mapsto> r')) (view s)" by blast
  have "ver r' = v" using merge_version [OF assms] r'(2) by (simp add: tab_put)
  then show thesis using that [OF acc r'(1) _ r'(2)] by simp
qed

lemma vmerge_com: "com (snd (merge r s)) = com s"
  using merge_com [of r s] by (auto simp: bindE_def ret_def split: prod.splits sum.splits)

lemma vmerge_keeps [keep_intros]: "keeps com (merge r)"
  by (simp add: keeps_def vmerge_com)

text \<open>A model read before another session changed the row is refused.\<close>

lemma vmerge_stale:
  assumes "tab (view s) (pkey r) = Some r0" "ver r0 \<noteq> ver r"
  shows "\<exists>e s'. merge r s = (Inl e, s')"
proof (cases "merge r s")
  case (Pair res s')
  then show ?thesis using merge_version [of r s _ s'] assms by (cases res) auto
qed

lemma vmerge_refused:
  assumes "\<not> row_accepted pkey uniq fits (tab (view s)) r"
  shows "\<exists>e s'. merge r s = (Inl e, s')"
proof (cases "merge r s")
  case (Pair res s')
  then show ?thesis
  proof (cases res)
    case (Inr v)
    with Pair have "merge r s = (Inr v, s')" by simp
    then show ?thesis by (rule vmerge_stored) (use assms in blast)
  qed simp
qed

end

locale sql_versioned_live = sql_versioned +
  assumes vmerge_live: "row_accepted pkey uniq fits (tab (view s)) r \<Longrightarrow>
      (\<And>r0. tab (view s) (pkey r) = Some r0 \<Longrightarrow> ver r0 = ver r) \<Longrightarrow> \<exists>v s'. merge r s = (Inr v, s')"
    and vselect_live: "\<exists>rs s'. select lock P s = (Inr rs, s')"
begin

lemma vselect_finds:
  obtains rs s' where "select lock P s = (Inr rs, s')"
    "set rs = {r \<in> ran (tab (view s)). P r}" "view s' = view s" "com s' = com s"
proof -
  obtain rs s' where sel: "select lock P s = (Inr rs, s')" using vselect_live by blast
  then have "com s' = com s" using select_com [of lock P s] by simp
  with sel select_ok [OF sel] show thesis by (blast intro: that)
qed

end

section \<open>A reference table\<close>

text \<open>The version counts the merges of the row; \<open>stamp r v old\<close> sets it.\<close>

definition mem_vmerge ::
  "('d \<Rightarrow> ('k, 'r) alist) \<Rightarrow> (('k, 'r) alist \<Rightarrow> 'd \<Rightarrow> 'd) \<Rightarrow> ('r \<Rightarrow> 'k) \<Rightarrow> ('r \<Rightarrow> 'u) \<Rightarrow> ('r \<Rightarrow> bool) \<Rightarrow> ('r \<Rightarrow> int) \<Rightarrow>
   (int \<Rightarrow> 'r \<Rightarrow> 'r) \<Rightarrow> 'e \<Rightarrow> 'r \<Rightarrow> ('d mem, 'e, int) eff" where
  "mem_vmerge get store pkey uniq fits ver stamp err r s =
     (let t = get (m_view s); old = DAList.lookup t (pkey r);
          v = (case old of None \<Rightarrow> 1 | Some r0 \<Rightarrow> ver r0 + 1) in
      if fits r \<and> (case old of None \<Rightarrow> True | Some r0 \<Rightarrow> ver r0 = ver r) \<and>
         (\<forall>(k, r') \<in> set (DAList.impl_of t). pkey r' \<noteq> pkey r \<longrightarrow> uniq r' \<noteq> uniq r)
      then (Inr v, s\<lparr>m_view := store (DAList.update (pkey r) (stamp v r) t) (m_view s)\<rparr>)
      else (Inl err, s))"

lemma mem_sql_versioned_live:
  assumes view: "\<And>s. tab (view s) = DAList.lookup (get (m_view s))"
    and upd: "\<And>s k r. view (s\<lparr>m_view := store (DAList.update k r (get (m_view s))) (m_view s)\<rparr>) =
        put ((DAList.lookup (get (m_view s)))(k \<mapsto> r)) (view s)"
    and com: "\<And>s v. com (s\<lparr>m_view := v\<rparr>) = com s"
    and stamp: "\<And>r v. agree r (stamp v r)" "\<And>r v. ver (stamp v r) = v"
    and tp: "\<And>t d. tab (put t d) = t"
  shows "sql_versioned_live (mem_vmerge get store pkey uniq fits ver stamp err) (mem_select get)
           view com tab put pkey uniq fits agree ver"
proof unfold_locales
  let ?m = "mem_vmerge get store pkey uniq fits ver stamp err"
  fix r s u s'
  assume "bindE (?m r) (\<lambda>_. ret ()) s = (Inr u, s')"
  then show "row_accepted pkey uniq fits (tab (view s)) r \<and>
      (\<exists>r'. agree r r' \<and> view s' = put ((tab (view s))(pkey r \<mapsto> r')) (view s))"
    by (auto simp: bindE_def ret_def mem_vmerge_def Let_def row_accepted_def view upd ran_lookup
        intro!: exI [of _ "stamp _ r"] stamp(1) split: if_splits)
next
  fix r s show "com (snd (bindE (mem_vmerge get store pkey uniq fits ver stamp err r) (\<lambda>_. ret ()) s)) = com s"
    by (simp add: bindE_def ret_def mem_vmerge_def Let_def com)
next
  fix lock P s rs s'
  assume "mem_select get lock P s = (Inr rs, s')"
  then have "s' = s" and rs: "rs = filter P (map snd (DAList.impl_of (get (m_view s))))"
    by (auto simp: mem_select_def)
  moreover have "set rs = {r \<in> snd ` set (DAList.impl_of (get (m_view s))). P r}"
    unfolding rs set_filter set_map by (rule refl)
  ultimately show "set rs = {r \<in> ran (tab (view s)). P r} \<and> view s' = view s"
    by (simp only: view ran_lookup)
next
  fix lock P s e s' assume "mem_select get lock P s = (Inl e, s')"
  then show "view s' = view s" by (simp add: mem_select_def)
next
  fix lock P s show "com (snd (mem_select get lock P s)) = com s" by (simp add: mem_select_def)
next
  show "tab (put t d) = t" for t d by (rule tp)
next
  fix r s v s'
  assume "mem_vmerge get store pkey uniq fits ver stamp err r s = (Inr v, s')"
  then have old: "\<forall>r0. DAList.lookup (get (m_view s)) (pkey r) = Some r0 \<longrightarrow> ver r0 = ver r"
    and "view s' = put ((DAList.lookup (get (m_view s)))(pkey r \<mapsto> stamp v r)) (view s)"
    by (auto simp: mem_vmerge_def Let_def upd split: if_splits option.splits)
  then have "tab (view s') (pkey r) = Some (stamp v r)" by (simp add: tp)
  with old show "(\<forall>r0. tab (view s) (pkey r) = Some r0 \<longrightarrow> ver r0 = ver r) \<and>
      (\<exists>r'. tab (view s') (pkey r) = Some r' \<and> ver r' = v)"
    by (simp add: view stamp(2))
next
  fix s r
  assume "row_accepted pkey uniq fits (tab (view s)) r" "\<And>r0. tab (view s) (pkey r) = Some r0 \<Longrightarrow> ver r0 = ver r"
  then show "\<exists>v s'. mem_vmerge get store pkey uniq fits ver stamp err r s = (Inr v, s')"
    by (auto simp: mem_vmerge_def Let_def row_accepted_def view ran_lookup split: option.splits)
next
  fix lock P s show "\<exists>rs s'. mem_select get lock P s = (Inr rs, s')" by (simp add: mem_select_def)
qed

end
