(* ===== verification/Dispute_Store.thy ===== *)
theory Dispute_Store
  imports Dispute_Domain Sql_Versioned Proto_Events Outbox_Worker "HOL-Library.Multiset"
begin

text \<open>
  Persistence and event publication of the dispute service: the mapped tables (\<open>models.py\<close>), the mappers,
  the repositories and the outbox publisher.  A dispute is stored with its evidences (the relationship
  cascades), so a row of \<open>dispute_model\<close> carries them; both tables have a version column.  The record
  \<open>dis_session\<close> collects what comes from outside.
\<close>

section \<open>Mapped tables\<close>

record dispute_model =
  dm_dispute_id :: string
  dm_booking_id :: string
  dm_reporter_id :: string
  dm_accused_id :: string
  dm_reason :: string
  dm_status :: string
  dm_admin_id :: "string option"
  dm_resolution :: "string option"
  dm_notes :: "string option"
  dm_version :: int
  dm_created_at :: "int option"
  dm_evidences :: "evidence list"

record saga_model =
  sm_saga_id :: string
  sm_dispute_id :: string
  sm_booking_id :: string
  sm_saga_type :: string
  sm_current_state :: string
  sm_retry_count :: int
  sm_last_error :: "string option"
  sm_companion_wallet_id :: "string option"
  sm_commission_rate :: "py_float option"
  sm_version :: int

definition fits_opt :: "nat \<Rightarrow> string option \<Rightarrow> bool" where
  "fits_opt n v = (case v of None \<Rightarrow> True | Some x \<Rightarrow> length x \<le> n)"

definition dispute_fits :: "dispute_model \<Rightarrow> bool" where
  "dispute_fits r \<longleftrightarrow> length (dm_dispute_id r) \<le> 36 \<and> length (dm_booking_id r) \<le> 36 \<and> length (dm_reporter_id r) \<le> 36 \<and>
     length (dm_accused_id r) \<le> 36 \<and> length (dm_reason r) \<le> 50 \<and> length (dm_status r) \<le> 30 \<and>
     fits_opt 36 (dm_admin_id r) \<and> fits_opt 50 (dm_resolution r) \<and>
     (\<forall>e\<in>set (dm_evidences r). length (ev_id e) \<le> 36 \<and> length (ev_type e) \<le> 30)"

definition saga_fits :: "saga_model \<Rightarrow> bool" where
  "saga_fits r \<longleftrightarrow> length (sm_saga_id r) \<le> 36 \<and> length (sm_dispute_id r) \<le> 36 \<and> length (sm_booking_id r) \<le> 36 \<and>
     length (sm_saga_type r) \<le> 20 \<and> length (sm_current_state r) \<le> 50 \<and> int32 (sm_retry_count r) \<and>
     fits_opt 36 (sm_companion_wallet_id r)"

text \<open>
  The stored row has the attributes of the model object; the version and the timestamp are the server's,
  and the collection of evidences has no order of its own.
\<close>

definition dispute_agree :: "dispute_model \<Rightarrow> dispute_model \<Rightarrow> bool" where
  "dispute_agree r r' \<longleftrightarrow>
     r' = r\<lparr>dm_version := dm_version r', dm_created_at := dm_created_at r', dm_evidences := dm_evidences r'\<rparr> \<and>
     mset (dm_evidences r') = mset (dm_evidences r)"

definition saga_agree :: "saga_model \<Rightarrow> saga_model \<Rightarrow> bool" where
  "saga_agree r r' \<longleftrightarrow> r' = r\<lparr>sm_version := sm_version r'\<rparr>"

record dis_db =
  disputes :: "string \<rightharpoonup> dispute_model"
  sagas :: "string \<rightharpoonup> saga_model"
  d_outbox :: "outbox_model list"

section \<open>Mappers\<close>

definition DisputeMapper_to_model :: "dispute \<Rightarrow> dispute_model" where
  "DisputeMapper_to_model d =
     \<lparr>dm_dispute_id = d_dispute_id d, dm_booking_id = d_booking_id d, dm_reporter_id = d_reporter_id d,
      dm_accused_id = d_accused_id d, dm_reason = d_reason d, dm_status = d_status d, dm_admin_id = d_admin_id d,
      dm_resolution = d_resolution d, dm_notes = d_notes d, dm_version = d_version d, dm_created_at = None,
      dm_evidences = d_evidences d\<rparr>"

definition DisputeMapper_to_domain :: "dispute_model \<Rightarrow> dexn + dispute" where
  "DisputeMapper_to_domain m =
     bindS (DisputeReason (dm_reason m)) (\<lambda>reason.
     Inr \<lparr>d_dispute_id = dm_dispute_id m, d_booking_id = dm_booking_id m, d_reporter_id = dm_reporter_id m,
          d_accused_id = dm_accused_id m, d_reason = reason, d_status = dm_status m, d_admin_id = dm_admin_id m,
          d_resolution = dm_resolution m, d_notes = dm_notes m, d_evidences = dm_evidences m,
          d_version = dm_version m, d_events = []\<rparr>)"

definition saga_core_model :: "string \<Rightarrow> 'a saga_scheme \<Rightarrow> string option \<Rightarrow> py_float option \<Rightarrow> saga_model" where
  "saga_core_model saga_type g companion_wallet_id commission_rate =
     \<lparr>sm_saga_id = sg_saga_id g, sm_dispute_id = sg_dispute_id g, sm_booking_id = sg_booking_id g,
      sm_saga_type = saga_type, sm_current_state = sg_current_state g, sm_retry_count = sg_retry_count g,
      sm_last_error = sg_last_error g, sm_companion_wallet_id = companion_wallet_id,
      sm_commission_rate = commission_rate, sm_version = sg_version g\<rparr>"

fun SagaStateMapper_to_model :: "saga_kind \<Rightarrow> saga_model" where
  "SagaStateMapper_to_model (RefundSaga g) = saga_core_model ''REFUND'' g None None"
| "SagaStateMapper_to_model (PayoutSaga g) =
     saga_core_model ''PAYOUT'' g (ps_companion_wallet_id g) (ps_commission_rate g)"

definition SagaStateMapper_to_domain :: "saga_model \<Rightarrow> dexn + saga_kind" where
  "SagaStateMapper_to_domain m =
     (if sm_saga_type m = ''REFUND''
      then Inr (RefundSaga \<lparr>sg_saga_id = sm_saga_id m, sg_dispute_id = sm_dispute_id m, sg_booking_id = sm_booking_id m,
             sg_current_state = sm_current_state m, sg_retry_count = sm_retry_count m, sg_last_error = sm_last_error m,
             sg_version = sm_version m, sg_events = []\<rparr>)
      else if sm_saga_type m = ''PAYOUT''
      then Inr (PayoutSaga \<lparr>sg_saga_id = sm_saga_id m, sg_dispute_id = sm_dispute_id m, sg_booking_id = sm_booking_id m,
             sg_current_state = sm_current_state m, sg_retry_count = sm_retry_count m, sg_last_error = sm_last_error m,
             sg_version = sm_version m, sg_events = [], ps_companion_wallet_id = sm_companion_wallet_id m,
             ps_commission_rate = sm_commission_rate m\<rparr>)
      else Inl (ValueErrorD (''Unknown saga type: '' @ sm_saga_type m)))"

section \<open>Events\<close>

text \<open>\<open>EventMapper.to_protobuf\<close>; \<open>None\<close> is the \<open>ValueError\<close> for an event without a contract.\<close>

definition resolved_message :: "string \<Rightarrow> string \<Rightarrow> string \<Rightarrow> string \<Rightarrow> string \<Rightarrow> string \<Rightarrow> int \<Rightarrow> proto_msg" where
  "resolved_message resolution dispute_id booking_id admin_id reporter_id accused_id now =
     \<lparr>pm_name = ''DisputeResolved'', pm_fields =
       [(''dispute_id'', PStr dispute_id), (''booking_id'', PStr booking_id), (''resolution'', PStr resolution),
        (''occurred_at'', PTime now), (''resolved_by'', PStr admin_id), (''reporter_id'', PStr reporter_id),
        (''accused_id'', PStr accused_id)]\<rparr>"

fun dispute_to_protobuf :: "dispute_event \<Rightarrow> int \<Rightarrow> proto_msg option" where
  "dispute_to_protobuf (ReportCreated dispute_id booking_id reporter_id accused_id reason) now =
     Some \<lparr>pm_name = ''DisputeCreated'', pm_fields =
       [(''dispute_id'', PStr dispute_id), (''booking_id'', PStr booking_id), (''reporter_id'', PStr reporter_id),
        (''reason'', PStr reason), (''occurred_at'', PTime now)]\<rparr>"
| "dispute_to_protobuf (DisputeResolvedRefund d b a r c) now = Some (resolved_message ''REFUND_CLIENT'' d b a r c now)"
| "dispute_to_protobuf (DisputeResolvedPayout d b a r c) now = Some (resolved_message ''PAYOUT_COMPANION'' d b a r c now)"
| "dispute_to_protobuf (DisputeRejected d b a r c) now = Some (resolved_message ''REJECT'' d b a r c now)"
| "dispute_to_protobuf _ now = None"

section \<open>What comes from outside\<close>

text \<open>
  \<open>dispute_page P o l\<close> is \<open>WHERE P ORDER BY created_at DESC OFFSET o LIMIT l\<close>; \<open>saga_limit P l\<close> is
  \<open>WHERE P LIMIT l\<close>, in no order.  \<open>set_repr\<close> prints a Python set.
\<close>

record 's dis_session =
  dis_open :: "('s, dexn, unit) eff"
  dis_uuid4 :: "('s, dexn, string) eff"
  dis_utcnow :: "('s, dexn, int) eff"
  dis_pb_json :: "proto_msg \<Rightarrow> dexn + string"
  set_repr :: "string list \<Rightarrow> string"
  dispute_merge :: "dispute_model \<Rightarrow> ('s, dexn, int) eff"
  dispute_select :: "bool \<Rightarrow> (dispute_model \<Rightarrow> bool) \<Rightarrow> ('s, dexn, dispute_model list) eff"
  dispute_count :: "(dispute_model \<Rightarrow> bool) \<Rightarrow> ('s, dexn, nat) eff"
  dispute_page :: "(dispute_model \<Rightarrow> bool) \<Rightarrow> nat \<Rightarrow> nat \<Rightarrow> ('s, dexn, dispute_model list) eff"
  saga_merge :: "saga_model \<Rightarrow> ('s, dexn, int) eff"
  saga_select :: "bool \<Rightarrow> (saga_model \<Rightarrow> bool) \<Rightarrow> ('s, dexn, saga_model list) eff"
  saga_limit :: "(saga_model \<Rightarrow> bool) \<Rightarrow> nat \<Rightarrow> ('s, dexn, saga_model list) eff"
  dis_outbox_add :: "outbox_model \<Rightarrow> ('s, dexn, unit) eff"
  dis_commit :: "('s, dexn, unit) eff"
  dis_rollback :: "('s, dexn, unit) eff"

section \<open>Repositories\<close>

text \<open>\<open>save\<close> gives the aggregate with the version of the merged row.\<close>

definition DisputeRepository_save :: "'s dis_session \<Rightarrow> dispute \<Rightarrow> ('s, dexn, dispute) eff" where
  "DisputeRepository_save S d =
     bindE (dispute_merge S (DisputeMapper_to_model d)) (\<lambda>v. ret (d\<lparr>d_version := v\<rparr>))"

definition find_dispute :: "'s dis_session \<Rightarrow> (dispute_model \<Rightarrow> bool) \<Rightarrow> ('s, dexn, dispute option) eff" where
  "find_dispute S P =
     bindE (dispute_select S False P) (\<lambda>rs. liftE (option_map_exn DisputeMapper_to_domain (first_row rs)))"

definition DisputeRepository_find_by_id :: "'s dis_session \<Rightarrow> string \<Rightarrow> ('s, dexn, dispute option) eff" where
  "DisputeRepository_find_by_id S dispute_id = find_dispute S (\<lambda>m. dm_dispute_id m = dispute_id)"

definition DisputeRepository_find_by_booking_id :: "'s dis_session \<Rightarrow> string \<Rightarrow> ('s, dexn, dispute option) eff" where
  "DisputeRepository_find_by_booking_id S booking_id = find_dispute S (\<lambda>m. dm_booking_id m = booking_id)"

definition DisputeRepository_find_open_by_booking_id ::
  "'s dis_session \<Rightarrow> string \<Rightarrow> ('s, dexn, dispute option) eff" where
  "DisputeRepository_find_open_by_booking_id S booking_id =
     find_dispute S (\<lambda>m. dm_booking_id m = booking_id \<and> dm_status m \<in> {''OPEN'', ''RESOLVING''})"

definition DisputeRepository_list_by_status ::
  "'s dis_session \<Rightarrow> string option \<Rightarrow> nat \<Rightarrow> nat \<Rightarrow> ('s, dexn, dispute list \<times> nat) eff" where
  "DisputeRepository_list_by_status S st offset limit =
     (let P = (case st of None \<Rightarrow> (\<lambda>m. True) | Some x \<Rightarrow> if x = [] then (\<lambda>m. True) else (\<lambda>m. dm_status m = x)) in
      bindE (dispute_count S P) (\<lambda>tot.
      bindE (dispute_page S P offset limit) (\<lambda>models.
      bindE (liftE (list_map_exn DisputeMapper_to_domain models)) (\<lambda>ds.
      ret (ds, tot)))))"

definition refund_save :: "'s dis_session \<Rightarrow> refund_saga \<Rightarrow> ('s, dexn, refund_saga) eff" where
  "refund_save S g =
     bindE (saga_merge S (SagaStateMapper_to_model (RefundSaga g))) (\<lambda>v. ret (g\<lparr>sg_version := v\<rparr>))"

definition payout_save :: "'s dis_session \<Rightarrow> payout_saga \<Rightarrow> ('s, dexn, payout_saga) eff" where
  "payout_save S g =
     bindE (saga_merge S (SagaStateMapper_to_model (PayoutSaga g))) (\<lambda>v. ret (g\<lparr>sg_version := v\<rparr>))"

definition SagaStateRepository_find_by_id :: "'s dis_session \<Rightarrow> string \<Rightarrow> ('s, dexn, saga_kind option) eff" where
  "SagaStateRepository_find_by_id S saga_id =
     bindE (saga_select S False (\<lambda>m. sm_saga_id m = saga_id)) (\<lambda>rs.
     liftE (option_map_exn SagaStateMapper_to_domain (first_row rs)))"

definition SagaStateRepository_find_by_dispute_id :: "'s dis_session \<Rightarrow> string \<Rightarrow> ('s, dexn, saga_kind option) eff" where
  "SagaStateRepository_find_by_dispute_id S dispute_id =
     bindE (saga_select S False (\<lambda>m. sm_dispute_id m = dispute_id)) (\<lambda>rs.
     liftE (option_map_exn SagaStateMapper_to_domain (first_row rs)))"

definition pending_retry :: "saga_model \<Rightarrow> bool" where
  "pending_retry m \<longleftrightarrow> sm_last_error m \<noteq> None \<and> sm_current_state m \<in> {''HIDING_REVIEW'', ''LOCKING_CHAT''}"

definition SagaStateRepository_find_pending_retries :: "'s dis_session \<Rightarrow> nat \<Rightarrow> ('s, dexn, saga_kind list) eff" where
  "SagaStateRepository_find_pending_retries S limit =
     bindE (saga_limit S pending_retry limit) (\<lambda>models.
     liftE (list_map_exn SagaStateMapper_to_domain models))"

section \<open>The outbox publisher\<close>

definition dispute_event_type_of :: "proto_msg \<Rightarrow> string" where
  "dispute_event_type_of m = ''dispute.'' @ to_kebab_case (pm_name m) @ ''.v1''"

definition dispute_publish :: "'s dis_session \<Rightarrow> dispute_event \<Rightarrow> ('s, dexn, unit) eff" where
  "dispute_publish S event =
     bindE (dis_utcnow S) (\<lambda>now.
     case dispute_to_protobuf event now of
       None \<Rightarrow> ret ()
     | Some proto_msg \<Rightarrow>
         bindE (liftE (dis_pb_json S proto_msg)) (\<lambda>payload.
         bindE (dis_uuid4 S) (\<lambda>event_id.
         dis_outbox_add S
           \<lparr>ob_id = None, ob_event_id = event_id, ob_event_type = dispute_event_type_of proto_msg,
            ob_payload = payload, ob_created_at = None, ob_processed = False\<rparr>)))"

end
