(* ===== verification/Dispute_Commands.thy ===== *)
theory Dispute_Commands
  imports Dispute_Store
begin

text \<open>
  The application layer of the dispute service: the ports to the finance and interaction services, the
  two saga orchestrators, the command and query services, and one turn of the retry worker.  A saga
  object is mutable: where an \<open>except\<close> block reads it, the exception carries the saga as it is then
  (\<open>with_local\<close>).
\<close>

section \<open>Ports\<close>

text \<open>\<open>RefundResult\<close> and \<open>PayoutResult\<close> have the same fields.\<close>

record port_result =
  pr_success :: bool
  pr_transaction_id :: "string option"
  pr_error :: "string option"

record 's ports =
  refund_escrow_to_wallet :: "string \<Rightarrow> ('s, dexn, port_result) eff"
  payout_from_escrow :: "string \<Rightarrow> string option \<Rightarrow> py_float option \<Rightarrow> ('s, dexn, port_result) eff"
  get_payout_snapshot :: "string \<Rightarrow> ('s, dexn, string \<times> py_float) eff"
  hide_review_and_lock_chat :: "string \<Rightarrow> ('s, dexn, bool) eff"
  lock_chat_room :: "string \<Rightarrow> ('s, dexn, bool) eff"

text \<open>\<open>res.error or dflt\<close>.\<close>

definition error_or :: "string option \<Rightarrow> string \<Rightarrow> string" where
  "error_or e dflt = (case e of None \<Rightarrow> dflt | Some x \<Rightarrow> py_or x dflt)"

section \<open>The refund saga\<close>

text \<open>The events a saga has collected are published and cleared.\<close>

definition publish_saga_events ::
  "'s dis_session \<Rightarrow> 'a saga_scheme \<Rightarrow> ('s, dexn \<times> 'a saga_scheme, 'a saga_scheme) eff" where
  "publish_saga_events S saga =
     (let (events, saga) = saga_clear_events saga in
      bindE (with_local saga (forE (dispute_publish S) events)) (\<lambda>_. ret saga))"

definition refund_hiding_review ::
  "'s dis_session \<Rightarrow> 's ports \<Rightarrow> refund_saga \<Rightarrow> ('s, dexn \<times> refund_saga, refund_saga) eff" where
  "refund_hiding_review S P saga =
     tryE
       (bindE (with_local saga (hide_review_and_lock_chat P (sg_booking_id saga))) (\<lambda>success.
        if success
        then
          bindE (with_local saga (liftE (on_hide_review_success saga))) (\<lambda>saga.
          with_local saga (refund_save S saga))
        else
          bindE (with_local saga (liftE (on_hide_review_failed saga ''Interaction service failed to lock/hide''))) (\<lambda>saga.
          with_local saga (refund_save S saga))))
       (\<lambda>(e, saga).
          bindE (with_local saga (liftE (on_hide_review_failed saga (dexn_str (set_repr S) e)))) (\<lambda>saga.
          with_local saga (refund_save S saga)))"

text \<open>
  \<open>process_saga\<close> calls itself after a successful refund; the saga is then in \<open>HIDING_REVIEW\<close>, so the
  inner call runs that branch and publishes the events, and the outer call publishes none.
\<close>

definition refund_refunding ::
  "'s dis_session \<Rightarrow> 's ports \<Rightarrow> (refund_saga \<Rightarrow> ('s, dexn \<times> refund_saga, refund_saga) eff) \<Rightarrow> refund_saga \<Rightarrow>
   ('s, dexn \<times> refund_saga, refund_saga) eff" where
  "refund_refunding S P process saga =
     tryE
       (bindE (with_local saga (refund_escrow_to_wallet P (sg_booking_id saga))) (\<lambda>res.
        if pr_success res
        then
          bindE (with_local saga (liftE (on_refund_success saga))) (\<lambda>saga.
          bindE (with_local saga (refund_save S saga)) (\<lambda>saga.
          process saga))
        else
          bindE (with_local saga (liftE (on_refund_failed saga (error_or (pr_error res) ''Refund failed'')))) (\<lambda>saga.
          with_local saga (refund_save S saga))))
       (\<lambda>(e, saga).
          bindE (with_local saga (liftE (on_refund_failed saga (dexn_str (set_repr S) e)))) (\<lambda>saga.
          with_local saga (refund_save S saga)))"

text \<open>The recursion of \<open>process_saga\<close>: \<open>fuel\<close> bounds its depth, and 2 is always enough.\<close>

fun refund_process_rec ::
  "nat \<Rightarrow> 's dis_session \<Rightarrow> 's ports \<Rightarrow> refund_saga \<Rightarrow> ('s, dexn \<times> refund_saga, refund_saga) eff" where
  "refund_process_rec 0 S P saga = ret saga"
| "refund_process_rec (Suc n) S P saga =
     bindE
       (if sg_current_state saga = ''REFUNDING'' then refund_refunding S P (refund_process_rec n S P) saga
        else if sg_current_state saga = ''HIDING_REVIEW'' then refund_hiding_review S P saga
        else ret saga) (\<lambda>saga.
     publish_saga_events S saga)"

definition refund_process_saga ::
  "'s dis_session \<Rightarrow> 's ports \<Rightarrow> refund_saga \<Rightarrow> ('s, dexn \<times> refund_saga, refund_saga) eff" where
  "refund_process_saga S P saga = refund_process_rec 2 S P saga"

definition forget_local :: "('s, 'e \<times> 'v, 'a) eff \<Rightarrow> ('s, 'e, unit) eff" where
  "forget_local m = bindE (tryE m (\<lambda>(e, _). raise e)) (\<lambda>_. ret ())"

definition refund_start :: "'s dis_session \<Rightarrow> 's ports \<Rightarrow> string \<Rightarrow> string \<Rightarrow> string \<Rightarrow> ('s, dexn, unit) eff" where
  "refund_start S P saga_id dispute_id booking_id =
     bindE (refund_save S (RefundSaga_create saga_id dispute_id booking_id)) (\<lambda>saga.
     forget_local (refund_process_saga S P saga))"

section \<open>The payout saga\<close>

definition payout_locking_chat ::
  "'s dis_session \<Rightarrow> 's ports \<Rightarrow> payout_saga \<Rightarrow> ('s, dexn \<times> payout_saga, payout_saga) eff" where
  "payout_locking_chat S P saga =
     tryE
       (bindE (with_local saga (lock_chat_room P (sg_booking_id saga))) (\<lambda>success.
        if success
        then
          bindE (with_local saga (liftE (on_lock_chat_success saga))) (\<lambda>saga.
          with_local saga (payout_save S saga))
        else
          bindE (with_local saga (liftE (on_lock_chat_failed saga ''Interaction service failed to lock chat room''))) (\<lambda>saga.
          with_local saga (payout_save S saga))))
       (\<lambda>(e, saga).
          bindE (with_local saga (liftE (on_lock_chat_failed saga (dexn_str (set_repr S) e)))) (\<lambda>saga.
          with_local saga (payout_save S saga)))"

definition payout_paying_out ::
  "'s dis_session \<Rightarrow> 's ports \<Rightarrow> (payout_saga \<Rightarrow> ('s, dexn \<times> payout_saga, payout_saga) eff) \<Rightarrow> payout_saga \<Rightarrow>
   ('s, dexn \<times> payout_saga, payout_saga) eff" where
  "payout_paying_out S P process saga =
     tryE
       (bindE (with_local saga
            (payout_from_escrow P (sg_booking_id saga) (ps_companion_wallet_id saga) (ps_commission_rate saga))) (\<lambda>res.
        if pr_success res
        then
          bindE (with_local saga (liftE (on_payout_success saga))) (\<lambda>saga.
          bindE (with_local saga (payout_save S saga)) (\<lambda>saga.
          process saga))
        else
          bindE (with_local saga (liftE (on_payout_failed saga (error_or (pr_error res) ''Payout failed'')))) (\<lambda>saga.
          with_local saga (payout_save S saga))))
       (\<lambda>(e, saga).
          bindE (with_local saga (liftE (on_payout_failed saga (dexn_str (set_repr S) e)))) (\<lambda>saga.
          with_local saga (payout_save S saga)))"

fun payout_process_rec ::
  "nat \<Rightarrow> 's dis_session \<Rightarrow> 's ports \<Rightarrow> payout_saga \<Rightarrow> ('s, dexn \<times> payout_saga, payout_saga) eff" where
  "payout_process_rec 0 S P saga = ret saga"
| "payout_process_rec (Suc n) S P saga =
     bindE
       (if sg_current_state saga = ''PAYING_OUT'' then payout_paying_out S P (payout_process_rec n S P) saga
        else if sg_current_state saga = ''LOCKING_CHAT'' then payout_locking_chat S P saga
        else ret saga) (\<lambda>saga.
     publish_saga_events S saga)"

definition payout_process_saga ::
  "'s dis_session \<Rightarrow> 's ports \<Rightarrow> payout_saga \<Rightarrow> ('s, dexn \<times> payout_saga, payout_saga) eff" where
  "payout_process_saga S P saga = payout_process_rec 2 S P saga"

definition payout_start :: "'s dis_session \<Rightarrow> 's ports \<Rightarrow> string \<Rightarrow> string \<Rightarrow> string \<Rightarrow> ('s, dexn, unit) eff" where
  "payout_start S P saga_id dispute_id booking_id =
     bindE (get_payout_snapshot P booking_id) (\<lambda>(wallet_id, commission_rate).
     bindE (payout_save S (PayoutSaga_create saga_id dispute_id booking_id wallet_id commission_rate)) (\<lambda>saga.
     forget_local (payout_process_saga S P saga)))"

section \<open>Commands\<close>

text \<open>An evidence as the caller gives it: a dictionary.\<close>

type_synonym evidence_dict = "(string \<times> string) list"

definition dict_get :: "evidence_dict \<Rightarrow> string \<Rightarrow> string \<Rightarrow> string" where
  "dict_get d k dflt = (case map_of d k of None \<Rightarrow> dflt | Some v \<Rightarrow> v)"

primrec evidence_entities :: "'s dis_session \<Rightarrow> evidence_dict list \<Rightarrow> ('s, dexn, evidence list) eff" where
  "evidence_entities S [] = ret []"
| "evidence_entities S (ev # evs) =
     bindE (dis_uuid4 S) (\<lambda>i.
     bindE (evidence_entities S evs) (\<lambda>es.
     ret (\<lparr>ev_id = i, ev_type = dict_get ev ''evidence_type'' ''TEXT'', ev_content = dict_get ev ''content'' ''''\<rparr> # es)))"

definition create_report ::
  "'s dis_session \<Rightarrow> string \<Rightarrow> string \<Rightarrow> string \<Rightarrow> string \<Rightarrow> evidence_dict list \<Rightarrow> ('s, dexn, string) eff" where
  "create_report S booking_id reporter_id accused_id reason evidences =
     bindE (DisputeRepository_find_open_by_booking_id S booking_id) (\<lambda>existing.
     if existing \<noteq> None then raise (DuplicateOpenDisputeError booking_id)
     else
       bindE (dis_uuid4 S) (\<lambda>dispute_id.
       bindE (evidence_entities S evidences) (\<lambda>es.
       bindE (liftE (Dispute_create_report dispute_id booking_id reporter_id accused_id reason es)) (\<lambda>dispute.
       bindE (DisputeRepository_save S dispute) (\<lambda>dispute.
       bindE (forE (dispute_publish S) (fst (Dispute_clear_events dispute))) (\<lambda>_.
       ret dispute_id))))))"

definition assign_admin :: "'s dis_session \<Rightarrow> string \<Rightarrow> string \<Rightarrow> ('s, dexn, unit) eff" where
  "assign_admin S dispute_id admin_id =
     bindE (DisputeRepository_find_by_id S dispute_id) (\<lambda>found.
     case found of
       None \<Rightarrow> raise (DisputeNotFoundError dispute_id)
     | Some dispute \<Rightarrow>
         bindE (liftE (Dispute_assign_admin dispute admin_id)) (\<lambda>dispute.
         bindE (DisputeRepository_save S dispute) (\<lambda>dispute.
         forE (dispute_publish S) (fst (Dispute_clear_events dispute)))))"

text \<open>The three branches of \<open>resolve_dispute\<close>, up to the publication of the dispute's events.\<close>

definition resolve_branch ::
  "'s dis_session \<Rightarrow> 's ports \<Rightarrow> dispute \<Rightarrow> string \<Rightarrow> string \<Rightarrow> string \<Rightarrow> string \<Rightarrow> ('s, dexn, dispute) eff" where
  "resolve_branch S P dispute dispute_id admin_id resolution notes =
     (if resolution = ''REFUND_CLIENT'' then
        bindE (liftE (Dispute_resolve_refund dispute admin_id notes)) (\<lambda>dispute.
        bindE (DisputeRepository_save S dispute) (\<lambda>dispute.
        bindE (dis_uuid4 S) (\<lambda>saga_id.
        bindE (refund_start S P saga_id dispute_id (d_booking_id dispute)) (\<lambda>_.
        ret dispute))))
      else if resolution = ''PAYOUT_COMPANION'' then
        bindE (liftE (Dispute_resolve_payout dispute admin_id notes)) (\<lambda>dispute.
        bindE (DisputeRepository_save S dispute) (\<lambda>dispute.
        bindE (dis_uuid4 S) (\<lambda>saga_id.
        bindE (payout_start S P saga_id dispute_id (d_booking_id dispute)) (\<lambda>_.
        ret dispute))))
      else if resolution = ''REJECT'' then
        bindE (liftE (Dispute_reject dispute admin_id notes)) (\<lambda>dispute.
        DisputeRepository_save S dispute)
      else raise (InvalidResolutionError resolution VALID_RESOLUTIONS))"

definition resolve_dispute ::
  "'s dis_session \<Rightarrow> 's ports \<Rightarrow> string \<Rightarrow> string \<Rightarrow> string \<Rightarrow> string \<Rightarrow> ('s, dexn, unit) eff" where
  "resolve_dispute S P dispute_id admin_id resolution notes =
     bindE (DisputeRepository_find_by_id S dispute_id) (\<lambda>found.
     case found of
       None \<Rightarrow> raise (DisputeNotFoundError dispute_id)
     | Some dispute \<Rightarrow>
         bindE (resolve_branch S P dispute dispute_id admin_id resolution notes) (\<lambda>dispute.
         forE (dispute_publish S) (fst (Dispute_clear_events dispute))))"

section \<open>Queries\<close>

definition list_disputes :: "'s dis_session \<Rightarrow> string option \<Rightarrow> nat \<Rightarrow> nat \<Rightarrow> ('s, dexn, dispute list \<times> nat) eff" where
  "list_disputes S st offset limit = DisputeRepository_list_by_status S st offset limit"

definition get_dispute_detail :: "'s dis_session \<Rightarrow> string \<Rightarrow> ('s, dexn, dispute) eff" where
  "get_dispute_detail S dispute_id =
     bindE (DisputeRepository_find_by_id S dispute_id) (\<lambda>found.
     case found of None \<Rightarrow> raise (DisputeNotFoundError dispute_id) | Some dispute \<Rightarrow> ret dispute)"

definition get_saga_state :: "'s dis_session \<Rightarrow> string \<Rightarrow> ('s, dexn, saga_kind option) eff" where
  "get_saga_state S dispute_id = SagaStateRepository_find_by_dispute_id S dispute_id"

section \<open>The retry worker\<close>

fun saga_kind_id :: "saga_kind \<Rightarrow> string" where
  "saga_kind_id (RefundSaga g) = sg_saga_id g"
| "saga_kind_id (PayoutSaga g) = sg_saga_id g"

text \<open>
  One saga, in a session of its own: a missing row is skipped without a commit, an exception rolls back
  and is logged.  The orchestrator is chosen by the type the saga had when it was listed and is given the saga
  that was loaded again.  Were that a saga of the other type, the orchestrator would find the methods of its
  own missing: in a state of its own it calls the port, whatever the answer looks for a method the object does
  not have, and so does its exception handler, which raises; in any other state it publishes what is pending.
  A refund saga has no wallet either, which is missed before the payout is requested.
\<close>

definition no_attribute :: "string \<Rightarrow> string \<Rightarrow> dexn" where
  "no_attribute cls attr =
     AttributeErrorD ([CHR 0x27] @ cls @ [CHR 0x27] @ '' object has no attribute '' @ [CHR 0x27] @ attr @ [CHR 0x27])"

definition call_then_raise :: "('s, dexn, 'a) eff \<Rightarrow> dexn \<Rightarrow> ('s, dexn, unit) eff" where
  "call_then_raise call e = bindE (tryE (bindE call (\<lambda>_. ret ())) (\<lambda>_. ret ())) (\<lambda>_. raise e)"

definition refund_process_other :: "'s dis_session \<Rightarrow> 's ports \<Rightarrow> payout_saga \<Rightarrow> ('s, dexn, unit) eff" where
  "refund_process_other S P saga =
     (if sg_current_state saga = ''REFUNDING'' then
        call_then_raise (refund_escrow_to_wallet P (sg_booking_id saga)) (no_attribute ''DisputePayoutSaga'' ''on_refund_failed'')
      else if sg_current_state saga = ''HIDING_REVIEW'' then
        call_then_raise (hide_review_and_lock_chat P (sg_booking_id saga))
          (no_attribute ''DisputePayoutSaga'' ''on_hide_review_failed'')
      else forget_local (publish_saga_events S saga))"

definition payout_process_other :: "'s dis_session \<Rightarrow> 's ports \<Rightarrow> refund_saga \<Rightarrow> ('s, dexn, unit) eff" where
  "payout_process_other S P saga =
     (if sg_current_state saga = ''PAYING_OUT'' then raise (no_attribute ''DisputeRefundSaga'' ''on_payout_failed'')
      else if sg_current_state saga = ''LOCKING_CHAT'' then
        call_then_raise (lock_chat_room P (sg_booking_id saga)) (no_attribute ''DisputeRefundSaga'' ''on_lock_chat_failed'')
      else forget_local (publish_saga_events S saga))"

fun retry_process :: "'s dis_session \<Rightarrow> 's ports \<Rightarrow> saga_kind \<Rightarrow> saga_kind \<Rightarrow> ('s, dexn, unit) eff" where
  "retry_process S P (RefundSaga listed) (RefundSaga saga) = forget_local (refund_process_saga S P saga)"
| "retry_process S P (PayoutSaga listed) (PayoutSaga saga) = forget_local (payout_process_saga S P saga)"
| "retry_process S P (RefundSaga listed) (PayoutSaga saga) = refund_process_other S P saga"
| "retry_process S P (PayoutSaga listed) (RefundSaga saga) = payout_process_other S P saga"

definition retry_saga :: "'s dis_session \<Rightarrow> 's ports \<Rightarrow> saga_kind \<Rightarrow> ('s, dexn, unit) eff" where
  "retry_saga S P listed =
     bindE (dis_open S) (\<lambda>_.
     tryE
       (bindE (SagaStateRepository_find_by_id S (saga_kind_id listed)) (\<lambda>found.
        case found of
          None \<Rightarrow> ret ()
        | Some saga \<Rightarrow>
            bindE (retry_process S P listed saga) (\<lambda>_.
            dis_commit S)))
       (\<lambda>e. dis_rollback S))"

definition retry_pending_sagas :: "'s dis_session \<Rightarrow> 's ports \<Rightarrow> ('s, dexn, unit) eff" where
  "retry_pending_sagas S P =
     bindE (dis_open S) (\<lambda>_.
     bindE (SagaStateRepository_find_pending_retries S 20) (\<lambda>pending.
     forE (retry_saga S P) pending))"

text \<open>One turn of the worker's loop.\<close>

definition retry_poll_step :: "'s dis_session \<Rightarrow> 's ports \<Rightarrow> ('s, dexn, unit) eff" where
  "retry_poll_step S P = tryE (retry_pending_sagas S P) (\<lambda>e. ret ())"

definition saga_poll_loop :: "'s dis_session \<Rightarrow> 's ports \<Rightarrow> nat \<Rightarrow> wake \<Rightarrow> ('s, dexn raised, unit) eff" where
  "saga_poll_loop S P n w = poll_loop (retry_pending_sagas S P) n w"

end
