(* ===== verification/Dispute_Machines.thy ===== *)
theory Dispute_Machines
  imports Dispute_Domain
begin

text \<open>
  The state machines of the dispute service as specifications, and that the commands of the aggregate and
  of the sagas follow them: \<open>dispute_step\<close> is the life of a dispute, \<open>saga_step\<close> the life of a saga with
  the two names of its states.  The invariants relate the status to the other fields.
\<close>

named_theorems command_defs "the commands of the aggregates"

lemmas dispute_command_defs [command_defs] =
  Dispute_assign_admin_def Dispute_resolve_refund_def Dispute_resolve_payout_def Dispute_reject_def
  Dispute_add_evidence_def assert_valid_transition_def assert_not_terminal_def Dispute_add_event_def
  VALID_TRANSITIONS_def TERMINAL_STATES_def
  on_refund_success_def on_refund_failed_def on_hide_review_success_def on_hide_review_failed_def
  on_payout_success_def on_payout_failed_def on_lock_chat_success_def on_lock_chat_failed_def saga_add_event_def

section \<open>Disputes\<close>

inductive dispute_step :: "string \<Rightarrow> string \<Rightarrow> bool" where
  step_assign: "dispute_step ''OPEN'' ''RESOLVING''"
| step_refund: "dispute_step ''RESOLVING'' ''REFUNDED''"
| step_payout: "dispute_step ''RESOLVING'' ''PAID_OUT''"
| step_reject: "dispute_step ''RESOLVING'' ''REJECTED''"

inductive_simps dispute_step_simps: "dispute_step a b"

text \<open>The commands an aggregate accepts.\<close>

datatype dispute_cmd =
    AssignCmd string
  | RefundCmd string string
  | PayoutCmd string string
  | RejectCmd string string
  | EvidenceCmd evidence

fun dispute_do :: "dispute_cmd \<Rightarrow> dispute \<Rightarrow> dexn + dispute" where
  "dispute_do (AssignCmd a) d = Dispute_assign_admin d a"
| "dispute_do (RefundCmd a n) d = Dispute_resolve_refund d a n"
| "dispute_do (PayoutCmd a n) d = Dispute_resolve_payout d a n"
| "dispute_do (RejectCmd a n) d = Dispute_reject d a n"
| "dispute_do (EvidenceCmd e) d = Dispute_add_evidence d e"

fun is_evidence :: "dispute_cmd \<Rightarrow> bool" where
  "is_evidence (EvidenceCmd e) = True"
| "is_evidence _ = False"

lemma dispute_do_step:
  assumes "dispute_do c d = Inr d'"
  shows "if is_evidence c then d_status d' = d_status d else dispute_step (d_status d) (d_status d')"
  using assms by (cases c) (auto simp: command_defs dispute_step_simps split: if_splits)

lemma dispute_do_terminal:
  "d_status d \<in> TERMINAL_STATES \<Longrightarrow> dispute_do c d = Inl (DisputeAlreadyResolvedError (d_dispute_id d) (d_status d))"
  by (cases c) (simp_all add: command_defs)

text \<open>A dispute from its report on, through commands that return; a command that raises changes nothing.\<close>

inductive dispute_life :: "dispute \<Rightarrow> bool" where
  life_report: "Dispute_create_report i b r a reason es = Inr d \<Longrightarrow> dispute_life d"
| life_command: "dispute_life d \<Longrightarrow> dispute_do c d = Inr d' \<Longrightarrow> dispute_life d'"

definition decision :: "string \<Rightarrow> string option" where
  "decision st = (if st = ''REFUNDED'' then Some ''REFUND_CLIENT'' else if st = ''PAID_OUT'' then Some ''PAYOUT_COMPANION''
     else if st = ''REJECTED'' then Some ''REJECT'' else None)"

definition dispute_inv :: "dispute \<Rightarrow> bool" where
  "dispute_inv d \<longleftrightarrow> d_status d \<in> {''OPEN'', ''RESOLVING''} \<union> TERMINAL_STATES \<and> d_reason d \<in> set VALID_REASONS \<and>
     d_resolution d = decision (d_status d) \<and> (d_admin_id d = None \<longleftrightarrow> d_status d = ''OPEN'') \<and>
     (d_notes d = None \<longleftrightarrow> decision (d_status d) = None)"

lemma dispute_do_inv: "dispute_do c d = Inr d' \<Longrightarrow> dispute_inv d \<Longrightarrow> dispute_inv d'"
  by (cases c) (auto simp: command_defs dispute_inv_def decision_def split: if_splits)

lemma create_report_inv: "Dispute_create_report i b r a reason es = Inr d \<Longrightarrow> dispute_inv d"
  by (auto simp: Dispute_create_report_def DisputeReason_def dispute_inv_def decision_def Dispute_add_event_def Let_def
      split: if_splits)

lemma dispute_life_inv: "dispute_life d \<Longrightarrow> dispute_inv d"
  by (induction rule: dispute_life.induct) (auto intro: create_report_inv dispute_do_inv)

section \<open>Sagas\<close>

text \<open>
  Both sagas are one machine with three state names: the step that moves money, the step at the
  interaction service, and the end.  Failures of the second step are retried in place.
\<close>

inductive saga_step :: "string \<times> string \<times> string \<Rightarrow> string \<times> int \<times> string option \<Rightarrow> string \<times> int \<times> string option \<Rightarrow> bool"
  for names where
  saga_paid: "names = (pay, act, fin) \<Longrightarrow> saga_step names (pay, n, e) (act, n, None)"
| saga_pay_failed: "names = (pay, act, fin) \<Longrightarrow> saga_step names (pay, n, e) (''DISPUTE_FAILED'', n, Some err)"
| saga_done: "names = (pay, act, fin) \<Longrightarrow> saga_step names (act, n, e) (fin, n, None)"
| saga_retry: "names = (pay, act, fin) \<Longrightarrow> saga_step names (act, n, e) (act, n + 1, Some err)"

definition refund_names :: "string \<times> string \<times> string" where
  "refund_names = (''REFUNDING'', ''HIDING_REVIEW'', ''DISPUTE_RESOLVED_REFUNDED'')"

definition payout_names :: "string \<times> string \<times> string" where
  "payout_names = (''PAYING_OUT'', ''LOCKING_CHAT'', ''DISPUTE_RESOLVED_PAID_OUT'')"

definition saga_abs :: "'a saga_scheme \<Rightarrow> string \<times> int \<times> string option" where
  "saga_abs g = (sg_current_state g, sg_retry_count g, sg_last_error g)"

datatype saga_cmd = PaidCmd | PayFailedCmd string | ActedCmd | ActFailedCmd string

fun refund_do :: "saga_cmd \<Rightarrow> refund_saga \<Rightarrow> dexn + refund_saga" where
  "refund_do PaidCmd g = on_refund_success g"
| "refund_do (PayFailedCmd e) g = on_refund_failed g e"
| "refund_do ActedCmd g = on_hide_review_success g"
| "refund_do (ActFailedCmd e) g = on_hide_review_failed g e"

fun payout_do :: "saga_cmd \<Rightarrow> payout_saga \<Rightarrow> dexn + payout_saga" where
  "payout_do PaidCmd g = on_payout_success g"
| "payout_do (PayFailedCmd e) g = on_payout_failed g e"
| "payout_do ActedCmd g = on_lock_chat_success g"
| "payout_do (ActFailedCmd e) g = on_lock_chat_failed g e"

lemma refund_do_step: "refund_do c g = Inr g' \<Longrightarrow> saga_step refund_names (saga_abs g) (saga_abs g')"
  by (cases c) (auto simp: command_defs saga_abs_def refund_names_def intro: saga_step.intros split: if_splits)

lemma payout_do_step: "payout_do c g = Inr g' \<Longrightarrow> saga_step payout_names (saga_abs g) (saga_abs g')"
  by (cases c) (auto simp: command_defs saga_abs_def payout_names_def intro: saga_step.intros split: if_splits)

text \<open>What holds along every run: money moves at most once, and an error is recorded exactly when there was one.\<close>

definition saga_inv :: "string \<times> string \<times> string \<Rightarrow> string \<times> int \<times> string option \<Rightarrow> bool" where
  "saga_inv names a = (case names of (pay, act, fin) \<Rightarrow> case a of (st, n, e) \<Rightarrow>
     0 \<le> n \<and> st \<in> {pay, act, fin, ''DISPUTE_FAILED''} \<and>
     (st \<in> {pay, ''DISPUTE_FAILED''} \<longrightarrow> n = 0) \<and> (st \<in> {pay, fin} \<longrightarrow> e = None) \<and>
     (st = ''DISPUTE_FAILED'' \<longrightarrow> e \<noteq> None) \<and> (st = act \<longrightarrow> (e = None \<longleftrightarrow> n = 0)))"

lemma saga_step_inv:
  assumes "saga_step names a a'" "distinct [fst names, fst (snd names), snd (snd names), ''DISPUTE_FAILED'']" "saga_inv names a"
  shows "saga_inv names a'"
  using assms by (cases rule: saga_step.cases) (auto simp: saga_inv_def)

lemma saga_names_distinct:
  "distinct [fst refund_names, fst (snd refund_names), snd (snd refund_names), ''DISPUTE_FAILED'']"
  "distinct [fst payout_names, fst (snd payout_names), snd (snd payout_names), ''DISPUTE_FAILED'']"
  by (simp_all add: refund_names_def payout_names_def)

lemma saga_create_inv:
  "saga_inv refund_names (saga_abs (RefundSaga_create i d b))"
  "saga_inv payout_names (saga_abs (PayoutSaga_create i d b w r))"
  by (simp_all add: saga_inv_def saga_abs_def refund_names_def payout_names_def RefundSaga_create_def PayoutSaga_create_def)

text \<open>A run of saga commands; \<open>Inl\<close> when one of them raises.\<close>

fun saga_run :: "('c \<Rightarrow> 'g \<Rightarrow> dexn + 'g) \<Rightarrow> 'c list \<Rightarrow> 'g \<Rightarrow> dexn + 'g" where
  "saga_run f [] g = Inr g"
| "saga_run f (c # cs) g = bindS (f c g) (saga_run f cs)"

lemma saga_run_snoc: "saga_run f (cs @ [c]) g = bindS (saga_run f cs g) (f c)"
  by (induction cs arbitrary: g) (simp_all add: bindS_def split: sum.splits)

text \<open>
  A run read off the reports alone.  \<open>saga_word\<close> says which reports may follow one another: one report of
  the payment; after a payment that was made, any number of failed second steps, and possibly one that was
  done.  \<open>saga_after\<close> is where a run ends: the state is decided by the last report, the retries count the
  failed second steps, the error is the one of the last report, if that is a failure.
\<close>

fun failed_with :: "saga_cmd \<Rightarrow> string option" where
  "failed_with (PayFailedCmd e) = Some e"
| "failed_with (ActFailedCmd e) = Some e"
| "failed_with _ = None"

fun is_act_failed :: "saga_cmd \<Rightarrow> bool" where
  "is_act_failed (ActFailedCmd e) = True"
| "is_act_failed _ = False"

fun acting_word :: "saga_cmd list \<Rightarrow> bool" where
  "acting_word [] = True"
| "acting_word (ActFailedCmd e # cs) = acting_word cs"
| "acting_word (ActedCmd # cs) = (cs = [])"
| "acting_word (_ # cs) = False"

fun saga_word :: "saga_cmd list \<Rightarrow> bool" where
  "saga_word [] = True"
| "saga_word (PaidCmd # cs) = acting_word cs"
| "saga_word (PayFailedCmd e # cs) = (cs = [])"
| "saga_word (_ # cs) = False"

fun reached :: "string \<times> string \<times> string \<Rightarrow> saga_cmd \<Rightarrow> string" where
  "reached (pay, act, fin) PaidCmd = act"
| "reached (pay, act, fin) (PayFailedCmd e) = ''DISPUTE_FAILED''"
| "reached (pay, act, fin) ActedCmd = fin"
| "reached (pay, act, fin) (ActFailedCmd e) = act"

definition saga_after :: "string \<times> string \<times> string \<Rightarrow> saga_cmd list \<Rightarrow> string \<times> int \<times> string option" where
  "saga_after names cs =
     (if cs = [] then fst names else reached names (last cs), int (length (filter is_act_failed cs)),
      if cs = [] then None else failed_with (last cs))"

text \<open>The errors a list of events announces.\<close>

fun step_error :: "dispute_event \<Rightarrow> string option" where
  "step_error (SagaStepFailed g d s e n) = Some e"
| "step_error _ = None"

definition announced :: "dispute_event list \<Rightarrow> string list" where
  "announced evs = List.map_filter step_error evs"

lemma announced_simps [simp]:
  "announced [] = []" "announced (xs @ ys) = announced xs @ announced ys"
  "announced [ev] = (case step_error ev of None \<Rightarrow> [] | Some e \<Rightarrow> [e])"
  by (auto simp: announced_def List.map_filter_def split: option.splits)

definition announced_by :: "saga_cmd \<Rightarrow> string list" where
  "announced_by c = (case failed_with c of None \<Rightarrow> [] | Some e \<Rightarrow> [e])"

text \<open>The state in which a report is accepted.\<close>

fun awaited :: "string \<times> string \<times> string \<Rightarrow> saga_cmd \<Rightarrow> string" where
  "awaited (pay, act, fin) PaidCmd = pay"
| "awaited (pay, act, fin) (PayFailedCmd e) = pay"
| "awaited (pay, act, fin) ActedCmd = act"
| "awaited (pay, act, fin) (ActFailedCmd e) = act"

lemma acting_word_snoc:
  "acting_word (cs @ [c]) \<longleftrightarrow> acting_word cs \<and> (cs \<noteq> [] \<longrightarrow> is_act_failed (last cs)) \<and> (is_act_failed c \<or> c = ActedCmd)"
  by (induction cs rule: acting_word.induct) (cases c; auto)+

lemma acting_word_last: "acting_word bs \<Longrightarrow> bs \<noteq> [] \<Longrightarrow> is_act_failed (last bs) \<or> last bs = ActedCmd"
  by (cases bs rule: rev_cases) (auto simp: acting_word_snoc)

lemma saga_word_snoc:
  assumes "distinct [fst names, fst (snd names), snd (snd names), ''DISPUTE_FAILED'']"
  shows "saga_word (cs @ [c]) \<longleftrightarrow> saga_word cs \<and> fst (saga_after names cs) = awaited names c"
proof (cases names)
  case (fields pay act fin)
  show ?thesis
  proof (cases cs)
    case Nil
    with assms fields show ?thesis by (cases c) (auto simp: saga_after_def)
  next
    case (Cons b bs)
    show ?thesis
    proof (cases "bs = []")
      case True
      with assms fields Cons show ?thesis by (cases b; cases c) (auto simp: saga_after_def)
    next
      case False
      with assms fields Cons show ?thesis
        by (cases b; cases c; cases "last bs") (auto simp: saga_after_def acting_word_snoc dest: acting_word_last)
    qed
  qed
qed

text \<open>
  What the runs of both sagas share: commands that follow the machine, a payment that is reported only in
  the paying state.
\<close>

locale saga_commands =
  fixes f :: "saga_cmd \<Rightarrow> 'a saga_scheme \<Rightarrow> dexn + 'a saga_scheme" and names :: "string \<times> string \<times> string"
  assumes f_step: "f c g = Inr g' \<Longrightarrow> saga_step names (saga_abs g) (saga_abs g')"
    and f_paid: "f PaidCmd g = Inr g' \<Longrightarrow> sg_current_state g = fst names \<and> sg_current_state g' \<noteq> fst names"
    and f_accepts: "(\<exists>g'. f c g = Inr g') \<longleftrightarrow> sg_current_state g = awaited names c"
    and f_next: "f c g = Inr g' \<Longrightarrow> saga_abs g' =
        (reached names c, sg_retry_count g + of_bool (is_act_failed c), failed_with c) \<and>
      announced (sg_events g') = announced (sg_events g) @ announced_by c"
    and f_names: "distinct [fst names, fst (snd names), snd (snd names), ''DISPUTE_FAILED'']"
begin

text \<open>What a run ends in: exactly the words return, and the reports decide state, retries, error and announcements.\<close>

lemma run_exact:
  assumes "saga_abs g0 = (fst names, 0, None)" "announced (sg_events g0) = []"
  shows "case saga_run f cs g0 of Inl e \<Rightarrow> \<not> saga_word cs
    | Inr g \<Rightarrow> saga_word cs \<and> saga_abs g = saga_after names cs \<and>
        announced (sg_events g) = List.map_filter failed_with cs"
proof (induction cs rule: rev_induct)
  case Nil
  with assms show ?case by (simp add: saga_after_def List.map_filter_def)
next
  case (snoc c cs)
  show ?case
  proof (cases "saga_run f cs g0")
    case (Inl e)
    with snoc.IH show ?thesis by (simp add: saga_run_snoc bindS_def saga_word_snoc [OF f_names])
  next
    case (Inr g)
    with snoc.IH have g: "saga_word cs" "saga_abs g = saga_after names cs"
      "announced (sg_events g) = List.map_filter failed_with cs" by simp_all
    have run: "saga_run f (cs @ [c]) g0 = f c g" by (simp add: saga_run_snoc bindS_def Inr)
    have st: "sg_current_state g = fst (saga_after names cs)" "sg_retry_count g = int (length (filter is_act_failed cs))"
      using g(2) by (simp_all add: saga_abs_def saga_after_def)
    show ?thesis
    proof (cases "f c g")
      case Inl1: (Inl e)
      then have "sg_current_state g \<noteq> awaited names c" using f_accepts [of c g] by auto
      with Inl1 run st show ?thesis by (simp add: saga_word_snoc [OF f_names])
    next
      case Inr1: (Inr g')
      then have "sg_current_state g = awaited names c" using f_accepts [of c g] by blast
      with f_next [OF Inr1] g st show ?thesis
        by (auto simp: run Inr1 saga_word_snoc [OF f_names] saga_after_def announced_by_def List.map_filter_def
            split: option.splits)
    qed
  qed
qed

lemma run_inv:
  "saga_run f cs g = Inr g' \<Longrightarrow> saga_inv names (saga_abs g) \<Longrightarrow> saga_inv names (saga_abs g')"
proof (induction cs arbitrary: g)
  case (Cons c cs)
  then obtain g1 where "f c g = Inr g1" "saga_run f cs g1 = Inr g'" by (auto simp: bindS_eq_Inr_iff)
  with Cons.IH Cons.prems(2) saga_step_inv [OF f_step f_names] show ?case by blast
qed simp

lemma step_leaves_pay: "f c g = Inr g' \<Longrightarrow> sg_current_state g \<noteq> fst names \<Longrightarrow> sg_current_state g' \<noteq> fst names"
  using f_step [of c g g'] f_names by (auto simp: saga_abs_def elim!: saga_step.cases)

lemma run_left_pay:
  "saga_run f cs g = Inr g' \<Longrightarrow> sg_current_state g \<noteq> fst names \<Longrightarrow> PaidCmd \<notin> set cs"
proof (induction cs arbitrary: g)
  case (Cons c cs)
  then obtain g1 where g1: "f c g = Inr g1" and run: "saga_run f cs g1 = Inr g'"
    by (auto simp: bindS_eq_Inr_iff)
  with Cons.IH [OF run step_leaves_pay [OF g1 Cons.prems(2)]] Cons.prems(2) show ?case by (auto dest: f_paid)
qed simp

text \<open>The money moves at most once.\<close>

lemma run_paid_once:
  "saga_run f cs g = Inr g' \<Longrightarrow> length (filter (\<lambda>c. c = PaidCmd) cs) \<le> 1"
proof (induction cs arbitrary: g)
  case (Cons c cs)
  then obtain g1 where g1: "f c g = Inr g1" and run: "saga_run f cs g1 = Inr g'"
    by (auto simp: bindS_eq_Inr_iff)
  show ?case
  proof (cases "c = PaidCmd")
    case True
    with g1 f_paid have "sg_current_state g1 \<noteq> fst names" by blast
    with run_left_pay [OF run] True show ?thesis by (auto simp: filter_empty_conv)
  next
    case False
    with Cons.IH [OF run] show ?thesis by simp
  qed
qed simp

end

lemma refund_do_exact:
  "(\<exists>g'. refund_do c g = Inr g') \<longleftrightarrow> sg_current_state g = awaited refund_names c"
  "refund_do c g = Inr g' \<Longrightarrow>
    saga_abs g' = (reached refund_names c, sg_retry_count g + of_bool (is_act_failed c), failed_with c) \<and>
    announced (sg_events g') = announced (sg_events g) @ announced_by c"
  by (cases c; auto simp: command_defs refund_names_def saga_abs_def announced_by_def split: if_splits)+

lemma payout_do_exact:
  "(\<exists>g'. payout_do c g = Inr g') \<longleftrightarrow> sg_current_state g = awaited payout_names c"
  "payout_do c g = Inr g' \<Longrightarrow>
    saga_abs g' = (reached payout_names c, sg_retry_count g + of_bool (is_act_failed c), failed_with c) \<and>
    announced (sg_events g') = announced (sg_events g) @ announced_by c"
  by (cases c; auto simp: command_defs payout_names_def saga_abs_def announced_by_def split: if_splits)+

interpretation refund_saga: saga_commands refund_do refund_names
  using refund_do_step refund_do_exact saga_names_distinct(1)
  by unfold_locales (auto simp: command_defs refund_names_def split: if_splits)

interpretation payout_saga: saga_commands payout_do payout_names
  using payout_do_step payout_do_exact saga_names_distinct(2)
  by unfold_locales (auto simp: command_defs payout_names_def split: if_splits)

lemma saga_create_start:
  "saga_abs (RefundSaga_create i d b) = (fst refund_names, 0, None)" "announced (sg_events (RefundSaga_create i d b)) = []"
  "saga_abs (PayoutSaga_create i d b w r) = (fst payout_names, 0, None)" "announced (sg_events (PayoutSaga_create i d b w r)) = []"
  by (simp_all add: saga_abs_def RefundSaga_create_def PayoutSaga_create_def refund_names_def payout_names_def)

text \<open>The status a command aims at.\<close>

fun target :: "dispute_cmd \<Rightarrow> string" where
  "target (AssignCmd a) = ''RESOLVING''"
| "target (RefundCmd a n) = ''REFUNDED''"
| "target (PayoutCmd a n) = ''PAID_OUT''"
| "target (RejectCmd a n) = ''REJECTED''"
| "target (EvidenceCmd e) = ''''"

text \<open>A command returns exactly when the machine has the step.\<close>

lemma dispute_do_iff:
  assumes "\<not> is_evidence c"
  shows "case dispute_do c d of
      Inr d' \<Rightarrow> dispute_step (d_status d) (target c) \<and> d_status d' = target c
    | Inl e \<Rightarrow> \<not> dispute_step (d_status d) (target c)"
  using assms by (cases c) (auto simp: command_defs dispute_step_simps split: if_splits)

end
