(* ===== verification/Dispute_Session.thy ===== *)
theory Dispute_Session
  imports Dispute_Commands Dispute_Machines
begin

text \<open>
  The laws of the dispute session and of the ports, the contract the repositories give the commands, and
  a reference session on association lists that satisfies the laws.  \<open>dis_ok\<close> is the well-formedness of
  the stored content.
\<close>

definition dis_ok :: "dis_db \<Rightarrow> bool" where
  "dis_ok db \<longleftrightarrow> table_ok dm_dispute_id dm_booking_id (disputes db) \<and> table_ok sm_saga_id sm_saga_id (sagas db) \<and>
     (\<forall>r\<in>ran (disputes db). dispute_fits r \<and> dm_reason r \<in> set VALID_REASONS) \<and>
     (\<forall>r\<in>ran (sagas db). saga_fits r \<and> sm_saga_type r \<in> {''REFUND'', ''PAYOUT''})"

lemma dis_ok_tables:
  assumes "dis_ok db"
  shows "table_ok dm_dispute_id dm_booking_id (disputes db)" "table_ok sm_saga_id sm_saga_id (sagas db)"
    "r \<in> ran (disputes db) \<Longrightarrow> dispute_fits r \<and> dm_reason r \<in> set VALID_REASONS"
    "g \<in> ran (sagas db) \<Longrightarrow> saga_fits g \<and> sm_saga_type g \<in> {''REFUND'', ''PAYOUT''}"
  using assms by (simp_all add: dis_ok_def)

locale dis_session =
  dt: sql_versioned "dispute_merge S" "dispute_select S" view com disputes "\<lambda>m. disputes_update (\<lambda>_. m)"
    dm_dispute_id dm_booking_id dispute_fits dispute_agree dm_version +
  st: sql_versioned "saga_merge S" "saga_select S" view com sagas "\<lambda>m. sagas_update (\<lambda>_. m)"
    sm_saga_id sm_saga_id saga_fits saga_agree sm_version +
  tx: sql_txn "dis_commit S" "dis_rollback S" view com +
  uu: sql_frame "dis_uuid4 S" view com +
  nw: sql_frame "dis_utcnow S" view com
  for S :: "'s dis_session" and view :: "'s \<Rightarrow> dis_db" and com :: "'s \<Rightarrow> dis_db" +
  assumes dis_open_ok: "dis_open S s = (Inr u, s') \<Longrightarrow> view s' = com s"
    and dis_open_com: "com (snd (dis_open S s)) = com s"
    and dis_uuid_length: "dis_uuid4 S s = (Inr i, s') \<Longrightarrow> length i = 36"
    and dis_outbox_ok: "dis_outbox_add S ob s = (Inr u, s') \<Longrightarrow>
      (\<exists>r'. outbox_agree ob r' \<and> view s' = (view s)\<lparr>d_outbox := d_outbox (view s) @ [r']\<rparr>)"
    and dis_outbox_com: "com (snd (dis_outbox_add S ob s)) = com s"
    and dis_count_frame: "dispute_count S P s = (Inr n, s') \<Longrightarrow> view s' = view s"
    and dis_count_com: "com (snd (dispute_count S P s)) = com s"
    and dis_page_frame: "dispute_page S P off lim s = (Inr rs, s') \<Longrightarrow> view s' = view s"
    and dis_page_com: "com (snd (dispute_page S P off lim s)) = com s"
    and saga_limit_ok: "saga_limit S Q lim s = (Inr gs, s') \<Longrightarrow> table_ok sm_saga_id sm_saga_id (sagas (view s)) \<Longrightarrow>
      (\<exists>all. gs = take lim all \<and> set all = {g \<in> ran (sagas (view s)). Q g} \<and> distinct (map sm_saga_id all)) \<and>
      view s' = view s"
    and saga_limit_com: "com (snd (saga_limit S Q lim s)) = com s"
begin

lemma dis_keeps [keep_intros]:
  "keeps com (dis_open S)" "keeps com (dis_outbox_add S ob)" "keeps com (dispute_count S P)"
  "keeps com (dispute_page S P off lim)" "keeps com (saga_limit S Q lim)"
  by (simp_all add: keeps_def dis_open_com dis_outbox_com dis_count_com dis_page_com saga_limit_com)

lemma dispute_publish_keeps [keep_intros]: "keeps com (dispute_publish S ev)"
  unfolding dispute_publish_def by (intro keep_intros)

lemma repo_keeps [keep_intros]:
  "keeps com (DisputeRepository_save S d)" "keeps com (refund_save S g)" "keeps com (payout_save S p)"
  "keeps com (find_dispute S P)" "keeps com (SagaStateRepository_find_by_id S i)"
  "keeps com (SagaStateRepository_find_by_dispute_id S i)" "keeps com (SagaStateRepository_find_pending_retries S n)"
  "keeps com (DisputeRepository_list_by_status S q off lim)"
  unfolding DisputeRepository_save_def refund_save_def payout_save_def find_dispute_def SagaStateRepository_find_by_id_def
    SagaStateRepository_find_by_dispute_id_def SagaStateRepository_find_pending_retries_def
    DisputeRepository_list_by_status_def Let_def
  by (intro keep_intros)+

lemma find_keeps [keep_intros]:
  "keeps com (DisputeRepository_find_by_id S i)" "keeps com (DisputeRepository_find_by_booking_id S i)"
  "keeps com (DisputeRepository_find_open_by_booking_id S i)"
  unfolding DisputeRepository_find_by_id_def DisputeRepository_find_by_booking_id_def
    DisputeRepository_find_open_by_booking_id_def by (intro keep_intros)+

text \<open>Publishing adds at most one row to the outbox.\<close>

lemma dispute_publish_view:
  assumes "dispute_publish S ev s = (Inr u, s')"
  shows "disputes (view s') = disputes (view s) \<and> sagas (view s') = sagas (view s)"
  using assms unfolding dispute_publish_def
  by (fastforce simp: bindE_eq_Inr_iff liftE_run ret_run split: option.splits
      dest: uu.frame_ok nw.frame_ok dis_outbox_ok)

lemma dispute_publish_all_view:
  "forE (dispute_publish S) es s = (Inr u, s') \<Longrightarrow> disputes (view s') = disputes (view s) \<and> sagas (view s') = sagas (view s)"
  by (induction es arbitrary: s) (auto simp: ret_run bindE_eq_Inr_iff dest!: dispute_publish_view)

end

section \<open>Ports\<close>

text \<open>The other services have databases of their own: a port never touches the tables of this one.\<close>

locale ports_frame =
  fixes P :: "'s ports" and view :: "'s \<Rightarrow> dis_db" and com :: "'s \<Rightarrow> dis_db"
  assumes ports_view: "keeps view (refund_escrow_to_wallet P b)" "keeps view (payout_from_escrow P b w r)"
      "keeps view (get_payout_snapshot P b)" "keeps view (hide_review_and_lock_chat P b)" "keeps view (lock_chat_room P b)"
    and ports_com: "keeps com (refund_escrow_to_wallet P b)" "keeps com (payout_from_escrow P b w r)"
      "keeps com (get_payout_snapshot P b)" "keeps com (hide_review_and_lock_chat P b)" "keeps com (lock_chat_room P b)"

section \<open>A session that stays up\<close>

locale dis_session_live = dis_session S view com +
  dtl: sql_versioned_live "dispute_merge S" "dispute_select S" view com disputes "\<lambda>m. disputes_update (\<lambda>_. m)"
    dm_dispute_id dm_booking_id dispute_fits dispute_agree dm_version +
  stl: sql_versioned_live "saga_merge S" "saga_select S" view com sagas "\<lambda>m. sagas_update (\<lambda>_. m)"
    sm_saga_id sm_saga_id saga_fits saga_agree sm_version +
  txl: sql_txn_live "dis_commit S" "dis_rollback S" view com +
  uul: sql_frame_live "dis_uuid4 S" view com +
  nwl: sql_frame_live "dis_utcnow S" view com
  for S :: "'s dis_session" and view :: "'s \<Rightarrow> dis_db" and com :: "'s \<Rightarrow> dis_db" +
  assumes dis_open_live: "\<exists>s'. dis_open S s = (Inr (), s')"
    and dis_pb_live: "pb_encodable m \<Longrightarrow> \<exists>j. dis_pb_json S m = Inr j"
    and dis_outbox_live: "\<exists>s'. dis_outbox_add S r s = (Inr (), s')"
    and saga_limit_live: "\<exists>rs s'. saga_limit S Q lim s = (Inr rs, s')"

end
