(* ===== verification/Dispute_Interfaces.thy ===== *)
theory Dispute_Interfaces
  imports Dispute_Commands Web
begin

text \<open>
  The outer layer of the dispute service: the adapters to the finance and interaction services, the gRPC
  servicer, the REST routes, the messages of the outbox worker and the cleanup of processed events.  The
  generated gRPC stubs are parameters (\<open>None\<close> when the generated modules cannot be imported).
\<close>

section \<open>Adapters\<close>

definition refused :: "string \<Rightarrow> port_result" where
  "refused e = \<lparr>pr_success = False, pr_transaction_id = None, pr_error = Some e\<rparr>"

definition granted :: "string \<Rightarrow> port_result" where
  "granted t = \<lparr>pr_success = True, pr_transaction_id = Some t, pr_error = None\<rparr>"

text \<open>The float \<open>0.15\<close>.\<close>

definition rate_015 :: py_float where
  "rate_015 = Fin 5404319552844595 (-55)"

definition payout_snapshot :: "string \<Rightarrow> ('s, dexn, string \<times> py_float) eff" where
  "payout_snapshot booking_id = ret (''wallet-'' @ booking_id, rate_015)"

definition mock_ports :: "'s dis_session \<Rightarrow> 's ports" where
  "mock_ports S =
     \<lparr>refund_escrow_to_wallet = (\<lambda>booking_id. bindE (dis_uuid4 S) (\<lambda>i. ret (granted i))),
      payout_from_escrow = (\<lambda>booking_id companion_wallet_id commission_rate. bindE (dis_uuid4 S) (\<lambda>i. ret (granted i))),
      get_payout_snapshot = payout_snapshot,
      hide_review_and_lock_chat = (\<lambda>booking_id. ret True),
      lock_chat_room = (\<lambda>booking_id. ret True)\<rparr>"

text \<open>The reply of a command of the other service: status, message, transaction.\<close>

record rpc_response =
  rp_status :: string
  rp_message :: string
  rp_transaction_id :: string

record 's finance_stub =
  RefundEscrow_rpc :: "string \<Rightarrow> string \<Rightarrow> int \<Rightarrow> ('s, dexn, rpc_response) eff"
  ProcessPayout_rpc :: "string \<Rightarrow> string \<Rightarrow> py_float \<Rightarrow> ('s, dexn, rpc_response) eff"

record 's interaction_stub =
  HideReview_rpc :: "string \<Rightarrow> string \<Rightarrow> ('s, dexn, rpc_response) eff"
  LockChatRoom_rpc :: "string \<Rightarrow> ('s, dexn, rpc_response) eff"

definition result_of :: "rpc_response \<Rightarrow> port_result" where
  "result_of response =
     (if rp_status response = ''FAILED'' then refused (rp_message response) else granted (rp_transaction_id response))"

definition grpc_refund_escrow_to_wallet ::
  "(string list \<Rightarrow> string) \<Rightarrow> 's finance_stub option \<Rightarrow> string \<Rightarrow> ('s, dexn, port_result) eff" where
  "grpc_refund_escrow_to_wallet repr stub booking_id =
     (case stub of
        None \<Rightarrow> ret (refused ''gRPC stubs not found'')
      | Some st \<Rightarrow>
          tryE (bindE (RefundEscrow_rpc st booking_id '''' 0) (\<lambda>response. ret (result_of response)))
            (\<lambda>e. ret (refused (dexn_str repr e))))"

text \<open>A scalar field of a request that is given \<open>None\<close> keeps its default.\<close>

definition grpc_payout_from_escrow ::
  "(string list \<Rightarrow> string) \<Rightarrow> 's finance_stub option \<Rightarrow> string \<Rightarrow> string option \<Rightarrow> py_float option \<Rightarrow> ('s, dexn, port_result) eff" where
  "grpc_payout_from_escrow repr stub booking_id companion_wallet_id commission_rate =
     (case stub of
        None \<Rightarrow> ret (refused ''gRPC stubs not found'')
      | Some st \<Rightarrow>
          tryE
            (bindE (ProcessPayout_rpc st booking_id (case companion_wallet_id of None \<Rightarrow> '''' | Some w \<Rightarrow> w)
               (case commission_rate of None \<Rightarrow> Fin 0 0 | Some r \<Rightarrow> r)) (\<lambda>response. ret (result_of response)))
            (\<lambda>e. ret (refused (dexn_str repr e))))"

definition grpc_hide_review_and_lock_chat :: "'s interaction_stub option \<Rightarrow> string \<Rightarrow> ('s, dexn, bool) eff" where
  "grpc_hide_review_and_lock_chat stub booking_id =
     (case stub of
        None \<Rightarrow> ret False
      | Some st \<Rightarrow>
          tryE
            (bindE (HideReview_rpc st booking_id ''Dispute resolved with client refund'') (\<lambda>hide_response.
             bindE (LockChatRoom_rpc st booking_id) (\<lambda>lock_response.
             ret (rp_status hide_response \<noteq> ''FAILED'' \<and> rp_status lock_response \<noteq> ''FAILED''))))
            (\<lambda>e. ret False))"

definition grpc_lock_chat_room :: "'s interaction_stub option \<Rightarrow> string \<Rightarrow> ('s, dexn, bool) eff" where
  "grpc_lock_chat_room stub booking_id =
     (case stub of
        None \<Rightarrow> ret False
      | Some st \<Rightarrow>
          tryE (bindE (LockChatRoom_rpc st booking_id) (\<lambda>response. ret (rp_status response \<noteq> ''FAILED'')))
            (\<lambda>e. ret False))"

definition grpc_ports ::
  "(string list \<Rightarrow> string) \<Rightarrow> 's finance_stub option \<Rightarrow> 's interaction_stub option \<Rightarrow> 's ports" where
  "grpc_ports repr fin itx =
     \<lparr>refund_escrow_to_wallet = grpc_refund_escrow_to_wallet repr fin,
      payout_from_escrow = grpc_payout_from_escrow repr fin,
      get_payout_snapshot = payout_snapshot,
      hide_review_and_lock_chat = grpc_hide_review_and_lock_chat itx,
      lock_chat_room = grpc_lock_chat_room itx\<rparr>"

text \<open>\<open>bootstrap_services\<close> chooses the adapters.\<close>

definition bootstrap_ports ::
  "bool \<Rightarrow> 's dis_session \<Rightarrow> 's finance_stub option \<Rightarrow> 's interaction_stub option \<Rightarrow> 's ports" where
  "bootstrap_ports USE_MOCKS S fin itx = (if USE_MOCKS then mock_ports S else grpc_ports (set_repr S) fin itx)"

section \<open>gRPC servicer\<close>

record dispute_response =
  dr_dispute_id :: string
  dr_status :: string
  dr_message :: string

definition handle_exception :: "(string list \<Rightarrow> string) \<Rightarrow> dexn \<Rightarrow> 'a grpc_reply" where
  "handle_exception repr e =
     (if is_dispute_DomainError e then Failure INVALID_ARGUMENT (dexn_str repr e)
      else Failure INTERNAL ''Internal server error'')"

definition CreateReport ::
  "'s dis_session \<Rightarrow> (string \<times> string) list \<Rightarrow> string \<Rightarrow> string \<Rightarrow> string \<Rightarrow> string \<Rightarrow> (string \<times> string) list \<Rightarrow>
   ('s, dexn, dispute_response grpc_reply) eff" where
  "CreateReport S md req_reporter_id booking_id accused_id reason req_evidences =
     (let reporter_id = py_or req_reporter_id (metadata_get md ''user-id'') in
      if reporter_id = [] then ret (Failure UNAUTHENTICATED ''Reporter identity missing'')
      else
        let evidences = map (\<lambda>(ty, content). [(''evidence_type'', ty), (''content'', content)]) req_evidences in
        tryE
          (bindE (dis_open S) (\<lambda>_.
           bindE (create_report S booking_id reporter_id accused_id reason evidences) (\<lambda>dispute_id.
           bindE (dis_commit S) (\<lambda>_.
           ret (Reply \<lparr>dr_dispute_id = dispute_id, dr_status = ''SUCCESS'',
                  dr_message = ''Dispute report created successfully''\<rparr>)))))
          (\<lambda>e. ret (handle_exception (set_repr S) e)))"

definition ResolveDispute ::
  "'s dis_session \<Rightarrow> 's ports \<Rightarrow> (string \<times> string) list \<Rightarrow> string \<Rightarrow> string \<Rightarrow> string \<Rightarrow> string \<Rightarrow>
   ('s, dexn, dispute_response grpc_reply) eff" where
  "ResolveDispute S P md req_admin_id dispute_id resolution notes =
     (if metadata_get md ''user-role'' \<noteq> ''ADMIN'' then ret (Failure PERMISSION_DENIED ''Admin only operation'')
      else
        let admin_id = py_or req_admin_id (metadata_get md ''user-id'') in
        if admin_id = [] then ret (Failure UNAUTHENTICATED ''Admin identity missing'')
        else
          tryE
            (bindE (dis_open S) (\<lambda>_.
             bindE (resolve_dispute S P dispute_id admin_id resolution notes) (\<lambda>_.
             bindE (dis_commit S) (\<lambda>_.
             ret (Reply \<lparr>dr_dispute_id = dispute_id, dr_status = ''SUCCESS'',
                    dr_message = ''Dispute resolved with action '' @ resolution\<rparr>)))))
            (\<lambda>e. ret (handle_exception (set_repr S) e)))"

section \<open>REST routes\<close>

record auth_info =
  au_user_id :: string
  au_user_role :: "string option"

text \<open>A header is absent or a string; \<open>not user_id\<close> holds for both an absent and an empty one.\<close>

definition get_auth_info :: "string option \<Rightarrow> string option \<Rightarrow> dexn http_exn + auth_info" where
  "get_auth_info user_id user_role =
     (case user_id of
        None \<Rightarrow> Inl (HTTPException 401 ''User authentication missing'')
      | Some u \<Rightarrow>
          if u = [] then Inl (HTTPException 401 ''User authentication missing'')
          else Inr \<lparr>au_user_id = u, au_user_role = user_role\<rparr>)"

definition get_admin_auth_info :: "string option \<Rightarrow> string option \<Rightarrow> dexn http_exn + auth_info" where
  "get_admin_auth_info user_id user_role =
     bindS (get_auth_info user_id user_role) (\<lambda>auth.
     if user_role \<noteq> Some ''ADMIN'' then Inl (HTTPException 403 ''Admin permission required'') else Inr auth)"

text \<open>The session dependency opens a session and closes it; nothing commits.\<close>

definition dispute_get_db_session :: "'s dis_session \<Rightarrow> ('s, dexn http_exn, 'a) eff \<Rightarrow> ('s, dexn http_exn, 'a) eff" where
  "dispute_get_db_session S route = bindE (map_err Unhandled (dis_open S)) (\<lambda>_. route)"

text \<open>\<open>except DomainError\<close> with a status, \<open>except Exception\<close> with 500.\<close>

definition route_error :: "'s dis_session \<Rightarrow> int \<Rightarrow> dexn \<Rightarrow> dexn http_exn" where
  "route_error S st e = HTTPException (if is_dispute_DomainError e then st else 500) (dexn_str (set_repr S) e)"

record dispute_dto =
  dto_dispute_id :: string
  dto_booking_id :: string
  dto_reporter_id :: string
  dto_accused_id :: string
  dto_reason :: string
  dto_status :: string
  dto_admin_id :: "string option"
  dto_resolution :: "string option"
  dto_notes :: "string option"
  dto_version :: int
  dto_evidences :: "evidence list"

definition DisputeDTO_from_domain :: "dispute \<Rightarrow> dispute_dto" where
  "DisputeDTO_from_domain d =
     \<lparr>dto_dispute_id = d_dispute_id d, dto_booking_id = d_booking_id d, dto_reporter_id = d_reporter_id d,
      dto_accused_id = d_accused_id d, dto_reason = d_reason d, dto_status = d_status d, dto_admin_id = d_admin_id d,
      dto_resolution = d_resolution d, dto_notes = d_notes d, dto_version = d_version d, dto_evidences = d_evidences d\<rparr>"

record saga_dto =
  sd_saga_id :: string
  sd_dispute_id :: string
  sd_booking_id :: string
  sd_saga_type :: string
  sd_current_state :: string
  sd_retry_count :: int
  sd_last_error :: "string option"
  sd_version :: int

fun SagaStateDTO_from_domain :: "saga_kind \<Rightarrow> saga_dto" where
  "SagaStateDTO_from_domain (RefundSaga g) =
     \<lparr>sd_saga_id = sg_saga_id g, sd_dispute_id = sg_dispute_id g, sd_booking_id = sg_booking_id g, sd_saga_type = ''REFUND'',
      sd_current_state = sg_current_state g, sd_retry_count = sg_retry_count g, sd_last_error = sg_last_error g,
      sd_version = sg_version g\<rparr>"
| "SagaStateDTO_from_domain (PayoutSaga g) =
     \<lparr>sd_saga_id = sg_saga_id g, sd_dispute_id = sg_dispute_id g, sd_booking_id = sg_booking_id g, sd_saga_type = ''PAYOUT'',
      sd_current_state = sg_current_state g, sd_retry_count = sg_retry_count g, sd_last_error = sg_last_error g,
      sd_version = sg_version g\<rparr>"

text \<open>The body of the list: disputes, total, page, page size.\<close>

definition list_disputes_route ::
  "'s dis_session \<Rightarrow> string option \<Rightarrow> string option \<Rightarrow> string option \<Rightarrow> int \<Rightarrow> int \<Rightarrow>
   ('s, dexn http_exn, dispute_dto list \<times> nat \<times> int \<times> int) eff" where
  "list_disputes_route S user_id user_role status_filter page page_size =
     bindE (liftE (get_admin_auth_info user_id user_role)) (\<lambda>_.
     if page < 1 \<or> page_size < 1 \<or> 50 < page_size then raise RequestValidationError
     else
       dispute_get_db_session S
         (map_err (\<lambda>e. HTTPException 500 (''Failed to query disputes: '' @ dexn_str (set_repr S) e))
            (bindE (list_disputes S status_filter (nat ((page - 1) * page_size)) (nat page_size)) (\<lambda>(ds, tot).
             ret (map DisputeDTO_from_domain ds, tot, page, page_size)))))"

definition get_dispute_detail_route ::
  "'s dis_session \<Rightarrow> string option \<Rightarrow> string option \<Rightarrow> string \<Rightarrow> ('s, dexn http_exn, dispute_dto) eff" where
  "get_dispute_detail_route S user_id user_role dispute_id =
     bindE (liftE (get_admin_auth_info user_id user_role)) (\<lambda>_.
     dispute_get_db_session S
       (map_err (route_error S 404)
          (bindE (get_dispute_detail S dispute_id) (\<lambda>d. ret (DisputeDTO_from_domain d)))))"

definition get_saga_state_route ::
  "'s dis_session \<Rightarrow> string option \<Rightarrow> string option \<Rightarrow> string \<Rightarrow> ('s, dexn http_exn, saga_dto option) eff" where
  "get_saga_state_route S user_id user_role dispute_id =
     bindE (liftE (get_admin_auth_info user_id user_role)) (\<lambda>_.
     dispute_get_db_session S
       (map_err (route_error S 500)
          (bindE (get_saga_state S dispute_id) (\<lambda>saga. ret (map_option SagaStateDTO_from_domain saga)))))"

definition create_dispute_route ::
  "'s dis_session \<Rightarrow> string option \<Rightarrow> string option \<Rightarrow> string \<Rightarrow> string \<Rightarrow> string \<Rightarrow> (string \<times> string) list \<Rightarrow>
   ('s, dexn http_exn, string) eff" where
  "create_dispute_route S user_id user_role booking_id accused_id reason payload_evidences =
     bindE (liftE (get_auth_info user_id user_role)) (\<lambda>auth.
     dispute_get_db_session S
       (let evidences = map (\<lambda>(ty, content). [(''evidence_type'', ty), (''content'', content)]) payload_evidences in
        map_err (route_error S 400)
          (create_report S booking_id (au_user_id auth) accused_id reason evidences)))"

definition resolve_dispute_route ::
  "'s dis_session \<Rightarrow> 's ports \<Rightarrow> string option \<Rightarrow> string option \<Rightarrow> string \<Rightarrow> string \<Rightarrow> string \<Rightarrow>
   ('s, dexn http_exn, bool) eff" where
  "resolve_dispute_route S P user_id user_role dispute_id resolution notes =
     bindE (liftE (get_admin_auth_info user_id user_role)) (\<lambda>auth.
     dispute_get_db_session S
       (map_err (route_error S 400)
          (bindE (assign_admin S dispute_id (au_user_id auth)) (\<lambda>_.
           bindE (resolve_dispute S P dispute_id (au_user_id auth) resolution notes) (\<lambda>_.
           ret True)))))"

definition dispute_domain_error_handler :: "(string list \<Rightarrow> string) \<Rightarrow> dexn \<Rightarrow> error_body" where
  "dispute_domain_error_handler repr exc = domain_error_body (dexn_str repr exc)"

section \<open>The outbox worker\<close>

definition dispute_event_of :: "dexn codec \<Rightarrow> int \<Rightarrow> outbox_model \<Rightarrow> dexn + dexn prepared" where
  "dispute_event_of C now event =
     bindS (loads C (ob_payload event)) (\<lambda>payload.
     let g = (\<lambda>k. get_default payload k JNull);
         ce = \<lparr>ce_type = ob_event_type event,
               ce_source = ''/rent-a-gf/dispute-service/'' @
                 py_str C (json_or (json_or (g ''disputeId'') (g ''bookingId'')) (JStr ''system'')),
               ce_id = ob_event_id event,
               ce_time = iso_format C (case ob_created_at event of None \<Rightarrow> now | Some t \<Rightarrow> t),
               ce_datacontenttype = ''application/json'',
               ce_correlationid = json_or (json_or (g ''correlationId'') (g ''eventId'')) (JStr (ob_event_id event)),
               ce_data = payload\<rparr>;
         partition_key = json_or (json_or (json_or (g ''disputeId'') (g ''bookingId'')) (g ''reporterId''))
                           (JStr (ob_event_id event))
     in Inr (Inr (py_str C partition_key), ce))"

definition dispute_process_batch :: "('s, dexn) ob_session \<Rightarrow> dexn codec \<Rightarrow> int \<Rightarrow> nat \<Rightarrow> ('s, dexn, unit) eff" where
  "dispute_process_batch W C now batch_size = process_batch W (dispute_event_of C now) batch_size"

text \<open>The cleanup also deletes old rows of \<open>processed_events\<close>; \<open>purge_events\<close> is that statement.\<close>

definition dispute_run_cleanup ::
  "('s, 'e) ob_session \<Rightarrow> (int \<Rightarrow> ('s, 'e, nat) eff) \<Rightarrow> int \<Rightarrow> int \<Rightarrow> int \<Rightarrow> ('s, 'e, unit) eff" where
  "dispute_run_cleanup W purge_events now events_retention outbox_retention =
     bindE (ob_open W) (\<lambda>_.
     tryE
       (bindE (purge_events (now - events_retention)) (\<lambda>_.
        bindE (purge W (expired (now - outbox_retention))) (\<lambda>_.
        ob_commit W)))
       (\<lambda>e. bindE (ob_rollback W) (\<lambda>_. raise e)))"

end
