(* ===== verification/Dispute_Correct.thy ===== *)
theory Dispute_Correct
  imports Dispute_Session Dispute_Interfaces
begin

text \<open>
  The commands of the dispute service over a lawful session: what a save and a lookup do, the invariant of
  the stored content, and what each command commits.
\<close>

section \<open>Saves and lookups\<close>

definition dispute_of :: "dispute_model \<Rightarrow> dispute" where
  "dispute_of m = \<lparr>d_dispute_id = dm_dispute_id m, d_booking_id = dm_booking_id m, d_reporter_id = dm_reporter_id m,
     d_accused_id = dm_accused_id m, d_reason = dm_reason m, d_status = dm_status m, d_admin_id = dm_admin_id m,
     d_resolution = dm_resolution m, d_notes = dm_notes m, d_evidences = dm_evidences m,
     d_version = dm_version m, d_events = []\<rparr>"

lemma to_domain_dispute: "DisputeMapper_to_domain m = Inr d \<Longrightarrow> d = dispute_of m \<and> dm_reason m \<in> set VALID_REASONS"
  by (auto simp: DisputeMapper_to_domain_def DisputeReason_def dispute_of_def split: if_splits)

lemma to_domain_dispute_ok: "dm_reason m \<in> set VALID_REASONS \<Longrightarrow> DisputeMapper_to_domain m = Inr (dispute_of m)"
  by (simp add: DisputeMapper_to_domain_def DisputeReason_def dispute_of_def)

lemma agree_dispute:
  assumes "dispute_agree r r'"
  shows "dm_dispute_id r' = dm_dispute_id r" "dm_booking_id r' = dm_booking_id r" "dm_status r' = dm_status r"
    "dm_reason r' = dm_reason r" "dm_reporter_id r' = dm_reporter_id r" "dm_accused_id r' = dm_accused_id r"
    "dm_admin_id r' = dm_admin_id r" "dm_resolution r' = dm_resolution r" "dm_notes r' = dm_notes r"
    "set (dm_evidences r') = set (dm_evidences r)" "dispute_fits r' = dispute_fits r"
proof -
  define v t es where "v = dm_version r'" "t = dm_created_at r'" "es = dm_evidences r'"
  have r': "r' = r\<lparr>dm_version := v, dm_created_at := t, dm_evidences := es\<rparr>" and es: "mset es = mset (dm_evidences r)"
    using assms by (simp_all add: dispute_agree_def v_t_es_def)
  have "set es = set (dm_evidences r)" using es by (rule mset_eq_setD)
  then show "dm_dispute_id r' = dm_dispute_id r" "dm_booking_id r' = dm_booking_id r" "dm_status r' = dm_status r"
    "dm_reason r' = dm_reason r" "dm_reporter_id r' = dm_reporter_id r" "dm_accused_id r' = dm_accused_id r"
    "dm_admin_id r' = dm_admin_id r" "dm_resolution r' = dm_resolution r" "dm_notes r' = dm_notes r"
    "set (dm_evidences r') = set (dm_evidences r)" "dispute_fits r' = dispute_fits r"
    by (simp_all add: r' dispute_fits_def)
qed

lemma agree_saga:
  assumes "saga_agree r r'"
  shows "r' = r\<lparr>sm_version := sm_version r'\<rparr>" "sm_saga_id r' = sm_saga_id r" "sm_saga_type r' = sm_saga_type r"
    "sm_current_state r' = sm_current_state r" "saga_fits r' = saga_fits r"
proof -
  define v where "v = sm_version r'"
  have r': "r' = r\<lparr>sm_version := v\<rparr>" using assms by (simp add: saga_agree_def v_def)
  then show "r' = r\<lparr>sm_version := sm_version r'\<rparr>" by (simp add: v_def)
  show "sm_saga_id r' = sm_saga_id r" "sm_saga_type r' = sm_saga_type r"
    "sm_current_state r' = sm_current_state r" "saga_fits r' = saga_fits r"
    by (simp_all add: r' saga_fits_def)
qed

lemma create_report_fields:
  "Dispute_create_report i b r a reason es = Inr d \<Longrightarrow>
     d_dispute_id d = i \<and> d_booking_id d = b \<and> d_reporter_id d = r \<and> d_accused_id d = a \<and> d_reason d = reason \<and>
     d_status d = ''OPEN'' \<and> d_admin_id d = None \<and> d_resolution d = None \<and> d_notes d = None \<and> d_evidences d = es \<and>
     d_version d = 1 \<and> d_events d = [ReportCreated i b r a reason] \<and> reason \<in> set VALID_REASONS"
  by (auto simp: Dispute_create_report_def DisputeReason_def Dispute_add_event_def Let_def split: if_splits)

lemma model_ids [simp]:
  "dm_dispute_id (DisputeMapper_to_model d) = d_dispute_id d" "dm_booking_id (DisputeMapper_to_model d) = d_booking_id d"
  "dm_status (DisputeMapper_to_model d) = d_status d" "dm_reason (DisputeMapper_to_model d) = d_reason d"
  "dm_version (DisputeMapper_to_model d) = d_version d"
  by (simp_all add: DisputeMapper_to_model_def)

lemma saga_model_ids [simp]:
  "sm_saga_id (saga_core_model ty g w r) = sg_saga_id g" "sm_version (saga_core_model ty g w r) = sg_version g"
  "sm_saga_type (saga_core_model ty g w r) = ty" "sm_current_state (saga_core_model ty g w r) = sg_current_state g"
  by (simp_all add: saga_core_model_def)

context dis_session
begin

lemma save_dispute:
  assumes "DisputeRepository_save S d s = (Inr d', s')"
  obtains r where "d' = d\<lparr>d_version := dm_version r\<rparr>" "dispute_agree (DisputeMapper_to_model d) r"
    "row_accepted dm_dispute_id dm_booking_id dispute_fits (disputes (view s)) (DisputeMapper_to_model d)"
    "view s' = (view s)\<lparr>disputes := (disputes (view s))(d_dispute_id d \<mapsto> r)\<rparr>"
    "\<And>r0. disputes (view s) (d_dispute_id d) = Some r0 \<Longrightarrow> dm_version r0 = d_version d"
proof -
  obtain v where m: "dispute_merge S (DisputeMapper_to_model d) s = (Inr v, s')" and d': "d' = d\<lparr>d_version := v\<rparr>"
    using assms by (auto simp: DisputeRepository_save_def bindE_eq_Inr_iff ret_run)
  from m obtain r where r: "row_accepted dm_dispute_id dm_booking_id dispute_fits (disputes (view s)) (DisputeMapper_to_model d)"
      "dispute_agree (DisputeMapper_to_model d) r" "dm_version r = v"
      "view s' = (view s)\<lparr>disputes := (disputes (view s))(dm_dispute_id (DisputeMapper_to_model d) \<mapsto> r)\<rparr>"
    by (rule dt.vmerge_stored)
  show thesis
  proof (rule that [of r])
    show "d' = d\<lparr>d_version := dm_version r\<rparr>" using d' r(3) by simp
    show "dm_version r0 = d_version d" if "disputes (view s) (d_dispute_id d) = Some r0" for r0
      using dt.merge_version [OF m] that by simp
  qed (use r in simp_all)
qed

lemma save_saga_model:
  assumes "saga_merge S m s = (Inr v, s')"
  obtains r where "sm_version r = v" "saga_agree m r" "saga_fits m"
    "view s' = (view s)\<lparr>sagas := (sagas (view s))(sm_saga_id m \<mapsto> r)\<rparr>"
proof -
  from assms obtain r where "row_accepted sm_saga_id sm_saga_id saga_fits (sagas (view s)) m"
      "saga_agree m r" "sm_version r = v" "view s' = (view s)\<lparr>sagas := (sagas (view s))(sm_saga_id m \<mapsto> r)\<rparr>"
    by (rule st.vmerge_stored)
  then show thesis by (intro that [of r]) (simp_all add: row_accepted_def)
qed

lemma find_dispute_cases:
  assumes "find_dispute S P s = (Inr v, s')"
  shows "view s' = view s \<and> (case v of
      None \<Rightarrow> \<forall>r\<in>ran (disputes (view s)). \<not> P r
    | Some d \<Rightarrow> \<exists>r. r \<in> ran (disputes (view s)) \<and> P r \<and> d = dispute_of r \<and> dm_reason r \<in> set VALID_REASONS)"
proof -
  obtain rs where sel: "dispute_select S False P s = (Inr rs, s')"
    and v: "option_map_exn DisputeMapper_to_domain (first_row rs) = Inr v"
    using assms by (auto simp: find_dispute_def bindE_eq_Inr_iff liftE_run)
  from option_map_exn_cases [OF v] dt.select_ok [OF sel] show ?thesis
    by (auto dest!: to_domain_dispute)
qed

text \<open>A dispute read before its row changed cannot be saved.\<close>

lemma stale_save:
  assumes "disputes (view s) (d_dispute_id d) = Some r" "dm_version r \<noteq> d_version d"
  shows "\<exists>e s'. DisputeRepository_save S d s = (Inl e, s') \<and> com s' = com s"
proof -
  obtain e s' where m: "dispute_merge S (DisputeMapper_to_model d) s = (Inl e, s')"
    using dt.vmerge_stale [of s "DisputeMapper_to_model d" r] assms by auto
  then have "com s' = com s" using dt.vmerge_com [of "DisputeMapper_to_model d" s] by simp
  with m show ?thesis by (simp add: DisputeRepository_save_def bindE_def)
qed

lemma find_dispute_view:
  "find_dispute S P s = (Inr v, s') \<Longrightarrow> view s' = view s"
  using find_dispute_cases by blast

lemma evidence_entities_view: "evidence_entities S evs s = (Inr es, s') \<Longrightarrow> view s' = view s"
  by (induction evs arbitrary: es s s') (auto simp: ret_run bindE_eq_Inr_iff dest!: uu.frame_ok)

lemma evidence_entities_keeps [keep_intros]: "keeps com (evidence_entities S evs)"
  by (induction evs) (auto intro!: keep_intros)

section \<open>Nothing commits but the entry points\<close>

lemma create_report_keeps [keep_intros]: "keeps com (create_report S b r a reason evs)"
  unfolding create_report_def by (intro keep_intros)

lemma assign_admin_keeps [keep_intros]: "keeps com (assign_admin S i a)"
  unfolding assign_admin_def by (intro keep_intros)

text \<open>What a report that returns has done.\<close>

lemma create_report_runs:
  assumes "create_report S b r a reason evs s = (Inr i, s')"
  obtains d row where "Dispute_create_report i b r a reason (d_evidences d) = Inr d"
    "\<And>x. x \<in> ran (disputes (view s)) \<Longrightarrow> \<not> (dm_booking_id x = b \<and> dm_status x \<in> {''OPEN'', ''RESOLVING''})"
    "row_accepted dm_dispute_id dm_booking_id dispute_fits (disputes (view s)) (DisputeMapper_to_model d)"
    "dispute_agree (DisputeMapper_to_model d) row"
    "disputes (view s') = (disputes (view s))(i \<mapsto> row)" "sagas (view s') = sagas (view s)"
    "\<exists>t t'. view t = view s \<and> dis_uuid4 S t = (Inr i, t')"
proof -
  from assms obtain e s1 where 1: "DisputeRepository_find_open_by_booking_id S b s = (Inr e, s1)"
    and 2: "(if e \<noteq> None then raise (DuplicateOpenDisputeError b)
     else bindE (dis_uuid4 S) (\<lambda>dispute_id.
       bindE (evidence_entities S evs) (\<lambda>es.
       bindE (liftE (Dispute_create_report dispute_id b r a reason es)) (\<lambda>dispute.
       bindE (DisputeRepository_save S dispute) (\<lambda>dispute.
       bindE (forE (dispute_publish S) (fst (Dispute_clear_events dispute))) (\<lambda>_.
       ret dispute_id)))))) s1 = (Inr i, s')"
    unfolding create_report_def bindE_eq_Inr_iff [of "DisputeRepository_find_open_by_booking_id S b"] by blast
  from 2 have e: "e = None" by (auto simp: raise_run split: if_splits)
  from 2 e obtain s2 es s3 d d' s4 where 3: "dis_uuid4 S s1 = (Inr i, s2)" "evidence_entities S evs s2 = (Inr es, s3)"
      "Dispute_create_report i b r a reason es = Inr d" "DisputeRepository_save S d s3 = (Inr d', s4)"
      "forE (dispute_publish S) (fst (Dispute_clear_events d')) s4 = (Inr (), s')"
    by (auto simp: bindE_eq_Inr_iff ret_run liftE_run)
  have none: "\<forall>x\<in>ran (disputes (view s)). \<not> (dm_booking_id x = b \<and> dm_status x \<in> {''OPEN'', ''RESOLVING''})"
    and v1: "view s1 = view s"
    using find_dispute_cases [OF 1 [unfolded DisputeRepository_find_open_by_booking_id_def]] e by auto
  have v3: "view s3 = view s" using uu.frame_ok [OF 3(1)] evidence_entities_view [OF 3(2)] v1 by simp
  have ids: "d_dispute_id d = i" "d_evidences d = es"
    using create_report_fields [OF 3(3)] by simp_all
  from 3(4) obtain row where row: "dispute_agree (DisputeMapper_to_model d) row"
      "row_accepted dm_dispute_id dm_booking_id dispute_fits (disputes (view s3)) (DisputeMapper_to_model d)"
      "view s4 = (view s3)\<lparr>disputes := (disputes (view s3))(d_dispute_id d \<mapsto> row)\<rparr>"
    by (rule save_dispute)
  show thesis
    using that [of d row] 3(1,3) ids none row v1 v3 dispute_publish_all_view [OF 3(5)] by auto
qed

section \<open>The sagas commit nothing\<close>

lemma with_local_keeps [keep_intros]: "keeps g m \<Longrightarrow> keeps g (with_local v m)"
  unfolding with_local_def by (intro keep_intros)

lemma forget_local_keeps [keep_intros]: "keeps g m \<Longrightarrow> keeps g (forget_local m)"
  unfolding forget_local_def by (intro keep_intros)

lemma publish_saga_events_keeps [keep_intros]: "keeps com (publish_saga_events S g)"
  unfolding publish_saga_events_def saga_clear_events_def Let_def prod.case by (intro keep_intros)

lemma refund_process_keeps [keep_intros]:
  assumes "ports_frame P view com"
  shows "keeps com (refund_process_rec n S P g)"
proof (induction n arbitrary: g)
  case 0
  show ?case by (auto intro: keep_intros)
next
  case (Suc n)
  note pc = ports_frame.ports_com [OF assms]
  show ?case
    unfolding refund_process_rec.simps refund_refunding_def refund_hiding_review_def by (intro keep_intros pc Suc)
qed

lemma payout_process_keeps [keep_intros]:
  assumes "ports_frame P view com"
  shows "keeps com (payout_process_rec n S P g)"
proof (induction n arbitrary: g)
  case 0
  show ?case by (auto intro: keep_intros)
next
  case (Suc n)
  note pc = ports_frame.ports_com [OF assms]
  show ?case
    unfolding payout_process_rec.simps payout_paying_out_def payout_locking_chat_def by (intro keep_intros pc Suc)
qed

lemma resolve_dispute_keeps [keep_intros]:
  assumes "ports_frame P view com"
  shows "keeps com (resolve_dispute S P i a res notes)"
  unfolding resolve_dispute_def resolve_branch_def refund_start_def payout_start_def refund_process_saga_def payout_process_saga_def
  by (intro keep_intros assms ports_frame.ports_com [OF assms])

text \<open>The REST routes never commit.\<close>

lemma map_err_keeps [keep_intros]: "keeps g m \<Longrightarrow> keeps g (map_err f m)"
  unfolding map_err_def by (intro keep_intros)

lemma create_dispute_route_keeps: "keeps com (create_dispute_route S u role b a reason evs)"
  unfolding create_dispute_route_def dispute_get_db_session_def Let_def by (intro keep_intros)

lemma resolve_dispute_route_keeps:
  assumes "ports_frame P view com"
  shows "keeps com (resolve_dispute_route S P u role i res notes)"
  unfolding resolve_dispute_route_def dispute_get_db_session_def by (intro keep_intros assms)

section \<open>Resolving an open dispute raises\<close>

lemma open_not_resolvable:
  assumes "d_status d = ''OPEN''"
  shows "\<exists>e. resolve_branch S P d i a res notes s = (Inl e, s)"
  using assms by (simp add: resolve_branch_def command_defs raise_run)

lemma resolve_open_raises:
  assumes "\<And>r. r \<in> ran (disputes (view s)) \<Longrightarrow> dm_status r = ''OPEN''"
  shows "\<exists>e s'. resolve_dispute S P i a res notes s = (Inl e, s')"
proof -
  have "False" if "resolve_dispute S P i a res notes s = (Inr u, s')" for u s'
  proof -
    from that obtain v s1 where 1: "find_dispute S (\<lambda>m. dm_dispute_id m = i) s = (Inr v, s1)"
      and 2: "(case v of None \<Rightarrow> raise (DisputeNotFoundError i) | Some d \<Rightarrow>
         bindE (resolve_branch S P d i a res notes) (\<lambda>d. forE (dispute_publish S) (fst (Dispute_clear_events d)))) s1 = (Inr u, s')"
      unfolding resolve_dispute_def DisputeRepository_find_by_id_def bindE_eq_Inr_iff by blast
    show False
    proof (cases v)
      case None
      with 2 show False by (simp add: raise_run)
    next
      case (Some d)
      with find_dispute_cases [OF 1] assms have "d_status d = ''OPEN''" by (auto simp: dispute_of_def)
      then obtain e where "resolve_branch S P d i a res notes s1 = (Inl e, s1)" using open_not_resolvable by blast
      with 2 Some show False by (simp add: bindE_def)
    qed
  qed
  then show ?thesis by (cases "resolve_dispute S P i a res notes s"; cases "fst (resolve_dispute S P i a res notes s)") auto
qed

end

section \<open>The states the service reaches\<close>

datatype dis_request =
    ReqCreateReport "(string \<times> string) list" string string string string "(string \<times> string) list"
  | ReqResolveDispute "(string \<times> string) list" string string string string
  | ReqCreateRoute "string option" "string option" string string string "(string \<times> string) list"
  | ReqResolveRoute "string option" "string option" string string string
  | ReqRetryPoll

fun dis_serve :: "'s dis_session \<Rightarrow> 's ports \<Rightarrow> dis_request \<Rightarrow> 's \<Rightarrow> 's" where
  "dis_serve S P (ReqCreateReport md r b a reason evs) s = snd (CreateReport S md r b a reason evs s)"
| "dis_serve S P (ReqResolveDispute md a i res notes) s = snd (ResolveDispute S P md a i res notes s)"
| "dis_serve S P (ReqCreateRoute u role b a reason evs) s = snd (create_dispute_route S u role b a reason evs s)"
| "dis_serve S P (ReqResolveRoute u role i res notes) s = snd (resolve_dispute_route S P u role i res notes s)"
| "dis_serve S P ReqRetryPoll s = snd (retry_poll_step S P s)"

inductive dis_reachable :: "'s dis_session \<Rightarrow> 's ports \<Rightarrow> 's \<Rightarrow> 's \<Rightarrow> bool" for S P s0 where
  dis_start: "dis_reachable S P s0 s0"
| dis_next: "dis_reachable S P s0 s \<Longrightarrow> dis_reachable S P s0 (dis_serve S P req s)"

text \<open>No dispute has left its first state, and no saga was started.\<close>

definition all_open :: "dis_db \<Rightarrow> bool" where
  "all_open db \<longleftrightarrow> (\<forall>r\<in>ran (disputes db). dm_status r = ''OPEN'') \<and> sagas db = Map.empty"

context dis_session
begin

lemma create_report_all_open:
  assumes "create_report S b r a reason evs s = (Inr i, s')" "all_open (view s)"
  shows "all_open (view s')"
  using assms(1)
proof (rule create_report_runs)
  fix d row
  assume d: "Dispute_create_report i b r a reason (d_evidences d) = Inr d" and row: "dispute_agree (DisputeMapper_to_model d) row"
    and v: "disputes (view s') = (disputes (view s))(i \<mapsto> row)" "sagas (view s') = sagas (view s)"
  have "dm_status row = ''OPEN''"
    using agree_dispute(3) [OF row] create_report_fields [OF d] by simp
  with assms(2) v show ?thesis by (auto simp: all_open_def ran_def split: if_splits)
qed

lemma snd_try_ret: "snd (tryE m (\<lambda>e. ret (f e)) s) = snd (m s)"
  by (auto simp: tryE_def ret_def split: prod.splits sum.splits)

lemma CreateReport_all_open:
  assumes "all_open (com s)"
  shows "all_open (com (snd (CreateReport S md r b a reason evs s)))"
proof (cases "py_or r (metadata_get md ''user-id'') = []")
  case True
  with assms show ?thesis by (simp add: CreateReport_def Let_def ret_run)
next
  case False
  define evs' where "evs' = map (\<lambda>(ty, content). [(''evidence_type'', ty), (''content'', content)]) evs"
  let ?u = "py_or r (metadata_get md ''user-id'')"
  obtain r1 s1 where 1: "dis_open S s = (r1, s1)" by fastforce
  obtain r2 s2 where 2: "create_report S b ?u a reason evs' s1 = (r2, s2)" by fastforce
  have c: "com s1 = com s" "com s2 = com s1" using 1 2 dis_open_com [of s] keepsD [OF create_report_keeps] by auto
  let ?all = "bindE (dis_open S) (\<lambda>_. bindE (create_report S b ?u a reason evs') (\<lambda>i.
      bindE (dis_commit S) (\<lambda>_. ret (Reply \<lparr>dr_dispute_id = i, dr_status = ''SUCCESS'',
        dr_message = ''Dispute report created successfully''\<rparr>))))"
  have "snd (CreateReport S md r b a reason evs s) = snd (?all s)"
    using False by (simp add: CreateReport_def Let_def snd_try_ret evs'_def)
  moreover have "all_open (com (snd (?all s)))"
  proof (cases r1)
    case (Inl e)
    with 1 c assms show ?thesis by (simp add: bindE_def)
  next
    case r1: (Inr x)
    show ?thesis
    proof (cases r2)
      case (Inl e)
      with 1 2 r1 c assms show ?thesis by (simp add: bindE_def)
    next
      case (Inr i)
      have "all_open (view s1)" using dis_open_ok [of s x s1] 1 r1 assms by simp
      then have "all_open (view s2)" using create_report_all_open 2 Inr by blast
      with tx.commit_all_or_nothing [of s2] c assms have "all_open (com (snd (dis_commit S s2)))" by auto
      then show ?thesis using 1 2 r1 Inr by (auto simp: bindE_def ret_def split: prod.splits sum.splits)
    qed
  qed
  ultimately show ?thesis by simp
qed

lemma ResolveDispute_all_open:
  assumes "ports_frame P view com" "all_open (com s)"
  shows "com (snd (ResolveDispute S P md a i res notes s)) = com s"
proof (cases "metadata_get md ''user-role'' \<noteq> ''ADMIN'' \<or> py_or a (metadata_get md ''user-id'') = []")
  case True
  then show ?thesis by (auto simp: ResolveDispute_def Let_def ret_run)
next
  case False
  let ?a = "py_or a (metadata_get md ''user-id'')"
  let ?all = "bindE (dis_open S) (\<lambda>_. bindE (resolve_dispute S P i ?a res notes) (\<lambda>_.
      bindE (dis_commit S) (\<lambda>_. ret (Reply \<lparr>dr_dispute_id = i, dr_status = ''SUCCESS'',
        dr_message = ''Dispute resolved with action '' @ res\<rparr>))))"
  have eq: "snd (ResolveDispute S P md a i res notes s) = snd (?all s)"
    using False by (simp add: ResolveDispute_def Let_def snd_try_ret)
  obtain r1 s1 where 1: "dis_open S s = (r1, s1)" by fastforce
  have c1: "com s1 = com s" using 1 dis_open_com [of s] by simp
  show ?thesis
  proof (cases r1)
    case (Inl e)
    with 1 c1 eq show ?thesis by (simp add: bindE_def)
  next
    case (Inr x)
    then have "all_open (view s1)" using dis_open_ok [of s x s1] 1 assms by simp
    then obtain e s2 where 2: "resolve_dispute S P i ?a res notes s1 = (Inl e, s2)"
      using resolve_open_raises [of s1] unfolding all_open_def by metis
    then have "com s2 = com s1" using keepsD [OF resolve_dispute_keeps [OF assms(1)]] by metis
    with 1 2 Inr c1 eq show ?thesis by (simp add: bindE_def)
  qed
qed

lemma retry_poll_all_open:
  assumes "all_open (com s)"
  shows "com (snd (retry_poll_step S P s)) = com s"
proof -
  obtain r1 s1 where 1: "dis_open S s = (r1, s1)" by fastforce
  have c1: "com s1 = com s" using 1 dis_open_com [of s] by simp
  obtain r2 s2 where 2: "SagaStateRepository_find_pending_retries S 20 s1 = (r2, s2)" by fastforce
  have c2: "com s2 = com s" using keepsD [OF repo_keeps(7) 2] c1 by simp
  have "r2 = Inr gs \<Longrightarrow> gs = []" if "r1 = Inr x" for gs x
  proof -
    assume r2: "r2 = Inr gs"
    have "sagas (view s1) = Map.empty" using dis_open_ok [of s x s1] 1 that assms by (simp add: all_open_def)
    moreover from 2 r2 obtain ms where ms: "saga_limit S pending_retry 20 s1 = (Inr ms, s2)"
      and gs: "list_map_exn SagaStateMapper_to_domain ms = Inr gs"
      by (auto simp: SagaStateRepository_find_pending_retries_def bindE_eq_Inr_iff liftE_run)
    ultimately have "ms = []" using saga_limit_ok [OF ms] by (auto simp: table_ok_def)
    with gs show "gs = []" by simp
  qed
  with 1 2 c1 c2 show ?thesis
    unfolding retry_poll_step_def snd_try_ret retry_pending_sagas_def
    by (cases r1; cases r2) (auto simp: bindE_def ret_def)
qed

lemma dis_reachable_all_open:
  assumes "dis_reachable S P s0 s" "ports_frame P view com" "all_open (com s0)"
  shows "all_open (com s)"
  using assms(1)
proof (induction rule: dis_reachable.induct)
  case dis_start
  show ?case using assms(3) .
next
  case (dis_next s req)
  then show ?case
    by (cases req) (simp_all add: CreateReport_all_open ResolveDispute_all_open [OF assms(2)] retry_poll_all_open
        keepsD_snd [OF create_dispute_route_keeps] keepsD_snd [OF resolve_dispute_route_keeps [OF assms(2)]])
qed

end

end
