(* ===== verification/Dispute_Live.thy ===== *)
theory Dispute_Live
  imports Dispute_Correct
begin

text \<open>
  Total correctness of the dispute service in a session that stays up: reports are stored, a saga ends in
  the state its two calls determine, and the retry worker finishes the sagas that wait for the interaction
  service.
\<close>

section \<open>Rows of sagas\<close>

definition put_saga :: "saga_model \<Rightarrow> dis_db \<Rightarrow> dis_db" where
  "put_saga r db = db\<lparr>sagas := (sagas db)(sm_saga_id r \<mapsto> r)\<rparr>"

lemma put_saga_simps [simp]:
  "disputes (put_saga r db) = disputes db" "d_outbox (put_saga r db) = d_outbox db"
  "sagas (put_saga r db) = (sagas db)(sm_saga_id r \<mapsto> r)"
  "sm_saga_id r = sm_saga_id r' \<Longrightarrow> put_saga r (put_saga r' db) = put_saga r db"
  by (simp_all add: put_saga_def)

definition ids_fit :: "'a saga_scheme \<Rightarrow> bool" where
  "ids_fit g \<longleftrightarrow> length (sg_saga_id g) \<le> 36 \<and> length (sg_dispute_id g) \<le> 36 \<and> length (sg_booking_id g) \<le> 36"

text \<open>The events of the sagas have no contract and are not published.\<close>

definition internal_events :: "'a saga_scheme \<Rightarrow> bool" where
  "internal_events g \<longleftrightarrow> (\<forall>e\<in>set (sg_events g). \<forall>t. dispute_to_protobuf e t = None)"

text \<open>A saga is changed in its state, its retries, its last error, its version and its events, and in nothing else.\<close>

definition moved :: "'a saga_scheme \<Rightarrow> 'a saga_scheme \<Rightarrow> bool" where
  "moved g g' \<longleftrightarrow> g' = g\<lparr>sg_current_state := sg_current_state g', sg_retry_count := sg_retry_count g',
     sg_last_error := sg_last_error g', sg_version := sg_version g', sg_events := sg_events g'\<rparr>"

lemma moved_id: "moved g g' \<Longrightarrow> sg_saga_id g' = sg_saga_id g"
  unfolding moved_def by (drule arg_cong [where f = sg_saga_id]) simp

lemma moved_cleared: "moved g h \<Longrightarrow> moved g (h\<lparr>sg_events := []\<rparr>)"
  by (cases g; cases h) (simp add: moved_def)

lemma moved_trans: "moved g h \<Longrightarrow> moved h k \<Longrightarrow> moved g k"
  by (cases g; cases h; cases k) (simp add: moved_def)

context dis_session_live
begin

lemma dis_uuid_returns:
  obtains i s' where "dis_uuid4 S s = (Inr i, s')" "view s' = view s" "com s' = com s" "length i = 36"
proof -
  obtain i s' where "dis_uuid4 S s = (Inr i, s')" "view s' = view s" "com s' = com s" by (rule uul.frame_runs)
  then show thesis using dis_uuid_length by (intro that [of i s'])
qed

end

section \<open>The store of the sagas\<close>

text \<open>
  What an orchestrator needs of the session: the table of the sagas, whose columns accept the rows that satisfy
  \<open>fits\<close>, and the clock.  On PostgreSQL, which the service uses, \<open>fits\<close> is \<open>saga_fits\<close>, the widths of the columns.
\<close>

locale saga_store =
  stl: sql_versioned_live "saga_merge S" "saga_select S" view com sagas "\<lambda>m. sagas_update (\<lambda>_. m)"
    sm_saga_id sm_saga_id fits saga_agree sm_version +
  nwl: sql_frame_live "dis_utcnow S" view com
  for S :: "'s dis_session" and view :: "'s \<Rightarrow> dis_db" and com :: "'s \<Rightarrow> dis_db" and fits :: "saga_model \<Rightarrow> bool"
begin

lemma internal_publish:
  assumes "\<And>t. dispute_to_protobuf e t = None"
  obtains s' where "dispute_publish S e s = (Inr (), s')" "view s' = view s" "com s' = com s"
proof -
  obtain t s' where "dis_utcnow S s = (Inr t, s')" "view s' = view s" "com s' = com s" by (rule nwl.frame_runs)
  with assms show thesis by (intro that [of s']) (simp_all add: dispute_publish_def eff_simps)
qed

lemma internal_publish_all:
  "(\<And>e t. e \<in> set es \<Longrightarrow> dispute_to_protobuf e t = None) \<Longrightarrow>
   \<exists>s'. forE (dispute_publish S) es s = (Inr (), s') \<and> view s' = view s \<and> com s' = com s"
proof (induction es arbitrary: s)
  case Nil
  show ?case by (simp add: ret_run)
next
  case (Cons e es)
  obtain s1 where 1: "dispute_publish S e s = (Inr (), s1)" "view s1 = view s" "com s1 = com s"
    using internal_publish [of e s] Cons.prems by (metis list.set_intros(1))
  obtain s2 where "forE (dispute_publish S) es s1 = (Inr (), s2)" "view s2 = view s1" "com s2 = com s1"
    using Cons.IH [of s1] Cons.prems by (meson list.set_intros(2))
  with 1 show ?case by (auto simp: eff_simps)
qed

lemma publish_saga_events_returns:
  assumes "internal_events g"
  shows "\<exists>s'. publish_saga_events S g s = (Inr (g\<lparr>sg_events := []\<rparr>), s') \<and> view s' = view s \<and> com s' = com s"
proof -
  obtain s' where "forE (dispute_publish S) (sg_events g) s = (Inr (), s')" "view s' = view s" "com s' = com s"
    using internal_publish_all [of "sg_events g" s] assms by (auto simp: internal_events_def)
  then show ?thesis by (auto simp: publish_saga_events_def saga_clear_events_def with_local_def eff_simps)
qed

lemma saga_merge_returns:
  assumes "fits m" "\<And>r0. sagas (view s) (sm_saga_id m) = Some r0 \<Longrightarrow> sm_version r0 = sm_version m"
  shows "\<exists>v s'. saga_merge S m s = (Inr v, s') \<and> view s' = put_saga (m\<lparr>sm_version := v\<rparr>) (view s) \<and> com s' = com s"
proof -
  have "row_accepted sm_saga_id sm_saga_id fits (sagas (view s)) m" using assms(1) by (auto simp: row_accepted_def)
  then obtain v s' where m: "saga_merge S m s = (Inr v, s')" using stl.vmerge_live assms(2) by blast
  have "com s' = com s" using stl.vmerge_com [of m s] m by simp
  moreover from m obtain r where "sm_version r = v" "saga_agree m r"
      "view s' = (view s)\<lparr>sagas := (sagas (view s))(sm_saga_id m \<mapsto> r)\<rparr>"
    by (rule stl.vmerge_stored)
  ultimately show ?thesis using m by (auto simp: put_saga_def saga_agree_def)
qed

lemma saga_merge_refused:
  assumes "\<not> fits m"
  shows "\<exists>e s'. saga_merge S m s = (Inl e, s') \<and> com s' = com s"
proof -
  have "\<not> row_accepted sm_saga_id sm_saga_id fits (sagas (view s)) m" using assms by (simp add: row_accepted_def)
  from stl.vmerge_refused [OF this] show ?thesis using stl.vmerge_com [of m s] by auto
qed

end

sublocale dis_session_live \<subseteq> saga_store S view com saga_fits
  by unfold_locales

section \<open>The outcome of a saga\<close>

text \<open>The two calls determine the state, the number of retries and the last error.\<close>

definition acted ::
  "(string list \<Rightarrow> string) \<Rightarrow> string \<times> string \<times> string \<Rightarrow> string \<Rightarrow> dexn + bool \<Rightarrow> int \<Rightarrow> string \<times> int \<times> string option" where
  "acted repr names msg act n = (case names of (pay, doing, fin) \<Rightarrow>
     (case act of Inl e \<Rightarrow> (doing, n + 1, Some (dexn_str repr e))
      | Inr ok \<Rightarrow> if ok then (fin, n, None) else (doing, n + 1, Some msg)))"

definition outcome ::
  "(string list \<Rightarrow> string) \<Rightarrow> string \<times> string \<times> string \<Rightarrow> string \<Rightarrow> string \<Rightarrow> dexn + port_result \<Rightarrow> dexn + bool \<Rightarrow>
   int \<Rightarrow> string \<times> int \<times> string option" where
  "outcome repr names pay_msg msg paid act n =
     (case paid of Inl e \<Rightarrow> (''DISPUTE_FAILED'', n, Some (dexn_str repr e))
      | Inr res \<Rightarrow> if pr_success res then acted repr names msg act n
                   else (''DISPUTE_FAILED'', n, Some (error_or (pr_error res) pay_msg)))"

text \<open>
  The common shape of the second step of both sagas: call, record success or failure, save; an exception is
  recorded as a failure.
\<close>

definition act_step ::
  "('s, dexn, bool) eff \<Rightarrow> ('g \<Rightarrow> dexn + 'g) \<Rightarrow> ('g \<Rightarrow> string \<Rightarrow> dexn + 'g) \<Rightarrow> ('g \<Rightarrow> ('s, dexn, 'g) eff) \<Rightarrow>
   (dexn \<Rightarrow> string) \<Rightarrow> string \<Rightarrow> 'g \<Rightarrow> ('s, dexn \<times> 'g, 'g) eff" where
  "act_step call succ fail save str msg g =
     tryE
       (bindE (with_local g call) (\<lambda>ok.
        if ok then bindE (with_local g (liftE (succ g))) (\<lambda>g. with_local g (save g))
        else bindE (with_local g (liftE (fail g msg))) (\<lambda>g. with_local g (save g))))
       (\<lambda>(e, g). bindE (with_local g (liftE (fail g (str e)))) (\<lambda>g. with_local g (save g)))"

lemma refund_hiding_eq:
  "refund_hiding_review S P g = act_step (hide_review_and_lock_chat P (sg_booking_id g)) on_hide_review_success
     on_hide_review_failed (refund_save S) (dexn_str (set_repr S)) ''Interaction service failed to lock/hide'' g"
  by (simp add: refund_hiding_review_def act_step_def)

lemma payout_locking_eq:
  "payout_locking_chat S P g = act_step (lock_chat_room P (sg_booking_id g)) on_lock_chat_success
     on_lock_chat_failed (payout_save S) (dexn_str (set_repr S)) ''Interaction service failed to lock chat room'' g"
  by (simp add: payout_locking_chat_def act_step_def)

lemma act_step_runs:
  assumes "call s = (act, s1)" "succ g = Inr gd" "save gd s1 = (Inr hg, sd)"
    "\<And>err. fail g err = Inr (gf err)" "\<And>err. save (gf err) s1 = (Inr (hf err), sf err)"
  shows "act_step call succ fail save str msg g s = (case act of
      Inl e \<Rightarrow> (Inr (hf (str e)), sf (str e)) | Inr ok \<Rightarrow> if ok then (Inr hg, sd) else (Inr (hf msg), sf msg))"
  using assms by (cases act) (auto simp: act_step_def with_local_def eff_simps)

text \<open>The first step: on success the saga is saved and processed further.\<close>

definition pay_step ::
  "('s, dexn, port_result) eff \<Rightarrow> ('g \<Rightarrow> dexn + 'g) \<Rightarrow> ('g \<Rightarrow> string \<Rightarrow> dexn + 'g) \<Rightarrow> ('g \<Rightarrow> ('s, dexn, 'g) eff) \<Rightarrow>
   (dexn \<Rightarrow> string) \<Rightarrow> string \<Rightarrow> ('g \<Rightarrow> ('s, dexn \<times> 'g, 'g) eff) \<Rightarrow> 'g \<Rightarrow> ('s, dexn \<times> 'g, 'g) eff" where
  "pay_step call succ fail save str msg process g =
     tryE
       (bindE (with_local g call) (\<lambda>res.
        if pr_success res
        then bindE (with_local g (liftE (succ g))) (\<lambda>g. bindE (with_local g (save g)) (\<lambda>g. process g))
        else bindE (with_local g (liftE (fail g (error_or (pr_error res) msg)))) (\<lambda>g. with_local g (save g))))
       (\<lambda>(e, g). bindE (with_local g (liftE (fail g (str e)))) (\<lambda>g. with_local g (save g)))"

lemma refund_refunding_eq:
  "refund_refunding S P process g = pay_step (refund_escrow_to_wallet P (sg_booking_id g)) on_refund_success
     on_refund_failed (refund_save S) (dexn_str (set_repr S)) ''Refund failed'' process g"
  by (simp add: refund_refunding_def pay_step_def)

lemma payout_paying_eq:
  "payout_paying_out S P process g =
     pay_step (payout_from_escrow P (sg_booking_id g) (ps_companion_wallet_id g) (ps_commission_rate g)) on_payout_success
       on_payout_failed (payout_save S) (dexn_str (set_repr S)) ''Payout failed'' process g"
  by (simp add: payout_paying_out_def pay_step_def)

lemma pay_step_runs:
  assumes "call s = (paid, s1)" "succ g = Inr gd" "save gd s1 = (Inr hg, sd)" "process hg sd = (Inr hp, sp)"
    "\<And>err. fail g err = Inr (gf err)" "\<And>err. save (gf err) s1 = (Inr (hf err), sf err)"
  shows "pay_step call succ fail save str msg process g s = (case paid of
      Inl e \<Rightarrow> (Inr (hf (str e)), sf (str e))
    | Inr res \<Rightarrow> if pr_success res then (Inr hp, sp)
        else (Inr (hf (error_or (pr_error res) msg)), sf (error_or (pr_error res) msg)))"
  using assms by (cases paid) (auto simp: pay_step_def with_local_def eff_simps)

section \<open>The contract of an orchestrator\<close>

text \<open>
  Both orchestrators are one algorithm: the state that moves the money, the state that calls the interaction
  service, the final state, the commands of the saga, the two calls, and \<open>save\<close>.  The laws say what the
  commands do in the states they are made for; the lemmas below are proved once.
\<close>

locale saga_orchestrator = saga_store S view com fits
  for S :: "'s dis_session" and view :: "'s \<Rightarrow> dis_db" and com :: "'s \<Rightarrow> dis_db" and fits :: "saga_model \<Rightarrow> bool" +
  fixes pay act fin saga_type :: string
    and to_model :: "'a saga_scheme \<Rightarrow> saga_model"
    and extra :: "'a saga_scheme \<Rightarrow> bool"
    and save :: "'a saga_scheme \<Rightarrow> ('s, dexn, 'a saga_scheme) eff"
    and on_paid on_acted :: "'a saga_scheme \<Rightarrow> dexn + 'a saga_scheme"
    and on_pay_failed on_act_failed :: "'a saga_scheme \<Rightarrow> string \<Rightarrow> dexn + 'a saga_scheme"
    and pay_call :: "'a saga_scheme \<Rightarrow> ('s, dexn, port_result) eff"
    and act_call :: "string \<Rightarrow> ('s, dexn, bool) eff"
    and pay_msg act_msg :: string
    and process :: "nat \<Rightarrow> 'a saga_scheme \<Rightarrow> ('s, dexn \<times> 'a saga_scheme, 'a saga_scheme) eff"
  assumes states: "pay \<noteq> act" "length act \<le> 50" "length fin \<le> 50"
    and save_eq: "save g = bindE (saga_merge S (to_model g)) (\<lambda>v. ret (g\<lparr>sg_version := v\<rparr>))"
    and model_id: "sm_saga_id (to_model g) = sg_saga_id g"
    and model_version: "sm_version (to_model g) = sg_version g" "to_model (g\<lparr>sg_version := v\<rparr>) = (to_model g)\<lparr>sm_version := v\<rparr>"
    and model_events: "to_model (g\<lparr>sg_events := es\<rparr>) = to_model g"
    and model_fits: "ids_fit g \<Longrightarrow> int32 (sg_retry_count g) \<Longrightarrow> length (sg_current_state g) \<le> 50 \<Longrightarrow> extra g \<Longrightarrow>
      fits (to_model g)"
    and extra_keeps: "extra (g\<lparr>sg_current_state := st\<rparr>) = extra g" "extra (g\<lparr>sg_retry_count := k\<rparr>) = extra g"
      "extra (g\<lparr>sg_last_error := err\<rparr>) = extra g" "extra (g\<lparr>sg_events := es\<rparr>) = extra g"
      "extra (g\<lparr>sg_version := v\<rparr>) = extra g"
    and on_paid: "sg_current_state g = pay \<Longrightarrow>
      on_paid g = Inr (saga_add_event (SagaStepCompleted (sg_saga_id g) (sg_dispute_id g) pay)
        (g\<lparr>sg_current_state := act, sg_last_error := None\<rparr>))"
    and on_pay_failed: "sg_current_state g = pay \<Longrightarrow>
      on_pay_failed g e = Inr (saga_add_event (SagaStepFailed (sg_saga_id g) (sg_dispute_id g) pay e (sg_retry_count g))
        (g\<lparr>sg_current_state := ''DISPUTE_FAILED'', sg_last_error := Some e\<rparr>))"
    and on_acted: "sg_current_state g = act \<Longrightarrow>
      on_acted g = Inr (saga_add_event (SagaCompleted (sg_saga_id g) (sg_dispute_id g) saga_type)
        (g\<lparr>sg_current_state := fin, sg_last_error := None\<rparr>))"
    and on_act_failed: "sg_current_state g = act \<Longrightarrow>
      on_act_failed g e = Inr (saga_add_event (SagaStepFailed (sg_saga_id g) (sg_dispute_id g) act e (sg_retry_count g + 1))
        (g\<lparr>sg_retry_count := sg_retry_count g + 1, sg_last_error := Some e\<rparr>))"
    and process_pay: "sg_current_state g = pay \<Longrightarrow> process (Suc n) g =
      bindE (pay_step (pay_call g) on_paid on_pay_failed save (dexn_str (set_repr S)) pay_msg (process n) g)
        (publish_saga_events S)"
    and process_act: "sg_current_state g = act \<Longrightarrow> process (Suc n) g =
      bindE (act_step (act_call (sg_booking_id g)) on_acted on_act_failed save (dexn_str (set_repr S)) act_msg g)
        (publish_saga_events S)"
    and calls_view: "keeps view (pay_call g)" "keeps view (act_call b)"
    and calls_com: "keeps com (pay_call g)" "keeps com (act_call b)"
begin

text \<open>A saga that has just been saved; a saga whose row, if there is one, has the version it was read with.\<close>

definition saved :: "'s \<Rightarrow> 'a saga_scheme \<Rightarrow> 's \<Rightarrow> bool" where
  "saved s h s' \<longleftrightarrow> com s' = com s \<and> view s' = put_saga (to_model h) (view s)"

definition current :: "'s \<Rightarrow> 'a saga_scheme \<Rightarrow> bool" where
  "current s g \<longleftrightarrow> (\<forall>r0. sagas (view s) (sg_saga_id g) = Some r0 \<longrightarrow> sm_version r0 = sg_version g)"

lemma save_returns:
  assumes "ids_fit g" "int32 (sg_retry_count g)" "length (sg_current_state g) \<le> 50" "extra g" "current s g"
  shows "\<exists>v s'. save g s = (Inr (g\<lparr>sg_version := v\<rparr>), s') \<and> saved s (g\<lparr>sg_version := v\<rparr>) s'"
proof -
  have "fits (to_model g)" using assms(1-4) by (rule model_fits)
  from saga_merge_returns [OF this, of s] assms(5) obtain v s' where
    "saga_merge S (to_model g) s = (Inr v, s')" "view s' = put_saga ((to_model g)\<lparr>sm_version := v\<rparr>) (view s)" "com s' = com s"
    by (auto simp: current_def model_id model_version)
  then show ?thesis by (auto simp: save_eq eff_simps saved_def model_version)
qed

lemma saves_return:
  assumes "\<And>x. ids_fit (h x) \<and> int32 (sg_retry_count (h x)) \<and> length (sg_current_state (h x)) \<le> 50 \<and> extra (h x) \<and> current s (h x)"
  obtains v t where "\<And>x. save (h x) s = (Inr ((h x)\<lparr>sg_version := v x\<rparr>), t x)" "\<And>x. saved s ((h x)\<lparr>sg_version := v x\<rparr>) (t x)"
proof -
  have "\<exists>v t. save (h x) s = (Inr ((h x)\<lparr>sg_version := v\<rparr>), t) \<and> saved s ((h x)\<lparr>sg_version := v\<rparr>) t" for x
    using save_returns [of "h x" s] assms [of x] by blast
  then show thesis using that by metis
qed

lemma saved_after:
  assumes "saved s1 g s'" "view s1 = view s" "com s1 = com s"
  shows "saved s g s'"
  using assms by (simp add: saved_def)

lemma saved_twice:
  assumes "saved s g s1" "saved s1 h s2" "sg_saga_id h = sg_saga_id g"
  shows "saved s h s2"
  using assms by (simp add: saved_def model_id)

lemma saved_current: "saved s g s' \<Longrightarrow> sg_saga_id h = sg_saga_id g \<Longrightarrow> sg_version h = sg_version g \<Longrightarrow> current s' h"
  by (simp add: saved_def current_def model_id model_version)

text \<open>The preconditions of a step.\<close>

definition storable :: "'a saga_scheme \<Rightarrow> bool" where
  "storable g \<longleftrightarrow> ids_fit g \<and> extra g \<and> 0 \<le> sg_retry_count g \<and> int32 (sg_retry_count g + 1) \<and> internal_events g"

lemma act_returns:
  assumes g: "sg_current_state g = act" "storable g" and row: "current s g"
    and res: "fst (act_call (sg_booking_id g) s) = res"
  shows "\<exists>g' s'. act_step (act_call (sg_booking_id g)) on_acted on_act_failed save (dexn_str (set_repr S)) act_msg g s =
      (Inr g', s') \<and> saved s g' s' \<and> internal_events g' \<and> moved g g' \<and>
    saga_abs g' = acted (set_repr S) (pay, act, fin) act_msg res (sg_retry_count g)"
proof -
  obtain s1 where 1: "act_call (sg_booking_id g) s = (res, s1)" using res by (metis prod.collapse)
  have v1: "view s1 = view s" "com s1 = com s" using 1 calls_view(2) calls_com(2) by (auto dest: keepsD)
  let ?done = "saga_add_event (SagaCompleted (sg_saga_id g) (sg_dispute_id g) saga_type)
      (g\<lparr>sg_current_state := fin, sg_last_error := None\<rparr>)"
  let ?fail = "\<lambda>err. saga_add_event (SagaStepFailed (sg_saga_id g) (sg_dispute_id g) act err (sg_retry_count g + 1))
      (g\<lparr>sg_retry_count := sg_retry_count g + 1, sg_last_error := Some err\<rparr>)"
  obtain vd td where d: "\<And>x::unit. save ?done s1 = (Inr (?done\<lparr>sg_version := vd x\<rparr>), td x)"
      "\<And>x. saved s1 (?done\<lparr>sg_version := vd x\<rparr>) (td x)"
    by (rule saves_return [of "\<lambda>_::unit. ?done" s1])
      (use g row v1 states in \<open>auto simp: saga_add_event_def ids_fit_def int32_def storable_def extra_keeps current_def\<close>)
  obtain vf tf where f: "\<And>err. save (?fail err) s1 = (Inr ((?fail err)\<lparr>sg_version := vf err\<rparr>), tf err)"
      "\<And>err. saved s1 ((?fail err)\<lparr>sg_version := vf err\<rparr>) (tf err)"
    by (rule saves_return [of ?fail s1])
      (use g row v1 states in \<open>auto simp: saga_add_event_def ids_fit_def storable_def extra_keeps current_def\<close>)
  have run: "act_step (act_call (sg_booking_id g)) on_acted on_act_failed save (dexn_str (set_repr S)) act_msg g s = (case res of
      Inl e \<Rightarrow> (Inr ((?fail (dexn_str (set_repr S) e))\<lparr>sg_version := vf (dexn_str (set_repr S) e)\<rparr>), tf (dexn_str (set_repr S) e))
    | Inr okay \<Rightarrow> if okay then (Inr (?done\<lparr>sg_version := vd ()\<rparr>), td ())
        else (Inr ((?fail act_msg)\<lparr>sg_version := vf act_msg\<rparr>), tf act_msg))"
    by (rule act_step_runs [where gf = ?fail and hf = "\<lambda>err. (?fail err)\<lparr>sg_version := vf err\<rparr>" and sf = tf])
      (rule 1 on_acted [OF g(1)] on_act_failed [OF g(1)] d(1) f(1))+
  show ?thesis
    using saved_after [OF d(2) [of "()"] v1] saved_after [OF f(2) v1] g
    by (cases res) (auto simp: run saga_abs_def acted_def saga_add_event_def internal_events_def storable_def moved_def)
qed

lemma publish_after:
  assumes "m s = (Inr g, t)" "internal_events g" "saved s g t"
  shows "\<exists>s'. bindE m (publish_saga_events S) s = (Inr (g\<lparr>sg_events := []\<rparr>), s') \<and> saved s (g\<lparr>sg_events := []\<rparr>) s'"
proof -
  from publish_saga_events_returns [OF assms(2), of t] obtain s' where
    "publish_saga_events S g t = (Inr (g\<lparr>sg_events := []\<rparr>), s')" "view s' = view t" "com s' = com t" by blast
  with assms(1,3) show ?thesis by (simp add: eff_simps saved_def model_events)
qed

text \<open>The call of the interaction service, in a first run and in every retry.\<close>

lemma process_act_outcome:
  assumes "sg_current_state g = act" "storable g" "current s g" "fst (act_call (sg_booking_id g) s) = res"
  shows "\<exists>g' s'. process (Suc n) g s = (Inr g', s') \<and> saved s g' s' \<and> sg_events g' = [] \<and> moved g g' \<and>
    saga_abs g' = acted (set_repr S) (pay, act, fin) act_msg res (sg_retry_count g)"
proof -
  from act_returns [OF assms] obtain g1 s1 where
    1: "act_step (act_call (sg_booking_id g)) on_acted on_act_failed save (dexn_str (set_repr S)) act_msg g s = (Inr g1, s1)"
      "saved s g1 s1" "internal_events g1" "moved g g1"
      "saga_abs g1 = acted (set_repr S) (pay, act, fin) act_msg res (sg_retry_count g)" by blast
  from publish_after [of "act_step (act_call (sg_booking_id g)) on_acted on_act_failed save (dexn_str (set_repr S)) act_msg g" s,
      OF 1(1,3,2)] show ?thesis
    using 1(4,5) unfolding process_act [OF assms(1)] by (auto simp: saga_abs_def moved_cleared)
qed

text \<open>The whole saga.\<close>

lemma process_outcome:
  assumes g: "sg_current_state g = pay" "storable g" "sg_events g = []" and row: "current s g"
    and calls: "fst (pay_call g s) = paid" "\<And>t. fst (act_call (sg_booking_id g) t) = res"
  shows "\<exists>g' s'. process 2 g s = (Inr g', s') \<and> saved s g' s' \<and> moved g g' \<and>
    saga_abs g' = outcome (set_repr S) (pay, act, fin) pay_msg act_msg paid res (sg_retry_count g)"
proof -
  obtain s1 where 1: "pay_call g s = (paid, s1)" using calls(1) by (metis prod.collapse)
  have v1: "view s1 = view s" "com s1 = com s" using 1 calls_view(1) calls_com(1) by (auto dest: keepsD)
  let ?done = "saga_add_event (SagaStepCompleted (sg_saga_id g) (sg_dispute_id g) pay)
      (g\<lparr>sg_current_state := act, sg_last_error := None\<rparr>)"
  let ?fail = "\<lambda>err. saga_add_event (SagaStepFailed (sg_saga_id g) (sg_dispute_id g) pay err (sg_retry_count g))
      (g\<lparr>sg_current_state := ''DISPUTE_FAILED'', sg_last_error := Some err\<rparr>)"
  obtain vd td where d: "\<And>x::unit. save ?done s1 = (Inr (?done\<lparr>sg_version := vd x\<rparr>), td x)"
      "\<And>x. saved s1 (?done\<lparr>sg_version := vd x\<rparr>) (td x)"
    by (rule saves_return [of "\<lambda>_::unit. ?done" s1])
      (use g row v1 states in \<open>auto simp: saga_add_event_def ids_fit_def int32_def storable_def extra_keeps current_def\<close>)
  obtain vf tf where f: "\<And>err. save (?fail err) s1 = (Inr ((?fail err)\<lparr>sg_version := vf err\<rparr>), tf err)"
      "\<And>err. saved s1 ((?fail err)\<lparr>sg_version := vf err\<rparr>) (tf err)"
    by (rule saves_return [of ?fail s1])
      (use g row v1 states in \<open>auto simp: saga_add_event_def ids_fit_def int32_def storable_def extra_keeps current_def\<close>)
  let ?h = "?done\<lparr>sg_version := vd ()\<rparr>"
  have h: "sg_current_state ?h = act" "storable ?h" "current (td ()) ?h" "sg_saga_id ?h = sg_saga_id g"
      "sg_retry_count ?h = sg_retry_count g" "sg_booking_id ?h = sg_booking_id g"
    using g saved_current [OF d(2) [of "()"]]
    by (simp_all add: saga_add_event_def storable_def ids_fit_def extra_keeps internal_events_def)
  obtain hp sp where p: "process (Suc 0) ?h (td ()) = (Inr hp, sp)" "saved (td ()) hp sp" "sg_events hp = []"
      "moved ?h hp" "saga_abs hp = acted (set_repr S) (pay, act, fin) act_msg res (sg_retry_count g)"
    using process_act_outcome [OF h(1-3), of res 0] calls(2) h(4-6) by auto
  have sp: "saved s hp sp"
    using saved_twice [OF saved_after [OF d(2) [of "()"] v1] p(2)] moved_id [OF p(4)] by simp
  have mp: "moved g hp" by (rule moved_trans [OF _ p(4)]) (simp add: moved_def saga_add_event_def)
  let ?m = "pay_step (pay_call g) on_paid on_pay_failed save (dexn_str (set_repr S)) pay_msg (process (Suc 0)) g"
  have run: "?m s = (case paid of
      Inl e \<Rightarrow> (Inr ((?fail (dexn_str (set_repr S) e))\<lparr>sg_version := vf (dexn_str (set_repr S) e)\<rparr>), tf (dexn_str (set_repr S) e))
    | Inr r \<Rightarrow> if pr_success r then (Inr hp, sp)
        else (Inr ((?fail (error_or (pr_error r) pay_msg))\<lparr>sg_version := vf (error_or (pr_error r) pay_msg)\<rparr>),
              tf (error_or (pr_error r) pay_msg)))"
    by (rule pay_step_runs [where gf = ?fail and hf = "\<lambda>err. (?fail err)\<lparr>sg_version := vf err\<rparr>" and sf = tf])
      (rule 1 on_paid [OF g(1)] on_pay_failed [OF g(1)] d(1) p(1) f(1))+
  have "\<exists>g1 t1. ?m s = (Inr g1, t1) \<and> saved s g1 t1 \<and> internal_events g1 \<and> moved g g1 \<and>
      saga_abs g1 = outcome (set_repr S) (pay, act, fin) pay_msg act_msg paid res (sg_retry_count g)"
    using p(3,5) mp sp saved_after [OF f(2) v1] g(1,3)
    by (cases paid) (auto simp: run outcome_def internal_events_def saga_add_event_def saga_abs_def moved_def)
  then obtain g1 t1 where r: "?m s = (Inr g1, t1)" "saved s g1 t1" "internal_events g1" "moved g g1"
    "saga_abs g1 = outcome (set_repr S) (pay, act, fin) pay_msg act_msg paid res (sg_retry_count g)"
    by blast
  from publish_after [of ?m s, OF r(1,3,2)] show ?thesis
    using r(4,5) unfolding numeral_2_eq_2 process_pay [OF g(1)] by (auto simp: saga_abs_def moved_cleared)
qed

end

section \<open>The two orchestrators\<close>

lemma refund_model_fits:
  "saga_fits (SagaStateMapper_to_model (RefundSaga g)) \<longleftrightarrow>
     ids_fit g \<and> int32 (sg_retry_count g) \<and> length (sg_current_state g) \<le> 50"
  by (auto simp: saga_core_model_def saga_fits_def ids_fit_def fits_opt_def)

lemma payout_model_fits:
  "saga_fits (SagaStateMapper_to_model (PayoutSaga g)) \<longleftrightarrow>
     ids_fit g \<and> int32 (sg_retry_count g) \<and> length (sg_current_state g) \<le> 50 \<and> fits_opt 36 (ps_companion_wallet_id g)"
  by (auto simp: saga_core_model_def saga_fits_def ids_fit_def)

locale dis_ports = dis_session_live S view com + ports_frame P view com
  for S :: "'s dis_session" and P :: "'s ports" and view :: "'s \<Rightarrow> dis_db" and com :: "'s \<Rightarrow> dis_db"

sublocale dis_ports \<subseteq> refund: saga_orchestrator S view com saga_fits
  "''REFUNDING''" "''HIDING_REVIEW''" "''DISPUTE_RESOLVED_REFUNDED''" "''REFUND''" "\<lambda>g. SagaStateMapper_to_model (RefundSaga g)"
  "\<lambda>g. True" "refund_save S" on_refund_success on_hide_review_success on_refund_failed on_hide_review_failed
  "\<lambda>g. refund_escrow_to_wallet P (sg_booking_id g)" "hide_review_and_lock_chat P"
  "''Refund failed''" "''Interaction service failed to lock/hide''" "\<lambda>n. refund_process_rec n S P"
  by unfold_locales
    (simp add: refund_model_fits refund_save_def refund_refunding_eq refund_hiding_eq on_refund_success_def on_refund_failed_def on_hide_review_success_def on_hide_review_failed_def ports_view ports_com del: SagaStateMapper_to_model.simps |
     simp add: saga_core_model_def)+

sublocale dis_ports \<subseteq> payout: saga_orchestrator S view com saga_fits
  "''PAYING_OUT''" "''LOCKING_CHAT''" "''DISPUTE_RESOLVED_PAID_OUT''" "''PAYOUT''" "\<lambda>g. SagaStateMapper_to_model (PayoutSaga g)"
  "\<lambda>g. fits_opt 36 (ps_companion_wallet_id g)" "payout_save S" on_payout_success on_lock_chat_success on_payout_failed
  on_lock_chat_failed "\<lambda>g. payout_from_escrow P (sg_booking_id g) (ps_companion_wallet_id g) (ps_commission_rate g)"
  "lock_chat_room P" "''Payout failed''" "''Interaction service failed to lock chat room''" "\<lambda>n. payout_process_rec n S P"
  by unfold_locales
    (simp add: payout_model_fits payout_save_def payout_paying_eq payout_locking_eq on_payout_success_def on_payout_failed_def on_lock_chat_success_def on_lock_chat_failed_def ports_view ports_com del: SagaStateMapper_to_model.simps |
     simp add: saga_core_model_def)+

end
