(* ===== verification/Dispute_Memory.thy ===== *)
theory Dispute_Memory
  imports Dispute_Live
begin

text \<open>
  A reference session of the dispute service over association lists, on which the laws of
  \<open>dis_session_live\<close> hold, and ports that answer as they are told; the mock adapters and the gRPC adapters
  of the service satisfy the frame law of the ports.
\<close>

record dis_tables =
  dt_disputes :: "(string, dispute_model) alist"
  dt_sagas :: "(string, saga_model) alist"
  dt_outbox :: "outbox_model list"

type_synonym dis_mem = "dis_tables mem"

definition dis_abs :: "dis_tables \<Rightarrow> dis_db" where
  "dis_abs t = \<lparr>disputes = DAList.lookup (dt_disputes t), sagas = DAList.lookup (dt_sagas t), d_outbox = dt_outbox t\<rparr>"

definition dis_view :: "dis_mem \<Rightarrow> dis_db" where
  "dis_view s = dis_abs (m_view s)"

definition dis_com :: "dis_mem \<Rightarrow> dis_db" where
  "dis_com s = dis_abs (m_com s)"

definition mem_dis_outbox_add :: "outbox_model \<Rightarrow> (dis_mem, dexn, unit) eff" where
  "mem_dis_outbox_add r s = (Inr (), s\<lparr>m_view := (m_view s)\<lparr>dt_outbox := dt_outbox (m_view s) @ [r]\<rparr>\<rparr>)"

definition mem_rows :: "('d \<Rightarrow> ('k, 'r) alist) \<Rightarrow> ('r \<Rightarrow> bool) \<Rightarrow> 'd mem \<Rightarrow> 'r list" where
  "mem_rows get P s = filter P (map snd (DAList.impl_of (get (m_view s))))"

definition mem_dis :: "dis_mem dis_session" where
  "mem_dis = \<lparr>dis_open = mem_rollback, dis_uuid4 = mem_tick pad36, dis_utcnow = mem_tick int,
     dis_pb_json = (\<lambda>m. if pb_encodable m then Inr (pm_name m) else Inl (ValueErrorD ''Value out of range'')),
     set_repr = concat,
     dispute_merge = mem_vmerge dt_disputes (\<lambda>t. dt_disputes_update (\<lambda>_. t)) dm_dispute_id dm_booking_id dispute_fits
       dm_version (\<lambda>v r. r\<lparr>dm_version := v, dm_created_at := Some 0\<rparr>) (DBErrorD ''disputes''),
     dispute_select = mem_select dt_disputes,
     dispute_count = (\<lambda>P s. (Inr (length (mem_rows dt_disputes P s)), s)),
     dispute_page = (\<lambda>P off lim s. (Inr (take lim (drop off (mem_rows dt_disputes P s))), s)),
     saga_merge = mem_vmerge dt_sagas (\<lambda>t. dt_sagas_update (\<lambda>_. t)) sm_saga_id sm_saga_id saga_fits
       sm_version (\<lambda>v r. r\<lparr>sm_version := v\<rparr>) (DBErrorD ''sagas''),
     saga_select = mem_select dt_sagas,
     saga_limit = (\<lambda>P lim s. (Inr (take lim (mem_rows dt_sagas P s)), s)),
     dis_outbox_add = mem_dis_outbox_add, dis_commit = mem_commit, dis_rollback = mem_rollback\<rparr>"

lemma mem_dis_sel [simp]:
  "dis_open mem_dis = mem_rollback" "dis_uuid4 mem_dis = mem_tick pad36" "dis_utcnow mem_dis = mem_tick int"
  "dis_outbox_add mem_dis = mem_dis_outbox_add" "dis_commit mem_dis = mem_commit" "dis_rollback mem_dis = mem_rollback"
  by (simp_all add: mem_dis_def)

lemmas dis_mem_defs = dis_view_def dis_com_def dis_abs_def

lemma dis_dispute_table:
  "sql_versioned_live (dispute_merge mem_dis) (dispute_select mem_dis) dis_view dis_com disputes
     (\<lambda>m. disputes_update (\<lambda>_. m)) dm_dispute_id dm_booking_id dispute_fits dispute_agree dm_version"
  unfolding mem_dis_def dis_session.simps
  by (rule mem_sql_versioned_live) (simp_all add: dis_mem_defs dispute_agree_def alist_lookup_update)

lemma dis_saga_table:
  "sql_versioned_live (saga_merge mem_dis) (saga_select mem_dis) dis_view dis_com sagas
     (\<lambda>m. sagas_update (\<lambda>_. m)) sm_saga_id sm_saga_id saga_fits saga_agree sm_version"
  unfolding mem_dis_def dis_session.simps
  by (rule mem_sql_versioned_live) (simp_all add: dis_mem_defs saga_agree_def alist_lookup_update)

lemma dis_txn: "sql_txn_live (dis_commit mem_dis) (dis_rollback mem_dis) dis_view dis_com"
  unfolding mem_dis_sel dis_view_def [abs_def] dis_com_def [abs_def] by (rule mem_sql_txn_live)

lemma dis_frame: "sql_frame_live (mem_tick g) dis_view dis_com"
  unfolding dis_view_def [abs_def] dis_com_def [abs_def] by (rule mem_sql_frame_live)

lemma mem_saga_limit_law:
  assumes "saga_limit mem_dis Q lim s = (Inr gs, s')" "table_ok sm_saga_id sm_saga_id (sagas (dis_view s))"
  shows "(\<exists>all. gs = take lim all \<and> set all = {g \<in> ran (sagas (dis_view s)). Q g} \<and> distinct (map sm_saga_id all)) \<and>
      dis_view s' = dis_view s"
proof -
  let ?rows = "mem_rows dt_sagas Q s"
  have "distinct (map sm_saga_id (map snd (DAList.impl_of (dt_sagas (m_view s)))))"
    using assms(2) by (intro distinct_rows) (simp add: dis_mem_defs)
  then have "distinct (map sm_saga_id ?rows)" unfolding mem_rows_def by (rule distinct_map_filter)
  moreover have "set ?rows = {g \<in> ran (sagas (dis_view s)). Q g}"
    unfolding mem_rows_def set_filter set_map by (simp add: dis_mem_defs ran_lookup)
  ultimately show ?thesis using assms(1) by (auto simp: mem_dis_def intro!: exI [of _ ?rows])
qed

text \<open>The reference session satisfies the laws.\<close>

interpretation dis: dis_session_live mem_dis dis_view dis_com
proof (intro dis_session_live.intro dis_session.intro dis_session_axioms.intro dis_session_live_axioms.intro)
  show d: "sql_versioned_live (dispute_merge mem_dis) (dispute_select mem_dis) dis_view dis_com disputes
     (\<lambda>m. disputes_update (\<lambda>_. m)) dm_dispute_id dm_booking_id dispute_fits dispute_agree dm_version"
    by (rule dis_dispute_table)
  then show "sql_versioned (dispute_merge mem_dis) (dispute_select mem_dis) dis_view dis_com disputes
     (\<lambda>m. disputes_update (\<lambda>_. m)) dm_dispute_id dm_booking_id dispute_fits dispute_agree dm_version"
    by (rule sql_versioned_live.axioms)
  show "sql_versioned_live (saga_merge mem_dis) (saga_select mem_dis) dis_view dis_com sagas
     (\<lambda>m. sagas_update (\<lambda>_. m)) sm_saga_id sm_saga_id saga_fits saga_agree sm_version"
    by (rule dis_saga_table)
  then show "sql_versioned (saga_merge mem_dis) (saga_select mem_dis) dis_view dis_com sagas
     (\<lambda>m. sagas_update (\<lambda>_. m)) sm_saga_id sm_saga_id saga_fits saga_agree sm_version"
    by (rule sql_versioned_live.axioms)
  show "sql_txn_live (dis_commit mem_dis) (dis_rollback mem_dis) dis_view dis_com" by (rule dis_txn)
  then show "sql_txn (dis_commit mem_dis) (dis_rollback mem_dis) dis_view dis_com" by (rule sql_txn_live.axioms)
  show "sql_frame_live (dis_uuid4 mem_dis) dis_view dis_com" "sql_frame_live (dis_utcnow mem_dis) dis_view dis_com"
    by (simp_all add: dis_frame)
  then show "sql_frame (dis_uuid4 mem_dis) dis_view dis_com" "sql_frame (dis_utcnow mem_dis) dis_view dis_com"
    by (auto dest: sql_frame_live.axioms)
  show "(\<exists>all. gs = take lim all \<and> set all = {g \<in> ran (sagas (dis_view s)). Q g} \<and> distinct (map sm_saga_id all)) \<and>
      dis_view s' = dis_view s"
    if "saga_limit mem_dis Q lim s = (Inr gs, s')" "table_ok sm_saga_id sm_saga_id (sagas (dis_view s))" for Q lim s gs s'
    using that by (rule mem_saga_limit_law)
qed (auto simp: mem_dis_def mem_tick_def mem_rollback_def mem_dis_outbox_add_def outbox_agree_def dis_mem_defs)

lemma mem_dis_live: "dis_session_live mem_dis dis_view dis_com"
  by (rule dis.dis_session_live_axioms)

lemma mem_dis_session: "dis_session mem_dis dis_view dis_com"
  by (rule dis.dis_session_axioms)

section \<open>Ports\<close>

text \<open>The mock adapters of the service keep the database.\<close>

interpretation mock: ports_frame "mock_ports mem_dis" dis_view dis_com
  by unfold_locales (auto simp: keeps_def mock_ports_def payout_snapshot_def mem_tick_def bindE_def ret_def dis_mem_defs)

interpretation mocked: dis_ports mem_dis "mock_ports mem_dis" dis_view dis_com
  by unfold_locales

text \<open>
  The same session on a database that stores a string of any length in the table of the sagas, as SQLite does.
\<close>

definition mem_sqlite :: "dis_mem dis_session" where
  "mem_sqlite = mem_dis\<lparr>saga_merge := mem_vmerge dt_sagas (\<lambda>t. dt_sagas_update (\<lambda>_. t)) sm_saga_id sm_saga_id (\<lambda>_. True)
     sm_version (\<lambda>v r. r\<lparr>sm_version := v\<rparr>) (DBErrorD ''sagas'')\<rparr>"

interpretation sqlite: saga_store mem_sqlite dis_view dis_com "\<lambda>_. True"
proof (rule saga_store.intro)
  show "sql_versioned_live (saga_merge mem_sqlite) (saga_select mem_sqlite) dis_view dis_com sagas
     (\<lambda>m. sagas_update (\<lambda>_. m)) sm_saga_id sm_saga_id (\<lambda>_. True) saga_agree sm_version"
    unfolding mem_sqlite_def mem_dis_def dis_session.simps
    by (rule mem_sql_versioned_live) (simp_all add: dis_mem_defs saga_agree_def alist_lookup_update)
  show "sql_frame_live (dis_utcnow mem_sqlite) dis_view dis_com" by (simp add: mem_sqlite_def dis_frame)
qed

lemma mock_ports_sqlite: "mock_ports mem_sqlite = mock_ports mem_dis"
  by (simp add: mock_ports_def mem_sqlite_def)

text \<open>The gRPC adapters keep it when the stubs do.\<close>

locale stub_frame =
  fixes fin :: "'s finance_stub" and itx :: "'s interaction_stub" and g :: "'s \<Rightarrow> 'd"
  assumes stub_keeps: "keeps g (RefundEscrow_rpc fin b c n)" "keeps g (ProcessPayout_rpc fin b w r)"
    "keeps g (HideReview_rpc itx b reason)" "keeps g (LockChatRoom_rpc itx b)"
begin

lemma grpc_ports_keep:
  "keeps g (refund_escrow_to_wallet (grpc_ports repr (Some fin) (Some itx)) b)"
  "keeps g (payout_from_escrow (grpc_ports repr (Some fin) (Some itx)) b w r)"
  "keeps g (get_payout_snapshot (grpc_ports repr (Some fin) (Some itx)) b)"
  "keeps g (hide_review_and_lock_chat (grpc_ports repr (Some fin) (Some itx)) b)"
  "keeps g (lock_chat_room (grpc_ports repr (Some fin) (Some itx)) b)"
  unfolding grpc_ports_def ports.simps grpc_refund_escrow_to_wallet_def grpc_payout_from_escrow_def payout_snapshot_def
    grpc_hide_review_and_lock_chat_def grpc_lock_chat_room_def option.case
  by (intro keep_intros stub_keeps)+

end

lemma grpc_ports_frame:
  assumes "stub_frame fin itx view" "stub_frame fin itx com"
  shows "ports_frame (grpc_ports repr (Some fin) (Some itx)) view com"
  using stub_frame.grpc_ports_keep [OF assms(1)] stub_frame.grpc_ports_keep [OF assms(2)] by unfold_locales

text \<open>Ports that answer as they are told.\<close>

definition told_ports :: "(dexn + port_result) \<Rightarrow> (dexn + bool) \<Rightarrow> 's ports" where
  "told_ports paid act = \<lparr>refund_escrow_to_wallet = (\<lambda>b s. (paid, s)), payout_from_escrow = (\<lambda>b w r s. (paid, s)),
     get_payout_snapshot = payout_snapshot, hide_review_and_lock_chat = (\<lambda>b s. (act, s)), lock_chat_room = (\<lambda>b s. (act, s))\<rparr>"

lemma told_frame: "ports_frame (told_ports paid act) view com"
  by unfold_locales (auto simp: keeps_def told_ports_def payout_snapshot_def ret_def)

end
