(* ===== verification/Dispute_Reports.thy ===== *)
theory Dispute_Reports
  imports Dispute_Live
begin

text \<open>
  Reports in a session that stays up: a report for a booking without a dispute is stored, announced and
  committed; a second report for a booking is refused.
\<close>

definition dispute_created :: "string" where
  "dispute_created = ''dispute.dispute-created.v1''"

lemma created_contract:
  "\<exists>m. dispute_to_protobuf (ReportCreated i b r a reason) now = Some m \<and> dispute_event_type_of m = dispute_created \<and> pb_encodable m"
proof -
  have "to_kebab_case ''DisputeCreated'' = ''dispute-created''" by code_simp
  then show ?thesis by (simp add: dispute_event_type_of_def dispute_created_def pb_encodable_def)
qed

definition dispute_resolved :: "string" where
  "dispute_resolved = ''dispute.dispute-resolved.v1''"

lemma resolved_contract:
  "\<exists>m. dispute_to_protobuf (DisputeResolvedRefund d b a r c) now = Some m \<and> dispute_event_type_of m = dispute_resolved \<and> pb_encodable m"
proof -
  have "to_kebab_case ''DisputeResolved'' = ''dispute-resolved''" by code_simp
  then show ?thesis by (simp add: dispute_event_type_of_def dispute_resolved_def resolved_message_def pb_encodable_def)
qed

text \<open>The row of a new report.\<close>

definition reported :: "string \<Rightarrow> string \<Rightarrow> string \<Rightarrow> string \<Rightarrow> string \<Rightarrow> (string \<times> string) list \<Rightarrow> dispute_model \<Rightarrow> bool" where
  "reported i b r a reason evs row \<longleftrightarrow> dm_dispute_id row = i \<and> dm_booking_id row = b \<and> dm_reporter_id row = r \<and>
     dm_accused_id row = a \<and> dm_reason row = reason \<and> dm_status row = ''OPEN'' \<and> dm_admin_id row = None \<and>
     dm_resolution row = None \<and> image_mset (\<lambda>e. (ev_type e, ev_content e)) (mset (dm_evidences row)) = mset evs"

definition evidence_pair :: "evidence_dict \<Rightarrow> string \<times> string" where
  "evidence_pair ev = (dict_get ev ''evidence_type'' ''TEXT'', dict_get ev ''content'' '''')"

context dis_session_live
begin

lemma evidence_entities_returns:
  "\<exists>es s'. evidence_entities S evs s = (Inr es, s') \<and> view s' = view s \<and> com s' = com s \<and>
     map (\<lambda>e. (ev_type e, ev_content e)) es = map evidence_pair evs \<and> (\<forall>e\<in>set es. length (ev_id e) = 36)"
proof (induction evs arbitrary: s)
  case Nil
  show ?case by (simp add: ret_run)
next
  case (Cons ev evs)
  obtain i s1 where 1: "dis_uuid4 S s = (Inr i, s1)" "view s1 = view s" "com s1 = com s" "length i = 36"
    by (rule dis_uuid_returns)
  obtain es s2 where "evidence_entities S evs s1 = (Inr es, s2)" "view s2 = view s1" "com s2 = com s1"
    "map (\<lambda>e. (ev_type e, ev_content e)) es = map evidence_pair evs" "\<forall>e\<in>set es. length (ev_id e) = 36"
    using Cons.IH [of s1] by blast
  with 1 show ?case by (auto simp: eff_simps evidence_pair_def)
qed

lemma publish_contract:
  assumes "\<And>now. \<exists>m. dispute_to_protobuf e now = Some m \<and> dispute_event_type_of m = ty \<and> pb_encodable m"
  obtains ob s' where "dispute_publish S e s = (Inr (), s')" "com s' = com s"
    "view s' = (view s)\<lparr>d_outbox := d_outbox (view s) @ [ob]\<rparr>" "ob_event_type ob = ty" "\<not> ob_processed ob"
proof -
  obtain now s1 where 1: "dis_utcnow S s = (Inr now, s1)" "view s1 = view s" "com s1 = com s" by (rule nwl.frame_runs)
  obtain m where m: "dispute_to_protobuf e now = Some m" "dispute_event_type_of m = ty" "pb_encodable m"
    using assms by blast
  obtain j where j: "dis_pb_json S m = Inr j" using dis_pb_live [OF m(3)] by blast
  obtain eid s2 where 2: "dis_uuid4 S s1 = (Inr eid, s2)" "view s2 = view s1" "com s2 = com s1" "length eid = 36"
    by (rule dis_uuid_returns)
  let ?ob = "\<lparr>ob_id = None, ob_event_id = eid, ob_event_type = dispute_event_type_of m,
            ob_payload = j, ob_created_at = None, ob_processed = False\<rparr>"
  obtain s3 where 3: "dis_outbox_add S ?ob s2 = (Inr (), s3)" using dis_outbox_live by blast
  from dis_outbox_ok [OF 3] obtain ob where "outbox_agree ?ob ob" "view s3 = (view s2)\<lparr>d_outbox := d_outbox (view s2) @ [ob]\<rparr>"
    by blast
  moreover have "com s3 = com s2" using dis_outbox_com [of ?ob s2] 3 by simp
  ultimately show thesis
    using 1 2 3 j m by (intro that [of s3 ob]) (simp_all add: dispute_publish_def eff_simps outbox_agree_def)
qed

lemma report_stored:
  assumes d: "Dispute_create_report i b r a reason es = Inr d"
    and new: "\<And>x. x \<in> ran (disputes (view s)) \<Longrightarrow> dm_booking_id x \<noteq> b" "i \<notin> dom (disputes (view s))"
    and lens: "length i \<le> 36" "length b \<le> 36" "length r \<le> 36" "length a \<le> 36"
      "\<And>e. e \<in> set es \<Longrightarrow> length (ev_id e) \<le> 36 \<and> length (ev_type e) \<le> 30"
  obtains v row s' where "DisputeRepository_save S d s = (Inr (d\<lparr>d_version := v\<rparr>), s')" "com s' = com s"
    "view s' = (view s)\<lparr>disputes := (disputes (view s))(i \<mapsto> row)\<rparr>"
    "reported i b r a reason (map (\<lambda>e. (ev_type e, ev_content e)) es) row"
proof -
  let ?m = "DisputeMapper_to_model d"
  note f = create_report_fields [OF d]
  have reason: "length reason \<le> 50" using f by (auto simp: VALID_REASONS_def)
  have "dispute_fits ?m"
    using f lens reason by (auto simp: dispute_fits_def DisputeMapper_to_model_def fits_opt_def)
  then have acc: "row_accepted dm_dispute_id dm_booking_id dispute_fits (disputes (view s)) ?m"
    using new(1) f by (auto simp: row_accepted_def)
  have "\<And>r0. disputes (view s) (dm_dispute_id ?m) = Some r0 \<Longrightarrow> dm_version r0 = dm_version ?m"
    using new(2) f by auto
  from dtl.vmerge_live [OF acc this] obtain v s' where m: "dispute_merge S ?m s = (Inr v, s')" by blast
  then have run: "DisputeRepository_save S d s = (Inr (d\<lparr>d_version := v\<rparr>), s')"
    by (simp add: DisputeRepository_save_def eff_simps)
  have c: "com s' = com s" using keepsD [OF repo_keeps(1) run] by simp
  from run show thesis
  proof (rule save_dispute)
    fix row
    assume row: "dispute_agree ?m row" "view s' = (view s)\<lparr>disputes := (disputes (view s))(d_dispute_id d \<mapsto> row)\<rparr>"
    have "mset (dm_evidences row) = mset es" using row(1) f by (simp add: dispute_agree_def DisputeMapper_to_model_def)
    then have "reported i b r a reason (map (\<lambda>e. (ev_type e, ev_content e)) es) row"
      using agree_dispute [OF row(1)] f by (simp add: reported_def DisputeMapper_to_model_def mset_map)
    with run c row(2) f show thesis by (intro that [of v s' row]) simp_all
  qed
qed

lemma create_report_returns:
  assumes new: "\<And>x. x \<in> ran (disputes (view s)) \<Longrightarrow> dm_booking_id x \<noteq> b"
    and fresh: "\<And>t i t'. dis_uuid4 S t = (Inr i, t') \<Longrightarrow> i \<notin> dom (disputes (view s))"
    and arg: "reason \<in> set VALID_REASONS" "length b \<le> 36" "length r \<le> 36" "length a \<le> 36"
      "\<And>ev. ev \<in> set evs \<Longrightarrow> length (fst (evidence_pair ev)) \<le> 30"
  shows "\<exists>i row ob s'. create_report S b r a reason evs s = (Inr i, s') \<and> com s' = com s \<and>
    view s' = (view s)\<lparr>disputes := (disputes (view s))(i \<mapsto> row), d_outbox := d_outbox (view s) @ [ob]\<rparr> \<and>
    reported i b r a reason (map evidence_pair evs) row \<and> ob_event_type ob = dispute_created \<and> \<not> ob_processed ob"
proof -
  obtain rs s1 where 1: "dispute_select S False (\<lambda>m. dm_booking_id m = b \<and> dm_status m \<in> {''OPEN'', ''RESOLVING''}) s = (Inr rs, s1)"
    "set rs = {m \<in> ran (disputes (view s)). dm_booking_id m = b \<and> dm_status m \<in> {''OPEN'', ''RESOLVING''}}"
    "view s1 = view s" "com s1 = com s" by (rule dtl.vselect_finds)
  have "first_row rs = None" using first_row_None [OF 1(2)] new by blast
  then have f: "DisputeRepository_find_open_by_booking_id S b s = (Inr None, s1)"
    using 1(1) by (simp add: DisputeRepository_find_open_by_booking_id_def find_dispute_def option_map_exn_def eff_simps)
  obtain i s2 where 2: "dis_uuid4 S s1 = (Inr i, s2)" "view s2 = view s1" "com s2 = com s1" "length i = 36"
    by (rule dis_uuid_returns)
  obtain es s3 where 3: "evidence_entities S evs s2 = (Inr es, s3)" "view s3 = view s2" "com s3 = com s2"
    "map (\<lambda>e. (ev_type e, ev_content e)) es = map evidence_pair evs" "\<forall>e\<in>set es. length (ev_id e) = 36"
    using evidence_entities_returns [of evs s2] by blast
  obtain d where d: "Dispute_create_report i b r a reason es = Inr d" "d_events d = [ReportCreated i b r a reason]"
    using arg(1) by (simp add: Dispute_create_report_def DisputeReason_def Let_def Dispute_add_event_def)
  have "(ev_type e, ev_content e) \<in> evidence_pair ` set evs" if "e \<in> set es" for e
    using that arg_cong [OF 3(4), of set] by auto
  then have es: "length (ev_id e) \<le> 36 \<and> length (ev_type e) \<le> 30" if "e \<in> set es" for e
    using that arg(5) 3(5) by (metis (no_types, lifting) fst_conv imageE order_refl)
  have v3: "view s3 = view s" using 1(3) 2(2) 3(2) by simp
  obtain v row s4 where 4: "DisputeRepository_save S d s3 = (Inr (d\<lparr>d_version := v\<rparr>), s4)" "com s4 = com s3"
      "view s4 = (view s3)\<lparr>disputes := (disputes (view s3))(i \<mapsto> row)\<rparr>"
      "reported i b r a reason (map (\<lambda>e. (ev_type e, ev_content e)) es) row"
    by (rule report_stored [OF d(1), of s3]) (use new fresh [OF 2(1)] arg(2-4) 2(4) v3 es in simp_all)
  obtain ob s5 where 5: "dispute_publish S (ReportCreated i b r a reason) s4 = (Inr (), s5)" "com s5 = com s4"
    "view s5 = (view s4)\<lparr>d_outbox := d_outbox (view s4) @ [ob]\<rparr>" "ob_event_type ob = dispute_created" "\<not> ob_processed ob"
    by (rule publish_contract [OF created_contract])
  have "create_report S b r a reason evs s = (Inr i, s5)"
    using f 2(1) 3(1) d 4(1) 5(1) by (simp add: create_report_def Dispute_clear_events_def eff_simps)
  then show ?thesis
    using 1(3,4) 2(2,3) 3(2-4) 4(2-4) 5(2-5) by (intro exI [of _ i] exI [of _ row] exI [of _ ob] exI [of _ s5]) simp
qed

text \<open>The RPC.\<close>

lemma CreateReport_returns:
  assumes new: "\<And>x. x \<in> ran (disputes (com s)) \<Longrightarrow> dm_booking_id x \<noteq> b"
    and fresh: "\<And>t i t'. dis_uuid4 S t = (Inr i, t') \<Longrightarrow> i \<notin> dom (disputes (com s))"
    and arg: "reason \<in> set VALID_REASONS" "length b \<le> 36" "length r \<le> 36" "r \<noteq> []" "length a \<le> 36"
      "\<And>ev. ev \<in> set evs \<Longrightarrow> length (fst ev) \<le> 30"
  shows "\<exists>i row ob s'. CreateReport S md r b a reason evs s = (Inr (Reply \<lparr>dr_dispute_id = i, dr_status = ''SUCCESS'',
      dr_message = ''Dispute report created successfully''\<rparr>), s') \<and>
    com s' = (com s)\<lparr>disputes := (disputes (com s))(i \<mapsto> row), d_outbox := d_outbox (com s) @ [ob]\<rparr> \<and>
    reported i b r a reason evs row \<and> ob_event_type ob = dispute_created \<and> \<not> ob_processed ob"
proof -
  let ?evs = "map (\<lambda>(ty, content). [(''evidence_type'', ty), (''content'', content)]) evs"
  have pairs: "map evidence_pair ?evs = evs" by (rule nth_equalityI) (auto simp: evidence_pair_def dict_get_def split: prod.split)
  obtain s1 where 1: "dis_open S s = (Inr (), s1)" "view s1 = com s" "com s1 = com s"
    using dis_open_live [of s] dis_open_ok [of s] dis_open_com [of s] by (metis snd_conv)
  have len: "length (fst (evidence_pair ev)) \<le> 30" if "ev \<in> set ?evs" for ev
    using that arg(6) by (auto simp: evidence_pair_def dict_get_def)
  obtain i row ob s2 where 2: "create_report S b r a reason ?evs s1 = (Inr i, s2)" "com s2 = com s1"
    "view s2 = (view s1)\<lparr>disputes := (disputes (view s1))(i \<mapsto> row), d_outbox := d_outbox (view s1) @ [ob]\<rparr>"
    "reported i b r a reason (map evidence_pair ?evs) row" "ob_event_type ob = dispute_created" "\<not> ob_processed ob"
    using create_report_returns [of s1 b reason r a ?evs] new fresh arg(1-3,5) len 1(2) by (auto simp del: map_map)
  obtain s3 where "dis_commit S s2 = (Inr (), s3)" "com s3 = view s2" by (rule txl.commit_publishes)
  with 1 2 arg(4) pairs show ?thesis
    by (intro exI [of _ i] exI [of _ row] exI [of _ ob] exI [of _ s3])
      (simp add: CreateReport_def py_or_def Let_def eff_simps)
qed

end

section \<open>One dispute per booking\<close>

context dis_session
begin

text \<open>The table allows one dispute per booking, whatever its status.\<close>

lemma second_report_raises:
  assumes "x \<in> ran (disputes (view s))" "dm_booking_id x = b"
    and fresh: "\<And>t i t'. dis_uuid4 S t = (Inr i, t') \<Longrightarrow> i \<notin> dom (disputes (view s))"
    and keys: "table_ok dm_dispute_id dm_booking_id (disputes (view s))"
  shows "\<exists>e s'. create_report S b r a reason evs s = (Inl e, s')"
proof -
  have False if ok: "create_report S b r a reason evs s = (Inr i, s')" for i s'
    using ok
  proof (rule create_report_runs)
    fix d row
    assume d: "Dispute_create_report i b r a reason (d_evidences d) = Inr d"
      and acc: "row_accepted dm_dispute_id dm_booking_id dispute_fits (disputes (view s)) (DisputeMapper_to_model d)"
      and uuid: "\<exists>t t'. view t = view s \<and> dis_uuid4 S t = (Inr i, t')"
    have "dm_dispute_id x \<noteq> i" using table_ok_ran [OF keys assms(1)] uuid fresh by blast
    with acc assms(1,2) create_report_fields [OF d] show False by (auto simp: row_accepted_def)
  qed
  then show ?thesis
    by (cases "create_report S b r a reason evs s"; cases "fst (create_report S b r a reason evs s)") auto
qed

end

context dis_session_live
begin

text \<open>While the first one is active the error says so.\<close>

lemma duplicate_report_error:
  assumes x: "x \<in> ran (disputes (view s))" "dm_booking_id x = b" "dm_status x \<in> {''OPEN'', ''RESOLVING''}"
    and ok: "\<And>y. y \<in> ran (disputes (view s)) \<Longrightarrow> dm_reason y \<in> set VALID_REASONS"
  shows "\<exists>s'. create_report S b r a reason evs s = (Inl (DuplicateOpenDisputeError b), s') \<and> view s' = view s \<and> com s' = com s"
proof -
  let ?P = "\<lambda>m. dm_booking_id m = b \<and> dm_status m \<in> {''OPEN'', ''RESOLVING''}"
  obtain rs s1 where 1: "dispute_select S False ?P s = (Inr rs, s1)"
    "set rs = {m \<in> ran (disputes (view s)). ?P m}" "view s1 = view s" "com s1 = com s" by (rule dtl.vselect_finds)
  obtain y where y: "first_row rs = Some y" "y \<in> ran (disputes (view s))"
    using first_row_some [OF 1(2) x(1)] x(2,3) by blast
  have "DisputeRepository_find_open_by_booking_id S b s = (Inr (Some (dispute_of y)), s1)"
    using 1(1) y(1) to_domain_dispute_ok [OF ok [OF y(2)]]
    by (simp add: DisputeRepository_find_open_by_booking_id_def find_dispute_def option_map_exn_def eff_simps)
  then show ?thesis using 1(3,4) by (simp add: create_report_def eff_simps)
qed

lemma CreateReport_refused:
  assumes x: "x \<in> ran (disputes (com s))" "dm_booking_id x = b" and ok: "dis_ok (com s)"
    and fresh: "\<And>t i t'. dis_uuid4 S t = (Inr i, t') \<Longrightarrow> i \<notin> dom (disputes (com s))"
  shows "\<exists>code msg s'. CreateReport S md r b a reason evs s = (Inr (Failure code msg), s') \<and> com s' = com s \<and>
    (r \<noteq> [] \<and> dm_status x \<in> {''OPEN'', ''RESOLVING''} \<longrightarrow>
       code = INVALID_ARGUMENT \<and> msg = dexn_str (set_repr S) (DuplicateOpenDisputeError b))"
proof (cases "py_or r (metadata_get md ''user-id'') = []")
  case True
  then show ?thesis by (auto simp: CreateReport_def Let_def ret_run py_or_def split: if_splits)
next
  case False
  let ?u = "py_or r (metadata_get md ''user-id'')"
  let ?evs = "map (\<lambda>(ty, content). [(''evidence_type'', ty), (''content'', content)]) evs"
  obtain s1 where 1: "dis_open S s = (Inr (), s1)" "view s1 = com s" "com s1 = com s"
    using dis_open_live [of s] dis_open_ok [of s] dis_open_com [of s] by (metis snd_conv)
  have run: "CreateReport S md r b a reason evs s = (Inr (handle_exception (set_repr S) e), s2)"
    if "create_report S b ?u a reason ?evs s1 = (Inl e, s2)" for e s2
    using that 1(1) False by (simp add: CreateReport_def Let_def eff_simps)
  obtain e s2 where 2: "create_report S b ?u a reason ?evs s1 = (Inl e, s2)"
    using second_report_raises [of x s1 b ?u a reason ?evs] x fresh dis_ok_tables(1) [OF ok] 1(2) by auto
  have c: "com s2 = com s" using keepsD [OF create_report_keeps 2] 1(3) by simp
  have "e = DuplicateOpenDisputeError b" if "dm_status x \<in> {''OPEN'', ''RESOLVING''}"
    using duplicate_report_error [of x s1 b ?u a reason ?evs] x that dis_ok_tables(3) [OF ok] 1(2) 2 by auto
  then show ?thesis
    using run [OF 2] c by (cases "dm_status x \<in> {''OPEN'', ''RESOLVING''}") (auto simp: handle_exception_def)
qed

end

end
