(* ===== verification/Dispute_Retry.thy ===== *)
theory Dispute_Retry
  imports Dispute_Live
begin

text \<open>
  The retry worker and the reports in a session that stays up: one turn of the worker finishes every saga
  that waits for the interaction service, and a report for a booking without a dispute is stored and
  announced.
\<close>

section \<open>The retry worker\<close>

text \<open>A row that waits, and the row the worker leaves when the interaction service answers.\<close>

definition waits :: "saga_model \<Rightarrow> bool" where
  "waits r \<longleftrightarrow> pending_retry r \<and> saga_fits r \<and> 0 \<le> sm_retry_count r \<and> int32 (sm_retry_count r + 1) \<and>
     (sm_saga_type r, sm_current_state r) \<in> {(''REFUND'', ''HIDING_REVIEW''), (''PAYOUT'', ''LOCKING_CHAT'')} \<and>
     (sm_saga_type r = ''REFUND'' \<longrightarrow> sm_companion_wallet_id r = None \<and> sm_commission_rate r = None)"

definition final_state :: "string \<Rightarrow> string" where
  "final_state ty = (if ty = ''REFUND'' then ''DISPUTE_RESOLVED_REFUNDED'' else ''DISPUTE_RESOLVED_PAID_OUT'')"

definition finished :: "saga_model \<Rightarrow> saga_model \<Rightarrow> bool" where
  "finished r r' \<longleftrightarrow> (\<exists>v. r' = r\<lparr>sm_current_state := final_state (sm_saga_type r), sm_last_error := None, sm_version := v\<rparr>)"

text \<open>Only the sagas of \<open>R\<close> have changed, and they are finished.\<close>

definition completed :: "saga_model set \<Rightarrow> dis_db \<Rightarrow> dis_db \<Rightarrow> bool" where
  "completed R db db' \<longleftrightarrow> disputes db' = disputes db \<and> d_outbox db' = d_outbox db \<and> dom (sagas db') = dom (sagas db) \<and>
     (\<forall>i r. sagas db i = Some r \<longrightarrow> (\<exists>r'. sagas db' i = Some r' \<and> (if r \<in> R then finished r r' else r' = r)))"

lemma completed_refl: "completed {} db db"
  by (simp add: completed_def)

lemma completed_step:
  assumes "sagas db (sm_saga_id r) = Some r" "finished r r'" "completed R (put_saga r' db) db'"
    "\<And>x. x \<in> R \<Longrightarrow> sm_saga_id x \<noteq> sm_saga_id r" "table_ok sm_saga_id sm_saga_id (sagas db)"
  shows "completed (insert r R) db db'"
proof -
  have id: "sm_saga_id r' = sm_saga_id r" using assms(2) by (auto simp: finished_def)
  have other: "(\<exists>y. sagas db' i = Some y \<and> (if x \<in> insert r R then finished x y else y = x))"
    if x: "sagas db i = Some x" for i x
  proof (cases "i = sm_saga_id r")
    case True
    then have "sagas (put_saga r' db) i = Some r'" "x = r" using id x assms(1) by simp_all
    moreover have "r' \<notin> R" using assms(4) id by blast
    ultimately have "sagas db' i = Some r'" using assms(3) unfolding completed_def by (metis (full_types))
    with \<open>x = r\<close> assms(2) show ?thesis by simp
  next
    case False
    then have "sagas (put_saga r' db) i = Some x" "x \<noteq> r" using id x table_ok_key [OF assms(5) x] by auto
    then show ?thesis using assms(3) unfolding completed_def by (metis insert_iff)
  qed
  have "dom (sagas db') = dom (sagas db)" using assms(1,3) id by (auto simp: completed_def)
  with other assms(3) show ?thesis by (auto simp: completed_def)
qed

text \<open>A row and the saga it is read as.\<close>

lemma waits_domain:
  assumes "waits r" "SagaStateMapper_to_domain r = Inr k"
  shows "SagaStateMapper_to_model k = r" "saga_kind_id k = sm_saga_id r"
    "(\<exists>g. k = RefundSaga g \<and> sg_current_state g = ''HIDING_REVIEW'' \<and> sg_events g = [] \<and> sm_saga_type r = ''REFUND'') \<or>
     (\<exists>g. k = PayoutSaga g \<and> sg_current_state g = ''LOCKING_CHAT'' \<and> sg_events g = [] \<and> sm_saga_type r = ''PAYOUT'')"
  using assms by (cases r; auto simp: waits_def SagaStateMapper_to_domain_def saga_core_model_def split: if_splits)+

lemma waits_readable: "waits r \<Longrightarrow> \<exists>k. SagaStateMapper_to_domain r = Inr k"
  by (auto simp: waits_def SagaStateMapper_to_domain_def)

text \<open>The sagas that wait, and what is left of them.\<close>

definition waiting :: "dis_db \<Rightarrow> saga_model set" where
  "waiting db = {r \<in> ran (sagas db). pending_retry r}"

lemma finished_not_pending: "finished r r' \<Longrightarrow> \<not> pending_retry r'"
  by (auto simp: finished_def pending_retry_def)

lemma completed_row:
  assumes "completed R db db'" "sagas db i = Some r"
  obtains r' where "sagas db' i = Some r'" "if r \<in> R then finished r r' else r' = r"
  using assms unfolding completed_def by blast

lemma completed_back:
  assumes "completed R db db'" "sagas db' i = Some r'"
  obtains r where "sagas db i = Some r" "if r \<in> R then finished r r' else r' = r"
proof -
  have "i \<in> dom (sagas db)" using assms unfolding completed_def by blast
  then obtain r where r: "sagas db i = Some r" by blast
  from completed_row [OF assms(1) r] assms(2) show thesis using that [OF r] by auto
qed

lemma completed_waiting:
  assumes "completed R db db'"
  shows "waiting db' = waiting db - R"
proof (intro set_eqI iffI)
  fix r assume "r \<in> waiting db'"
  then obtain i where i: "sagas db' i = Some r" "pending_retry r" by (auto simp: waiting_def ran_def)
  from completed_back [OF assms i(1)] obtain x where "sagas db i = Some x" "if x \<in> R then finished x r else r = x" by blast
  with i(2) show "r \<in> waiting db - R" using finished_not_pending by (auto simp: waiting_def ran_def split: if_splits)
next
  fix r assume "r \<in> waiting db - R"
  then obtain i where i: "sagas db i = Some r" "pending_retry r" "r \<notin> R" by (auto simp: waiting_def ran_def)
  from completed_row [OF assms i(1)] i(3) have "sagas db' i = Some r" by auto
  with i(2) show "r \<in> waiting db'" by (auto simp: waiting_def ran_def)
qed

lemma completed_trans:
  assumes "completed R db db1" "completed R' db1 db2" "R' \<subseteq> waiting db1"
  shows "completed (R \<union> R') db db2"
proof -
  have "\<exists>r2. sagas db2 i = Some r2 \<and> (if r \<in> R \<union> R' then finished r r2 else r2 = r)" if r: "sagas db i = Some r" for i r
  proof -
    obtain r1 where r1: "sagas db1 i = Some r1" "if r \<in> R then finished r r1 else r1 = r" by (rule completed_row [OF assms(1) r])
    obtain r2 where r2: "sagas db2 i = Some r2" "if r1 \<in> R' then finished r1 r2 else r2 = r1" by (rule completed_row [OF assms(2) r1(1)])
    have "r \<in> R \<Longrightarrow> r1 \<notin> R'" using r1(2) assms(3) finished_not_pending by (auto simp: waiting_def)
    with r1(2) r2 show ?thesis by (auto split: if_splits)
  qed
  then show ?thesis using assms(1,2) by (auto simp: completed_def)
qed

lemma completed_table_ok:
  assumes "completed R db db'" "table_ok sm_saga_id sm_saga_id (sagas db)"
  shows "table_ok sm_saga_id sm_saga_id (sagas db')"
proof (rule table_okI)
  show "finite (dom (sagas db'))" using assms(1) table_ok_finite [OF assms(2)] by (simp add: completed_def)
  show "sm_saga_id r = i" if "sagas db' i = Some r" for i r
  proof -
    from completed_back [OF assms(1) that] obtain x where x: "sagas db i = Some x" "if x \<in> R then finished x r else r = x" by blast
    then have "sm_saga_id r = sm_saga_id x" by (auto simp: finished_def split: if_splits)
    with table_ok_key [OF assms(2) x(1)] show ?thesis by simp
  qed
qed

context dis_ports
begin

lemma retry_process_completes:
  assumes r: "waits r" "SagaStateMapper_to_domain r = Inr k" and row: "sagas (view s) (sm_saga_id r) = Some r"
    and itx: "\<And>b t. fst (hide_review_and_lock_chat P b t) = Inr True" "\<And>b t. fst (lock_chat_room P b t) = Inr True"
  shows "\<exists>s' r'. retry_process S P k k s = (Inr (), s') \<and> finished r r' \<and> view s' = put_saga r' (view s) \<and> com s' = com s"
  using waits_domain(3) [OF r]
proof (elim disjE exE conjE)
  fix g assume g: "k = RefundSaga g" "sg_current_state g = ''HIDING_REVIEW''" "sg_events g = []" "sm_saga_type r = ''REFUND''"
  have m: "SagaStateMapper_to_model (RefundSaga g) = r" "sg_saga_id g = sm_saga_id r"
    using waits_domain(1,2) [OF r] g(1) by simp_all
  have "refund.storable g" using r(1) g m(1)
    by (auto simp: refund.storable_def internal_events_def waits_def saga_core_model_def saga_fits_def ids_fit_def)
  moreover have "sm_version r = sg_version g" unfolding m(1) [symmetric] by simp
  then have "refund.current s g" using row m(2) by (simp add: refund.current_def)
  ultimately obtain g' s' where p: "refund_process_rec (Suc 1) S P g s = (Inr g', s')" "refund.saved s g' s'" "moved g g'"
      "saga_abs g' = acted (set_repr S) (''REFUNDING'', ''HIDING_REVIEW'', ''DISPUTE_RESOLVED_REFUNDED'')
        ''Interaction service failed to lock/hide'' (Inr True) (sg_retry_count g)"
    using refund.process_act_outcome [OF g(2), of s "Inr True" 1] itx(1) by blast
  let ?r' = "SagaStateMapper_to_model (RefundSaga g')"
  have "finished r ?r'"
    using p(3,4) m(1) g(4) by (cases g; cases g') (auto simp: moved_def saga_abs_def acted_def finished_def final_state_def saga_core_model_def)
  with p(1) p(2) [unfolded refund.saved_def] show ?thesis
    by (intro exI [of _ s'] exI [of _ ?r']) (simp add: g(1) refund_process_saga_def numeral_2_eq_2 forget_local_def eff_simps)
next
  fix g assume g: "k = PayoutSaga g" "sg_current_state g = ''LOCKING_CHAT''" "sg_events g = []" "sm_saga_type r = ''PAYOUT''"
  have m: "SagaStateMapper_to_model (PayoutSaga g) = r" "sg_saga_id g = sm_saga_id r"
    using waits_domain(1,2) [OF r] g(1) by simp_all
  have "payout.storable g" using r(1) g m(1)
    by (auto simp: payout.storable_def internal_events_def waits_def saga_core_model_def saga_fits_def ids_fit_def)
  moreover have "sm_version r = sg_version g" unfolding m(1) [symmetric] by simp
  then have "payout.current s g" using row m(2) by (simp add: payout.current_def)
  ultimately obtain g' s' where p: "payout_process_rec (Suc 1) S P g s = (Inr g', s')" "payout.saved s g' s'" "moved g g'"
      "saga_abs g' = acted (set_repr S) (''PAYING_OUT'', ''LOCKING_CHAT'', ''DISPUTE_RESOLVED_PAID_OUT'')
        ''Interaction service failed to lock chat room'' (Inr True) (sg_retry_count g)"
    using payout.process_act_outcome [OF g(2), of s "Inr True" 1] itx(2) by blast
  let ?r' = "SagaStateMapper_to_model (PayoutSaga g')"
  have "finished r ?r'"
    using p(3,4) m(1) g(4) by (cases g; cases g') (auto simp: moved_def saga_abs_def acted_def finished_def final_state_def saga_core_model_def)
  with p(1) p(2) [unfolded payout.saved_def] show ?thesis
    by (intro exI [of _ s'] exI [of _ ?r']) (simp add: g(1) payout_process_saga_def numeral_2_eq_2 forget_local_def eff_simps)
qed

lemma dis_open_runs:
  obtains s' where "dis_open S s = (Inr (), s')" "view s' = com s" "com s' = com s"
proof -
  obtain s' where o: "dis_open S s = (Inr (), s')" using dis_open_live by blast
  then show thesis using dis_open_ok [OF o] dis_open_com [of s] by (intro that [of s']) simp_all
qed

lemma retry_saga_completes:
  assumes r: "waits r" "SagaStateMapper_to_domain r = Inr k" and row: "sagas (com s) (sm_saga_id r) = Some r"
    and ok: "table_ok sm_saga_id sm_saga_id (sagas (com s))"
    and itx: "\<And>b t. fst (hide_review_and_lock_chat P b t) = Inr True" "\<And>b t. fst (lock_chat_room P b t) = Inr True"
  shows "\<exists>s' r'. retry_saga S P k s = (Inr (), s') \<and> finished r r' \<and> com s' = put_saga r' (com s)"
proof -
  obtain s1 where 1: "dis_open S s = (Inr (), s1)" "view s1 = com s" "com s1 = com s" by (rule dis_open_runs)
  obtain rs s2 where 2: "saga_select S False (\<lambda>m. sm_saga_id m = saga_kind_id k) s1 = (Inr rs, s2)"
    "set rs = {m \<in> ran (sagas (view s1)). sm_saga_id m = saga_kind_id k}" "view s2 = view s1" "com s2 = com s1"
    by (rule stl.vselect_finds)
  have "first_row rs = Some r"
  proof (rule first_row_unique [OF 2(2)])
    show "r \<in> ran (sagas (view s1))" unfolding 1(2) using row by (rule ranI)
    show "sm_saga_id r = saga_kind_id k" using waits_domain(2) [OF r] by simp
    show "r' = r" if "r' \<in> ran (sagas (view s1))" "sm_saga_id r' = saga_kind_id k" for r'
      using table_ok_ran [OF ok, of r'] that row 1(2) waits_domain(2) [OF r] by simp
  qed
  then have f: "SagaStateRepository_find_by_id S (saga_kind_id k) s1 = (Inr (Some k), s2)"
    using 2(1) r(2) by (simp add: SagaStateRepository_find_by_id_def option_map_exn_def eff_simps)
  have row2: "sagas (view s2) (sm_saga_id r) = Some r" using row 2(3) 1(2) by simp
  obtain s3 r' where
    3: "retry_process S P k k s2 = (Inr (), s3)" "finished r r'" "view s3 = put_saga r' (view s2)" "com s3 = com s2"
    using retry_process_completes [OF r row2 itx] by blast
  obtain s4 where "dis_commit S s3 = (Inr (), s4)" "com s4 = view s3" by (rule txl.commit_publishes)
  with 1 2 f 3 show ?thesis by (intro exI [of _ s4] exI [of _ r']) (simp add: retry_saga_def eff_simps)
qed

lemma retry_all_complete:
  assumes itx: "\<And>b t. fst (hide_review_and_lock_chat P b t) = Inr True" "\<And>b t. fst (lock_chat_room P b t) = Inr True"
  shows "distinct (map sm_saga_id rs) \<Longrightarrow> table_ok sm_saga_id sm_saga_id (sagas (com s)) \<Longrightarrow>
    (\<And>r. r \<in> set rs \<Longrightarrow> waits r \<and> sagas (com s) (sm_saga_id r) = Some r) \<Longrightarrow>
    \<exists>ks s'. list_map_exn SagaStateMapper_to_domain rs = Inr ks \<and> forE (retry_saga S P) ks s = (Inr (), s') \<and>
      completed (set rs) (com s) (com s')"
proof (induction rs arbitrary: s)
  case Nil
  show ?case by (simp add: ret_run completed_refl)
next
  case (Cons r rs)
  have r: "waits r" "sagas (com s) (sm_saga_id r) = Some r" using Cons.prems(3) by simp_all
  obtain k where k: "SagaStateMapper_to_domain r = Inr k" using waits_readable [OF r(1)] by blast
  obtain s1 r' where 1: "retry_saga S P k s = (Inr (), s1)" "finished r r'" "com s1 = put_saga r' (com s)"
    using retry_saga_completes [OF r(1) k r(2) Cons.prems(2) itx] by blast
  have id: "sm_saga_id r' = sm_saga_id r" using 1(2) by (auto simp: finished_def)
  have other: "sm_saga_id x \<noteq> sm_saga_id r" if "x \<in> set rs" for x
    using Cons.prems(1) that by (metis distinct.simps(2) image_eqI list.set_map list.simps(9))
  have "table_ok sm_saga_id sm_saga_id (sagas (com s1))"
    using Cons.prems(2) by (auto simp: 1(3) table_ok_def)
  moreover have "waits x \<and> sagas (com s1) (sm_saga_id x) = Some x" if "x \<in> set rs" for x
    using Cons.prems(3) [of x] that other [OF that] id by (simp add: 1(3))
  ultimately obtain ks s' where "list_map_exn SagaStateMapper_to_domain rs = Inr ks"
      "forE (retry_saga S P) ks s1 = (Inr (), s')" "completed (set rs) (com s1) (com s')"
    using Cons.IH [of s1] Cons.prems(1) by auto
  moreover from this(3) have "completed (set (r # rs)) (com s) (com s')"
    using completed_step [OF r(2) 1(2) _ other Cons.prems(2)] 1(3) by simp
  ultimately show ?case using k 1(1) by (auto simp: eff_simps)
qed

text \<open>One turn finishes the sagas it finds, at most twenty.\<close>

lemma retry_turn_completes:
  assumes itx: "\<And>b t. fst (hide_review_and_lock_chat P b t) = Inr True" "\<And>b t. fst (lock_chat_room P b t) = Inr True"
    and ok: "table_ok sm_saga_id sm_saga_id (sagas (com s))" and rows: "\<And>r. r \<in> waiting (com s) \<Longrightarrow> waits r"
  obtains R s' where "retry_pending_sagas S P s = (Inr (), s')" "R \<subseteq> waiting (com s)"
    "card R = min 20 (card (waiting (com s)))" "completed R (com s) (com s')"
proof -
  obtain s1 where 1: "dis_open S s = (Inr (), s1)" "view s1 = com s" "com s1 = com s" by (rule dis_open_runs)
  obtain gs s2 where 2: "saga_limit S pending_retry 20 s1 = (Inr gs, s2)" using saga_limit_live by blast
  have c2: "com s2 = com s" using 2 saga_limit_com [of pending_retry 20 s1] 1(3) by simp
  have t1: "table_ok sm_saga_id sm_saga_id (sagas (view s1))" using ok 1(2) by simp
  obtain every where e: "gs = take 20 every" "set every = waiting (com s)" "distinct (map sm_saga_id every)"
    using saga_limit_ok [OF 2 t1] 1(2) by (auto simp: waiting_def)
  have d: "distinct (map sm_saga_id gs)" using e(1,3) by (metis distinct_take take_map)
  have sub: "set gs \<subseteq> waiting (com s)" using e(1,2) by (auto dest: in_set_takeD)
  have card: "card (set gs) = min 20 (card (waiting (com s)))"
    using d e by (metis distinct_card distinct_map length_take min.commute)
  have "waits r \<and> sagas (com s2) (sm_saga_id r) = Some r" if "r \<in> set gs" for r
    using that sub rows table_ok_ran [OF ok, of r] by (auto simp: c2 waiting_def)
  then obtain ks s' where "list_map_exn SagaStateMapper_to_domain gs = Inr ks" "forE (retry_saga S P) ks s2 = (Inr (), s')"
      "completed (set gs) (com s2) (com s')"
    using retry_all_complete [OF itx, of gs s2] d ok c2 by auto
  with 1 2 c2 show thesis
    by (intro that [OF _ sub card]) (auto simp: retry_pending_sagas_def SagaStateRepository_find_pending_retries_def eff_simps)
qed

text \<open>Every turn takes twenty of the waiting sagas, so enough turns finish all of them.\<close>

lemma retry_turns_complete:
  assumes itx: "\<And>b t. fst (hide_review_and_lock_chat P b t) = Inr True" "\<And>b t. fst (lock_chat_room P b t) = Inr True"
  shows "table_ok sm_saga_id sm_saga_id (sagas (com s)) \<Longrightarrow> (\<And>r. r \<in> waiting (com s) \<Longrightarrow> waits r) \<Longrightarrow>
    card (waiting (com s)) \<le> k * 20 \<Longrightarrow>
    \<exists>s'. turns (retry_pending_sagas S P) k s = (Inr (), s') \<and> completed (waiting (com s)) (com s) (com s')"
proof (induction k arbitrary: s)
  case 0
  have "finite (waiting (com s))" using finite_ran [OF table_ok_finite [OF "0.prems"(1)]] by (simp add: waiting_def)
  with "0.prems"(3) show ?case by (simp add: ret_def completed_refl)
next
  case (Suc k)
  obtain R s1 where 1: "retry_pending_sagas S P s = (Inr (), s1)" "R \<subseteq> waiting (com s)"
      "card R = min 20 (card (waiting (com s)))" "completed R (com s) (com s1)"
    by (rule retry_turn_completes [OF itx Suc.prems(1,2)])
  have left: "waiting (com s1) = waiting (com s) - R" using 1(4) by (rule completed_waiting)
  have fin: "finite (waiting (com s))" using finite_ran [OF table_ok_finite [OF Suc.prems(1)]] by (simp add: waiting_def)
  then have "card (waiting (com s1)) = card (waiting (com s)) - card R"
    unfolding left using 1(2) by (intro card_Diff_subset) (auto intro: finite_subset)
  then have "card (waiting (com s1)) \<le> k * 20" using 1(3) Suc.prems(3) by simp
  moreover have "table_ok sm_saga_id sm_saga_id (sagas (com s1))" using 1(4) Suc.prems(1) by (rule completed_table_ok)
  ultimately obtain s' where 2: "turns (retry_pending_sagas S P) k s1 = (Inr (), s')"
      "completed (waiting (com s1)) (com s1) (com s')"
    using Suc.IH [of s1] Suc.prems(2) left by auto
  have "completed (R \<union> waiting (com s1)) (com s) (com s')" using 1(4) 2(2) by (rule completed_trans) simp
  moreover have "R \<union> waiting (com s1) = waiting (com s)" using left 1(2) by auto
  moreover have "turns (retry_pending_sagas S P) (Suc k) s = (Inr (), s')"
    using 1(1) 2(1) by (simp add: bindE_def poll_turn_run)
  ultimately show ?case by auto
qed

end

end
