(* ===== verification/Dispute_Resolution.thy ===== *)
theory Dispute_Resolution
  imports Dispute_Reports Dispute_Retry
begin

text \<open>
  The resolution of a dispute: the refund path from the command to the stored saga, the depth of the
  recursion of \<open>process_saga\<close>, and when a payout saga starts.
\<close>

section \<open>The recursion of \<open>process_saga\<close>\<close>

lemma bindE_cong_run:
  "(\<And>x s'. m s = (Inr x, s') \<Longrightarrow> f x s' = h x s') \<Longrightarrow> bindE m f s = bindE m h s"
  by (cases "m s"; cases "fst (m s)") (auto simp: bindE_def)

lemma tryE_cong_run: "m s = m' s \<Longrightarrow> tryE m h s = tryE m' h s"
  by (simp add: tryE_def)

lemma with_local_Inr: "with_local v m s = (Inr x, s') \<Longrightarrow> m s = (Inr x, s')"
  by (auto simp: with_local_def tryE_def raise_def split: prod.splits sum.splits)

lemma pay_step_cong:
  assumes "\<And>g' h s' t t'. succ g = Inr g' \<Longrightarrow> save g' s' = (Inr h, t) \<Longrightarrow> p h t = q h t"
  shows "pay_step call succ fail save str msg p g = pay_step call succ fail save str msg q g"
  unfolding pay_step_def
  by (intro ext tryE_cong_run bindE_cong_run) (auto intro!: bindE_cong_run assms dest!: with_local_Inr simp: liftE_run)

text \<open>A part of the state that only the first computation changes.\<close>

lemma bindE_after: "(\<And>x s'. m s = (Inr x, s') \<Longrightarrow> f (snd (k x s')) = f s') \<Longrightarrow> f (snd (bindE m k s)) = f (snd (m s))"
  by (auto simp: bindE_def split: prod.splits sum.splits)

lemma tryE_after: "(\<And>e s'. m s = (Inl e, s') \<Longrightarrow> f (snd (h e s')) = f s') \<Longrightarrow> f (snd (tryE m h s)) = f (snd (m s))"
  by (auto simp: tryE_def split: prod.splits sum.splits)

lemma with_local_after: "f (snd (with_local v m s)) = f (snd (m s))"
  unfolding with_local_def by (rule tryE_after) (simp add: raise_def)

lemma pay_step_frame:
  assumes "\<And>x. keeps f (save x)"
    "\<And>g' h s' t. succ g = Inr g' \<Longrightarrow> save g' s' = (Inr h, t) \<Longrightarrow> f (snd (process h t)) = f t"
  shows "f (snd (pay_step call succ fail save str msg process g s)) = f (snd (call s))"
proof -
  have fails: "keeps f (bindE (with_local g (liftE (fail g e))) (\<lambda>g. with_local g (save g)))" for g e
    unfolding with_local_def by (intro keep_intros assms(1))
  have succeeds: "f (snd (bindE (with_local g (liftE (succ g))) (\<lambda>g. bindE (with_local g (save g)) process) t)) = f t" for t
    using assms by (cases "succ g") (auto simp: with_local_def bindE_def tryE_def liftE_def raise_def keeps_def split: prod.splits sum.splits, (metis snd_conv)+)
  let ?k = "\<lambda>res. if pr_success res then bindE (with_local g (liftE (succ g))) (\<lambda>g. bindE (with_local g (save g)) process)
      else bindE (with_local g (liftE (fail g (error_or (pr_error res) msg)))) (\<lambda>g. with_local g (save g))"
  have "f (snd (pay_step call succ fail save str msg process g s)) = f (snd (bindE (with_local g call) ?k s))"
    unfolding pay_step_def by (rule tryE_after) (auto simp: keepsD_snd [OF fails])
  also have "\<dots> = f (snd (with_local g call s))"
    by (rule bindE_after) (simp add: succeeds keepsD_snd [OF fails])
  finally show ?thesis by (simp add: with_local_after)
qed

lemma refund_process_acting: "sg_current_state g \<noteq> ''REFUNDING'' \<Longrightarrow> refund_process_rec (Suc n) S P g = refund_process_rec (Suc m) S P g"
  by simp

lemma payout_process_acting: "sg_current_state g \<noteq> ''PAYING_OUT'' \<Longrightarrow> payout_process_rec (Suc n) S P g = payout_process_rec (Suc m) S P g"
  by simp

lemma refund_save_state: "refund_save S g s = (Inr h, t) \<Longrightarrow> sg_current_state h = sg_current_state g"
  by (auto simp: refund_save_def bindE_eq_Inr_iff ret_run)

lemma payout_save_state: "payout_save S g s = (Inr h, t) \<Longrightarrow> sg_current_state h = sg_current_state g"
  by (auto simp: payout_save_def bindE_eq_Inr_iff ret_run)

lemma refund_depth: "refund_process_rec (Suc (Suc n)) S P g = refund_process_rec 2 S P g"
proof -
  have "refund_refunding S P (refund_process_rec (Suc n) S P) g = refund_refunding S P (refund_process_rec (Suc 0) S P) g"
    unfolding refund_refunding_eq
  proof (rule pay_step_cong)
    fix g' h s' t assume "on_refund_success g = Inr g'" "refund_save S g' s' = (Inr h, t)"
    then have "sg_current_state h \<noteq> ''REFUNDING''"
      by (auto simp: on_refund_success_def saga_add_event_def dest!: refund_save_state split: if_splits)
    then show "refund_process_rec (Suc n) S P h t = refund_process_rec (Suc 0) S P h t" by simp
  qed
  then show ?thesis unfolding numeral_2_eq_2 refund_process_rec.simps(2) [of "Suc n"] refund_process_rec.simps(2) [of "Suc 0"] by simp
qed

lemma payout_depth: "payout_process_rec (Suc (Suc n)) S P g = payout_process_rec 2 S P g"
proof -
  have "payout_paying_out S P (payout_process_rec (Suc n) S P) g = payout_paying_out S P (payout_process_rec (Suc 0) S P) g"
    unfolding payout_paying_eq
  proof (rule pay_step_cong)
    fix g' h s' t assume "on_payout_success g = Inr g'" "payout_save S g' s' = (Inr h, t)"
    then have "sg_current_state h \<noteq> ''PAYING_OUT''"
      by (auto simp: on_payout_success_def saga_add_event_def dest!: payout_save_state split: if_splits)
    then show "payout_process_rec (Suc n) S P h t = payout_process_rec (Suc 0) S P h t" by simp
  qed
  then show ?thesis unfolding numeral_2_eq_2 payout_process_rec.simps(2) [of "Suc n"] payout_process_rec.simps(2) [of "Suc 0"] by simp
qed

section \<open>The start of a payout saga\<close>

text \<open>
  Whether a payout saga starts depends on the database.  PostgreSQL enforces the widths of the columns; SQLite,
  which the service uses when \<open>TESTING\<close> is set, stores a string of any length.
\<close>

definition saga_widths :: "bool \<Rightarrow> saga_model \<Rightarrow> bool" where
  "saga_widths enforced m = (if enforced then saga_fits m else True)"

lemma saga_widths_simps: "saga_widths True = saga_fits" "saga_widths False = (\<lambda>_. True)"
  by (simp_all add: saga_widths_def fun_eq_iff)

locale saga_ports = saga_store S view com "saga_widths enforced" + ports_frame P view com
  for S :: "'s dis_session" and P :: "'s ports" and view :: "'s \<Rightarrow> dis_db" and com :: "'s \<Rightarrow> dis_db" and enforced :: bool

sublocale saga_ports \<subseteq> widths: saga_orchestrator S view com "saga_widths enforced"
  "''PAYING_OUT''" "''LOCKING_CHAT''" "''DISPUTE_RESOLVED_PAID_OUT''" "''PAYOUT''" "\<lambda>g. SagaStateMapper_to_model (PayoutSaga g)"
  "\<lambda>g. enforced \<longrightarrow> fits_opt 36 (ps_companion_wallet_id g)" "payout_save S" on_payout_success on_lock_chat_success
  on_payout_failed on_lock_chat_failed
  "\<lambda>g. payout_from_escrow P (sg_booking_id g) (ps_companion_wallet_id g) (ps_commission_rate g)"
  "lock_chat_room P" "''Payout failed''" "''Interaction service failed to lock chat room''" "\<lambda>n. payout_process_rec n S P"
  by unfold_locales
    (simp add: saga_widths_def payout_model_fits payout_save_def payout_paying_eq payout_locking_eq on_payout_success_def
      on_payout_failed_def on_lock_chat_success_def on_lock_chat_failed_def ports_view ports_com del: SagaStateMapper_to_model.simps |
     simp add: saga_core_model_def)+

context saga_ports
begin

lemma payout_start_raises:
  assumes "get_payout_snapshot P = payout_snapshot" "enforced" "29 < length booking_id"
  shows "\<exists>e s'. payout_start S P saga_id dispute_id booking_id s = (Inl e, s') \<and> com s' = com s"
proof -
  let ?g = "PayoutSaga_create saga_id dispute_id booking_id (''wallet-'' @ booking_id) rate_015"
  have "\<not> saga_widths enforced (SagaStateMapper_to_model (PayoutSaga ?g))"
    using assms(2,3) by (auto simp: saga_widths_def saga_fits_def saga_core_model_def PayoutSaga_create_def fits_opt_def)
  from saga_merge_refused [OF this] obtain e s' where
    "saga_merge S (SagaStateMapper_to_model (PayoutSaga ?g)) s = (Inl e, s')" "com s' = com s" by blast
  then show ?thesis by (simp add: payout_start_def assms(1) payout_snapshot_def payout_save_def ret_run bindE_def ret_def)
qed

text \<open>The payment is requested after the saga was stored, in a state \<open>t\<close>.\<close>

lemma payout_start_returns:
  assumes snap: "get_payout_snapshot P = payout_snapshot" and width: "enforced \<longrightarrow> length booking_id \<le> 29"
    and lens: "length saga_id \<le> 36" "length dispute_id \<le> 36" "length booking_id \<le> 36"
    and fresh: "sagas (view s) saga_id = None" and act: "\<And>t. fst (lock_chat_room P booking_id t) = act"
  shows "\<exists>g t s'. payout_start S P saga_id dispute_id booking_id s = (Inr (), s') \<and> com s' = com s \<and>
    view s' = put_saga (SagaStateMapper_to_model (PayoutSaga g)) (view s) \<and> saga_id \<in> dom (sagas (view t)) \<and>
    moved (PayoutSaga_create saga_id dispute_id booking_id (''wallet-'' @ booking_id) rate_015) g \<and>
    saga_abs g = outcome (set_repr S) payout_names ''Payout failed'' ''Interaction service failed to lock chat room''
      (fst (payout_from_escrow P booking_id (Some (''wallet-'' @ booking_id)) (Some rate_015) t)) act 0"
proof -
  let ?g = "PayoutSaga_create saga_id dispute_id booking_id (''wallet-'' @ booking_id) rate_015"
  obtain v s1 where 1: "payout_save S ?g s = (Inr (?g\<lparr>sg_version := v\<rparr>), s1)" "widths.saved s (?g\<lparr>sg_version := v\<rparr>) s1"
    using widths.save_returns [of ?g s] lens fresh width
    by (auto simp: PayoutSaga_create_def ids_fit_def int32_def fits_opt_def widths.current_def)
  let ?h = "?g\<lparr>sg_version := v\<rparr>"
  have "widths.current s1 ?h" by (rule widths.saved_current [OF 1(2)]) simp_all
  moreover have "sg_current_state ?h = ''PAYING_OUT''" "widths.storable ?h" "sg_events ?h = []"
    using lens width unfolding widths.storable_def
    by (simp_all add: PayoutSaga_create_def ids_fit_def int32_def fits_opt_def internal_events_def)
  moreover have "\<And>t. fst (lock_chat_room P (sg_booking_id ?h) t) = act" using act by (simp add: PayoutSaga_create_def)
  ultimately obtain g s2 where 2: "payout_process_rec 2 S P ?h s1 = (Inr g, s2)" "widths.saved s1 g s2" "moved ?h g"
      "saga_abs g = outcome (set_repr S) payout_names ''Payout failed'' ''Interaction service failed to lock chat room''
        (fst (payout_from_escrow P booking_id (Some (''wallet-'' @ booking_id)) (Some rate_015) s1)) act 0"
    using widths.process_outcome [of ?h s1 _ act] by (auto simp: payout_names_def PayoutSaga_create_def)
  have "widths.saved s g s2" using widths.saved_twice [OF 1(2) 2(2)] moved_id [OF 2(3)] by simp
  note this [unfolded widths.saved_def]
  moreover have "moved ?g g" by (rule moved_trans [OF _ 2(3)]) (simp add: moved_def PayoutSaga_create_def)
  moreover have "saga_id \<in> dom (sagas (view s1))"
    using 1(2) [unfolded widths.saved_def] by (auto simp: PayoutSaga_create_def saga_core_model_def)
  moreover have "payout_start S P saga_id dispute_id booking_id s = (Inr (), s2)"
    using 1(1) 2(1) by (simp add: payout_start_def snap payout_snapshot_def payout_process_saga_def forget_local_def eff_simps)
  ultimately show ?thesis using 2(4) by blast
qed

end

lemma bootstrap_snapshot: "get_payout_snapshot (bootstrap_ports USE_MOCKS S fin itx) = payout_snapshot"
  by (simp add: bootstrap_ports_def mock_ports_def grpc_ports_def)

section \<open>A refund, from the command to the saga\<close>

text \<open>The row of a dispute that was decided for the client.\<close>

definition refunded :: "string \<Rightarrow> string \<Rightarrow> dispute_model \<Rightarrow> dispute_model \<Rightarrow> bool" where
  "refunded admin notes r r' \<longleftrightarrow> dm_status r' = ''REFUNDED'' \<and> dm_admin_id r' = Some admin \<and>
     dm_resolution r' = Some ''REFUND_CLIENT'' \<and> dm_notes r' = Some notes \<and> dm_dispute_id r' = dm_dispute_id r \<and>
     dm_booking_id r' = dm_booking_id r \<and> dm_reporter_id r' = dm_reporter_id r \<and> dm_accused_id r' = dm_accused_id r \<and>
     dm_reason r' = dm_reason r \<and> mset (dm_evidences r') = mset (dm_evidences r)"

text \<open>
  What the service observes of the outside while it works: \<open>obs\<close> is a part of the state that neither its
  session nor the interaction service touches, e.g. the database of the finance service.
\<close>

locale dis_beside = dis_ports S P view com
  for S :: "'s dis_session" and P :: "'s ports" and view :: "'s \<Rightarrow> dis_db" and com :: "'s \<Rightarrow> dis_db" +
  fixes obs :: "'s \<Rightarrow> 'o"
  assumes obs_session: "keeps obs (dis_uuid4 S)" "keeps obs (dis_utcnow S)" "keeps obs (dispute_merge S m)"
      "keeps obs (dispute_select S lock Q)" "keeps obs (saga_merge S g)" "keeps obs (dis_outbox_add S ob)"
    and obs_act: "keeps obs (hide_review_and_lock_chat P b)"
begin

lemma obs_repositories:
  "keeps obs (DisputeRepository_find_by_id S i)" "keeps obs (DisputeRepository_save S d)" "keeps obs (refund_save S h)"
  "keeps obs (dispute_publish S ev)"
  unfolding DisputeRepository_find_by_id_def find_dispute_def DisputeRepository_save_def refund_save_def dispute_publish_def
  by (intro keep_intros obs_session)+

lemma obs_publish_events: "keeps obs (publish_saga_events S h)"
  unfolding publish_saga_events_def Let_def by (intro keep_intros obs_repositories)

lemma obs_then_publish: "obs (snd (bindE m (publish_saga_events S) s)) = obs (snd (m s))"
  by (rule bindE_after) (rule keepsD_snd [OF obs_publish_events])

lemma obs_hiding: "keeps obs (refund_hiding_review S P h)"
  unfolding refund_hiding_review_def by (intro keep_intros obs_repositories obs_act)

lemma obs_acting: "sg_current_state h \<noteq> ''REFUNDING'' \<Longrightarrow> keeps obs (refund_process_rec n S P h)"
  by (cases n) (auto intro!: keep_intros obs_hiding obs_publish_events)

text \<open>The processing of a saga that has not paid yet observes exactly the call that pays.\<close>

lemma obs_refunding:
  assumes "sg_current_state g = ''REFUNDING''"
  shows "obs (snd (refund_process_rec (Suc n) S P g s)) = obs (snd (refund_escrow_to_wallet P (sg_booking_id g) s))"
proof -
  have "sg_current_state h \<noteq> ''REFUNDING''" if "on_refund_success g = Inr g'" "refund_save S g' s' = (Inr h, t)" for g' h s' t
    using that by (auto simp: on_refund_success_def saga_add_event_def dest!: refund_save_state split: if_splits)
  then have "obs (snd (pay_step (refund_escrow_to_wallet P (sg_booking_id g)) on_refund_success on_refund_failed (refund_save S)
      (dexn_str (set_repr S)) ''Refund failed'' (refund_process_rec n S P) g s)) = obs (snd (refund_escrow_to_wallet P (sg_booking_id g) s))"
    by (intro pay_step_frame obs_repositories keepsD_snd [OF obs_acting])
  then show ?thesis using assms by (simp add: refund_refunding_eq obs_then_publish)
qed

end

context dis_beside
begin

lemma find_stored:
  assumes ok: "dis_ok (view s)" and row: "disputes (view s) i = Some r"
  obtains s' where "DisputeRepository_find_by_id S i s = (Inr (Some (dispute_of r)), s')" "view s' = view s" "com s' = com s"
proof -
  have key: "dm_dispute_id r = i" using table_ok_key [OF dis_ok_tables(1) [OF ok] row] .
  have inr: "r \<in> ran (disputes (view s))" using row by (rule ranI)
  obtain rs s' where 1: "dispute_select S False (\<lambda>m. dm_dispute_id m = i) s = (Inr rs, s')"
    "set rs = {m \<in> ran (disputes (view s)). dm_dispute_id m = i}" "view s' = view s" "com s' = com s"
    by (rule dtl.vselect_finds)
  have "first_row rs = Some r"
  proof (rule first_row_unique [OF 1(2)])
    show "r \<in> ran (disputes (view s))" using row by (rule ranI)
    show "dm_dispute_id r = i" by (rule key)
    show "r' = r" if "r' \<in> ran (disputes (view s))" "dm_dispute_id r' = i" for r'
      using table_ok_ran [OF dis_ok_tables(1) [OF ok] that(1)] that(2) row by simp
  qed
  moreover have "dm_reason r \<in> set VALID_REASONS" using dis_ok_tables(3) [OF ok inr] by simp
  ultimately have "DisputeRepository_find_by_id S i s = (Inr (Some (dispute_of r)), s')"
    using 1(1) to_domain_dispute_ok [of r]
    by (simp add: DisputeRepository_find_by_id_def find_dispute_def option_map_exn_def eff_simps)
  with 1(3,4) show thesis by (intro that)
qed

lemma save_refunded:
  assumes ok: "dis_ok (view s)" and row: "disputes (view s) i = Some r" "dm_status r = ''RESOLVING''" "length admin \<le> 36"
  obtains d r' s' where "Dispute_resolve_refund (dispute_of r) admin remark = Inr d" "d_booking_id d = dm_booking_id r"
    "\<exists>v. DisputeRepository_save S d s = (Inr (d\<lparr>d_version := v\<rparr>), s')" "com s' = com s" "refunded admin remark r r'"
    "view s' = (view s)\<lparr>disputes := (disputes (view s))(i \<mapsto> r')\<rparr>"
    "d_events d = [DisputeResolvedRefund i (dm_booking_id r) admin (dm_reporter_id r) (dm_accused_id r)]"
proof -
  have key: "dm_dispute_id r = i" using table_ok_key [OF dis_ok_tables(1) [OF ok] row(1)] .
  have inr: "r \<in> ran (disputes (view s))" using row(1) by (rule ranI)
  let ?ev = "DisputeResolvedRefund i (dm_booking_id r) admin (dm_reporter_id r) (dm_accused_id r)"
  let ?d = "(dispute_of r)\<lparr>d_status := ''REFUNDED'', d_admin_id := Some admin, d_resolution := Some ''REFUND_CLIENT'',
      d_notes := Some remark, d_events := [?ev]\<rparr>"
  have d: "Dispute_resolve_refund (dispute_of r) admin remark = Inr ?d"
    using row(2) key by (simp add: command_defs dispute_of_def)
  let ?m = "DisputeMapper_to_model ?d"
  have "dispute_fits r" using dis_ok_tables(3) [OF ok inr] by simp
  then have "dispute_fits ?m" using row(3) by (simp add: dispute_fits_def DisputeMapper_to_model_def dispute_of_def fits_opt_def)
  moreover have "dm_booking_id x \<noteq> dm_booking_id r" if "x \<in> ran (disputes (view s))" "dm_dispute_id x \<noteq> i" for x
    using table_ok_unique [OF dis_ok_tables(1) [OF ok] that(1) inr] that(2) key by auto
  ultimately have acc: "row_accepted dm_dispute_id dm_booking_id dispute_fits (disputes (view s)) ?m"
    using key by (auto simp: row_accepted_def dispute_of_def)
  have "\<And>r0. disputes (view s) (dm_dispute_id ?m) = Some r0 \<Longrightarrow> dm_version r0 = dm_version ?m"
    using row(1) key by (simp add: dispute_of_def)
  from dtl.vmerge_live [OF acc this] obtain v s' where m: "dispute_merge S ?m s = (Inr v, s')" by blast
  then have run: "DisputeRepository_save S ?d s = (Inr (?d\<lparr>d_version := v\<rparr>), s')"
    by (simp add: DisputeRepository_save_def eff_simps)
  have c: "com s' = com s" using keepsD [OF repo_keeps(1) run] by simp
  from run show thesis
  proof (rule save_dispute)
    fix r'
    assume r': "dispute_agree ?m r'" "view s' = (view s)\<lparr>disputes := (disputes (view s))(d_dispute_id ?d \<mapsto> r')\<rparr>"
    have "mset (dm_evidences r') = mset (dm_evidences r)" using r'(1) by (simp add: dispute_agree_def DisputeMapper_to_model_def dispute_of_def)
    then have "refunded admin remark r r'"
      using agree_dispute [OF r'(1)] key by (simp add: refunded_def DisputeMapper_to_model_def dispute_of_def)
    with d run c r'(2) key show thesis
      by (intro that [of ?d s' r']) (simp_all add: dispute_of_def)
  qed
qed

lemma refund_start_returns:
  assumes lens: "length saga_id \<le> 36" "length i \<le> 36" "length b \<le> 36" and fresh: "sagas (view s) saga_id = None"
    and calls: "\<And>t. obs t = obs s \<Longrightarrow> fst (refund_escrow_to_wallet P b t) = paid"
      "\<And>t. fst (hide_review_and_lock_chat P b t) = act"
  shows "\<exists>g t s'. refund_start S P saga_id i b s = (Inr (), s') \<and> com s' = com s \<and>
    obs t = obs s \<and> obs s' = obs (snd (refund_escrow_to_wallet P b t)) \<and>
    view s' = put_saga (SagaStateMapper_to_model (RefundSaga g)) (view s) \<and>
    sg_saga_id g = saga_id \<and> sg_dispute_id g = i \<and> sg_booking_id g = b \<and>
    saga_abs g = outcome (set_repr S) refund_names ''Refund failed'' ''Interaction service failed to lock/hide'' paid act 0"
proof -
  let ?g = "RefundSaga_create saga_id i b"
  obtain v s1 where 1: "refund_save S ?g s = (Inr (?g\<lparr>sg_version := v\<rparr>), s1)" "refund.saved s (?g\<lparr>sg_version := v\<rparr>) s1"
    using refund.save_returns [of ?g s] lens fresh
    by (auto simp: RefundSaga_create_def ids_fit_def int32_def refund.current_def)
  let ?h = "?g\<lparr>sg_version := v\<rparr>"
  have o1: "obs s1 = obs s" using keepsD [OF obs_repositories(3) 1(1)] .
  have "refund.current s1 ?h" by (rule refund.saved_current [OF 1(2)]) simp_all
  moreover have "sg_current_state ?h = ''REFUNDING''" "refund.storable ?h" "sg_events ?h = []"
    using lens by (simp_all add: RefundSaga_create_def refund.storable_def ids_fit_def int32_def internal_events_def)
  moreover have "fst (refund_escrow_to_wallet P (sg_booking_id ?h) s1) = paid" "\<And>t. fst (hide_review_and_lock_chat P (sg_booking_id ?h) t) = act"
    using calls o1 by (simp_all add: RefundSaga_create_def)
  ultimately obtain g s2 where 2: "refund_process_rec 2 S P ?h s1 = (Inr g, s2)" "refund.saved s1 g s2" "moved ?h g"
      "saga_abs g = outcome (set_repr S) refund_names ''Refund failed'' ''Interaction service failed to lock/hide'' paid act 0"
    using refund.process_outcome [of ?h s1 paid act] by (auto simp: refund_names_def RefundSaga_create_def)
  have "refund.saved s g s2" using refund.saved_twice [OF 1(2) 2(2)] moved_id [OF 2(3)] by simp
  note this [unfolded refund.saved_def]
  moreover have "sg_saga_id g = saga_id \<and> sg_dispute_id g = i \<and> sg_booking_id g = b"
    using 2(3) by (cases g) (simp add: moved_def RefundSaga_create_def)
  moreover have "refund_start S P saga_id i b s = (Inr (), s2)"
    using 1(1) 2(1) by (simp add: refund_start_def refund_process_saga_def forget_local_def eff_simps)
  moreover have "obs s2 = obs (snd (refund_escrow_to_wallet P b s1))"
    using obs_refunding [of ?h "Suc 0" s1] 2(1) by (simp add: numeral_2_eq_2 RefundSaga_create_def)
  ultimately show ?thesis using 2(4) o1 by blast
qed

lemma resolve_refund_observed:
  assumes ok: "dis_ok (view s)" and row: "disputes (view s) i = Some r" "dm_status r = ''RESOLVING''" "length admin \<le> 36"
    and fresh: "\<And>t j t'. dis_uuid4 S t = (Inr j, t') \<Longrightarrow> j \<notin> dom (sagas (view s))"
    and calls: "\<And>t. obs t = obs s \<Longrightarrow> fst (refund_escrow_to_wallet P (dm_booking_id r) t) = paid"
      "\<And>t. fst (hide_review_and_lock_chat P (dm_booking_id r) t) = act"
  shows "\<exists>r' g ob t s'. resolve_dispute S P i admin ''REFUND_CLIENT'' notes s = (Inr (), s') \<and> com s' = com s \<and>
    obs t = obs s \<and> obs s' = obs (snd (refund_escrow_to_wallet P (dm_booking_id r) t)) \<and>
    view s' = (view s)\<lparr>disputes := (disputes (view s))(i \<mapsto> r'),
      sagas := (sagas (view s))(sg_saga_id g \<mapsto> SagaStateMapper_to_model (RefundSaga g)), d_outbox := d_outbox (view s) @ [ob]\<rparr> \<and>
    refunded admin notes r r' \<and> sg_dispute_id g = i \<and> sg_booking_id g = dm_booking_id r \<and> ob_event_type ob = dispute_resolved \<and>
    saga_abs g = outcome (set_repr S) refund_names ''Refund failed'' ''Interaction service failed to lock/hide'' paid act 0"
proof -
  have key: "dm_dispute_id r = i" using table_ok_key [OF dis_ok_tables(1) [OF ok] row(1)] .
  have fits: "dispute_fits r" using dis_ok_tables(3) [OF ok, of r] row(1) by (auto intro: ranI)
  obtain s1 where 1: "DisputeRepository_find_by_id S i s = (Inr (Some (dispute_of r)), s1)" "view s1 = view s" "com s1 = com s"
    using ok row(1) by (rule find_stored)
  have at1: "dis_ok (view s1)" "disputes (view s1) i = Some r" using ok row(1) 1(2) by simp_all
  from at1 row(2,3) show ?thesis
  proof (rule save_refunded [where remark = "notes"])
    fix d r' s2
    assume d: "Dispute_resolve_refund (dispute_of r) admin notes = Inr d" "d_booking_id d = dm_booking_id r"
        "\<exists>v. DisputeRepository_save S d s1 = (Inr (d\<lparr>d_version := v\<rparr>), s2)" "com s2 = com s1" "refunded admin notes r r'"
        "view s2 = (view s1)\<lparr>disputes := (disputes (view s1))(i \<mapsto> r')\<rparr>"
        "d_events d = [DisputeResolvedRefund i (dm_booking_id r) admin (dm_reporter_id r) (dm_accused_id r)]"
    then obtain v where v: "DisputeRepository_save S d s1 = (Inr (d\<lparr>d_version := v\<rparr>), s2)" by blast
    have o2: "obs s2 = obs s" using keepsD [OF obs_repositories(1) 1(1)] keepsD [OF obs_repositories(2) v] by simp
    obtain j s3 where 3: "dis_uuid4 S s2 = (Inr j, s3)" "view s3 = view s2" "com s3 = com s2" "length j = 36"
      by (rule dis_uuid_returns)
    have "length i \<le> 36" "length (dm_booking_id r) \<le> 36" using fits key by (auto simp: dispute_fits_def)
    moreover have "sagas (view s3) j = None" using fresh [OF 3(1)] 3(2) d(6) 1(2) by auto
    moreover have o3: "obs s3 = obs s" using keepsD [OF obs_session(1) 3(1)] o2 by simp
    ultimately obtain g t s4 where 4: "refund_start S P j i (dm_booking_id r) s3 = (Inr (), s4)" "com s4 = com s3"
        "view s4 = put_saga (SagaStateMapper_to_model (RefundSaga g)) (view s3)"
        "sg_saga_id g = j" "sg_dispute_id g = i" "sg_booking_id g = dm_booking_id r"
        "saga_abs g = outcome (set_repr S) refund_names ''Refund failed'' ''Interaction service failed to lock/hide'' paid act 0"
        "obs t = obs s" "obs s4 = obs (snd (refund_escrow_to_wallet P (dm_booking_id r) t))"
      using refund_start_returns [of j i "dm_booking_id r" s3 paid act] 3(4) calls by auto
    obtain ob s5 where 5: "dispute_publish S (DisputeResolvedRefund i (dm_booking_id r) admin (dm_reporter_id r) (dm_accused_id r)) s4 =
        (Inr (), s5)" "com s5 = com s4" "view s5 = (view s4)\<lparr>d_outbox := d_outbox (view s4) @ [ob]\<rparr>"
        "ob_event_type ob = dispute_resolved" "\<not> ob_processed ob"
      by (rule publish_contract [OF resolved_contract])
    have "obs s5 = obs s4" using keepsD [OF obs_repositories(4) 5(1)] .
    moreover have "resolve_dispute S P i admin ''REFUND_CLIENT'' notes s = (Inr (), s5)"
      using 1(1) d(1,2,7) v 3(1) 4(1) 5(1)
      by (simp add: resolve_dispute_def resolve_branch_def Dispute_clear_events_def eff_simps)
    ultimately show ?thesis
      using 1(2,3) d(4-6) 3(2,3) 4(2-9) 5(2-4)
      by (intro exI [of _ r'] exI [of _ g] exI [of _ ob] exI [of _ t] exI [of _ s5]) (simp add: put_saga_def)
  qed
qed

end

text \<open>Nothing observed: the answers of the two services are given.\<close>

lemma dis_ports_beside: "dis_ports S P view com \<Longrightarrow> dis_beside S P view com (\<lambda>_. ())"
  by (simp add: dis_beside_def dis_beside_axioms_def keeps_def)

context dis_ports
begin

lemma resolve_refund_returns:
  assumes ok: "dis_ok (view s)" and row: "disputes (view s) i = Some r" "dm_status r = ''RESOLVING''" "length admin \<le> 36"
    and fresh: "\<And>t j t'. dis_uuid4 S t = (Inr j, t') \<Longrightarrow> j \<notin> dom (sagas (view s))"
    and calls: "\<And>t. fst (refund_escrow_to_wallet P (dm_booking_id r) t) = paid"
      "\<And>t. fst (hide_review_and_lock_chat P (dm_booking_id r) t) = act"
  shows "\<exists>r' g ob s'. resolve_dispute S P i admin ''REFUND_CLIENT'' notes s = (Inr (), s') \<and> com s' = com s \<and>
    view s' = (view s)\<lparr>disputes := (disputes (view s))(i \<mapsto> r'),
      sagas := (sagas (view s))(sg_saga_id g \<mapsto> SagaStateMapper_to_model (RefundSaga g)), d_outbox := d_outbox (view s) @ [ob]\<rparr> \<and>
    refunded admin notes r r' \<and> sg_dispute_id g = i \<and> sg_booking_id g = dm_booking_id r \<and> ob_event_type ob = dispute_resolved \<and>
    saga_abs g = outcome (set_repr S) refund_names ''Refund failed'' ''Interaction service failed to lock/hide'' paid act 0"
proof -
  have "\<exists>r' g ob t s'. resolve_dispute S P i admin ''REFUND_CLIENT'' notes s = (Inr (), s') \<and> com s' = com s \<and>
    (\<lambda>_. ()) t = (\<lambda>_. ()) s \<and> (\<lambda>_. ()) s' = (\<lambda>_. ()) (snd (refund_escrow_to_wallet P (dm_booking_id r) t)) \<and> view s' = (view s)\<lparr>disputes := (disputes (view s))(i \<mapsto> r'),
      sagas := (sagas (view s))(sg_saga_id g \<mapsto> SagaStateMapper_to_model (RefundSaga g)), d_outbox := d_outbox (view s) @ [ob]\<rparr> \<and>
    refunded admin notes r r' \<and> sg_dispute_id g = i \<and> sg_booking_id g = dm_booking_id r \<and> ob_event_type ob = dispute_resolved \<and>
    saga_abs g = outcome (set_repr S) refund_names ''Refund failed'' ''Interaction service failed to lock/hide'' paid act 0"
    by (rule dis_beside.resolve_refund_observed [OF dis_ports_beside [OF dis_ports_axioms] ok row]) (use fresh calls in blast)+
  then show ?thesis by blast
qed

text \<open>A payout saga that is stored and has not paid yet.\<close>

lemma payout_process_returns:
  assumes "sg_current_state g = ''PAYING_OUT''" "sg_events g = []"
    "saga_fits (SagaStateMapper_to_model (PayoutSaga g))" "0 \<le> sg_retry_count g" "int32 (sg_retry_count g + 1)"
    "sagas (view s) (sg_saga_id g) = Some (SagaStateMapper_to_model (PayoutSaga g))"
    "fst (payout_from_escrow P (sg_booking_id g) (ps_companion_wallet_id g) (ps_commission_rate g) s) = paid"
    "\<And>t. fst (lock_chat_room P (sg_booking_id g) t) = act"
  shows "\<exists>g' s'. payout_process_saga S P g s = (Inr g', s') \<and> com s' = com s \<and>
    view s' = put_saga (SagaStateMapper_to_model (PayoutSaga g')) (view s) \<and> moved g g' \<and>
    saga_abs g' = outcome (set_repr S) payout_names ''Payout failed'' ''Interaction service failed to lock chat room'' paid act (sg_retry_count g)"
proof -
  have "payout.storable g" using assms(2-5) by (simp add: payout.storable_def payout_model_fits internal_events_def del: SagaStateMapper_to_model.simps)
  moreover have "payout.current s g" using assms(6) by (simp add: payout.current_def)
  ultimately obtain g' s' where p: "payout_process_rec 2 S P g s = (Inr g', s')" "payout.saved s g' s'" "moved g g'"
      "saga_abs g' = outcome (set_repr S) payout_names ''Payout failed'' ''Interaction service failed to lock chat room'' paid act (sg_retry_count g)"
    using payout.process_outcome [OF assms(1) _ assms(2) _ assms(7,8)] by (auto simp: payout_names_def)
  from p(1,3,4) p(2) [unfolded payout.saved_def] show ?thesis unfolding payout_process_saga_def by blast
qed

end

end
