(* ===== verification/Dispute_Examples.thy ===== *)
theory Dispute_Examples
  imports Dispute_Memory Dispute_Resolution
begin

text \<open>
  A small database on the reference session: an open dispute, a dispute that is being resolved, and two
  sagas that wait for the interaction service.
\<close>

definition exd_open :: dispute_model where
  "exd_open = \<lparr>dm_dispute_id = ''d1'', dm_booking_id = ''b2'', dm_reporter_id = ''alice'', dm_accused_id = ''bob'',
     dm_reason = ''FRAUD'', dm_status = ''OPEN'', dm_admin_id = None, dm_resolution = None, dm_notes = None,
     dm_version = 1, dm_created_at = Some 0, dm_evidences = []\<rparr>"

definition exd_resolving :: dispute_model where
  "exd_resolving = exd_open\<lparr>dm_dispute_id := ''d2'', dm_booking_id := ''b1'', dm_status := ''RESOLVING'',
     dm_admin_id := Some ''root'', dm_version := 2\<rparr>"

definition exd_hiding :: saga_model where
  "exd_hiding = \<lparr>sm_saga_id = ''g1'', sm_dispute_id = ''d3'', sm_booking_id = ''b3'', sm_saga_type = ''REFUND'',
     sm_current_state = ''HIDING_REVIEW'', sm_retry_count = 1, sm_last_error = Some ''down'',
     sm_companion_wallet_id = None, sm_commission_rate = None, sm_version = 3\<rparr>"

definition exd_locking :: saga_model where
  "exd_locking = \<lparr>sm_saga_id = ''g2'', sm_dispute_id = ''d4'', sm_booking_id = ''b4'', sm_saga_type = ''PAYOUT'',
     sm_current_state = ''LOCKING_CHAT'', sm_retry_count = 2, sm_last_error = Some ''down'',
     sm_companion_wallet_id = Some ''wallet-b4'', sm_commission_rate = Some rate_015, sm_version = 4\<rparr>"

lemmas exd_rows = exd_open_def exd_resolving_def exd_hiding_def exd_locking_def

definition exd_tables :: dis_tables where
  "exd_tables = \<lparr>dt_disputes = DAList.update ''d1'' exd_open (DAList.update ''d2'' exd_resolving DAList.empty),
     dt_sagas = DAList.update ''g1'' exd_hiding (DAList.update ''g2'' exd_locking DAList.empty), dt_outbox = []\<rparr>"

definition exd_state :: dis_mem where
  "exd_state = \<lparr>m_view = exd_tables, m_com = exd_tables, m_clock = 0\<rparr>"

lemma exd_view: "dis_view exd_state = dis_com exd_state"
  by (simp add: dis_view_def dis_com_def exd_state_def)

lemma exd_com:
  "dis_com exd_state = \<lparr>disputes = [''d2'' \<mapsto> exd_resolving, ''d1'' \<mapsto> exd_open],
     sagas = [''g2'' \<mapsto> exd_locking, ''g1'' \<mapsto> exd_hiding], d_outbox = []\<rparr>"
  by (simp add: dis_com_def dis_abs_def exd_state_def exd_tables_def alist_lookup_update alist_lookup_empty)

lemma exd_ok: "dis_ok (dis_com exd_state)"
  by (simp add: dis_ok_def table_ok_def exd_com dispute_fits_def saga_fits_def fits_opt_def int32_def VALID_REASONS_def exd_rows)

lemma exd_fresh:
  "dis_uuid4 mem_dis t = (Inr i, t') \<Longrightarrow> i \<notin> dom (disputes (dis_com exd_state)) \<and> i \<notin> dom (sagas (dis_com exd_state))"
  by (auto simp: exd_com mem_tick_def dest!: arg_cong [where f = length])

lemma exd_waits: "r \<in> ran (sagas (dis_com exd_state)) \<Longrightarrow> waits r"
  by (auto simp: exd_com waits_def pending_retry_def saga_fits_def fits_opt_def int32_def exd_rows)

text \<open>A session that has stored nothing yet.\<close>

definition exd_empty :: dis_mem where
  "exd_empty = (let t = \<lparr>dt_disputes = DAList.empty, dt_sagas = DAList.empty, dt_outbox = []\<rparr>
     in \<lparr>m_view = t, m_com = t, m_clock = 0\<rparr>)"

lemma exd_empty_com: "dis_com exd_empty = \<lparr>disputes = Map.empty, sagas = Map.empty, d_outbox = []\<rparr>"
  by (simp add: exd_empty_def Let_def dis_com_def dis_abs_def alist_lookup_empty)

text \<open>A payout saga that has not paid yet, stored.\<close>

definition exd_payout :: payout_saga where
  "exd_payout = PayoutSaga_create ''g5'' ''d5'' ''b5'' ''wallet-b5'' rate_015"

definition exd_paying :: dis_mem where
  "exd_paying = (let t = \<lparr>dt_disputes = DAList.empty,
       dt_sagas = DAList.update ''g5'' (SagaStateMapper_to_model (PayoutSaga exd_payout)) DAList.empty, dt_outbox = []\<rparr>
     in \<lparr>m_view = t, m_com = t, m_clock = 0\<rparr>)"

lemma exd_paying_view: "sagas (dis_view exd_paying) ''g5'' = Some (SagaStateMapper_to_model (PayoutSaga exd_payout))"
  by (simp add: exd_paying_def Let_def dis_view_def dis_abs_def alist_lookup_update)

text \<open>A dispute at the end of its life.\<close>

definition exd_decided :: dispute where
  "exd_decided = \<lparr>d_dispute_id = ''d'', d_booking_id = ''b'', d_reporter_id = ''r'', d_accused_id = ''a'', d_reason = ''OTHER'',
     d_status = ''REJECTED'', d_admin_id = Some ''root'', d_resolution = Some ''REJECT'', d_notes = Some ''no proof'',
     d_evidences = [], d_version = 1,
     d_events = [ReportCreated ''d'' ''b'' ''r'' ''a'' ''OTHER'', DisputeAssigned ''d'' ''root'',
       DisputeRejected ''d'' ''b'' ''root'' ''r'' ''a'']\<rparr>"

lemma exd_decided_life: "dispute_life exd_decided"
proof -
  obtain d0 where 0: "Dispute_create_report ''d'' ''b'' ''r'' ''a'' ''OTHER'' [] = Inr d0"
    by (simp add: Dispute_create_report_def DisputeReason_def VALID_REASONS_def Let_def)
  obtain d1 where 1: "dispute_do (AssignCmd ''root'') d0 = Inr d1"
    using create_report_fields [OF 0] by (simp add: command_defs)
  have "dispute_do (RejectCmd ''root'' ''no proof'') d1 = Inr exd_decided"
    using 0 1 by (auto simp: command_defs Dispute_create_report_def DisputeReason_def VALID_REASONS_def exd_decided_def)
  with dispute_life.intros(2) [OF dispute_life.intros(2) [OF dispute_life.intros(1) [OF 0] 1]] show ?thesis by blast
qed

end
