(* ===== verification/Dispute_Properties.thy ===== *)
theory Dispute_Properties
  imports Dispute_Examples
begin

text \<open>
  The properties of the dispute service: reports, the decision for the client with its saga, the retry
  worker, the state machines, persistence and authorisation.
\<close>

lemma told_ports_live: "dis_ports mem_dis (told_ports paid act) dis_view dis_com"
  by (intro dis_ports.intro mem_dis_live told_frame)

section \<open>Resolution\<close>

text \<open>
  C30: deciding a dispute that is being resolved for the client returns: the dispute becomes \<open>REFUNDED\<close>, one
  saga is stored whose state, retries and error are determined by the answers of the finance and of the
  interaction service, and one event is queued.  The dispute becomes \<open>REFUNDED\<close> whatever the finance service
  answers.
\<close>

theorem resolve_refund_correct:
  assumes "dis_ports S P view com" "dis_ok (view s)" "disputes (view s) i = Some r" "dm_status r = ''RESOLVING''"
    "length admin \<le> 36" "\<And>t j t'. dis_uuid4 S t = (Inr j, t') \<Longrightarrow> j \<notin> dom (sagas (view s))"
    "\<And>t. fst (refund_escrow_to_wallet P (dm_booking_id r) t) = paid"
    "\<And>t. fst (hide_review_and_lock_chat P (dm_booking_id r) t) = act"
  shows "\<exists>r' g ob s'. resolve_dispute S P i admin ''REFUND_CLIENT'' notes s = (Inr (), s') \<and> com s' = com s \<and>
    view s' = (view s)\<lparr>disputes := (disputes (view s))(i \<mapsto> r'),
      sagas := (sagas (view s))(sg_saga_id g \<mapsto> SagaStateMapper_to_model (RefundSaga g)), d_outbox := d_outbox (view s) @ [ob]\<rparr> \<and>
    refunded admin notes r r' \<and> sg_dispute_id g = i \<and> sg_booking_id g = dm_booking_id r \<and> ob_event_type ob = dispute_resolved \<and>
    saga_abs g = outcome (set_repr S) refund_names ''Refund failed'' ''Interaction service failed to lock/hide'' paid act 0"
  using assms by (rule dis_ports.resolve_refund_returns)

theorem resolve_refund_correct_witness:
  "\<exists>r' g ob s'. resolve_dispute mem_dis (told_ports (Inr (refused ''no funds'')) (Inr True)) ''d2'' ''root'' ''REFUND_CLIENT'' ''ok''
      exd_state = (Inr (), s') \<and> dis_com s' = dis_com exd_state \<and>
    dis_view s' = (dis_view exd_state)\<lparr>disputes := (disputes (dis_view exd_state))(''d2'' \<mapsto> r'),
      sagas := (sagas (dis_view exd_state))(sg_saga_id g \<mapsto> SagaStateMapper_to_model (RefundSaga g)),
      d_outbox := d_outbox (dis_view exd_state) @ [ob]\<rparr> \<and>
    refunded ''root'' ''ok'' exd_resolving r' \<and> sg_dispute_id g = ''d2'' \<and> sg_booking_id g = dm_booking_id exd_resolving \<and>
    ob_event_type ob = dispute_resolved \<and>
    saga_abs g = outcome (set_repr mem_dis) refund_names ''Refund failed'' ''Interaction service failed to lock/hide''
      (Inr (refused ''no funds'')) (Inr True) 0"
  by (rule resolve_refund_correct [OF told_ports_live])
    (use exd_ok exd_fresh in \<open>auto simp: exd_view exd_com exd_rows told_ports_def\<close>)

text \<open>
  A payout saga that has not paid yet runs to the state its two calls determine: failed when the payout
  was refused, waiting with one more retry when the chat room could not be locked, paid out when both calls
  succeed; only that saga is written.
\<close>

theorem payout_saga_outcome:
  assumes "dis_ports S P view com" "sg_current_state g = ''PAYING_OUT''" "sg_events g = []"
    "saga_fits (SagaStateMapper_to_model (PayoutSaga g))" "0 \<le> sg_retry_count g" "int32 (sg_retry_count g + 1)"
    "sagas (view s) (sg_saga_id g) = Some (SagaStateMapper_to_model (PayoutSaga g))"
    "fst (payout_from_escrow P (sg_booking_id g) (ps_companion_wallet_id g) (ps_commission_rate g) s) = paid"
    "\<And>t. fst (lock_chat_room P (sg_booking_id g) t) = act"
  shows "\<exists>g' s'. payout_process_saga S P g s = (Inr g', s') \<and> com s' = com s \<and>
    view s' = put_saga (SagaStateMapper_to_model (PayoutSaga g')) (view s) \<and> moved g g' \<and>
    saga_abs g' = outcome (set_repr S) payout_names ''Payout failed'' ''Interaction service failed to lock chat room'' paid act (sg_retry_count g)"
  using assms by (rule dis_ports.payout_process_returns)

theorem payout_saga_outcome_witness:
  "\<exists>g' s'. payout_process_saga mem_dis (told_ports (Inr (granted ''t'')) (Inr False)) exd_payout exd_paying = (Inr g', s') \<and>
    dis_com s' = dis_com exd_paying \<and>
    dis_view s' = put_saga (SagaStateMapper_to_model (PayoutSaga g')) (dis_view exd_paying) \<and> moved exd_payout g' \<and>
    saga_abs g' = outcome (set_repr mem_dis) payout_names ''Payout failed'' ''Interaction service failed to lock chat room''
      (Inr (granted ''t'')) (Inr False) (sg_retry_count exd_payout)"
  by (rule payout_saga_outcome [OF told_ports_live])
    (simp_all add: exd_payout_def PayoutSaga_create_def saga_fits_def saga_core_model_def fits_opt_def int32_def told_ports_def
      exd_paying_view)

text \<open>
  C31: with the interaction service up, a retry worker that makes enough turns before it is stopped (each turn
  takes twenty sagas) finishes every saga that waits and changes nothing else in the committed database; none is
  left waiting.
\<close>

theorem retry_worker_completes:
  assumes "dis_ports S P view com"
    "\<And>b t. fst (hide_review_and_lock_chat P b t) = Inr True" "\<And>b t. fst (lock_chat_room P b t) = Inr True"
    "table_ok sm_saga_id sm_saga_id (sagas (com s))"
    "\<And>r. r \<in> ran (sagas (com s)) \<Longrightarrow> pending_retry r \<Longrightarrow> waits r"
    "card {r \<in> ran (sagas (com s)). pending_retry r} \<le> Suc k * 20"
  shows "\<exists>s'. saga_poll_loop S P k w s = ((if w = SleepCancelled then Inl CancelledError else Inr ()), s') \<and>
    completed {r \<in> ran (sagas (com s)). pending_retry r} (com s) (com s') \<and>
    {r \<in> ran (sagas (com s')). pending_retry r} = {}"
proof -
  obtain s' where s': "turns (retry_pending_sagas S P) (Suc k) s = (Inr (), s')" "completed (waiting (com s)) (com s) (com s')"
    using dis_ports.retry_turns_complete [OF assms(1-4), of "Suc k"] assms(5,6) unfolding waiting_def by auto
  have "saga_poll_loop S P k w s = ((if w = SleepCancelled then Inl CancelledError else Inr ()), s')"
    using s'(1) unfolding turns_run saga_poll_loop_def poll_loop_run by simp
  with s'(2) completed_waiting [OF s'(2)] show ?thesis unfolding waiting_def by auto
qed

theorem retry_worker_completes_witness:
  "\<exists>s'. saga_poll_loop mem_dis (told_ports (Inr (refused ''no funds'')) (Inr True)) 0 SleepCancelled exd_state =
      (Inl CancelledError, s') \<and>
    completed {r \<in> ran (sagas (dis_com exd_state)). pending_retry r} (dis_com exd_state) (dis_com s')"
proof -
  let ?R = "{r \<in> ran (sagas (dis_com exd_state)). pending_retry r}"
  have "?R \<subseteq> {exd_hiding, exd_locking}" by (auto simp: exd_com)
  from card_mono [OF _ this] have "card ?R \<le> Suc 0 * 20" by (simp add: card_insert_if split: if_splits)
  with retry_worker_completes [OF told_ports_live _ _ dis_ok_tables(2) [OF exd_ok], of "Inr (refused ''no funds'')" "Inr True" 0 SleepCancelled]
  show ?thesis by (auto simp: told_ports_def exd_waits)
qed

text \<open>
  A saga that has left its paying state never calls the finance service again: what its processing does
  is independent of the port that moves money.
\<close>

theorem retries_move_no_money:
  assumes "sg_current_state g \<noteq> ''REFUNDING''" "sg_current_state p \<noteq> ''PAYING_OUT''"
  shows "refund_process_saga S (P\<lparr>refund_escrow_to_wallet := f\<rparr>) g = refund_process_saga S P g \<and>
    payout_process_saga S (P\<lparr>payout_from_escrow := h\<rparr>) p = payout_process_saga S P p"
  using assms by (simp add: refund_process_saga_def payout_process_saga_def numeral_2_eq_2 refund_hiding_review_def
      payout_locking_chat_def)

theorem retries_move_no_money_witness:
  "refund_process_saga mem_dis ((mock_ports mem_dis)\<lparr>refund_escrow_to_wallet := (\<lambda>b. raise (RpcErrorD b))\<rparr>)
      ((RefundSaga_create ''g'' ''d'' ''b'')\<lparr>sg_current_state := ''HIDING_REVIEW''\<rparr>) =
    refund_process_saga mem_dis (mock_ports mem_dis) ((RefundSaga_create ''g'' ''d'' ''b'')\<lparr>sg_current_state := ''HIDING_REVIEW''\<rparr>) \<and>
   payout_process_saga mem_dis ((mock_ports mem_dis)\<lparr>payout_from_escrow := (\<lambda>b w r. raise (RpcErrorD b))\<rparr>)
      ((PayoutSaga_create ''g'' ''d'' ''b'' ''w'' rate_015)\<lparr>sg_current_state := ''LOCKING_CHAT''\<rparr>) =
    payout_process_saga mem_dis (mock_ports mem_dis)
      ((PayoutSaga_create ''g'' ''d'' ''b'' ''w'' rate_015)\<lparr>sg_current_state := ''LOCKING_CHAT''\<rparr>)"
  by (rule retries_move_no_money) simp_all

text \<open>
  \<open>process_saga\<close> calls itself at most once: any depth of the recursion of two or more gives the same
  computation for both orchestrators.
\<close>

theorem process_saga_depth:
  "refund_process_rec (Suc (Suc n)) S P g = refund_process_saga S P g \<and>
   payout_process_rec (Suc (Suc n)) S P p = payout_process_saga S P p"
  unfolding refund_process_saga_def payout_process_saga_def using refund_depth payout_depth by (rule conjI)

text \<open>
  C38: whether a payout saga starts depends on the database and on the length of the booking's identifier, not on
  the adapters.  The wallet is named \<open>wallet-<booking>\<close> and its column has 36 characters.  On a database that
  enforces the width (PostgreSQL, which the service runs on) the saga of a booking whose identifier has 30
  characters or more, as every UUID has, does not fit: starting it raises and nothing is committed.  In every other case (a shorter
  identifier, or SQLite, which enforces no width and which the tests run on) the saga is stored with that wallet
  and the fixed commission, the payment is requested after that, and the saga ends as the two answers decide.
\<close>

theorem payout_start_by_width:
  assumes "saga_store S view com (saga_widths enforced)" "ports_frame P view com" "P = bootstrap_ports USE_MOCKS S fin itx"
    "sagas (view s) saga_id = None" "length saga_id \<le> 36" "length dispute_id \<le> 36" "length booking_id \<le> 36"
    "\<And>t. fst (lock_chat_room P booking_id t) = act"
  shows "if enforced \<and> 29 < length booking_id
    then \<exists>e s'. payout_start S P saga_id dispute_id booking_id s = (Inl e, s') \<and> com s' = com s
    else \<exists>g t s'. payout_start S P saga_id dispute_id booking_id s = (Inr (), s') \<and> com s' = com s \<and>
      view s' = put_saga (SagaStateMapper_to_model (PayoutSaga g)) (view s) \<and> saga_id \<in> dom (sagas (view t)) \<and>
      moved (PayoutSaga_create saga_id dispute_id booking_id (''wallet-'' @ booking_id) rate_015) g \<and>
      saga_abs g = outcome (set_repr S) payout_names ''Payout failed'' ''Interaction service failed to lock chat room''
        (fst (payout_from_escrow P booking_id (Some (''wallet-'' @ booking_id)) (Some rate_015) t)) act 0"
proof -
  have ports: "saga_ports S P view com enforced" using assms(1,2) by (rule saga_ports.intro)
  have snap: "get_payout_snapshot P = payout_snapshot" by (simp add: assms(3) bootstrap_snapshot)
  show ?thesis
    using saga_ports.payout_start_raises [OF ports snap] saga_ports.payout_start_returns [OF ports snap _ assms(5-7,4,8)]
    by auto
qed

theorem payout_start_by_width_witness:
  "(\<exists>e s'. payout_start mem_dis (bootstrap_ports True mem_dis None None) ''g'' ''d'' (pad36 7) exd_empty = (Inl e, s') \<and>
     dis_com s' = dis_com exd_empty) \<and>
   (\<exists>g s'. payout_start mem_sqlite (bootstrap_ports True mem_sqlite None None) ''g'' ''d'' (pad36 7) exd_empty = (Inr (), s') \<and>
     sagas (dis_view s') ''g'' = Some (SagaStateMapper_to_model (PayoutSaga g)) \<and>
     ps_companion_wallet_id g = Some (''wallet-'' @ pad36 7) \<and> saga_abs g = (''DISPUTE_RESOLVED_PAID_OUT'', 0, None))"
proof
  have none: "sagas (dis_view exd_empty) ''g'' = None" by (simp add: exd_empty_def Let_def dis_mem_defs alist_lookup_empty)
  have ports: "bootstrap_ports True mem_dis None None = mock_ports mem_dis"
    "bootstrap_ports True mem_sqlite None None = mock_ports mem_dis" by (simp_all add: bootstrap_ports_def mock_ports_sqlite)
  have locked: "\<And>b t. fst (lock_chat_room (mock_ports mem_dis) b t) = Inr True" by (simp add: mock_ports_def ret_def)
  have paid: "\<And>b w r t. \<exists>i. fst (payout_from_escrow (mock_ports mem_dis) b w r t) = Inr (granted i)"
    by (auto simp: mock_ports_def mem_tick_def bindE_def ret_def)
  have "saga_store mem_dis dis_view dis_com (saga_widths True)" by (simp add: saga_widths_simps dis.saga_store_axioms)
  from payout_start_by_width [OF this mock.ports_frame_axioms ports(1) [symmetric] none _ _ _ locked, of "''d''" "pad36 7"]
  show "\<exists>e s'. payout_start mem_dis (bootstrap_ports True mem_dis None None) ''g'' ''d'' (pad36 7) exd_empty = (Inl e, s') \<and>
      dis_com s' = dis_com exd_empty"
    by (simp add: ports)
  have "saga_store mem_sqlite dis_view dis_com (saga_widths False)" by (simp add: saga_widths_simps sqlite.saga_store_axioms)
  from payout_start_by_width [OF this mock.ports_frame_axioms ports(2) [symmetric] none _ _ _ locked, of "''d''" "pad36 7"]
  obtain g t s' where r: "payout_start mem_sqlite (mock_ports mem_dis) ''g'' ''d'' (pad36 7) exd_empty = (Inr (), s')"
      "dis_view s' = put_saga (SagaStateMapper_to_model (PayoutSaga g)) (dis_view exd_empty)"
      "moved (PayoutSaga_create ''g'' ''d'' (pad36 7) (''wallet-'' @ pad36 7) rate_015) g"
      "saga_abs g = outcome (set_repr mem_sqlite) payout_names ''Payout failed'' ''Interaction service failed to lock chat room''
        (fst (payout_from_escrow (mock_ports mem_dis) (pad36 7) (Some (''wallet-'' @ pad36 7)) (Some rate_015) t)) (Inr True) 0"
    by auto
  obtain i where "fst (payout_from_escrow (mock_ports mem_dis) (pad36 7) (Some (''wallet-'' @ pad36 7)) (Some rate_015) t) = Inr (granted i)"
    using paid by blast
  with r(4) have "saga_abs g = (''DISPUTE_RESOLVED_PAID_OUT'', 0, None)"
    by (simp add: outcome_def acted_def payout_names_def granted_def)
  moreover have "sg_saga_id g = ''g''" "ps_companion_wallet_id g = Some (''wallet-'' @ pad36 7)"
    using r(3) by (cases g; simp add: moved_def PayoutSaga_create_def)+
  ultimately show "\<exists>g s'. payout_start mem_sqlite (bootstrap_ports True mem_sqlite None None) ''g'' ''d'' (pad36 7) exd_empty = (Inr (), s') \<and>
     sagas (dis_view s') ''g'' = Some (SagaStateMapper_to_model (PayoutSaga g)) \<and>
     ps_companion_wallet_id g = Some (''wallet-'' @ pad36 7) \<and> saga_abs g = (''DISPUTE_RESOLVED_PAID_OUT'', 0, None)"
    using r(1,2) by (intro exI [of _ g] exI [of _ s']) (simp add: ports saga_core_model_def)
qed

section \<open>State machines\<close>

text \<open>
  C36: a command of the aggregate other than adding evidence returns exactly when the life cycle of disputes
  has the step to the status it aims at, and then leaves the dispute in that status.
\<close>

theorem dispute_commands_refine:
  assumes "\<not> is_evidence c"
  shows "case dispute_do c d of
      Inr d' \<Rightarrow> dispute_step (d_status d) (target c) \<and> d_status d' = target c
    | Inl e \<Rightarrow> \<not> dispute_step (d_status d) (target c)"
  using assms by (rule dispute_do_iff)

theorem dispute_commands_refine_witness:
  "case dispute_do (RefundCmd ''root'' ''ok'') (dispute_of exd_resolving) of
      Inr d' \<Rightarrow> dispute_step (d_status (dispute_of exd_resolving)) (target (RefundCmd ''root'' ''ok'')) \<and>
        d_status d' = target (RefundCmd ''root'' ''ok'')
    | Inl e \<Rightarrow> \<not> dispute_step (d_status (dispute_of exd_resolving)) (target (RefundCmd ''root'' ''ok''))"
  by (rule dispute_commands_refine) simp

text \<open>
  C37: along the whole life of a dispute the resolution is the one its status stands for, an administrator is
  named exactly when it has left \<open>OPEN\<close>, notes exist exactly when it was decided; and a decided dispute
  refuses every command, evidence included.
\<close>

theorem dispute_invariant:
  assumes "dispute_life d"
  shows "dispute_inv d \<and> (d_status d \<in> TERMINAL_STATES \<longrightarrow>
    (\<forall>c. dispute_do c d = Inl (DisputeAlreadyResolvedError (d_dispute_id d) (d_status d))))"
  using dispute_life_inv [OF assms] dispute_do_terminal by blast

theorem dispute_invariant_witness:
  "dispute_inv exd_decided \<and> dispute_do (EvidenceCmd \<lparr>ev_id = ''e'', ev_type = ''TEXT'', ev_content = ''late''\<rparr>) exd_decided =
    Inl (DisputeAlreadyResolvedError ''d'' ''REJECTED'')"
  using dispute_invariant [OF exd_decided_life] by (simp add: exd_decided_def TERMINAL_STATES_def)

text \<open>
  C32: what any sequence of reports does to a new refund or payout saga.  It is accepted exactly when it is one
  report of the payment, followed, if the payment was made, by any number of failed second steps and possibly
  one that was done; so money moves at most once and a failed payment ends the saga.  After an accepted
  sequence the last report decides the state, the retry count is the number of failed second steps, the
  recorded error is the one of the last report if that is a failure and none otherwise, and the error of every
  failed step has been announced by an event, in order.
\<close>

theorem saga_runs:
  "(case saga_run refund_do cs (RefundSaga_create i d b) of
      Inl e \<Rightarrow> \<not> saga_word cs
    | Inr g \<Rightarrow> saga_word cs \<and> length (filter (\<lambda>c. c = PaidCmd) cs) \<le> 1 \<and>
        saga_abs g = saga_after refund_names cs \<and> saga_inv refund_names (saga_abs g) \<and>
        announced (sg_events g) = List.map_filter failed_with cs) \<and>
   (case saga_run payout_do cs' (PayoutSaga_create i d b w rate) of
      Inl e \<Rightarrow> \<not> saga_word cs'
    | Inr g \<Rightarrow> saga_word cs' \<and> length (filter (\<lambda>c. c = PaidCmd) cs') \<le> 1 \<and>
        saga_abs g = saga_after payout_names cs' \<and> saga_inv payout_names (saga_abs g) \<and>
        announced (sg_events g) = List.map_filter failed_with cs')"
proof
  show "case saga_run refund_do cs (RefundSaga_create i d b) of
      Inl e \<Rightarrow> \<not> saga_word cs
    | Inr g \<Rightarrow> saga_word cs \<and> length (filter (\<lambda>c. c = PaidCmd) cs) \<le> 1 \<and>
        saga_abs g = saga_after refund_names cs \<and> saga_inv refund_names (saga_abs g) \<and>
        announced (sg_events g) = List.map_filter failed_with cs"
    using refund_saga.run_exact [OF saga_create_start(1,2), of cs i d b] refund_saga.run_paid_once [of cs]
      refund_saga.run_inv [OF _ saga_create_inv(1), of cs]
    by (auto split: sum.splits)
  show "case saga_run payout_do cs' (PayoutSaga_create i d b w rate) of
      Inl e \<Rightarrow> \<not> saga_word cs'
    | Inr g \<Rightarrow> saga_word cs' \<and> length (filter (\<lambda>c. c = PaidCmd) cs') \<le> 1 \<and>
        saga_abs g = saga_after payout_names cs' \<and> saga_inv payout_names (saga_abs g) \<and>
        announced (sg_events g) = List.map_filter failed_with cs'"
    using payout_saga.run_exact [OF saga_create_start(3,4), of cs' i d b w rate] payout_saga.run_paid_once [of cs']
      payout_saga.run_inv [OF _ saga_create_inv(2), of cs']
    by (auto split: sum.splits)
qed

theorem saga_runs_witness:
  "\<exists>g p. saga_run refund_do [PaidCmd, ActFailedCmd ''down'', ActFailedCmd ''slow''] (RefundSaga_create ''g'' ''d'' ''b'') = Inr g \<and>
    saga_abs g = (''HIDING_REVIEW'', 2, Some ''slow'') \<and> announced (sg_events g) = [''down'', ''slow''] \<and>
    saga_run payout_do [PaidCmd, ActFailedCmd ''down'', ActedCmd] (PayoutSaga_create ''g'' ''d'' ''b'' ''w'' rate_015) = Inr p \<and>
    saga_abs p = (''DISPUTE_RESOLVED_PAID_OUT'', 1, None) \<and> announced (sg_events p) = [''down'']"
  using saga_runs [of "[PaidCmd, ActFailedCmd ''down'', ActFailedCmd ''slow'']" "''g''" "''d''" "''b''"
      "[PaidCmd, ActFailedCmd ''down'', ActedCmd]" "''w''" rate_015]
  by (simp add: saga_after_def refund_names_def payout_names_def List.map_filter_def split: sum.splits)

section \<open>Reports\<close>

text \<open>
  C33: a report with a valid reason for a booking without a dispute is accepted when the database is up: the
  committed database gains one open dispute with exactly the data and the evidences of the report, and one
  event that announces it.
\<close>

theorem report_created:
  assumes "dis_session_live S view com" "\<And>x. x \<in> ran (disputes (com s)) \<Longrightarrow> dm_booking_id x \<noteq> b"
    "\<And>t i t'. dis_uuid4 S t = (Inr i, t') \<Longrightarrow> i \<notin> dom (disputes (com s))"
    "reason \<in> set VALID_REASONS" "length b \<le> 36" "length r \<le> 36" "r \<noteq> []" "length a \<le> 36"
    "\<And>ev. ev \<in> set evs \<Longrightarrow> length (fst ev) \<le> 30"
  shows "\<exists>i row ob s'. CreateReport S md r b a reason evs s = (Inr (Reply \<lparr>dr_dispute_id = i, dr_status = ''SUCCESS'',
      dr_message = ''Dispute report created successfully''\<rparr>), s') \<and>
    com s' = (com s)\<lparr>disputes := (disputes (com s))(i \<mapsto> row), d_outbox := d_outbox (com s) @ [ob]\<rparr> \<and>
    reported i b r a reason evs row \<and> ob_event_type ob = dispute_created \<and> \<not> ob_processed ob"
  using assms by (rule dis_session_live.CreateReport_returns)

theorem report_created_witness:
  "\<exists>i row ob s'. CreateReport mem_dis [] ''carol'' ''b7'' ''dave'' ''NO_SHOW'' [(''TEXT'', ''waited an hour'')] exd_state =
      (Inr (Reply \<lparr>dr_dispute_id = i, dr_status = ''SUCCESS'', dr_message = ''Dispute report created successfully''\<rparr>), s') \<and>
    dis_com s' = (dis_com exd_state)\<lparr>disputes := (disputes (dis_com exd_state))(i \<mapsto> row),
      d_outbox := d_outbox (dis_com exd_state) @ [ob]\<rparr> \<and>
    reported i ''b7'' ''carol'' ''dave'' ''NO_SHOW'' [(''TEXT'', ''waited an hour'')] row \<and>
    ob_event_type ob = dispute_created \<and> \<not> ob_processed ob"
  by (rule report_created [OF mem_dis_live]) (use exd_fresh in \<open>auto simp: exd_com exd_rows VALID_REASONS_def\<close>)

text \<open>
  C34: a booking that has a dispute, in whatever status, gets no second one: the report fails and commits
  nothing, with the duplicate error while the first dispute is active.
\<close>

theorem second_report_refused:
  assumes "dis_session_live S view com" "x \<in> ran (disputes (com s))" "dm_booking_id x = b" "dis_ok (com s)"
    "\<And>t i t'. dis_uuid4 S t = (Inr i, t') \<Longrightarrow> i \<notin> dom (disputes (com s))"
  shows "\<exists>code msg s'. CreateReport S md r b a reason evs s = (Inr (Failure code msg), s') \<and> com s' = com s \<and>
    (r \<noteq> [] \<and> dm_status x \<in> {''OPEN'', ''RESOLVING''} \<longrightarrow>
       code = INVALID_ARGUMENT \<and> msg = dexn_str (set_repr S) (DuplicateOpenDisputeError b))"
  using assms by (rule dis_session_live.CreateReport_refused)

theorem second_report_refused_witness:
  "\<exists>s'. CreateReport mem_dis [] ''carol'' ''b2'' ''dave'' ''NO_SHOW'' [] exd_state =
      (Inr (Failure INVALID_ARGUMENT (dexn_str (set_repr mem_dis) (DuplicateOpenDisputeError ''b2''))), s') \<and>
    dis_com s' = dis_com exd_state"
proof -
  have "\<exists>code msg s'. CreateReport mem_dis [] ''carol'' ''b2'' ''dave'' ''NO_SHOW'' [] exd_state = (Inr (Failure code msg), s') \<and>
    dis_com s' = dis_com exd_state \<and> (''carol'' \<noteq> [] \<and> dm_status exd_open \<in> {''OPEN'', ''RESOLVING''} \<longrightarrow>
       code = INVALID_ARGUMENT \<and> msg = dexn_str (set_repr mem_dis) (DuplicateOpenDisputeError ''b2''))"
    by (rule second_report_refused [OF mem_dis_live _ _ exd_ok]) (use exd_fresh in \<open>auto simp: exd_com exd_rows\<close>)
  then show ?thesis by (auto simp: exd_open_def)
qed

text \<open>
  C35: no dispute is ever resolved: from a database whose disputes are all open and that has no saga, whatever
  sequence of RPCs, REST calls and worker turns is served, the committed disputes stay open and no saga is
  committed.  The RPC that resolves never assigns an administrator first, and the REST routes never commit.
\<close>

theorem no_dispute_resolved:
  assumes "dis_session S view com" "dis_reachable S P s0 s" "ports_frame P view com" "all_open (com s0)"
  shows "all_open (com s)"
  using assms by (rule dis_session.dis_reachable_all_open)

theorem no_dispute_resolved_witness:
  "all_open (dis_com (dis_serve mem_dis (mock_ports mem_dis)
     (ReqResolveDispute [(''user-role'', ''ADMIN'')] ''root'' (pad36 0) ''REFUND_CLIENT'' ''ok'')
     (dis_serve mem_dis (mock_ports mem_dis) (ReqCreateReport [] ''carol'' ''b7'' ''dave'' ''NO_SHOW'' []) exd_empty)))"
  by (rule no_dispute_resolved [OF mem_dis_session _ mock.ports_frame_axioms, of exd_empty])
    (auto simp: exd_empty_com all_open_def simp del: dis_serve.simps intro: dis_reachable.intros)

section \<open>Persistence\<close>

text \<open>
  C40: reading back what was written: a saga of either kind is mapped to its row and back without loss, and a
  dispute with a valid reason likewise; only the pending events are dropped.
\<close>

theorem mapper_roundtrip:
  "SagaStateMapper_to_domain (SagaStateMapper_to_model k) = Inr (kind_cleared k) \<and>
   (DisputeReason (d_reason d) = Inr (d_reason d) \<longrightarrow>
      DisputeMapper_to_domain (DisputeMapper_to_model d) = Inr (d\<lparr>d_events := []\<rparr>))"
  by (cases k) (simp_all add: SagaStateMapper_to_domain_def saga_core_model_def DisputeMapper_to_domain_def DisputeMapper_to_model_def)

theorem mapper_roundtrip_witness:
  "SagaStateMapper_to_domain (SagaStateMapper_to_model (PayoutSaga exd_payout)) = Inr (kind_cleared (PayoutSaga exd_payout)) \<and>
   DisputeMapper_to_domain (DisputeMapper_to_model exd_decided) = Inr (exd_decided\<lparr>d_events := []\<rparr>)"
  using mapper_roundtrip [of "PayoutSaga exd_payout" exd_decided] by (simp add: exd_decided_def DisputeReason_def VALID_REASONS_def)

text \<open>
  Optimistic locking: a dispute that was read before another session changed its row cannot be saved, and
  nothing is committed.
\<close>

theorem stale_dispute_refused:
  assumes "dis_session S view com" "disputes (view s) (d_dispute_id d) = Some r" "dm_version r \<noteq> d_version d"
  shows "\<exists>e s'. DisputeRepository_save S d s = (Inl e, s') \<and> com s' = com s"
  using assms by (rule dis_session.stale_save)

theorem stale_dispute_refused_witness:
  "\<exists>e s'. DisputeRepository_save mem_dis ((dispute_of exd_open)\<lparr>d_version := 0\<rparr>) exd_state = (Inl e, s') \<and>
    dis_com s' = dis_com exd_state"
  by (rule stale_dispute_refused [OF mem_dis_session, of _ _ exd_open]) (simp_all add: exd_view exd_com exd_rows dispute_of_def)

section \<open>Authorisation\<close>

text \<open>
  Only administrators resolve: without the role \<open>ADMIN\<close> the RPC answers \<open>PERMISSION_DENIED\<close> and the REST
  route 401 or 403, before anything is read or called.
\<close>

theorem resolve_admin_only:
  assumes "metadata_get md ''user-role'' \<noteq> ''ADMIN''" "role \<noteq> Some ''ADMIN''"
  shows "ResolveDispute S P md a i res notes s = (Inr (Failure PERMISSION_DENIED ''Admin only operation''), s) \<and>
    (\<exists>code detail. resolve_dispute_route S P u role i res notes s = (Inl (HTTPException code detail), s) \<and> code \<in> {401, 403})"
  using assms
  by (auto simp: ResolveDispute_def resolve_dispute_route_def get_admin_auth_info_def get_auth_info_def ret_run bindE_def liftE_def
      raise_def split: option.splits)

theorem resolve_admin_only_witness:
  "ResolveDispute mem_dis (mock_ports mem_dis) [(''user-role'', ''CLIENT'')] ''eve'' ''d2'' ''REFUND_CLIENT'' ''x'' exd_state =
      (Inr (Failure PERMISSION_DENIED ''Admin only operation''), exd_state) \<and>
    (\<exists>code detail. resolve_dispute_route mem_dis (mock_ports mem_dis) (Some ''eve'') (Some ''CLIENT'') ''d2'' ''REFUND_CLIENT'' ''x''
       exd_state = (Inl (HTTPException code detail), exd_state) \<and> code \<in> {401, 403})"
  by (rule resolve_admin_only) (simp_all add: metadata_get_def)

end
