(* ===== verification/Dispute_Finance.thy ===== *)
theory Dispute_Finance
  imports Dispute_Examples Finance_Failures Finance_Examples
begin

text \<open>
  The dispute service and the finance service side by side: two processes with a state each, joined by the
  gRPC adapter of the dispute service and the \<open>RefundEscrow\<close> servicer of the finance service.  The wire is
  the only thing between them: \<open>rpc_str\<close> is the text of the exception that the stub raises for a status
  code and its details.
\<close>

section \<open>A session beside another process\<close>

definition beside :: "'s dis_session \<Rightarrow> ('s \<times> 't) dis_session" where
  "beside S = \<lparr>dis_open = on_fst (dis_open S), dis_uuid4 = on_fst (dis_uuid4 S), dis_utcnow = on_fst (dis_utcnow S),
     dis_pb_json = dis_pb_json S, set_repr = set_repr S,
     dispute_merge = (\<lambda>m. on_fst (dispute_merge S m)), dispute_select = (\<lambda>l Q. on_fst (dispute_select S l Q)),
     dispute_count = (\<lambda>Q. on_fst (dispute_count S Q)), dispute_page = (\<lambda>Q off lim. on_fst (dispute_page S Q off lim)),
     saga_merge = (\<lambda>m. on_fst (saga_merge S m)), saga_select = (\<lambda>l Q. on_fst (saga_select S l Q)),
     saga_limit = (\<lambda>Q lim. on_fst (saga_limit S Q lim)), dis_outbox_add = (\<lambda>r. on_fst (dis_outbox_add S r)),
     dis_commit = on_fst (dis_commit S), dis_rollback = on_fst (dis_rollback S)\<rparr>"

lemma beside_sel [simp]:
  "dis_open (beside S) = on_fst (dis_open S)" "dis_uuid4 (beside S) = on_fst (dis_uuid4 S)"
  "dis_utcnow (beside S) = on_fst (dis_utcnow S)" "dis_pb_json (beside S) = dis_pb_json S" "set_repr (beside S) = set_repr S"
  "dispute_merge (beside S) = (\<lambda>m. on_fst (dispute_merge S m))" "dispute_select (beside S) = (\<lambda>l Q. on_fst (dispute_select S l Q))"
  "dispute_count (beside S) = (\<lambda>Q. on_fst (dispute_count S Q))"
  "dispute_page (beside S) = (\<lambda>Q off lim. on_fst (dispute_page S Q off lim))"
  "saga_merge (beside S) = (\<lambda>m. on_fst (saga_merge S m))" "saga_select (beside S) = (\<lambda>l Q. on_fst (saga_select S l Q))"
  "saga_limit (beside S) = (\<lambda>Q lim. on_fst (saga_limit S Q lim))" "dis_outbox_add (beside S) = (\<lambda>r. on_fst (dis_outbox_add S r))"
  "dis_commit (beside S) = on_fst (dis_commit S)" "dis_rollback (beside S) = on_fst (dis_rollback S)"
  by (simp_all add: beside_def)

text \<open>The laws of a session hold beside another process.\<close>

context sql_versioned_live
begin

lemma versioned_beside:
  "sql_versioned_live (\<lambda>m. on_fst (merge m)) (\<lambda>l Q. on_fst (select l Q)) (\<lambda>p. view (fst p)) (\<lambda>p. com (fst p))
    tab put pkey uniq fits agree ver"
proof unfold_locales
  fix r p u p' assume "bindE (on_fst (merge r)) (\<lambda>_. ret ()) p = (Inr u, p')"
  then show "row_accepted pkey uniq fits (tab (view (fst p))) r \<and>
      (\<exists>r'. agree r r' \<and> view (fst p') = put ((tab (view (fst p)))(pkey r \<mapsto> r')) (view (fst p)))"
    by (intro merge_ok) (simp add: on_fst_bind on_fst_run)
next
  fix r p v p' assume "on_fst (merge r) p = (Inr v, p')"
  then show "(\<forall>r0. tab (view (fst p)) (pkey r) = Some r0 \<longrightarrow> ver r0 = ver r) \<and>
      (\<exists>r'. tab (view (fst p')) (pkey r) = Some r' \<and> ver r' = v)"
    by (intro merge_version) (simp add: on_fst_run)
next
  fix r p assume "row_accepted pkey uniq fits (tab (view (fst p))) r"
    "\<And>r0. tab (view (fst p)) (pkey r) = Some r0 \<Longrightarrow> ver r0 = ver r"
  then show "\<exists>v p'. on_fst (merge r) p = (Inr v, p')" by (intro on_fst_exists vmerge_live)
qed (auto simp: on_fst_run on_fst_bind merge_com select_com tab_put dest: select_ok select_err intro!: on_fst_exists vselect_live)

end

context sql_txn_live
begin

lemma txn_beside: "sql_txn_live (on_fst commit) (on_fst rollback) (\<lambda>p. view (fst p)) (\<lambda>p. com (fst p))"
  by unfold_locales
    (auto simp: on_fst_run rollback_com dest: commit_ok commit_err rollback_ok intro!: exI [of _ "(snd (commit (fst _)), snd _)"]
      commit_live rollback_live)

end

context sql_frame_live
begin

lemma frame_beside: "sql_frame_live (on_fst op) (\<lambda>p. view (fst p)) (\<lambda>p. com (fst p))"
  by unfold_locales (auto simp: on_fst_run frame_com dest: frame_ok intro!: on_fst_exists frame_live)

end

context dis_session_live
begin

lemma session_beside: "dis_session_live (beside S) (\<lambda>p. view (fst p)) (\<lambda>p. com (fst p))"
proof (intro dis_session_live.intro dis_session.intro dis_session_axioms.intro dis_session_live_axioms.intro, unfold beside_sel)
  note live = dtl.versioned_beside stl.versioned_beside txl.txn_beside uul.frame_beside nwl.frame_beside
  note base = live(1,2) [THEN sql_versioned_live.axioms(1)] live(3) [THEN sql_txn_live.axioms(1)] live(4,5) [THEN sql_frame_live.axioms(1)]
  show "sql_versioned_live (\<lambda>m. on_fst (dispute_merge S m)) (\<lambda>l Q. on_fst (dispute_select S l Q)) (\<lambda>p. view (fst p))
      (\<lambda>p. com (fst p)) disputes (\<lambda>m. disputes_update (\<lambda>_. m)) dm_dispute_id dm_booking_id dispute_fits dispute_agree dm_version"
    "sql_versioned_live (\<lambda>m. on_fst (saga_merge S m)) (\<lambda>l Q. on_fst (saga_select S l Q)) (\<lambda>p. view (fst p)) (\<lambda>p. com (fst p))
      sagas (\<lambda>m. sagas_update (\<lambda>_. m)) sm_saga_id sm_saga_id saga_fits saga_agree sm_version"
    "sql_txn_live (on_fst (dis_commit S)) (on_fst (dis_rollback S)) (\<lambda>p. view (fst p)) (\<lambda>p. com (fst p))"
    "sql_frame_live (on_fst (dis_uuid4 S)) (\<lambda>p. view (fst p)) (\<lambda>p. com (fst p))"
    "sql_frame_live (on_fst (dis_utcnow S)) (\<lambda>p. view (fst p)) (\<lambda>p. com (fst p))"
    by (rule live)+
  show "sql_versioned (\<lambda>m. on_fst (dispute_merge S m)) (\<lambda>l Q. on_fst (dispute_select S l Q)) (\<lambda>p. view (fst p))
      (\<lambda>p. com (fst p)) disputes (\<lambda>m. disputes_update (\<lambda>_. m)) dm_dispute_id dm_booking_id dispute_fits dispute_agree dm_version"
    "sql_versioned (\<lambda>m. on_fst (saga_merge S m)) (\<lambda>l Q. on_fst (saga_select S l Q)) (\<lambda>p. view (fst p)) (\<lambda>p. com (fst p))
      sagas (\<lambda>m. sagas_update (\<lambda>_. m)) sm_saga_id sm_saga_id saga_fits saga_agree sm_version"
    "sql_txn (on_fst (dis_commit S)) (on_fst (dis_rollback S)) (\<lambda>p. view (fst p)) (\<lambda>p. com (fst p))"
    "sql_frame (on_fst (dis_uuid4 S)) (\<lambda>p. view (fst p)) (\<lambda>p. com (fst p))"
    "sql_frame (on_fst (dis_utcnow S)) (\<lambda>p. view (fst p)) (\<lambda>p. com (fst p))"
    by (rule base)+
qed (auto simp: on_fst_run dis_open_com dis_outbox_com dis_count_com dis_page_com saga_limit_com
    dest: dis_open_ok dis_uuid_length dis_outbox_ok dis_count_frame dis_page_frame saga_limit_ok
    intro!: on_fst_exists on_fst_exists1 dis_open_live dis_pb_live dis_outbox_live saga_limit_live)

end

section \<open>The wire\<close>

text \<open>
  A failed call raises in the client; so does an exception of the handler, with the code \<open>UNKNOWN\<close>
  (\<open>None\<close>).
\<close>

definition rpc_result ::
  "(grpc_code option \<Rightarrow> string \<Rightarrow> string) \<Rightarrow> exn + command_response grpc_reply \<Rightarrow> dexn + rpc_response" where
  "rpc_result rpc_str r = (case r of
       Inl e \<Rightarrow> Inl (RpcErrorD (rpc_str None (exn_str e)))
     | Inr (Failure code details) \<Rightarrow> Inl (RpcErrorD (rpc_str (Some code) details))
     | Inr (Reply m) \<Rightarrow> Inr \<lparr>rp_status = cr_status m, rp_message = cr_message m, rp_transaction_id = transaction_id m\<rparr>)"

definition remote ::
  "(grpc_code option \<Rightarrow> string \<Rightarrow> string) \<Rightarrow> ('t, exn, command_response grpc_reply) eff \<Rightarrow> ('s \<times> 't, dexn, rpc_response) eff" where
  "remote rpc_str m p = (case m (snd p) of (r, t') \<Rightarrow> (rpc_result rpc_str r, (fst p, t')))"

definition finance_server :: "(grpc_code option \<Rightarrow> string \<Rightarrow> string) \<Rightarrow> 't fin_session \<Rightarrow> ('s \<times> 't) finance_stub" where
  "finance_server rpc_str F = \<lparr>RefundEscrow_rpc = (\<lambda>b c n. remote rpc_str (RefundEscrow F b c n)),
     ProcessPayout_rpc = (\<lambda>b w rate. remote rpc_str (ProcessPayout F b w rate))\<rparr>"

lemma remote_fst: "keeps (\<lambda>p. f (fst p)) (remote rpc_str m)"
  by (simp add: keeps_def remote_def split: prod.splits)

text \<open>The interaction service answers and touches neither process.\<close>

definition told_interaction :: "dexn + rpc_response \<Rightarrow> dexn + rpc_response \<Rightarrow> 's interaction_stub" where
  "told_interaction hide lock = \<lparr>HideReview_rpc = (\<lambda>b reason s. (hide, s)), LockChatRoom_rpc = (\<lambda>b s. (lock, s))\<rparr>"

interpretation wired: stub_frame "finance_server rpc_str F" "told_interaction hide lock" "\<lambda>p. f (fst p)"
  for rpc_str F hide lock f
  by unfold_locales (simp_all add: finance_server_def told_interaction_def remote_fst, simp_all add: keeps_def)

section \<open>The refund of a disputed booking in the finance service\<close>

context fin_session_live
begin

text \<open>
  The request of the dispute service names neither the client nor the amount: both come from the
  reservation of the booking.
\<close>

lemma reserved_refund_resolved:
  assumes ok: "db_ok (view t)" and k: "escrows (view t) k = Some er" "em_booking_id er = b"
    and res: "transactions (view t) j = Some tr" "tm_reference_id tr = b" "tm_type tr = BOOKING_RESERVATION"
    and only: "\<And>x. x \<in> ran (transactions (view t)) \<Longrightarrow> tm_reference_id x = b \<Longrightarrow> tm_type x = BOOKING_RESERVATION \<Longrightarrow>
      tm_user_id x = c \<and> tm_amount x = n"
  obtains t' where "refund_resolve S b [] 0 t = (Inr (escrow_of er, c, n), t')" "view t' = view t"
proof -
  obtain t1 where 1: "EscrowRepository_find_by_booking_id S b True t = (Inr (Some (escrow_of er)), t1)" "view t1 = view t"
    using find_escrow_found [OF ok k] by metis
  from ok res obtain k' r' t2 where 2:
      "TransactionRepository_find_by_reference_id S b BOOKING_RESERVATION False t1 = (Inr (Some (txn_of r')), t2)"
      "transactions (view t) k' = Some r'" "tm_reference_id r' = b" "tm_type r' = BOOKING_RESERVATION" "view t2 = view t"
    using find_ref_found [of t1 j tr b BOOKING_RESERVATION False] unfolding 1(2) by metis
  have "tm_user_id r' = c \<and> tm_amount r' = n" using 2(2) by (intro only 2(3,4)) (rule ranI)
  then have "refund_resolve S b [] 0 t = (Inr (escrow_of er, c, n), t2)"
    using 1(1) 2(1) by (simp add: refund_resolve_def eff_simps txn_of_def)
  then show thesis using 2(5) by (rule that)
qed

lemma RefundEscrow_reserved:
  assumes ok: "db_ok (com t)" "fresh_ids S view (com t)"
    and k: "escrows (com t) k = Some er" "em_booking_id er = b" "em_status er = ''HELD''"
    and res: "transactions (com t) j = Some tr" "tm_reference_id tr = b" "tm_type tr = BOOKING_RESERVATION"
    and only: "\<And>x. x \<in> ran (transactions (com t)) \<Longrightarrow> tm_reference_id x = b \<Longrightarrow> tm_type x = BOOKING_RESERVATION \<Longrightarrow>
      tm_user_id x = c \<and> tm_amount x = n"
    and n: "int32 (lg_avail (ledger_of (com t)) c + n)"
  shows "\<exists>x t'. RefundEscrow S b [] 0 t = (Inr (Reply \<lparr>transaction_id = x, cr_status = ''SUCCESS'',
      cr_message = ''Escrow successfully refunded to client wallet.''\<rparr>), t') \<and>
    db_ok (com t') \<and> ledger_of (com t') = lg_release b c n (ledger_of (com t))"
proof -
  obtain t1 where 1: "open_session S t = (Inr (), t1)" "view t1 = com t" by (rule open_runs)
  note at1 = ok [folded 1(2)] k [folded 1(2)] res [folded 1(2)]
  obtain t2 where 2: "refund_resolve S b [] 0 t1 = (Inr (escrow_of er, c, n), t2)" "view t2 = view t1"
    using reserved_refund_resolved [OF at1(1,3,4) at1(6-8) only [folded 1(2)]] by metis
  have tr: "transaction_fits tr" "0 \<le> tm_amount tr" using ok(1) res(1) by (auto simp: db_ok_def intro: ranI)
  have "tm_user_id tr = c \<and> tm_amount tr = n" using res(1) by (intro only res(2,3)) (rule ranI)
  with tr have "length c \<le> 36" "0 \<le> n" "int32 n" by (auto simp: transaction_fits_def)
  with resolved_refund_returns [OF at1(1-5) 2] n 1(2) obtain x t3 where 3: "refund_escrow S b [] 0 t1 = (Inr x, t3)" by auto
  obtain t4 where 4: "commit S t3 = (Inr (), t4)" "com t4 = view t3" by (rule tx.commit_publishes)
  from 3 at1(1,2) have "ledger_of (view t3) = lg_release b c n (ledger_of (view t1))"
    by (rule refund_escrow_refines) (use 2(1) in auto)
  moreover have "db_ok (view t3)" by (rule refund_escrow_db_ok [OF 3 at1(1)])
  moreover have "RefundEscrow S b [] 0 t = (Inr (Reply \<lparr>transaction_id = x, cr_status = ''SUCCESS'',
      cr_message = ''Escrow successfully refunded to client wallet.''\<rparr>), t4)"
    using 1(1) 3 4(1) by (simp add: RefundEscrow_def eff_simps)
  ultimately show ?thesis using 1(2) 4(2) by auto
qed

text \<open>An escrow that is closed: the call fails and no coin moves.\<close>

lemma RefundEscrow_closed:
  assumes "db_ok (com t)" "escrow_closed (com t) b"
  shows "\<exists>code details t'. RefundEscrow S b c n t = (Inr (Failure code details), t') \<and>
    ledger_of (com t') = ledger_of (com t)"
proof -
  obtain t1 where 1: "open_session S t = (Inr (), t1)" "view t1 = com t" "com t1 = com t" by (rule open_runs)
  obtain r t2 where 2: "refund_escrow S b c n t1 = (r, t2)" by fastforce
  obtain e where e: "r = Inl e" using closed_no_refund [of b c n t1 _ t2] 2 assms 1(2) by (cases r) auto
  have "ledger_of (com t2) = ledger_of (com t1)"
    using refund_escrow_atomic [OF 2] e by (auto simp: committed_failure_def)
  moreover have "\<exists>code details. refund_error e = (Failure code details :: command_response grpc_reply)" by (cases e) auto
  ultimately show ?thesis using 1 2 e by (auto simp: RefundEscrow_def eff_simps)
qed

end

section \<open>Both services\<close>

definition wired_ports ::
  "(grpc_code option \<Rightarrow> string \<Rightarrow> string) \<Rightarrow> 's dis_session \<Rightarrow> 't fin_session \<Rightarrow> dexn + rpc_response \<Rightarrow> dexn + rpc_response \<Rightarrow>
   ('s \<times> 't) ports" where
  "wired_ports rpc_str S F hide lock =
     grpc_ports (set_repr S) (Some (finance_server rpc_str F)) (Some (told_interaction hide lock))"

text \<open>What the adapters make of the answers.\<close>

definition finance_answer ::
  "(string list \<Rightarrow> string) \<Rightarrow> (grpc_code option \<Rightarrow> string \<Rightarrow> string) \<Rightarrow> exn + command_response grpc_reply \<Rightarrow> port_result" where
  "finance_answer repr rpc_str r =
     (case rpc_result rpc_str r of Inl e \<Rightarrow> refused (dexn_str repr e) | Inr m \<Rightarrow> result_of m)"

definition not_failed :: "dexn + rpc_response \<Rightarrow> bool" where
  "not_failed r = (case r of Inl e \<Rightarrow> False | Inr m \<Rightarrow> rp_status m \<noteq> ''FAILED'')"

lemma wired_refund:
  "RefundEscrow F b [] 0 f = (r, f') \<Longrightarrow>
   refund_escrow_to_wallet (wired_ports rpc_str S F hide lock) b (d, f) = (Inr (finance_answer (set_repr S) rpc_str r), (d, f'))"
  by (cases "rpc_result rpc_str r")
    (simp_all add: wired_ports_def grpc_ports_def grpc_refund_escrow_to_wallet_def finance_server_def remote_def
      finance_answer_def eff_simps)

lemma wired_hide:
  "hide_review_and_lock_chat (wired_ports rpc_str S F hide lock) b p = (Inr (not_failed hide \<and> not_failed lock), p)"
  by (cases hide; cases lock)
    (simp_all add: wired_ports_def grpc_ports_def grpc_hide_review_and_lock_chat_def told_interaction_def not_failed_def eff_simps)

context dis_session_live
begin

lemma beside_wired: "dis_beside (beside S) (wired_ports rpc_str S F hide lock) (\<lambda>p. view (fst p)) (\<lambda>p. com (fst p)) snd"
  unfolding dis_beside_def dis_beside_axioms_def dis_ports_def beside_sel
  by (intro conjI allI session_beside on_fst_keeps)
    (simp_all add: wired_ports_def grpc_ports_frame wired.stub_frame_axioms, simp add: keeps_def wired_hide [unfolded wired_ports_def])

lemma resolve_refund_wired:
  assumes "dis_ok (view d)" "disputes (view d) i = Some r" "dm_status r = ''RESOLVING''" "length admin \<le> 36"
    "\<And>t j t'. dis_uuid4 S t = (Inr j, t') \<Longrightarrow> j \<notin> dom (sagas (view d))"
    and fin: "RefundEscrow F (dm_booking_id r) [] 0 f = (res, f')"
  shows "\<exists>r' g ob d'. resolve_dispute (beside S) (wired_ports rpc_str S F hide lock) i admin ''REFUND_CLIENT'' notes (d, f) =
      (Inr (), (d', f')) \<and> com d' = com d \<and>
    view d' = (view d)\<lparr>disputes := (disputes (view d))(i \<mapsto> r'),
      sagas := (sagas (view d))(sg_saga_id g \<mapsto> SagaStateMapper_to_model (RefundSaga g)), d_outbox := d_outbox (view d) @ [ob]\<rparr> \<and>
    refunded admin notes r r' \<and> sg_dispute_id g = i \<and> sg_booking_id g = dm_booking_id r \<and> ob_event_type ob = dispute_resolved \<and>
    saga_abs g = outcome (set_repr S) refund_names ''Refund failed'' ''Interaction service failed to lock/hide''
      (Inr (finance_answer (set_repr S) rpc_str res)) (Inr (not_failed hide \<and> not_failed lock)) 0"
proof -
  let ?P = "wired_ports rpc_str S F hide lock"
  have paid: "refund_escrow_to_wallet ?P (dm_booking_id r) p = (Inr (finance_answer (set_repr S) rpc_str res), (fst p, f'))"
    if "snd p = f" for p
    using wired_refund [OF fin, of rpc_str S hide lock "fst p"] that by (cases p) simp
  have "\<exists>r' g ob t s'. resolve_dispute (beside S) ?P i admin ''REFUND_CLIENT'' notes (d, f) = (Inr (), s') \<and> com (fst s') = com (fst (d, f)) \<and>
    snd t = snd (d, f) \<and> snd s' = snd (snd (refund_escrow_to_wallet ?P (dm_booking_id r) t)) \<and>
    view (fst s') = (view (fst (d, f)))\<lparr>disputes := (disputes (view (fst (d, f))))(i \<mapsto> r'),
      sagas := (sagas (view (fst (d, f))))(sg_saga_id g \<mapsto> SagaStateMapper_to_model (RefundSaga g)),
      d_outbox := d_outbox (view (fst (d, f))) @ [ob]\<rparr> \<and>
    refunded admin notes r r' \<and> sg_dispute_id g = i \<and> sg_booking_id g = dm_booking_id r \<and> ob_event_type ob = dispute_resolved \<and>
    saga_abs g = outcome (set_repr S) refund_names ''Refund failed'' ''Interaction service failed to lock/hide''
      (Inr (finance_answer (set_repr S) rpc_str res)) (Inr (not_failed hide \<and> not_failed lock)) 0"
    by (rule dis_beside.resolve_refund_observed [OF beside_wired, unfolded beside_sel, where s = "(d, f)" and i = i and r = r and admin = admin and
        paid = "Inr (finance_answer (set_repr S) rpc_str res)" and act = "Inr (not_failed hide \<and> not_failed lock)"])
      (use assms in \<open>auto simp: on_fst_run paid wired_hide\<close>)
  then obtain r' g ob t s' where run: "resolve_dispute (beside S) ?P i admin ''REFUND_CLIENT'' notes (d, f) = (Inr (), s')"
    "com (fst s') = com d" "snd t = f" "snd s' = snd (snd (refund_escrow_to_wallet ?P (dm_booking_id r) t))"
    "view (fst s') = (view d)\<lparr>disputes := (disputes (view d))(i \<mapsto> r'),
      sagas := (sagas (view d))(sg_saga_id g \<mapsto> SagaStateMapper_to_model (RefundSaga g)), d_outbox := d_outbox (view d) @ [ob]\<rparr>"
    "refunded admin notes r r' \<and> sg_dispute_id g = i \<and> sg_booking_id g = dm_booking_id r \<and> ob_event_type ob = dispute_resolved"
    "saga_abs g = outcome (set_repr S) refund_names ''Refund failed'' ''Interaction service failed to lock/hide''
      (Inr (finance_answer (set_repr S) rpc_str res)) (Inr (not_failed hide \<and> not_failed lock)) 0"
    unfolding fst_conv snd_conv by blast
  have "s' = (fst s', f')" using run(4) paid [OF run(3)] by (cases s') simp
  with run show ?thesis by (intro exI [of _ r'] exI [of _ g] exI [of _ ob] exI [of _ "fst s'"]) simp
qed

end

section \<open>Properties\<close>

text \<open>
  C3: deciding a dispute for the client refunds the booking.  With the finance service behind the gRPC
  adapter, a held escrow and its reservation, the decision returns; the finance ledger releases the escrow to
  the client of the reservation with the amount reserved, the dispute is \<open>REFUNDED\<close>, and the saga has
  finished, or waits for the interaction service when that has failed.
\<close>

theorem dispute_refunds_client:
  assumes "dis_session_live S dview dcom" "dis_ok (dview d)" "disputes (dview d) i = Some r" "dm_status r = ''RESOLVING''"
    "length admin \<le> 36" "\<And>t j t'. dis_uuid4 S t = (Inr j, t') \<Longrightarrow> j \<notin> dom (sagas (dview d))"
    and "fin_session_live F fview fcom" "db_ok (fcom f)" "fresh_ids F fview (fcom f)"
    "escrows (fcom f) k = Some er" "em_booking_id er = dm_booking_id r" "em_status er = ''HELD''"
    "transactions (fcom f) j = Some tr" "tm_reference_id tr = dm_booking_id r" "tm_type tr = BOOKING_RESERVATION"
    "\<And>x. x \<in> ran (transactions (fcom f)) \<Longrightarrow> tm_reference_id x = dm_booking_id r \<Longrightarrow> tm_type x = BOOKING_RESERVATION \<Longrightarrow>
      tm_user_id x = c \<and> tm_amount x = n"
    "int32 (lg_avail (ledger_of (fcom f)) c + n)"
  shows "\<exists>r' g ob d' f'. resolve_dispute (beside S) (wired_ports rpc_str S F hide lock) i admin ''REFUND_CLIENT'' notes (d, f) =
      (Inr (), (d', f')) \<and> dcom d' = dcom d \<and>
    dview d' = (dview d)\<lparr>disputes := (disputes (dview d))(i \<mapsto> r'),
      sagas := (sagas (dview d))(sg_saga_id g \<mapsto> SagaStateMapper_to_model (RefundSaga g)), d_outbox := d_outbox (dview d) @ [ob]\<rparr> \<and>
    refunded admin notes r r' \<and> db_ok (fcom f') \<and>
    ledger_of (fcom f') = lg_release (dm_booking_id r) c n (ledger_of (fcom f)) \<and>
    saga_abs g = (if not_failed hide \<and> not_failed lock then (''DISPUTE_RESOLVED_REFUNDED'', 0, None)
      else (''HIDING_REVIEW'', 1, Some ''Interaction service failed to lock/hide''))"
proof -
  from fin_session_live.RefundEscrow_reserved [OF assms(7-17)] obtain x f' where fin:
      "RefundEscrow F (dm_booking_id r) [] 0 f = (Inr (Reply \<lparr>transaction_id = x, cr_status = ''SUCCESS'',
        cr_message = ''Escrow successfully refunded to client wallet.''\<rparr>), f')"
      "db_ok (fcom f')" "ledger_of (fcom f') = lg_release (dm_booking_id r) c n (ledger_of (fcom f))" by blast
  have out: "outcome (set_repr S) refund_names ''Refund failed'' ''Interaction service failed to lock/hide''
      (Inr (finance_answer (set_repr S) rpc_str (Inr (Reply \<lparr>transaction_id = x, cr_status = ''SUCCESS'',
        cr_message = ''Escrow successfully refunded to client wallet.''\<rparr>)))) (Inr (not_failed hide \<and> not_failed lock)) 0 =
      (if not_failed hide \<and> not_failed lock then (''DISPUTE_RESOLVED_REFUNDED'', 0, None)
       else (''HIDING_REVIEW'', 1, Some ''Interaction service failed to lock/hide''))"
    by (simp add: finance_answer_def rpc_result_def result_of_def granted_def outcome_def acted_def refund_names_def)
  note res = dis_session_live.resolve_refund_wired [OF assms(1-5) _ fin(1), where rpc_str = rpc_str and hide = hide and lock = lock, unfolded out]
  from res assms(6) fin(2,3) show ?thesis by blast
qed

theorem dispute_refunds_client_witness:
  "\<exists>r' g ob d' f'. resolve_dispute (beside mem_dis) (wired_ports (\<lambda>c m. m) mem_dis mem_fin
      (Inr \<lparr>rp_status = ''SUCCESS'', rp_message = [], rp_transaction_id = []\<rparr>) (Inl (RpcErrorD ''down''))) ''d2'' ''root''
      ''REFUND_CLIENT'' ''ok'' (exd_state, ex_state) = (Inr (), (d', f')) \<and> dis_com d' = dis_com exd_state \<and>
    dis_view d' = (dis_view exd_state)\<lparr>disputes := (disputes (dis_view exd_state))(''d2'' \<mapsto> r'),
      sagas := (sagas (dis_view exd_state))(sg_saga_id g \<mapsto> SagaStateMapper_to_model (RefundSaga g)),
      d_outbox := d_outbox (dis_view exd_state) @ [ob]\<rparr> \<and>
    refunded ''root'' ''ok'' exd_resolving r' \<and> db_ok (fin_com f') \<and>
    ledger_of (fin_com f') = lg_release (dm_booking_id exd_resolving) ''alice'' 50 (ledger_of (fin_com ex_state)) \<and>
    saga_abs g = (if not_failed (Inr \<lparr>rp_status = ''SUCCESS'', rp_message = [], rp_transaction_id = []\<rparr>) \<and>
      not_failed (Inl (RpcErrorD ''down'')) then (''DISPUTE_RESOLVED_REFUNDED'', 0, None)
      else (''HIDING_REVIEW'', 1, Some ''Interaction service failed to lock/hide''))"
  by (rule dispute_refunds_client [OF mem_dis_live _ _ _ _ _ mem_fin_live ex_ok(1,2) ex_rows(2) [unfolded ex_view], where j = "''t1''"])
    (use exd_ok exd_fresh ex_balances in \<open>auto simp: exd_view exd_com exd_rows ex_view ex_com ex_row_defs int32_def split: if_splits\<close>)

text \<open>
  C4: the dispute is marked \<open>REFUNDED\<close> even when no money moved: when the escrow of the booking was
  closed before, e.g. paid out to the companion, the decision returns all the same, the finance ledger is
  unchanged and the saga has failed for good.
\<close>

theorem refunded_without_money:
  assumes "dis_session_live S dview dcom" "dis_ok (dview d)" "disputes (dview d) i = Some r" "dm_status r = ''RESOLVING''"
    "length admin \<le> 36" "\<And>t j t'. dis_uuid4 S t = (Inr j, t') \<Longrightarrow> j \<notin> dom (sagas (dview d))"
    and "fin_session_live F fview fcom" "db_ok (fcom f)" "escrow_closed (fcom f) (dm_booking_id r)"
  shows "\<exists>r' g ob d' f' err. resolve_dispute (beside S) (wired_ports rpc_str S F hide lock) i admin ''REFUND_CLIENT'' notes (d, f) =
      (Inr (), (d', f')) \<and>
    dview d' = (dview d)\<lparr>disputes := (disputes (dview d))(i \<mapsto> r'),
      sagas := (sagas (dview d))(sg_saga_id g \<mapsto> SagaStateMapper_to_model (RefundSaga g)), d_outbox := d_outbox (dview d) @ [ob]\<rparr> \<and>
    refunded admin notes r r' \<and> saga_abs g = (''DISPUTE_FAILED'', 0, Some err) \<and> ledger_of (fcom f') = ledger_of (fcom f)"
proof -
  from fin_session_live.RefundEscrow_closed [OF assms(7-9)] obtain code details f' where fin:
      "RefundEscrow F (dm_booking_id r) [] 0 f = (Inr (Failure code details), f')" "ledger_of (fcom f') = ledger_of (fcom f)"
    by blast
  have out: "outcome (set_repr S) refund_names ''Refund failed'' ''Interaction service failed to lock/hide''
      (Inr (finance_answer (set_repr S) rpc_str (Inr (Failure code details)))) (Inr (not_failed hide \<and> not_failed lock)) 0 =
      (''DISPUTE_FAILED'', 0, Some (error_or (Some (rpc_str (Some code) details)) ''Refund failed''))"
    by (simp add: finance_answer_def rpc_result_def refused_def outcome_def refund_names_def)
  note res = dis_session_live.resolve_refund_wired [OF assms(1-5) _ fin(1), where rpc_str = rpc_str and hide = hide and lock = lock, unfolded out]
  from res assms(6) fin(2) show ?thesis by blast
qed

theorem refunded_without_money_witness:
  "\<exists>r' g ob d' f' err. resolve_dispute (beside mem_dis) (wired_ports (\<lambda>c m. m) mem_dis mem_fin (Inl (RpcErrorD ''down''))
      (Inl (RpcErrorD ''down''))) ''d2'' ''root'' ''REFUND_CLIENT'' ''ok''
      (exd_state, snd (ProcessPayout mem_fin ''b1'' ''bob'' (Fin 1 (-2)) ex_state)) = (Inr (), (d', f')) \<and>
    dis_view d' = (dis_view exd_state)\<lparr>disputes := (disputes (dis_view exd_state))(''d2'' \<mapsto> r'),
      sagas := (sagas (dis_view exd_state))(sg_saga_id g \<mapsto> SagaStateMapper_to_model (RefundSaga g)),
      d_outbox := d_outbox (dis_view exd_state) @ [ob]\<rparr> \<and>
    refunded ''root'' ''ok'' exd_resolving r' \<and> saga_abs g = (''DISPUTE_FAILED'', 0, Some err) \<and>
    ledger_of (fin_com f') = ledger_of (fin_com (snd (ProcessPayout mem_fin ''b1'' ''bob'' (Fin 1 (-2)) ex_state)))"
proof (rule refunded_without_money [OF mem_dis_live _ _ _ _ _ mem_fin_live])
  let ?f = "snd (ProcessPayout mem_fin ''b1'' ''bob'' (Fin 1 (-2)) ex_state)"
  have "reachable mem_fin fin_view fin_com ex_adapter ex_state (serve mem_fin ex_adapter (ReqProcessPayout ''b1'' ''bob'' (Fin 1 (-2))) ex_state)"
    by (intro reach_request reach_start ex_ok)
  from fin_session.reachable_db_ok [OF mem_fin_session this ex_db_ok] show "db_ok (fin_com ?f)" by simp
  have "DAList.lookup (ft_escrows (m_com ?f)) ''e1'' = Some (ex_held\<lparr>em_status := ''PAID_OUT''\<rparr>)" by code_simp
  then have "ex_held\<lparr>em_status := ''PAID_OUT''\<rparr> \<in> ran (escrows (fin_com ?f))"
    by (auto simp: fin_com_def fin_abs_def intro: ranI)
  then show "escrow_closed (fin_com ?f) (dm_booking_id exd_resolving)"
    unfolding escrow_closed_def by (rule bexI [rotated]) (simp add: ex_held_def exd_rows)
qed (use exd_ok exd_fresh in \<open>auto simp: exd_view exd_com exd_rows\<close>)

end
