(* ===== verification/Profile_Text.thy ===== *)
theory Profile_Text
  imports Prelude
begin

text \<open>
  The text formats the profile service works with: the JSON text of a list of strings
  (\<open>json.dumps\<close>/\<open>json.loads\<close> on the column of the cities), the patterns of SQL's \<open>LIKE\<close>, and the path of a
  URL (\<open>urllib.parse.urlparse\<close>).  Strings range over the characters 0 to 255.
\<close>

section \<open>JSON lists of strings\<close>

definition hex_lower :: "nat \<Rightarrow> char" where
  "hex_lower n = (if n < 10 then char_of (48 + n) else char_of (87 + n))"

definition hex_value :: "char \<Rightarrow> nat option" where
  "hex_value c = (let n = of_char c :: nat in
     if 48 \<le> n \<and> n \<le> 57 then Some (n - 48)
     else if 97 \<le> n \<and> n \<le> 102 then Some (n - 87)
     else if 65 \<le> n \<and> n \<le> 70 then Some (n - 55) else None)"

definition short_escapes :: "(char \<times> char) list" where
  "short_escapes = [(CHR 0x22, CHR 0x22), (CHR 0x5C, CHR 0x5C), (CHR 0x0A, CHR ''n''), (CHR 0x0D, CHR ''r''),
     (CHR 0x09, CHR ''t''), (CHR 0x08, CHR ''b''), (CHR 0x0C, CHR ''f'')]"

text \<open>\<open>ensure_ascii\<close>: everything outside the printable ASCII range is escaped.\<close>

definition json_escape :: "char \<Rightarrow> string" where
  "json_escape c =
     (case map_of short_escapes c of
        Some e \<Rightarrow> [CHR 0x5C, e]
      | None \<Rightarrow>
          let n = of_char c :: nat in
          if 32 \<le> n \<and> n \<le> 126 then [c]
          else [CHR 0x5C, CHR ''u'', CHR ''0'', CHR ''0'', hex_lower (n div 16), hex_lower (n mod 16)])"

definition json_quote :: "string \<Rightarrow> string" where
  "json_quote s = CHR 0x22 # concat (map json_escape s) @ [CHR 0x22]"

fun json_items :: "string list \<Rightarrow> string" where
  "json_items [] = []"
| "json_items [s] = json_quote s"
| "json_items (s # ss) = json_quote s @ CHR '','' # CHR '' '' # json_items ss"

definition json_dumps_strings :: "string list \<Rightarrow> string" where
  "json_dumps_strings ss = CHR 0x5B # json_items ss @ [CHR 0x5D]"

text \<open>The characters of a string up to its closing quote, and the rest; \<open>None\<close> is a decoding error.\<close>

definition unescape :: "char \<Rightarrow> char option" where
  "unescape e = (if e = CHR ''/'' then Some e else map_of (map (\<lambda>(c, e). (e, c)) short_escapes) e)"

definition cons_fst :: "'a \<Rightarrow> ('a list \<times> 'b) option \<Rightarrow> ('a list \<times> 'b) option" where
  "cons_fst c r = map_option (\<lambda>(s, t). (c # s, t)) r"

fun hex_word :: "string \<Rightarrow> nat option" where
  "hex_word [a, b, c, d] =
     (case (hex_value a, hex_value b, hex_value c, hex_value d) of
        (Some w, Some x, Some y, Some z) \<Rightarrow> Some (w * 4096 + x * 256 + y * 16 + z) | _ \<Rightarrow> None)"
| "hex_word _ = None"

function json_string :: "string \<Rightarrow> (string \<times> string) option" where
  "json_string [] = None"
| "json_string (c # cs) =
     (if c = CHR 0x22 then Some ([], cs)
      else if c = CHR 0x5C then
        (case cs of
           [] \<Rightarrow> None
         | e # ds \<Rightarrow>
             if e = CHR ''u'' then
               (case hex_word (take 4 ds) of
                  Some n \<Rightarrow> if n < 256 then cons_fst (char_of n) (json_string (drop 4 ds)) else None
                | None \<Rightarrow> None)
             else (case unescape e of Some d \<Rightarrow> cons_fst d (json_string ds) | None \<Rightarrow> None))
      else if (of_char c :: nat) < 32 then None
      else cons_fst c (json_string cs))"
  by pat_completeness auto
termination
  by (relation "measure length") auto

lemma json_string_length: "json_string s = Some (x, r) \<Longrightarrow> length r < length s"
proof (induction s arbitrary: x rule: json_string.induct)
  case 1
  then show ?case by simp
next
  case (2 c cs)
  then show ?case
    by (auto simp: cons_fst_def split: if_splits list.splits option.splits prod.splits) (fastforce dest: less_trans intro: le_less_trans)+
qed

definition json_space :: "char \<Rightarrow> bool" where
  "json_space c \<longleftrightarrow> c \<in> {CHR '' '', CHR 0x09, CHR 0x0A, CHR 0x0D}"

text \<open>The items after an opening bracket, when at least one is expected.\<close>

function json_rest :: "string \<Rightarrow> string list option" where
  "json_rest s =
     (case dropWhile json_space s of
        c # cs \<Rightarrow>
          if c = CHR 0x22 then
            (case json_string cs of
               None \<Rightarrow> None
             | Some (x, r) \<Rightarrow>
                 (case dropWhile json_space r of
                    d # ds \<Rightarrow>
                      if d = CHR '','' then map_option ((#) x) (json_rest ds)
                      else if d = CHR 0x5D \<and> dropWhile json_space ds = [] then Some [x] else None
                  | [] \<Rightarrow> None))
          else None
      | [] \<Rightarrow> None)"
  by pat_completeness auto
termination
proof (relation "measure length")
  fix s c cs p x r d ds
  assume *: "dropWhile json_space s = c # cs" "json_string cs = Some p" "(x, r) = p" "dropWhile json_space r = d # ds"
  have "length (c # cs) \<le> length s" using length_dropWhile_le [of json_space s] *(1) by simp
  moreover have "length r < length cs" using *(2,3) json_string_length by metis
  moreover have "length (d # ds) \<le> length r" using length_dropWhile_le [of json_space r] *(4) by simp
  ultimately show "(ds, s) \<in> measure length" by simp
qed simp

text \<open>\<open>json.loads\<close> on a text that holds a list of strings.\<close>

definition json_loads_strings :: "string \<Rightarrow> string list option" where
  "json_loads_strings s =
     (case dropWhile json_space s of
        c # cs \<Rightarrow>
          if c \<noteq> CHR 0x5B then None
          else (case dropWhile json_space cs of
                  d # ds \<Rightarrow> if d = CHR 0x5D then (if dropWhile json_space ds = [] then Some [] else None) else json_rest cs
                | [] \<Rightarrow> None)
      | [] \<Rightarrow> None)"

declare json_string.simps [simp del] json_rest.simps [simp del]

section \<open>What was written is read back\<close>

lemma hex_value_lower:
  assumes "n < 16"
  shows "hex_value (hex_lower n) = Some n"
  using assms by (cases "n < 10") (simp_all add: hex_value_def hex_lower_def Let_def)

lemma short_escape_read: "map_of short_escapes c = Some e \<Longrightarrow> unescape e = Some c \<and> e \<noteq> CHR ''u''"
  by (auto simp: short_escapes_def unescape_def split: if_splits)

lemma json_escape_read: "json_string (json_escape c @ t) = cons_fst c (json_string t)"
proof (cases "map_of short_escapes c")
  case (Some e)
  with short_escape_read [OF Some] show ?thesis by (simp add: json_escape_def json_string.simps(2) [of "CHR 0x5C"])
next
  case None
  then have c: "c \<noteq> CHR 0x22" "c \<noteq> CHR 0x5C" by (auto simp: short_escapes_def)
  define n where "n = (of_char c :: nat)"
  show ?thesis
  proof (cases "32 \<le> n \<and> n \<le> 126")
    case True
    with None c show ?thesis by (simp add: json_escape_def Let_def n_def json_string.simps(2) [of c])
  next
    case False
    have n: "n < 256" unfolding n_def by simp
    have c': "char_of n = c" unfolding n_def by simp
    have "hex_word [CHR ''0'', CHR ''0'', hex_lower (n div 16), hex_lower (n mod 16)] = Some n"
      using n by (simp add: hex_value_lower hex_value_def [of "CHR ''0''"])
    moreover have "json_escape c = [CHR 0x5C, CHR ''u'', CHR ''0'', CHR ''0'', hex_lower (n div 16), hex_lower (n mod 16)]"
      using None False by (auto simp: json_escape_def Let_def n_def)
    ultimately show ?thesis
      using n c' by (simp add: json_string.simps(2) [of "CHR 0x5C"] take_Cons' drop_Cons' del: hex_word.simps)
  qed
qed

lemma json_quote_read: "json_string (concat (map json_escape s) @ CHR 0x22 # t) = Some (s, t)"
  by (induction s) (simp_all add: json_escape_read cons_fst_def json_string.simps(2) [of "CHR 0x22"])

lemma json_rest_space: "json_rest (CHR '' '' # x) = json_rest x"
  by (subst (1 2) json_rest.simps) (simp add: json_space_def)

lemma json_items_read: "json_rest (json_items (s # ss) @ [CHR 0x5D]) = Some (s # ss)"
proof (induction ss arbitrary: s)
  case Nil
  show ?case by (subst json_rest.simps) (simp add: json_quote_def json_space_def json_quote_read)
next
  case (Cons t ss)
  show ?case
    by (subst json_rest.simps) (simp add: json_quote_def json_space_def json_quote_read json_rest_space Cons.IH)
qed

lemma json_strings_roundtrip: "json_loads_strings (json_dumps_strings ss) = Some ss"
proof (cases ss)
  case Nil
  then show ?thesis by (simp add: json_loads_strings_def json_dumps_strings_def json_space_def)
next
  case (Cons s ts)
  then obtain x where x: "json_items ss @ [CHR 0x5D] = CHR 0x22 # x"
    by (cases ts) (simp_all add: json_quote_def)
  then have "json_rest (CHR 0x22 # x) = Some ss" using json_items_read [of s ts] Cons by simp
  then show ?thesis by (simp add: json_loads_strings_def json_dumps_strings_def json_space_def x)
qed

section \<open>\<open>LIKE\<close>\<close>

text \<open>\<open>%\<close> stands for any text, \<open>_\<close> for one character, a backslash takes the next character literally.\<close>

fun sql_like :: "string \<Rightarrow> string \<Rightarrow> bool" where
  "sql_like [] s = (s = [])"
| "sql_like (p # ps) [] = (p = CHR ''%'' \<and> sql_like ps [])"
| "sql_like (p # ps) (c # cs) =
     (if p = CHR ''%'' then sql_like ps (c # cs) \<or> sql_like (p # ps) cs
      else if p = CHR ''_'' then sql_like ps cs
      else if p = CHR 0x5C then (case ps of [] \<Rightarrow> False | q # qs \<Rightarrow> q = c \<and> sql_like qs cs)
      else p = c \<and> sql_like ps cs)"

definition sql_ilike :: "string \<Rightarrow> string \<Rightarrow> bool" where
  "sql_ilike pat s = sql_like (py_lower pat) (py_lower s)"

text \<open>A pattern between two percent signs finds the texts that contain it, when none of its characters is special.\<close>

definition plain_char :: "char \<Rightarrow> bool" where
  "plain_char c \<longleftrightarrow> c \<notin> {CHR ''%'', CHR ''_'', CHR 0x5C}"

lemma sql_like_percent: "sql_like (CHR ''%'' # ps) s \<longleftrightarrow> (\<exists>xs ys. s = xs @ ys \<and> sql_like ps ys)"
proof (induction s)
  case (Cons c cs)
  have "(\<exists>xs ys. c # cs = xs @ ys \<and> sql_like ps ys) \<longleftrightarrow> sql_like ps (c # cs) \<or> (\<exists>xs ys. cs = xs @ ys \<and> sql_like ps ys)"
    by (metis append_eq_Cons_conv append_Cons append_Nil)
  with Cons show ?case by simp
qed simp

lemma sql_like_plain:
  "(\<And>c. c \<in> set ps \<Longrightarrow> plain_char c) \<Longrightarrow> sql_like (ps @ qs) s \<longleftrightarrow> (\<exists>t. s = ps @ t \<and> sql_like qs t)"
proof (induction ps arbitrary: s)
  case (Cons p ps)
  then have p: "p \<notin> {CHR ''%'', CHR ''_'', CHR 0x5C}" by (simp add: plain_char_def)
  show ?case
  proof (cases s)
    case Nil
    with p show ?thesis by simp
  next
    case (Cons c cs)
    with p Cons.prems Cons.IH [of cs] show ?thesis by auto
  qed
qed simp

lemma sql_like_contains:
  assumes "\<And>c. c \<in> set ps \<Longrightarrow> plain_char c"
  shows "sql_like (CHR ''%'' # ps @ [CHR ''%'']) s \<longleftrightarrow> (\<exists>xs ys. s = xs @ ps @ ys)"
proof -
  have any: "sql_like [CHR ''%''] t" for t by (induction t) simp_all
  have "sql_like (CHR ''%'' # ps @ [CHR ''%'']) s \<longleftrightarrow> (\<exists>xs ys. s = xs @ ys \<and> (\<exists>t. ys = ps @ t \<and> sql_like [CHR ''%''] t))"
    using sql_like_percent [of "ps @ [CHR ''%'']" s] sql_like_plain [of ps "[CHR ''%'']"] assms by simp
  then show ?thesis using any by auto
qed

text \<open>A name that JSON writes as it is.\<close>

definition simple_name :: "string \<Rightarrow> bool" where
  "simple_name s \<longleftrightarrow> (\<forall>c\<in>set s. plain_char c \<and> c \<noteq> CHR 0x22 \<and> 32 \<le> (of_char c :: nat) \<and> (of_char c :: nat) \<le> 126)"

lemma json_escape_simple:
  assumes "simple_name s"
  shows "concat (map json_escape s) = s"
proof -
  have "json_escape c = [c]" if "c \<in> set s" for c
  proof -
    have c: "plain_char c" "c \<noteq> CHR 0x22" "32 \<le> (of_char c :: nat)" "(of_char c :: nat) \<le> 126"
      using assms that by (simp_all add: simple_name_def)
    have "c \<noteq> CHR 0x0A" "c \<noteq> CHR 0x0D" "c \<noteq> CHR 0x09" "c \<noteq> CHR 0x08" "c \<noteq> CHR 0x0C" using c(3) by auto
    then have "map_of short_escapes c = None" using c(1,2) by (simp add: plain_char_def short_escapes_def)
    with c(3,4) show ?thesis by (simp add: json_escape_def)
  qed
  then show ?thesis by (induction s) simp_all
qed

lemma json_items_contain: "s \<in> set ss \<Longrightarrow> \<exists>xs ys. json_items ss = xs @ json_quote s @ ys"
proof (induction ss rule: json_items.induct)
  case (3 t u ss)
  show ?case
  proof (cases "s = t")
    case True
    then show ?thesis by (intro exI [of _ "[]"] exI [of _ "CHR '','' # CHR '' '' # json_items (u # ss)"]) simp
  next
    case False
    with 3(2) have "s \<in> set (u # ss)" by simp
    with 3(1) obtain xs ys where "json_items (u # ss) = xs @ json_quote s @ ys" by blast
    then show ?thesis by (intro exI [of _ "json_quote t @ CHR '','' # CHR '' '' # xs"] exI [of _ ys]) simp
  qed
next
  case (2 t)
  then show ?case by (intro exI [of _ "[]"]) simp
qed simp

text \<open>The search by city finds every list that has the city.\<close>

lemma city_like:
  assumes "simple_name city" "city \<in> set cities"
  shows "sql_like (CHR ''%'' # CHR 0x22 # city @ [CHR 0x22, CHR ''%'']) (json_dumps_strings cities)"
proof -
  let ?q = "CHR 0x22 # city @ [CHR 0x22]"
  obtain xs ys where "json_items cities = xs @ ?q @ ys"
    using json_items_contain [OF assms(2)] json_escape_simple [OF assms(1)] by (auto simp: json_quote_def)
  then have "json_dumps_strings cities = (CHR 0x5B # xs) @ ?q @ (ys @ [CHR 0x5D])" by (simp add: json_dumps_strings_def)
  moreover have "plain_char c" if "c \<in> set ?q" for c
    using that assms(1) by (auto simp: simple_name_def plain_char_def)
  ultimately show ?thesis using sql_like_contains [of ?q] by fastforce
qed

section \<open>The path of a URL\<close>

text \<open>
  \<open>urlparse(url).path.lstrip("/")\<close>; \<open>None\<close> is the \<open>ValueError\<close> for a malformed host.  \<open>bracketed_ok\<close> is the
  interpreter's check of a host in brackets.
\<close>

definition before :: "char set \<Rightarrow> string \<Rightarrow> string" where
  "before cs s = takeWhile (\<lambda>c. c \<notin> cs) s"

definition ascii_letter :: "char \<Rightarrow> bool" where
  "ascii_letter c \<longleftrightarrow> (let n = of_char c :: nat in (97 \<le> n \<and> n \<le> 122) \<or> (65 \<le> n \<and> n \<le> 90))"

definition scheme_char :: "char \<Rightarrow> bool" where
  "scheme_char c \<longleftrightarrow> ascii_letter c \<or> (48 \<le> (of_char c :: nat) \<and> (of_char c :: nat) \<le> 57) \<or>
     c \<in> {CHR ''+'', CHR ''-'', CHR ''.''}"

definition split_scheme :: "string \<Rightarrow> string \<times> string" where
  "split_scheme url =
     (let s = before {CHR '':''} url in
      if s \<noteq> [] \<and> length s < length url \<and> ascii_letter (hd s) \<and> list_all scheme_char s
      then (py_lower s, drop (Suc (length s)) url) else ([], url))"

definition uses_params :: "string list" where
  "uses_params = ['''', ''ftp'', ''hdl'', ''prospero'', ''http'', ''https'', ''shttp'', ''rtsp'', ''rtsps'', ''sip'', ''sips'',
     ''mms'', ''sftp'', ''tel'']"

text \<open>The parameters of the last segment are cut off.\<close>

definition cut_params :: "string \<Rightarrow> string" where
  "cut_params path =
     (let seg = rev (before {CHR ''/''} (rev path)); dir = take (length path - length seg) path
      in dir @ before {CHR '';''} seg)"

definition url_key :: "(string \<Rightarrow> bool) \<Rightarrow> string \<Rightarrow> string option" where
  "url_key bracketed_ok file_url =
     (let url = filter (\<lambda>c. c \<notin> {CHR 0x09, CHR 0x0A, CHR 0x0D}) (dropWhile (\<lambda>c. (of_char c :: nat) \<le> 32) file_url);
          (scheme, rest) = split_scheme url;
          (netloc, rest) = (if take 2 rest = ''//''
             then (let n = before {CHR ''/'', CHR ''?'', CHR ''#''} (drop 2 rest) in (n, drop (2 + length n) rest))
             else ([], rest));
          opens = CHR 0x5B \<in> set netloc; closes = CHR 0x5D \<in> set netloc;
          path = before {CHR ''?''} (before {CHR ''#''} rest);
          path = (if scheme \<in> set uses_params then cut_params path else path)
      in if opens \<noteq> closes \<or> (opens \<and> \<not> bracketed_ok netloc) then None
         else Some (dropWhile (\<lambda>c. c = CHR ''/'') path))"

end
