(* ===== verification/Profile_Domain.thy ===== *)
theory Profile_Domain
  imports Profile_Text
begin

text \<open>
  The domain layer of the profile service: errors, events, value objects, and the aggregates
  \<open>UserProfile\<close>, \<open>CompanionProfile\<close>, \<open>Scenario\<close> and \<open>MediaAsset\<close> with their pending events.
\<close>

section \<open>Errors\<close>

text \<open>
  The domain errors, the \<open>ValueError\<close> of the value objects, and what the code outside raises: the database,
  the object store, and Python itself.
\<close>

datatype pexn =
    ProfileNotFoundError string
  | ProfileAlreadyExistsError string
  | ScenarioLimitExceededError string int
  | ScenarioNotFoundError string
  | InvalidProfileStatusTransitionError string string
  | VoiceIntroDurationExceededError int
  | VoiceIntroSizeExceededError int
  | AlbumImageSizeExceededError int
  | AlbumLimitExceededError string int
  | ProfileNotAvailableError string
  | MediaAssetNotFoundError string
  | ValueErrorP string
  | DBErrorP string
  | StorageErrorP string
  | PyErrorP string

fun is_profile_DomainError :: "pexn \<Rightarrow> bool" where
  "is_profile_DomainError (ValueErrorP _) = False"
| "is_profile_DomainError (DBErrorP _) = False"
| "is_profile_DomainError (StorageErrorP _) = False"
| "is_profile_DomainError (PyErrorP _) = False"
| "is_profile_DomainError _ = True"

fun pexn_str :: "pexn \<Rightarrow> string" where
  "pexn_str (ProfileNotFoundError companion_id) = ''Companion profile not found: '' @ companion_id"
| "pexn_str (ProfileAlreadyExistsError user_id) = ''Companion profile already exists for user: '' @ user_id"
| "pexn_str (ScenarioLimitExceededError companion_id limit) =
     ''[INV-P03] Companion '' @ companion_id @ '' can have at most '' @ show_int limit @ '' active scenarios''"
| "pexn_str (ScenarioNotFoundError scenario_id) = ''Scenario not found: '' @ scenario_id"
| "pexn_str (InvalidProfileStatusTransitionError current target) =
     ''Invalid profile status transition from '' @ current @ '' to '' @ target"
| "pexn_str (VoiceIntroDurationExceededError duration) =
     ''[INV-P04] Voice duration '' @ show_int duration @ ''s exceeds platform limit of 30s''"
| "pexn_str (VoiceIntroSizeExceededError sz) =
     ''[INV-P05] Voice size '' @ show_int sz @ '' bytes exceeds platform limit of 5MB''"
| "pexn_str (AlbumImageSizeExceededError sz) =
     ''Album image size '' @ show_int sz @ '' bytes exceeds platform limit of 2MB''"
| "pexn_str (AlbumLimitExceededError companion_id limit) =
     ''Companion '' @ companion_id @ '' can have at most '' @ show_int limit @ '' album images''"
| "pexn_str (ProfileNotAvailableError companion_id) = ''Companion profile not approved or locked: '' @ companion_id"
| "pexn_str (MediaAssetNotFoundError asset_id) = ''Media asset not found: '' @ asset_id"
| "pexn_str (ValueErrorP msg) = msg"
| "pexn_str (DBErrorP msg) = msg"
| "pexn_str (StorageErrorP msg) = msg"
| "pexn_str (PyErrorP msg) = msg"

section \<open>Events\<close>

datatype profile_event =
    ProfileCreated (pe_companion: string) (pe_user: string) (pe_name: string) (pe_cities: "string list")
  | ProfileUpdated string string string "string list"
  | ProfileApproved string string
  | ProfileRejected string string string
  | ScenarioCreated string string string int int
  | ScenarioUpdated string string string int int string
  | ScenarioDeleted string string
  | VoiceIntroRegistered string string string int int
  | VoiceIntroRejected string string string
  | AlbumImageRegistered string string string int

section \<open>Value objects\<close>

text \<open>A value object is represented by the value it wraps; the constructor checks and cleans it.\<close>

record money_p =
  money_amount :: int

definition Money_p :: "int \<Rightarrow> pexn + money_p" where
  "Money_p a = (if a \<le> 0 then Inl (ValueErrorP ''[INV-P01] Price must be greater than 0'') else Inr \<lparr>money_amount = a\<rparr>)"

record duration =
  minutes :: int

definition Duration :: "int \<Rightarrow> pexn + duration" where
  "Duration m = (if m \<notin> {60, 120, 180} then Inl (ValueErrorP ''[INV-P02] Duration must be 60, 120, or 180 minutes'')
     else Inr \<lparr>minutes = m\<rparr>)"

record location =
  loc_city :: string

definition Location :: "string \<Rightarrow> pexn + location" where
  "Location city =
     (let clean_city = py_strip city in
      if clean_city = [] then Inl (ValueErrorP ''City name cannot be empty'') else Inr \<lparr>loc_city = clean_city\<rparr>)"

record media_url =
  mu_url :: string

definition starts_with :: "string \<Rightarrow> string \<Rightarrow> bool" where
  "starts_with p s \<longleftrightarrow> take (length p) s = p"

definition MediaUrl :: "string \<Rightarrow> pexn + media_url" where
  "MediaUrl url =
     (let clean_url = py_strip url in
      if clean_url = [] then Inl (ValueErrorP ''URL cannot be empty'')
      else if \<not> (starts_with ''http://'' clean_url \<or> starts_with ''https://'' clean_url)
      then Inl (ValueErrorP ''URL must start with http:// or https://'')
      else Inr \<lparr>mu_url = clean_url\<rparr>)"

section \<open>UserProfile\<close>

record user_profile =
  u_user_id :: string
  u_display_name :: string
  u_bio :: string
  u_role :: string
  u_avatar_url :: "media_url option"
  u_events :: "profile_event list"

definition UserProfile_add_event :: "profile_event \<Rightarrow> user_profile \<Rightarrow> user_profile" where
  "UserProfile_add_event event self = self\<lparr>u_events := u_events self @ [event]\<rparr>"

definition UserProfile_clear_events :: "user_profile \<Rightarrow> profile_event list \<times> user_profile" where
  "UserProfile_clear_events self = (u_events self, self\<lparr>u_events := []\<rparr>)"

definition UserProfile_create :: "string \<Rightarrow> string \<Rightarrow> string \<Rightarrow> string \<Rightarrow> user_profile" where
  "UserProfile_create user_id display_name bio role =
     UserProfile_add_event (ProfileCreated user_id user_id display_name [])
       \<lparr>u_user_id = user_id, u_display_name = display_name, u_bio = bio, u_role = role, u_avatar_url = None, u_events = []\<rparr>"

definition UserProfile_update ::
  "user_profile \<Rightarrow> string \<Rightarrow> string \<Rightarrow> media_url option \<Rightarrow> string list option \<Rightarrow> user_profile" where
  "UserProfile_update self display_name bio avatar_url available_cities =
     UserProfile_add_event
       (ProfileUpdated (u_user_id self) display_name bio (case available_cities of None \<Rightarrow> [] | Some cs \<Rightarrow> cs))
       (self\<lparr>u_display_name := display_name, u_bio := bio, u_avatar_url := avatar_url\<rparr>)"

definition upgrade_to_companion :: "user_profile \<Rightarrow> user_profile" where
  "upgrade_to_companion self = self\<lparr>u_role := ''COMPANION''\<rparr>"

section \<open>CompanionProfile\<close>

record companion_profile =
  c_companion_id :: string
  c_status :: string
  c_available_cities :: "location list"
  c_events :: "profile_event list"

definition CompanionProfile_add_event :: "profile_event \<Rightarrow> companion_profile \<Rightarrow> companion_profile" where
  "CompanionProfile_add_event event self = self\<lparr>c_events := c_events self @ [event]\<rparr>"

definition CompanionProfile_clear_events :: "companion_profile \<Rightarrow> profile_event list \<times> companion_profile" where
  "CompanionProfile_clear_events self = (c_events self, self\<lparr>c_events := []\<rparr>)"

definition CompanionProfile_create :: "string \<Rightarrow> location list \<Rightarrow> string \<Rightarrow> companion_profile" where
  "CompanionProfile_create companion_id available_cities status =
     \<lparr>c_companion_id = companion_id, c_status = status, c_available_cities = available_cities, c_events = []\<rparr>"

definition CompanionProfile_update :: "companion_profile \<Rightarrow> location list \<Rightarrow> companion_profile" where
  "CompanionProfile_update self available_cities = self\<lparr>c_available_cities := available_cities\<rparr>"

definition CompanionProfile_approve :: "companion_profile \<Rightarrow> string \<Rightarrow> companion_profile" where
  "CompanionProfile_approve self admin_id =
     CompanionProfile_add_event (ProfileApproved (c_companion_id self) admin_id) (self\<lparr>c_status := ''APPROVED''\<rparr>)"

definition CompanionProfile_reject :: "companion_profile \<Rightarrow> string \<Rightarrow> string \<Rightarrow> companion_profile" where
  "CompanionProfile_reject self admin_id reason =
     CompanionProfile_add_event (ProfileRejected (c_companion_id self) admin_id reason) (self\<lparr>c_status := ''REJECTED''\<rparr>)"

section \<open>Scenario\<close>

record scenario =
  sc_scenario_id :: string
  sc_companion_id :: string
  sc_title :: string
  sc_description :: string
  sc_price :: money_p
  sc_duration_minutes :: duration
  sc_status :: string
  sc_events :: "profile_event list"

definition Scenario_add_event :: "profile_event \<Rightarrow> scenario \<Rightarrow> scenario" where
  "Scenario_add_event event self = self\<lparr>sc_events := sc_events self @ [event]\<rparr>"

definition Scenario_clear_events :: "scenario \<Rightarrow> profile_event list \<times> scenario" where
  "Scenario_clear_events self = (sc_events self, self\<lparr>sc_events := []\<rparr>)"

definition Scenario_create :: "string \<Rightarrow> string \<Rightarrow> string \<Rightarrow> string \<Rightarrow> money_p \<Rightarrow> duration \<Rightarrow> scenario" where
  "Scenario_create scenario_id companion_id title description price duration_minutes =
     Scenario_add_event (ScenarioCreated scenario_id companion_id title (money_amount price) (minutes duration_minutes))
       \<lparr>sc_scenario_id = scenario_id, sc_companion_id = companion_id, sc_title = title, sc_description = description,
        sc_price = price, sc_duration_minutes = duration_minutes, sc_status = ''ACTIVE'', sc_events = []\<rparr>"

definition Scenario_update :: "scenario \<Rightarrow> string \<Rightarrow> string \<Rightarrow> money_p \<Rightarrow> duration \<Rightarrow> string \<Rightarrow> scenario" where
  "Scenario_update self title description price duration_minutes status =
     Scenario_add_event
       (ScenarioUpdated (sc_scenario_id self) (sc_companion_id self) title (money_amount price) (minutes duration_minutes) status)
       (self\<lparr>sc_title := title, sc_description := description, sc_price := price,
             sc_duration_minutes := duration_minutes, sc_status := status\<rparr>)"

definition Scenario_delete :: "scenario \<Rightarrow> scenario" where
  "Scenario_delete self = Scenario_add_event (ScenarioDeleted (sc_scenario_id self) (sc_companion_id self)) self"

section \<open>MediaAsset\<close>

record media_asset =
  ma_asset_id :: string
  ma_companion_id :: string
  ma_file_url :: media_url
  ma_asset_type :: string
  ma_size_bytes :: int
  ma_duration_seconds :: "int option"
  ma_status :: string
  ma_events :: "profile_event list"

definition MediaAsset_add_event :: "profile_event \<Rightarrow> media_asset \<Rightarrow> media_asset" where
  "MediaAsset_add_event event self = self\<lparr>ma_events := ma_events self @ [event]\<rparr>"

definition MediaAsset_clear_events :: "media_asset \<Rightarrow> profile_event list \<times> media_asset" where
  "MediaAsset_clear_events self = (ma_events self, self\<lparr>ma_events := []\<rparr>)"

definition create_voice_intro :: "string \<Rightarrow> string \<Rightarrow> media_url \<Rightarrow> int \<Rightarrow> int \<Rightarrow> pexn + media_asset" where
  "create_voice_intro asset_id companion_id file_url size_bytes duration_seconds =
     (if 30 < duration_seconds then Inl (VoiceIntroDurationExceededError duration_seconds)
      else if 5 * 1024 * 1024 < size_bytes then Inl (VoiceIntroSizeExceededError size_bytes)
      else Inr (MediaAsset_add_event
             (VoiceIntroRegistered companion_id asset_id (mu_url file_url) duration_seconds size_bytes)
             \<lparr>ma_asset_id = asset_id, ma_companion_id = companion_id, ma_file_url = file_url,
              ma_asset_type = ''VOICE_INTRO'', ma_size_bytes = size_bytes, ma_duration_seconds = Some duration_seconds,
              ma_status = ''APPROVED'', ma_events = []\<rparr>))"

definition create_album_image :: "string \<Rightarrow> string \<Rightarrow> media_url \<Rightarrow> int \<Rightarrow> pexn + media_asset" where
  "create_album_image asset_id companion_id file_url size_bytes =
     (if 2 * 1024 * 1024 < size_bytes then Inl (AlbumImageSizeExceededError size_bytes)
      else Inr (MediaAsset_add_event (AlbumImageRegistered companion_id asset_id (mu_url file_url) size_bytes)
             \<lparr>ma_asset_id = asset_id, ma_companion_id = companion_id, ma_file_url = file_url,
              ma_asset_type = ''ALBUM'', ma_size_bytes = size_bytes, ma_duration_seconds = None,
              ma_status = ''APPROVED'', ma_events = []\<rparr>))"

lemmas aggregate_defs = UserProfile_add_event_def UserProfile_clear_events_def UserProfile_create_def UserProfile_update_def
  upgrade_to_companion_def CompanionProfile_add_event_def CompanionProfile_clear_events_def CompanionProfile_create_def
  CompanionProfile_update_def Scenario_add_event_def Scenario_clear_events_def Scenario_create_def Scenario_update_def
  Scenario_delete_def MediaAsset_add_event_def MediaAsset_clear_events_def create_voice_intro_def create_album_image_def

section \<open>The value objects accept their own values\<close>

definition clean_city :: "string \<Rightarrow> bool" where
  "clean_city c \<longleftrightarrow> py_strip c = c \<and> c \<noteq> []"

definition clean_url :: "string \<Rightarrow> bool" where
  "clean_url u \<longleftrightarrow> py_strip u = u \<and> (starts_with ''http://'' u \<or> starts_with ''https://'' u)"

lemma Location_Inr: "Location c = Inr l \<longleftrightarrow> loc_city l = py_strip c \<and> clean_city (loc_city l)"
  by (cases l) (auto simp: Location_def Let_def clean_city_def py_strip_strip)

lemma starts_with_nonempty: "starts_with (p # ps) s \<Longrightarrow> s \<noteq> []"
  by (auto simp: starts_with_def)

lemma MediaUrl_Inr: "MediaUrl u = Inr m \<longleftrightarrow> mu_url m = py_strip u \<and> clean_url (mu_url m)"
  by (cases m) (auto simp: MediaUrl_def Let_def clean_url_def py_strip_strip dest: starts_with_nonempty)

lemma MediaUrl_clean: "clean_url u \<Longrightarrow> MediaUrl u = Inr \<lparr>mu_url = u\<rparr>"
  by (simp add: MediaUrl_Inr clean_url_def)

lemma Location_clean: "clean_city c \<Longrightarrow> Location c = Inr \<lparr>loc_city = c\<rparr>"
  by (simp add: Location_Inr clean_city_def)

lemma Money_p_Inr: "Money_p a = Inr m \<longleftrightarrow> m = \<lparr>money_amount = a\<rparr> \<and> 0 < a"
  by (auto simp: Money_p_def)

lemma Duration_Inr: "Duration a = Inr m \<longleftrightarrow> m = \<lparr>minutes = a\<rparr> \<and> a \<in> {60, 120, 180}"
  by (auto simp: Duration_def)

end
