(* ===== verification/Sql_Child.thy ===== *)
theory Sql_Child
  imports Sql_Tables
begin

text \<open>
  Tables with a foreign key and tables whose rows are deleted.  \<open>parent d r\<close> says that the row \<open>r\<close> refers to
  a row that the tables \<open>d\<close> have: the database refuses any other row.  \<open>delete\<close> stands for
  \<open>session.delete(model)\<close> and \<open>session.flush()\<close> on a row that was loaded before.
\<close>

section \<open>Laws\<close>

locale sql_child = sql_table merge select view com tab put pkey uniq fits agree
  for merge :: "'r \<Rightarrow> ('s, 'e, unit) eff" and select :: "bool \<Rightarrow> ('r \<Rightarrow> bool) \<Rightarrow> ('s, 'e, 'r list) eff"
    and view :: "'s \<Rightarrow> 'd" and com :: "'s \<Rightarrow> 'd" and tab :: "'d \<Rightarrow> 'k \<rightharpoonup> 'r" and put :: "('k \<rightharpoonup> 'r) \<Rightarrow> 'd \<Rightarrow> 'd"
    and pkey :: "'r \<Rightarrow> 'k" and uniq :: "'r \<Rightarrow> 'u" and fits :: "'r \<Rightarrow> bool" and agree :: "'r \<Rightarrow> 'r \<Rightarrow> bool" +
  fixes parent :: "'d \<Rightarrow> 'r \<Rightarrow> bool"
  assumes merge_parent: "merge r s = (Inr u, s') \<Longrightarrow> parent (view s) r"

locale sql_child_live = sql_child +
  assumes cmerge_live: "row_accepted pkey uniq fits (tab (view s)) r \<Longrightarrow> parent (view s) r \<Longrightarrow> \<exists>s'. merge r s = (Inr (), s')"
    and cselect_live: "\<exists>rs s'. select lock P s = (Inr rs, s')"
begin

lemma cmerge_stores:
  assumes "row_accepted pkey uniq fits (tab (view s)) r" "parent (view s) r"
  obtains r' s' where "merge r s = (Inr (), s')" "agree r r'"
    "view s' = put ((tab (view s))(pkey r \<mapsto> r')) (view s)" "com s' = com s"
proof -
  obtain s' where m: "merge r s = (Inr (), s')" using cmerge_live [OF assms] by blast
  then have "com s' = com s" using merge_com [of r s] by simp
  with m merge_ok [OF m] show thesis by (blast intro: that)
qed

lemma cselect_finds:
  obtains rs s' where "select lock P s = (Inr rs, s')"
    "set rs = {r \<in> ran (tab (view s)). P r}" "view s' = view s" "com s' = com s"
proof -
  obtain rs s' where sel: "select lock P s = (Inr rs, s')" using cselect_live by blast
  then have "com s' = com s" using select_com [of lock P s] by simp
  with sel select_ok [OF sel] show thesis by (blast intro: that)
qed

end

locale sql_delete =
  fixes delete :: "'r \<Rightarrow> ('s, 'e, unit) eff" and view :: "'s \<Rightarrow> 'd" and com :: "'s \<Rightarrow> 'd"
    and tab :: "'d \<Rightarrow> 'k \<rightharpoonup> 'r" and put :: "('k \<rightharpoonup> 'r) \<Rightarrow> 'd \<Rightarrow> 'd" and pkey :: "'r \<Rightarrow> 'k"
  assumes delete_ok: "delete r s = (Inr u, s') \<Longrightarrow> view s' = put ((tab (view s))(pkey r := None)) (view s)"
    and delete_com: "com (snd (delete r s)) = com s"
begin

lemma delete_keeps [keep_intros]: "keeps com (delete r)"
  by (simp add: keeps_def delete_com)

end

locale sql_delete_live = sql_delete +
  assumes delete_live: "tab (view s) (pkey r) = Some r \<Longrightarrow> \<exists>s'. delete r s = (Inr (), s')"

section \<open>Removing rows\<close>

lemma ran_remove: "r \<in> ran (tab(k := None)) \<Longrightarrow> r \<in> ran tab"
  by (auto simp: ran_def split: if_splits)

lemma ran_removed: "table_ok pkey uniq tab \<Longrightarrow> ran (tab(k := None)) = {r \<in> ran tab. pkey r \<noteq> k}"
  by (auto simp: ran_def dest: table_ok_key split: if_splits)

lemma table_ok_remove: "table_ok pkey uniq tab \<Longrightarrow> table_ok pkey uniq (tab(k := None))"
  by (intro table_okI) (auto dest: ran_remove table_ok_key table_ok_finite table_ok_uniq_key split: if_splits)

lemma ran_updated: "table_ok pkey uniq tab \<Longrightarrow> ran (tab(k \<mapsto> r)) = insert r {x \<in> ran tab. pkey x \<noteq> k}"
  by (auto simp: ran_def dest: table_ok_key split: if_splits)

section \<open>A reference table\<close>

definition mem_child_merge ::
  "('d mem \<Rightarrow> 'r \<Rightarrow> bool) \<Rightarrow> 'e \<Rightarrow> ('r \<Rightarrow> ('d mem, 'e, unit) eff) \<Rightarrow> 'r \<Rightarrow> ('d mem, 'e, unit) eff" where
  "mem_child_merge par err merge r s = (if par s r then merge r s else (Inl err, s))"

definition mem_delete ::
  "('d \<Rightarrow> ('k, 'r) alist) \<Rightarrow> (('k, 'r) alist \<Rightarrow> 'd \<Rightarrow> 'd) \<Rightarrow> ('r \<Rightarrow> 'k) \<Rightarrow> 'r \<Rightarrow> ('d mem, 'e, unit) eff" where
  "mem_delete get store pkey r s =
     (Inr (), s\<lparr>m_view := store (DAList.delete (pkey r) (get (m_view s))) (m_view s)\<rparr>)"

lemma alist_lookup_delete: "DAList.lookup (DAList.delete k t) = (DAList.lookup t)(k := None)"
  by (simp add: DAList.lookup.rep_eq DAList.delete.rep_eq delete_conv')

context sql_table_live
begin

lemma child_of_table:
  assumes "\<And>s r. par s r \<longleftrightarrow> parent (view s) r"
  shows "sql_child_live (\<lambda>r s. if par s r then merge r s else (Inl err, s)) select view com tab put pkey uniq fits agree parent"
  using assms
  by unfold_locales (auto simp: merge_com select_com select_live dest: select_ok select_err merge_ok merge_live split: if_splits)

end

lemma mem_sql_child_live:
  assumes "sql_table_live merge select view com tab put pkey uniq fits agree" "\<And>s r. par s r \<longleftrightarrow> parent (view s) r"
  shows "sql_child_live (mem_child_merge par err merge) select view com tab put pkey uniq fits agree parent"
  unfolding mem_child_merge_def [abs_def] using assms by (rule sql_table_live.child_of_table)

lemma mem_sql_delete_live:
  assumes "\<And>s k. view (s\<lparr>m_view := store (DAList.delete k (get (m_view s))) (m_view s)\<rparr>) =
      put ((tab (view s))(k := None)) (view s)"
    "\<And>s v. com (s\<lparr>m_view := v\<rparr>) = com s"
  shows "sql_delete_live (mem_delete get store pkey) view com tab put pkey"
  using assms by unfold_locales (auto simp: mem_delete_def)

end
