(* ===== verification/Profile_Store.thy ===== *)
theory Profile_Store
  imports Profile_Domain Sql_Child Proto_Events Outbox_Worker
begin

text \<open>
  Persistence and event publication of the profile service: the mapped tables (\<open>models.py\<close>), the
  repositories, the event mapper and the outbox publisher.  The timestamps of the rows are left out: no code
  reads them.  The record \<open>prof_session\<close> collects what comes from outside.
\<close>

section \<open>Mapped tables\<close>

record user_model =
  um_user_id :: string
  um_display_name :: string
  um_avatar_url :: "string option"
  um_bio :: "string option"
  um_role :: string

record companion_model =
  cm_companion_id :: string
  cm_status :: string
  cm_available_cities :: string

record scenario_model =
  scm_scenario_id :: string
  scm_companion_id :: string
  scm_title :: string
  scm_description :: "string option"
  scm_price :: int
  scm_duration_minutes :: int
  scm_status :: string

record media_model =
  mm_asset_id :: string
  mm_companion_id :: string
  mm_file_url :: string
  mm_asset_type :: string
  mm_size_bytes :: int
  mm_duration_seconds :: "int option"
  mm_status :: string

definition opt_all :: "('a \<Rightarrow> bool) \<Rightarrow> 'a option \<Rightarrow> bool" where
  "opt_all P v = (case v of None \<Rightarrow> True | Some x \<Rightarrow> P x)"

lemma opt_all_simps [simp]: "opt_all P None" "opt_all P (Some x) = P x"
  by (simp_all add: opt_all_def)

definition user_fits :: "user_model \<Rightarrow> bool" where
  "user_fits r \<longleftrightarrow> length (um_user_id r) \<le> 36 \<and> length (um_display_name r) \<le> 100 \<and>
     opt_all (\<lambda>u. length u \<le> 500) (um_avatar_url r) \<and> length (um_role r) \<le> 20"

definition companion_fits :: "companion_model \<Rightarrow> bool" where
  "companion_fits r \<longleftrightarrow> length (cm_companion_id r) \<le> 36 \<and> length (cm_status r) \<le> 20"

definition scenario_fits :: "scenario_model \<Rightarrow> bool" where
  "scenario_fits r \<longleftrightarrow> length (scm_scenario_id r) \<le> 36 \<and> length (scm_companion_id r) \<le> 36 \<and> length (scm_title r) \<le> 200 \<and>
     int32 (scm_price r) \<and> int32 (scm_duration_minutes r) \<and> length (scm_status r) \<le> 20"

definition media_fits :: "media_model \<Rightarrow> bool" where
  "media_fits r \<longleftrightarrow> length (mm_asset_id r) \<le> 36 \<and> length (mm_companion_id r) \<le> 36 \<and> length (mm_file_url r) \<le> 500 \<and>
     length (mm_asset_type r) \<le> 30 \<and> int32 (mm_size_bytes r) \<and> opt_all int32 (mm_duration_seconds r) \<and>
     length (mm_status r) \<le> 20"

record prof_db =
  user_profiles :: "string \<rightharpoonup> user_model"
  companion_profiles :: "string \<rightharpoonup> companion_model"
  scenarios :: "string \<rightharpoonup> scenario_model"
  media_assets :: "string \<rightharpoonup> media_model"
  p_outbox :: "outbox_model list"

text \<open>The foreign keys.\<close>

definition companion_parent :: "prof_db \<Rightarrow> companion_model \<Rightarrow> bool" where
  "companion_parent db r \<longleftrightarrow> cm_companion_id r \<in> dom (user_profiles db)"

definition scenario_parent :: "prof_db \<Rightarrow> scenario_model \<Rightarrow> bool" where
  "scenario_parent db r \<longleftrightarrow> scm_companion_id r \<in> dom (companion_profiles db)"

definition media_parent :: "prof_db \<Rightarrow> media_model \<Rightarrow> bool" where
  "media_parent db r \<longleftrightarrow> mm_companion_id r \<in> dom (companion_profiles db)"

section \<open>What comes from outside\<close>

text \<open>
  \<open>prof_pb_json\<close> is \<open>json.dumps(MessageToDict(...))\<close>.  A query over several tables is a predicate on the
  tables and the row: \<open>companion_count Q\<close> and \<open>companion_page Q o l\<close> are \<open>SELECT count(*)\<close> and
  \<open>SELECT ... OFFSET o LIMIT l\<close>, in no order.  \<open>prof_close\<close> leaves the \<open>async with\<close> block of the session.
\<close>

record 's prof_session =
  prof_open :: "('s, pexn, unit) eff"
  prof_uuid4 :: "('s, pexn, string) eff"
  prof_pb_json :: "proto_msg \<Rightarrow> pexn + string"
  user_merge :: "user_model \<Rightarrow> ('s, pexn, unit) eff"
  user_select :: "bool \<Rightarrow> (user_model \<Rightarrow> bool) \<Rightarrow> ('s, pexn, user_model list) eff"
  companion_merge :: "companion_model \<Rightarrow> ('s, pexn, unit) eff"
  companion_select :: "bool \<Rightarrow> (companion_model \<Rightarrow> bool) \<Rightarrow> ('s, pexn, companion_model list) eff"
  companion_count :: "(prof_db \<Rightarrow> companion_model \<Rightarrow> bool) \<Rightarrow> ('s, pexn, nat) eff"
  companion_page :: "(prof_db \<Rightarrow> companion_model \<Rightarrow> bool) \<Rightarrow> int \<Rightarrow> int \<Rightarrow> ('s, pexn, companion_model list) eff"
  scenario_merge :: "scenario_model \<Rightarrow> ('s, pexn, unit) eff"
  scenario_select :: "bool \<Rightarrow> (scenario_model \<Rightarrow> bool) \<Rightarrow> ('s, pexn, scenario_model list) eff"
  scenario_count :: "(scenario_model \<Rightarrow> bool) \<Rightarrow> ('s, pexn, nat) eff"
  scenario_delete :: "scenario_model \<Rightarrow> ('s, pexn, unit) eff"
  media_merge :: "media_model \<Rightarrow> ('s, pexn, unit) eff"
  media_select :: "bool \<Rightarrow> (media_model \<Rightarrow> bool) \<Rightarrow> ('s, pexn, media_model list) eff"
  media_delete :: "media_model \<Rightarrow> ('s, pexn, unit) eff"
  prof_outbox_add :: "outbox_model \<Rightarrow> ('s, pexn, unit) eff"
  prof_commit :: "('s, pexn, unit) eff"
  prof_close :: "('s, pexn, unit) eff"

section \<open>UserProfileRepository\<close>

definition user_to_model :: "user_profile \<Rightarrow> user_model" where
  "user_to_model profile =
     \<lparr>um_user_id = u_user_id profile, um_display_name = u_display_name profile,
      um_avatar_url = map_option mu_url (u_avatar_url profile), um_bio = Some (u_bio profile), um_role = u_role profile\<rparr>"

definition UserProfileRepository_save :: "'s prof_session \<Rightarrow> user_profile \<Rightarrow> ('s, pexn, unit) eff" where
  "UserProfileRepository_save S profile = user_merge S (user_to_model profile)"

text \<open>\<open>MediaUrl(model.avatar_url) if model.avatar_url else None\<close>: an empty text is no URL.\<close>

definition user_to_domain :: "user_model \<Rightarrow> pexn + user_profile" where
  "user_to_domain m =
     bindS (case um_avatar_url m of
              None \<Rightarrow> Inr None
            | Some url \<Rightarrow> if url = [] then Inr None else bindS (MediaUrl url) (\<lambda>u. Inr (Some u))) (\<lambda>avatar.
     Inr \<lparr>u_user_id = um_user_id m, u_display_name = um_display_name m,
          u_bio = (case um_bio m of None \<Rightarrow> [] | Some b \<Rightarrow> b), u_role = um_role m, u_avatar_url = avatar, u_events = []\<rparr>)"

definition UserProfileRepository_find_by_id :: "'s prof_session \<Rightarrow> string \<Rightarrow> ('s, pexn, user_profile option) eff" where
  "UserProfileRepository_find_by_id S user_id =
     bindE (user_select S False (\<lambda>m. um_user_id m = user_id)) (\<lambda>rs.
     liftE (option_map_exn user_to_domain (first_row rs)))"

section \<open>CompanionProfileRepository\<close>

definition companion_to_model :: "companion_profile \<Rightarrow> companion_model" where
  "companion_to_model profile =
     \<lparr>cm_companion_id = c_companion_id profile, cm_status = c_status profile,
      cm_available_cities = json_dumps_strings (map loc_city (c_available_cities profile))\<rparr>"

definition CompanionProfileRepository_save :: "'s prof_session \<Rightarrow> companion_profile \<Rightarrow> ('s, pexn, unit) eff" where
  "CompanionProfileRepository_save S profile = companion_merge S (companion_to_model profile)"

text \<open>The text of the decoding error is not modelled.\<close>

definition companion_to_domain :: "companion_model \<Rightarrow> pexn + companion_profile" where
  "companion_to_domain m =
     (case json_loads_strings (py_or (cm_available_cities m) ''[]'') of
        None \<Rightarrow> Inl (ValueErrorP ''JSONDecodeError'')
      | Some names \<Rightarrow>
          bindS (list_map_exn Location names) (\<lambda>cities.
          Inr \<lparr>c_companion_id = cm_companion_id m, c_status = cm_status m, c_available_cities = cities, c_events = []\<rparr>))"

definition CompanionProfileRepository_find_by_id ::
  "'s prof_session \<Rightarrow> string \<Rightarrow> ('s, pexn, companion_profile option) eff" where
  "CompanionProfileRepository_find_by_id S companion_id =
     bindE (companion_select S False (\<lambda>m. cm_companion_id m = companion_id)) (\<lambda>rs.
     liftE (option_map_exn companion_to_domain (first_row rs)))"

text \<open>
  The query of \<open>search_approved\<close>: the join with the user profile and the optional filters; the filter on
  prices is a subquery over the active scenarios.
\<close>

definition city_pattern :: "string \<Rightarrow> string" where
  "city_pattern city = CHR ''%'' # CHR 0x22 # city @ [CHR 0x22, CHR ''%'']"

definition name_pattern :: "string \<Rightarrow> string" where
  "name_pattern name = CHR ''%'' # name @ [CHR ''%'']"

definition given :: "string option \<Rightarrow> bool" where
  "given v \<longleftrightarrow> (case v of None \<Rightarrow> False | Some x \<Rightarrow> x \<noteq> [])"

definition price_subquery :: "int option \<Rightarrow> int option \<Rightarrow> prof_db \<Rightarrow> string \<Rightarrow> bool" where
  "price_subquery min_price max_price db companion_id \<longleftrightarrow>
     (\<exists>sc\<in>ran (scenarios db). scm_companion_id sc = companion_id \<and> scm_status sc = ''ACTIVE'' \<and>
        opt_all (\<lambda>p. p \<le> scm_price sc) min_price \<and> opt_all (\<lambda>p. scm_price sc \<le> p) max_price)"

definition search_query ::
  "string option \<Rightarrow> string option \<Rightarrow> int option \<Rightarrow> int option \<Rightarrow> prof_db \<Rightarrow> companion_model \<Rightarrow> bool" where
  "search_query name city min_price max_price db c \<longleftrightarrow>
     (case user_profiles db (cm_companion_id c) of
        None \<Rightarrow> False
      | Some u \<Rightarrow>
          cm_status c = ''APPROVED'' \<and> um_role u = ''COMPANION'' \<and>
          (given name \<longrightarrow> sql_ilike (name_pattern (the name)) (um_display_name u)) \<and>
          (given city \<longrightarrow> sql_like (city_pattern (the city)) (cm_available_cities c)) \<and>
          (min_price \<noteq> None \<or> max_price \<noteq> None \<longrightarrow> price_subquery min_price max_price db (cm_companion_id c)))"

definition search_approved ::
  "'s prof_session \<Rightarrow> string option \<Rightarrow> string option \<Rightarrow> int option \<Rightarrow> int option \<Rightarrow> int \<Rightarrow> int \<Rightarrow>
   ('s, pexn, companion_profile list \<times> nat) eff" where
  "search_approved S name city min_price max_price offset limit =
     (let query = search_query name city min_price max_price in
      bindE (companion_count S query) (\<lambda>total.
      bindE (companion_page S query offset limit) (\<lambda>models.
      bindE (liftE (list_map_exn companion_to_domain models)) (\<lambda>profiles.
      ret (profiles, total)))))"

section \<open>ScenarioRepository\<close>

definition scenario_to_model :: "scenario \<Rightarrow> scenario_model" where
  "scenario_to_model scenario =
     \<lparr>scm_scenario_id = sc_scenario_id scenario, scm_companion_id = sc_companion_id scenario, scm_title = sc_title scenario,
      scm_description = Some (sc_description scenario), scm_price = money_amount (sc_price scenario),
      scm_duration_minutes = minutes (sc_duration_minutes scenario), scm_status = sc_status scenario\<rparr>"

definition ScenarioRepository_save :: "'s prof_session \<Rightarrow> scenario \<Rightarrow> ('s, pexn, unit) eff" where
  "ScenarioRepository_save S scenario = scenario_merge S (scenario_to_model scenario)"

definition scenario_to_domain :: "scenario_model \<Rightarrow> pexn + scenario" where
  "scenario_to_domain m =
     bindS (Money_p (scm_price m)) (\<lambda>money.
     bindS (Duration (scm_duration_minutes m)) (\<lambda>dur.
     Inr \<lparr>sc_scenario_id = scm_scenario_id m, sc_companion_id = scm_companion_id m, sc_title = scm_title m,
          sc_description = (case scm_description m of None \<Rightarrow> [] | Some d \<Rightarrow> d), sc_price = money,
          sc_duration_minutes = dur, sc_status = scm_status m, sc_events = []\<rparr>))"

definition ScenarioRepository_find_by_id :: "'s prof_session \<Rightarrow> string \<Rightarrow> ('s, pexn, scenario option) eff" where
  "ScenarioRepository_find_by_id S scenario_id =
     bindE (scenario_select S False (\<lambda>m. scm_scenario_id m = scenario_id)) (\<lambda>rs.
     liftE (option_map_exn scenario_to_domain (first_row rs)))"

definition ScenarioRepository_find_by_companion_id :: "'s prof_session \<Rightarrow> string \<Rightarrow> ('s, pexn, scenario list) eff" where
  "ScenarioRepository_find_by_companion_id S companion_id =
     bindE (scenario_select S False (\<lambda>m. scm_companion_id m = companion_id)) (\<lambda>rs.
     liftE (list_map_exn scenario_to_domain rs))"

definition is_active_of :: "string \<Rightarrow> scenario_model \<Rightarrow> bool" where
  "is_active_of companion_id m \<longleftrightarrow> scm_companion_id m = companion_id \<and> scm_status m = ''ACTIVE''"

definition ScenarioRepository_count_by_companion_id :: "'s prof_session \<Rightarrow> string \<Rightarrow> ('s, pexn, nat) eff" where
  "ScenarioRepository_count_by_companion_id S companion_id = scenario_count S (is_active_of companion_id)"

definition ScenarioRepository_delete :: "'s prof_session \<Rightarrow> string \<Rightarrow> string \<Rightarrow> ('s, pexn, unit) eff" where
  "ScenarioRepository_delete S scenario_id companion_id =
     bindE (scenario_select S False (\<lambda>m. scm_scenario_id m = scenario_id \<and> scm_companion_id m = companion_id)) (\<lambda>rs.
     case first_row rs of None \<Rightarrow> ret () | Some m \<Rightarrow> scenario_delete S m)"

section \<open>MediaAssetRepository\<close>

definition media_to_model :: "media_asset \<Rightarrow> media_model" where
  "media_to_model asset =
     \<lparr>mm_asset_id = ma_asset_id asset, mm_companion_id = ma_companion_id asset, mm_file_url = mu_url (ma_file_url asset),
      mm_asset_type = ma_asset_type asset, mm_size_bytes = ma_size_bytes asset,
      mm_duration_seconds = ma_duration_seconds asset, mm_status = ma_status asset\<rparr>"

definition MediaAssetRepository_save :: "'s prof_session \<Rightarrow> media_asset \<Rightarrow> ('s, pexn, unit) eff" where
  "MediaAssetRepository_save S asset = media_merge S (media_to_model asset)"

definition media_to_domain :: "media_model \<Rightarrow> pexn + media_asset" where
  "media_to_domain m =
     bindS (MediaUrl (mm_file_url m)) (\<lambda>url.
     Inr \<lparr>ma_asset_id = mm_asset_id m, ma_companion_id = mm_companion_id m, ma_file_url = url,
          ma_asset_type = mm_asset_type m, ma_size_bytes = mm_size_bytes m,
          ma_duration_seconds = mm_duration_seconds m, ma_status = mm_status m, ma_events = []\<rparr>)"

definition MediaAssetRepository_find_by_id :: "'s prof_session \<Rightarrow> string \<Rightarrow> ('s, pexn, media_asset option) eff" where
  "MediaAssetRepository_find_by_id S asset_id =
     bindE (media_select S False (\<lambda>m. mm_asset_id m = asset_id)) (\<lambda>rs.
     liftE (option_map_exn media_to_domain (first_row rs)))"

definition is_media_of :: "string \<Rightarrow> string \<Rightarrow> media_model \<Rightarrow> bool" where
  "is_media_of companion_id asset_type m \<longleftrightarrow> mm_companion_id m = companion_id \<and> mm_asset_type m = asset_type"

definition MediaAssetRepository_find_by_companion_id_and_type ::
  "'s prof_session \<Rightarrow> string \<Rightarrow> string \<Rightarrow> ('s, pexn, media_asset list) eff" where
  "MediaAssetRepository_find_by_companion_id_and_type S companion_id asset_type =
     bindE (media_select S False (is_media_of companion_id asset_type)) (\<lambda>rs.
     liftE (list_map_exn media_to_domain rs))"

definition MediaAssetRepository_delete :: "'s prof_session \<Rightarrow> string \<Rightarrow> ('s, pexn, unit) eff" where
  "MediaAssetRepository_delete S asset_id =
     bindE (media_select S False (\<lambda>m. mm_asset_id m = asset_id)) (\<lambda>rs.
     case first_row rs of None \<Rightarrow> ret () | Some m \<Rightarrow> media_delete S m)"

section \<open>Events\<close>

text \<open>The events have no \<open>bio\<close> and no \<open>avatar_url\<close> where the mapper asks for one, so those fields are empty.\<close>

fun profile_to_protobuf :: "profile_event \<Rightarrow> proto_msg" where
  "profile_to_protobuf (ProfileCreated companion_id user_id display_name available_cities) =
     \<lparr>pm_name = ''ProfileCreated'', pm_fields =
       [(''companion_id'', PStr companion_id), (''display_name'', PStr display_name), (''bio'', PStr []),
        (''available_cities'', PStrs available_cities)]\<rparr>"
| "profile_to_protobuf (ProfileUpdated companion_id display_name bio available_cities) =
     \<lparr>pm_name = ''ProfileUpdated'', pm_fields =
       [(''companion_id'', PStr companion_id), (''display_name'', PStr display_name), (''bio'', PStr bio),
        (''available_cities'', PStrs available_cities), (''avatar_url'', PStr [])]\<rparr>"
| "profile_to_protobuf (ProfileApproved companion_id approved_by) =
     \<lparr>pm_name = ''ProfileApproved'', pm_fields = [(''companion_id'', PStr companion_id), (''admin_id'', PStr approved_by)]\<rparr>"
| "profile_to_protobuf (ProfileRejected companion_id rejected_by reason) =
     \<lparr>pm_name = ''ProfileRejected'', pm_fields =
       [(''companion_id'', PStr companion_id), (''admin_id'', PStr rejected_by), (''reason'', PStr reason)]\<rparr>"
| "profile_to_protobuf (ScenarioCreated scenario_id companion_id title price duration_minutes) =
     \<lparr>pm_name = ''ScenarioCreated'', pm_fields =
       [(''scenario_id'', PStr scenario_id), (''companion_id'', PStr companion_id), (''title'', PStr title),
        (''price'', PInt price), (''duration_minutes'', PInt32 duration_minutes)]\<rparr>"
| "profile_to_protobuf (ScenarioUpdated scenario_id companion_id title price duration_minutes status) =
     \<lparr>pm_name = ''ScenarioUpdated'', pm_fields =
       [(''scenario_id'', PStr scenario_id), (''companion_id'', PStr companion_id), (''title'', PStr title),
        (''price'', PInt price), (''duration_minutes'', PInt32 duration_minutes), (''status'', PStr status)]\<rparr>"
| "profile_to_protobuf (ScenarioDeleted scenario_id companion_id) =
     \<lparr>pm_name = ''ScenarioDeleted'', pm_fields = [(''scenario_id'', PStr scenario_id), (''companion_id'', PStr companion_id)]\<rparr>"
| "profile_to_protobuf (VoiceIntroRegistered companion_id asset_id file_url duration_seconds size_bytes) =
     \<lparr>pm_name = ''VoiceIntroRegistered'', pm_fields =
       [(''companion_id'', PStr companion_id), (''asset_id'', PStr asset_id), (''file_url'', PStr file_url),
        (''duration_seconds'', PInt32 duration_seconds), (''size_bytes'', PInt size_bytes)]\<rparr>"
| "profile_to_protobuf (VoiceIntroRejected companion_id file_url reason) =
     \<lparr>pm_name = ''VoiceIntroRejected'', pm_fields =
       [(''companion_id'', PStr companion_id), (''file_url'', PStr file_url), (''reason'', PStr reason)]\<rparr>"
| "profile_to_protobuf (AlbumImageRegistered companion_id asset_id file_url size_bytes) =
     \<lparr>pm_name = ''AlbumImageRegistered'', pm_fields =
       [(''companion_id'', PStr companion_id), (''asset_id'', PStr asset_id), (''file_url'', PStr file_url),
        (''size_bytes'', PInt size_bytes)]\<rparr>"

definition profile_event_type_of :: "proto_msg \<Rightarrow> string" where
  "profile_event_type_of m = ''profile.'' @ to_kebab_case (pm_name m) @ ''.v1''"

definition profile_publish :: "'s prof_session \<Rightarrow> profile_event \<Rightarrow> ('s, pexn, unit) eff" where
  "profile_publish S event =
     (let proto_msg = profile_to_protobuf event in
      bindE (liftE (prof_pb_json S proto_msg)) (\<lambda>payload.
      bindE (prof_uuid4 S) (\<lambda>event_id.
      prof_outbox_add S \<lparr>ob_id = None, ob_event_id = event_id, ob_event_type = profile_event_type_of proto_msg,
        ob_payload = payload, ob_created_at = None, ob_processed = False\<rparr>)))"

end
