(* ===== verification/Profile_Commands.thy ===== *)
theory Profile_Commands
  imports Profile_Store Json_Data
begin

text \<open>
  The application layer of the profile service: the command services for profiles, scenarios and media, the
  validation of the album, and the queries.  The object store is a port.
\<close>

section \<open>Ports\<close>

text \<open>\<open>object_size key\<close> is the \<open>ContentLength\<close> of \<open>get_object_metadata(key)\<close>.\<close>

record 's storage =
  generate_presigned_put_url :: "string \<Rightarrow> string \<Rightarrow> int \<Rightarrow> ('s, pexn, string) eff"
  object_size :: "string \<Rightarrow> ('s, pexn, int) eff"
  generate_presigned_get_url :: "string \<Rightarrow> int \<Rightarrow> ('s, pexn, string) eff"
  bracketed_ok :: "string \<Rightarrow> bool"

text \<open>\<open>urlparse(url).path.lstrip("/")\<close>, with the interpreter's check of bracketed hosts.\<close>

definition key_of_url :: "'s storage \<Rightarrow> string \<Rightarrow> pexn + string" where
  "key_of_url T url = (case url_key (bracketed_ok T) url of None \<Rightarrow> Inl (ValueErrorP ''Invalid IPv6 URL'') | Some k \<Rightarrow> Inr k)"

definition clean_cities :: "string list \<Rightarrow> pexn + location list" where
  "clean_cities available_cities = list_map_exn Location available_cities"

section \<open>Profiles\<close>

text \<open>The event \<open>ProfileCreated\<close> of a companion gets the cities as they were passed.\<close>

fun fill_cities :: "string list \<Rightarrow> profile_event \<Rightarrow> profile_event" where
  "fill_cities cs (ProfileCreated companion_id user_id display_name _) = ProfileCreated companion_id user_id display_name cs"
| "fill_cities cs (ProfileUpdated companion_id display_name bio _) = ProfileUpdated companion_id display_name bio cs"
| "fill_cities cs e = e"

definition create_profile ::
  "'s prof_session \<Rightarrow> string \<Rightarrow> string \<Rightarrow> string \<Rightarrow> string list \<Rightarrow> string \<Rightarrow> string \<Rightarrow> ('s, pexn, string) eff" where
  "create_profile S companion_id user_id display_name available_cities bio role =
     bindE (UserProfileRepository_find_by_id S user_id) (\<lambda>existing.
     if existing \<noteq> None then raise (ProfileAlreadyExistsError user_id)
     else
       let user_profile = UserProfile_create user_id display_name bio role in
       bindE (UserProfileRepository_save S user_profile) (\<lambda>_.
       bindE
         (if role = ''COMPANION''
          then
            bindE (liftE (clean_cities available_cities)) (\<lambda>cities.
            let companion_profile = CompanionProfile_create companion_id cities ''APPROVED'' in
            bindE (CompanionProfileRepository_save S companion_profile) (\<lambda>_.
            forE (profile_publish S) (fst (CompanionProfile_clear_events companion_profile))))
          else ret ()) (\<lambda>_.
       bindE
         (forE (\<lambda>event. profile_publish S (if role = ''COMPANION'' then fill_cities available_cities event else event))
            (fst (UserProfile_clear_events user_profile))) (\<lambda>_.
       ret user_id))))"

text \<open>The companion part of an update: a missing companion profile is created.\<close>

definition save_cities :: "'s prof_session \<Rightarrow> string \<Rightarrow> string list \<Rightarrow> ('s, pexn, unit) eff" where
  "save_cities S companion_id available_cities =
     bindE (CompanionProfileRepository_find_by_id S companion_id) (\<lambda>found.
     bindE (liftE (clean_cities available_cities)) (\<lambda>cities.
     let companion_profile =
       (case found of
          None \<Rightarrow> CompanionProfile_create companion_id cities ''APPROVED''
        | Some companion_profile \<Rightarrow> CompanionProfile_update companion_profile cities) in
     bindE (CompanionProfileRepository_save S companion_profile) (\<lambda>_.
     forE (profile_publish S) (fst (CompanionProfile_clear_events companion_profile)))))"

definition url_if_given :: "string option \<Rightarrow> pexn + media_url option" where
  "url_if_given avatar_url =
     (if given avatar_url then bindS (MediaUrl (the avatar_url)) (\<lambda>u. Inr (Some u)) else Inr None)"

definition update_profile ::
  "'s prof_session \<Rightarrow> string \<Rightarrow> string \<Rightarrow> string list \<Rightarrow> string option \<Rightarrow> string \<Rightarrow> ('s, pexn, unit) eff" where
  "update_profile S companion_id display_name available_cities avatar_url bio =
     bindE (UserProfileRepository_find_by_id S companion_id) (\<lambda>found.
     case found of
       None \<Rightarrow> raise (ProfileNotFoundError companion_id)
     | Some user_profile \<Rightarrow>
         bindE (liftE (url_if_given avatar_url)) (\<lambda>media_avatar.
         let user_profile = UserProfile_update user_profile display_name bio media_avatar (Some available_cities) in
         bindE (UserProfileRepository_save S user_profile) (\<lambda>_.
         bindE (if u_role user_profile = ''COMPANION'' then save_cities S companion_id available_cities else ret ()) (\<lambda>_.
         forE (profile_publish S) (fst (UserProfile_clear_events user_profile))))))"

text \<open>\<open>MediaUrl(avatar_url) if avatar_url is not None else user_profile.avatar_url\<close>.\<close>

definition url_or_old :: "string option \<Rightarrow> media_url option \<Rightarrow> pexn + media_url option" where
  "url_or_old avatar_url old = (case avatar_url of None \<Rightarrow> Inr old | Some url \<Rightarrow> bindS (MediaUrl url) (\<lambda>u. Inr (Some u)))"

definition patch_profile ::
  "'s prof_session \<Rightarrow> string \<Rightarrow> string option \<Rightarrow> string option \<Rightarrow> string list option \<Rightarrow> string option \<Rightarrow>
   ('s, pexn, unit) eff" where
  "patch_profile S companion_id display_name bio available_cities avatar_url =
     bindE (UserProfileRepository_find_by_id S companion_id) (\<lambda>found.
     case found of
       None \<Rightarrow> raise (ProfileNotFoundError companion_id)
     | Some user_profile \<Rightarrow>
         let new_display_name = (case display_name of None \<Rightarrow> u_display_name user_profile | Some n \<Rightarrow> n);
             new_bio = (case bio of None \<Rightarrow> u_bio user_profile | Some b \<Rightarrow> b) in
         bindE (liftE (url_or_old avatar_url (u_avatar_url user_profile))) (\<lambda>new_avatar.
         let user_profile = UserProfile_update user_profile new_display_name new_bio new_avatar available_cities in
         bindE (UserProfileRepository_save S user_profile) (\<lambda>_.
         bindE
           (if u_role user_profile = ''COMPANION''
            then (case available_cities of None \<Rightarrow> ret () | Some cs \<Rightarrow> save_cities S companion_id cs)
            else ret ()) (\<lambda>_.
         forE (profile_publish S) (fst (UserProfile_clear_events user_profile))))))"

definition upgrade_profile_role :: "'s prof_session \<Rightarrow> string \<Rightarrow> ('s, pexn, unit) eff" where
  "upgrade_profile_role S user_id =
     bindE (UserProfileRepository_find_by_id S user_id) (\<lambda>found.
     case found of
       None \<Rightarrow> raise (ProfileNotFoundError user_id)
     | Some user_profile \<Rightarrow>
         let user_profile = upgrade_to_companion user_profile in
         bindE (UserProfileRepository_save S user_profile) (\<lambda>_.
         bindE (CompanionProfileRepository_find_by_id S user_id) (\<lambda>companion_found.
         bindE
           (if companion_found = None
            then
              let companion_profile = CompanionProfile_create user_id [] ''APPROVED'' in
              bindE (CompanionProfileRepository_save S companion_profile) (\<lambda>_.
              forE (profile_publish S) (fst (CompanionProfile_clear_events companion_profile)))
            else ret ()) (\<lambda>_.
         forE (profile_publish S) (fst (UserProfile_clear_events user_profile))))))"

section \<open>Scenarios\<close>

definition create_scenario ::
  "'s prof_session \<Rightarrow> string \<Rightarrow> string \<Rightarrow> string \<Rightarrow> int \<Rightarrow> int \<Rightarrow> ('s, pexn, string) eff" where
  "create_scenario S companion_id title description price duration_minutes =
     bindE (CompanionProfileRepository_find_by_id S companion_id) (\<lambda>profile.
     if profile = None then raise (ProfileNotFoundError companion_id)
     else
       bindE (ScenarioRepository_count_by_companion_id S companion_id) (\<lambda>current_count.
       if 5 \<le> current_count then raise (ScenarioLimitExceededError companion_id 5)
       else
         bindE (liftE (Money_p price)) (\<lambda>money.
         bindE (liftE (Duration duration_minutes)) (\<lambda>dur.
         bindE (prof_uuid4 S) (\<lambda>scenario_id.
         let scenario = Scenario_create scenario_id companion_id title description money dur in
         bindE (ScenarioRepository_save S scenario) (\<lambda>_.
         bindE (forE (profile_publish S) (fst (Scenario_clear_events scenario))) (\<lambda>_.
         ret scenario_id)))))))"

definition update_scenario ::
  "'s prof_session \<Rightarrow> string \<Rightarrow> string \<Rightarrow> string \<Rightarrow> string \<Rightarrow> int \<Rightarrow> int \<Rightarrow> string \<Rightarrow> ('s, pexn, unit) eff" where
  "update_scenario S scenario_id companion_id title description price duration_minutes status =
     bindE (ScenarioRepository_find_by_id S scenario_id) (\<lambda>found.
     case found of
       None \<Rightarrow> raise (ScenarioNotFoundError scenario_id)
     | Some scenario \<Rightarrow>
         if sc_companion_id scenario \<noteq> companion_id then raise (ScenarioNotFoundError scenario_id)
         else
           bindE (liftE (Money_p price)) (\<lambda>money.
           bindE (liftE (Duration duration_minutes)) (\<lambda>dur.
           let scenario = Scenario_update scenario title description money dur status in
           bindE (ScenarioRepository_save S scenario) (\<lambda>_.
           forE (profile_publish S) (fst (Scenario_clear_events scenario))))))"

definition delete_scenario :: "'s prof_session \<Rightarrow> string \<Rightarrow> string \<Rightarrow> ('s, pexn, unit) eff" where
  "delete_scenario S scenario_id companion_id =
     bindE (ScenarioRepository_find_by_id S scenario_id) (\<lambda>found.
     case found of
       None \<Rightarrow> raise (ScenarioNotFoundError scenario_id)
     | Some scenario \<Rightarrow>
         if sc_companion_id scenario \<noteq> companion_id then raise (ScenarioNotFoundError scenario_id)
         else
           let scenario = Scenario_delete scenario in
           bindE (ScenarioRepository_delete S scenario_id companion_id) (\<lambda>_.
           forE (profile_publish S) (fst (Scenario_clear_events scenario))))"

section \<open>Media\<close>

definition validate_album_limit :: "'s prof_session \<Rightarrow> string \<Rightarrow> int \<Rightarrow> ('s, pexn, unit) eff" where
  "validate_album_limit S companion_id max_limit =
     bindE (MediaAssetRepository_find_by_companion_id_and_type S companion_id ''ALBUM'') (\<lambda>current_albums.
     if max_limit \<le> int (length current_albums) then raise (AlbumLimitExceededError companion_id max_limit) else ret ())"

text \<open>\<open>content_type.split("/")[-1] if "/" in content_type else dflt\<close>.\<close>

definition extension :: "string \<Rightarrow> string \<Rightarrow> string" where
  "extension content_type dflt =
     (if CHR ''/'' \<in> set content_type then rev (before {CHR ''/''} (rev content_type)) else dflt)"

text \<open>\<open>self.storage_public_url.rstrip('/')\<close> and the key.\<close>

definition resolve_file_url :: "string \<Rightarrow> string \<Rightarrow> string" where
  "resolve_file_url storage_public_url key =
     rev (dropWhile (\<lambda>c. c = CHR ''/'') (rev storage_public_url)) @ ''/'' @ key"

record presigned =
  uploadUrl :: string
  fileUrl :: string

definition request_presigned_url ::
  "'s prof_session \<Rightarrow> 's storage \<Rightarrow> string \<Rightarrow> string \<Rightarrow> string \<Rightarrow> int \<Rightarrow> int option \<Rightarrow> string \<Rightarrow> ('s, pexn, presigned) eff" where
  "request_presigned_url S T storage_public_url companion_id asset_type size_bytes duration_seconds content_type =
     bindE (CompanionProfileRepository_find_by_id S companion_id) (\<lambda>profile.
     if profile = None then raise (ProfileNotFoundError companion_id)
     else
       bindE
         (if asset_type = ''VOICE'' then
            (let d = (case duration_seconds of None \<Rightarrow> 0 | Some d \<Rightarrow> d) in
             if d = 0 \<or> 30 < d then raise (VoiceIntroDurationExceededError d)
             else if 5 * 1024 * 1024 < size_bytes then raise (VoiceIntroSizeExceededError size_bytes)
             else ret (''companions/'' @ companion_id @ ''/voice_intro.'' @ extension content_type ''mp3''))
          else if asset_type = ''IMAGE'' then
            (if 2 * 1024 * 1024 < size_bytes then raise (AlbumImageSizeExceededError size_bytes)
             else
               bindE (validate_album_limit S companion_id 4) (\<lambda>_.
               bindE (prof_uuid4 S) (\<lambda>u.
               ret (''companions/'' @ companion_id @ ''/albums/'' @ u @ ''.'' @ extension content_type ''png''))))
          else raise (ValueErrorP (''Invalid asset type: '' @ asset_type))) (\<lambda>key.
       bindE (generate_presigned_put_url T key content_type size_bytes) (\<lambda>upload_url.
       ret \<lparr>uploadUrl = upload_url, fileUrl = resolve_file_url storage_public_url key\<rparr>)))"

text \<open>\<open>actual_size > declared_size * 1.1\<close>, on floats; the product of a huge integer raises.\<close>

definition rate_11 :: py_float where
  "rate_11 = Fin 4953959590107546 (-52)"

fun int_gt_float :: "int \<Rightarrow> py_float \<Rightarrow> bool" where
  "int_gt_float i (Fin m e) = (if 0 \<le> e then i > m * 2 ^ nat e else i * 2 ^ nat (- e) > m)"
| "int_gt_float i NInf = True"
| "int_gt_float i PInf = False"
| "int_gt_float i NaN = False"

definition far_larger :: "int \<Rightarrow> int \<Rightarrow> pexn + bool" where
  "far_larger actual_size declared_size =
     (case float_of_int declared_size of
        Inl e \<Rightarrow> Inl (PyErrorP ''int too large to convert to float'')
      | Inr d \<Rightarrow> Inr (int_gt_float actual_size (float_mul d rate_11)))"

definition double_check_s3_metadata :: "'s storage \<Rightarrow> string \<Rightarrow> int \<Rightarrow> ('s, pexn, unit) eff" where
  "double_check_s3_metadata T file_url declared_size =
     tryE
       (bindE (liftE (key_of_url T file_url)) (\<lambda>key.
        bindE (object_size T key) (\<lambda>actual_size.
        if actual_size \<noteq> declared_size
        then
          bindE (liftE (far_larger actual_size declared_size)) (\<lambda>larger.
          if larger
          then raise (ValueErrorP (''Actual uploaded size '' @ show_int actual_size @ '' bytes exceeds declared size '' @
                 show_int declared_size @ '' bytes''))
          else ret ())
        else ret ())))
       (\<lambda>_. ret ())"

definition register_voice_intro ::
  "'s prof_session \<Rightarrow> 's storage \<Rightarrow> string \<Rightarrow> string \<Rightarrow> int \<Rightarrow> int \<Rightarrow> ('s, pexn, string) eff" where
  "register_voice_intro S T companion_id file_url duration_seconds size_bytes =
     bindE (double_check_s3_metadata T file_url size_bytes) (\<lambda>_.
     bindE (liftE (MediaUrl file_url)) (\<lambda>media_url.
     bindE (prof_uuid4 S) (\<lambda>asset_id.
     bindE (liftE (create_voice_intro asset_id companion_id media_url size_bytes duration_seconds)) (\<lambda>media.
     bindE (MediaAssetRepository_find_by_companion_id_and_type S companion_id ''VOICE_INTRO'') (\<lambda>existing_voices.
     bindE (forE (\<lambda>old_media. MediaAssetRepository_delete S (ma_asset_id old_media)) existing_voices) (\<lambda>_.
     bindE (MediaAssetRepository_save S media) (\<lambda>_.
     bindE (forE (profile_publish S) (fst (MediaAsset_clear_events media))) (\<lambda>_.
     ret (ma_asset_id media)))))))))"

definition register_album_image ::
  "'s prof_session \<Rightarrow> 's storage \<Rightarrow> string \<Rightarrow> string \<Rightarrow> int \<Rightarrow> ('s, pexn, string) eff" where
  "register_album_image S T companion_id file_url size_bytes =
     bindE (validate_album_limit S companion_id 4) (\<lambda>_.
     bindE (double_check_s3_metadata T file_url size_bytes) (\<lambda>_.
     bindE (liftE (MediaUrl file_url)) (\<lambda>media_url.
     bindE (prof_uuid4 S) (\<lambda>asset_id.
     bindE (liftE (create_album_image asset_id companion_id media_url size_bytes)) (\<lambda>media.
     bindE (MediaAssetRepository_save S media) (\<lambda>_.
     bindE (forE (profile_publish S) (fst (MediaAsset_clear_events media))) (\<lambda>_.
     ret (ma_asset_id media))))))))"

definition delete_media :: "'s prof_session \<Rightarrow> string \<Rightarrow> string \<Rightarrow> ('s, pexn, unit) eff" where
  "delete_media S companion_id asset_id =
     bindE (MediaAssetRepository_find_by_id S asset_id) (\<lambda>found.
     case found of
       None \<Rightarrow> raise (MediaAssetNotFoundError asset_id)
     | Some asset \<Rightarrow>
         if ma_companion_id asset \<noteq> companion_id then raise (MediaAssetNotFoundError asset_id)
         else MediaAssetRepository_delete S asset_id)"

section \<open>Queries\<close>

definition get_companion_media :: "'s prof_session \<Rightarrow> string \<Rightarrow> ('s, pexn, media_asset list) eff" where
  "get_companion_media S companion_id =
     bindE (CompanionProfileRepository_find_by_id S companion_id) (\<lambda>profile.
     if profile = None then raise (ProfileNotFoundError companion_id)
     else
       bindE (MediaAssetRepository_find_by_companion_id_and_type S companion_id ''VOICE_INTRO'') (\<lambda>voice_intros.
       bindE (MediaAssetRepository_find_by_companion_id_and_type S companion_id ''ALBUM'') (\<lambda>albums.
       ret (voice_intros @ albums))))"

text \<open>The rating \<open>4.9\<close> and the number of reviews are constants of the code.\<close>

definition rating_49 :: py_float where
  "rating_49 = Fin 5516909543528858 (-50)"

record companion_detail =
  cd_companionId :: string
  cd_displayName :: string
  cd_avatarUrl :: "string option"
  cd_bio :: string
  cd_role :: string
  cd_availableCities :: "string list"
  cd_voiceIntroUrl :: "string option"
  cd_albumUrls :: "string list"
  cd_averageRating :: py_float
  cd_totalReviews :: int
  cd_status :: string
  cd_scenarios :: "scenario list"

definition get_companion_detail :: "'s prof_session \<Rightarrow> 's storage \<Rightarrow> string \<Rightarrow> bool \<Rightarrow> ('s, pexn, companion_detail) eff" where
  "get_companion_detail S T companion_id public =
     bindE (UserProfileRepository_find_by_id S companion_id) (\<lambda>user_found.
     case user_found of
       None \<Rightarrow> raise (ProfileNotFoundError companion_id)
     | Some user_profile \<Rightarrow>
         bindE (CompanionProfileRepository_find_by_id S companion_id) (\<lambda>companion_profile.
         let status_val = (case companion_profile of None \<Rightarrow> ''APPROVED'' | Some p \<Rightarrow> c_status p) in
         if public \<and> (u_role user_profile \<noteq> ''COMPANION'' \<or> status_val \<noteq> ''APPROVED'')
         then raise (ProfileNotAvailableError companion_id)
         else
           bindE (ScenarioRepository_find_by_companion_id S companion_id) (\<lambda>scs.
           bindE (MediaAssetRepository_find_by_companion_id_and_type S companion_id ''VOICE_INTRO'') (\<lambda>voice_intros.
           bindE (MediaAssetRepository_find_by_companion_id_and_type S companion_id ''ALBUM'') (\<lambda>albums.
           bindE
             (case voice_intros of
                [] \<Rightarrow> ret None
              | v # _ \<Rightarrow>
                  bindE (liftE (key_of_url T (mu_url (ma_file_url v)))) (\<lambda>key.
                  bindE (generate_presigned_get_url T key 300) (\<lambda>url. ret (Some url)))) (\<lambda>voice_url.
           ret \<lparr>cd_companionId = companion_id, cd_displayName = u_display_name user_profile,
                cd_avatarUrl = map_option mu_url (u_avatar_url user_profile), cd_bio = u_bio user_profile,
                cd_role = u_role user_profile,
                cd_availableCities = (case companion_profile of None \<Rightarrow> [] | Some p \<Rightarrow> map loc_city (c_available_cities p)),
                cd_voiceIntroUrl = voice_url, cd_albumUrls = map (\<lambda>a. mu_url (ma_file_url a)) albums,
                cd_averageRating = rating_49, cd_totalReviews = 150, cd_status = status_val,
                cd_scenarios = filter (\<lambda>sc. sc_status sc = ''ACTIVE'' \<or> status_val = ''PENDING'') scs\<rparr>))))))"

definition get_my_profile :: "'s prof_session \<Rightarrow> 's storage \<Rightarrow> string \<Rightarrow> ('s, pexn, companion_detail) eff" where
  "get_my_profile S T user_id =
     bindE (UserProfileRepository_find_by_id S user_id) (\<lambda>user_profile.
     if user_profile = None then raise (ProfileNotFoundError (''user_id: '' @ user_id))
     else get_companion_detail S T user_id False)"

record client_view =
  cv_clientId :: string
  cv_displayName :: string
  cv_avatarUrl :: "string option"
  cv_bio :: string
  cv_role :: string

definition get_client_profile :: "'s prof_session \<Rightarrow> string \<Rightarrow> ('s, pexn, client_view) eff" where
  "get_client_profile S client_id =
     bindE (UserProfileRepository_find_by_id S client_id) (\<lambda>found.
     case found of
       None \<Rightarrow> raise (ProfileNotFoundError client_id)
     | Some user_profile \<Rightarrow>
         if u_role user_profile \<noteq> ''CLIENT'' then raise (ProfileNotAvailableError client_id)
         else ret \<lparr>cv_clientId = client_id, cv_displayName = u_display_name user_profile,
                cv_avatarUrl = map_option mu_url (u_avatar_url user_profile), cv_bio = u_bio user_profile,
                cv_role = u_role user_profile\<rparr>)"

record scenario_snapshot =
  ss_scenario_id :: string
  ss_companion_id :: string
  ss_title :: string
  ss_price :: int
  ss_duration_minutes :: int

definition get_scenario_snapshot :: "'s prof_session \<Rightarrow> string \<Rightarrow> ('s, pexn, scenario_snapshot) eff" where
  "get_scenario_snapshot S scenario_id =
     bindE (ScenarioRepository_find_by_id S scenario_id) (\<lambda>found.
     case found of
       None \<Rightarrow> raise (ScenarioNotFoundError scenario_id)
     | Some sc \<Rightarrow>
         ret \<lparr>ss_scenario_id = sc_scenario_id sc, ss_companion_id = sc_companion_id sc, ss_title = sc_title sc,
              ss_price = money_amount (sc_price sc), ss_duration_minutes = minutes (sc_duration_minutes sc)\<rparr>)"

record search_card =
  card_companionId :: string
  card_displayName :: string
  card_avatarUrl :: "string option"
  card_averageRating :: py_float
  card_city :: string
  card_startingPrice :: int

text \<open>\<open>min\<close> of a list that is not empty.\<close>

fun py_min :: "int list \<Rightarrow> int" where
  "py_min [] = 0"
| "py_min (x # xs) = fold min xs x"

definition search_card_of :: "'s prof_session \<Rightarrow> companion_profile \<Rightarrow> ('s, pexn, search_card) eff" where
  "search_card_of S companion =
     bindE (UserProfileRepository_find_by_id S (c_companion_id companion)) (\<lambda>user_prof.
     bindE (ScenarioRepository_find_by_companion_id S (c_companion_id companion)) (\<lambda>scs.
     let active_scenarios = filter (\<lambda>s. sc_status s = ''ACTIVE'') scs;
         starting_price =
           (if active_scenarios \<noteq> [] then py_min (map (\<lambda>s. money_amount (sc_price s)) active_scenarios) else 0) in
     ret \<lparr>card_companionId = c_companion_id companion,
          card_displayName = (case user_prof of None \<Rightarrow> ''Companion'' | Some u \<Rightarrow> u_display_name u),
          card_avatarUrl = (case user_prof of None \<Rightarrow> None | Some u \<Rightarrow> map_option mu_url (u_avatar_url u)),
          card_averageRating = rating_49,
          card_city = (case c_available_cities companion of [] \<Rightarrow> ''Hanoi'' | c # _ \<Rightarrow> loc_city c),
          card_startingPrice = starting_price\<rparr>))"

record search_result =
  sr_data :: "search_card list"
  sr_total :: nat
  sr_page :: int
  sr_pageSize :: int

definition search_companions ::
  "'s prof_session \<Rightarrow> string option \<Rightarrow> string option \<Rightarrow> int option \<Rightarrow> int option \<Rightarrow> int \<Rightarrow> int \<Rightarrow> ('s, pexn, search_result) eff" where
  "search_companions S name city min_price max_price page page_size =
     (let offset = (page - 1) * page_size in
      bindE (search_approved S name city min_price max_price offset page_size) (\<lambda>(companions, total).
      bindE (mapE (search_card_of S) companions) (\<lambda>cards.
      ret \<lparr>sr_data = cards, sr_total = total, sr_page = page, sr_pageSize = page_size\<rparr>)))"

end
