(* ===== verification/Profile_Interfaces.thy ===== *)
theory Profile_Interfaces
  imports Profile_Commands Web
begin

text \<open>
  The outer layer of the profile service: sessions, the S3 adapter, the gRPC servicer, the REST routes and
  the messages of the outbox worker.
\<close>

section \<open>Sessions\<close>

text \<open>\<open>async with session_factory() as session\<close>: the session is closed on every way out.\<close>

definition in_prof_session :: "'s prof_session \<Rightarrow> ('s, pexn, 'a) eff \<Rightarrow> ('s, pexn, 'a) eff" where
  "in_prof_session S body =
     bindE (prof_open S) (\<lambda>_ s.
       case body s of (r, s') \<Rightarrow> (case prof_close S s' of (Inl e, s'') \<Rightarrow> (Inl e, s'') | (Inr _, s'') \<Rightarrow> (r, s'')))"

text \<open>
  The dependency \<open>get_db_session\<close> of the routes: it opens a session and closes it after the response; the
  routes commit themselves.
\<close>

definition prof_get_db_session :: "'s prof_session \<Rightarrow> ('s, pexn http_exn, 'a) eff \<Rightarrow> ('s, pexn http_exn, 'a) eff" where
  "prof_get_db_session S route =
     bindE (map_err Unhandled (prof_open S)) (\<lambda>_ s.
       case route s of (r, s') \<Rightarrow> (case prof_close S s' of (_, s'') \<Rightarrow> (r, s'')))"

section \<open>The S3 adapter\<close>

text \<open>
  The client of \<open>boto3\<close>: \<open>boto_presign method bucket key content_type expires\<close>, and the \<open>ContentLength\<close> of
  \<open>head_object\<close>, if the response has one.
\<close>

record 's boto_client =
  boto_presign :: "string \<Rightarrow> string \<Rightarrow> string \<Rightarrow> string option \<Rightarrow> int \<Rightarrow> ('s, pexn, string) eff"
  boto_head_object :: "string \<Rightarrow> string \<Rightarrow> ('s, pexn, int option) eff"

definition S3_presigned_put_url :: "'s boto_client \<Rightarrow> string \<Rightarrow> string \<Rightarrow> string \<Rightarrow> int \<Rightarrow> ('s, pexn, string) eff" where
  "S3_presigned_put_url s3_client bucket_name key content_type content_length =
     boto_presign s3_client ''put_object'' bucket_name key (Some content_type) 3600"

definition S3_object_size :: "'s boto_client \<Rightarrow> string \<Rightarrow> string \<Rightarrow> ('s, pexn, int) eff" where
  "S3_object_size s3_client bucket_name key =
     bindE (boto_head_object s3_client bucket_name key) (\<lambda>len. ret (case len of None \<Rightarrow> 0 | Some n \<Rightarrow> n))"

definition S3_presigned_get_url :: "'s boto_client \<Rightarrow> string \<Rightarrow> string \<Rightarrow> int \<Rightarrow> ('s, pexn, string) eff" where
  "S3_presigned_get_url s3_client bucket_name key expires_in =
     boto_presign s3_client ''get_object'' bucket_name key None expires_in"

definition S3Storage :: "'s boto_client \<Rightarrow> string \<Rightarrow> (string \<Rightarrow> bool) \<Rightarrow> 's storage" where
  "S3Storage s3_client bucket_name brackets =
     \<lparr>generate_presigned_put_url = S3_presigned_put_url s3_client bucket_name,
      object_size = S3_object_size s3_client bucket_name,
      generate_presigned_get_url = S3_presigned_get_url s3_client bucket_name,
      bracketed_ok = brackets\<rparr>"

section \<open>gRPC servicer\<close>

definition profile_handle_exception :: "pexn \<Rightarrow> 'a grpc_reply" where
  "profile_handle_exception e =
     (if is_profile_DomainError e then Failure INVALID_ARGUMENT (pexn_str e) else Failure INTERNAL ''Internal server error'')"

record command_reply =
  reply_id :: string
  reply_status :: string
  reply_message :: string

text \<open>A command in a session of its own, committed, answered with a reply.\<close>

definition grpc_command ::
  "'s prof_session \<Rightarrow> ('s, pexn, 'a) eff \<Rightarrow> ('a \<Rightarrow> command_reply) \<Rightarrow> ('s, pexn, command_reply grpc_reply) eff" where
  "grpc_command S cmd reply =
     tryE
       (bindE (in_prof_session S (bindE cmd (\<lambda>x. bindE (prof_commit S) (\<lambda>_. ret x)))) (\<lambda>x.
        ret (Reply (reply x))))
       (\<lambda>e. ret (profile_handle_exception e))"

definition companion_of_request :: "(string \<times> string) list \<Rightarrow> string \<Rightarrow> string" where
  "companion_of_request md req_companion_id = py_or req_companion_id (metadata_get md ''user-id'')"

definition CreateScenario ::
  "'s prof_session \<Rightarrow> (string \<times> string) list \<Rightarrow> string \<Rightarrow> string \<Rightarrow> string \<Rightarrow> int \<Rightarrow> int \<Rightarrow>
   ('s, pexn, command_reply grpc_reply) eff" where
  "CreateScenario S md req_companion_id title description price duration_minutes =
     grpc_command S
       (create_scenario S (companion_of_request md req_companion_id) title description price duration_minutes)
       (\<lambda>scenario_id. \<lparr>reply_id = scenario_id, reply_status = ''SUCCESS'', reply_message = ''Scenario created successfully''\<rparr>)"

definition UpdateScenario ::
  "'s prof_session \<Rightarrow> (string \<times> string) list \<Rightarrow> string \<Rightarrow> string \<Rightarrow> string \<Rightarrow> string \<Rightarrow> int \<Rightarrow> int \<Rightarrow> string \<Rightarrow>
   ('s, pexn, command_reply grpc_reply) eff" where
  "UpdateScenario S md scenario_id req_companion_id title description price duration_minutes status =
     grpc_command S
       (update_scenario S scenario_id (companion_of_request md req_companion_id) title description price duration_minutes status)
       (\<lambda>_. \<lparr>reply_id = scenario_id, reply_status = ''SUCCESS'', reply_message = ''Scenario updated successfully''\<rparr>)"

definition DeleteScenario ::
  "'s prof_session \<Rightarrow> (string \<times> string) list \<Rightarrow> string \<Rightarrow> string \<Rightarrow> ('s, pexn, command_reply grpc_reply) eff" where
  "DeleteScenario S md scenario_id req_companion_id =
     grpc_command S
       (delete_scenario S scenario_id (companion_of_request md req_companion_id))
       (\<lambda>_. \<lparr>reply_id = scenario_id, reply_status = ''SUCCESS'', reply_message = ''Scenario deleted successfully''\<rparr>)"

definition RegisterVoiceIntro ::
  "'s prof_session \<Rightarrow> 's storage \<Rightarrow> (string \<times> string) list \<Rightarrow> string \<Rightarrow> string \<Rightarrow> int \<Rightarrow> int \<Rightarrow>
   ('s, pexn, command_reply grpc_reply) eff" where
  "RegisterVoiceIntro S T md req_companion_id file_url duration_seconds size_bytes =
     grpc_command S
       (register_voice_intro S T (companion_of_request md req_companion_id) file_url duration_seconds size_bytes)
       (\<lambda>asset_id. \<lparr>reply_id = asset_id, reply_status = ''APPROVED'', reply_message = ''Voice intro registered successfully''\<rparr>)"

definition RegisterAlbumImage ::
  "'s prof_session \<Rightarrow> 's storage \<Rightarrow> (string \<times> string) list \<Rightarrow> string \<Rightarrow> string \<Rightarrow> int \<Rightarrow>
   ('s, pexn, command_reply grpc_reply) eff" where
  "RegisterAlbumImage S T md req_companion_id file_url size_bytes =
     grpc_command S
       (register_album_image S T (companion_of_request md req_companion_id) file_url size_bytes)
       (\<lambda>asset_id. \<lparr>reply_id = asset_id, reply_status = ''APPROVED'', reply_message = ''Album image registered successfully''\<rparr>)"

definition GetScenarioSnapshot :: "'s prof_session \<Rightarrow> string \<Rightarrow> ('s, pexn, scenario_snapshot grpc_reply) eff" where
  "GetScenarioSnapshot S scenario_id =
     tryE
       (bindE (in_prof_session S (get_scenario_snapshot S scenario_id)) (\<lambda>snapshot. ret (Reply snapshot)))
       (\<lambda>e. ret (profile_handle_exception e))"

section \<open>REST: requests\<close>

record profile_auth_info =
  ai_user_id :: string
  ai_user_role :: "string option"

text \<open>The status and the address of the user are carried along and never read.\<close>

definition profile_get_auth_info :: "string option \<Rightarrow> string option \<Rightarrow> pexn http_exn + profile_auth_info" where
  "profile_get_auth_info user_id user_role =
     (if given user_id then Inr \<lparr>ai_user_id = the user_id, ai_user_role = user_role\<rparr>
      else Inl (HTTPException 401 ''User authentication missing''))"

definition PresignedUrlRequest_valid :: "string \<Rightarrow> int \<Rightarrow> int option \<Rightarrow> bool" where
  "PresignedUrlRequest_valid assetType sizeBytes durationSeconds \<longleftrightarrow>
     (if assetType = ''VOICE''
      then (case durationSeconds of None \<Rightarrow> False | Some d \<Rightarrow> 0 < d \<and> d \<le> 30) \<and> sizeBytes \<le> 5 * 1024 * 1024
      else if assetType = ''IMAGE'' then sizeBytes \<le> 2 * 1024 * 1024
      else False)"

definition RegisterMediaRequest_valid :: "string \<Rightarrow> bool" where
  "RegisterMediaRequest_valid assetType \<longleftrightarrow> assetType = ''IMAGE'' \<or> assetType = ''VOICE''"

section \<open>REST: routes\<close>

text \<open>The common \<open>except\<close> clauses: a domain error has the given status, anything else is 500.\<close>

definition route_errors :: "int \<Rightarrow> ('s, pexn, 'a) eff \<Rightarrow> ('s, pexn http_exn, 'a) eff" where
  "route_errors code m =
     map_err (\<lambda>e. if is_profile_DomainError e then HTTPException code (pexn_str e) else HTTPException 500 (pexn_str e)) m"

definition companions_only :: "profile_auth_info \<Rightarrow> ('s, pexn http_exn, 'a) eff \<Rightarrow> ('s, pexn http_exn, 'a) eff" where
  "companions_only auth m =
     (if ai_user_role auth \<noteq> Some ''COMPANION''
      then raise (HTTPException 403 ''Only companions can manage media assets / scenarios'') else m)"

definition committed :: "'s prof_session \<Rightarrow> ('s, pexn, 'a) eff \<Rightarrow> ('s, pexn, 'a) eff" where
  "committed S m = bindE m (\<lambda>x. bindE (prof_commit S) (\<lambda>_. ret x))"

text \<open>A route for an authenticated caller; \<open>valid\<close> is the validation of its input.\<close>

definition auth_route ::
  "'s prof_session \<Rightarrow> string option \<Rightarrow> string option \<Rightarrow> bool \<Rightarrow> (profile_auth_info \<Rightarrow> ('s, pexn http_exn, 'a) eff) \<Rightarrow>
   ('s, pexn http_exn, 'a) eff" where
  "auth_route S user_id user_role valid body =
     bindE (liftE (profile_get_auth_info user_id user_role)) (\<lambda>auth.
     if \<not> valid then raise RequestValidationError else prof_get_db_session S (body auth))"

definition search_companions_route ::
  "'s prof_session \<Rightarrow> string option \<Rightarrow> string option \<Rightarrow> int option \<Rightarrow> int option \<Rightarrow> int \<Rightarrow> int \<Rightarrow>
   ('s, pexn http_exn, search_result) eff" where
  "search_companions_route S name city min_price max_price page page_size =
     (if page < 1 \<or> page_size < 1 \<or> 50 < page_size then raise RequestValidationError
      else prof_get_db_session S
        (map_err (\<lambda>e. HTTPException 500 (''Failed to query catalogue: '' @ pexn_str e))
           (search_companions S name city min_price max_price page page_size)))"

definition get_companion_detail_route ::
  "'s prof_session \<Rightarrow> 's storage \<Rightarrow> string \<Rightarrow> ('s, pexn http_exn, companion_detail) eff" where
  "get_companion_detail_route S T companion_id =
     prof_get_db_session S (route_errors 404 (get_companion_detail S T companion_id True))"

definition get_client_profile_route ::
  "'s prof_session \<Rightarrow> string option \<Rightarrow> string option \<Rightarrow> string \<Rightarrow> ('s, pexn http_exn, client_view) eff" where
  "get_client_profile_route S user_id user_role target_user_id =
     auth_route S user_id user_role True (\<lambda>auth. route_errors 404 (get_client_profile S target_user_id))"

definition get_my_profile_route ::
  "'s prof_session \<Rightarrow> 's storage \<Rightarrow> string option \<Rightarrow> string option \<Rightarrow> ('s, pexn http_exn, companion_detail) eff" where
  "get_my_profile_route S T user_id user_role =
     auth_route S user_id user_role True (\<lambda>auth. route_errors 404 (get_my_profile S T (ai_user_id auth)))"

definition update_my_profile_route ::
  "'s prof_session \<Rightarrow> string option \<Rightarrow> string option \<Rightarrow> string \<Rightarrow> string option \<Rightarrow> string list \<Rightarrow> string option \<Rightarrow>
   ('s, pexn http_exn, unit) eff" where
  "update_my_profile_route S user_id user_role displayName bio availableCities avatarUrl =
     auth_route S user_id user_role True (\<lambda>auth.
       route_errors 400 (committed S
         (update_profile S (ai_user_id auth) displayName availableCities avatarUrl (case bio of None \<Rightarrow> [] | Some b \<Rightarrow> b))))"

definition patch_my_profile_route ::
  "'s prof_session \<Rightarrow> string option \<Rightarrow> string option \<Rightarrow> string option \<Rightarrow> string option \<Rightarrow> string list option \<Rightarrow> string option \<Rightarrow>
   ('s, pexn http_exn, unit) eff" where
  "patch_my_profile_route S user_id user_role displayName bio availableCities avatarUrl =
     auth_route S user_id user_role True (\<lambda>auth.
       route_errors 400 (committed S (patch_profile S (ai_user_id auth) displayName bio availableCities avatarUrl)))"

definition request_presigned_url_route ::
  "'s prof_session \<Rightarrow> 's storage \<Rightarrow> string \<Rightarrow> string option \<Rightarrow> string option \<Rightarrow> string \<Rightarrow> int \<Rightarrow> int option \<Rightarrow> string \<Rightarrow>
   ('s, pexn http_exn, presigned) eff" where
  "request_presigned_url_route S T storage_public_url user_id user_role assetType sizeBytes durationSeconds contentType =
     auth_route S user_id user_role (PresignedUrlRequest_valid assetType sizeBytes durationSeconds) (\<lambda>auth.
       companions_only auth (route_errors 400
         (request_presigned_url S T storage_public_url (ai_user_id auth) assetType sizeBytes durationSeconds contentType)))"

definition list_my_media_route ::
  "'s prof_session \<Rightarrow> string option \<Rightarrow> string option \<Rightarrow> ('s, pexn http_exn, media_asset list) eff" where
  "list_my_media_route S user_id user_role =
     auth_route S user_id user_role True (\<lambda>auth.
       companions_only auth (route_errors 400 (get_companion_media S (ai_user_id auth))))"

text \<open>The size comes from the object store; when that fails for any reason it is 0.\<close>

definition stored_size :: "'s storage \<Rightarrow> string \<Rightarrow> ('s, pexn, int) eff" where
  "stored_size T file_url =
     tryE (bindE (liftE (key_of_url T file_url)) (\<lambda>key. object_size T key)) (\<lambda>_. ret 0)"

record media_reply =
  mr_assetId :: string
  mr_status :: string
  mr_message :: string

definition register_my_media_route ::
  "'s prof_session \<Rightarrow> 's storage \<Rightarrow> string option \<Rightarrow> string option \<Rightarrow> string \<Rightarrow> string \<Rightarrow> ('s, pexn http_exn, media_reply) eff" where
  "register_my_media_route S T user_id user_role assetType file_url =
     auth_route S user_id user_role (RegisterMediaRequest_valid assetType) (\<lambda>auth.
       companions_only auth (route_errors 400 (committed S
         (bindE (stored_size T file_url) (\<lambda>size_bytes.
          if assetType = ''IMAGE''
          then bindE (register_album_image S T (ai_user_id auth) file_url size_bytes) (\<lambda>asset_id.
            ret \<lparr>mr_assetId = asset_id, mr_status = ''APPROVED'', mr_message = ''Album image registered successfully''\<rparr>)
          else bindE (register_voice_intro S T (ai_user_id auth) file_url 30 size_bytes) (\<lambda>asset_id.
            ret \<lparr>mr_assetId = asset_id, mr_status = ''APPROVED'', mr_message = ''Voice intro registered successfully''\<rparr>))))))"

definition delete_my_media_route ::
  "'s prof_session \<Rightarrow> string option \<Rightarrow> string option \<Rightarrow> string \<Rightarrow> ('s, pexn http_exn, unit) eff" where
  "delete_my_media_route S user_id user_role asset_id =
     auth_route S user_id user_role True (\<lambda>auth.
       companions_only auth
         (map_err (\<lambda>e. case e of
              MediaAssetNotFoundError i \<Rightarrow> HTTPException 404 (pexn_str (MediaAssetNotFoundError i))
            | _ \<Rightarrow> if is_profile_DomainError e then HTTPException 400 (pexn_str e) else HTTPException 500 (pexn_str e))
            (committed S (delete_media S (ai_user_id auth) asset_id))))"

definition create_scenario_route ::
  "'s prof_session \<Rightarrow> string option \<Rightarrow> string option \<Rightarrow> string \<Rightarrow> string \<Rightarrow> int \<Rightarrow> int \<Rightarrow> ('s, pexn http_exn, string) eff" where
  "create_scenario_route S user_id user_role title description price durationMinutes =
     auth_route S user_id user_role True (\<lambda>auth.
       companions_only auth (route_errors 400 (committed S
         (create_scenario S (ai_user_id auth) title description price durationMinutes))))"

definition update_scenario_route ::
  "'s prof_session \<Rightarrow> string option \<Rightarrow> string option \<Rightarrow> string \<Rightarrow> string \<Rightarrow> string \<Rightarrow> int \<Rightarrow> int \<Rightarrow> string \<Rightarrow>
   ('s, pexn http_exn, unit) eff" where
  "update_scenario_route S user_id user_role scenario_id title description price durationMinutes status =
     auth_route S user_id user_role True (\<lambda>auth.
       companions_only auth (route_errors 400 (committed S
         (update_scenario S scenario_id (ai_user_id auth) title description price durationMinutes status))))"

definition delete_scenario_route ::
  "'s prof_session \<Rightarrow> string option \<Rightarrow> string option \<Rightarrow> string \<Rightarrow> ('s, pexn http_exn, unit) eff" where
  "delete_scenario_route S user_id user_role scenario_id =
     auth_route S user_id user_role True (\<lambda>auth.
       companions_only auth (route_errors 400 (committed S (delete_scenario S scenario_id (ai_user_id auth)))))"

definition profile_domain_error_handler :: "pexn \<Rightarrow> error_body" where
  "profile_domain_error_handler e = domain_error_body (pexn_str e)"

section \<open>Messages\<close>

text \<open>\<open>bytes(payload.get("companionId", ""), "utf-8")\<close> wants a string.\<close>

definition profile_event_of :: "pexn codec \<Rightarrow> int \<Rightarrow> outbox_model \<Rightarrow> pexn + pexn prepared" where
  "profile_event_of C now event =
     bindS (loads C (ob_payload event)) (\<lambda>payload.
     let ce = \<lparr>ce_type = ob_event_type event,
               ce_source = ''/rent-a-gf/profile-service/'' @
                 py_str C (json_or (get_default payload ''companionId'' JNull) (get_default payload ''userId'' JNull)),
               ce_id = ob_event_id event,
               ce_time = iso_format C (case ob_created_at event of None \<Rightarrow> now | Some t \<Rightarrow> t),
               ce_datacontenttype = ''application/json'',
               ce_correlationid = get_default payload ''eventId'' (JStr (ob_event_id event)),
               ce_data = payload\<rparr>
     in Inr (case get_default payload ''companionId'' (JStr []) of
               JStr key \<Rightarrow> Inr key
             | _ \<Rightarrow> Inl (PyErrorP ''encoding without a string argument''), ce))"

definition profile_process_batch :: "('s, pexn) ob_session \<Rightarrow> pexn codec \<Rightarrow> int \<Rightarrow> nat \<Rightarrow> ('s, pexn, unit) eff" where
  "profile_process_batch W C now batch_size = process_batch W (profile_event_of C now) batch_size"

definition profile_run_cleanup :: "('s, pexn) ob_session \<Rightarrow> int \<Rightarrow> int \<Rightarrow> ('s, pexn, unit) eff" where
  "profile_run_cleanup W now retention = run_cleanup W now retention"

end
