(* ===== verification/Profile_Session.thy ===== *)
theory Profile_Session
  imports Profile_Interfaces
begin

text \<open>
  The laws of the profile session and of the object store, the well-formedness \<open>prof_ok\<close> of the stored
  content (the invariants INV-P01, INV-P02, INV-P04, INV-P05 and BR-12 of the catalogue, the references
  between the tables, and that exactly the companions have a companion profile), and what the repositories
  do.
\<close>

section \<open>Laws\<close>

text \<open>
  A page is a part of the rows that satisfy the query, in an order of the database's choice; a negative
  offset or limit is refused.
\<close>

locale prof_session =
  ut: sql_table "user_merge S" "user_select S" view com user_profiles "\<lambda>m. user_profiles_update (\<lambda>_. m)"
    um_user_id um_user_id user_fits "(=)" +
  ct: sql_child "companion_merge S" "companion_select S" view com companion_profiles "\<lambda>m. companion_profiles_update (\<lambda>_. m)"
    cm_companion_id cm_companion_id companion_fits "(=)" companion_parent +
  st: sql_child "scenario_merge S" "scenario_select S" view com scenarios "\<lambda>m. scenarios_update (\<lambda>_. m)"
    scm_scenario_id scm_scenario_id scenario_fits "(=)" scenario_parent +
  mt: sql_child "media_merge S" "media_select S" view com media_assets "\<lambda>m. media_assets_update (\<lambda>_. m)"
    mm_asset_id mm_asset_id media_fits "(=)" media_parent +
  sd: sql_delete "scenario_delete S" view com scenarios "\<lambda>m. scenarios_update (\<lambda>_. m)" scm_scenario_id +
  md: sql_delete "media_delete S" view com media_assets "\<lambda>m. media_assets_update (\<lambda>_. m)" mm_asset_id +
  tx: sql_txn "prof_commit S" "prof_close S" view com +
  uu: sql_frame "prof_uuid4 S" view com
  for S :: "'s prof_session" and view :: "'s \<Rightarrow> prof_db" and com :: "'s \<Rightarrow> prof_db" +
  assumes prof_open_ok: "prof_open S s = (Inr u, s') \<Longrightarrow> view s' = com s"
    and prof_open_com: "com (snd (prof_open S s)) = com s"
    and prof_uuid_length: "prof_uuid4 S s = (Inr i, s') \<Longrightarrow> length i = 36"
    and prof_outbox_ok: "prof_outbox_add S ob s = (Inr u, s') \<Longrightarrow>
      (\<exists>r'. outbox_agree ob r' \<and> view s' = (view s)\<lparr>p_outbox := p_outbox (view s) @ [r']\<rparr>)"
    and prof_outbox_com: "com (snd (prof_outbox_add S ob s)) = com s"
    and scenario_rows: "scenario_select S lock P s = (Inr rs, s') \<Longrightarrow> table_ok scm_scenario_id scm_scenario_id (scenarios (view s)) \<Longrightarrow>
      distinct (map scm_scenario_id rs)"
    and media_rows: "media_select S lock Q s = (Inr ms, s') \<Longrightarrow> table_ok mm_asset_id mm_asset_id (media_assets (view s)) \<Longrightarrow>
      distinct (map mm_asset_id ms)"
    and scenario_count_ok: "scenario_count S P s = (Inr n, s') \<Longrightarrow>
      n = card {k. \<exists>r. scenarios (view s) k = Some r \<and> P r} \<and> view s' = view s"
    and scenario_count_com: "com (snd (scenario_count S P s)) = com s"
    and companion_count_ok: "companion_count S R s = (Inr n, s') \<Longrightarrow>
      n = card {k. \<exists>r. companion_profiles (view s) k = Some r \<and> R (view s) r} \<and> view s' = view s"
    and companion_count_com: "com (snd (companion_count S R s)) = com s"
    and companion_page_ok: "companion_page S R off lim s = (Inr cs, s') \<Longrightarrow>
      table_ok cm_companion_id cm_companion_id (companion_profiles (view s)) \<Longrightarrow>
      0 \<le> off \<and> 0 \<le> lim \<and> view s' = view s \<and>
      (\<exists>all. cs = take (nat lim) (drop (nat off) all) \<and> set all = {r \<in> ran (companion_profiles (view s)). R (view s) r} \<and>
        distinct (map cm_companion_id all))"
    and companion_page_com: "com (snd (companion_page S R off lim s)) = com s"
begin

lemma prof_keeps [keep_intros]:
  "keeps com (prof_open S)" "keeps com (prof_outbox_add S ob)" "keeps com (scenario_count S P)"
  "keeps com (companion_count S R)" "keeps com (companion_page S R off lim)"
  by (simp_all add: keeps_def prof_open_com prof_outbox_com scenario_count_com companion_count_com companion_page_com)

lemma profile_publish_keeps [keep_intros]: "keeps com (profile_publish S ev)"
  unfolding profile_publish_def Let_def by (intro keep_intros)

lemma repo_keeps [keep_intros]:
  "keeps com (UserProfileRepository_save S u)" "keeps com (UserProfileRepository_find_by_id S i)"
  "keeps com (CompanionProfileRepository_save S c)" "keeps com (CompanionProfileRepository_find_by_id S i)"
  "keeps com (ScenarioRepository_save S sc)" "keeps com (ScenarioRepository_find_by_id S i)"
  "keeps com (ScenarioRepository_find_by_companion_id S i)" "keeps com (ScenarioRepository_count_by_companion_id S i)"
  "keeps com (ScenarioRepository_delete S i c')"
  "keeps com (MediaAssetRepository_save S m)" "keeps com (MediaAssetRepository_find_by_id S i)"
  "keeps com (MediaAssetRepository_find_by_companion_id_and_type S i ty)" "keeps com (MediaAssetRepository_delete S i)"
  "keeps com (search_approved S name city lo hi off lim)"
  unfolding UserProfileRepository_save_def UserProfileRepository_find_by_id_def CompanionProfileRepository_save_def
    CompanionProfileRepository_find_by_id_def ScenarioRepository_save_def ScenarioRepository_find_by_id_def
    ScenarioRepository_find_by_companion_id_def ScenarioRepository_count_by_companion_id_def ScenarioRepository_delete_def
    MediaAssetRepository_save_def MediaAssetRepository_find_by_id_def MediaAssetRepository_find_by_companion_id_and_type_def
    MediaAssetRepository_delete_def search_approved_def Let_def
  by (intro keep_intros)+

end

section \<open>The object store\<close>

text \<open>The object store is another system: it touches no table.\<close>

locale store_frame =
  fixes T :: "'s storage" and view :: "'s \<Rightarrow> prof_db" and com :: "'s \<Rightarrow> prof_db"
  assumes store_view: "keeps view (generate_presigned_put_url T k ty n)" "keeps view (object_size T k)"
      "keeps view (generate_presigned_get_url T k e)"
    and store_com: "keeps com (generate_presigned_put_url T k ty n)" "keeps com (object_size T k)"
      "keeps com (generate_presigned_get_url T k e)"

section \<open>Well-formed content\<close>

definition user_ok :: "user_model \<Rightarrow> bool" where
  "user_ok r \<longleftrightarrow> user_fits r \<and> opt_all clean_url (um_avatar_url r)"

definition companion_ok :: "companion_model \<Rightarrow> bool" where
  "companion_ok r \<longleftrightarrow> companion_fits r \<and>
     (\<exists>cities. cm_available_cities r = json_dumps_strings cities \<and> (\<forall>c\<in>set cities. clean_city c))"

definition scenario_ok :: "scenario_model \<Rightarrow> bool" where
  "scenario_ok r \<longleftrightarrow> scenario_fits r \<and> 0 < scm_price r \<and> scm_duration_minutes r \<in> {60, 120, 180}"

definition media_ok :: "media_model \<Rightarrow> bool" where
  "media_ok r \<longleftrightarrow> media_fits r \<and> clean_url (mm_file_url r) \<and>
     (mm_asset_type r = ''VOICE_INTRO'' \<and> mm_size_bytes r \<le> 5242880 \<and> (\<exists>d. mm_duration_seconds r = Some d \<and> d \<le> 30) \<or>
      mm_asset_type r = ''ALBUM'' \<and> mm_size_bytes r \<le> 2097152 \<and> mm_duration_seconds r = None)"

definition media_count :: "prof_db \<Rightarrow> string \<Rightarrow> string \<Rightarrow> nat" where
  "media_count db c ty = card {m \<in> ran (media_assets db). is_media_of c ty m}"

definition prof_ok :: "prof_db \<Rightarrow> bool" where
  "prof_ok db \<longleftrightarrow>
     table_ok um_user_id um_user_id (user_profiles db) \<and> table_ok cm_companion_id cm_companion_id (companion_profiles db) \<and>
     table_ok scm_scenario_id scm_scenario_id (scenarios db) \<and> table_ok mm_asset_id mm_asset_id (media_assets db) \<and>
     (\<forall>r\<in>ran (user_profiles db). user_ok r) \<and> (\<forall>r\<in>ran (companion_profiles db). companion_ok r) \<and>
     (\<forall>r\<in>ran (scenarios db). scenario_ok r \<and> scenario_parent db r) \<and> (\<forall>r\<in>ran (media_assets db). media_ok r \<and> media_parent db r) \<and>
     (\<forall>i. i \<in> dom (companion_profiles db) \<longleftrightarrow> (\<exists>u. user_profiles db i = Some u \<and> um_role u = ''COMPANION'')) \<and>
     (\<forall>c. media_count db c ''ALBUM'' \<le> 4 \<and> media_count db c ''VOICE_INTRO'' \<le> 1)"

end
