(* ===== verification/Profile_Effects.thy ===== *)
theory Profile_Effects
  imports Profile_Session
begin

text \<open>
  What the repositories and the commands do to the tables when they return, whatever else may have failed,
  and that this keeps the content well formed.
\<close>

section \<open>Mappers\<close>

lemma user_to_domain_Inr:
  assumes "user_to_domain r = Inr u"
  shows "u_user_id u = um_user_id r \<and> u_role u = um_role r \<and> u_display_name u = um_display_name r \<and> u_events u = [] \<and>
    u_bio u = (case um_bio r of None \<Rightarrow> [] | Some b \<Rightarrow> b) \<and> opt_all (\<lambda>a. clean_url (mu_url a)) (u_avatar_url u)"
  using assms by (auto simp: user_to_domain_def bindS_eq_Inr_iff MediaUrl_Inr split: option.splits if_splits)

lemma list_map_exn_Inr: "list_map_exn f xs = Inr ys \<Longrightarrow> list_all2 (\<lambda>x y. f x = Inr y) xs ys"
  by (induction xs arbitrary: ys) (auto simp: bindS_eq_Inr_iff)

lemma list_map_exn_map: "(\<And>x. x \<in> set xs \<Longrightarrow> f x = Inr (g x)) \<Longrightarrow> list_map_exn f xs = Inr (map g xs)"
  by (induction xs) auto

lemma clean_cities_Inr:
  assumes "clean_cities names = Inr cities"
  shows "map loc_city cities = map py_strip names \<and> (\<forall>c\<in>set cities. clean_city (loc_city c))"
proof -
  have "list_all2 (\<lambda>n c. Location n = Inr c) names cities"
    using assms unfolding clean_cities_def by (rule list_map_exn_Inr)
  then show ?thesis by (induction rule: list_all2_induct) (auto simp: Location_Inr)
qed

lemma companion_model_ok:
  assumes "companion_fits (companion_to_model p)" "\<And>c. c \<in> set (c_available_cities p) \<Longrightarrow> clean_city (loc_city c)"
  shows "companion_ok (companion_to_model p)"
  unfolding companion_ok_def
  using assms by (auto simp: companion_to_model_def intro!: exI [of _ "map loc_city (c_available_cities p)"])

lemma companion_to_domain_Inr:
  assumes "companion_to_domain r = Inr p"
  shows "c_companion_id p = cm_companion_id r \<and> c_status p = cm_status r \<and> c_events p = []"
  using assms by (auto simp: companion_to_domain_def bindS_eq_Inr_iff split: option.splits)

lemma json_dumps_nonempty: "py_or (json_dumps_strings cs) d = json_dumps_strings cs"
  by (simp add: py_or_def json_dumps_strings_def)

lemma companion_to_domain_ok:
  assumes "cm_available_cities r = json_dumps_strings cities" "\<And>c. c \<in> set cities \<Longrightarrow> clean_city c"
  shows "companion_to_domain r = Inr \<lparr>c_companion_id = cm_companion_id r, c_status = cm_status r,
    c_available_cities = map (\<lambda>c. \<lparr>loc_city = c\<rparr>) cities, c_events = []\<rparr>"
proof -
  have "list_map_exn Location cities = Inr (map (\<lambda>c. \<lparr>loc_city = c\<rparr>) cities)"
    using assms(2) by (intro list_map_exn_map Location_clean)
  then show ?thesis by (simp add: companion_to_domain_def assms(1) json_dumps_nonempty json_strings_roundtrip)
qed

lemma scenario_to_domain_Inr:
  "scenario_to_domain r = Inr sc \<longleftrightarrow> 0 < scm_price r \<and> scm_duration_minutes r \<in> {60, 120, 180} \<and>
     sc = \<lparr>sc_scenario_id = scm_scenario_id r, sc_companion_id = scm_companion_id r, sc_title = scm_title r,
       sc_description = (case scm_description r of None \<Rightarrow> [] | Some d \<Rightarrow> d), sc_price = \<lparr>money_amount = scm_price r\<rparr>,
       sc_duration_minutes = \<lparr>minutes = scm_duration_minutes r\<rparr>, sc_status = scm_status r, sc_events = []\<rparr>"
  by (auto simp: scenario_to_domain_def bindS_eq_Inr_iff Money_p_Inr Duration_Inr)

lemma media_to_domain_Inr:
  assumes "media_to_domain r = Inr m"
  shows "ma_asset_id m = mm_asset_id r \<and> ma_companion_id m = mm_companion_id r"
  using assms by (auto simp: media_to_domain_def bindS_eq_Inr_iff)

section \<open>Lookups\<close>

text \<open>A lookup by primary key gives the row under that key.\<close>

lemma first_row_key:
  assumes "table_ok pkey uniq tab" "set rs = {r \<in> ran tab. pkey r = k}" "option_map_exn f (first_row rs) = Inr v"
  shows "(v = None \<and> tab k = None) \<or> (\<exists>r x. v = Some x \<and> tab k = Some r \<and> f r = Inr x)"
proof -
  from option_map_exn_cases [OF assms(3)]
  show ?thesis
  proof
    assume "v = None \<and> set rs = {}"
    moreover have "tab k = None" if "set rs = {}"
    proof (rule ccontr)
      assume "tab k \<noteq> None"
      then obtain r where "tab k = Some r" by blast
      with table_ok_key [OF assms(1) this] that assms(2) show False by (auto simp: ran_def)
    qed
    ultimately show ?thesis by blast
  next
    assume "\<exists>r x. v = Some x \<and> r \<in> set rs \<and> f r = Inr x"
    then obtain r x where "v = Some x" "r \<in> ran tab" "pkey r = k" "f r = Inr x" using assms(2) by blast
    with table_ok_ran [OF assms(1), of r] show ?thesis by blast
  qed
qed

lemma prof_ok_tables:
  assumes "prof_ok db"
  shows "table_ok um_user_id um_user_id (user_profiles db)" "table_ok cm_companion_id cm_companion_id (companion_profiles db)"
    "table_ok scm_scenario_id scm_scenario_id (scenarios db)" "table_ok mm_asset_id mm_asset_id (media_assets db)"
  using assms by (simp_all add: prof_ok_def)

lemma prof_ok_rows:
  assumes "prof_ok db"
  shows "u \<in> ran (user_profiles db) \<Longrightarrow> user_ok u" "c \<in> ran (companion_profiles db) \<Longrightarrow> companion_ok c"
    "sc \<in> ran (scenarios db) \<Longrightarrow> scenario_ok sc \<and> scenario_parent db sc" "m \<in> ran (media_assets db) \<Longrightarrow> media_ok m \<and> media_parent db m"
  using assms by (simp_all add: prof_ok_def)

lemma prof_ok_companions:
  assumes "prof_ok db"
  shows "i \<in> dom (companion_profiles db) \<longleftrightarrow> (\<exists>u. user_profiles db i = Some u \<and> um_role u = ''COMPANION'')"
  using assms unfolding prof_ok_def by blast

lemma prof_ok_counts: "prof_ok db \<Longrightarrow> media_count db c ''ALBUM'' \<le> 4 \<and> media_count db c ''VOICE_INTRO'' \<le> 1"
  unfolding prof_ok_def by blast

lemma prof_ok_outbox [simp]: "prof_ok (db\<lparr>p_outbox := ob\<rparr>) = prof_ok db"
  by (simp add: prof_ok_def scenario_parent_def [abs_def] media_parent_def [abs_def] media_count_def [abs_def])

context prof_session
begin

lemma find_user:
  assumes "UserProfileRepository_find_by_id S i s = (Inr v, s')" "table_ok um_user_id um_user_id (user_profiles (view s))"
  shows "view s' = view s \<and> ((v = None \<and> user_profiles (view s) i = None) \<or>
    (\<exists>r u. v = Some u \<and> user_profiles (view s) i = Some r \<and> user_to_domain r = Inr u))"
  using assms(1) unfolding UserProfileRepository_find_by_id_def
  by (auto simp: bindE_eq_Inr_iff liftE_run dest!: ut.select_ok dest: first_row_key [OF assms(2)])

lemma find_companion:
  assumes "CompanionProfileRepository_find_by_id S i s = (Inr v, s')"
    "table_ok cm_companion_id cm_companion_id (companion_profiles (view s))"
  shows "view s' = view s \<and> ((v = None \<and> companion_profiles (view s) i = None) \<or>
    (\<exists>r p. v = Some p \<and> companion_profiles (view s) i = Some r \<and> companion_to_domain r = Inr p))"
  using assms(1) unfolding CompanionProfileRepository_find_by_id_def
  by (auto simp: bindE_eq_Inr_iff liftE_run dest!: ct.select_ok dest: first_row_key [OF assms(2)])

lemma find_scenario:
  assumes "ScenarioRepository_find_by_id S i s = (Inr v, s')" "table_ok scm_scenario_id scm_scenario_id (scenarios (view s))"
  shows "view s' = view s \<and> ((v = None \<and> scenarios (view s) i = None) \<or>
    (\<exists>r sc. v = Some sc \<and> scenarios (view s) i = Some r \<and> scenario_to_domain r = Inr sc))"
  using assms(1) unfolding ScenarioRepository_find_by_id_def
  by (auto simp: bindE_eq_Inr_iff liftE_run dest!: st.select_ok dest: first_row_key [OF assms(2)])

lemma find_media:
  assumes "MediaAssetRepository_find_by_id S i s = (Inr v, s')" "table_ok mm_asset_id mm_asset_id (media_assets (view s))"
  shows "view s' = view s \<and> ((v = None \<and> media_assets (view s) i = None) \<or>
    (\<exists>r m. v = Some m \<and> media_assets (view s) i = Some r \<and> media_to_domain r = Inr m))"
  using assms(1) unfolding MediaAssetRepository_find_by_id_def
  by (auto simp: bindE_eq_Inr_iff liftE_run dest!: mt.select_ok dest: first_row_key [OF assms(2)])

section \<open>Saves\<close>

lemma save_user:
  assumes "UserProfileRepository_save S u s = (Inr x, s')"
  shows "user_fits (user_to_model u) \<and>
    view s' = (view s)\<lparr>user_profiles := (user_profiles (view s))(u_user_id u \<mapsto> user_to_model u)\<rparr>"
  using ut.merge_ok [OF assms [unfolded UserProfileRepository_save_def]]
  by (auto simp: row_accepted_def user_to_model_def)

lemma save_companion:
  assumes "CompanionProfileRepository_save S p s = (Inr x, s')"
  shows "companion_fits (companion_to_model p) \<and> c_companion_id p \<in> dom (user_profiles (view s)) \<and>
    view s' = (view s)\<lparr>companion_profiles := (companion_profiles (view s))(c_companion_id p \<mapsto> companion_to_model p)\<rparr>"
  using ct.merge_ok [OF assms [unfolded CompanionProfileRepository_save_def]]
    ct.merge_parent [OF assms [unfolded CompanionProfileRepository_save_def]]
  by (auto simp: row_accepted_def companion_to_model_def companion_parent_def)

lemma save_scenario:
  assumes "ScenarioRepository_save S sc s = (Inr x, s')"
  shows "scenario_fits (scenario_to_model sc) \<and> scenario_parent (view s) (scenario_to_model sc) \<and>
    view s' = (view s)\<lparr>scenarios := (scenarios (view s))(sc_scenario_id sc \<mapsto> scenario_to_model sc)\<rparr>"
  using st.merge_ok [OF assms [unfolded ScenarioRepository_save_def]]
    st.merge_parent [OF assms [unfolded ScenarioRepository_save_def]]
  by (auto simp: row_accepted_def scenario_to_model_def)

lemma save_media:
  assumes "MediaAssetRepository_save S m s = (Inr x, s')"
  shows "media_fits (media_to_model m) \<and> media_parent (view s) (media_to_model m) \<and>
    view s' = (view s)\<lparr>media_assets := (media_assets (view s))(ma_asset_id m \<mapsto> media_to_model m)\<rparr>"
  using mt.merge_ok [OF assms [unfolded MediaAssetRepository_save_def]]
    mt.merge_parent [OF assms [unfolded MediaAssetRepository_save_def]]
  by (auto simp: row_accepted_def media_to_model_def)

lemma delete_scenario_row:
  assumes "ScenarioRepository_delete S i c s = (Inr x, s')" "table_ok scm_scenario_id scm_scenario_id (scenarios (view s))"
    "scenarios (view s) i = Some r" "scm_companion_id r = c"
  shows "view s' = (view s)\<lparr>scenarios := (scenarios (view s))(i := None)\<rparr>"
proof -
  from assms(1) obtain rs s1 where sel: "scenario_select S False (\<lambda>m. scm_scenario_id m = i \<and> scm_companion_id m = c) s = (Inr rs, s1)"
    and del: "(case first_row rs of None \<Rightarrow> ret () | Some m \<Rightarrow> scenario_delete S m) s1 = (Inr x, s')"
    by (auto simp: ScenarioRepository_delete_def bindE_eq_Inr_iff)
  have v1: "view s1 = view s" and rs: "set rs = {m \<in> ran (scenarios (view s)). scm_scenario_id m = i \<and> scm_companion_id m = c}"
    using st.select_ok [OF sel] by simp_all
  have key: "scm_scenario_id r = i" using table_ok_key [OF assms(2,3)] .
  have "first_row rs = Some r"
  proof (rule first_row_unique [OF rs])
    show "r \<in> ran (scenarios (view s))" using assms(3) by (rule ranI)
    show "scm_scenario_id r = i \<and> scm_companion_id r = c" using key assms(4) by simp
    show "r' = r" if "r' \<in> ran (scenarios (view s))" "scm_scenario_id r' = i \<and> scm_companion_id r' = c" for r'
      using table_ok_ran [OF assms(2) that(1)] that(2) assms(3) by simp
  qed
  with del sd.delete_ok v1 key show ?thesis by fastforce
qed

lemma delete_media_row:
  assumes "MediaAssetRepository_delete S i s = (Inr x, s')" "table_ok mm_asset_id mm_asset_id (media_assets (view s))"
  shows "view s' = (view s)\<lparr>media_assets := (media_assets (view s))(i := None)\<rparr>"
proof -
  from assms(1) obtain rs s1 where sel: "media_select S False (\<lambda>m. mm_asset_id m = i) s = (Inr rs, s1)"
    and del: "(case first_row rs of None \<Rightarrow> ret () | Some m \<Rightarrow> media_delete S m) s1 = (Inr x, s')"
    by (auto simp: MediaAssetRepository_delete_def bindE_eq_Inr_iff)
  have v1: "view s1 = view s" and rs: "set rs = {m \<in> ran (media_assets (view s)). mm_asset_id m = i}"
    using mt.select_ok [OF sel] by simp_all
  show ?thesis
  proof (cases "first_row rs")
    case None
    then have "media_assets (view s) i = None"
      using first_row_key [OF assms(2) rs, of "\<lambda>m. Inr m" None] by (simp add: option_map_exn_def)
    with None del v1 show ?thesis by (simp add: ret_run fun_upd_idem)
  next
    case (Some r)
    then have "mm_asset_id r = i" using rs first_row_mem [OF Some] by blast
    with Some del md.delete_ok v1 show ?thesis by fastforce
  qed
qed

lemma profile_publish_view:
  assumes "profile_publish S ev s = (Inr x, s')"
  shows "\<exists>ob. view s' = (view s)\<lparr>p_outbox := ob\<rparr>"
proof -
  from assms obtain i s1 ob u where "prof_uuid4 S s = (Inr i, s1)" "prof_outbox_add S ob s1 = (Inr u, s')"
    by (auto simp: profile_publish_def Let_def bindE_eq_Inr_iff liftE_run)
  then show ?thesis using prof_outbox_ok uu.frame_ok by metis
qed

lemma profile_publish_all_view:
  "forE (profile_publish S) es s = (Inr x, s') \<Longrightarrow> \<exists>ob. view s' = (view s)\<lparr>p_outbox := ob\<rparr>"
proof (induction es arbitrary: s)
  case Nil
  then have "view s' = (view s)\<lparr>p_outbox := p_outbox (view s)\<rparr>" by (simp add: ret_run)
  then show ?case by blast
next
  case (Cons e es)
  then obtain y t where 1: "profile_publish S e s = (Inr y, t)" "forE (profile_publish S) es t = (Inr x, s')"
    by (auto simp: bindE_eq_Inr_iff)
  from profile_publish_view [OF 1(1)] Cons.IH [OF 1(2)] show ?case by auto
qed

end

end
