(* ===== verification/Profile_Listener.thy ===== *)
theory Profile_Listener
  imports Profile_Interfaces Py_Json Event_Loop
begin

text \<open>
  The listener on the events of the identity service: a registered user gets a profile, an upgraded user
  becomes a companion.  Every exception is logged and the next message is taken.
\<close>

definition profile_err :: "exn + 'a \<Rightarrow> pexn + 'a" where
  "profile_err r = (case r of Inl e \<Rightarrow> Inl (PyErrorP (exn_str e)) | Inr x \<Rightarrow> Inr x)"

definition event_user_id :: "json \<Rightarrow> pexn + json" where
  "event_user_id event_data = profile_err (get_first event_data [''userId'', ''user_id''])"

definition on_role_upgraded :: "'s prof_session \<Rightarrow> json \<Rightarrow> ('s, pexn, unit) eff" where
  "on_role_upgraded S msg =
     bindE (liftE (profile_err (get_or msg ''data'' (JObj [])))) (\<lambda>event_data.
     bindE (liftE (event_user_id event_data)) (\<lambda>user_id.
     if truthy user_id
     then
       bindE (liftE (profile_err (json_str user_id))) (\<lambda>user_id.
       in_prof_session S
         (bindE (upgrade_profile_role S user_id) (\<lambda>_. prof_commit S)))
     else ret ()))"

definition on_user_registered :: "'s prof_session \<Rightarrow> json \<Rightarrow> ('s, pexn, unit) eff" where
  "on_user_registered S msg =
     bindE (liftE (profile_err (get_or msg ''data'' (JObj [])))) (\<lambda>event_data.
     bindE (liftE (event_user_id event_data)) (\<lambda>user_id.
     bindE (liftE (profile_err (json_get event_data ''name''))) (\<lambda>name.
     bindE (liftE (profile_err (json_get event_data ''role''))) (\<lambda>role.
     if truthy user_id
     then
       bindE (liftE (profile_err (json_str user_id))) (\<lambda>user_id.
       bindE (liftE (profile_err (json_str (json_or name (JStr ''User''))))) (\<lambda>display_name.
       bindE (liftE (profile_err (json_str (json_or role (JStr ''CLIENT''))))) (\<lambda>role.
       in_prof_session S
         (tryE
           (bindE (create_profile S user_id user_id display_name [] [] role) (\<lambda>_. prof_commit S))
           (\<lambda>e. case e of ProfileAlreadyExistsError _ \<Rightarrow> ret () | _ \<Rightarrow> raise e)))))
     else ret ()))))"

definition handle_profile_identity_event :: "'s prof_session \<Rightarrow> json \<Rightarrow> ('s, pexn, unit) eff" where
  "handle_profile_identity_event S msg =
     tryE
       (bindE (liftE (profile_err (json_get msg ''type''))) (\<lambda>event_type.
        if event_type = JStr ''identity.role-upgraded.v1'' then on_role_upgraded S msg
        else if event_type = JStr ''identity.user-registered.v1'' then on_user_registered S msg
        else ret ()))
       (\<lambda>e. ret ())"

text \<open>The listener from the connection to the broker to the end of its loop.\<close>

definition identity_listener_run ::
  "(pexn, json) kafka \<Rightarrow> 's prof_session \<Rightarrow> ('s, pexn, unit) listening" where
  "identity_listener_run K S = listener K (handle_profile_identity_event S)"

interpretation prl: message_handler "handle_profile_identity_event S" for S :: "'s prof_session"
  by unfold_locales (auto simp: handle_profile_identity_event_def tryE_def ret_def split: prod.splits sum.splits)

end
