(* ===== verification/Profile_Invariant.thy ===== *)
theory Profile_Invariant
  imports Profile_Effects Profile_Listener
begin

text \<open>
  What every command does to the tables when it returns, and that it keeps the content well formed.
\<close>

section \<open>Guards\<close>

lemma case_raise_Inr:
  "(case v of None \<Rightarrow> raise e | Some u \<Rightarrow> f u) s = (Inr x, s') \<longleftrightarrow> (\<exists>u. v = Some u \<and> f u s = (Inr x, s'))"
  by (simp add: raise_run split: option.splits)

lemma if_raise_Inr: "(if b then raise e else m) s = (Inr x, s') \<longleftrightarrow> \<not> b \<and> m s = (Inr x, s')"
  by (simp add: raise_run)

lemmas returned = bindE_eq_Inr_iff liftE_run ret_run case_raise_Inr if_raise_Inr

section \<open>Updates of well-formed content\<close>

lemma table_ok_put:
  assumes "table_ok pkey pkey tab" "pkey r = k"
  shows "table_ok pkey pkey (tab(k \<mapsto> r))"
proof -
  have "row_accepted pkey pkey (\<lambda>_. True) tab r" by (simp add: row_accepted_def)
  from table_ok_upd [OF assms(1) this, of r] assms(2) show ?thesis by simp
qed

text \<open>A user row, and for a companion possibly the companion row with it.\<close>

lemma companions_id [simp]:
  "db\<lparr>user_profiles := us, companion_profiles := companion_profiles db\<rparr> = db\<lparr>user_profiles := us\<rparr>"
  by (cases db) simp

lemma prof_ok_user:
  assumes ok: "prof_ok db" and u: "um_user_id u = i" "user_ok u"
    and cs: "cs = companion_profiles db \<or> (\<exists>c. cs = (companion_profiles db)(i \<mapsto> c) \<and> cm_companion_id c = i \<and> companion_ok c)"
    and role: "i \<in> dom cs \<longleftrightarrow> um_role u = ''COMPANION''"
  shows "prof_ok (db\<lparr>user_profiles := (user_profiles db)(i \<mapsto> u), companion_profiles := cs\<rparr>)"
proof -
  note t = prof_ok_tables [OF ok] and r = prof_ok_rows [OF ok]
  have dom: "dom (companion_profiles db) \<subseteq> dom cs" "\<And>j. j \<noteq> i \<Longrightarrow> j \<in> dom cs \<longleftrightarrow> j \<in> dom (companion_profiles db)"
    using cs by auto
  have "table_ok cm_companion_id cm_companion_id cs" using cs t(2) by (auto intro: table_ok_put)
  moreover have "\<forall>c\<in>ran cs. companion_ok c" using cs r(2) by (auto simp: ran_updated [OF t(2)])
  moreover have "\<forall>x\<in>ran ((user_profiles db)(i \<mapsto> u)). user_ok x" using r(1) u(2) by (auto simp: ran_updated [OF t(1)])
  moreover have "\<forall>j. j \<in> dom cs \<longleftrightarrow> (\<exists>v. ((user_profiles db)(i \<mapsto> u)) j = Some v \<and> um_role v = ''COMPANION'')"
    using role dom(2) prof_ok_companions [OF ok] by (metis fun_upd_apply option.inject)
  moreover have "\<forall>x\<in>ran (scenarios db). scenario_ok x \<and> scm_companion_id x \<in> dom cs"
    using r(3) dom(1) by (auto simp: scenario_parent_def)
  moreover have "\<forall>x\<in>ran (media_assets db). media_ok x \<and> mm_companion_id x \<in> dom cs"
    using r(4) dom(1) by (auto simp: media_parent_def)
  ultimately show ?thesis
    using t table_ok_put [OF t(1) u(1)] prof_ok_counts [OF ok]
    by (simp add: prof_ok_def scenario_parent_def media_parent_def media_count_def)
qed

lemma parents_frame [simp]:
  "scenario_parent (db\<lparr>scenarios := scs\<rparr>) = scenario_parent db" "media_parent (db\<lparr>scenarios := scs\<rparr>) = media_parent db"
  "scenario_parent (db\<lparr>media_assets := ms\<rparr>) = scenario_parent db" "media_parent (db\<lparr>media_assets := ms\<rparr>) = media_parent db"
  "media_count (db\<lparr>scenarios := scs\<rparr>) = media_count db"
  by (simp_all add: fun_eq_iff scenario_parent_def media_parent_def media_count_def)

lemma prof_ok_scenarios:
  assumes ok: "prof_ok db" and t: "table_ok scm_scenario_id scm_scenario_id scs"
    and rows: "\<And>x. x \<in> ran scs \<Longrightarrow> x \<in> ran (scenarios db) \<or> scenario_ok x \<and> scenario_parent db x"
  shows "prof_ok (db\<lparr>scenarios := scs\<rparr>)"
proof -
  have "\<forall>x\<in>ran scs. scenario_ok x \<and> scenario_parent db x" using rows prof_ok_rows(3) [OF ok] by blast
  with ok t show ?thesis unfolding prof_ok_def by simp
qed

lemma prof_ok_media:
  assumes ok: "prof_ok db" and t: "table_ok mm_asset_id mm_asset_id ms"
    and rows: "\<And>x. x \<in> ran ms \<Longrightarrow> x \<in> ran (media_assets db) \<or> media_ok x \<and> media_parent db x"
    and count: "\<And>c. media_count (db\<lparr>media_assets := ms\<rparr>) c ''ALBUM'' \<le> 4"
      "\<And>c. media_count (db\<lparr>media_assets := ms\<rparr>) c ''VOICE_INTRO'' \<le> 1"
  shows "prof_ok (db\<lparr>media_assets := ms\<rparr>)"
proof -
  have "\<forall>x\<in>ran ms. media_ok x \<and> media_parent db x" using rows prof_ok_rows(4) [OF ok] by blast
  with ok t count show ?thesis unfolding prof_ok_def by simp
qed

lemma media_finite: "table_ok mm_asset_id mm_asset_id t \<Longrightarrow> finite {m \<in> ran t. P m}"
  by (auto intro: finite_subset [OF _ finite_ran] dest: table_ok_finite)

lemma media_count_mono:
  assumes "table_ok mm_asset_id mm_asset_id (media_assets db)" "ran ms \<subseteq> ran (media_assets db)"
  shows "media_count (db\<lparr>media_assets := ms\<rparr>) c ty \<le> media_count db c ty"
  unfolding media_count_def using assms(2) by (intro card_mono media_finite [OF assms(1)]) auto

lemma media_count_insert:
  assumes t: "table_ok mm_asset_id mm_asset_id (media_assets db)" and ms: "ran ms \<subseteq> insert m (ran (media_assets db))"
  shows "media_count (db\<lparr>media_assets := ms\<rparr>) c ty \<le> media_count db c ty + (if is_media_of c ty m then 1 else 0)"
proof -
  let ?old = "{x \<in> ran (media_assets db). is_media_of c ty x}"
  have "{x \<in> ran ms. is_media_of c ty x} \<subseteq> (if is_media_of c ty m then insert m ?old else ?old)" using ms by auto
  then have "card {x \<in> ran ms. is_media_of c ty x} \<le> card (if is_media_of c ty m then insert m ?old else ?old)"
    by (intro card_mono) (simp_all add: media_finite [OF t])
  also have "\<dots> \<le> card ?old + (if is_media_of c ty m then 1 else 0)"
    using card_insert_le_m1 by (simp add: card_insert_if media_finite [OF t])
  finally show ?thesis by (simp add: media_count_def)
qed

lemma prof_ok_media_remove:
  assumes ok: "prof_ok db"
  shows "prof_ok (db\<lparr>media_assets := (media_assets db)(k := None)\<rparr>)"
proof -
  note t = prof_ok_tables(4) [OF ok]
  have sub: "ran ((media_assets db)(k := None)) \<subseteq> ran (media_assets db)" using ran_remove by fastforce
  note c = media_count_mono [OF t sub] prof_ok_counts [OF ok]
  show ?thesis
    by (rule prof_ok_media [OF ok table_ok_remove [OF t]]) (use sub c order_trans in blast)+
qed

lemma prof_ok_media_add:
  assumes ok: "prof_ok db" and m: "mm_asset_id m = k" "media_ok m" "media_parent db m"
    and room: "media_count db (mm_companion_id m) (mm_asset_type m) < (if mm_asset_type m = ''ALBUM'' then 4 else 1)"
  shows "prof_ok (db\<lparr>media_assets := (media_assets db)(k \<mapsto> m)\<rparr>)"
proof -
  note t = prof_ok_tables(4) [OF ok]
  have sub: "ran ((media_assets db)(k \<mapsto> m)) \<subseteq> insert m (ran (media_assets db))" using ran_updated [OF t] by blast
  note c = media_count_insert [OF t sub] and old = prof_ok_counts [OF ok]
  show ?thesis
  proof (rule prof_ok_media [OF ok table_ok_put [OF t m(1)]])
    show "x \<in> ran (media_assets db) \<or> media_ok x \<and> media_parent db x" if "x \<in> ran ((media_assets db)(k \<mapsto> m))" for x
      using that sub m(2,3) by blast
    show "media_count (db\<lparr>media_assets := (media_assets db)(k \<mapsto> m)\<rparr>) a ''ALBUM'' \<le> 4" for a
      using c [of a "''ALBUM''"] old [of a] room by (auto simp: is_media_of_def split: if_splits)
    show "media_count (db\<lparr>media_assets := (media_assets db)(k \<mapsto> m)\<rparr>) a ''VOICE_INTRO'' \<le> 1" for a
      using c [of a "''VOICE_INTRO''"] old [of a] room by (auto simp: is_media_of_def split: if_splits)
  qed
qed

section \<open>Profiles\<close>

definition cities_model :: "string \<Rightarrow> string \<Rightarrow> string list \<Rightarrow> companion_model" where
  "cities_model i status cities =
     \<lparr>cm_companion_id = i, cm_status = status, cm_available_cities = json_dumps_strings cities\<rparr>"

lemma cities_model_ok:
  assumes "companion_fits (cities_model i st cs)" "\<And>c. c \<in> set cs \<Longrightarrow> clean_city c"
  shows "companion_ok (cities_model i st cs)"
  using assms unfolding companion_ok_def by (auto simp: cities_model_def intro!: exI [of _ cs])

lemma clean_cities_strip: "clean_cities names = Inr cities \<Longrightarrow> c \<in> set names \<Longrightarrow> clean_city (py_strip c)"
  using clean_cities_Inr [of names cities] by (metis image_eqI image_iff set_map)

lemma user_model_ok:
  assumes "user_fits (user_to_model u)" "opt_all (\<lambda>a. clean_url (mu_url a)) (u_avatar_url u)"
  shows "user_ok (user_to_model u)"
  using assms by (cases "u_avatar_url u") (simp_all add: user_ok_def user_to_model_def)

context prof_session
begin

lemma create_profile_view:
  assumes "create_profile S i i name cities bio role s = (Inr x, s')" "prof_ok (view s)"
  shows "x = i \<and> user_profiles (view s) i = None \<and> user_fits (user_to_model (UserProfile_create i name bio role)) \<and>
    (role = ''COMPANION'' \<longrightarrow> companion_ok (cities_model i ''APPROVED'' (map py_strip cities))) \<and>
    (\<exists>ob. view s' = (view s)\<lparr>user_profiles := (user_profiles (view s))(i \<mapsto> user_to_model (UserProfile_create i name bio role)),
      companion_profiles := (if role = ''COMPANION'' then (companion_profiles (view s))(i \<mapsto> cities_model i ''APPROVED'' (map py_strip cities))
        else companion_profiles (view s)), p_outbox := ob\<rparr>)"
proof -
  from assms(1) obtain v s1 y s2 z s3 w s4 where
    f: "UserProfileRepository_find_by_id S i s = (Inr v, s1)" and v: "v = None"
    and u: "UserProfileRepository_save S (UserProfile_create i name bio role) s1 = (Inr y, s2)"
    and c: "(if role = ''COMPANION'' then bindE (liftE (clean_cities cities)) (\<lambda>cities.
        bindE (CompanionProfileRepository_save S (CompanionProfile_create i cities ''APPROVED'')) (\<lambda>_.
        forE (profile_publish S) (fst (CompanionProfile_clear_events (CompanionProfile_create i cities ''APPROVED'')))))
        else ret ()) s2 = (Inr z, s3)"
    and p: "forE (\<lambda>event. profile_publish S (if role = ''COMPANION'' then fill_cities cities event else event))
        (fst (UserProfile_clear_events (UserProfile_create i name bio role))) s3 = (Inr w, s4)" and x: "x = i" "s' = s4"
    by (auto simp: create_profile_def Let_def bindE_eq_Inr_iff ret_run raise_run split: if_splits)
  note f = find_user [OF f prof_ok_tables(1) [OF assms(2)]] and u = save_user [OF u]
  have "\<exists>ob. view s' = (view s3)\<lparr>p_outbox := ob\<rparr>"
    using p x by (auto simp: aggregate_defs bindE_eq_Inr_iff ret_run dest!: profile_publish_view)
  moreover have "if role = ''COMPANION'' then companion_ok (cities_model i ''APPROVED'' (map py_strip cities)) \<and>
      view s3 = (view s2)\<lparr>companion_profiles := (companion_profiles (view s2))(i \<mapsto> cities_model i ''APPROVED'' (map py_strip cities))\<rparr>
    else view s3 = view s2"
  proof (cases "role = ''COMPANION''")
    case True
    with c obtain cs t a where cs: "clean_cities cities = Inr cs"
      and sv: "CompanionProfileRepository_save S (CompanionProfile_create i cs ''APPROVED'') s2 = (Inr a, t)" and t: "view s3 = view t"
      by (auto simp: bindE_eq_Inr_iff liftE_run aggregate_defs ret_run)
    have m: "companion_to_model (CompanionProfile_create i cs ''APPROVED'') = cities_model i ''APPROVED'' (map py_strip cities)"
      using clean_cities_Inr [OF cs] by (simp add: companion_to_model_def cities_model_def CompanionProfile_create_def)
    show ?thesis
      using save_companion [OF sv] True t clean_cities_strip [OF cs] unfolding m
      by (auto simp: CompanionProfile_create_def intro!: cities_model_ok)
  next
    case False
    with c show ?thesis by (simp add: ret_run)
  qed
  ultimately show ?thesis
    using f u v x by (auto simp: UserProfile_create_def UserProfile_add_event_def split: if_splits)
qed

lemma save_cities_view:
  assumes "save_cities S i cities s = (Inr x, s')" "prof_ok (view s)"
  shows "\<exists>st. st = (case companion_profiles (view s) i of None \<Rightarrow> ''APPROVED'' | Some c \<Rightarrow> cm_status c) \<and>
    companion_ok (cities_model i st (map py_strip cities)) \<and>
    view s' = (view s)\<lparr>companion_profiles := (companion_profiles (view s))(i \<mapsto> cities_model i st (map py_strip cities))\<rparr>"
proof -
  let ?new = "\<lambda>v cs. case v of None \<Rightarrow> CompanionProfile_create i cs ''APPROVED'' | Some p \<Rightarrow> CompanionProfile_update p cs"
  from assms(1) obtain v s1 cs y s2 z where
    f: "CompanionProfileRepository_find_by_id S i s = (Inr v, s1)" and cs: "clean_cities cities = Inr cs"
    and sv: "CompanionProfileRepository_save S (?new v cs) s1 = (Inr y, s2)"
    and pub: "forE (profile_publish S) (fst (CompanionProfile_clear_events (?new v cs))) s2 = (Inr z, s')"
    by (auto simp: save_cities_def Let_def bindE_eq_Inr_iff liftE_run)
  note f = find_companion [OF f prof_ok_tables(2) [OF assms(2)]]
  let ?st = "case companion_profiles (view s) i of None \<Rightarrow> ''APPROVED'' | Some c \<Rightarrow> cm_status c"
  have new: "c_companion_id (?new v cs) = i" "c_events (?new v cs) = []" "c_status (?new v cs) = ?st" "c_available_cities (?new v cs) = cs"
    using f table_ok_key [OF prof_ok_tables(2) [OF assms(2)], of i]
    by (auto simp: CompanionProfile_create_def CompanionProfile_update_def dest!: companion_to_domain_Inr)
  have m: "companion_to_model (?new v cs) = cities_model i ?st (map py_strip cities)"
    using clean_cities_Inr [OF cs] new by (simp add: companion_to_model_def cities_model_def)
  have "s' = s2" using pub new(2) by (simp add: CompanionProfile_clear_events_def ret_run)
  then show ?thesis
    using save_companion [OF sv] f clean_cities_strip [OF cs] unfolding m new(1)
    by (auto intro!: cities_model_ok)
qed

text \<open>The step of an update on the rows of one user.\<close>

lemma cities_step_ok:
  assumes ok: "prof_ok db" and u: "um_user_id u = i" "user_ok u" "user_profiles db i = Some r" "um_role u = um_role r"
    and c: "cs = companion_profiles db \<or> (um_role r = ''COMPANION'' \<and> (\<exists>c. cs = (companion_profiles db)(i \<mapsto> c) \<and>
      cm_companion_id c = i \<and> companion_ok c))"
  shows "prof_ok (db\<lparr>user_profiles := (user_profiles db)(i \<mapsto> u), companion_profiles := cs\<rparr>)"
proof -
  have "i \<in> dom cs \<longleftrightarrow> um_role u = ''COMPANION''" using c u(3,4) prof_ok_companions [OF ok, of i] by auto
  with c u(1,2) show ?thesis by (intro prof_ok_user [OF ok]) auto
qed

lemma user_then_cities:
  assumes ok: "prof_ok (view s)" and r: "user_profiles (view s) i = Some r"
    and up: "u_user_id up = i" "u_role up = um_role r" "opt_all (\<lambda>a. clean_url (mu_url a)) (u_avatar_url up)"
    and sv: "UserProfileRepository_save S up s = (Inr y, s2)"
    and c: "(if b then save_cities S i cities else ret ()) s2 = (Inr z, s3)" and b: "b \<Longrightarrow> u_role up = ''COMPANION''"
    and pub: "forE (profile_publish S) es s3 = (Inr x, s')"
  shows "(\<exists>ob. view s' = (view s)\<lparr>user_profiles := (user_profiles (view s))(i \<mapsto> user_to_model up),
      companion_profiles := (if b then (companion_profiles (view s))(i \<mapsto> cities_model i
        (cm_status (the (companion_profiles (view s) i))) (map py_strip cities)) else companion_profiles (view s)), p_outbox := ob\<rparr>) \<and>
    prof_ok (view s')"
proof -
  have u: "um_user_id (user_to_model up) = i" "um_role (user_to_model up) = um_role r" using up by (simp_all add: user_to_model_def)
  have uok: "user_ok (user_to_model up)" using save_user [OF sv] up(3) by (intro user_model_ok) simp_all
  have v2: "view s2 = (view s)\<lparr>user_profiles := (user_profiles (view s))(i \<mapsto> user_to_model up)\<rparr>"
    using save_user [OF sv] up(1) by simp
  have ok2: "prof_ok (view s2)" using cities_step_ok [OF ok u(1) uok r u(2), of "companion_profiles (view s)"] v2 by simp
  obtain ob where ob: "view s' = (view s3)\<lparr>p_outbox := ob\<rparr>" using profile_publish_all_view [OF pub] by blast
  show ?thesis
  proof (cases b)
    case True
    with b up(2) have role: "um_role r = ''COMPANION''" by simp
    then obtain c0 where c0: "companion_profiles (view s) i = Some c0"
      using prof_ok_companions [OF ok, of i] r by auto
    from save_cities_view [of i cities s2 z s3] c True ok2 v2 c0
    have s3: "companion_ok (cities_model i (cm_status c0) (map py_strip cities))"
      "view s3 = (view s2)\<lparr>companion_profiles := (companion_profiles (view s))(i \<mapsto> cities_model i (cm_status c0) (map py_strip cities))\<rparr>"
      by simp_all
    have "cm_companion_id (cities_model i (cm_status c0) (map py_strip cities)) = i" by (simp add: cities_model_def)
    with s3 role have "prof_ok (view s3)" unfolding s3(2) v2
      by (blast intro: cities_step_ok [OF ok u(1) uok r u(2)])
    with s3 v2 ob True c0 show ?thesis by auto
  next
    case False
    with c v2 ob ok2 show ?thesis by (auto simp: ret_run)
  qed
qed

lemma update_profile_view:
  assumes "update_profile S i name cities avatar bio s = (Inr x, s')" "prof_ok (view s)"
  shows "\<exists>r ob. user_profiles (view s) i = Some r \<and>
    view s' = (view s)\<lparr>user_profiles := (user_profiles (view s))(i \<mapsto> \<lparr>um_user_id = i, um_display_name = name,
        um_avatar_url = (if given avatar then Some (py_strip (the avatar)) else None), um_bio = Some bio, um_role = um_role r\<rparr>),
      companion_profiles := (if um_role r = ''COMPANION'' then (companion_profiles (view s))(i \<mapsto> cities_model i
        (cm_status (the (companion_profiles (view s) i))) (map py_strip cities)) else companion_profiles (view s)),
      p_outbox := ob\<rparr> \<and> prof_ok (view s')"
proof -
  from assms(1) obtain v s1 u0 av y s2 z s3 where
    f: "UserProfileRepository_find_by_id S i s = (Inr v, s1)" and v: "v = Some u0" and av: "url_if_given avatar = Inr av"
    and sv: "UserProfileRepository_save S (UserProfile_update u0 name bio av (Some cities)) s1 = (Inr y, s2)"
    and c: "(if u_role (UserProfile_update u0 name bio av (Some cities)) = ''COMPANION'' then save_cities S i cities else ret ()) s2 = (Inr z, s3)"
    and pub: "forE (profile_publish S) (fst (UserProfile_clear_events (UserProfile_update u0 name bio av (Some cities)))) s3 = (Inr x, s')"
    by (auto simp: update_profile_def Let_def returned)
  from f v obtain r where r: "view s1 = view s" "user_profiles (view s) i = Some r" "user_to_domain r = Inr u0"
    using find_user [OF f prof_ok_tables(1) [OF assms(2)]] by auto
  let ?u = "UserProfile_update u0 name bio av (Some cities)"
  have a: "opt_all (\<lambda>a. clean_url (mu_url a)) av" "map_option mu_url av = (if given avatar then Some (py_strip (the avatar)) else None)"
    using av by (auto simp: url_if_given_def bindS_eq_Inr_iff MediaUrl_Inr split: if_splits)
  have u: "u_user_id ?u = i" "u_role ?u = um_role r" "u_avatar_url ?u = av" "u_display_name ?u = name" "u_bio ?u = bio"
    using user_to_domain_Inr [OF r(3)] table_ok_key [OF prof_ok_tables(1) [OF assms(2)] r(2)]
    by (simp_all add: UserProfile_update_def UserProfile_add_event_def)
  have m: "user_to_model ?u = \<lparr>um_user_id = i, um_display_name = name,
      um_avatar_url = (if given avatar then Some (py_strip (the avatar)) else None), um_bio = Some bio, um_role = um_role r\<rparr>"
    using u a(2) by (simp add: user_to_model_def)
  have "opt_all (\<lambda>a. clean_url (mu_url a)) (u_avatar_url ?u)" using a(1) u(3) by simp
  from user_then_cities [OF _ _ u(1,2) this sv c _ pub, unfolded r(1) m u(2)] assms(2) r(2) show ?thesis by blast
qed

lemma patch_profile_view:
  assumes "patch_profile S i name bio cities avatar s = (Inr x, s')" "prof_ok (view s)"
  shows "\<exists>r u ob. user_profiles (view s) i = Some r \<and> um_user_id u = i \<and> um_role u = um_role r \<and>
    um_display_name u = (case name of None \<Rightarrow> um_display_name r | Some n \<Rightarrow> n) \<and>
    um_bio u = Some (case bio of None \<Rightarrow> case um_bio r of None \<Rightarrow> [] | Some b \<Rightarrow> b | Some b \<Rightarrow> b) \<and>
    view s' = (view s)\<lparr>user_profiles := (user_profiles (view s))(i \<mapsto> u),
      companion_profiles := (if um_role r = ''COMPANION'' \<and> cities \<noteq> None then (companion_profiles (view s))(i \<mapsto> cities_model i
        (cm_status (the (companion_profiles (view s) i))) (map py_strip (the cities))) else companion_profiles (view s)),
      p_outbox := ob\<rparr> \<and> prof_ok (view s')"
proof -
  let ?u = "\<lambda>u0 av. UserProfile_update u0 (case name of None \<Rightarrow> u_display_name u0 | Some n \<Rightarrow> n)
    (case bio of None \<Rightarrow> u_bio u0 | Some b \<Rightarrow> b) av cities"
  have role: "u_role (?u u0 av) = u_role u0" for u0 av by (simp add: UserProfile_update_def UserProfile_add_event_def)
  from assms(1) obtain v s1 u0 av y s2 z s3 where
    f: "UserProfileRepository_find_by_id S i s = (Inr v, s1)" and v: "v = Some u0"
    and av: "url_or_old avatar (u_avatar_url u0) = Inr av" and sv: "UserProfileRepository_save S (?u u0 av) s1 = (Inr y, s2)"
    and c: "(if u_role u0 = ''COMPANION'' then case cities of None \<Rightarrow> ret () | Some cs \<Rightarrow> save_cities S i cs else ret ()) s2 = (Inr z, s3)"
    and pub: "forE (profile_publish S) (fst (UserProfile_clear_events (?u u0 av))) s3 = (Inr x, s')"
    by (auto simp: patch_profile_def Let_def returned role)
  have c: "(if u_role u0 = ''COMPANION'' \<and> cities \<noteq> None then save_cities S i (the cities) else ret ()) s2 = (Inr z, s3)"
    using c by (auto split: if_splits option.splits)
  from f v obtain r where r: "view s1 = view s" "user_profiles (view s) i = Some r" "user_to_domain r = Inr u0"
    using find_user [OF f prof_ok_tables(1) [OF assms(2)]] by auto
  note u0 = user_to_domain_Inr [OF r(3)]
  have a: "opt_all (\<lambda>a. clean_url (mu_url a)) av"
    using av u0 by (auto simp: url_or_old_def bindS_eq_Inr_iff MediaUrl_Inr split: option.splits)
  have u: "u_user_id (?u u0 av) = i" "u_role (?u u0 av) = um_role r" "u_avatar_url (?u u0 av) = av"
    "u_display_name (?u u0 av) = (case name of None \<Rightarrow> um_display_name r | Some n \<Rightarrow> n)"
    "u_bio (?u u0 av) = (case bio of None \<Rightarrow> case um_bio r of None \<Rightarrow> [] | Some b \<Rightarrow> b | Some b \<Rightarrow> b)"
    using u0 table_ok_key [OF prof_ok_tables(1) [OF assms(2)] r(2)]
    by (simp_all add: UserProfile_update_def UserProfile_add_event_def split: option.splits)
  have r0: "u_role u0 = um_role r" using u0 by simp
  have "opt_all (\<lambda>a. clean_url (mu_url a)) (u_avatar_url (?u u0 av))" using a u(3) by simp
  from user_then_cities [OF _ _ u(1,2) this sv c _ pub, unfolded r(1) r0 u(2)] assms(2) r(2)
  obtain ob where "view s' = (view s)\<lparr>user_profiles := (user_profiles (view s))(i \<mapsto> user_to_model (?u u0 av)),
      companion_profiles := (if um_role r = ''COMPANION'' \<and> cities \<noteq> None then (companion_profiles (view s))(i \<mapsto> cities_model i
        (cm_status (the (companion_profiles (view s) i))) (map py_strip (the cities))) else companion_profiles (view s)), p_outbox := ob\<rparr>"
    "prof_ok (view s')" by blast
  moreover have "um_user_id (user_to_model (?u u0 av)) = i" "um_role (user_to_model (?u u0 av)) = um_role r"
    "um_display_name (user_to_model (?u u0 av)) = (case name of None \<Rightarrow> um_display_name r | Some n \<Rightarrow> n)"
    "um_bio (user_to_model (?u u0 av)) = Some (case bio of None \<Rightarrow> case um_bio r of None \<Rightarrow> [] | Some b \<Rightarrow> b | Some b \<Rightarrow> b)"
    using u by (simp_all only: user_to_model_def user_model.simps)
  ultimately show ?thesis using r(2) by blast
qed

lemma upgrade_profile_role_view:
  assumes "upgrade_profile_role S i s = (Inr x, s')" "prof_ok (view s)"
  shows "\<exists>r u ob. user_profiles (view s) i = Some r \<and> um_user_id u = i \<and> um_role u = ''COMPANION'' \<and>
    um_display_name u = um_display_name r \<and>
    view s' = (view s)\<lparr>user_profiles := (user_profiles (view s))(i \<mapsto> u),
      companion_profiles := (if companion_profiles (view s) i = None then (companion_profiles (view s))(i \<mapsto> cities_model i ''APPROVED'' [])
        else companion_profiles (view s)), p_outbox := ob\<rparr> \<and> prof_ok (view s')"
proof -
  from assms(1) obtain v s1 u0 y s2 w s3 z s4 where
    f: "UserProfileRepository_find_by_id S i s = (Inr v, s1)" and v: "v = Some u0"
    and sv: "UserProfileRepository_save S (upgrade_to_companion u0) s1 = (Inr y, s2)"
    and g: "CompanionProfileRepository_find_by_id S i s2 = (Inr w, s3)"
    and c: "(if w = None then let companion_profile = CompanionProfile_create i [] ''APPROVED'' in
        bindE (CompanionProfileRepository_save S companion_profile) (\<lambda>_.
        forE (profile_publish S) (fst (CompanionProfile_clear_events companion_profile))) else ret ()) s3 = (Inr z, s4)"
    and pub: "forE (profile_publish S) (fst (UserProfile_clear_events (upgrade_to_companion u0))) s4 = (Inr x, s')"
    by (auto simp: upgrade_profile_role_def Let_def [of "upgrade_to_companion _"] returned)
  have pub0: "forE (profile_publish S) (fst (CompanionProfile_clear_events (CompanionProfile_create i [] st))) = ret ()" for st
    by (simp add: CompanionProfile_clear_events_def CompanionProfile_create_def)
  have c: "(if w = None then bindE (CompanionProfileRepository_save S (CompanionProfile_create i [] ''APPROVED'')) (\<lambda>_. ret ())
      else ret ()) s3 = (Inr z, s4)"
    using c unfolding Let_def pub0 .
  from f v obtain r where r: "view s1 = view s" "user_profiles (view s) i = Some r" "user_to_domain r = Inr u0"
    using find_user [OF f prof_ok_tables(1) [OF assms(2)]] by auto
  let ?u = "user_to_model (upgrade_to_companion u0)"
  note u0 = user_to_domain_Inr [OF r(3)] and id = table_ok_key [OF prof_ok_tables(1) [OF assms(2)] r(2)]
  have u: "um_user_id ?u = i" "um_role ?u = ''COMPANION''" "um_display_name ?u = um_display_name r" and ui: "u_user_id u0 = i"
    using u0 id by (simp_all add: user_to_model_def upgrade_to_companion_def)
  have uok: "user_ok ?u" using save_user [OF sv] u0 by (intro user_model_ok) (simp_all add: upgrade_to_companion_def)
  have v2: "view s2 = (view s)\<lparr>user_profiles := (user_profiles (view s))(i \<mapsto> ?u)\<rparr>"
    using save_user [OF sv] r(1) ui by (simp add: upgrade_to_companion_def)
  have w: "view s3 = view s2" "w = None \<longleftrightarrow> companion_profiles (view s) i = None"
    using find_companion [OF g] prof_ok_tables(2) [OF assms(2)] v2 by auto
  have m: "companion_to_model (CompanionProfile_create i [] ''APPROVED'') = cities_model i ''APPROVED'' []"
    by (simp add: companion_to_model_def cities_model_def CompanionProfile_create_def)
  let ?cs = "if companion_profiles (view s) i = None then (companion_profiles (view s))(i \<mapsto> cities_model i ''APPROVED'' [])
      else companion_profiles (view s)"
  have new: "companion_ok (cities_model i ''APPROVED'' [])" if "companion_profiles (view s) i = None"
    using c w that m by (auto simp: bindE_eq_Inr_iff ret_run dest!: save_companion intro!: cities_model_ok)
  have v4: "view s4 = (view s)\<lparr>user_profiles := (user_profiles (view s))(i \<mapsto> ?u), companion_profiles := ?cs\<rparr>"
    using c w v2 m by (auto simp: bindE_eq_Inr_iff ret_run CompanionProfile_create_def dest!: save_companion split: if_splits)
  have "prof_ok (view s4)" unfolding v4
    using new u uok by (intro prof_ok_user [OF assms(2)]) (auto simp: cities_model_def)
  with v4 r(2) u profile_publish_all_view [OF pub] show ?thesis by fastforce
qed

end

end
