(* ===== verification/Profile_Catalogue.thy ===== *)
theory Profile_Catalogue
  imports Profile_Invariant
begin

text \<open>
  The commands on scenarios and media: what they do to the tables when they return, and that they keep the
  content well formed.
\<close>

section \<open>Scenarios\<close>

text \<open>The identifiers that \<open>uuid4\<close> hands out are not in use.\<close>

definition prof_fresh :: "'s prof_session \<Rightarrow> ('s \<Rightarrow> prof_db) \<Rightarrow> prof_db \<Rightarrow> bool" where
  "prof_fresh S view db \<longleftrightarrow>
     (\<forall>s i s'. view s = db \<longrightarrow> prof_uuid4 S s = (Inr i, s') \<longrightarrow> scenarios db i = None \<and> media_assets db i = None)"

lemma prof_freshD:
  "prof_fresh S view db \<Longrightarrow> prof_uuid4 S s = (Inr i, s') \<Longrightarrow> view s = db \<Longrightarrow> scenarios db i = None \<and> media_assets db i = None"
  unfolding prof_fresh_def by metis

context prof_session
begin

lemma create_scenario_view:
  assumes "create_scenario S c title descr price dur s = (Inr x, s')" "prof_ok (view s)"
  shows "c \<in> dom (companion_profiles (view s)) \<and> card {k. \<exists>r. scenarios (view s) k = Some r \<and> is_active_of c r} < 5 \<and>
    0 < price \<and> dur \<in> {60, 120, 180} \<and> (prof_fresh S view (view s) \<longrightarrow> scenarios (view s) x = None) \<and>
    (\<exists>ob. view s' = (view s)\<lparr>scenarios := (scenarios (view s))(x \<mapsto> \<lparr>scm_scenario_id = x, scm_companion_id = c, scm_title = title,
      scm_description = Some descr, scm_price = price, scm_duration_minutes = dur, scm_status = ''ACTIVE''\<rparr>), p_outbox := ob\<rparr>) \<and>
    prof_ok (view s')"
proof -
  note t = prof_ok_tables [OF assms(2)]
  from assms(1) obtain v s1 n s2 s3 u s4 w where
    f: "CompanionProfileRepository_find_by_id S c s = (Inr v, s1)" and v: "v \<noteq> None"
    and n: "ScenarioRepository_count_by_companion_id S c s1 = (Inr n, s2)" "n < 5"
    and p: "0 < price" "dur \<in> {60, 120, 180}" and uu: "prof_uuid4 S s2 = (Inr x, s3)"
    and sv: "ScenarioRepository_save S (Scenario_create x c title descr \<lparr>money_amount = price\<rparr> \<lparr>minutes = dur\<rparr>) s3 = (Inr u, s4)"
    and pub: "forE (profile_publish S) (fst (Scenario_clear_events (Scenario_create x c title descr \<lparr>money_amount = price\<rparr> \<lparr>minutes = dur\<rparr>))) s4 = (Inr w, s')"
    by (auto simp: create_scenario_def Let_def returned Money_p_Inr Duration_Inr)
  let ?r = "\<lparr>scm_scenario_id = x, scm_companion_id = c, scm_title = title, scm_description = Some descr, scm_price = price,
    scm_duration_minutes = dur, scm_status = ''ACTIVE''\<rparr>"
  have m: "scenario_to_model (Scenario_create x c title descr \<lparr>money_amount = price\<rparr> \<lparr>minutes = dur\<rparr>) = ?r"
    "sc_scenario_id (Scenario_create x c title descr \<lparr>money_amount = price\<rparr> \<lparr>minutes = dur\<rparr>) = x"
    by (simp_all add: scenario_to_model_def aggregate_defs)
  have v3: "view s3 = view s" "view s1 = view s" "c \<in> dom (companion_profiles (view s))"
    using find_companion [OF f t(2)] v scenario_count_ok [OF n(1) [unfolded ScenarioRepository_count_by_companion_id_def]] uu.frame_ok [OF uu]
    by auto
  have c5: "card {k. \<exists>r. scenarios (view s) k = Some r \<and> is_active_of c r} < 5"
    using scenario_count_ok [OF n(1) [unfolded ScenarioRepository_count_by_companion_id_def]] n(2) v3(2) by simp
  have v4: "view s4 = (view s)\<lparr>scenarios := (scenarios (view s))(x \<mapsto> ?r)\<rparr>" "scenario_fits ?r"
    using save_scenario [OF sv] v3 unfolding m by simp_all
  have "prof_ok (view s4)" unfolding v4
    using p v4(2) v3(3)
    by (intro prof_ok_scenarios [OF assms(2)] table_ok_put [OF t(3)])
      (auto simp: ran_updated [OF t(3)] scenario_ok_def scenario_parent_def)
  moreover have "view s2 = view s" using uu.frame_ok [OF uu] v3(1) by simp
  then have "prof_fresh S view (view s) \<Longrightarrow> scenarios (view s) x = None" using prof_freshD [OF _ uu] by blast
  ultimately show ?thesis using c5 v3 v4 p profile_publish_all_view [OF pub] by auto
qed

lemma update_scenario_view:
  assumes "update_scenario S k c title descr price dur st s = (Inr x, s')" "prof_ok (view s)"
  shows "\<exists>r. scenarios (view s) k = Some r \<and> scm_companion_id r = c \<and> 0 < price \<and> dur \<in> {60, 120, 180} \<and>
    (\<exists>ob. view s' = (view s)\<lparr>scenarios := (scenarios (view s))(k \<mapsto> \<lparr>scm_scenario_id = k, scm_companion_id = c, scm_title = title,
      scm_description = Some descr, scm_price = price, scm_duration_minutes = dur, scm_status = st\<rparr>), p_outbox := ob\<rparr>) \<and>
    prof_ok (view s')"
proof -
  note t = prof_ok_tables [OF assms(2)]
  let ?new = "\<lambda>sc. Scenario_update sc title descr \<lparr>money_amount = price\<rparr> \<lparr>minutes = dur\<rparr> st"
  from assms(1) obtain v s1 sc y s2 where
    f: "ScenarioRepository_find_by_id S k s = (Inr v, s1)" and v: "v = Some sc" "sc_companion_id sc = c"
    and p: "0 < price" "dur \<in> {60, 120, 180}" and sv: "ScenarioRepository_save S (?new sc) s1 = (Inr y, s2)"
    and pub: "forE (profile_publish S) (fst (Scenario_clear_events (?new sc))) s2 = (Inr x, s')"
    by (auto simp: update_scenario_def Let_def returned Money_p_Inr Duration_Inr)
  from find_scenario [OF f t(3)] v(1) obtain r where r: "view s1 = view s" "scenarios (view s) k = Some r" "scenario_to_domain r = Inr sc"
    by auto
  let ?r = "\<lparr>scm_scenario_id = k, scm_companion_id = c, scm_title = title, scm_description = Some descr, scm_price = price,
    scm_duration_minutes = dur, scm_status = st\<rparr>"
  have id: "scm_scenario_id r = k" "scm_companion_id r = c" "sc_scenario_id (?new sc) = k"
    using table_ok_key [OF t(3) r(2)] r(3) v(2) by (auto simp: scenario_to_domain_Inr aggregate_defs)
  have m: "scenario_to_model (?new sc) = ?r"
    using r(3) v(2) id by (simp add: scenario_to_domain_Inr scenario_to_model_def aggregate_defs)
  have v2: "view s2 = (view s)\<lparr>scenarios := (scenarios (view s))(k \<mapsto> ?r)\<rparr>" "scenario_fits ?r" "scenario_parent (view s) ?r"
    using save_scenario [OF sv] r(1) unfolding m id by simp_all
  have "prof_ok (view s2)" unfolding v2
    using p v2(2,3) by (intro prof_ok_scenarios [OF assms(2)] table_ok_put [OF t(3)]) (auto simp: ran_updated [OF t(3)] scenario_ok_def)
  with r id v2 p profile_publish_all_view [OF pub] show ?thesis by auto
qed

lemma delete_scenario_view:
  assumes "delete_scenario S k c s = (Inr x, s')" "prof_ok (view s)"
  shows "\<exists>r. scenarios (view s) k = Some r \<and> scm_companion_id r = c \<and>
    (\<exists>ob. view s' = (view s)\<lparr>scenarios := (scenarios (view s))(k := None), p_outbox := ob\<rparr>) \<and> prof_ok (view s')"
proof -
  note t = prof_ok_tables [OF assms(2)]
  from assms(1) obtain v s1 sc y s2 where
    f: "ScenarioRepository_find_by_id S k s = (Inr v, s1)" and v: "v = Some sc" "sc_companion_id sc = c"
    and d: "ScenarioRepository_delete S k c s1 = (Inr y, s2)"
    and pub: "forE (profile_publish S) (fst (Scenario_clear_events (Scenario_delete sc))) s2 = (Inr x, s')"
    by (auto simp: delete_scenario_def Let_def returned)
  from find_scenario [OF f t(3)] v obtain r where r: "view s1 = view s" "scenarios (view s) k = Some r" "scm_companion_id r = c"
    by (auto simp: scenario_to_domain_Inr)
  have v2: "view s2 = (view s)\<lparr>scenarios := (scenarios (view s))(k := None)\<rparr>"
    using delete_scenario_row [OF d] r t(3) by simp
  have "prof_ok (view s2)" unfolding v2
    by (intro prof_ok_scenarios [OF assms(2)] table_ok_remove [OF t(3)]) (auto dest: ran_remove)
  with r v2 profile_publish_all_view [OF pub] show ?thesis by auto
qed

section \<open>Media\<close>

lemma find_media_list:
  assumes "MediaAssetRepository_find_by_companion_id_and_type S c ty s = (Inr ms, s')"
    "table_ok mm_asset_id mm_asset_id (media_assets (view s))"
  shows "view s' = view s \<and> length ms = media_count (view s) c ty \<and>
    ma_asset_id ` set ms = mm_asset_id ` {m \<in> ran (media_assets (view s)). is_media_of c ty m}"
proof -
  from assms(1) obtain rs where sel: "media_select S False (is_media_of c ty) s = (Inr rs, s')"
    and ms: "list_map_exn media_to_domain rs = Inr ms"
    by (auto simp: MediaAssetRepository_find_by_companion_id_and_type_def returned)
  have rs: "set rs = {m \<in> ran (media_assets (view s)). is_media_of c ty m}" "view s' = view s"
    using mt.select_ok [OF sel] by simp_all
  have "distinct rs" using media_rows [OF sel assms(2)] by (simp add: distinct_map)
  then have "length rs = media_count (view s) c ty" by (metis distinct_card media_count_def rs(1))
  moreover have "list_all2 (\<lambda>r m. media_to_domain r = Inr m) rs ms" using ms by (rule list_map_exn_Inr)
  then have "length ms = length rs" "map ma_asset_id ms = map mm_asset_id rs"
    by (induction rule: list_all2_induct) (auto dest!: media_to_domain_Inr)
  ultimately show ?thesis using rs by (metis image_set)
qed

lemma delete_media_all:
  "forE (\<lambda>m. MediaAssetRepository_delete S (ma_asset_id m)) ms s = (Inr x, s') \<Longrightarrow> prof_ok (view s) \<Longrightarrow>
   view s' = (view s)\<lparr>media_assets := media_assets (view s) |` (- ma_asset_id ` set ms)\<rparr> \<and> prof_ok (view s')"
proof (induction ms arbitrary: s)
  case Nil
  then show ?case by (simp add: ret_run)
next
  case (Cons m ms)
  then obtain y t where d: "MediaAssetRepository_delete S (ma_asset_id m) s = (Inr y, t)"
    and rest: "forE (\<lambda>m. MediaAssetRepository_delete S (ma_asset_id m)) ms t = (Inr x, s')"
    by (auto simp: bindE_eq_Inr_iff)
  have v: "view t = (view s)\<lparr>media_assets := (media_assets (view s))(ma_asset_id m := None)\<rparr>"
    using delete_media_row [OF d prof_ok_tables(4) [OF Cons.prems(2)]] .
  have "prof_ok (view t)" unfolding v by (rule prof_ok_media_remove [OF Cons.prems(2)])
  from Cons.IH [OF rest this] v show ?case by (auto simp: restrict_map_def fun_eq_iff)
qed

lemma delete_media_view:
  assumes "delete_media S c k s = (Inr x, s')" "prof_ok (view s)"
  shows "\<exists>r. media_assets (view s) k = Some r \<and> mm_companion_id r = c \<and>
    view s' = (view s)\<lparr>media_assets := (media_assets (view s))(k := None)\<rparr> \<and> prof_ok (view s')"
proof -
  note t = prof_ok_tables(4) [OF assms(2)]
  from assms(1) obtain v s1 m where f: "MediaAssetRepository_find_by_id S k s = (Inr v, s1)" "v = Some m" "ma_companion_id m = c"
    and d: "MediaAssetRepository_delete S k s1 = (Inr x, s')"
    by (auto simp: delete_media_def returned)
  from find_media [OF f(1) t] f(2,3) obtain r where r: "view s1 = view s" "media_assets (view s) k = Some r" "mm_companion_id r = c"
    by (auto dest!: media_to_domain_Inr)
  with delete_media_row [OF d] t prof_ok_media_remove [OF assms(2)] show ?thesis by simp
qed

end

section \<open>The object store\<close>

locale prof_store = prof_session S view com + store_frame T view com
  for S :: "'s prof_session" and T :: "'s storage" and view :: "'s \<Rightarrow> prof_db" and com :: "'s \<Rightarrow> prof_db"
begin

lemma double_check_keeps:
  "keeps view (double_check_s3_metadata T url n)" "keeps com (double_check_s3_metadata T url n)"
  unfolding double_check_s3_metadata_def by (intro keep_intros store_view store_com)+

lemma media_saved:
  assumes ok: "prof_ok (view s)" and sv: "MediaAssetRepository_save S m s = (Inr y, s2)" and es: "forE (profile_publish S) es s2 = (Inr z, s')"
    and m: "media_fits (media_to_model m) \<Longrightarrow> media_ok (media_to_model m)"
    and room: "media_count (view s) (ma_companion_id m) (ma_asset_type m) < (if ma_asset_type m = ''ALBUM'' then 4 else 1)"
  shows "(\<exists>ob. view s' = (view s)\<lparr>media_assets := (media_assets (view s))(ma_asset_id m \<mapsto> media_to_model m), p_outbox := ob\<rparr>) \<and> prof_ok (view s')"
proof -
  note sv = save_media [OF sv]
  have "prof_ok (view s2)"
    using sv m room by (auto intro!: prof_ok_media_add [OF ok] simp: media_to_model_def)
  with sv profile_publish_all_view [OF es] show ?thesis by auto
qed

lemma register_album_image_view:
  assumes "register_album_image S T c url n s = (Inr x, s')" "prof_ok (view s)"
  shows "media_count (view s) c ''ALBUM'' < 4 \<and> n \<le> 2097152 \<and> (prof_fresh S view (view s) \<longrightarrow> media_assets (view s) x = None) \<and>
    (\<exists>ob. view s' = (view s)\<lparr>media_assets := (media_assets (view s))(x \<mapsto> \<lparr>mm_asset_id = x, mm_companion_id = c,
      mm_file_url = py_strip url, mm_asset_type = ''ALBUM'', mm_size_bytes = n, mm_duration_seconds = None, mm_status = ''APPROVED''\<rparr>),
      p_outbox := ob\<rparr>) \<and> prof_ok (view s')"
proof -
  note t = prof_ok_tables(4) [OF assms(2)]
  from assms(1) obtain ms s1 y s2 u s3 m z s4 w where
    f: "MediaAssetRepository_find_by_companion_id_and_type S c ''ALBUM'' s = (Inr ms, s1)" "\<not> 4 \<le> int (length ms)"
    and dc: "double_check_s3_metadata T url n s1 = (Inr y, s2)" and u: "MediaUrl url = Inr u" and uu: "prof_uuid4 S s2 = (Inr x, s3)"
    and m: "create_album_image x c u n = Inr m" and sv: "MediaAssetRepository_save S m s3 = (Inr z, s4)"
    and pub: "forE (profile_publish S) (fst (MediaAsset_clear_events m)) s4 = (Inr w, s')"
    by (auto simp: register_album_image_def validate_album_limit_def returned aggregate_defs split: if_splits)
  have v3: "view s3 = view s" "view s2 = view s" "media_count (view s) c ''ALBUM'' < 4"
    using find_media_list [OF f(1) t] f(2) keepsD [OF double_check_keeps(1) dc] uu.frame_ok [OF uu] by auto
  let ?r = "\<lparr>mm_asset_id = x, mm_companion_id = c, mm_file_url = py_strip url, mm_asset_type = ''ALBUM'', mm_size_bytes = n,
    mm_duration_seconds = None, mm_status = ''APPROVED''\<rparr>"
  have mm: "media_to_model m = ?r" "ma_asset_id m = x" "ma_companion_id m = c" "ma_asset_type m = ''ALBUM''"
    and n: "n \<le> 2097152" and cl: "clean_url (py_strip url)"
    using m u by (auto simp: media_to_model_def create_album_image_def MediaAsset_add_event_def MediaUrl_Inr split: if_splits)
  have "prof_fresh S view (view s) \<Longrightarrow> media_assets (view s) x = None" using prof_freshD [OF _ uu] v3(2) by blast
  with media_saved [OF _ sv pub] assms(2) v3 n cl show ?thesis unfolding mm by (simp add: media_ok_def)
qed

lemma register_voice_intro_view:
  assumes "register_voice_intro S T c url d n s = (Inr x, s')" "prof_ok (view s)"
  shows "d \<le> 30 \<and> n \<le> 5242880 \<and> (prof_fresh S view (view s) \<longrightarrow> media_assets (view s) x = None) \<and>
    (\<exists>ob. view s' = (view s)\<lparr>media_assets := (media_assets (view s) |` {k. \<forall>m. media_assets (view s) k = Some m \<longrightarrow> \<not> is_media_of c ''VOICE_INTRO'' m})
      (x \<mapsto> \<lparr>mm_asset_id = x, mm_companion_id = c, mm_file_url = py_strip url, mm_asset_type = ''VOICE_INTRO'', mm_size_bytes = n,
        mm_duration_seconds = Some d, mm_status = ''APPROVED''\<rparr>), p_outbox := ob\<rparr>) \<and> prof_ok (view s')"
proof -
  note t = prof_ok_tables(4) [OF assms(2)]
  from assms(1) obtain y s1 u s2 m ms s3 q s4 z s5 w where
    dc: "double_check_s3_metadata T url n s = (Inr y, s1)" and u: "MediaUrl url = Inr u" and uu: "prof_uuid4 S s1 = (Inr x, s2)"
    and m: "create_voice_intro x c u n d = Inr m"
    and f: "MediaAssetRepository_find_by_companion_id_and_type S c ''VOICE_INTRO'' s2 = (Inr ms, s3)"
    and del: "forE (\<lambda>m. MediaAssetRepository_delete S (ma_asset_id m)) ms s3 = (Inr q, s4)"
    and sv: "MediaAssetRepository_save S m s4 = (Inr z, s5)"
    and pub: "forE (profile_publish S) (fst (MediaAsset_clear_events m)) s5 = (Inr w, s')"
    by (auto simp: register_voice_intro_def returned aggregate_defs split: if_splits)
  have v3: "view s3 = view s" "ma_asset_id ` set ms = mm_asset_id ` {m \<in> ran (media_assets (view s)). is_media_of c ''VOICE_INTRO'' m}"
    using find_media_list [OF f] t keepsD [OF double_check_keeps(1) dc] uu.frame_ok [OF uu] by auto
  let ?K = "{k. \<forall>m. media_assets (view s) k = Some m \<longrightarrow> \<not> is_media_of c ''VOICE_INTRO'' m}"
  have keys: "k \<in> - ma_asset_id ` set ms \<longleftrightarrow> k \<in> ?K" for k
    unfolding v3(2) using table_ok_key [OF t] by (auto simp: ran_def)
  then have K: "- ma_asset_id ` set ms = ?K" by blast
  have v4: "view s4 = (view s)\<lparr>media_assets := media_assets (view s) |` ?K\<rparr>" "prof_ok (view s4)"
    using delete_media_all [OF del, unfolded v3(1) K, OF assms(2)] by blast+
  have a4: "media_assets (view s4) = media_assets (view s) |` ?K" using v4(1) by simp
  have e: "{r \<in> ran (media_assets (view s) |` ?K). is_media_of c ''VOICE_INTRO'' r} = {}"
    by (auto simp: ran_def restrict_map_def split: if_splits)
  have none: "media_count (view s4) c ''VOICE_INTRO'' = 0" unfolding media_count_def a4 e by simp
  let ?r = "\<lparr>mm_asset_id = x, mm_companion_id = c, mm_file_url = py_strip url, mm_asset_type = ''VOICE_INTRO'', mm_size_bytes = n,
    mm_duration_seconds = Some d, mm_status = ''APPROVED''\<rparr>"
  have mm: "media_to_model m = ?r" "ma_asset_id m = x" "ma_companion_id m = c" "ma_asset_type m = ''VOICE_INTRO''"
    and n: "n \<le> 5242880" "d \<le> 30" and cl: "clean_url (py_strip url)"
    using m u by (auto simp: media_to_model_def create_voice_intro_def MediaAsset_add_event_def MediaUrl_Inr split: if_splits)
  have "media_fits ?r \<Longrightarrow> media_ok ?r" using n cl by (simp add: media_ok_def)
  moreover have "view s1 = view s" using keepsD [OF double_check_keeps(1) dc] .
  then have "prof_fresh S view (view s) \<Longrightarrow> media_assets (view s) x = None" using prof_freshD [OF _ uu] by blast
  ultimately show ?thesis using media_saved [OF v4(2) sv pub, unfolded mm] none v4(1) n by auto
qed

end

end
