(* ===== verification/Profile_System.thy ===== *)
theory Profile_System
  imports Profile_Catalogue
begin

text \<open>
  The profile service as a transaction system: what one request, whichever way it ends, does to the
  committed tables.  \<open>foreign\<close> is the part of a table that belongs to others than the actor.
\<close>

section \<open>The rows of others\<close>

definition foreign :: "('r \<Rightarrow> string) \<Rightarrow> string \<Rightarrow> (string \<rightharpoonup> 'r) \<Rightarrow> string \<rightharpoonup> 'r" where
  "foreign own c tab = (\<lambda>k. case tab k of None \<Rightarrow> None | Some r \<Rightarrow> if own r = c then None else Some r)"

definition others_kept :: "string \<Rightarrow> prof_db \<Rightarrow> prof_db \<Rightarrow> bool" where
  "others_kept c db db' \<longleftrightarrow>
     foreign um_user_id c (user_profiles db') = foreign um_user_id c (user_profiles db) \<and>
     foreign cm_companion_id c (companion_profiles db') = foreign cm_companion_id c (companion_profiles db) \<and>
     foreign scm_companion_id c (scenarios db') = foreign scm_companion_id c (scenarios db) \<and>
     foreign mm_companion_id c (media_assets db') = foreign mm_companion_id c (media_assets db)"

lemma others_kept_refl [simp]: "others_kept c db db"
  by (simp add: others_kept_def)

lemma foreign_upd: "own r = c \<Longrightarrow> opt_all (\<lambda>x. own x = c) (tab k) \<Longrightarrow> foreign own c (tab(k \<mapsto> r)) = foreign own c tab"
  by (auto simp: foreign_def fun_eq_iff split: option.splits)

lemma foreign_del: "opt_all (\<lambda>x. own x = c) (tab k) \<Longrightarrow> foreign own c (tab(k := None)) = foreign own c tab"
  by (auto simp: foreign_def fun_eq_iff split: option.splits)

lemma foreign_restrict: "(\<And>k r. tab k = Some r \<Longrightarrow> k \<notin> K \<Longrightarrow> own r = c) \<Longrightarrow> foreign own c (tab |` K) = foreign own c tab"
  by (auto simp: foreign_def fun_eq_iff restrict_map_def split: option.splits)

lemma foreign_key: "table_ok own own tab \<Longrightarrow> own r = c \<Longrightarrow> foreign own c (tab(c \<mapsto> r)) = foreign own c tab"
  by (rule foreign_upd) (auto simp: opt_all_def dest: table_ok_key split: option.splits)

section \<open>Commands\<close>

context prof_session
begin

text \<open>A step by \<open>c\<close>: the content stays well formed, and the rows of others stay as they were if identifiers are fresh.\<close>

definition step_by :: "string \<Rightarrow> prof_db \<Rightarrow> prof_db \<Rightarrow> bool" where
  "step_by c db db' \<longleftrightarrow> prof_ok db' \<and> (prof_fresh S view db \<longrightarrow> others_kept c db db')"

definition does :: "string \<Rightarrow> ('s, 'e, 'a) eff \<Rightarrow> bool" where
  "does c m \<longleftrightarrow> keeps com m \<and> (\<forall>s x s'. m s = (Inr x, s') \<longrightarrow> prof_ok (view s) \<longrightarrow> step_by c (view s) (view s'))"

lemma doesI:
  assumes "keeps com m" "\<And>s x s'. m s = (Inr x, s') \<Longrightarrow> prof_ok (view s) \<Longrightarrow> step_by c (view s) (view s')"
  shows "does c m"
  using assms unfolding does_def by blast

lemma does_after:
  assumes "keeps com q" "keeps view q" "\<And>x. does c (f x)"
  shows "does c (bindE q f)"
proof (rule doesI)
  show "keeps com (bindE q f)" using assms unfolding does_def by (intro keep_intros) auto
  fix s x s' assume "bindE q f s = (Inr x, s')" "prof_ok (view s)"
  then obtain y t where "q s = (Inr y, t)" "f y t = (Inr x, s')" by (auto simp: bindE_eq_Inr_iff)
  moreover then have "view t = view s" using assms(2) by (auto dest: keepsD)
  ultimately show "step_by c (view s) (view s')" using assms(3) [of y] \<open>prof_ok (view s)\<close> unfolding does_def by metis
qed

lemma does_then_ret: "does c m \<Longrightarrow> does c (bindE m (\<lambda>x. ret (g x)))"
  by (rule doesI) (auto simp: does_def returned intro!: keep_intros)

lemma does_if: "(b \<Longrightarrow> does c m) \<Longrightarrow> (\<not> b \<Longrightarrow> does c n) \<Longrightarrow> does c (if b then m else n)"
  by simp

lemma save_cities_keeps [keep_intros]: "keeps com (save_cities S i cities)"
  unfolding save_cities_def Let_def by (intro keep_intros)

lemma command_keeps [keep_intros]:
  "keeps com (create_profile S i j name cities bio role)" "keeps com (update_profile S i name cities avatar bio)"
  "keeps com (patch_profile S i pname pbio pcities avatar)" "keeps com (upgrade_profile_role S i)"
  "keeps com (create_scenario S i title descr price dur)" "keeps com (update_scenario S k i title descr price dur st)"
  "keeps com (delete_scenario S k i)" "keeps com (delete_media S i k)"
  unfolding create_profile_def update_profile_def patch_profile_def upgrade_profile_role_def create_scenario_def
    update_scenario_def delete_scenario_def delete_media_def Let_def
  by (intro keep_intros)+

lemma user_step_kept:
  assumes ok: "prof_ok db"
    and db': "db' = db\<lparr>user_profiles := (user_profiles db)(i \<mapsto> u),
      companion_profiles := (if b then (companion_profiles db)(i \<mapsto> cities_model i st cities) else companion_profiles db), p_outbox := ob\<rparr>"
    and u: "um_user_id u = i"
  shows "others_kept i db db'"
proof -
  have "foreign cm_companion_id i ((companion_profiles db)(i \<mapsto> cities_model i st cities)) = foreign cm_companion_id i (companion_profiles db)"
    by (rule foreign_key [OF prof_ok_tables(2) [OF ok]]) (simp add: cities_model_def)
  with foreign_key [OF prof_ok_tables(1) [OF ok] u] show ?thesis by (simp add: others_kept_def db')
qed

lemma create_profile_does: "does i (create_profile S i i name cities bio role)"
proof (rule doesI)
  fix s x s' assume run: "create_profile S i i name cities bio role s = (Inr x, s')" and ok: "prof_ok (view s)"
  let ?u = "user_to_model (UserProfile_create i name bio role)"
  note v = create_profile_view [OF run ok]
  have u: "um_user_id ?u = i" "um_role ?u = role" by (simp_all add: user_to_model_def aggregate_defs)
  have uok: "user_ok ?u" using v by (intro user_model_ok) (simp_all add: aggregate_defs)
  have no: "companion_profiles (view s) i = None" using v prof_ok_companions [OF ok, of i] by auto
  let ?cs = "if role = ''COMPANION'' then (companion_profiles (view s))(i \<mapsto> cities_model i ''APPROVED'' (map py_strip cities))
    else companion_profiles (view s)"
  have "prof_ok ((view s)\<lparr>user_profiles := (user_profiles (view s))(i \<mapsto> ?u), companion_profiles := ?cs\<rparr>)"
    using v u uok no by (intro prof_ok_user [OF ok]) (auto simp: cities_model_def)
  moreover obtain ob where "view s' = (view s)\<lparr>user_profiles := (user_profiles (view s))(i \<mapsto> ?u), companion_profiles := ?cs, p_outbox := ob\<rparr>"
    using v by blast
  ultimately show "step_by i (view s) (view s')"
    using user_step_kept [OF ok _ u(1)] unfolding step_by_def by auto
qed (intro keep_intros)

lemma update_profile_does: "does i (update_profile S i name cities avatar bio)"
proof (rule doesI)
  fix s x s' assume "update_profile S i name cities avatar bio s = (Inr x, s')" and ok: "prof_ok (view s)"
  from update_profile_view [OF this] show "step_by i (view s) (view s')"
    unfolding step_by_def by (elim exE conjE) (intro conjI impI, assumption, erule user_step_kept [OF ok], simp)
qed (intro keep_intros)

lemma patch_profile_does: "does i (patch_profile S i name bio cities avatar)"
proof (rule doesI)
  fix s x s' assume "patch_profile S i name bio cities avatar s = (Inr x, s')" and ok: "prof_ok (view s)"
  from patch_profile_view [OF this] show "step_by i (view s) (view s')"
    unfolding step_by_def by (elim exE conjE) (intro conjI impI, assumption, erule user_step_kept [OF ok], simp)
qed (intro keep_intros)

lemma upgrade_profile_role_does: "does i (upgrade_profile_role S i)"
proof (rule doesI)
  fix s x s' assume "upgrade_profile_role S i s = (Inr x, s')" and ok: "prof_ok (view s)"
  from upgrade_profile_role_view [OF this] show "step_by i (view s) (view s')"
    unfolding step_by_def by (elim exE conjE) (intro conjI impI, assumption, erule user_step_kept [OF ok], simp)
qed (intro keep_intros)

lemma create_scenario_does: "does c (create_scenario S c title descr price dur)"
proof (rule doesI)
  fix s x s' assume "create_scenario S c title descr price dur s = (Inr x, s')" and ok: "prof_ok (view s)"
  from create_scenario_view [OF this] show "step_by c (view s) (view s')"
    unfolding step_by_def by (auto simp: others_kept_def intro!: foreign_upd)
qed (intro keep_intros)

lemma update_scenario_does: "does c (update_scenario S k c title descr price dur st)"
proof (rule doesI)
  fix s x s' assume "update_scenario S k c title descr price dur st s = (Inr x, s')" and ok: "prof_ok (view s)"
  from update_scenario_view [OF this] show "step_by c (view s) (view s')"
    unfolding step_by_def by (auto simp: others_kept_def intro!: foreign_upd)
qed (intro keep_intros)

lemma delete_scenario_does: "does c (delete_scenario S k c)"
proof (rule doesI)
  fix s x s' assume "delete_scenario S k c s = (Inr x, s')" and ok: "prof_ok (view s)"
  from delete_scenario_view [OF this] show "step_by c (view s) (view s')"
    unfolding step_by_def by (auto simp: others_kept_def intro!: foreign_del)
qed (intro keep_intros)

lemma delete_media_does: "does c (delete_media S c k)"
proof (rule doesI)
  fix s x s' assume "delete_media S c k s = (Inr x, s')" and ok: "prof_ok (view s)"
  from delete_media_view [OF this] show "step_by c (view s) (view s')"
    unfolding step_by_def by (auto simp: others_kept_def intro!: foreign_del)
qed (intro keep_intros)

section \<open>Transactions\<close>

text \<open>What a piece of code that starts on a fresh session leaves committed, whichever way it ends.\<close>

definition lands :: "string \<Rightarrow> ('s, 'e, 'a) eff \<Rightarrow> bool" where
  "lands c m \<longleftrightarrow> (\<forall>s r s'. m s = (r, s') \<longrightarrow> view s = com s \<longrightarrow> prof_ok (com s) \<longrightarrow> com s' = com s \<or> step_by c (com s) (com s'))"

lemma landsD: "lands c m \<Longrightarrow> m s = (r, s') \<Longrightarrow> view s = com s \<Longrightarrow> prof_ok (com s) \<Longrightarrow> com s' = com s \<or> step_by c (com s) (com s')"
  unfolding lands_def by blast

lemma lands_quiet: "keeps com m \<Longrightarrow> lands c m"
  unfolding lands_def by (blast dest: keepsD)

lemma lands_committed:
  assumes m: "does c m" and k: "\<And>x. keeps com (k x)"
  shows "lands c (bindE m (\<lambda>x. bindE (prof_commit S) (\<lambda>_. k x)))"
  unfolding lands_def
proof (intro allI impI)
  fix s r s' assume run: "bindE m (\<lambda>x. bindE (prof_commit S) (\<lambda>_. k x)) s = (r, s')" and v: "view s = com s" and ok: "prof_ok (com s)"
  obtain r1 s1 where 1: "m s = (r1, s1)" by fastforce
  have c1: "com s1 = com s" using 1 m by (auto simp: does_def dest: keepsD)
  show "com s' = com s \<or> step_by c (com s) (com s')"
  proof (cases r1)
    case (Inl e)
    with 1 run c1 show ?thesis by (simp add: bindE_def)
  next
    case (Inr x)
    have st: "step_by c (com s) (view s1)" using m 1 Inr v ok unfolding does_def by metis
    obtain r2 s2 where 2: "prof_commit S s1 = (r2, s2)" by fastforce
    have "com s' = com s2"
      using run 1 2 Inr keepsD_snd [OF k, of x s2] by (cases r2; cases "k x s2") (auto simp: bindE_def)
    moreover have "com s2 \<in> {com s1, view s1}" using tx.commit_all_or_nothing [of s1] 2 by simp
    ultimately show ?thesis using st c1 by auto
  qed
qed

lemma lands_committed' : "does c m \<Longrightarrow> lands c (committed S m)"
  unfolding committed_def by (rule lands_committed) (assumption, rule keeps_ret)

lemma lands_commit: "does c m \<Longrightarrow> lands c (bindE m (\<lambda>_. prof_commit S))"
proof -
  have eq: "bindE m (\<lambda>_. prof_commit S) = bindE m (\<lambda>_. bindE (prof_commit S) (\<lambda>u. ret u))"
    by (rule ext) (auto simp: bindE_def ret_def split: prod.splits sum.splits)
  assume "does c m"
  then show ?thesis unfolding eq
    using lands_committed [of c m "\<lambda>_. ret ()"] by (simp add: keeps_ret)
qed

lemma lands_try:
  assumes "lands c m" "\<And>e. keeps com (h e)"
  shows "lands c (tryE m h)"
  unfolding lands_def
proof (intro allI impI)
  fix s r s' assume run: "tryE m h s = (r, s')" and pre: "view s = com s" "prof_ok (com s)"
  obtain r1 s1 where 1: "m s = (r1, s1)" by fastforce
  have "com s' = com s1" using run 1 keepsD [OF assms(2)] by (cases r1) (auto simp: tryE_def)
  with landsD [OF assms(1) 1 pre] show "com s' = com s \<or> step_by c (com s) (com s')" by simp
qed

lemma lands_map_err: "lands c m \<Longrightarrow> lands c (map_err f m)"
  unfolding map_err_def by (rule lands_try) (auto intro: keep_intros)

lemma lands_then_ret: "lands c m \<Longrightarrow> lands c (bindE m (\<lambda>x. ret (g x)))"
  unfolding lands_def bindE_def ret_def by (auto split: prod.splits sum.splits)

lemma lands_if: "(b \<Longrightarrow> lands c m) \<Longrightarrow> (\<not> b \<Longrightarrow> lands c n) \<Longrightarrow> lands c (if b then m else n)"
  by simp

lemma lands_raise: "lands c (raise e)"
  by (intro lands_quiet keep_intros)

lemma close_com: "prof_close S s = (r, s') \<Longrightarrow> com s' = com s"
  using tx.rollback_com [of s] by simp

text \<open>A request: from any state of the world.\<close>

definition serves :: "string \<Rightarrow> ('s \<Rightarrow> 's) \<Rightarrow> bool" where
  "serves c f \<longleftrightarrow> (\<forall>s. prof_ok (com s) \<longrightarrow> com (f s) = com s \<or> step_by c (com s) (com (f s)))"

lemma serves_quiet: "keeps com m \<Longrightarrow> serves c (\<lambda>s. snd (m s))"
  by (auto simp: serves_def keepsD_snd)

lemma serves_session:
  assumes "lands c m"
  shows "serves c (\<lambda>s. snd (in_prof_session S m s))"
  unfolding serves_def
proof (intro allI impI)
  fix s assume ok: "prof_ok (com s)"
  obtain r1 s1 where 1: "prof_open S s = (r1, s1)" by fastforce
  have c1: "com s1 = com s" using 1 prof_open_com [of s] by simp
  show "com (snd (in_prof_session S m s)) = com s \<or> step_by c (com s) (com (snd (in_prof_session S m s)))"
  proof (cases r1)
    case (Inl e)
    with 1 c1 show ?thesis by (simp add: in_prof_session_def bindE_def)
  next
    case (Inr u)
    obtain r2 s2 where 2: "m s1 = (r2, s2)" by fastforce
    have "com (snd (in_prof_session S m s)) = com s2"
      using 1 2 Inr by (auto simp: in_prof_session_def bindE_def dest: close_com split: prod.splits sum.splits)
    moreover have "view s1 = com s1" using prof_open_ok 1 Inr c1 by auto
    ultimately show ?thesis using landsD [OF assms 2] ok c1 by simp
  qed
qed

lemma serves_http:
  assumes "lands c m"
  shows "serves c (\<lambda>s. snd (prof_get_db_session S m s))"
  unfolding serves_def
proof (intro allI impI)
  fix s assume ok: "prof_ok (com s)"
  obtain r1 s1 where 1: "prof_open S s = (r1, s1)" by fastforce
  have c1: "com s1 = com s" using 1 prof_open_com [of s] by simp
  show "com (snd (prof_get_db_session S m s)) = com s \<or> step_by c (com s) (com (snd (prof_get_db_session S m s)))"
  proof (cases r1)
    case (Inl e)
    with 1 c1 show ?thesis by (simp add: prof_get_db_session_def bindE_def map_err_def tryE_def raise_def)
  next
    case (Inr u)
    obtain r2 s2 where 2: "m s1 = (r2, s2)" by fastforce
    have "com (snd (prof_get_db_session S m s)) = com s2"
      using 1 2 Inr by (auto simp: prof_get_db_session_def bindE_def map_err_def tryE_def dest: close_com split: prod.splits)
    moreover have "view s1 = com s1" using prof_open_ok 1 Inr c1 by auto
    ultimately show ?thesis using landsD [OF assms 2] ok c1 by simp
  qed
qed

lemma serves_try:
  assumes "serves c (\<lambda>s. snd (m s))" "\<And>e. keeps com (h e)"
  shows "serves c (\<lambda>s. snd (tryE m h s))"
proof -
  have "com (snd (tryE m h s)) = com (snd (m s))" for s
    using keepsD_snd [OF assms(2)] by (cases "m s"; cases "fst (m s)") (auto simp: tryE_def)
  with assms(1) show ?thesis by (simp add: serves_def)
qed

lemma serves_then_ret:
  assumes "serves c (\<lambda>s. snd (m s))"
  shows "serves c (\<lambda>s. snd (bindE m (\<lambda>x. ret (g x)) s))"
proof -
  have "snd (bindE m (\<lambda>x. ret (g x)) s) = snd (m s)" for s by (auto simp: bindE_def ret_def split: prod.splits sum.splits)
  with assms show ?thesis by simp
qed

lemma serves_lift: "(\<And>x. r = Inr x \<Longrightarrow> serves c (\<lambda>s. snd (f x s))) \<Longrightarrow> serves c (\<lambda>s. snd (bindE (liftE r) f s))"
  by (cases r) (auto simp: serves_def raise_run)

lemma grpc_command_serves: "does c m \<Longrightarrow> serves c (\<lambda>s. snd (grpc_command S m reply s))"
  unfolding grpc_command_def
  by (intro serves_try serves_then_ret serves_session lands_committed keep_intros)

lemma auth_route_serves:
  assumes "\<And>auth. user_id = Some (ai_user_id auth) \<Longrightarrow> ai_user_role auth = user_role \<Longrightarrow> lands c (body auth)"
  shows "serves c (\<lambda>s. snd (auth_route S user_id user_role valid body s))"
  unfolding auth_route_def
proof (rule serves_lift)
  fix auth assume "profile_get_auth_info user_id user_role = Inr auth"
  then have "user_id = Some (ai_user_id auth)" "ai_user_role auth = user_role"
    by (auto simp: profile_get_auth_info_def given_def split: if_splits option.splits)
  then have "lands c (body auth)" by (rule assms)
  then have "serves c (\<lambda>s. snd (prof_get_db_session S (body auth) s))" by (rule serves_http)
  then show "serves c (\<lambda>s. snd ((if \<not> valid then raise RequestValidationError else prof_get_db_session S (body auth)) s))"
    by (cases valid) (auto simp: serves_def raise_run)
qed

lemma companions_only_lands: "lands c m \<Longrightarrow> lands c (companions_only auth m)"
  unfolding companions_only_def by (intro lands_if lands_raise)

lemma route_errors_lands: "lands c m \<Longrightarrow> lands c (route_errors code m)"
  unfolding route_errors_def by (rule lands_map_err)

lemmas lands_intros = companions_only_lands route_errors_lands lands_map_err lands_committed'

text \<open>The listener.\<close>

lemma in_session_serves_commit: "does c m \<Longrightarrow> serves c (\<lambda>s. snd (in_prof_session S (bindE m (\<lambda>_. prof_commit S)) s))"
  by (intro serves_session lands_commit)

lemma ret_serves: "serves c (\<lambda>s. snd (ret x s))"
  by (rule serves_quiet) (rule keeps_ret)

end

section \<open>Commands on the object store\<close>

context prof_store
begin

lemma store_keeps_com [keep_intros]:
  "keeps com (register_voice_intro S T c url d n)" "keeps com (register_album_image S T c url n)"
  "keeps com (stored_size T url)" "keeps com (request_presigned_url S T base c ty n dd ct)"
  "keeps com (get_companion_detail S T c pub)"
  unfolding register_voice_intro_def register_album_image_def validate_album_limit_def stored_size_def
    request_presigned_url_def get_companion_detail_def Let_def
  by (intro keep_intros store_com double_check_keeps)+

lemma stored_size_view: "keeps view (stored_size T url)"
  unfolding stored_size_def by (intro keep_intros store_view)

lemma register_album_image_does: "does c (register_album_image S T c url n)"
proof (rule doesI)
  fix s x s' assume "register_album_image S T c url n s = (Inr x, s')" and ok: "prof_ok (view s)"
  from register_album_image_view [OF this] show "step_by c (view s) (view s')"
    unfolding step_by_def by (auto simp: others_kept_def intro!: foreign_upd)
qed (intro keep_intros)

lemma register_voice_intro_does: "does c (register_voice_intro S T c url d n)"
proof (rule doesI)
  fix s x s' assume "register_voice_intro S T c url d n s = (Inr x, s')" and ok: "prof_ok (view s)"
  note v = register_voice_intro_view [OF this]
  let ?K = "{k. \<forall>m. media_assets (view s) k = Some m \<longrightarrow> \<not> is_media_of c ''VOICE_INTRO'' m}"
  have r: "foreign mm_companion_id c (media_assets (view s) |` ?K) = foreign mm_companion_id c (media_assets (view s))"
    by (rule foreign_restrict) (auto simp: is_media_of_def)
  have opt: "opt_all (\<lambda>r. mm_companion_id r = c) ((media_assets (view s) |` ?K) x)" if "prof_fresh S view (view s)"
    using v that by (simp add: restrict_map_def)
  have kept: "foreign mm_companion_id c ((media_assets (view s) |` ?K)(x \<mapsto> m)) = foreign mm_companion_id c (media_assets (view s))"
    if "prof_fresh S view (view s)" "mm_companion_id m = c" for m
    using foreign_upd [where own = mm_companion_id and r = m and c = c and tab = "media_assets (view s) |` ?K" and k = x]
      that(2) opt [OF that(1)] r by (simp only: simp_thms)
  obtain m ob where m: "mm_companion_id m = c" and s': "view s' = (view s)\<lparr>media_assets := (media_assets (view s) |` ?K)(x \<mapsto> m), p_outbox := ob\<rparr>"
    "prof_ok (view s')" using v by (elim exE conjE) (erule (1) that [rotated], simp)
  from s'(1) have "media_assets (view s') = (media_assets (view s) |` ?K)(x \<mapsto> m)" "user_profiles (view s') = user_profiles (view s)"
    "companion_profiles (view s') = companion_profiles (view s)" "scenarios (view s') = scenarios (view s)"
    by (simp_all del: fun_upd_restrict fun_upd_restrict_conv)
  with s'(2) kept m show "step_by c (view s) (view s')" by (simp only: step_by_def others_kept_def) blast
qed (intro keep_intros)

end

end
