(* ===== verification/Profile_Requests.thy ===== *)
theory Profile_Requests
  imports Profile_System
begin

text \<open>
  The requests the profile service answers, over gRPC, REST and from the topic of the identity service, the
  states it can reach by answering them, and what holds of each answer.
\<close>

type_synonym headers = "string option \<times> string option"

datatype prof_request =
    GCreateScenario "(string \<times> string) list" string string string int int
  | GUpdateScenario "(string \<times> string) list" string string string string int int string
  | GDeleteScenario "(string \<times> string) list" string string
  | GRegisterVoiceIntro "(string \<times> string) list" string string int int
  | GRegisterAlbumImage "(string \<times> string) list" string string int
  | GGetScenarioSnapshot string
  | HSearch "string option" "string option" "int option" "int option" int int
  | HDetail string
  | HClient headers string
  | HMe headers
  | HUpdateMe headers string "string option" "string list" "string option"
  | HPatchMe headers "string option" "string option" "string list option" "string option"
  | HPresign headers string int "int option" string
  | HListMedia headers
  | HRegisterMedia headers string string
  | HDeleteMedia headers string
  | HCreateScenario headers string string int int
  | HUpdateScenario headers string string string int int string
  | HDeleteScenario headers string
  | IdentityEvent json

fun prof_serve :: "'s prof_session \<Rightarrow> 's storage \<Rightarrow> string \<Rightarrow> prof_request \<Rightarrow> 's \<Rightarrow> 's" where
  "prof_serve S T base (GCreateScenario md c title descr price dur) s = snd (CreateScenario S md c title descr price dur s)"
| "prof_serve S T base (GUpdateScenario md k c title descr price dur st) s = snd (UpdateScenario S md k c title descr price dur st s)"
| "prof_serve S T base (GDeleteScenario md k c) s = snd (DeleteScenario S md k c s)"
| "prof_serve S T base (GRegisterVoiceIntro md c url d n) s = snd (RegisterVoiceIntro S T md c url d n s)"
| "prof_serve S T base (GRegisterAlbumImage md c url n) s = snd (RegisterAlbumImage S T md c url n s)"
| "prof_serve S T base (GGetScenarioSnapshot k) s = snd (GetScenarioSnapshot S k s)"
| "prof_serve S T base (HSearch name city lo hi page psize) s = snd (search_companions_route S name city lo hi page psize s)"
| "prof_serve S T base (HDetail c) s = snd (get_companion_detail_route S T c s)"
| "prof_serve S T base (HClient h c) s = snd (get_client_profile_route S (fst h) (snd h) c s)"
| "prof_serve S T base (HMe h) s = snd (get_my_profile_route S T (fst h) (snd h) s)"
| "prof_serve S T base (HUpdateMe h name bio cities avatar) s = snd (update_my_profile_route S (fst h) (snd h) name bio cities avatar s)"
| "prof_serve S T base (HPatchMe h name bio cities avatar) s = snd (patch_my_profile_route S (fst h) (snd h) name bio cities avatar s)"
| "prof_serve S T base (HPresign h ty n d ct) s = snd (request_presigned_url_route S T base (fst h) (snd h) ty n d ct s)"
| "prof_serve S T base (HListMedia h) s = snd (list_my_media_route S (fst h) (snd h) s)"
| "prof_serve S T base (HRegisterMedia h ty url) s = snd (register_my_media_route S T (fst h) (snd h) ty url s)"
| "prof_serve S T base (HDeleteMedia h k) s = snd (delete_my_media_route S (fst h) (snd h) k s)"
| "prof_serve S T base (HCreateScenario h title descr price dur) s =
     snd (create_scenario_route S (fst h) (snd h) title descr price dur s)"
| "prof_serve S T base (HUpdateScenario h k title descr price dur st) s =
     snd (update_scenario_route S (fst h) (snd h) k title descr price dur st s)"
| "prof_serve S T base (HDeleteScenario h k) s = snd (delete_scenario_route S (fst h) (snd h) k s)"
| "prof_serve S T base (IdentityEvent msg) s = snd (handle_profile_identity_event S msg s)"

text \<open>The user an event is about, if it has one.\<close>

definition event_subject :: "json \<Rightarrow> string" where
  "event_subject msg =
     (case bindS (profile_err (get_or msg ''data'' (JObj []))) event_user_id of Inr (JStr u) \<Rightarrow> u | _ \<Rightarrow> [])"

text \<open>On whose behalf a request is made.\<close>

fun actor :: "prof_request \<Rightarrow> string" where
  "actor (GCreateScenario md c title descr price dur) = companion_of_request md c"
| "actor (GUpdateScenario md k c title descr price dur st) = companion_of_request md c"
| "actor (GDeleteScenario md k c) = companion_of_request md c"
| "actor (GRegisterVoiceIntro md c url d n) = companion_of_request md c"
| "actor (GRegisterAlbumImage md c url n) = companion_of_request md c"
| "actor (HUpdateMe h name bio cities avatar) = the (fst h)"
| "actor (HPatchMe h name bio cities avatar) = the (fst h)"
| "actor (HRegisterMedia h ty url) = the (fst h)"
| "actor (HDeleteMedia h k) = the (fst h)"
| "actor (HCreateScenario h title descr price dur) = the (fst h)"
| "actor (HUpdateScenario h k title descr price dur st) = the (fst h)"
| "actor (HDeleteScenario h k) = the (fst h)"
| "actor (IdentityEvent msg) = event_subject msg"
| "actor _ = []"

inductive prof_reachable :: "'s prof_session \<Rightarrow> 's storage \<Rightarrow> string \<Rightarrow> 's \<Rightarrow> 's \<Rightarrow> bool" for S T base s0 where
  prof_start: "prof_reachable S T base s0 s0"
| prof_answer: "prof_reachable S T base s0 s \<Longrightarrow> prof_reachable S T base s0 (prof_serve S T base req s)"

section \<open>Queries\<close>

context prof_store
begin

lemma card_keeps: "keeps com (search_card_of S p)"
  unfolding search_card_of_def Let_def by (intro keep_intros)

lemma query_keeps [keep_intros]:
  "keeps com (get_companion_media S c)" "keeps com (get_my_profile S T c)" "keeps com (get_client_profile S c)"
  "keeps com (get_scenario_snapshot S k)" "keeps com (search_companions S name city lo hi page psize)"
  unfolding get_companion_media_def get_my_profile_def get_client_profile_def get_scenario_snapshot_def search_companions_def Let_def
  by (intro keep_intros card_keeps)+

lemma quiet_route:
  assumes "keeps com m"
  shows "lands c (route_errors code m)"
  unfolding route_errors_def by (intro lands_map_err lands_quiet assms)

section \<open>Handlers\<close>

lemma grpc_serves:
  "serves (companion_of_request md c) (\<lambda>s. snd (CreateScenario S md c title descr price dur s))"
  "serves (companion_of_request md c) (\<lambda>s. snd (UpdateScenario S md k c title descr price dur st s))"
  "serves (companion_of_request md c) (\<lambda>s. snd (DeleteScenario S md k c s))"
  "serves (companion_of_request md c) (\<lambda>s. snd (RegisterVoiceIntro S T md c url d n s))"
  "serves (companion_of_request md c) (\<lambda>s. snd (RegisterAlbumImage S T md c url n s))"
  unfolding CreateScenario_def UpdateScenario_def DeleteScenario_def RegisterVoiceIntro_def RegisterAlbumImage_def
  by (intro grpc_command_serves create_scenario_does update_scenario_does delete_scenario_does
      register_voice_intro_does register_album_image_does)+

lemma GetScenarioSnapshot_serves: "serves c (\<lambda>s. snd (GetScenarioSnapshot S k s))"
  unfolding GetScenarioSnapshot_def by (intro serves_try serves_then_ret serves_session lands_quiet keep_intros)

lemma query_serves:
  "serves c (\<lambda>s. snd (search_companions_route S name city lo hi page psize s))"
  "serves c (\<lambda>s. snd (get_companion_detail_route S T i s))"
  "serves c (\<lambda>s. snd (get_client_profile_route S uid role i s))"
  "serves c (\<lambda>s. snd (get_my_profile_route S T uid role s))"
  "serves c (\<lambda>s. snd (request_presigned_url_route S T base uid role ty n dd ct s))"
  "serves c (\<lambda>s. snd (list_my_media_route S uid role s))"
proof -
  have "serves c (\<lambda>s. snd (prof_get_db_session S (map_err f (search_companions S name city lo hi page psize)) s))" for f
    by (intro serves_http lands_map_err lands_quiet keep_intros)
  then show "serves c (\<lambda>s. snd (search_companions_route S name city lo hi page psize s))"
    unfolding search_companions_route_def by (auto simp: serves_def raise_run)
qed (unfold get_companion_detail_route_def get_client_profile_route_def get_my_profile_route_def
    request_presigned_url_route_def list_my_media_route_def,
    (intro serves_http auth_route_serves companions_only_lands quiet_route keep_intros)+)

lemma register_media_does:
  "does u (bindE (stored_size T url) (\<lambda>n. if ty = ''IMAGE'' then bindE (register_album_image S T u url n) (\<lambda>x. ret (f x))
     else bindE (register_voice_intro S T u url 30 n) (\<lambda>x. ret (g x))))"
  by (intro does_after stored_size_view does_if does_then_ret register_album_image_does register_voice_intro_does keep_intros)

lemma rest_serves:
  "serves (the uid) (\<lambda>s. snd (update_my_profile_route S uid role name bio cities avatar s))"
  "serves (the uid) (\<lambda>s. snd (patch_my_profile_route S uid role pname bio pcities avatar s))"
  "serves (the uid) (\<lambda>s. snd (register_my_media_route S T uid role ty url s))"
  "serves (the uid) (\<lambda>s. snd (delete_my_media_route S uid role k s))"
  "serves (the uid) (\<lambda>s. snd (create_scenario_route S uid role title descr price dur s))"
  "serves (the uid) (\<lambda>s. snd (update_scenario_route S uid role k title descr price dur st s))"
  "serves (the uid) (\<lambda>s. snd (delete_scenario_route S uid role k s))"
  unfolding update_my_profile_route_def patch_my_profile_route_def register_my_media_route_def delete_my_media_route_def
    create_scenario_route_def update_scenario_route_def delete_scenario_route_def
  by (intro auth_route_serves; hypsubst; unfold option.sel; intro lands_intros update_profile_does patch_profile_does register_media_does
      delete_media_does create_scenario_does update_scenario_does delete_scenario_does)+

section \<open>The listener\<close>

lemma role_upgraded_serves: "serves (event_subject msg) (\<lambda>s. snd (on_role_upgraded S msg s))"
  unfolding on_role_upgraded_def
proof (intro serves_lift)
  fix d u
  assume d: "profile_err (get_or msg ''data'' (JObj [])) = Inr d" and u: "event_user_id d = Inr u"
  show "serves (event_subject msg) (\<lambda>s. snd ((if truthy u then bindE (liftE (profile_err (json_str u))) (\<lambda>user_id.
      in_prof_session S (bindE (upgrade_profile_role S user_id) (\<lambda>_. prof_commit S))) else ret ()) s))"
  proof (cases u)
    case (JStr i)
    with d u have "event_subject msg = i" by (simp add: event_subject_def)
    with JStr show ?thesis
      using in_session_serves_commit [OF upgrade_profile_role_does] by (simp add: profile_err_def ret_serves)
  qed (auto simp: serves_def profile_err_def raise_run ret_run)
qed

lemma create_in_session_lands:
  "lands i (tryE (bindE (create_profile S i i name cities bio role) (\<lambda>_. prof_commit S))
     (\<lambda>e. case e of ProfileAlreadyExistsError _ \<Rightarrow> ret () | _ \<Rightarrow> raise e))"
proof (intro lands_try lands_commit create_profile_does)
  fix e show "keeps com (case e of ProfileAlreadyExistsError _ \<Rightarrow> ret () | _ \<Rightarrow> raise e)"
    by (cases e) (auto intro: keep_intros)
qed

lemma user_registered_serves: "serves (event_subject msg) (\<lambda>s. snd (on_user_registered S msg s))"
  unfolding on_user_registered_def
proof (intro serves_lift)
  fix d u name role
  assume d: "profile_err (get_or msg ''data'' (JObj [])) = Inr d" and u: "event_user_id d = Inr u"
  show "serves (event_subject msg) (\<lambda>s. snd ((if truthy u then bindE (liftE (profile_err (json_str u))) (\<lambda>user_id.
      bindE (liftE (profile_err (json_str (json_or name (JStr ''User''))))) (\<lambda>display_name.
      bindE (liftE (profile_err (json_str (json_or role (JStr ''CLIENT''))))) (\<lambda>role.
      in_prof_session S (tryE (bindE (create_profile S user_id user_id display_name [] [] role) (\<lambda>_. prof_commit S))
        (\<lambda>e. case e of ProfileAlreadyExistsError _ \<Rightarrow> ret () | _ \<Rightarrow> raise e))))) else ret ()) s))"
  proof (cases u)
    case (JStr i)
    with d u have i: "event_subject msg = i" by (simp add: event_subject_def)
    have "serves i (\<lambda>s. snd (bindE (liftE (profile_err (json_str (json_or name (JStr ''User''))))) (\<lambda>display_name.
      bindE (liftE (profile_err (json_str (json_or role (JStr ''CLIENT''))))) (\<lambda>role.
      in_prof_session S (tryE (bindE (create_profile S i i display_name [] [] role) (\<lambda>_. prof_commit S))
        (\<lambda>e. case e of ProfileAlreadyExistsError _ \<Rightarrow> ret () | _ \<Rightarrow> raise e)))) s))"
      by (intro serves_lift serves_session create_in_session_lands)
    with JStr i show ?thesis by (simp add: profile_err_def ret_serves)
  qed (auto simp: serves_def profile_err_def raise_run ret_run)
qed

lemma identity_event_serves: "serves (event_subject msg) (\<lambda>s. snd (handle_profile_identity_event S msg s))"
  unfolding handle_profile_identity_event_def
proof (rule serves_try)
  show "serves (event_subject msg) (\<lambda>s. snd (bindE (liftE (profile_err (json_get msg ''type''))) (\<lambda>event_type.
      if event_type = JStr ''identity.role-upgraded.v1'' then on_role_upgraded S msg
      else if event_type = JStr ''identity.user-registered.v1'' then on_user_registered S msg else ret ()) s))"
    by (rule serves_lift) (simp add: role_upgraded_serves user_registered_serves ret_serves)
qed (intro keep_intros)

section \<open>Every request\<close>

lemma serve_serves: "serves (actor req) (prof_serve S T base req)"
  unfolding serves_def
  by (cases req) (simp_all add: grpc_serves [unfolded serves_def] GetScenarioSnapshot_serves [unfolded serves_def]
      query_serves [unfolded serves_def] rest_serves [unfolded serves_def] identity_event_serves [unfolded serves_def])

lemma serve_step:
  "prof_ok (com s) \<Longrightarrow> com (prof_serve S T base req s) = com s \<or> step_by (actor req) (com s) (com (prof_serve S T base req s))"
  using serve_serves unfolding serves_def by blast

lemma serve_ok: "prof_ok (com s) \<Longrightarrow> prof_ok (com (prof_serve S T base req s))"
  using serve_step [of s base req] by (auto simp: step_by_def)

lemma serve_others:
  "prof_ok (com s) \<Longrightarrow> prof_fresh S view (com s) \<Longrightarrow> others_kept (actor req) (com s) (com (prof_serve S T base req s))"
  using serve_step [of s base req] by (auto simp: step_by_def)

lemma reachable_ok: "prof_reachable S T base s0 s \<Longrightarrow> prof_ok (com s0) \<Longrightarrow> prof_ok (com s)"
  by (induction rule: prof_reachable.induct) (auto intro: serve_ok)

end

end
