(* ===== verification/Profile_Live.thy ===== *)
theory Profile_Live
  imports Profile_Requests
begin

text \<open>
  Total correctness of the profile service in a session that stays up: every stored row can be read back as
  a domain object, a valid scenario is created, a companion at the limit is refused, a status change is not
  counted, a registration is stored once, and a search returns a page of the companions that match.
\<close>

section \<open>Laws\<close>

locale prof_session_live = prof_session S view com +
  utl: sql_table_live "user_merge S" "user_select S" view com user_profiles "\<lambda>m. user_profiles_update (\<lambda>_. m)"
    um_user_id um_user_id user_fits "(=)" +
  ctl: sql_child_live "companion_merge S" "companion_select S" view com companion_profiles "\<lambda>m. companion_profiles_update (\<lambda>_. m)"
    cm_companion_id cm_companion_id companion_fits "(=)" companion_parent +
  stl: sql_child_live "scenario_merge S" "scenario_select S" view com scenarios "\<lambda>m. scenarios_update (\<lambda>_. m)"
    scm_scenario_id scm_scenario_id scenario_fits "(=)" scenario_parent +
  mtl: sql_child_live "media_merge S" "media_select S" view com media_assets "\<lambda>m. media_assets_update (\<lambda>_. m)"
    mm_asset_id mm_asset_id media_fits "(=)" media_parent +
  sdl: sql_delete_live "scenario_delete S" view com scenarios "\<lambda>m. scenarios_update (\<lambda>_. m)" scm_scenario_id +
  mdl: sql_delete_live "media_delete S" view com media_assets "\<lambda>m. media_assets_update (\<lambda>_. m)" mm_asset_id +
  txl: sql_txn_live "prof_commit S" "prof_close S" view com +
  uul: sql_frame_live "prof_uuid4 S" view com
  for S :: "'s prof_session" and view :: "'s \<Rightarrow> prof_db" and com :: "'s \<Rightarrow> prof_db" +
  assumes prof_open_live: "\<exists>s'. prof_open S s = (Inr (), s')"
    and prof_pb_live: "pb_encodable m \<Longrightarrow> \<exists>j. prof_pb_json S m = Inr j"
    and prof_outbox_live: "\<exists>s'. prof_outbox_add S r s = (Inr (), s')"
    and scenario_count_live: "\<exists>n s'. scenario_count S P s = (Inr n, s')"
    and companion_count_live: "\<exists>n s'. companion_count S R s = (Inr n, s')"
    and companion_page_live: "0 \<le> off \<Longrightarrow> 0 \<le> lim \<Longrightarrow> \<exists>cs s'. companion_page S R off lim s = (Inr cs, s')"

text \<open>The event of the identity service for a new user.\<close>

definition registered_event :: "string \<Rightarrow> string \<Rightarrow> string \<Rightarrow> json" where
  "registered_event i name role = JObj [(''type'', JStr ''identity.user-registered.v1''),
     (''data'', JObj [(''userId'', JStr i), (''name'', JStr name), (''role'', JStr role)])]"

lemma registered_event_handled:
  assumes "i \<noteq> []" "name \<noteq> []" "role \<noteq> []"
  shows "handle_profile_identity_event S (registered_event i name role) =
    tryE (in_prof_session S (tryE (bindE (create_profile S i i name [] [] role) (\<lambda>_. prof_commit S))
      (\<lambda>e. case e of ProfileAlreadyExistsError _ \<Rightarrow> ret () | _ \<Rightarrow> raise e))) (\<lambda>e. ret ())"
  using assms
  by (simp add: handle_profile_identity_event_def registered_event_def on_user_registered_def json_get_def profile_err_def
      event_user_id_def json_or_def)

section \<open>Active scenarios\<close>

definition active_scenarios :: "string \<Rightarrow> prof_db \<Rightarrow> string set" where
  "active_scenarios c db = {k. \<exists>r. scenarios db k = Some r \<and> is_active_of c r}"

lemma active_finite: "prof_ok db \<Longrightarrow> finite (active_scenarios c db)"
  unfolding active_scenarios_def
  by (rule finite_subset [OF _ table_ok_finite [OF prof_ok_tables(3)]]) auto

lemma reactivated_count:
  assumes ok: "prof_ok db" and r: "scenarios db k = Some r" "scm_companion_id r = i" "scm_status r \<noteq> ''ACTIVE''"
    and r': "scm_companion_id r' = i" "scm_status r' = ''ACTIVE''"
  shows "card (active_scenarios i (db\<lparr>scenarios := (scenarios db)(k \<mapsto> r'), p_outbox := ob\<rparr>)) = Suc (card (active_scenarios i db))"
proof -
  have "active_scenarios i (db\<lparr>scenarios := (scenarios db)(k \<mapsto> r'), p_outbox := ob\<rparr>) = insert k (active_scenarios i db)"
    using r' by (auto simp: active_scenarios_def is_active_of_def)
  moreover have "k \<notin> active_scenarios i db" using r by (simp add: active_scenarios_def is_active_of_def)
  ultimately show ?thesis using active_finite [OF ok] by simp
qed

section \<open>Rows that can be read\<close>

lemma companion_ok_reads:
  assumes "companion_ok r"
  obtains cities where "cm_available_cities r = json_dumps_strings cities"
    "companion_to_domain r = Inr \<lparr>c_companion_id = cm_companion_id r, c_status = cm_status r,
      c_available_cities = map (\<lambda>c. \<lparr>loc_city = c\<rparr>) cities, c_events = []\<rparr>"
proof -
  from assms obtain cities where "cm_available_cities r = json_dumps_strings cities" "\<forall>c\<in>set cities. clean_city c"
    unfolding companion_ok_def by blast
  then show thesis using companion_to_domain_ok [of r cities] that by blast
qed

lemma user_ok_reads: "user_ok r \<Longrightarrow> \<exists>u. user_to_domain r = Inr u"
  by (cases "um_avatar_url r") (auto simp: user_ok_def user_to_domain_def MediaUrl_clean)

lemma scenario_ok_reads: "scenario_ok r \<Longrightarrow> \<exists>sc. scenario_to_domain r = Inr sc"
  by (auto simp: scenario_ok_def scenario_to_domain_Inr)

lemma media_ok_reads: "media_ok r \<Longrightarrow> \<exists>m. media_to_domain r = Inr m"
  by (auto simp: media_ok_def media_to_domain_def MediaUrl_clean)

lemma list_map_exn_reads: "(\<And>x. x \<in> set xs \<Longrightarrow> \<exists>y. f x = Inr y) \<Longrightarrow> \<exists>ys. list_map_exn f xs = Inr ys"
proof (induction xs)
  case (Cons x xs)
  then obtain y ys where "f x = Inr y" "list_map_exn f xs = Inr ys" by (meson list.set_intros)
  then show ?case by simp
qed simp

context prof_session_live
begin

lemma user_found:
  assumes "prof_ok (view s)"
  obtains v s' where "UserProfileRepository_find_by_id S i s = (Inr v, s')" "view s' = view s" "com s' = com s"
    "v = None \<longleftrightarrow> user_profiles (view s) i = None"
proof -
  obtain rs s' where sel: "user_select S False (\<lambda>m. um_user_id m = i) s = (Inr rs, s')"
    "set rs = {r \<in> ran (user_profiles (view s)). um_user_id r = i}" "view s' = view s" "com s' = com s"
    by (rule utl.select_finds)
  obtain v where v: "option_map_exn user_to_domain (first_row rs) = Inr v"
  proof (cases "first_row rs")
    case None
    then show thesis using that by (simp add: option_map_exn_def)
  next
    case (Some r)
    then have "user_ok r" using first_row_mem [OF Some] sel(2) prof_ok_rows(1) [OF assms] by blast
    with Some user_ok_reads [of r] show thesis using that by (auto simp: option_map_exn_def)
  qed
  have run: "UserProfileRepository_find_by_id S i s = (Inr v, s')"
    using sel(1) v by (simp add: UserProfileRepository_find_by_id_def eff_simps)
  show thesis using find_user [OF run prof_ok_tables(1) [OF assms]] sel(3,4) run by (intro that [of v s']) auto
qed

lemma companion_found:
  assumes "prof_ok (view s)"
  obtains v s' where "CompanionProfileRepository_find_by_id S i s = (Inr v, s')" "view s' = view s" "com s' = com s"
    "v = None \<longleftrightarrow> companion_profiles (view s) i = None"
proof -
  obtain rs s' where sel: "companion_select S False (\<lambda>m. cm_companion_id m = i) s = (Inr rs, s')"
    "set rs = {r \<in> ran (companion_profiles (view s)). cm_companion_id r = i}" "view s' = view s" "com s' = com s"
    by (rule ctl.cselect_finds)
  obtain v where v: "option_map_exn companion_to_domain (first_row rs) = Inr v"
  proof (cases "first_row rs")
    case None
    then show thesis using that by (simp add: option_map_exn_def)
  next
    case (Some r)
    then have "companion_ok r" using first_row_mem [OF Some] sel(2) prof_ok_rows(2) [OF assms] by blast
    then show thesis by (rule companion_ok_reads) (use Some that in \<open>simp add: option_map_exn_def\<close>)
  qed
  have run: "CompanionProfileRepository_find_by_id S i s = (Inr v, s')"
    using sel(1) v by (simp add: CompanionProfileRepository_find_by_id_def eff_simps)
  show thesis using find_companion [OF run prof_ok_tables(2) [OF assms]] sel(3,4) run by (intro that [of v s']) auto
qed

lemma scenario_found:
  assumes "prof_ok (view s)" "scenarios (view s) k = Some r"
  obtains sc s' where "ScenarioRepository_find_by_id S k s = (Inr (Some sc), s')" "scenario_to_domain r = Inr sc"
    "view s' = view s" "com s' = com s"
proof -
  obtain rs s' where sel: "scenario_select S False (\<lambda>m. scm_scenario_id m = k) s = (Inr rs, s')"
    "set rs = {r \<in> ran (scenarios (view s)). scm_scenario_id r = k}" "view s' = view s" "com s' = com s"
    by (rule stl.cselect_finds)
  note t = prof_ok_tables(3) [OF assms(1)]
  have "first_row rs = Some r"
  proof (rule first_row_unique [OF sel(2)])
    show "r \<in> ran (scenarios (view s))" using assms(2) by (rule ranI)
    show "scm_scenario_id r = k" by (rule table_ok_key [OF t assms(2)])
    show "r' = r" if "r' \<in> ran (scenarios (view s))" "scm_scenario_id r' = k" for r'
      using table_ok_ran [OF t that(1)] that(2) assms(2) by simp
  qed
  moreover obtain sc where "scenario_to_domain r = Inr sc"
    using scenario_ok_reads prof_ok_rows(3) [OF assms(1)] ranI [of "scenarios (view s)" k] assms(2) by blast
  ultimately show thesis using sel
    by (intro that [of sc s']) (simp_all add: ScenarioRepository_find_by_id_def eff_simps option_map_exn_def)
qed

lemma profile_publish_returns:
  assumes "pb_encodable (profile_to_protobuf e)"
  obtains ob s' where "profile_publish S e s = (Inr (), s')" "com s' = com s" "view s' = (view s)\<lparr>p_outbox := p_outbox (view s) @ [ob]\<rparr>"
    "ob_event_type ob = profile_event_type_of (profile_to_protobuf e)" "\<not> ob_processed ob"
proof -
  obtain j where j: "prof_pb_json S (profile_to_protobuf e) = Inr j" using prof_pb_live [OF assms] by blast
  obtain i s1 where 1: "prof_uuid4 S s = (Inr i, s1)" "view s1 = view s" "com s1 = com s" by (rule uul.frame_runs)
  let ?r = "\<lparr>ob_id = None, ob_event_id = i, ob_event_type = profile_event_type_of (profile_to_protobuf e),
        ob_payload = j, ob_created_at = None, ob_processed = False\<rparr>"
  obtain s' where 2: "prof_outbox_add S ?r s1 = (Inr (), s')" using prof_outbox_live by blast
  obtain ob where ob: "outbox_agree ?r ob" "view s' = (view s1)\<lparr>p_outbox := p_outbox (view s1) @ [ob]\<rparr>"
    using prof_outbox_ok [OF 2] by blast
  have "profile_publish S e s = (Inr (), s')" using j 1(1) 2 by (simp add: profile_publish_def Let_def eff_simps)
  moreover have "com s' = com s" using prof_outbox_com [of ?r s1] 1(3) 2 by simp
  ultimately show thesis using ob 1 by (intro that [of s' ob]) (simp_all add: outbox_agree_def)
qed

section \<open>Sessions\<close>

lemma session_commits:
  assumes run: "\<And>t. view t = com t \<Longrightarrow> com t = com s \<Longrightarrow> \<exists>x t'. m t = (Inr x, t') \<and> Q x (view t')"
  shows "\<exists>x s'. in_prof_session S (bindE m (\<lambda>x. bindE (prof_commit S) (\<lambda>_. ret x))) s = (Inr x, s') \<and> Q x (com s')"
proof -
  obtain s1 where 1: "prof_open S s = (Inr (), s1)" using prof_open_live by blast
  have "view s1 = com s1" "com s1 = com s" using prof_open_ok [OF 1] prof_open_com [of s] 1 by simp_all
  then obtain x s2 where 2: "m s1 = (Inr x, s2)" "Q x (view s2)" using run by blast
  obtain s3 where 3: "prof_commit S s2 = (Inr (), s3)" "com s3 = view s2" by (rule txl.commit_publishes)
  obtain s4 where 4: "prof_close S s3 = (Inr (), s4)" "com s4 = com s3" by (rule txl.rollback_resets)
  show ?thesis using 1 2 3 4
    by (intro exI [of _ x] exI [of _ s4]) (simp add: in_prof_session_def eff_simps)
qed

lemma session_fails:
  assumes run: "\<And>t. view t = com t \<Longrightarrow> com t = com s \<Longrightarrow> \<exists>t'. m t = (Inl e, t')" and k: "keeps com m"
  shows "\<exists>s'. in_prof_session S (bindE m f) s = (Inl e, s') \<and> com s' = com s"
proof -
  obtain s1 where 1: "prof_open S s = (Inr (), s1)" using prof_open_live by blast
  have o: "view s1 = com s1" "com s1 = com s" using prof_open_ok [OF 1] prof_open_com [of s] 1 by simp_all
  then obtain s2 where 2: "m s1 = (Inl e, s2)" using run by blast
  then have "com s2 = com s" using keepsD [OF k] o by simp
  moreover obtain s4 where 4: "prof_close S s2 = (Inr (), s4)" "com s4 = com s2" by (rule txl.rollback_resets)
  ultimately show ?thesis using 1 2 by (intro exI [of _ s4]) (simp add: in_prof_session_def eff_simps)
qed

section \<open>Scenarios\<close>

lemma create_scenario_returns:
  assumes ok: "prof_ok (view s)" and c: "c \<in> dom (companion_profiles (view s))" "card (active_scenarios c (view s)) < 5"
    and new: "0 < price" "price < 2 ^ 31" "dur \<in> {60, 120, 180}" "length title \<le> 200"
  shows "\<exists>x s' ob. create_scenario S c title descr price dur s = (Inr x, s') \<and>
    view s' = (view s)\<lparr>scenarios := (scenarios (view s))(x \<mapsto> \<lparr>scm_scenario_id = x, scm_companion_id = c, scm_title = title,
      scm_description = Some descr, scm_price = price, scm_duration_minutes = dur, scm_status = ''ACTIVE''\<rparr>),
      p_outbox := p_outbox (view s) @ [ob]\<rparr> \<and> ob_event_type ob = ''profile.scenario-created.v1'' \<and> \<not> ob_processed ob"
proof -
  obtain v s1 where 1: "CompanionProfileRepository_find_by_id S c s = (Inr v, s1)" "view s1 = view s" "v \<noteq> None"
    using companion_found [OF ok, of c] c(1) by (metis domIff)
  obtain n s2 where 2: "ScenarioRepository_count_by_companion_id S c s1 = (Inr n, s2)"
    unfolding ScenarioRepository_count_by_companion_id_def using scenario_count_live by blast
  have n: "\<not> 5 \<le> n" "view s2 = view s"
    using scenario_count_ok [OF 2 [unfolded ScenarioRepository_count_by_companion_id_def]] 1(2) c(2) by (simp_all add: active_scenarios_def)
  obtain x s3 where 3: "prof_uuid4 S s2 = (Inr x, s3)" "view s3 = view s2" by (rule uul.frame_runs)
  have x: "length x = 36" by (rule prof_uuid_length [OF 3(1)])
  let ?sc = "Scenario_create x c title descr \<lparr>money_amount = price\<rparr> \<lparr>minutes = dur\<rparr>"
  let ?r = "\<lparr>scm_scenario_id = x, scm_companion_id = c, scm_title = title, scm_description = Some descr, scm_price = price,
    scm_duration_minutes = dur, scm_status = ''ACTIVE''\<rparr>"
  have m: "scenario_to_model ?sc = ?r" by (simp add: scenario_to_model_def aggregate_defs)
  have "length c \<le> 36"
    using c(1) prof_ok_rows(2) [OF ok] table_ok_key [OF prof_ok_tables(2) [OF ok], of c] by (auto simp: companion_ok_def companion_fits_def intro: ranI)
  then have "scenario_fits ?r" using new x by (auto simp: scenario_fits_def int32_def)
  then have "row_accepted scm_scenario_id scm_scenario_id scenario_fits (scenarios (view s3)) ?r" by (simp add: row_accepted_def)
  moreover have "scenario_parent (view s3) ?r" using c(1) 3(2) n(2) by (simp add: scenario_parent_def)
  ultimately obtain r' s4 where 4: "scenario_merge S ?r s3 = (Inr (), s4)" "?r = r'"
    "view s4 = (view s3)\<lparr>scenarios := (scenarios (view s3))(scm_scenario_id ?r \<mapsto> r')\<rparr>" by (rule stl.cmerge_stores)
  let ?e = "ScenarioCreated x c title price dur"
  have "pb_encodable (profile_to_protobuf ?e)" using new by (auto simp: pb_encodable_def int64_def)
  then obtain ob s5 where 5: "profile_publish S ?e s4 = (Inr (), s5)" "view s5 = (view s4)\<lparr>p_outbox := p_outbox (view s4) @ [ob]\<rparr>"
    "ob_event_type ob = profile_event_type_of (profile_to_protobuf ?e)" "\<not> ob_processed ob" by (rule profile_publish_returns)
  have ev: "fst (Scenario_clear_events ?sc) = [?e]" by (simp add: aggregate_defs)
  have ty: "profile_event_type_of (profile_to_protobuf ?e) = ''profile.scenario-created.v1''"
    by (simp add: profile_event_type_of_def) code_simp
  have "create_scenario S c title descr price dur s = (Inr x, s5)"
    using 1 2 n 3(1) 4(1) 5(1) new
    by (simp add: create_scenario_def Let_def eff_simps Money_p_def Duration_def ScenarioRepository_save_def m ev)
  then show ?thesis using 3(2) 4(2,3) 5 n(2) ty by auto
qed

lemma CreateScenario_returns:
  assumes ok: "prof_ok (com s)" and c: "companion_of_request md c = i" "i \<in> dom (companion_profiles (com s))" "card (active_scenarios i (com s)) < 5"
    and new: "0 < price" "price < 2 ^ 31" "dur \<in> {60, 120, 180}" "length title \<le> 200"
  shows "\<exists>x s' ob. CreateScenario S md c title descr price dur s =
      (Inr (Reply \<lparr>reply_id = x, reply_status = ''SUCCESS'', reply_message = ''Scenario created successfully''\<rparr>), s') \<and>
    com s' = (com s)\<lparr>scenarios := (scenarios (com s))(x \<mapsto> \<lparr>scm_scenario_id = x, scm_companion_id = i, scm_title = title,
      scm_description = Some descr, scm_price = price, scm_duration_minutes = dur, scm_status = ''ACTIVE''\<rparr>),
      p_outbox := p_outbox (com s) @ [ob]\<rparr> \<and> ob_event_type ob = ''profile.scenario-created.v1'' \<and> \<not> ob_processed ob"
proof -
  let ?Q = "\<lambda>x db. \<exists>ob. db = (com s)\<lparr>scenarios := (scenarios (com s))(x \<mapsto> \<lparr>scm_scenario_id = x, scm_companion_id = i,
      scm_title = title, scm_description = Some descr, scm_price = price, scm_duration_minutes = dur, scm_status = ''ACTIVE''\<rparr>),
      p_outbox := p_outbox (com s) @ [ob]\<rparr> \<and> ob_event_type ob = ''profile.scenario-created.v1'' \<and> \<not> ob_processed ob"
  have run: "\<exists>x t'. create_scenario S i title descr price dur t = (Inr x, t') \<and> ?Q x (view t')" if "view t = com t" "com t = com s" for t
    using create_scenario_returns [of t i price dur title descr] that ok c new by fastforce
  from session_commits [where m = "create_scenario S i title descr price dur" and Q = ?Q and s = s, OF run] obtain x s' where
    "in_prof_session S (bindE (create_scenario S i title descr price dur) (\<lambda>x. bindE (prof_commit S) (\<lambda>_. ret x))) s = (Inr x, s')"
    "?Q x (com s')" by blast
  then show ?thesis
    by (intro exI [of _ x] exI [of _ s']) (auto simp: CreateScenario_def grpc_command_def c(1) eff_simps)
qed

lemma create_scenario_at_limit:
  assumes ok: "prof_ok (view s)" and c: "c \<in> dom (companion_profiles (view s))" "5 \<le> card (active_scenarios c (view s))"
  shows "\<exists>s'. create_scenario S c title descr price dur s = (Inl (ScenarioLimitExceededError c 5), s')"
proof -
  obtain v s1 where 1: "CompanionProfileRepository_find_by_id S c s = (Inr v, s1)" "view s1 = view s" "v \<noteq> None"
    using companion_found [OF ok, of c] c(1) by (metis domIff)
  obtain n s2 where 2: "ScenarioRepository_count_by_companion_id S c s1 = (Inr n, s2)"
    unfolding ScenarioRepository_count_by_companion_id_def using scenario_count_live by blast
  have "5 \<le> n"
    using scenario_count_ok [OF 2 [unfolded ScenarioRepository_count_by_companion_id_def]] 1(2) c(2) by (simp add: active_scenarios_def)
  with 1 2 show ?thesis by (auto simp: create_scenario_def eff_simps)
qed

lemma CreateScenario_at_limit:
  assumes ok: "prof_ok (com s)" and c: "companion_of_request md c = i" "i \<in> dom (companion_profiles (com s))" "5 \<le> card (active_scenarios i (com s))"
  shows "\<exists>s'. CreateScenario S md c title descr price dur s =
      (Inr (Failure INVALID_ARGUMENT (pexn_str (ScenarioLimitExceededError i 5))), s') \<and> com s' = com s"
proof -
  have run: "\<exists>t'. create_scenario S i title descr price dur t = (Inl (ScenarioLimitExceededError i 5), t')" if "view t = com t" "com t = com s" for t
    using create_scenario_at_limit [of t i] that ok c by simp
  from session_fails [where m = "create_scenario S i title descr price dur" and s = s, OF run command_keeps(5)] obtain s' where
    "in_prof_session S (bindE (create_scenario S i title descr price dur) (\<lambda>x. bindE (prof_commit S) (\<lambda>_. ret x))) s =
      (Inl (ScenarioLimitExceededError i 5), s')" "com s' = com s" by blast
  then show ?thesis
    by (intro exI [of _ s']) (simp add: CreateScenario_def grpc_command_def c(1) eff_simps profile_handle_exception_def)
qed

text \<open>An update may make a scenario active without counting the others.\<close>

lemma update_scenario_returns:
  assumes ok: "prof_ok (view s)" and r: "scenarios (view s) k = Some r" "scm_companion_id r = c"
    and new: "0 < price" "price < 2 ^ 31" "dur \<in> {60, 120, 180}" "length title \<le> 200" "length st \<le> 20"
  shows "\<exists>s' ob. update_scenario S k c title descr price dur st s = (Inr (), s') \<and>
    view s' = (view s)\<lparr>scenarios := (scenarios (view s))(k \<mapsto> \<lparr>scm_scenario_id = k, scm_companion_id = c, scm_title = title,
      scm_description = Some descr, scm_price = price, scm_duration_minutes = dur, scm_status = st\<rparr>),
      p_outbox := p_outbox (view s) @ [ob]\<rparr>"
proof -
  obtain sc s1 where 1: "ScenarioRepository_find_by_id S k s = (Inr (Some sc), s1)" "scenario_to_domain r = Inr sc" "view s1 = view s"
    by (rule scenario_found [OF ok r(1)])
  let ?new = "Scenario_update sc title descr \<lparr>money_amount = price\<rparr> \<lparr>minutes = dur\<rparr> st"
  let ?r = "\<lparr>scm_scenario_id = k, scm_companion_id = c, scm_title = title, scm_description = Some descr, scm_price = price,
    scm_duration_minutes = dur, scm_status = st\<rparr>"
  have id: "scm_scenario_id r = k" by (rule table_ok_key [OF prof_ok_tables(3) [OF ok] r(1)])
  have sc: "sc_scenario_id sc = k" "sc_companion_id sc = c" "sc_events sc = []" using 1(2) id r(2) by (auto simp: scenario_to_domain_Inr)
  have m: "scenario_to_model ?new = ?r" using sc by (simp add: scenario_to_model_def aggregate_defs)
  have old: "scenario_ok r" "scenario_parent (view s) r" using prof_ok_rows(3) [OF ok, of r] ranI [of "scenarios (view s)" k r] r(1) by simp_all
  then have "scenario_fits ?r" using new r id by (auto simp: scenario_ok_def scenario_fits_def int32_def)
  then have "row_accepted scm_scenario_id scm_scenario_id scenario_fits (scenarios (view s1)) ?r" by (simp add: row_accepted_def)
  moreover have "scenario_parent (view s1) ?r" using old(2) r(2) 1(3) by (simp add: scenario_parent_def)
  ultimately obtain r' s2 where 2: "scenario_merge S ?r s1 = (Inr (), s2)" "?r = r'"
    "view s2 = (view s1)\<lparr>scenarios := (scenarios (view s1))(scm_scenario_id ?r \<mapsto> r')\<rparr>" by (rule stl.cmerge_stores)
  let ?e = "ScenarioUpdated k c title price dur st"
  have "pb_encodable (profile_to_protobuf ?e)" using new by (auto simp: pb_encodable_def int64_def)
  then obtain ob s3 where 3: "profile_publish S ?e s2 = (Inr (), s3)" "view s3 = (view s2)\<lparr>p_outbox := p_outbox (view s2) @ [ob]\<rparr>"
    by (rule profile_publish_returns)
  have ev: "fst (Scenario_clear_events ?new) = [?e]" using sc by (simp add: aggregate_defs)
  have "update_scenario S k c title descr price dur st s = (Inr (), s3)"
    using 1(1) 2(1) 3(1) sc new
    by (simp add: update_scenario_def Let_def eff_simps Money_p_def Duration_def ScenarioRepository_save_def m ev)
  then show ?thesis using 1(3) 2(2,3) 3(2) by auto
qed

lemma UpdateScenario_returns:
  assumes ok: "prof_ok (com s)" and c: "companion_of_request md c = i"
    and r: "scenarios (com s) k = Some r" "scm_companion_id r = i"
    and new: "0 < price" "price < 2 ^ 31" "dur \<in> {60, 120, 180}" "length title \<le> 200" "length st \<le> 20"
  shows "\<exists>s' ob. UpdateScenario S md k c title descr price dur st s =
      (Inr (Reply \<lparr>reply_id = k, reply_status = ''SUCCESS'', reply_message = ''Scenario updated successfully''\<rparr>), s') \<and>
    com s' = (com s)\<lparr>scenarios := (scenarios (com s))(k \<mapsto> \<lparr>scm_scenario_id = k, scm_companion_id = i, scm_title = title,
      scm_description = Some descr, scm_price = price, scm_duration_minutes = dur, scm_status = st\<rparr>),
      p_outbox := p_outbox (com s) @ [ob]\<rparr>"
proof -
  let ?Q = "\<lambda>x db. \<exists>ob. db = (com s)\<lparr>scenarios := (scenarios (com s))(k \<mapsto> \<lparr>scm_scenario_id = k, scm_companion_id = i,
      scm_title = title, scm_description = Some descr, scm_price = price, scm_duration_minutes = dur, scm_status = st\<rparr>),
      p_outbox := p_outbox (com s) @ [ob]\<rparr>"
  have run: "\<exists>x t'. update_scenario S k i title descr price dur st t = (Inr x, t') \<and> ?Q x (view t')" if "view t = com t" "com t = com s" for t
    using update_scenario_returns [of t k r i price dur title st descr] that ok r new by fastforce
  from session_commits [where m = "update_scenario S k i title descr price dur st" and Q = ?Q and s = s, OF run] obtain s' where
    "in_prof_session S (bindE (update_scenario S k i title descr price dur st) (\<lambda>x. bindE (prof_commit S) (\<lambda>_. ret x))) s = (Inr (), s')"
    "?Q () (com s')" by auto
  then show ?thesis
    by (intro exI [of _ s']) (auto simp: UpdateScenario_def grpc_command_def c(1) eff_simps)
qed

section \<open>Registration\<close>

lemma create_profile_returns:
  assumes ok: "prof_ok (view s)" and new: "user_profiles (view s) i = None"
    and fits: "length i \<le> 36" "length name \<le> 100" "length role \<le> 20"
  shows "\<exists>s' ob. create_profile S i i name [] [] role s = (Inr i, s') \<and>
    view s' = (view s)\<lparr>user_profiles := (user_profiles (view s))(i \<mapsto> \<lparr>um_user_id = i, um_display_name = name, um_avatar_url = None,
        um_bio = Some [], um_role = role\<rparr>),
      companion_profiles := (if role = ''COMPANION'' then (companion_profiles (view s))(i \<mapsto> cities_model i ''APPROVED'' [])
        else companion_profiles (view s)), p_outbox := p_outbox (view s) @ [ob]\<rparr> \<and>
    ob_event_type ob = ''profile.profile-created.v1'' \<and> \<not> ob_processed ob"
proof -
  obtain s1 where 1: "UserProfileRepository_find_by_id S i s = (Inr None, s1)" "view s1 = view s"
    using user_found [OF ok, of i] new by metis
  let ?up = "UserProfile_create i name [] role"
  let ?u = "\<lparr>um_user_id = i, um_display_name = name, um_avatar_url = None, um_bio = Some [], um_role = role\<rparr>"
  have u: "user_to_model ?up = ?u" by (simp add: user_to_model_def aggregate_defs)
  have "row_accepted um_user_id um_user_id user_fits (user_profiles (view s1)) ?u" using fits by (simp add: row_accepted_def user_fits_def)
  then obtain r' s2 where 2: "user_merge S ?u s1 = (Inr (), s2)" "?u = r'"
    "view s2 = (view s1)\<lparr>user_profiles := (user_profiles (view s1))(um_user_id ?u \<mapsto> r')\<rparr>" by (rule utl.merge_stores)
  let ?cs = "if role = ''COMPANION'' then (companion_profiles (view s))(i \<mapsto> cities_model i ''APPROVED'' []) else companion_profiles (view s)"
  let ?c = "CompanionProfile_create i [] ''APPROVED''"
  have cm: "companion_to_model ?c = cities_model i ''APPROVED'' []"
    by (simp add: companion_to_model_def cities_model_def CompanionProfile_create_def)
  have "row_accepted cm_companion_id cm_companion_id companion_fits (companion_profiles (view s2)) (cities_model i ''APPROVED'' [])"
    "companion_parent (view s2) (cities_model i ''APPROVED'' [])"
    using fits(1) 2(3) unfolding 2(2) [symmetric] by (simp_all add: row_accepted_def companion_fits_def cities_model_def companion_parent_def)
  then obtain c' s3 where 3: "companion_merge S (cities_model i ''APPROVED'' []) s2 = (Inr (), s3)" "cities_model i ''APPROVED'' [] = c'"
    "view s3 = (view s2)\<lparr>companion_profiles := (companion_profiles (view s2))(cm_companion_id (cities_model i ''APPROVED'' []) \<mapsto> c')\<rparr>"
    by (rule ctl.cmerge_stores)
  define s3' where "s3' = (if role = ''COMPANION'' then s3 else s2)"
  define companions where "companions = (if role = ''COMPANION'' then bindE (liftE (clean_cities [])) (\<lambda>cities.
      let companion_profile = CompanionProfile_create i cities ''APPROVED'' in
      bindE (CompanionProfileRepository_save S companion_profile) (\<lambda>_.
      forE (profile_publish S) (fst (CompanionProfile_clear_events companion_profile)))) else ret ())"
  have step: "companions s2 = (Inr (), s3')"
    using 3(1) cm by (simp add: companions_def s3'_def clean_cities_def Let_def CompanionProfileRepository_save_def eff_simps
        CompanionProfile_clear_events_def CompanionProfile_create_def)
  have v3: "view s3' = (view s)\<lparr>user_profiles := (user_profiles (view s))(i \<mapsto> ?u), companion_profiles := ?cs\<rparr>"
    using 1(2) 2(2,3) 3(2,3) by (auto simp: cities_model_def s3'_def)
  let ?e = "ProfileCreated i i name []"
  have "pb_encodable (profile_to_protobuf ?e)" by (simp add: pb_encodable_def)
  then obtain ob s4 where 4: "profile_publish S ?e s3' = (Inr (), s4)" "view s4 = (view s3')\<lparr>p_outbox := p_outbox (view s3') @ [ob]\<rparr>"
    "ob_event_type ob = profile_event_type_of (profile_to_protobuf ?e)" "\<not> ob_processed ob" by (rule profile_publish_returns)
  have ty: "profile_event_type_of (profile_to_protobuf ?e) = ''profile.profile-created.v1''"
    by (simp add: profile_event_type_of_def) code_simp
  have ev: "fst (UserProfile_clear_events ?up) = [?e]" by (simp add: aggregate_defs)
  have "create_profile S i i name [] [] role s = (Inr i, s4)"
    unfolding create_profile_def Let_def [of ?up] ev companions_def [symmetric]
    using 1(1) 2(1) 4(1) step by (simp add: eff_simps UserProfileRepository_save_def u)
  then show ?thesis using 4(2-4) ty unfolding v3 by auto
qed

lemma registration_stored:
  assumes "i \<noteq> []" "name \<noteq> []" "role \<noteq> []" and ok: "prof_ok (com s)" and new: "user_profiles (com s) i = None"
    and fits: "length i \<le> 36" "length name \<le> 100" "length role \<le> 20"
  shows "\<exists>s' ob. handle_profile_identity_event S (registered_event i name role) s = (Inr (), s') \<and>
    com s' = (com s)\<lparr>user_profiles := (user_profiles (com s))(i \<mapsto> \<lparr>um_user_id = i, um_display_name = name, um_avatar_url = None,
        um_bio = Some [], um_role = role\<rparr>),
      companion_profiles := (if role = ''COMPANION'' then (companion_profiles (com s))(i \<mapsto> cities_model i ''APPROVED'' [])
        else companion_profiles (com s)), p_outbox := p_outbox (com s) @ [ob]\<rparr> \<and>
    ob_event_type ob = ''profile.profile-created.v1'' \<and> \<not> ob_processed ob"
proof -
  obtain s1 where 1: "prof_open S s = (Inr (), s1)" using prof_open_live by blast
  have o: "view s1 = com s1" "com s1 = com s" using prof_open_ok [OF 1] prof_open_com [of s] 1 by simp_all
  then have vo: "view s1 = com s" by simp
  from create_profile_returns [of s1 i name role, unfolded vo, OF ok new fits] obtain s2 ob where
    2: "create_profile S i i name [] [] role s1 = (Inr i, s2)" and v2: "view s2 = (com s)\<lparr>user_profiles := (user_profiles (com s))(i \<mapsto>
        \<lparr>um_user_id = i, um_display_name = name, um_avatar_url = None, um_bio = Some [], um_role = role\<rparr>),
      companion_profiles := (if role = ''COMPANION'' then (companion_profiles (com s))(i \<mapsto> cities_model i ''APPROVED'' [])
        else companion_profiles (com s)), p_outbox := p_outbox (com s) @ [ob]\<rparr>"
    and ob: "ob_event_type ob = ''profile.profile-created.v1''" "\<not> ob_processed ob" by blast
  obtain s3 where 3: "prof_commit S s2 = (Inr (), s3)" "com s3 = view s2" by (rule txl.commit_publishes)
  obtain s4 where 4: "prof_close S s3 = (Inr (), s4)" "com s4 = com s3" by (rule txl.rollback_resets)
  have "handle_profile_identity_event S (registered_event i name role) s = (Inr (), s4)"
    unfolding registered_event_handled [OF assms(1-3)] using 1 2 3 4 by (simp add: in_prof_session_def eff_simps)
  with 3(2) 4(2) v2 ob show ?thesis by (intro exI [of _ s4] exI [of _ ob]) simp
qed

end

context prof_session
begin

lemma registration_repeated:
  assumes "i \<noteq> []" "name \<noteq> []" "role \<noteq> []" and ok: "prof_ok (com s)" and old: "user_profiles (com s) i \<noteq> None"
  shows "com (snd (handle_profile_identity_event S (registered_event i name role) s)) = com s"
proof -
  let ?b = "bindE (create_profile S i i name [] [] role) (\<lambda>_. prof_commit S)"
  let ?h = "\<lambda>e. case e of ProfileAlreadyExistsError _ \<Rightarrow> ret () | _ \<Rightarrow> raise e"
  have h: "keeps com (?h e)" for e by (cases e) (auto intro: keep_intros)
  have body: "com (snd (?b t)) = com t" if "view t = com t" "com t = com s" for t
  proof (cases "create_profile S i i name [] [] role t")
    case (Pair r t1)
    have "com t1 = com t" using keepsD [OF command_keeps(1) Pair] .
    moreover have "\<exists>e. r = Inl e"
      using create_profile_view [of i name "[]" "[]" role t _ t1] Pair that ok old by (cases r) auto
    ultimately show ?thesis using Pair by (auto simp: bindE_def)
  qed
  obtain r1 s1 where 1: "prof_open S s = (r1, s1)" by fastforce
  have c1: "com s1 = com s" using 1 prof_open_com [of s] by simp
  have "com (snd (in_prof_session S (tryE ?b ?h) s)) = com s"
  proof (cases r1)
    case (Inl e)
    with 1 c1 show ?thesis by (simp add: in_prof_session_def bindE_def)
  next
    case (Inr u)
    obtain r2 s2 where 2: "?b s1 = (r2, s2)" by fastforce
    have c2: "com s2 = com s" using body [of s1] 2 prof_open_ok 1 Inr c1 by auto
    obtain r3 s3 where 3: "tryE ?b ?h s1 = (r3, s3)" by fastforce
    have "com s3 = com s" using 2 3 c2 keepsD [OF h] by (cases r2) (auto simp: tryE_def)
    then show ?thesis using 1 3 Inr by (auto simp: in_prof_session_def bindE_def dest: close_com split: prod.splits sum.splits)
  qed
  then show ?thesis unfolding registered_event_handled [OF assms(1-3)]
    by (auto simp: tryE_def ret_def split: prod.splits sum.splits)
qed

end

end
