(* ===== verification/Profile_Search.thy ===== *)
theory Profile_Search
  imports Profile_Live
begin

text \<open>
  The catalogue search against a reference that knows nothing of \<open>LIKE\<close> or of JSON text: a companion is
  wanted if approved, if the name contains the searched text (letters compared without case), if the city is
  one of the cities and if an active scenario has a price in the range.
\<close>

section \<open>The text between quotes\<close>

fun segments :: "string \<Rightarrow> string list" where
  "segments [] = [[]]"
| "segments (c # cs) = (if c = CHR 0x22 then [] # segments cs else (c # hd (segments cs)) # tl (segments cs))"

lemma segments_nonempty [simp]: "segments s \<noteq> []"
  by (induction s) auto

lemma segments_quote: "segments (xs @ CHR 0x22 # ys) = segments xs @ segments ys"
  by (induction xs) auto

lemma segments_plain: "CHR 0x22 \<notin> set s \<Longrightarrow> segments s = [s]"
  by (induction s) auto

lemma inner_segment:
  assumes "CHR 0x22 \<notin> set w"
  shows "w \<in> set (butlast (tl (segments (xs @ (CHR 0x22 # w @ [CHR 0x22]) @ ys))))"
proof -
  have "segments (xs @ (CHR 0x22 # w @ [CHR 0x22]) @ ys) = segments xs @ [w] @ segments ys"
    using segments_quote [of xs "w @ CHR 0x22 # ys"] segments_quote [of w ys] segments_plain [OF assms] by simp
  then show ?thesis by (cases "segments xs") (auto simp: butlast_append)
qed

lemma segments_cons: "CHR 0x22 \<notin> set w \<Longrightarrow> segments (w @ CHR 0x22 # t) = w # segments t"
  using segments_quote [of w t] segments_plain by simp

lemma simple_no_quote: "simple_name c \<Longrightarrow> CHR 0x22 \<notin> set c"
  by (auto simp: simple_name_def)

lemma segments_items:
  assumes "\<And>c. c \<in> set (s # ss) \<Longrightarrow> simple_name c"
  shows "\<exists>inner. segments (json_items (s # ss) @ t) = [] # inner @ segments t \<and> set inner \<subseteq> set (s # ss) \<union> {'', ''}"
  using assms
proof (induction ss arbitrary: s)
  case Nil
  then have "segments (json_items [s] @ t) = [] # [s] @ segments t"
    by (simp add: json_quote_def json_escape_simple segments_cons simple_no_quote)
  then show ?case by (intro exI [of _ "[s]"]) simp
next
  case (Cons u ss)
  obtain inner where IH: "segments (json_items (u # ss) @ t) = [] # inner @ segments t" "set inner \<subseteq> set (u # ss) \<union> {'', ''}"
    using Cons.IH [of u] Cons.prems by auto
  obtain x where x: "json_items (u # ss) @ t = CHR 0x22 # x" by (cases ss) (simp_all add: json_quote_def)
  then have inner: "segments x = inner @ segments t" using IH(1) by simp
  have "segments (json_items (s # u # ss) @ t) = [] # s # segments ('', '' @ CHR 0x22 # x)"
    using Cons.prems x by (simp add: json_quote_def json_escape_simple segments_cons simple_no_quote)
  also have "segments ('', '' @ CHR 0x22 # x) = '', '' # segments x" by (rule segments_cons) simp
  finally show ?case using inner IH(2) by (intro exI [of _ "s # '', '' # inner"]) auto
qed

text \<open>A city found by the pattern is in the list, unless it is the separator.\<close>

lemma like_city:
  assumes "simple_name city" "city \<noteq> '', ''" "\<And>c. c \<in> set cities \<Longrightarrow> simple_name c"
    "sql_like (city_pattern city) (json_dumps_strings cities)"
  shows "city \<in> set cities"
proof -
  let ?q = "CHR 0x22 # city @ [CHR 0x22]"
  have "plain_char c" if "c \<in> set ?q" for c using that assms(1) by (auto simp: simple_name_def plain_char_def)
  then obtain xs ys where xy: "json_dumps_strings cities = xs @ ?q @ ys"
    using sql_like_contains [of ?q] assms(4) by (auto simp: city_pattern_def)
  have mem: "city \<in> set (butlast (tl (segments (json_dumps_strings cities))))"
    unfolding xy by (rule inner_segment) (rule simple_no_quote [OF assms(1)])
  show ?thesis
  proof (cases cities)
    case Nil
    then show ?thesis using mem by (simp add: json_dumps_strings_def)
  next
    case (Cons s ss)
    obtain inner where inner: "segments (json_items (s # ss) @ [CHR 0x5D]) = [] # inner @ segments [CHR 0x5D]"
      "set inner \<subseteq> set (s # ss) \<union> {'', ''}"
      using segments_items [of s ss "[CHR 0x5D]"] assms(3) Cons by blast
    have "segments (json_dumps_strings cities) = [CHR 0x5B] # inner @ [[CHR 0x5D]]"
      using inner(1) Cons by (simp add: json_dumps_strings_def)
    then have "city \<in> set inner" using mem by simp
    with inner(2) assms(2) Cons show ?thesis by auto
  qed
qed

section \<open>The reference\<close>

definition cities_of :: "companion_model \<Rightarrow> string list" where
  "cities_of r = (case json_loads_strings (cm_available_cities r) of None \<Rightarrow> [] | Some cs \<Rightarrow> cs)"

definition wanted ::
  "string option \<Rightarrow> string option \<Rightarrow> int option \<Rightarrow> int option \<Rightarrow> prof_db \<Rightarrow> string \<Rightarrow> bool" where
  "wanted name city lo hi db i \<longleftrightarrow>
     (\<exists>c u. companion_profiles db i = Some c \<and> user_profiles db i = Some u \<and> cm_status c = ''APPROVED'' \<and>
        (given name \<longrightarrow> sublist (py_lower (the name)) (py_lower (um_display_name u))) \<and>
        (given city \<longrightarrow> the city \<in> set (cities_of c)) \<and>
        (lo \<noteq> None \<or> hi \<noteq> None \<longrightarrow>
          (\<exists>r\<in>ran (scenarios db). is_active_of i r \<and> opt_all (\<lambda>p. p \<le> scm_price r) lo \<and> opt_all (\<lambda>p. scm_price r \<le> p) hi)))"

definition starting_price :: "prof_db \<Rightarrow> string \<Rightarrow> int" where
  "starting_price db i =
     (let P = scm_price ` {r \<in> ran (scenarios db). is_active_of i r} in if P = {} then 0 else Min P)"

text \<open>What the equivalence needs of the query and of the stored cities.\<close>

definition plain_query :: "string option \<Rightarrow> string option \<Rightarrow> prof_db \<Rightarrow> bool" where
  "plain_query name city db \<longleftrightarrow>
     (given name \<longrightarrow> (\<forall>c\<in>set (the name). plain_char c)) \<and>
     (given city \<longrightarrow> simple_name (the city) \<and> the city \<noteq> '', '' \<and> (\<forall>r\<in>ran (companion_profiles db). \<forall>c\<in>set (cities_of r). simple_name c))"

lemma lower_plain: "plain_char c \<Longrightarrow> plain_char (lower_char c)"
proof -
  assume "plain_char c"
  moreover have "lower_char c \<noteq> d" if "(of_char d :: nat) < 97 \<or> 122 < (of_char d :: nat)" "c \<noteq> d" for d
    using that by (auto simp: lower_char_def Let_def)
  ultimately show "plain_char (lower_char c)" by (auto simp: plain_char_def)
qed

lemma name_like:
  assumes "\<And>c. c \<in> set name \<Longrightarrow> plain_char c"
  shows "sql_ilike (name_pattern name) s \<longleftrightarrow> sublist (py_lower name) (py_lower s)"
proof -
  have "py_lower (name_pattern name) = CHR ''%'' # py_lower name @ [CHR ''%'']"
    by (simp add: name_pattern_def py_lower_def) (simp add: lower_char_def)
  moreover have "plain_char c" if "c \<in> set (py_lower name)" for c using that assms lower_plain by (auto simp: py_lower_def)
  ultimately show ?thesis
    using sql_like_contains [of "py_lower name" "py_lower s"] by (simp add: sql_ilike_def sublist_def)
qed

lemma query_wanted:
  assumes ok: "prof_ok db" and q: "plain_query name city db" and c: "companion_profiles db i = Some c"
  shows "search_query name city lo hi db c \<longleftrightarrow> wanted name city lo hi db i"
proof -
  have id: "cm_companion_id c = i" by (rule table_ok_key [OF prof_ok_tables(2) [OF ok] c])
  obtain u where u: "user_profiles db i = Some u" "um_role u = ''COMPANION''" using prof_ok_companions [OF ok, of i] c by auto
  have cr: "c \<in> ran (companion_profiles db)" using c by (rule ranI)
  obtain cities where cities: "cm_available_cities c = json_dumps_strings cities"
    using companion_ok_reads [OF prof_ok_rows(2) [OF ok cr]] by blast
  have co: "cities_of c = cities" by (simp add: cities_of_def cities json_strings_roundtrip)
  have city: "sql_like (city_pattern (the city)) (cm_available_cities c) \<longleftrightarrow> the city \<in> set cities" if "given city"
    using that q cr like_city [of "the city" cities] city_like [of "the city" cities] co
    unfolding plain_query_def cities by (auto simp: city_pattern_def)
  have name: "sql_ilike (name_pattern (the name)) (um_display_name u) \<longleftrightarrow> sublist (py_lower (the name)) (py_lower (um_display_name u))"
    if "given name" using that q name_like unfolding plain_query_def by blast
  show ?thesis
    using c u id city name co by (auto simp: search_query_def wanted_def price_subquery_def is_active_of_def)
qed

lemma wanted_companion: "wanted name city lo hi db i \<Longrightarrow> i \<in> dom (companion_profiles db)"
  by (auto simp: wanted_def)

lemma py_min_Min: "xs \<noteq> [] \<Longrightarrow> py_min xs = Min (set xs)"
  by (cases xs) (simp_all add: Min.set_eq_fold [symmetric])

section \<open>Runs\<close>

lemma mapE_returns:
  assumes "\<And>x t. x \<in> set xs \<Longrightarrow> I t \<Longrightarrow> \<exists>y t'. f x t = (Inr y, t') \<and> I t' \<and> P x y" "I s"
  shows "\<exists>ys s'. mapE f xs s = (Inr ys, s') \<and> I s' \<and> list_all2 P xs ys"
  using assms
proof (induction xs arbitrary: s)
  case Nil
  then show ?case by (auto simp: ret_run)
next
  case (Cons x xs)
  then obtain y t where y: "f x s = (Inr y, t)" "I t" "P x y" by (meson list.set_intros(1))
  have "\<exists>ys s'. mapE f xs t = (Inr ys, s') \<and> I s' \<and> list_all2 P xs ys"
    by (rule Cons.IH) (use Cons.prems(1) y(2) in auto)
  then obtain ys s' where ys: "mapE f xs t = (Inr ys, s')" "I s'" "list_all2 P xs ys" by blast
  with y show ?case by (intro exI [of _ "y # ys"] exI [of _ s']) (simp add: eff_simps)
qed

lemma list_all2_scenarios:
  "list_all2 (\<lambda>r sc. scenario_to_domain r = Inr sc) rs scs \<Longrightarrow>
   map (\<lambda>s. money_amount (sc_price s)) (filter (\<lambda>s. sc_status s = ''ACTIVE'') scs) = map scm_price (filter (\<lambda>r. scm_status r = ''ACTIVE'') rs)"
  by (induction rule: list_all2_induct) (auto simp: scenario_to_domain_Inr)

context prof_session_live
begin

lemma scenarios_found:
  assumes ok: "prof_ok (view s)"
  obtains rs scs s' where "ScenarioRepository_find_by_companion_id S i s = (Inr scs, s')" "view s' = view s" "com s' = com s"
    "set rs = {r \<in> ran (scenarios (view s)). scm_companion_id r = i}" "list_all2 (\<lambda>r sc. scenario_to_domain r = Inr sc) rs scs"
proof -
  obtain rs s' where sel: "scenario_select S False (\<lambda>m. scm_companion_id m = i) s = (Inr rs, s')"
    "set rs = {r \<in> ran (scenarios (view s)). scm_companion_id r = i}" "view s' = view s" "com s' = com s"
    by (rule stl.cselect_finds)
  have "\<exists>scs. list_map_exn scenario_to_domain rs = Inr scs"
    using sel(2) prof_ok_rows(3) [OF ok] by (intro list_map_exn_reads scenario_ok_reads) blast
  then obtain scs where scs: "list_map_exn scenario_to_domain rs = Inr scs" by blast
  show thesis
    by (rule that [of scs s' rs]) (use sel scs list_map_exn_Inr [OF scs] in \<open>simp_all add: ScenarioRepository_find_by_companion_id_def eff_simps\<close>)
qed

lemma card_returns:
  assumes ok: "prof_ok (view s)" and i: "c_companion_id p = i" "i \<in> dom (companion_profiles (view s))"
  shows "\<exists>card s'. search_card_of S p s = (Inr card, s') \<and> view s' = view s \<and> com s' = com s \<and>
    card_companionId card = i \<and> card_startingPrice card = starting_price (view s) i \<and>
    (\<exists>u. user_profiles (view s) i = Some u \<and> card_displayName card = um_display_name u)"
proof -
  obtain v s1 where 1: "UserProfileRepository_find_by_id S i s = (Inr v, s1)" "view s1 = view s" "com s1 = com s"
    using user_found [OF ok, of i] by metis
  obtain r where r: "user_profiles (view s) i = Some r" using prof_ok_companions [OF ok, of i] i(2) by auto
  obtain u where u: "v = Some u" "user_to_domain r = Inr u" using find_user [OF 1(1) prof_ok_tables(1) [OF ok]] r by auto
  have ok1: "prof_ok (view s1)" using ok 1(2) by simp
  obtain rs scs s2 where 2: "ScenarioRepository_find_by_companion_id S i s1 = (Inr scs, s2)" "view s2 = view s1" "com s2 = com s1"
    "set rs = {r \<in> ran (scenarios (view s1)). scm_companion_id r = i}" "list_all2 (\<lambda>r sc. scenario_to_domain r = Inr sc) rs scs"
    by (rule scenarios_found [OF ok1])
  let ?ps = "map scm_price (filter (\<lambda>r. scm_status r = ''ACTIVE'') rs)"
  have ps: "map (\<lambda>s. money_amount (sc_price s)) (filter (\<lambda>s. sc_status s = ''ACTIVE'') scs) = ?ps" by (rule list_all2_scenarios [OF 2(5)])
  have set: "set ?ps = scm_price ` {r \<in> ran (scenarios (view s)). is_active_of i r}" using 2(4) 1(2) by (auto simp: is_active_of_def)
  let ?act = "filter (\<lambda>s. sc_status s = ''ACTIVE'') scs"
  have "?act = [] \<longleftrightarrow> ?ps = []" by (metis ps map_is_Nil_conv)
  then have price: "(if ?act \<noteq> [] then py_min (map (\<lambda>s. money_amount (sc_price s)) ?act) else 0) = starting_price (view s) i"
    unfolding ps starting_price_def Let_def set [symmetric] set_empty using py_min_Min [of ?ps]
    by (cases "?ps = []") (simp_all only: simp_thms if_True if_False)
  have "search_card_of S p s = (Inr \<lparr>card_companionId = i, card_displayName = u_display_name u,
      card_avatarUrl = map_option mu_url (u_avatar_url u), card_averageRating = rating_49,
      card_city = (case c_available_cities p of [] \<Rightarrow> ''Hanoi'' | c # _ \<Rightarrow> loc_city c), card_startingPrice = starting_price (view s) i\<rparr>, s2)"
    unfolding search_card_of_def i(1) price [symmetric] using 1(1) 2(1) u(1) by (simp add: Let_def eff_simps)
  then show ?thesis using 1 2 u r user_to_domain_Inr [OF u(2)] by simp
qed

text \<open>The rows of the query are the wanted companions.\<close>

lemma wanted_ids:
  assumes ok: "prof_ok db" and plain: "plain_query name city db"
    and rows: "set rows = {r \<in> ran (companion_profiles db). search_query name city lo hi db r}"
  shows "set (map cm_companion_id rows) = {i. wanted name city lo hi db i}"
proof (intro set_eqI iffI)
  note t = prof_ok_tables(2) [OF ok]
  fix i assume "i \<in> set (map cm_companion_id rows)"
  then obtain r where r: "r \<in> ran (companion_profiles db)" "search_query name city lo hi db r" "i = cm_companion_id r"
    using rows by auto
  then have "companion_profiles db i = Some r" using table_ok_ran [OF t] by simp
  from query_wanted [OF ok plain this] r(2) show "i \<in> {i. wanted name city lo hi db i}" by simp
next
  fix i assume "i \<in> {i. wanted name city lo hi db i}"
  then obtain r where r: "wanted name city lo hi db i" "companion_profiles db i = Some r" using wanted_companion by blast
  then have "r \<in> set rows" unfolding rows using query_wanted [OF ok plain r(2)] by (simp add: ranI)
  moreover have "cm_companion_id r = i" by (rule table_ok_key [OF prof_ok_tables(2) [OF ok] r(2)])
  ultimately show "i \<in> set (map cm_companion_id rows)" by force
qed

text \<open>Rows of the catalogue are read as companions of the catalogue.\<close>

lemma companions_read:
  assumes ok: "prof_ok db" and sub: "set cs \<subseteq> ran (companion_profiles db)"
  obtains ps where "list_map_exn companion_to_domain cs = Inr ps" "map c_companion_id ps = map cm_companion_id cs"
    "\<And>p. p \<in> set ps \<Longrightarrow> c_companion_id p \<in> dom (companion_profiles db)"
proof -
  have "\<exists>ps. list_map_exn companion_to_domain cs = Inr ps"
  proof (rule list_map_exn_reads)
    fix r assume "r \<in> set cs"
    then have "companion_ok r" using sub prof_ok_rows(2) [OF ok] by blast
    then show "\<exists>p. companion_to_domain r = Inr p" using companion_ok_reads by blast
  qed
  then obtain ps where ps: "list_map_exn companion_to_domain cs = Inr ps" by blast
  from list_map_exn_Inr [OF ps] have ids: "map c_companion_id ps = map cm_companion_id cs"
    by (induction rule: list_all2_induct) (auto dest!: companion_to_domain_Inr)
  have "c_companion_id p \<in> dom (companion_profiles db)" if "p \<in> set ps" for p
  proof -
    have "c_companion_id p \<in> set (map cm_companion_id cs)" unfolding ids [symmetric] using that by simp
    then obtain r where r: "r \<in> set cs" "c_companion_id p = cm_companion_id r" by auto
    have "r \<in> ran (companion_profiles db)" using sub r(1) ..
    from table_ok_ran [OF prof_ok_tables(2) [OF ok] this] r(2) show ?thesis by (simp add: domI)
  qed
  with ps ids show thesis by (rule that)
qed

text \<open>What a card shows of its companion.\<close>

definition card_of :: "prof_db \<Rightarrow> search_card \<Rightarrow> bool" where
  "card_of db sc \<longleftrightarrow> card_startingPrice sc = starting_price db (card_companionId sc) \<and>
     (\<exists>u. user_profiles db (card_companionId sc) = Some u \<and> card_displayName sc = um_display_name u)"

lemma cards_built:
  assumes ok: "prof_ok (view s)" and dom: "\<And>p. p \<in> set ps \<Longrightarrow> c_companion_id p \<in> dom (companion_profiles (view s))"
    and here: "view t = view s" "com t = com s"
  obtains cards t' where "mapE (search_card_of S) ps t = (Inr cards, t')" "com t' = com s"
    "map card_companionId cards = map c_companion_id ps" "\<forall>card\<in>set cards. card_of (view s) card"
proof -
  let ?P = "\<lambda>p card. card_companionId card = c_companion_id p \<and> card_of (view s) card"
  have "\<exists>ys t'. mapE (search_card_of S) ps t = (Inr ys, t') \<and> (view t' = view s \<and> com t' = com s) \<and> list_all2 ?P ps ys"
  proof (rule mapE_returns)
    show "view t = view s \<and> com t = com s" using here by simp
    show "\<exists>y t'. search_card_of S p t = (Inr y, t') \<and> (view t' = view s \<and> com t' = com s) \<and> ?P p y"
      if "p \<in> set ps" "view t = view s \<and> com t = com s" for p t
      using card_returns [of t p "c_companion_id p"] that ok dom [OF that(1)] by (auto simp: card_of_def)
  qed
  then obtain cards t' where 1: "mapE (search_card_of S) ps t = (Inr cards, t')" "com t' = com s" and l: "list_all2 ?P ps cards" by blast
  from l have "map card_companionId cards = map c_companion_id ps" by (induction rule: list_all2_induct) auto
  moreover from l have "\<forall>card\<in>set cards. card_of (view s) card" by (induction rule: list_all2_induct) auto
  ultimately show thesis using 1 by (intro that)
qed

lemma search_returns:
  assumes ok: "prof_ok (view s)" and page: "1 \<le> page" "1 \<le> sz"
    and plain: "plain_query name city (view s)"
  shows "\<exists>res all s'. search_companions S name city lo hi page sz s = (Inr res, s') \<and> com s' = com s \<and>
    sr_total res = card {i. wanted name city lo hi (view s) i} \<and> sr_page res = page \<and> sr_pageSize res = sz \<and>
    distinct all \<and> set all = {i. wanted name city lo hi (view s) i} \<and>
    map card_companionId (sr_data res) = take (nat sz) (drop (nat ((page - 1) * sz)) all) \<and>
    (\<forall>card\<in>set (sr_data res). card_of (view s) card)"
proof -
  let ?q = "search_query name city lo hi" and ?off = "(page - 1) * sz"
  obtain n s1 where 1: "companion_count S ?q s = (Inr n, s1)" using companion_count_live by blast
  have n: "n = card {k. \<exists>r. companion_profiles (view s) k = Some r \<and> ?q (view s) r}" "view s1 = view s" "com s1 = com s"
    using companion_count_ok [OF 1] companion_count_com [of ?q s] 1 by simp_all
  have "{k. \<exists>r. companion_profiles (view s) k = Some r \<and> ?q (view s) r} = {i. wanted name city lo hi (view s) i}"
    using query_wanted [OF ok plain] wanted_companion by blast
  then have total: "n = card {i. wanted name city lo hi (view s) i}" using n(1) by simp
  have off: "0 \<le> ?off" using page by simp
  obtain cs s2 where 2: "companion_page S ?q ?off sz s1 = (Inr cs, s2)" using companion_page_live [OF off, of sz] page(2) by fastforce
  obtain rows where rows: "cs = take (nat sz) (drop (nat ?off) rows)" "set rows = {r \<in> ran (companion_profiles (view s)). ?q (view s) r}"
    "distinct (map cm_companion_id rows)" and v2: "view s2 = view s"
    using companion_page_ok [OF 2] prof_ok_tables(2) [OF ok] n(2) by auto
  have c2: "com s2 = com s" using companion_page_com [of ?q ?off sz s1] 2 n(3) by simp
  have "set cs \<subseteq> ran (companion_profiles (view s))"
    using rows(1,2) by (metis (no_types, lifting) mem_Collect_eq set_drop_subset set_take_subset subset_iff)
  then obtain ps where ps: "list_map_exn companion_to_domain cs = Inr ps" "map c_companion_id ps = map cm_companion_id cs"
      "\<And>p. p \<in> set ps \<Longrightarrow> c_companion_id p \<in> dom (companion_profiles (view s))"
    using companions_read [OF ok] by blast
  obtain cards s3 where 3: "mapE (search_card_of S) ps s2 = (Inr cards, s3)" "com s3 = com s"
      "map card_companionId cards = map c_companion_id ps" "\<forall>card\<in>set cards. card_of (view s) card"
    by (rule cards_built [OF ok ps(3) v2 c2])
  let ?res = "\<lparr>sr_data = cards, sr_total = n, sr_page = page, sr_pageSize = sz\<rparr>" and ?all = "map cm_companion_id rows"
  have "search_companions S name city lo hi page sz s = (Inr ?res, s3)"
    using 1 2 ps(1) 3(1) by (simp add: search_companions_def search_approved_def Let_def eff_simps)
  moreover have "map card_companionId cards = take (nat sz) (drop (nat ?off) ?all)"
    unfolding 3(3) ps(2) rows(1) by (simp add: take_map drop_map)
  ultimately show ?thesis
    using 3(2,4) total rows(3) wanted_ids [OF ok plain rows(2)]
    by (intro exI [of _ ?res] exI [of _ ?all] exI [of _ s3]) simp
qed

lemma search_route_returns:
  assumes ok: "prof_ok (com s)" and page: "1 \<le> page" "1 \<le> sz" "sz \<le> 50" and plain: "plain_query name city (com s)"
  shows "\<exists>res all s'. search_companions_route S name city lo hi page sz s = (Inr res, s') \<and> com s' = com s \<and>
    sr_total res = card {i. wanted name city lo hi (com s) i} \<and>
    distinct all \<and> set all = {i. wanted name city lo hi (com s) i} \<and>
    map card_companionId (sr_data res) = take (nat sz) (drop (nat ((page - 1) * sz)) all) \<and>
    (\<forall>card\<in>set (sr_data res). card_startingPrice card = starting_price (com s) (card_companionId card) \<and>
      (\<exists>u. user_profiles (com s) (card_companionId card) = Some u \<and> card_displayName card = um_display_name u))"
proof -
  obtain s1 where 1: "prof_open S s = (Inr (), s1)" using prof_open_live by blast
  have v1: "view s1 = com s" and c1: "com s1 = com s" using prof_open_ok [OF 1] prof_open_com [of s] 1 by simp_all
  from search_returns [of s1 page sz name city lo hi, unfolded v1, OF ok page(1,2) plain]
  obtain res all s2 where 2: "search_companions S name city lo hi page sz s1 = (Inr res, s2)" "com s2 = com s1"
    and res: "sr_total res = card {i. wanted name city lo hi (com s) i}" "distinct all"
      "set all = {i. wanted name city lo hi (com s) i}"
      "map card_companionId (sr_data res) = take (nat sz) (drop (nat ((page - 1) * sz)) all)"
      "\<forall>card\<in>set (sr_data res). card_of (com s) card" by blast
  obtain s3 where 3: "prof_close S s2 = (Inr (), s3)" "com s3 = com s2" by (rule txl.rollback_resets)
  have "search_companions_route S name city lo hi page sz s = (Inr res, s3)"
    using 1 2(1) 3(1) page by (simp add: search_companions_route_def prof_get_db_session_def map_err_def eff_simps)
  with 2(2) 3(2) c1 res show ?thesis by (intro exI [of _ res] exI [of _ all] exI [of _ s3]) (simp add: card_of_def)
qed

end

end
