(* ===== verification/Profile_Memory.thy ===== *)
theory Profile_Memory
  imports Profile_Search Dispute_Memory
begin

text \<open>
  A reference session of the profile service over association lists, on which the laws of
  \<open>prof_session_live\<close> hold, and an object store with a fixed set of objects behind the S3 adapter.
\<close>

record prof_tables =
  pt_users :: "(string, user_model) alist"
  pt_companions :: "(string, companion_model) alist"
  pt_scenarios :: "(string, scenario_model) alist"
  pt_media :: "(string, media_model) alist"
  pt_outbox :: "outbox_model list"

type_synonym prof_mem = "prof_tables mem"

definition prof_abs :: "prof_tables \<Rightarrow> prof_db" where
  "prof_abs t = \<lparr>user_profiles = DAList.lookup (pt_users t), companion_profiles = DAList.lookup (pt_companions t),
     scenarios = DAList.lookup (pt_scenarios t), media_assets = DAList.lookup (pt_media t), p_outbox = pt_outbox t\<rparr>"

definition prof_view :: "prof_mem \<Rightarrow> prof_db" where
  "prof_view s = prof_abs (m_view s)"

definition prof_com :: "prof_mem \<Rightarrow> prof_db" where
  "prof_com s = prof_abs (m_com s)"

definition mem_prof_outbox_add :: "outbox_model \<Rightarrow> (prof_mem, pexn, unit) eff" where
  "mem_prof_outbox_add r s = (Inr (), s\<lparr>m_view := (m_view s)\<lparr>pt_outbox := pt_outbox (m_view s) @ [r]\<rparr>\<rparr>)"

definition mem_companion_page ::
  "(prof_db \<Rightarrow> companion_model \<Rightarrow> bool) \<Rightarrow> int \<Rightarrow> int \<Rightarrow> (prof_mem, pexn, companion_model list) eff" where
  "mem_companion_page R off lim s =
     (if off < 0 \<or> lim < 0 then (Inl (DBErrorP ''OFFSET''), s)
      else (Inr (take (nat lim) (drop (nat off) (mem_rows pt_companions (R (prof_view s)) s))), s))"

definition mem_prof :: "prof_mem prof_session" where
  "mem_prof = \<lparr>prof_open = mem_rollback, prof_uuid4 = mem_tick pad36,
     prof_pb_json = (\<lambda>m. if pb_encodable m then Inr (pm_name m) else Inl (ValueErrorP ''Value out of range'')),
     user_merge = mem_merge pt_users (\<lambda>t. pt_users_update (\<lambda>_. t)) um_user_id um_user_id user_fits (\<lambda>r _. r) (DBErrorP ''user_profiles''),
     user_select = mem_select pt_users,
     companion_merge = mem_child_merge (\<lambda>s. companion_parent (prof_view s)) (DBErrorP ''fk'')
       (mem_merge pt_companions (\<lambda>t. pt_companions_update (\<lambda>_. t)) cm_companion_id cm_companion_id companion_fits (\<lambda>r _. r)
         (DBErrorP ''companion_profiles'')),
     companion_select = mem_select pt_companions,
     companion_count = (\<lambda>R s. (Inr (length (mem_rows pt_companions (R (prof_view s)) s)), s)),
     companion_page = mem_companion_page,
     scenario_merge = mem_child_merge (\<lambda>s. scenario_parent (prof_view s)) (DBErrorP ''fk'')
       (mem_merge pt_scenarios (\<lambda>t. pt_scenarios_update (\<lambda>_. t)) scm_scenario_id scm_scenario_id scenario_fits (\<lambda>r _. r)
         (DBErrorP ''scenarios'')),
     scenario_select = mem_select pt_scenarios,
     scenario_count = (\<lambda>P s. (Inr (length (mem_rows pt_scenarios P s)), s)),
     scenario_delete = mem_delete pt_scenarios (\<lambda>t. pt_scenarios_update (\<lambda>_. t)) scm_scenario_id,
     media_merge = mem_child_merge (\<lambda>s. media_parent (prof_view s)) (DBErrorP ''fk'')
       (mem_merge pt_media (\<lambda>t. pt_media_update (\<lambda>_. t)) mm_asset_id mm_asset_id media_fits (\<lambda>r _. r) (DBErrorP ''media_assets'')),
     media_select = mem_select pt_media,
     media_delete = mem_delete pt_media (\<lambda>t. pt_media_update (\<lambda>_. t)) mm_asset_id,
     prof_outbox_add = mem_prof_outbox_add, prof_commit = mem_commit, prof_close = mem_rollback\<rparr>"

lemma mem_prof_sel [simp]:
  "prof_open mem_prof = mem_rollback" "prof_uuid4 mem_prof = mem_tick pad36" "prof_outbox_add mem_prof = mem_prof_outbox_add"
  "prof_commit mem_prof = mem_commit" "prof_close mem_prof = mem_rollback"
  by (simp_all add: mem_prof_def)

lemmas prof_mem_defs = prof_view_def prof_com_def prof_abs_def

section \<open>The laws\<close>

lemma prof_user_table:
  "sql_table_live (user_merge mem_prof) (user_select mem_prof) prof_view prof_com user_profiles
     (\<lambda>m. user_profiles_update (\<lambda>_. m)) um_user_id um_user_id user_fits (=)"
  unfolding mem_prof_def prof_session.simps
  by (rule mem_sql_table_live) (simp_all add: prof_mem_defs alist_lookup_update)

lemma prof_companion_table:
  "sql_child_live (companion_merge mem_prof) (companion_select mem_prof) prof_view prof_com companion_profiles
     (\<lambda>m. companion_profiles_update (\<lambda>_. m)) cm_companion_id cm_companion_id companion_fits (=) companion_parent"
  unfolding mem_prof_def prof_session.simps
  by (rule mem_sql_child_live, rule mem_sql_table_live) (simp_all add: prof_mem_defs alist_lookup_update)

lemma prof_scenario_table:
  "sql_child_live (scenario_merge mem_prof) (scenario_select mem_prof) prof_view prof_com scenarios
     (\<lambda>m. scenarios_update (\<lambda>_. m)) scm_scenario_id scm_scenario_id scenario_fits (=) scenario_parent"
  unfolding mem_prof_def prof_session.simps
  by (rule mem_sql_child_live, rule mem_sql_table_live) (simp_all add: prof_mem_defs alist_lookup_update)

lemma prof_media_table:
  "sql_child_live (media_merge mem_prof) (media_select mem_prof) prof_view prof_com media_assets
     (\<lambda>m. media_assets_update (\<lambda>_. m)) mm_asset_id mm_asset_id media_fits (=) media_parent"
  unfolding mem_prof_def prof_session.simps
  by (rule mem_sql_child_live, rule mem_sql_table_live) (simp_all add: prof_mem_defs alist_lookup_update)

lemma prof_scenario_delete:
  "sql_delete_live (scenario_delete mem_prof) prof_view prof_com scenarios (\<lambda>m. scenarios_update (\<lambda>_. m)) scm_scenario_id"
  unfolding mem_prof_def prof_session.simps
  by (rule mem_sql_delete_live) (simp_all add: prof_mem_defs alist_lookup_delete)

lemma prof_media_delete:
  "sql_delete_live (media_delete mem_prof) prof_view prof_com media_assets (\<lambda>m. media_assets_update (\<lambda>_. m)) mm_asset_id"
  unfolding mem_prof_def prof_session.simps
  by (rule mem_sql_delete_live) (simp_all add: prof_mem_defs alist_lookup_delete)

lemma prof_txn: "sql_txn_live (prof_commit mem_prof) (prof_close mem_prof) prof_view prof_com"
  unfolding mem_prof_sel prof_view_def [abs_def] prof_com_def [abs_def] by (rule mem_sql_txn_live)

lemma prof_uuid_frame: "sql_frame_live (prof_uuid4 mem_prof) prof_view prof_com"
  unfolding mem_prof_sel prof_view_def [abs_def] prof_com_def [abs_def] by (rule mem_sql_frame_live)

lemma mem_rows_distinct:
  assumes "table_ok pkey uniq (DAList.lookup (get (m_view s)))"
  shows "distinct (map pkey (mem_rows get P s))"
  unfolding mem_rows_def using distinct_rows [OF assms] by (rule distinct_map_filter)

lemma mem_rows_set: "set (mem_rows get P s) = {r \<in> ran (DAList.lookup (get (m_view s))). P r}"
  unfolding mem_rows_def set_filter set_map by (simp add: ran_lookup)

lemma mem_rows_count: "length (mem_rows get P s) = card {k. \<exists>r. DAList.lookup (get (m_view s)) k = Some r \<and> P r}"
  unfolding mem_rows_def count_rows [symmetric] by (simp add: filter_map)

lemma mem_companion_page_law:
  assumes "companion_page mem_prof R off lim s = (Inr cs, s')" "table_ok cm_companion_id cm_companion_id (companion_profiles (prof_view s))"
  shows "0 \<le> off \<and> 0 \<le> lim \<and> prof_view s' = prof_view s \<and>
      (\<exists>all. cs = take (nat lim) (drop (nat off) all) \<and> set all = {r \<in> ran (companion_profiles (prof_view s)). R (prof_view s) r} \<and>
        distinct (map cm_companion_id all))"
proof -
  let ?rows = "mem_rows pt_companions (R (prof_view s)) s"
  have "distinct (map cm_companion_id ?rows)"
    using assms(2) by (intro mem_rows_distinct) (simp add: prof_mem_defs)
  moreover have "set ?rows = {r \<in> ran (companion_profiles (prof_view s)). R (prof_view s) r}"
    unfolding mem_rows_set by (simp add: prof_mem_defs)
  moreover have "0 \<le> off" "0 \<le> lim" "s' = s" "cs = take (nat lim) (drop (nat off) ?rows)"
    using assms(1) by (auto simp: mem_prof_def mem_companion_page_def split: if_splits)
  ultimately show ?thesis by blast
qed

interpretation prof: prof_session_live mem_prof prof_view prof_com
proof (intro prof_session_live.intro prof_session.intro prof_session_axioms.intro prof_session_live_axioms.intro
    prof_user_table prof_companion_table prof_scenario_table prof_media_table prof_scenario_delete prof_media_delete
    prof_txn prof_uuid_frame)
  show "sql_table (user_merge mem_prof) (user_select mem_prof) prof_view prof_com user_profiles
     (\<lambda>m. user_profiles_update (\<lambda>_. m)) um_user_id um_user_id user_fits (=)"
    by (rule sql_table_live.axioms [OF prof_user_table])
  show "sql_child (companion_merge mem_prof) (companion_select mem_prof) prof_view prof_com companion_profiles
     (\<lambda>m. companion_profiles_update (\<lambda>_. m)) cm_companion_id cm_companion_id companion_fits (=) companion_parent"
    by (rule sql_child_live.axioms [OF prof_companion_table])
  show "sql_child (scenario_merge mem_prof) (scenario_select mem_prof) prof_view prof_com scenarios
     (\<lambda>m. scenarios_update (\<lambda>_. m)) scm_scenario_id scm_scenario_id scenario_fits (=) scenario_parent"
    by (rule sql_child_live.axioms [OF prof_scenario_table])
  show "sql_child (media_merge mem_prof) (media_select mem_prof) prof_view prof_com media_assets
     (\<lambda>m. media_assets_update (\<lambda>_. m)) mm_asset_id mm_asset_id media_fits (=) media_parent"
    by (rule sql_child_live.axioms [OF prof_media_table])
  show "sql_delete (scenario_delete mem_prof) prof_view prof_com scenarios (\<lambda>m. scenarios_update (\<lambda>_. m)) scm_scenario_id"
    by (rule sql_delete_live.axioms [OF prof_scenario_delete])
  show "sql_delete (media_delete mem_prof) prof_view prof_com media_assets (\<lambda>m. media_assets_update (\<lambda>_. m)) mm_asset_id"
    by (rule sql_delete_live.axioms [OF prof_media_delete])
  show "sql_txn (prof_commit mem_prof) (prof_close mem_prof) prof_view prof_com" by (rule sql_txn_live.axioms [OF prof_txn])
  show "sql_frame (prof_uuid4 mem_prof) prof_view prof_com" by (rule sql_frame_live.axioms [OF prof_uuid_frame])
  show "0 \<le> off \<and> 0 \<le> lim \<and> prof_view s' = prof_view s \<and>
      (\<exists>all. cs = take (nat lim) (drop (nat off) all) \<and> set all = {r \<in> ran (companion_profiles (prof_view s)). R (prof_view s) r} \<and>
        distinct (map cm_companion_id all))"
    if "companion_page mem_prof R off lim s = (Inr cs, s')" "table_ok cm_companion_id cm_companion_id (companion_profiles (prof_view s))"
    for R off lim s cs s' using that by (rule mem_companion_page_law)
  show "distinct (map scm_scenario_id rs)"
    if "scenario_select mem_prof lock P s = (Inr rs, s')" "table_ok scm_scenario_id scm_scenario_id (scenarios (prof_view s))"
    for lock P s rs s'
    using that mem_rows_distinct [of scm_scenario_id scm_scenario_id pt_scenarios s P]
    by (auto simp: mem_prof_def mem_select_def prof_mem_defs mem_rows_def)
  show "distinct (map mm_asset_id ms)"
    if "media_select mem_prof lock Q s = (Inr ms, s')" "table_ok mm_asset_id mm_asset_id (media_assets (prof_view s))"
    for lock Q s ms s'
    using that mem_rows_distinct [of mm_asset_id mm_asset_id pt_media s Q]
    by (auto simp: mem_prof_def mem_select_def prof_mem_defs mem_rows_def)
  show "n = card {k. \<exists>r. scenarios (prof_view s) k = Some r \<and> P r} \<and> prof_view s' = prof_view s"
    if "scenario_count mem_prof P s = (Inr n, s')" for P s n s'
    using that by (auto simp: mem_prof_def mem_rows_count prof_mem_defs)
  show "n = card {k. \<exists>r. companion_profiles (prof_view s) k = Some r \<and> R (prof_view s) r} \<and> prof_view s' = prof_view s"
    if "companion_count mem_prof R s = (Inr n, s')" for R s n s'
    using that by (auto simp: mem_prof_def mem_rows_count prof_mem_defs)
qed (auto simp: mem_prof_def mem_tick_def mem_rollback_def mem_prof_outbox_add_def mem_companion_page_def outbox_agree_def prof_mem_defs)

lemma mem_prof_live: "prof_session_live mem_prof prof_view prof_com"
  by (rule prof.prof_session_live_axioms)

lemma mem_prof_session: "prof_session mem_prof prof_view prof_com"
  by (rule prof.prof_session_axioms)

section \<open>The object store\<close>

text \<open>A bucket that holds the given objects; a presigned URL names the method and the object.\<close>

definition told_boto :: "(string \<times> int) list \<Rightarrow> 's boto_client" where
  "told_boto objects = \<lparr>boto_presign = (\<lambda>m bucket key ct e s. (Inr (m @ ''/'' @ bucket @ ''/'' @ key), s)),
     boto_head_object = (\<lambda>bucket key s. ((case map_of objects key of None \<Rightarrow> Inl (StorageErrorP ''404'') | Some n \<Rightarrow> Inr (Some n)), s))\<rparr>"

definition told_storage :: "(string \<times> int) list \<Rightarrow> 's storage" where
  "told_storage objects = S3Storage (told_boto objects) ''media'' (\<lambda>_. True)"

text \<open>The adapter keeps the tables when its client does.\<close>

lemma S3Storage_frame:
  assumes "\<And>m b k ct e. keeps view (boto_presign C m b k ct e)" "\<And>b k. keeps view (boto_head_object C b k)"
    "\<And>m b k ct e. keeps com (boto_presign C m b k ct e)" "\<And>b k. keeps com (boto_head_object C b k)"
  shows "store_frame (S3Storage C bucket brackets) view com"
  using assms by unfold_locales (auto simp: S3Storage_def S3_presigned_put_url_def S3_object_size_def S3_presigned_get_url_def
      intro!: keep_intros)

interpretation told_store: store_frame "told_storage objects" prof_view prof_com
  unfolding told_storage_def by (rule S3Storage_frame) (auto simp: told_boto_def keeps_def)

interpretation prof_told: prof_store mem_prof "told_storage objects" prof_view prof_com
  by unfold_locales

lemma told_frame_store: "prof_store mem_prof (told_storage objects) prof_view prof_com"
  by (rule prof_told.prof_store_axioms)

end
