(* ===== verification/Profile_Examples.thy ===== *)
theory Profile_Examples
  imports Profile_Memory
begin

text \<open>
  A small catalogue on the reference session: the client Alice, the companion Bob with five active scenarios
  and one that is paused, and the companion Carol with one scenario and one picture.
\<close>

definition exp_user :: "string \<Rightarrow> string \<Rightarrow> string \<Rightarrow> user_model" where
  "exp_user i name role = \<lparr>um_user_id = i, um_display_name = name, um_avatar_url = None, um_bio = Some [], um_role = role\<rparr>"

definition exp_companion :: "string \<Rightarrow> string list \<Rightarrow> companion_model" where
  "exp_companion i cities = cities_model i ''APPROVED'' cities"

definition exp_scenario :: "string \<Rightarrow> string \<Rightarrow> int \<Rightarrow> string \<Rightarrow> scenario_model" where
  "exp_scenario k c price st = \<lparr>scm_scenario_id = k, scm_companion_id = c, scm_title = ''Coffee'', scm_description = Some [],
     scm_price = price, scm_duration_minutes = 60, scm_status = st\<rparr>"

definition exp_media :: media_model where
  "exp_media = \<lparr>mm_asset_id = ''m1'', mm_companion_id = ''carol'', mm_file_url = ''https://cdn/m1.png'', mm_asset_type = ''ALBUM'',
     mm_size_bytes = 1000, mm_duration_seconds = None, mm_status = ''APPROVED''\<rparr>"

definition put_all :: "('r \<Rightarrow> string) \<Rightarrow> 'r list \<Rightarrow> (string, 'r) alist" where
  "put_all key rs = fold (\<lambda>r. DAList.update (key r) r) rs DAList.empty"

definition exp_tables :: prof_tables where
  "exp_tables = \<lparr>pt_users = put_all um_user_id [exp_user ''alice'' ''Alice'' ''CLIENT'', exp_user ''bob'' ''Bob'' ''COMPANION'',
       exp_user ''carol'' ''Carol'' ''COMPANION''],
     pt_companions = put_all cm_companion_id [exp_companion ''bob'' [''Hanoi'', ''Hue''], exp_companion ''carol'' [''Da Nang'']],
     pt_scenarios = put_all scm_scenario_id [exp_scenario ''s1'' ''bob'' 100 ''ACTIVE'', exp_scenario ''s2'' ''bob'' 200 ''ACTIVE'',
       exp_scenario ''s3'' ''bob'' 300 ''ACTIVE'', exp_scenario ''s4'' ''bob'' 400 ''ACTIVE'', exp_scenario ''s5'' ''bob'' 500 ''ACTIVE'',
       exp_scenario ''s6'' ''bob'' 600 ''PAUSED'', exp_scenario ''s7'' ''carol'' 700 ''ACTIVE''],
     pt_media = put_all mm_asset_id [exp_media], pt_outbox = []\<rparr>"

definition exp_state :: prof_mem where
  "exp_state = \<lparr>m_view = exp_tables, m_com = exp_tables, m_clock = 0\<rparr>"

lemmas exp_rows = exp_user_def exp_companion_def exp_scenario_def exp_media_def

lemma lookup_put_all: "DAList.lookup (put_all key rs) = fold (\<lambda>r m. m(key r \<mapsto> r)) rs Map.empty"
proof -
  have "DAList.lookup (fold (\<lambda>r. DAList.update (key r) r) rs t) = fold (\<lambda>r m. m(key r \<mapsto> r)) rs (DAList.lookup t)" for t
    by (induction rs arbitrary: t) (simp_all add: alist_lookup_update)
  then show ?thesis by (simp add: put_all_def alist_lookup_empty)
qed

lemma exp_com:
  "prof_com exp_state = \<lparr>user_profiles = [''alice'' \<mapsto> exp_user ''alice'' ''Alice'' ''CLIENT'', ''bob'' \<mapsto> exp_user ''bob'' ''Bob'' ''COMPANION'',
       ''carol'' \<mapsto> exp_user ''carol'' ''Carol'' ''COMPANION''],
     companion_profiles = [''bob'' \<mapsto> exp_companion ''bob'' [''Hanoi'', ''Hue''], ''carol'' \<mapsto> exp_companion ''carol'' [''Da Nang'']],
     scenarios = [''s1'' \<mapsto> exp_scenario ''s1'' ''bob'' 100 ''ACTIVE'', ''s2'' \<mapsto> exp_scenario ''s2'' ''bob'' 200 ''ACTIVE'',
       ''s3'' \<mapsto> exp_scenario ''s3'' ''bob'' 300 ''ACTIVE'', ''s4'' \<mapsto> exp_scenario ''s4'' ''bob'' 400 ''ACTIVE'',
       ''s5'' \<mapsto> exp_scenario ''s5'' ''bob'' 500 ''ACTIVE'', ''s6'' \<mapsto> exp_scenario ''s6'' ''bob'' 600 ''PAUSED'',
       ''s7'' \<mapsto> exp_scenario ''s7'' ''carol'' 700 ''ACTIVE''],
     media_assets = [''m1'' \<mapsto> exp_media], p_outbox = []\<rparr>"
  by (simp add: prof_com_def prof_abs_def exp_state_def exp_tables_def lookup_put_all exp_rows cities_model_def)

lemma exp_view: "prof_view exp_state = prof_com exp_state"
  by (simp add: prof_view_def prof_com_def exp_state_def)

lemma exp_companions_ok: "\<forall>r\<in>ran (companion_profiles (prof_com exp_state)). companion_ok r"
  by (auto simp: exp_com exp_companion_def clean_city_def py_strip_def is_space_def intro!: cities_model_ok)
    (simp_all add: companion_fits_def cities_model_def)

lemma exp_media_count: "media_count (prof_com exp_state) c ty \<le> 1"
proof -
  have "{m \<in> ran (media_assets (prof_com exp_state)). is_media_of c ty m} \<subseteq> {exp_media}" by (auto simp: exp_com)
  then have "card {m \<in> ran (media_assets (prof_com exp_state)). is_media_of c ty m} \<le> card {exp_media}" by (rule card_mono [rotated]) simp
  then show ?thesis by (simp add: media_count_def)
qed

lemma exp_ok: "prof_ok (prof_com exp_state)"
  unfolding prof_ok_def
proof (intro conjI)
  show "\<forall>r\<in>ran (companion_profiles (prof_com exp_state)). companion_ok r" by (rule exp_companions_ok)
  show "\<forall>c. media_count (prof_com exp_state) c ''ALBUM'' \<le> 4 \<and> media_count (prof_com exp_state) c ''VOICE_INTRO'' \<le> 1"
    using order_trans [OF exp_media_count, of 4] exp_media_count by simp
  show "\<forall>i. i \<in> dom (companion_profiles (prof_com exp_state)) \<longleftrightarrow>
      (\<exists>u. user_profiles (prof_com exp_state) i = Some u \<and> um_role u = ''COMPANION'')"
    by (simp add: exp_com exp_user_def)
qed (auto simp: exp_com table_ok_def user_ok_def user_fits_def scenario_ok_def scenario_fits_def media_ok_def media_fits_def int32_def
    scenario_parent_def media_parent_def clean_url_def py_strip_def is_space_def starts_with_def exp_rows cities_model_def)

lemma exp_fresh: "prof_fresh mem_prof prof_view (prof_com exp_state)"
  unfolding prof_fresh_def by (auto simp: exp_com mem_tick_def dest!: arg_cong [where f = length] split: if_splits)

lemma exp_active: "active_scenarios ''bob'' (prof_com exp_state) = {''s1'', ''s2'', ''s3'', ''s4'', ''s5''}"
  by (auto simp: active_scenarios_def exp_com is_active_of_def exp_rows split: if_splits)

lemma exp_active_carol: "active_scenarios ''carol'' (prof_com exp_state) = {''s7''}"
  by (auto simp: active_scenarios_def exp_com is_active_of_def exp_rows split: if_splits)

end
