(* ===== verification/Profile_Properties.thy ===== *)
theory Profile_Properties
  imports Profile_Examples
begin

text \<open>
  The properties of the profile service, on every session and object store that satisfy the laws, with
  closed examples on the reference session.
\<close>

section \<open>The catalogue\<close>

text \<open>
  C5: whatever requests are served over gRPC and REST and whatever messages arrive from the identity service,
  however they end, the committed catalogue stays well formed: prices are positive (INV-P01), durations are 60,
  120 or 180 minutes (INV-P02), a voice introduction is at most 30 seconds and 5 MB long (INV-P04, INV-P05) and
  a companion has at most one, an album has at most four pictures of at most 2 MB (BR-12), scenarios and media
  belong to companions, and exactly the users with the role of a companion have a companion profile.
\<close>

theorem profile_invariant:
  assumes "prof_store S T view com" "prof_reachable S T base s0 s" "prof_ok (com s0)"
  shows "prof_ok (com s)"
  using assms by (rule prof_store.reachable_ok)

theorem profile_invariant_witness:
  "prof_ok (prof_com (prof_serve mem_prof (told_storage []) [] (GDeleteScenario [] ''s7'' ''carol'') exp_state))"
proof (rule profile_invariant [OF told_frame_store])
  show "prof_reachable mem_prof (told_storage []) [] exp_state
      (prof_serve mem_prof (told_storage []) [] (GDeleteScenario [] ''s7'' ''carol'') exp_state)"
    by (intro prof_reachable.intros)
  show "prof_ok (prof_com exp_state)" by (rule exp_ok)
qed

text \<open>
  C6: a request changes no row of anyone but its actor: the user of the REST headers, the companion named in the
  RPC (or, if none is named, the user of the metadata), or the subject of the event.  The identifiers handed out by
  \<open>uuid4\<close> are assumed fresh.
\<close>

theorem profile_ownership:
  assumes "prof_store S T view com" "prof_ok (com s)" "prof_fresh S view (com s)"
  shows "others_kept (actor req) (com s) (com (prof_serve S T base req s))"
  using assms by (rule prof_store.serve_others)

theorem profile_ownership_witness:
  "others_kept ''carol'' (prof_com exp_state)
     (prof_com (prof_serve mem_prof (told_storage []) [] (HDeleteScenario (Some ''carol'', Some ''COMPANION'') ''s1'') exp_state))"
proof -
  have "others_kept (actor (HDeleteScenario (Some ''carol'', Some ''COMPANION'') ''s1'')) (prof_com exp_state)
     (prof_com (prof_serve mem_prof (told_storage []) [] (HDeleteScenario (Some ''carol'', Some ''COMPANION'') ''s1'') exp_state))"
    by (rule profile_ownership [OF told_frame_store exp_ok exp_fresh])
  then show ?thesis by simp
qed

text \<open>
  C15: every row the service has committed can be read back: on well-formed content no mapper from rows to domain
  objects raises, and the cities of a companion are those that were stored.
\<close>

theorem stored_rows_decode:
  assumes "prof_ok db"
  shows "(\<forall>r\<in>ran (user_profiles db). \<exists>u. user_to_domain r = Inr u \<and> u_user_id u = um_user_id r \<and> u_role u = um_role r) \<and>
    (\<forall>r\<in>ran (companion_profiles db). \<exists>p. companion_to_domain r = Inr p \<and> companion_to_model p = r) \<and>
    (\<forall>r\<in>ran (scenarios db). \<exists>sc. scenario_to_domain r = Inr sc \<and> 0 < money_amount (sc_price sc) \<and> sc_companion_id sc = scm_companion_id r) \<and>
    (\<forall>r\<in>ran (media_assets db). \<exists>m. media_to_domain r = Inr m \<and> media_to_model m = r)"
proof (intro conjI ballI)
  show "\<exists>u. user_to_domain r = Inr u \<and> u_user_id u = um_user_id r \<and> u_role u = um_role r" if "r \<in> ran (user_profiles db)" for r
    using user_ok_reads [OF prof_ok_rows(1) [OF assms that]] user_to_domain_Inr by blast
  show "\<exists>p. companion_to_domain r = Inr p \<and> companion_to_model p = r" if "r \<in> ran (companion_profiles db)" for r
    using prof_ok_rows(2) [OF assms that]
    by (rule companion_ok_reads) (auto simp: companion_to_model_def o_def intro!: companion_model.equality)
  show "\<exists>sc. scenario_to_domain r = Inr sc \<and> 0 < money_amount (sc_price sc) \<and> sc_companion_id sc = scm_companion_id r"
    if "r \<in> ran (scenarios db)" for r
    using prof_ok_rows(3) [OF assms that] by (auto simp: scenario_ok_def scenario_to_domain_Inr)
  show "\<exists>m. media_to_domain r = Inr m \<and> media_to_model m = r" if "r \<in> ran (media_assets db)" for r
    using prof_ok_rows(4) [OF assms that]
    by (auto simp: media_ok_def media_to_domain_def media_to_model_def MediaUrl_clean intro!: media_model.equality)
qed

theorem stored_rows_decode_witness:
  "\<exists>p. companion_to_domain (exp_companion ''bob'' [''Hanoi'', ''Hue'']) = Inr p \<and>
     companion_to_model p = exp_companion ''bob'' [''Hanoi'', ''Hue'']"
proof -
  have "exp_companion ''bob'' [''Hanoi'', ''Hue''] \<in> ran (companion_profiles (prof_com exp_state))"
    by (rule ranI [where a = "''bob''"]) (simp add: exp_com)
  then show ?thesis using stored_rows_decode [OF exp_ok] by blast
qed

section \<open>Scenarios\<close>

text \<open>
  C12: a companion with fewer than five active scenarios who asks for a scenario with a positive price and an allowed
  duration gets it when the database is up: the committed catalogue gains exactly that scenario, active, and one
  event that announces it.
\<close>

theorem scenario_created:
  assumes "prof_session_live S view com" "prof_ok (com s)" "companion_of_request md c = i"
    "i \<in> dom (companion_profiles (com s))" "card (active_scenarios i (com s)) < 5"
    "0 < price" "price < 2 ^ 31" "dur \<in> {60, 120, 180}" "length title \<le> 200"
  shows "\<exists>x s' ob. CreateScenario S md c title descr price dur s =
      (Inr (Reply \<lparr>reply_id = x, reply_status = ''SUCCESS'', reply_message = ''Scenario created successfully''\<rparr>), s') \<and>
    com s' = (com s)\<lparr>scenarios := (scenarios (com s))(x \<mapsto> \<lparr>scm_scenario_id = x, scm_companion_id = i, scm_title = title,
      scm_description = Some descr, scm_price = price, scm_duration_minutes = dur, scm_status = ''ACTIVE''\<rparr>),
      p_outbox := p_outbox (com s) @ [ob]\<rparr> \<and> ob_event_type ob = ''profile.scenario-created.v1'' \<and> \<not> ob_processed ob"
  using assms by (rule prof_session_live.CreateScenario_returns)

theorem scenario_created_witness:
  "\<exists>x s' ob. CreateScenario mem_prof [(''user-id'', ''carol'')] [] ''Dinner'' ''by the river'' 900 120 exp_state =
      (Inr (Reply \<lparr>reply_id = x, reply_status = ''SUCCESS'', reply_message = ''Scenario created successfully''\<rparr>), s') \<and>
    prof_com s' = (prof_com exp_state)\<lparr>scenarios := (scenarios (prof_com exp_state))(x \<mapsto> \<lparr>scm_scenario_id = x, scm_companion_id = ''carol'',
      scm_title = ''Dinner'', scm_description = Some ''by the river'', scm_price = 900, scm_duration_minutes = 120, scm_status = ''ACTIVE''\<rparr>),
      p_outbox := p_outbox (prof_com exp_state) @ [ob]\<rparr> \<and> ob_event_type ob = ''profile.scenario-created.v1'' \<and> \<not> ob_processed ob"
proof (rule scenario_created [OF mem_prof_live exp_ok])
  show "companion_of_request [(''user-id'', ''carol'')] [] = ''carol''"
    by (simp add: companion_of_request_def py_or_def metadata_get_def)
  show "''carol'' \<in> dom (companion_profiles (prof_com exp_state))" by (simp add: exp_com)
  show "card (active_scenarios ''carol'' (prof_com exp_state)) < 5" by (simp add: exp_active_carol)
qed simp_all

text \<open>
  A companion who has five active scenarios gets no other: the call fails with the error of INV-P03 and nothing
  is committed, whatever the scenario is.
\<close>

theorem scenario_limit:
  assumes "prof_session_live S view com" "prof_ok (com s)" "companion_of_request md c = i"
    "i \<in> dom (companion_profiles (com s))" "5 \<le> card (active_scenarios i (com s))"
  shows "\<exists>s'. CreateScenario S md c title descr price dur s =
      (Inr (Failure INVALID_ARGUMENT (pexn_str (ScenarioLimitExceededError i 5))), s') \<and> com s' = com s"
  using assms by (rule prof_session_live.CreateScenario_at_limit)

theorem scenario_limit_witness:
  "\<exists>s'. CreateScenario mem_prof [] ''bob'' ''Dinner'' [] 900 120 exp_state =
      (Inr (Failure INVALID_ARGUMENT (pexn_str (ScenarioLimitExceededError ''bob'' 5))), s') \<and> prof_com s' = prof_com exp_state"
proof (rule scenario_limit [OF mem_prof_live exp_ok])
  show "companion_of_request [] ''bob'' = ''bob''" by (simp add: companion_of_request_def py_or_def)
  show "''bob'' \<in> dom (companion_profiles (prof_com exp_state))" by (simp add: exp_com)
  show "5 \<le> card (active_scenarios ''bob'' (prof_com exp_state))" by (simp add: exp_active)
qed

text \<open>
  C13: the limit of INV-P03 holds only for new scenarios: an update that makes a paused scenario active is accepted
  however many are active already, so a companion can have more than five.
\<close>

theorem scenario_limit_bypassed:
  assumes "prof_session_live S view com" "prof_ok (com s)" "companion_of_request md c = i"
    "scenarios (com s) k = Some r" "scm_companion_id r = i" "scm_status r \<noteq> ''ACTIVE''"
    "0 < price" "price < 2 ^ 31" "dur \<in> {60, 120, 180}" "length title \<le> 200"
  shows "\<exists>s'. UpdateScenario S md k c title descr price dur ''ACTIVE'' s =
      (Inr (Reply \<lparr>reply_id = k, reply_status = ''SUCCESS'', reply_message = ''Scenario updated successfully''\<rparr>), s') \<and>
    card (active_scenarios i (com s')) = Suc (card (active_scenarios i (com s)))"
proof -
  obtain s' ob where s': "UpdateScenario S md k c title descr price dur ''ACTIVE'' s =
      (Inr (Reply \<lparr>reply_id = k, reply_status = ''SUCCESS'', reply_message = ''Scenario updated successfully''\<rparr>), s')"
    "com s' = (com s)\<lparr>scenarios := (scenarios (com s))(k \<mapsto> \<lparr>scm_scenario_id = k, scm_companion_id = i, scm_title = title,
      scm_description = Some descr, scm_price = price, scm_duration_minutes = dur, scm_status = ''ACTIVE''\<rparr>),
      p_outbox := p_outbox (com s) @ [ob]\<rparr>"
    using prof_session_live.UpdateScenario_returns [OF assms(1-5,7-10), of "''ACTIVE''" descr] by auto
  have "card (active_scenarios i (com s')) = Suc (card (active_scenarios i (com s)))"
    unfolding s'(2) using assms(2,4-6) by (rule reactivated_count) simp_all
  with s'(1) show ?thesis by blast
qed

theorem scenario_limit_bypassed_witness:
  "\<exists>s'. UpdateScenario mem_prof [] ''s6'' ''bob'' ''Coffee'' [] 600 60 ''ACTIVE'' exp_state =
      (Inr (Reply \<lparr>reply_id = ''s6'', reply_status = ''SUCCESS'', reply_message = ''Scenario updated successfully''\<rparr>), s') \<and>
    card (active_scenarios ''bob'' (prof_com s')) = 6"
proof -
  have "\<exists>s'. UpdateScenario mem_prof [] ''s6'' ''bob'' ''Coffee'' [] 600 60 ''ACTIVE'' exp_state =
      (Inr (Reply \<lparr>reply_id = ''s6'', reply_status = ''SUCCESS'', reply_message = ''Scenario updated successfully''\<rparr>), s') \<and>
    card (active_scenarios ''bob'' (prof_com s')) = Suc (card (active_scenarios ''bob'' (prof_com exp_state)))"
  proof (rule scenario_limit_bypassed [OF mem_prof_live exp_ok])
    show "companion_of_request [] ''bob'' = ''bob''" by (simp add: companion_of_request_def py_or_def)
    show "scenarios (prof_com exp_state) ''s6'' = Some (exp_scenario ''s6'' ''bob'' 600 ''PAUSED'')" by (simp add: exp_com)
  qed (simp_all add: exp_scenario_def)
  then show ?thesis by (simp add: exp_active eval_nat_numeral)
qed

section \<open>Registration\<close>

text \<open>
  C14: the event of a newly registered user is taken once: if the user has no profile the committed catalogue gains the
  profile with the data of the event, the companion profile of a companion, and one event; any redelivery, in any state
  in which the profile exists, commits nothing.
\<close>

theorem registration_once:
  assumes "prof_session_live S view com" "i \<noteq> []" "name \<noteq> []" "role \<noteq> []"
    "prof_ok (com s)" "user_profiles (com s) i = None" "length i \<le> 36" "length name \<le> 100" "length role \<le> 20"
  shows "(\<exists>s' ob. handle_profile_identity_event S (registered_event i name role) s = (Inr (), s') \<and>
      com s' = (com s)\<lparr>user_profiles := (user_profiles (com s))(i \<mapsto> \<lparr>um_user_id = i, um_display_name = name, um_avatar_url = None,
          um_bio = Some [], um_role = role\<rparr>),
        companion_profiles := (if role = ''COMPANION'' then (companion_profiles (com s))(i \<mapsto> cities_model i ''APPROVED'' [])
          else companion_profiles (com s)), p_outbox := p_outbox (com s) @ [ob]\<rparr> \<and>
      ob_event_type ob = ''profile.profile-created.v1'' \<and> \<not> ob_processed ob) \<and>
    (\<forall>t. prof_ok (com t) \<longrightarrow> user_profiles (com t) i \<noteq> None \<longrightarrow>
      com (snd (handle_profile_identity_event S (registered_event i name role) t)) = com t)"
  using prof_session_live.registration_stored [OF assms] prof_session_live.axioms(1) [OF assms(1)]
    prof_session.registration_repeated [of S view com i name role] assms(2-4) by blast

theorem registration_once_witness:
  "\<exists>s'. handle_profile_identity_event mem_prof (registered_event ''dave'' ''Dave'' ''CLIENT'') exp_state = (Inr (), s') \<and>
     user_profiles (prof_com s') ''dave'' = Some \<lparr>um_user_id = ''dave'', um_display_name = ''Dave'', um_avatar_url = None,
       um_bio = Some [], um_role = ''CLIENT''\<rparr>"
proof -
  have "user_profiles (prof_com exp_state) ''dave'' = None" by (simp add: exp_com)
  from registration_once [OF mem_prof_live _ _ _ exp_ok this, of "''Dave''" "''CLIENT''"] show ?thesis by auto
qed

section \<open>Search\<close>

text \<open>
  C11: the catalogue search agrees with a reference that compares names, cities and prices directly.  For a query
  without the special characters of \<open>LIKE\<close> (and stored cities without them), a valid request is answered with the
  number of wanted companions and one page of a list of exactly those, each once; every card has the display name
  of its companion and the smallest price of its active scenarios, or 0.
\<close>

theorem search_agrees:
  assumes "prof_session_live S view com" "prof_ok (com s)" "1 \<le> page" "1 \<le> page_size" "page_size \<le> 50"
    "plain_query name city (com s)"
  shows "\<exists>res all s'. search_companions_route S name city lo hi page page_size s = (Inr res, s') \<and> com s' = com s \<and>
    sr_total res = card {i. wanted name city lo hi (com s) i} \<and>
    distinct all \<and> set all = {i. wanted name city lo hi (com s) i} \<and>
    map card_companionId (sr_data res) = take (nat page_size) (drop (nat ((page - 1) * page_size)) all) \<and>
    (\<forall>card\<in>set (sr_data res). card_startingPrice card = starting_price (com s) (card_companionId card) \<and>
      (\<exists>u. user_profiles (com s) (card_companionId card) = Some u \<and> card_displayName card = um_display_name u))"
  using assms by (rule prof_session_live.search_route_returns)

theorem search_agrees_witness:
  "\<exists>res all s'. search_companions_route mem_prof None (Some ''Hue'') None (Some 150) 1 10 exp_state = (Inr res, s') \<and>
    sr_total res = card {i. wanted None (Some ''Hue'') None (Some 150) (prof_com exp_state) i} \<and>
    distinct all \<and> set all = {i. wanted None (Some ''Hue'') None (Some 150) (prof_com exp_state) i} \<and>
    map card_companionId (sr_data res) = take 10 all"
proof -
  have "plain_query None (Some ''Hue'') (prof_com exp_state)"
    by (auto simp: plain_query_def given_def exp_com exp_companion_def cities_of_def cities_model_def json_strings_roundtrip
        simple_name_def plain_char_def)
  from search_agrees [OF mem_prof_live exp_ok _ _ _ this, of 1 10 None "Some 150"] show ?thesis by fastforce
qed

section \<open>Media\<close>

text \<open>
  The comparison of the declared size with the stored object never refuses anything: whatever the store answers, the
  check returns, because its own error is caught with the others.
\<close>

lemma try_returns: "(\<And>e t. \<exists>t'. h e t = (Inr (), t')) \<Longrightarrow> \<exists>s'. tryE m h s = (Inr (), s')"
  by (cases "m s"; cases "fst (m s)") (auto simp: tryE_def)

lemma size_check_never_refuses: "\<exists>s'. double_check_s3_metadata T file_url declared s = (Inr (), s')"
  unfolding double_check_s3_metadata_def by (rule try_returns) (simp add: ret_run)

end
