(* ===== verification/Registration.thy ===== *)
theory Registration
  imports Profile_Examples Finance_Failures Finance_Examples
begin

text \<open>
  The identity service publishes one event for a new user; the finance and the profile service read it in
  consumer groups of their own.  The listeners of both services, from the connection to the broker to the end
  of the loop, leave the user with an empty wallet and a profile.
\<close>

section \<open>The wallet\<close>

definition has_wallet :: "string \<Rightarrow> fin_db \<Rightarrow> bool" where
  "has_wallet u db \<longleftrightarrow> (\<exists>k r. wallets db k = Some r \<and> wm_user_id r = u)"

lemma registered_event_onboards:
  "i \<noteq> [] \<Longrightarrow> handle_identity_event S (registered_event i name role) =
     tryE (bindE (open_session S) (\<lambda>_. bindE (create_wallet_onboard S i) (\<lambda>_. commit S))) (\<lambda>e. ret ())"
  by (simp add: handle_identity_event_def registered_event_def json_get_def)

context fin_session_live
begin

lemma onboarded:
  assumes "i \<noteq> []" "length i \<le> 36" "db_ok (com s)" "fresh_ids S view (com s)"
  obtains s' where "handle_identity_event S (registered_event i name role) s = (Inr (), s')" "db_ok (com s')"
    "has_wallet i (com s')" "ledger_of (com s') = ledger_of (com s)"
proof -
  obtain s1 where 1: "open_session S s = (Inr (), s1)" "view s1 = com s" "com s1 = com s"
    by (rule open_runs)
  obtain w s2 where 2: "get_or_create_wallet S i False s1 = (Inr w, s2)"
    using get_or_create_wallet_returns [of s1 i False] 1 assms by auto
  from 2 assms(3,4) 1 obtain r where r: "wallets (view s2) (w_wallet_id w) = Some r" "wm_user_id r = i"
      "ledger_of (view s2) = ledger_of (com s)" "db_ok (view s2)"
    by (metis get_or_create_wallet_ledger)
  obtain s3 where 3: "commit S s2 = (Inr (), s3)" "com s3 = view s2" by (rule tx.commit_publishes)
  have "handle_identity_event S (registered_event i name role) s = (Inr (), s3)"
    using 1 2 3 by (simp add: registered_event_onboards [OF assms(1)] create_wallet_onboard_eq bindE_def tryE_def ret_def)
  then show thesis using r 3 by (intro that [of s3]) (auto simp: has_wallet_def)
qed

end

section \<open>The wallet and the profile\<close>

text \<open>
  C7: a user registers, and both services are up, connected to the broker within their five attempts: the
  two listeners take the event, and whatever ends their loops afterwards, the user has a wallet, the coins
  of the ledger are where they were, and the catalogue has the profile of the event.
\<close>

theorem registration_onboards:
  assumes "fin_session_live F fview fcom" "prof_session_live P pview pcom"
    "connects K k" "deliveries K = Message (registered_event i name role) # ds" "loop_end ds = Some r"
    "connects K' k'" "deliveries K' = Message (registered_event i name role) # ds'" "loop_end ds' = Some r'"
    "i \<noteq> []" "name \<noteq> []" "role \<noteq> []" "length i \<le> 36" "length name \<le> 100" "length role \<le> 20"
    "db_ok (fcom f)" "fresh_ids F fview (fcom f)" "prof_ok (pcom p)" "user_profiles (pcom p) i = None"
  shows "\<exists>f' p' c c'. run_identity_event_listener K F (f, new_client) = (r, (f', c)) \<and>
    identity_listener_run K' P (p, new_client) = (r', (p', c')) \<and> \<not> cl_open c \<and> \<not> cl_open c' \<and>
    db_ok (fcom f') \<and> has_wallet i (fcom f') \<and> ledger_of (fcom f') = ledger_of (fcom f) \<and>
    user_profiles (pcom p') i = Some \<lparr>um_user_id = i, um_display_name = name, um_avatar_url = None,
      um_bio = Some [], um_role = role\<rparr>"
proof -
  let ?ev = "registered_event i name role"
  from assms(1,9,12,15,16) obtain f' where f: "handle_identity_event F ?ev f = (Inr (), f')" "db_ok (fcom f')"
      "has_wallet i (fcom f')" "ledger_of (fcom f') = ledger_of (fcom f)"
    by (rule fin_session_live.onboarded)
  have run: "run_identity_event_listener K F (f, new_client) =
      (r, (f', \<lparr>cl_attempts = k + 1, cl_sleeps = k, cl_open = False, cl_taken = 1\<rparr>))"
    using idl.listener_run [where S = F and s = f and ms = "[?ev]", OF assms(3) _ assms(5)] assms(4) f(1)
    by (simp add: run_identity_event_listener_def handled_def)
  obtain p' where p: "handle_profile_identity_event P ?ev p = (Inr (), p')"
      "user_profiles (pcom p') i = Some \<lparr>um_user_id = i, um_display_name = name, um_avatar_url = None,
        um_bio = Some [], um_role = role\<rparr>"
    using prof_session_live.registration_stored [OF assms(2,9-11,17,18,12-14)] by auto
  have "identity_listener_run K' P (p, new_client) =
      (r', (p', \<lparr>cl_attempts = k' + 1, cl_sleeps = k', cl_open = False, cl_taken = 1\<rparr>))"
    using prl.listener_run [where S = P and s = p and ms = "[?ev]", OF assms(6) _ assms(8)] assms(7) p(1)
    by (simp add: identity_listener_run_def handled_def)
  with run f(2-4) p(2) show ?thesis by auto
qed

text \<open>A broker that answers at the third attempt, and one that answers at once.\<close>

definition ex_kafka :: "nat \<Rightarrow> 'e \<Rightarrow> ('e, 'm) delivery list \<Rightarrow> ('e, 'm) kafka" where
  "ex_kafka i e ds = \<lparr>start_raises = (\<lambda>j. if j < i then Some (Exc e) else None), sleep_cancelled = (\<lambda>_. False),
     deliveries = ds, stop_raises = None\<rparr>"

lemma ex_kafka_connects: "i < 5 \<Longrightarrow> connects (ex_kafka i e ds) i"
  by (simp add: connects_def ex_kafka_def)

theorem registration_onboards_witness:
  "\<exists>f' p' c c'. run_identity_event_listener
      (ex_kafka 2 (PyValueError ''down'') [Message (registered_event ''dave'' ''Dave'' ''CLIENT''), Interrupt]) mem_fin
      (ex_state, new_client) = (Inr (), (f', c)) \<and>
    identity_listener_run (ex_kafka 0 (PyErrorP ''down'') [Message (registered_event ''dave'' ''Dave'' ''CLIENT'')]) mem_prof
      (exp_state, new_client) = (Inr (), (p', c')) \<and> \<not> cl_open c \<and> \<not> cl_open c' \<and>
    db_ok (fin_com f') \<and> has_wallet ''dave'' (fin_com f') \<and> ledger_of (fin_com f') = ledger_of (fin_com ex_state) \<and>
    user_profiles (prof_com p') ''dave'' = Some \<lparr>um_user_id = ''dave'', um_display_name = ''Dave'', um_avatar_url = None,
      um_bio = Some [], um_role = ''CLIENT''\<rparr>"
proof -
  have "user_profiles (prof_com exp_state) ''dave'' = None" by (simp add: exp_com)
  with ex_db_ok ex_fresh exp_ok show ?thesis
    by (intro registration_onboards [OF mem_fin_live mem_prof_live, where k = 2 and k' = 0 and ds = "[Interrupt]" and ds' = "[]"])
      (simp_all add: ex_kafka_connects, simp_all add: ex_kafka_def)
qed

end
