(* ===== verification/Service_Properties.thy ===== *)
theory Service_Properties
  imports Service_Process Service_Settings Registration Dispute_Commands
begin

text \<open>
  The listeners and the life cycle of the processes: what a listener does with the messages of its topic, and
  which parts of a process are stopped when its \<open>main()\<close> ends.
\<close>

section \<open>Listeners\<close>

text \<open>
  C8: a booking listener that gets its connection within five attempts handles every message once and in
  the order of delivery, whatever happens while one of them is handled: each message is one request of the
  service, a message whose handling fails does not keep the later ones from being handled, the consumer is
  closed, and an exception is let through only if the consumer itself raised it.
\<close>

theorem booking_listener_run:
  assumes "connects K i" "deliveries K = map Message ms @ ds" "loop_end ds = Some r"
  shows "run_booking_event_listener K S (s, new_client) =
    (r, (fold (\<lambda>m. serve S A (ReqBookingEvent m)) ms s,
      \<lparr>cl_attempts = i + 1, cl_sleeps = i, cl_open = False, cl_taken = length ms\<rparr>))"
proof -
  have "(\<lambda>m t. snd (handle_booking_event S m t)) = (\<lambda>m. serve S A (ReqBookingEvent m))" by (simp add: fun_eq_iff)
  then show ?thesis
    using bkl.listener_run [OF assms, of S s] by (simp add: run_booking_event_listener_def handled_def)
qed

theorem booking_listener_run_witness:
  "run_booking_event_listener
     (ex_kafka 4 (PyValueError ''down'') [Message JNull, Message (JObj []), Undelivered (PyValueError ''not JSON''), Message JNull])
     mem_fin (ex_state, new_client) =
   (Inl (Exc (PyValueError ''not JSON'')),
     (fold (\<lambda>m. serve mem_fin ex_adapter (ReqBookingEvent m)) [JNull, JObj []] ex_state,
      \<lparr>cl_attempts = 5, cl_sleeps = 4, cl_open = False, cl_taken = 2\<rparr>))"
  using booking_listener_run [OF ex_kafka_connects [of 4 "PyValueError ''down''"
      "[Message JNull, Message (JObj []), Undelivered (PyValueError ''not JSON''), Message JNull]"],
      of "[JNull, JObj []]" "[Undelivered (PyValueError ''not JSON''), Message JNull]" _ mem_fin ex_state ex_adapter]
  by (simp add: ex_kafka_def)

text \<open>
  C39: a listener makes at most five attempts to reach the broker, with at most one sleep for each; when all of
  them fail it ends with no message taken and the world as it was, so that events of the topic are not handled
  before the service is started again.
\<close>

theorem listener_attempts:
  "\<exists>r s' c. run_identity_event_listener K S (s, new_client) = (r, (s', c)) \<and> cl_attempts c \<le> 5 \<and> cl_sleeps c \<le> 5 \<and>
    ((\<forall>j<5. start_raises K j \<noteq> None) \<longrightarrow> s' = s \<and> cl_taken c = 0 \<and> \<not> cl_open c)"
proof -
  obtain r s' c where run: "run_identity_event_listener K S (s, new_client) = (r, (s', c))"
    by (cases "run_identity_event_listener K S (s, new_client)") auto
  with listener_attempts_bound [OF run [unfolded run_identity_event_listener_def]] show ?thesis by blast
qed

theorem listener_attempts_witness:
  "\<exists>r s' c. run_identity_event_listener (ex_kafka 5 (PyValueError ''down'') [Message JNull]) mem_fin (ex_state, new_client) =
      (r, (s', c)) \<and> cl_attempts c \<le> 5 \<and> s' = ex_state \<and> cl_taken c = 0"
proof -
  have "\<forall>j<5. start_raises (ex_kafka 5 (PyValueError ''down'') [Message JNull]) j \<noteq> None" by (simp add: ex_kafka_def)
  then show ?thesis using listener_attempts [of "ex_kafka 5 (PyValueError ''down'') [Message JNull]" mem_fin ex_state] by blast
qed

section \<open>Coming down\<close>

lemma loops_end_quietly:
  "ends_quietly (fst (outbox_poll_loop W mk b n w s))" "ends_quietly (fst (cleanup_poll_loop V clock age n v t))"
  "ends_quietly (fst (saga_poll_loop S P n w u))"
  by (simp_all add: outbox_poll_loop_def cleanup_poll_loop_def saga_poll_loop_def poll_loop_run ends_quietly_def)

lemma listeners_end_quietly:
  assumes "\<And>e. Undelivered e \<notin> set (deliveries K)" "stop_raises K = None"
  shows "ends_quietly (fst (run_identity_event_listener K S p))" "ends_quietly (fst (run_booking_event_listener K S p))"
  using listener_result [of "handle_identity_event S" K p] listener_result [of "handle_booking_event S" K p]
    idl.handle_returns [of S] bkl.handle_returns [of S] assms
  by (auto simp: run_identity_event_listener_def run_booking_event_listener_def ends_quietly_def)

text \<open>
  C10: when the finance service is told to stop and its consumers deliver messages only, \<open>main\<close> returns with
  everything it started ended: both listener tasks, the outbox worker with its producer (whether or not it could
  be started), the cleanup worker and both servers.
\<close>

theorem finance_shutdown:
  assumes "fe_init E \<noteq> Some CancelledError" "producer_start_raises (fe_outbox E) \<noteq> Some CancelledError"
    "fe_wait E = None" "fe_grpc_stop E = None" "producer_stop_raises (fe_outbox E) = None"
    "cancelled_end (fe_outbox E) = fst (outbox_poll_loop W mk b n w s)"
    "cancelled_end (fe_cleanup E) = fst (cleanup_poll_loop V clock age n' w' s')"
    "fe_identity E = fst (run_identity_event_listener K S q)" "fe_booking E = fst (run_booking_event_listener K' S q')"
    "stop_raises K = None" "stop_raises K' = None" "\<forall>e. Undelivered e \<notin> set (deliveries K) \<and> Undelivered e \<notin> set (deliveries K')"
  shows "\<exists>p. finance_main E finance_idle = (Inr (), p) \<and> stopped (fp_outbox p) \<and> stopped (fp_cleanup p) \<and>
    fp_identity p = Some (Ended (fe_identity E)) \<and> fp_booking p = Some (Ended (fe_booking E)) \<and>
    fp_grpc p = Closed \<and> fp_http p \<in> {Closed, TaskCancelled}"
proof -
  have "ends_quietly (fe_identity E)" "ends_quietly (fe_booking E)"
    using listeners_end_quietly(1) [of K S q] listeners_end_quietly(2) [of K' S q'] assms(8-12) by auto
  moreover have "ends_quietly (cancelled_end (fe_outbox E))" "ends_quietly (cancelled_end (fe_cleanup E))"
    unfolding assms(6,7) by (rule loops_end_quietly)+
  ultimately obtain p where "finance_main E finance_idle = (Inr (), p)" "stopped (fp_outbox p)" "stopped (fp_cleanup p)"
    "fp_identity p = Some (Ended (fe_identity E))" "fp_booking p = Some (Ended (fe_booking E))"
    "fp_grpc p = Closed" "fp_http p \<in> {Closed, TaskCancelled}"
    using finance_comes_down [OF assms(1-5)] by metis
  then show ?thesis by blast
qed

definition ex_worker_env :: "'e raised option \<Rightarrow> 'e worker_env" where
  "ex_worker_env r = \<lparr>producer_start_raises = r, producer_stop_raises = None, cancelled_end = Inl CancelledError\<rparr>"

definition ex_fin_env :: "exn raised + unit \<Rightarrow> exn finance_env" where
  "ex_fin_env r = \<lparr>fe_init = None, fe_outbox = ex_worker_env None,
     fe_cleanup = \<lparr>producer_start_raises = None, producer_stop_raises = None, cancelled_end = Inr ()\<rparr>, fe_wait = None,
     fe_grpc_stop = None, fe_in_time = True, fe_identity = r, fe_booking = Inr ()\<rparr>"

lemma ex_listener_ends:
  "run_identity_event_listener (ex_kafka 0 e [Interrupt]) S (s, new_client) =
     (Inr (), (s, \<lparr>cl_attempts = 1, cl_sleeps = 0, cl_open = False, cl_taken = 0\<rparr>))"
  "run_booking_event_listener (ex_kafka 0 e [Interrupt]) S (s, new_client) =
     (Inr (), (s, \<lparr>cl_attempts = 1, cl_sleeps = 0, cl_open = False, cl_taken = 0\<rparr>))"
  using idl.listener_run [OF ex_kafka_connects [of 0 e "[Interrupt]"], of "[]" "[Interrupt]" _ S s]
    bkl.listener_run [OF ex_kafka_connects [of 0 e "[Interrupt]"], of "[]" "[Interrupt]" _ S s]
  by (simp_all add: ex_kafka_def handled_def run_identity_event_listener_def run_booking_event_listener_def)

theorem finance_shutdown_witness:
  "\<exists>p. finance_main (ex_fin_env (Inr ())) finance_idle = (Inr (), p) \<and> stopped (fp_outbox p) \<and> stopped (fp_cleanup p)"
proof -
  let ?E = "ex_fin_env (Inr ())" and ?K = "ex_kafka 0 (PyValueError ''down'') [Interrupt] :: (exn, json) kafka"
  have "\<exists>p. finance_main ?E finance_idle = (Inr (), p) \<and> stopped (fp_outbox p) \<and> stopped (fp_cleanup p) \<and>
    fp_identity p = Some (Ended (fe_identity ?E)) \<and> fp_booking p = Some (Ended (fe_booking ?E)) \<and>
    fp_grpc p = Closed \<and> fp_http p \<in> {Closed, TaskCancelled}"
    by (rule finance_shutdown [where W = mem_ob and mk = "finance_event ex_codec" and b = 1 and n = 0 and w = SleepCancelled
          and s = ex_ob and V = mem_ob and clock = "ret 0" and age = 0 and n' = 0 and w' = SleepCancelled and s' = ex_ob
          and K = ?K and K' = ?K and S = mem_fin and q = "(ex_state, new_client)" and q' = "(ex_state, new_client)"])
      (simp_all add: ex_listener_ends ex_fin_env_def ex_worker_env_def outbox_poll_loop_def cleanup_poll_loop_def poll_loop_run,
        simp_all add: ex_kafka_def)
  then show ?thesis by blast
qed

text \<open>
  C9: one message that the deserializer of the consumer refuses ends the identity listener for good, and later the
  shutdown of the whole service: \<open>main\<close> raises the error where it awaits the listener task, and the outbox worker with
  its producer, the cleanup worker and the booking listener are left running.
\<close>

theorem undeliverable_stops_shutdown:
  assumes "connects K i" "deliveries K = map Message ms @ Undelivered e # ds"
    "fe_identity E = fst (run_identity_event_listener K S (s, new_client))"
    "fe_init E \<noteq> Some CancelledError" "producer_start_raises (fe_outbox E) = None" "fe_wait E = None" "fe_grpc_stop E = None"
  shows "\<exists>c p. run_identity_event_listener K S (s, new_client) =
      (Inl (Exc e), (fold (\<lambda>m t. snd (handle_identity_event S m t)) ms s, c)) \<and> cl_taken c = length ms \<and>
    finance_main E finance_idle = (Inl (Exc e), p) \<and>
    wk_running (fp_outbox p) \<and> wk_task (fp_outbox p) = Some Active \<and> wk_producer (fp_outbox p) = Some True \<and>
    wk_running (fp_cleanup p) \<and> fp_booking p = Some Active"
proof -
  have run: "run_identity_event_listener K S (s, new_client) = (Inl (Exc e), (handled (handle_identity_event S) ms s,
      \<lparr>cl_attempts = i + 1, cl_sleeps = i, cl_open = False, cl_taken = length ms\<rparr>))"
    unfolding run_identity_event_listener_def by (rule idl.listener_run [OF assms(1,2)]) simp
  then have "fe_identity E = Inl (Exc e)" using assms(3) by simp
  then obtain p where "finance_main E finance_idle = (Inl (Exc e), p)" "wk_running (fp_outbox p)" "wk_task (fp_outbox p) = Some Active"
    "wk_producer (fp_outbox p) = Some True" "wk_running (fp_cleanup p)" "fp_booking p = Some Active"
    using finance_stuck [OF assms(4-7)] by metis
  with run show ?thesis by (simp add: handled_def)
qed

theorem undeliverable_stops_shutdown_witness:
  "\<exists>p. finance_main (ex_fin_env (Inl (Exc (PyValueError ''not JSON'')))) finance_idle = (Inl (Exc (PyValueError ''not JSON'')), p) \<and>
    wk_running (fp_outbox p) \<and> wk_running (fp_cleanup p)"
proof -
  let ?e = "PyValueError ''not JSON''"
  let ?K = "ex_kafka 0 ?e [Undelivered ?e] :: (exn, json) kafka" and ?E = "ex_fin_env (Inl (Exc ?e))"
  have run: "fst (run_identity_event_listener ?K mem_fin (ex_state, new_client)) = Inl (Exc ?e)"
    using idl.listener_run [OF ex_kafka_connects [of 0 ?e "[Undelivered ?e]"], of "[]" "[Undelivered ?e]" _ mem_fin ex_state]
    by (simp add: ex_kafka_def run_identity_event_listener_def)
  have "\<exists>c p. run_identity_event_listener ?K mem_fin (ex_state, new_client) =
      (Inl (Exc ?e), (fold (\<lambda>m t. snd (handle_identity_event mem_fin m t)) [] ex_state, c)) \<and> cl_taken c = length ([] :: json list) \<and>
    finance_main ?E finance_idle = (Inl (Exc ?e), p) \<and>
    wk_running (fp_outbox p) \<and> wk_task (fp_outbox p) = Some Active \<and> wk_producer (fp_outbox p) = Some True \<and>
    wk_running (fp_cleanup p) \<and> fp_booking p = Some Active"
    by (rule undeliverable_stops_shutdown [where i = 0 and ds = "[]"])
      (simp_all add: run ex_kafka_connects, simp_all add: ex_kafka_def ex_fin_env_def ex_worker_env_def)
  then show ?thesis by blast
qed

text \<open>
  The dispute service stops its three workers whatever its servers did, and then raises what they raised.
\<close>

theorem dispute_shutdown:
  assumes "de_init E \<noteq> Some CancelledError" "producer_start_raises (de_outbox E) \<noteq> Some CancelledError"
    "producer_stop_raises (de_outbox E) = None"
    "cancelled_end (de_outbox E) = fst (outbox_poll_loop W mk b n w s)"
    "cancelled_end (de_saga E) = fst (saga_poll_loop S P n1 w1 s1)"
    "cancelled_end (de_cleanup E) = fst (cleanup_poll_loop V clock age n2 w2 s2)"
  shows "\<exists>p. dispute_main E dispute_idle = (case servers_raise E of Some x \<Rightarrow> Inl x | None \<Rightarrow> Inr (), p) \<and>
    stopped (dp_outbox p) \<and> stopped (dp_saga p) \<and> stopped (dp_cleanup p)"
proof -
  have "ends_quietly (cancelled_end (de_outbox E))" "ends_quietly (cancelled_end (de_saga E))" "ends_quietly (cancelled_end (de_cleanup E))"
    unfolding assms(4-6) by (rule loops_end_quietly)+
  from dispute_comes_down [OF assms(1-3) this] show ?thesis by metis
qed

text \<open>
  The profile service stops every part under a guard of its own: an error of the HTTP server, of the producer or
  of the listener keeps none of the others running.
\<close>

theorem profile_shutdown:
  assumes "pe_init E \<noteq> Some CancelledError" "producer_start_raises (pe_outbox E) \<noteq> Some CancelledError"
    "pe_grpc_start E = None" "\<forall>e. pe_wait E \<noteq> Some (Exc e)" "pe_http_end E \<noteq> Some CancelledError" "pe_grpc_stop E = None"
    "pe_grpc_end E \<noteq> Some CancelledError" "producer_stop_raises (pe_outbox E) \<noteq> Some CancelledError"
    "cancelled_end (pe_outbox E) = fst (outbox_poll_loop W mk b n w s)"
    "cancelled_end (pe_cleanup E) = fst (cleanup_poll_loop V clock age n' w' s')"
    "pe_listener E = fst (identity_listener_run K S q)"
  shows "\<exists>p. profile_main E profile_idle = (Inr (), p) \<and> \<not> wk_running (pp_outbox p) \<and> wk_task (pp_outbox p) \<noteq> Some Active \<and>
    stopped (pp_cleanup p) \<and> pp_listener p \<noteq> Some Active"
proof -
  have "ends_quietly (cancelled_end (pe_outbox E))" "ends_quietly (cancelled_end (pe_cleanup E))"
    unfolding assms(9,10) by (rule loops_end_quietly)+
  with assms(1-8) obtain p where "profile_main E profile_idle = (Inr (), p)" "\<not> wk_running (pp_outbox p)"
    "wk_task (pp_outbox p) \<noteq> Some Active" "stopped (pp_cleanup p)" "pp_listener p \<noteq> Some Active"
    using profile_comes_down [of E] by metis
  then show ?thesis by blast
qed

section \<open>Settings\<close>

text \<open>
  The address of the database that a service logs at its start holds neither the user nor the password, whatever
  characters they have.
\<close>

lemma show_int_plain: "CHR ''@'' \<notin> set (show_int i)"
proof -
  have "CHR ''@'' \<notin> set (show_nat n)" for n
  proof
    assume "CHR ''@'' \<in> set (show_nat n)"
    then obtain d :: nat where "d < 10" "CHR ''@'' = char_of (48 + d)" using show_nat_digits by blast
    then have "is_digit CHR ''@''" using digit_char(1) by metis
    then show False by (simp add: is_digit_def)
  qed
  then show ?thesis by (simp add: show_int_def)
qed

theorem credentials_not_logged:
  assumes "TESTING \<noteq> Some ''1''"
  shows "CHR ''@'' \<notin> set (fs_DB_HOST st @ fs_DB_NAME st) \<Longrightarrow> logged_address (finance_database_url TESTING st) =
      fs_DB_HOST st @ '':'' @ show_int (fs_DB_PORT st) @ ''/'' @ fs_DB_NAME st"
    and "CHR ''@'' \<notin> set (ds_DB_HOST dt @ ds_DB_NAME dt) \<Longrightarrow> logged_address (dispute_database_url TESTING dt) =
      ds_DB_HOST dt @ '':'' @ show_int (ds_DB_PORT dt) @ ''/'' @ ds_DB_NAME dt"
proof -
  have "logged_address (postgres_url user password host port name) = host @ '':'' @ show_int port @ ''/'' @ name"
    if "CHR ''@'' \<notin> set (host @ name)" for user password host port name
    using that last_split_at [of "CHR ''@''" "host @ '':'' @ show_int port @ ''/'' @ name"
        "''postgresql+asyncpg://'' @ user @ '':'' @ password"] show_int_plain [of port]
    by (simp add: logged_address_def postgres_url_def)
  then show "CHR ''@'' \<notin> set (fs_DB_HOST st @ fs_DB_NAME st) \<Longrightarrow> logged_address (finance_database_url TESTING st) =
      fs_DB_HOST st @ '':'' @ show_int (fs_DB_PORT st) @ ''/'' @ fs_DB_NAME st"
    and "CHR ''@'' \<notin> set (ds_DB_HOST dt @ ds_DB_NAME dt) \<Longrightarrow> logged_address (dispute_database_url TESTING dt) =
      ds_DB_HOST dt @ '':'' @ show_int (ds_DB_PORT dt) @ ''/'' @ ds_DB_NAME dt"
    using assms by (simp_all only: finance_database_url_def dispute_database_url_def if_False)
qed

end
