(* ===== verification/Spec2Isabelle.thy ===== *)
theory Spec2Isabelle
  imports Finance_Properties Topup_Properties Dispute_Properties Dispute_Finance Profile_Properties Service_Properties
begin

text \<open>
  Verification of the Python services of the rental platform.

  \<^bold>\<open>The program.\<close>  The platform is a set of services with a database each.  The Python services are the
  finance service (wallets, escrows, top-ups through VNPay), the dispute service (disputes, and the sagas that
  carry out their resolution) and the profile service (profiles, the scenarios companions offer, their media,
  and the catalogue).  Services call each other by gRPC and announce what happened by events: a service stores
  an event in its outbox table in the transaction that changes its data, and a worker sends the rows of that
  table to Kafka.  The development models the three services from the aggregates to the gRPC, REST and Kafka
  interfaces, the call that joins the dispute and the finance service, the event that reaches the finance and
  the profile service, and the processes the services run in.

  \<^bold>\<open>How code becomes definitions.\<close>  A method that changes state is a computation \<open>('s, 'e, 'a) eff\<close>
  (\<open>Prelude\<close>): it takes the state of the world, and gives an exception or a value together with the new state.
  \<open>bindE\<close>, \<open>tryE\<close>, \<open>raise\<close>, \<open>forE\<close> are sequencing, \<open>try ... except\<close>, \<open>raise\<close> and \<open>for\<close>; \<open>with_local\<close> records
  the value of a local variable that an \<open>except\<close> block reads.  Exceptions are constructors of \<open>exn\<close>
  (finance), \<open>dexn\<close> (dispute) and \<open>pexn\<close> (profile).  Classes are records, their lists of pending events included; enumerations
  are datatypes.  Floats are IEEE doubles (\<open>Py_Float\<close>), integers are unbounded as in Python, with the width of
  a column checked where a row is stored; strings are over the 256 characters of \<open>char\<close>.

  \<^bold>\<open>The database.\<close>  SQLAlchemy and PostgreSQL are not part of the repository.  A session is a record of
  operations, a parameter of every definition, and what the code relies on is the laws of locales:
  \<open>sql_table\<close>, \<open>sql_txn\<close>, \<open>sql_frame\<close> (\<open>Db_Session\<close>), \<open>sql_versioned\<close> for tables with a version column
  (\<open>Sql_Versioned\<close>), \<open>sql_child\<close> and \<open>sql_delete\<close> for tables with a foreign key and for deletion
  (\<open>Sql_Child\<close>), and \<open>fin_session\<close>, \<open>dis_session\<close> and \<open>prof_session\<close> for the sessions of the services.  \<open>view\<close> is the
  content the open transaction sees, \<open>com\<close> the committed content; every operation may fail at any time.  The
  locales with the suffix \<open>_live\<close> add that the database stays up, and carry the theorems that an operation
  returns.  All of them are interpreted on sessions over association lists (\<open>Finance_Memory\<close>,
  \<open>Dispute_Memory\<close>, \<open>Profile_Memory\<close>), on which the examples run.  Columns have the widths of PostgreSQL, the
  database of the deployed services.  With \<open>TESTING\<close> set, the services use SQLite, which stores strings of any
  length; where that decides the outcome, in the start of a payout saga, the width check is a parameter of the
  theorem (\<open>saga_widths\<close>, \<open>payout_start_by_width\<close>) and a second session, \<open>mem_sqlite\<close>, runs the case of the tests.
  Requests are executed one after the other; concurrency of
  transactions appears as the version check of \<open>sql_versioned\<close> only.

  \<^bold>\<open>Shared theories.\<close>  \<open>Prelude\<close> (computations, preservation calculus \<open>keeps\<close>, totals over maps),
  \<open>Sql_Tables\<close> (well-formed tables), \<open>Json_Data\<close> and \<open>Py_Json\<close> (JSON values and how Python reads them),
  \<open>Proto_Events\<close> (protobuf messages, event names), \<open>Event_Loop\<close> (cancellation, the Kafka consumer with its five
  attempts, the loop over the messages, the polling loops), \<open>Outbox_Worker\<close> (\<open>OutboxPublisherWorker\<close> and
  \<open>DbCleanupWorker\<close>, which are the same code in every service; \<open>producer\<close> is optional, and a batch without one marks
  its rows and sends nothing, which a worker that was started never does), \<open>Web\<close> (gRPC replies, HTTP errors).

  \<^bold>\<open>Finance service\<close> (\<open>services/finance-service\<close>).
    \<^item> \<open>Finance_Domain\<close>: \<open>internal/domain\<close> (\<open>Money\<close>, \<open>Wallet\<close>, \<open>Escrow\<close>, \<open>Transaction\<close>, commission).
    \<^item> \<open>Finance_Store\<close>: \<open>models.py\<close>, \<open>repositories.py\<close>, \<open>event_mapper.py\<close>, \<open>publish\<close>.
    \<^item> \<open>Finance_VNPay\<close>: \<open>payment/vnpay.py\<close>; HMAC-SHA512 is a field of the adapter.
    \<^item> \<open>Finance_Commands\<close>: \<open>application/command/finance.py\<close>, every method with its \<open>try\<close> blocks.
    \<^item> \<open>Finance_Grpc\<close>, \<open>Finance_Http\<close>, \<open>Finance_Listener\<close>: \<open>servicer.py\<close>, \<open>router.py\<close>, and the two Kafka listeners
      of \<open>main.py\<close> with the handlers of their messages.
    \<^item> \<open>Finance_Atomicity\<close>, \<open>Finance_Invariant\<close>, \<open>Finance_Ledger\<close>, \<open>Finance_System\<close>: what a method commits when it
      fails, the invariant \<open>db_ok\<close>, the refinement of an abstract ledger (available, frozen and held coins,
      with the coins in circulation), and that every entry point is one step of it.  \<open>Finance_Requests\<close> collects
      the requests of the service and carries a relation between contents from the commands to them;
      \<open>Finance_System\<close> and \<open>Finance_Settled\<close> are its instances: the ledger with the invariant, the escrows
      that are closed and the transactions that are settled and stay so.  \<open>reachable\<close> and \<open>later\<close> are the states
      any number of requests and callbacks lead to; they ask that \<open>uuid4\<close> gives new identifiers.
    \<^item> \<open>Finance_Live\<close>, \<open>Finance_Failures\<close>: that the methods return when the database is up, and the error paths.
    \<^item> \<open>Finance_Properties\<close>, \<open>Topup_Properties\<close>: the properties.

  \<^bold>\<open>Dispute service\<close> (\<open>services/dispute-service\<close>).
    \<^item> \<open>Dispute_Domain\<close>: \<open>internal/domain\<close> (\<open>Dispute\<close>, both sagas, value objects, routing);
      \<open>Dispute_Machines\<close>: their life cycles as step relations that the commands refine, and the locale
      \<open>saga_commands\<close>, in which the accepted sequences of reports and what they end in are proved for both sagas.
    \<^item> \<open>Dispute_Store\<close>, \<open>Dispute_Commands\<close>, \<open>Dispute_Interfaces\<close>: persistence and events; commands, queries,
      orchestrators and retry worker (with what an orchestrator does to a saga of the other type); adapters,
      servicer and routes.
    \<^item> \<open>Dispute_Session\<close>, \<open>Dispute_Correct\<close>, \<open>Dispute_Live\<close>, \<open>Dispute_Retry\<close>, \<open>Dispute_Reports\<close>,
      \<open>Dispute_Resolution\<close>: laws, safety, and total correctness.  Both orchestrators are instances of the locale
      \<open>saga_orchestrator\<close> over a \<open>saga_store\<close>, in which the outcome of a saga is proved once.
    \<^item> \<open>Dispute_Properties\<close>: the properties.

  \<^bold>\<open>Both\<close> (\<open>Dispute_Finance\<close>): the two services as two processes, joined by the gRPC adapter of the one and
  the servicer of the other.  A decision for the client moves the coins of the booking's escrow to the client
  of the reservation; and it marks the dispute \<open>REFUNDED\<close> also when the finance service refused.

  \<^bold>\<open>Profile service\<close> (\<open>services/profile-service\<close>).
    \<^item> \<open>Profile_Text\<close>: the text formats it relies on: JSON lists of strings, \<open>LIKE\<close>, the path of a URL.
    \<^item> \<open>Profile_Domain\<close>: \<open>internal/domain\<close> (\<open>UserProfile\<close>, \<open>CompanionProfile\<close>, \<open>Scenario\<close>, \<open>MediaAsset\<close>, value
      objects).
    \<^item> \<open>Profile_Store\<close>, \<open>Profile_Commands\<close>, \<open>Profile_Interfaces\<close>, \<open>Profile_Listener\<close>: persistence and events;
      commands and queries; S3 adapter, servicer and routes; the listener on the topic of the identity service.
    \<^item> \<open>Profile_Session\<close>: the laws and the well-formedness \<open>prof_ok\<close> of the catalogue.  \<open>Profile_Effects\<close>,
      \<open>Profile_Invariant\<close>, \<open>Profile_Catalogue\<close>: what every command does to the tables when it returns, and that it
      keeps \<open>prof_ok\<close>.  \<open>Profile_System\<close>, \<open>Profile_Requests\<close>: every request, however it ends, as a step of the
      committed catalogue by its actor, and the reachable states.
    \<^item> \<open>Profile_Live\<close>, \<open>Profile_Search\<close>: that commands return when the database is up, and that the search agrees
      with a reference that knows nothing of \<open>LIKE\<close> and of JSON text.
    \<^item> \<open>Profile_Properties\<close>: the properties.  The object store is another system: the locale \<open>store_frame\<close> says
      that it touches no table.

  \<^bold>\<open>Registration\<close> (\<open>Registration\<close>): the event of a new user, read by the listeners of the finance and the
  profile service, gives the user a wallet and a profile.

  \<^bold>\<open>Processes\<close> (\<open>main.py\<close>, \<open>bootstrap\<close>, \<open>start\<close> and \<open>stop\<close> of the workers).
    \<^item> \<open>Service_Process\<close>: the workers, the listener tasks and the servers as the parts of a process, \<open>main()\<close> of each
      service as the sequence of starting and stopping them with its \<open>try\<close> blocks.  How a library call ends (the
      producer, the servers, a cancelled task) is a parameter; the results of the listeners and of the polling
      loops are those of their models.
    \<^item> \<open>Service_Settings\<close>: the settings with their defaults and what the bootstrap builds from them.
    \<^item> \<open>Service_Properties\<close>: that a listener takes every message in spite of failures, gives up after five attempts,
      and what a shutdown stops: everything, unless a consumer raised an error in the finance service.

  \<^bold>\<open>Bounds.\<close>  \<open>process_saga\<close> calls itself; \<open>refund_process_rec\<close> and \<open>payout_process_rec\<close> take the depth of the
  recursion, which is 2 in the model, and \<open>process_saga_depth\<close> shows that every depth of two or more is the
  same computation.  No other definition uses fuel.  A listener runs over the finite list of what its consumer
  delivers until it ends; a polling loop runs for a number of turns and a last one, after which it is stopped.  Both
  numbers are arbitrary in the theorems, and \<open>outbox_drains\<close> says how many turns empty an outbox.

  \<^bold>\<open>Not modelled.\<close>  A cancellation that arrives in the middle of a database statement (it arrives while a task
  waits for a message, a connection or the end of a sleep); signal handlers; reading the settings from the
  environment, the database engine, the FastAPI application and its OpenAPI document, which are calls of libraries;
  log lines other than the address of the database.  The fixed HTML and style of the payment result page.  The
  services in Go, Rust and Java, which are other programs; where a modelled service calls one, the call is a
  parameter.  Characters outside Latin-1.  The timestamps of the profile tables, which no code reads.
\<close>

end
